(* ===== verification/Prelude.thy ===== *)
theory Prelude
  imports Main "HOL-Library.Word" "HOL-Library.Char_ord" "HOL-Library.List_Lexorder"
    "HOL-Library.Sublist"
begin

text \<open>
  What every component of the development shares: the machine types of the Go code, byte
  strings with the standard-library functions the code calls on them, the big-endian and
  decimal encodings, and the collections of facts the component proofs use.

  A Go \<open>string\<close> and a Go \<open>[]byte\<close> are both sequences of bytes; an Isabelle
  \<^typ>\<open>char\<close> is exactly one byte, so both are \<^typ>\<open>string\<close> here and the conversions
  between them are the identity. \<open>uint64\<close> and \<open>uint32\<close> are words of that width, whose
  arithmetic wraps as Go's does.
\<close>

named_theorems key_simps \<open>equations between store keys\<close>
named_theorems store_simps \<open>reads of the typed store after writes\<close>
named_theorems frame_simps \<open>what an operation leaves unchanged\<close>

type_synonym bytes = string
type_synonym u64 = "64 word"
type_synonym u32 = "32 word"

section \<open>Results\<close>

text \<open>A Go function that returns \<open>(T, error)\<close> returns a sum: \<open>Inl\<close> the error.\<close>

definition bind_r :: "'e + 'a \<Rightarrow> ('a \<Rightarrow> 'e + 'b) \<Rightarrow> 'e + 'b" where
  "bind_r m f = (case m of Inl e \<Rightarrow> Inl e | Inr x \<Rightarrow> f x)"

lemma bind_r_simps [simp]: "bind_r (Inl e) f = Inl e" "bind_r (Inr x) f = f x"
  by (simp_all add: bind_r_def)

lemma bind_r_Inr_iff: "bind_r m f = Inr y \<longleftrightarrow> (\<exists>x. m = Inr x \<and> f x = Inr y)"
  by (cases m) auto

definition is_ok :: "'e + 'a \<Rightarrow> bool" where
  "is_ok r = (case r of Inl _ \<Rightarrow> False | Inr _ \<Rightarrow> True)"

lemma is_ok_simps [simp]: "\<not> is_ok (Inl e)" "is_ok (Inr x)"
  by (simp_all add: is_ok_def)

lemma is_ok_iff: "is_ok r \<longleftrightarrow> (\<exists>x. r = Inr x)"
  by (cases r) auto

section \<open>Integers as bytes and as decimal digits\<close>

text \<open>\<open>binary.BigEndian\<close>: the \<open>k\<close> low bytes of a number, most significant first.\<close>

fun be_bytes :: "nat \<Rightarrow> nat \<Rightarrow> bytes" where
  "be_bytes 0 n = []"
| "be_bytes (Suc k) n = be_bytes k (n div 256) @ [char_of (n mod 256)]"

definition be_val :: "bytes \<Rightarrow> nat" where
  "be_val bs = foldl (\<lambda>a c. 256 * a + of_char c) 0 bs"

lemma length_be_bytes [simp]: "length (be_bytes k n) = k"
  by (induction k arbitrary: n) auto

lemma be_val_be_bytes: "be_val (be_bytes k n) = n mod 256 ^ k"
proof (induction k arbitrary: n)
  case 0
  then show ?case by (simp add: be_val_def)
next
  case (Suc k)
  have "be_val (be_bytes (Suc k) n) = 256 * be_val (be_bytes k (n div 256)) + n mod 256"
    by (simp add: be_val_def)
  also have "\<dots> = 256 * (n div 256 mod 256 ^ k) + n mod 256"
    by (simp add: Suc.IH)
  also have "\<dots> = n mod 256 ^ Suc k"
    using mod_mult2_eq [of n 256 "256 ^ k"] by simp
  finally show ?case .
qed

definition be64 :: "u64 \<Rightarrow> bytes" where
  "be64 w = be_bytes 8 (unat w)"

definition be32 :: "u32 \<Rightarrow> bytes" where
  "be32 w = be_bytes 4 (unat w)"

lemma length_be64 [simp]: "length (be64 w) = 8" and length_be32 [simp]: "length (be32 v) = 4"
  by (simp_all add: be64_def be32_def)

lemma be_val_be64: "be_val (be64 w) = unat w"
proof -
  have "unat w < 256 ^ 8" using unsigned_less [of w, where ?'a = nat] by simp
  then show ?thesis by (simp add: be64_def be_val_be_bytes)
qed

lemma be_val_be32: "be_val (be32 w) = unat w"
proof -
  have "unat w < 256 ^ 4" using unsigned_less [of w, where ?'a = nat] by simp
  then show ?thesis by (simp add: be32_def be_val_be_bytes)
qed

lemma be64_inject [simp]: "be64 v = be64 w \<longleftrightarrow> v = w"
  by (metis be_val_be64 word_unat_eq_iff)

lemma be32_inject [simp]: "be32 v = be32 w \<longleftrightarrow> v = w"
  by (metis be_val_be32 word_unat_eq_iff)

text \<open>\<open>strconv.FormatUint(n, 10)\<close> and \<open>strconv.ParseUint\<close> in base 10.\<close>

definition digit_char :: "nat \<Rightarrow> char" where
  "digit_char d = char_of (48 + d)"

fun dec_digits :: "nat \<Rightarrow> string" where
  "dec_digits n = (if n < 10 then [digit_char n] else dec_digits (n div 10) @ [digit_char (n mod 10)])"

declare dec_digits.simps [simp del]

definition digit_val :: "char \<Rightarrow> nat option" where
  "digit_val c = (let d = of_char c in if 48 \<le> d \<and> d \<le> (57::nat) then Some (d - 48) else None)"

fun dec_val :: "nat \<Rightarrow> string \<Rightarrow> nat option" where
  "dec_val acc [] = Some acc"
| "dec_val acc (c # cs) = (case digit_val c of None \<Rightarrow> None | Some d \<Rightarrow> dec_val (10 * acc + d) cs)"

definition formatUint :: "u64 \<Rightarrow> string" where
  "formatUint w = dec_digits (unat w)"

definition parseUint64 :: "string \<Rightarrow> u64 option" where
  "parseUint64 s = (if s = [] then None
     else case dec_val 0 s of None \<Rightarrow> None | Some n \<Rightarrow> if n < 2 ^ 64 then Some (of_nat n) else None)"

lemma digit_val_digit_char: "d < 10 \<Longrightarrow> digit_val (digit_char d) = Some d"
  by (simp add: digit_val_def digit_char_def)

lemma dec_val_append:
  "dec_val acc (xs @ ys) = (case dec_val acc xs of None \<Rightarrow> None | Some a \<Rightarrow> dec_val a ys)"
  by (induction xs arbitrary: acc) (auto split: option.splits)

lemma dec_digits_not_Nil [simp]: "dec_digits n \<noteq> []"
  by (subst dec_digits.simps) simp

lemma dec_val_dec_digits: "dec_val 0 (dec_digits n) = Some n"
proof (induction n rule: dec_digits.induct)
  case (1 n)
  show ?case
  proof (cases "n < 10")
    case True
    then show ?thesis by (simp add: dec_digits.simps [of n] digit_val_digit_char)
  next
    case False
    with 1 have "dec_val 0 (dec_digits (n div 10)) = Some (n div 10)" by simp
    with False show ?thesis
      by (simp add: dec_digits.simps [of n] dec_val_append digit_val_digit_char)
  qed
qed

lemma parseUint64_formatUint [simp]: "parseUint64 (formatUint w) = Some w"
  using unsigned_less [of w, where ?'a = nat] by (simp add: parseUint64_def formatUint_def dec_val_dec_digits)

lemma formatUint_inject [simp]: "formatUint v = formatUint w \<longleftrightarrow> v = w"
  by (metis parseUint64_formatUint option.inject)

lemma dec_val_digits: "dec_val acc xs = Some n \<Longrightarrow> c \<in> set xs \<Longrightarrow> digit_val c \<noteq> None"
  by (induction acc xs rule: dec_val.induct) (auto split: option.splits)

text \<open>A printed number has digits only, so it cannot run into a separator.\<close>

lemma formatUint_digits: "c \<in> set (formatUint w) \<Longrightarrow> digit_val c \<noteq> None"
  unfolding formatUint_def using dec_val_digits [OF dec_val_dec_digits] .

lemma formatUint_separator: "digit_val c = None \<Longrightarrow> c \<notin> set (formatUint w)"
  using formatUint_digits by blast

section \<open>Byte strings\<close>

text \<open>\<open>strings.HasPrefix\<close> is \<^const>\<open>prefix\<close>, executable on closed strings.\<close>

definition hasPrefix :: "string \<Rightarrow> string \<Rightarrow> bool" where
  "hasPrefix s p = (take (length p) s = p)"

lemma hasPrefix_Nil [simp]: "hasPrefix s []"
  by (simp add: hasPrefix_def)

lemma hasPrefix_iff: "hasPrefix s p \<longleftrightarrow> prefix p s"
  by (auto simp: hasPrefix_def prefix_def) (metis append_take_drop_id)

lemma hasPrefix_append [simp]: "hasPrefix (p @ s) p"
  by (simp add: hasPrefix_def)

lemma hasPrefixE: "hasPrefix s p \<Longrightarrow> (\<And>t. s = p @ t \<Longrightarrow> thesis) \<Longrightarrow> thesis"
  by (metis hasPrefix_def append_take_drop_id)

text \<open>
  \<open>strings.Trim(s, cutset)\<close> removes the cut set's bytes at both ends (the code's cut sets
  are ASCII). The only use in the source compares the result with the empty string.
\<close>

definition trimSet :: "char set \<Rightarrow> string \<Rightarrow> string" where
  "trimSet C s = rev (dropWhile (\<lambda>c. c \<in> C) (rev (dropWhile (\<lambda>c. c \<in> C) s)))"

lemma trimSet_Nil_iff: "trimSet C s = [] \<longleftrightarrow> set s \<subseteq> C"
proof
  assume "trimSet C s = []"
  then have "\<forall>c \<in> set (dropWhile (\<lambda>c. c \<in> C) s). c \<in> C"
    by (simp only: trimSet_def rev_is_Nil_conv dropWhile_eq_Nil_conv set_rev)
  then have "dropWhile (\<lambda>c. c \<in> C) s = []"
    using hd_dropWhile [of "\<lambda>c. c \<in> C" s] hd_in_set by blast
  then show "set s \<subseteq> C" by (simp only: dropWhile_eq_Nil_conv subset_eq)
next
  assume "set s \<subseteq> C"
  then have "dropWhile (\<lambda>c. c \<in> C) s = []" by (simp only: dropWhile_eq_Nil_conv subset_eq)
  then show "trimSet C s = []" by (simp only: trimSet_def rev.simps dropWhile.simps)
qed

definition lowerHexDigits :: "char set" where
  "lowerHexDigits = set ''0123456789abcdef''"

text \<open>
  \<open>strings.TrimSpace\<close> strips Unicode white space. \<open>space_len\<close> is the length of the UTF-8
  encoding of a white-space code point at the front of a string, 0 if there is none.
\<close>

definition byte :: "nat \<Rightarrow> char" where "byte n = char_of n"

fun space_len :: "string \<Rightarrow> nat" where
  "space_len [] = 0"
| "space_len (a # s) =
     (if a \<in> set [byte 9, byte 10, byte 11, byte 12, byte 13, byte 32] then 1
      else case s of [] \<Rightarrow> 0
      | b # t \<Rightarrow>
         (if a = byte 194 \<and> (b = byte 133 \<or> b = byte 160) then 2
          else case t of [] \<Rightarrow> 0
          | c # _ \<Rightarrow>
             (if a = byte 225 \<and> b = byte 154 \<and> c = byte 128
                 \<or> a = byte 226 \<and> b = byte 128 \<and>
                   (of_char c \<in> {128..138::nat} \<or> c = byte 168 \<or> c = byte 169 \<or> c = byte 175)
                 \<or> a = byte 226 \<and> b = byte 129 \<and> c = byte 159
                 \<or> a = byte 227 \<and> b = byte 128 \<and> c = byte 128
              then 3 else 0)))"

function trimLeftSpace :: "string \<Rightarrow> string" where
  "trimLeftSpace s = (if space_len s = 0 then s else trimLeftSpace (drop (space_len s) s))"
  by pat_completeness auto
termination
proof (relation "measure length")
  fix s :: string
  assume "space_len s \<noteq> 0"
  then show "(drop (space_len s) s, s) \<in> measure length"
    by (cases s) auto
qed simp

declare trimLeftSpace.simps [simp del]

text \<open>\<open>strings.TrimSpace(s) == ""\<close>: nothing but white space.\<close>

definition isBlank :: "string \<Rightarrow> bool" where
  "isBlank s = (trimLeftSpace s = [])"

lemma isBlank_Nil [simp]: "isBlank []"
  by (simp add: isBlank_def trimLeftSpace.simps)

text \<open>\<open>encoding/hex\<close> and ASCII case.\<close>

definition hex_char :: "nat \<Rightarrow> char" where
  "hex_char d = (if d < 10 then char_of (48 + d) else char_of (87 + d))"

definition hex_val :: "char \<Rightarrow> nat option" where
  "hex_val c = (let n = of_char c in
     if 48 \<le> n \<and> n \<le> 57 then Some (n - 48)
     else if 97 \<le> n \<and> n \<le> 102 then Some (n - 87)
     else if 65 \<le> n \<and> n \<le> (70::nat) then Some (n - 55) else None)"

definition hexEncode :: "bytes \<Rightarrow> string" where
  "hexEncode bs = concat (map (\<lambda>c. [hex_char (of_char c div 16), hex_char (of_char c mod 16)]) bs)"

fun hexDecode :: "string \<Rightarrow> bytes option" where
  "hexDecode [] = Some []"
| "hexDecode [c] = None"
| "hexDecode (a # b # s) = (case (hex_val a, hex_val b) of
     (Some x, Some y) \<Rightarrow> (case hexDecode s of None \<Rightarrow> None | Some r \<Rightarrow> Some (char_of (16 * x + y) # r))
   | _ \<Rightarrow> None)"

lemma hex_val_hex_char: "d < 16 \<Longrightarrow> hex_val (hex_char d) = Some d"
  by (auto simp: hex_val_def hex_char_def Let_def)

lemma hexDecode_hexEncode [simp]: "hexDecode (hexEncode bs) = Some bs"
proof (induction bs)
  case Nil
  then show ?case by (simp add: hexEncode_def)
next
  case (Cons c bs)
  have "(of_char c :: nat) < 256"
    by (metis char_of_char mod_less_divisor of_char_of zero_less_numeral)
  then have "of_char c div 16 < (16::nat)" by (simp add: less_mult_imp_div_less)
  moreover have "of_char c mod 16 < (16::nat)" by simp
  moreover have "char_of (16 * (of_char c div 16) + of_char c mod 16 :: nat) = c" by simp
  ultimately show ?case using Cons by (simp add: hexEncode_def hex_val_hex_char)
qed

lemma hexEncode_inject [simp]: "hexEncode a = hexEncode b \<longleftrightarrow> a = b"
  by (metis hexDecode_hexEncode option.inject)

definition upperChar :: "char \<Rightarrow> char" where
  "upperChar c = (let n = of_char c in if 97 \<le> n \<and> n \<le> (122::nat) then char_of (n - 32) else c)"

definition toUpper :: "string \<Rightarrow> string" where
  "toUpper = map upperChar"

section \<open>Lists\<close>

definition nonNil :: "'a option list \<Rightarrow> 'a list" where
  "nonNil xs = concat (map (case_option [] (\<lambda>x. [x])) xs)"

lemma set_nonNil [simp]: "x \<in> set (nonNil xs) \<longleftrightarrow> Some x \<in> set xs"
  by (force simp: nonNil_def split: option.splits)

lemma set_map_filter: "x \<in> set (List.map_filter f xs) \<longleftrightarrow> (\<exists>e \<in> set xs. f e = Some x)"
  by (force simp: List.map_filter_def)

lemma Nil_less_iff [simp]: "([] :: 'a::order list) < xs \<longleftrightarrow> xs \<noteq> []"
  by (cases xs) auto

lemma sep_unique:
  assumes "c \<notin> set xs" "c \<notin> set ys" and "xs @ c # us = ys @ c # vs"
  shows "xs = ys \<and> us = vs"
  using assms
proof (induction xs arbitrary: ys)
  case Nil
  then show ?case by (cases ys) auto
next
  case (Cons x xs)
  then show ?case by (cases ys) auto
qed

end
