(* ===== verification/KVStore.thy ===== *)
theory KVStore
  imports Prelude
begin

text \<open>
  The module's persistent state: what \<open>Keeper.Store(ctx)\<close> (x/sanction/keeper/keeper.go)
  returns. A \<open>KVStore\<close> of the Cosmos SDK is a finite map from byte strings to values whose
  iterators visit keys in ascending byte order; that contract is the locale
  \<open>ordered_store\<close>, whose lemmas are everything the rest of the development uses of a store.
  The state itself is a finite map, kept as an association list that is strictly ascending
  in its keys, so that iteration computes; it is the interpretation \<open>kv\<close> of the locale.
\<close>

section \<open>Strictly ascending association lists\<close>

fun al_set :: "'k::linorder \<Rightarrow> 'v \<Rightarrow> ('k \<times> 'v) list \<Rightarrow> ('k \<times> 'v) list" where
  "al_set k v [] = [(k, v)]"
| "al_set k v ((a, b) # xs) =
     (if k = a then (k, v) # xs else if k < a then (k, v) # (a, b) # xs else (a, b) # al_set k v xs)"

definition al_del :: "'k \<Rightarrow> ('k \<times> 'v) list \<Rightarrow> ('k \<times> 'v) list" where
  "al_del k xs = filter (\<lambda>p. fst p \<noteq> k) xs"

definition ascending :: "('k::linorder \<times> 'v) list \<Rightarrow> bool" where
  "ascending xs = sorted_wrt (<) (map fst xs)"

lemma fst_set_al_set: "fst ` set (al_set k v xs) = insert k (fst ` set xs)"
  by (induction k v xs rule: al_set.induct) auto

lemma ascending_al_set: "ascending xs \<Longrightarrow> ascending (al_set k v xs)"
proof (induction k v xs rule: al_set.induct)
  case (2 k v a b xs)
  have "\<forall>x \<in> fst ` set (al_set k v xs). a < x" if "\<not> k < a" "k \<noteq> a"
    using 2(2) that unfolding fst_set_al_set by (auto simp: ascending_def)
  with 2 show ?case by (auto simp: ascending_def)
qed (simp add: ascending_def)

lemma ascending_al_del: "ascending xs \<Longrightarrow> ascending (al_del k xs)"
  by (induction xs) (auto simp: ascending_def al_del_def)

lemma map_of_al_set: "map_of (al_set k v xs) = (map_of xs)(k \<mapsto> v)"
  by (induction k v xs rule: al_set.induct) auto

lemma map_of_al_del: "map_of (al_del k xs) = (map_of xs)(k := None)"
  by (induction xs) (auto simp: al_del_def)

section \<open>The store\<close>

typedef (overloaded) ('k::linorder, 'v) kvstore = "{xs :: ('k \<times> 'v) list. ascending xs}"
  morphisms kv_entries Abs_kvstore
  by (rule exI [of _ "[]"]) (simp add: ascending_def)

setup_lifting type_definition_kvstore

lift_definition kv_empty :: "('k::linorder, 'v) kvstore" is "[]"
  by (simp add: ascending_def)

lift_definition kv_set :: "'k::linorder \<Rightarrow> 'v \<Rightarrow> ('k, 'v) kvstore \<Rightarrow> ('k, 'v) kvstore" is al_set
  by (rule ascending_al_set)

lift_definition kv_delete :: "'k::linorder \<Rightarrow> ('k, 'v) kvstore \<Rightarrow> ('k, 'v) kvstore" is al_del
  by (rule ascending_al_del)

definition kv_get :: "('k::linorder, 'v) kvstore \<Rightarrow> 'k \<rightharpoonup> 'v" where
  "kv_get s = map_of (kv_entries s)"

text \<open>
  \<open>KVStorePrefixIterator\<close> and \<open>prefix.NewStore\<close>: the entries whose key starts with the
  given bytes, in ascending key order.
\<close>

definition kv_prefix :: "bytes \<Rightarrow> (bytes, 'v) kvstore \<Rightarrow> (bytes \<times> 'v) list" where
  "kv_prefix p s = filter (\<lambda>e. hasPrefix (fst e) p) (kv_entries s)"

lemmas kv_entries_eqs [simp] = kv_empty.rep_eq kv_set.rep_eq kv_delete.rep_eq

lemma ascending_kv_entries [simp]: "ascending (kv_entries s)"
  using kv_entries [of s] by simp

lemma ascending_distinct: "ascending xs \<Longrightarrow> distinct (map fst xs)"
  unfolding ascending_def by (metis strict_sorted_iff)

section \<open>The contract the keeper relies on\<close>

locale ordered_store =
  fixes empt :: "'s"
    and upd :: "'k::linorder \<Rightarrow> 'v \<Rightarrow> 's \<Rightarrow> 's"
    and del :: "'k \<Rightarrow> 's \<Rightarrow> 's"
    and get :: "'s \<Rightarrow> 'k \<rightharpoonup> 'v"
    and ents :: "'s \<Rightarrow> ('k \<times> 'v) list"
  assumes get_empt: "get empt k = None"
    and get_upd: "get (upd k v s) k' = (if k' = k then Some v else get s k')"
    and get_del: "get (del k s) k' = (if k' = k then None else get s k')"
    and ents_get: "(k, v) \<in> set (ents s) \<longleftrightarrow> get s k = Some v"
    and ents_asc: "sorted_wrt (<) (map fst (ents s))"
begin

lemma get_upd_same: "get (upd k v s) k = Some v"
  by (simp add: get_upd)

lemma get_upd_other: "k' \<noteq> k \<Longrightarrow> get (upd k v s) k' = get s k'"
  by (simp add: get_upd)

lemma ents_distinct: "distinct (map fst (ents s))"
  using ents_asc [of s] by (metis strict_sorted_iff)

lemma scan_set: "set (map snd (filter (\<lambda>e. P (fst e)) (ents s))) = {v. \<exists>k. P k \<and> get s k = Some v}"
  by (force simp: ents_get [symmetric])

lemma scan_key_distinct: "distinct (map fst (filter (\<lambda>e. P (fst e)) (ents s)))"
  using ents_distinct [of s] by (simp add: distinct_map_filter)

lemma scan_asc: "sorted_wrt (<) (map fst (filter (\<lambda>e. P (fst e)) (ents s)))"
proof -
  have "map fst (filter (\<lambda>e. P (fst e)) (ents s)) = filter P (map fst (ents s))"
    by (simp add: filter_map o_def)
  then show ?thesis using ents_asc [of s] by (simp add: sorted_wrt_filter)
qed

text \<open>Two stores that agree on the keys of a scan yield the same scan.\<close>

lemma scan_cong:
  assumes "\<And>k. P k \<Longrightarrow> get s k = get t k"
  shows "filter (\<lambda>e. P (fst e)) (ents s) = filter (\<lambda>e. P (fst e)) (ents t)"
proof -
  let ?f = "\<lambda>s. filter (\<lambda>e. P (fst e)) (ents s)"
  have asc: "sorted (map fst (?f u)) \<and> distinct (map fst (?f u))" for u
    using scan_asc [of P u] by (simp add: strict_sorted_iff)
  have st: "set (?f s) = set (?f t)"
    using assms by (auto simp: ents_get)
  have inj: "inj_on fst (set (?f s) \<union> set (?f t))"
    using asc [of s] st by (auto simp: distinct_map)
  show ?thesis
    by (rule map_sorted_distinct_set_unique [OF inj])
       (use asc st in \<open>auto simp: distinct_map\<close>)
qed

end

interpretation kv: ordered_store kv_empty kv_set kv_delete kv_get kv_entries
proof unfold_locales
  show "(k, v) \<in> set (kv_entries s) \<longleftrightarrow> kv_get s k = Some v" for k v s
    by (simp add: kv_get_def ascending_distinct)
  show "sorted_wrt (<) (map fst (kv_entries s))" for s
    using ascending_kv_entries [of s] by (simp add: ascending_def)
qed (auto simp: kv_get_def map_of_al_set map_of_al_del)

declare kv.get_empt [simp]
declare kv.get_upd [store_simps]
declare kv.get_del [store_simps]

lemma kvstore_eqI:
  assumes "\<And>k. kv_get s k = kv_get t k"
  shows "s = t"
proof -
  have "filter (\<lambda>e. True) (kv_entries s) = filter (\<lambda>e. True) (kv_entries t)"
    using assms by (rule kv.scan_cong)
  then show ?thesis by (simp add: kv_entries_inject)
qed

lemma kv_prefix_set: "set (map snd (kv_prefix p s)) = {v. \<exists>k. hasPrefix k p \<and> kv_get s k = Some v}"
  unfolding kv_prefix_def by (rule kv.scan_set)

lemma kv_prefix_cong:
  "(\<And>k. hasPrefix k p \<Longrightarrow> kv_get s k = kv_get t k) \<Longrightarrow> kv_prefix p s = kv_prefix p t"
  unfolding kv_prefix_def by (rule kv.scan_cong)

lemma kv_prefix_set_other: "\<not> hasPrefix k p \<Longrightarrow> kv_prefix p (kv_set k v s) = kv_prefix p s"
  by (rule kv_prefix_cong) (auto simp: store_simps)

lemma kv_prefix_del_other: "\<not> hasPrefix k p \<Longrightarrow> kv_prefix p (kv_delete k s) = kv_prefix p s"
  by (rule kv_prefix_cong) (auto simp: store_simps)

lemma kv_prefix_distinct: "distinct (map fst (kv_prefix p s))"
  unfolding kv_prefix_def by (rule kv.scan_key_distinct)

lemma kv_prefix_asc: "sorted_wrt (<) (map fst (kv_prefix p s))"
  unfolding kv_prefix_def by (rule kv.scan_asc)

lemma kv_prefix_mem: "(k, v) \<in> set (kv_prefix p s) \<longleftrightarrow> hasPrefix k p \<and> kv_get s k = Some v"
  by (auto simp: kv_prefix_def kv.ents_get)

end
