(* ===== verification/Types.thy ===== *)
theory Types
  imports KVStore
begin

text \<open>
  The data of the sanction module: the protobuf enums and messages of
  x/sanction/types (types.pb.go, genesis.pb.go, tx.pb.go), the registered errors
  (errors.go), the block context a handler runs in, and the third-party functions the keeper
  calls, which are arguments of the model collected in the record \<open>env\<close>.

  A protobuf enum is an open \<open>int32\<close>, so each has a constructor for the numbers the
  generated code has no name for; \<open>canonical_*\<close> says that constructor is used for those only.
  A message pointer that may be nil is an \<open>option\<close>. Field names carry a prefix per record,
  since Isabelle's record fields share one name space; after the prefix they are the Go names.
\<close>

section \<open>Enums (types.pb.go)\<close>

datatype SanctionTargetType =
    SANCTION_TARGET_TYPE_UNSPECIFIED | SANCTION_TARGET_TYPE_TX | SANCTION_TARGET_TYPE_ADDRESS
  | SANCTION_TARGET_TYPE_OTHER "32 word"

datatype SanctionAction =
    SANCTION_ACTION_UNSPECIFIED | SANCTION_ACTION_WATCH | SANCTION_ACTION_BLOCK_TX
  | SANCTION_ACTION_FREEZE_ADDRESS | SANCTION_ACTION_ESCROW_FUNDS | SANCTION_ACTION_REVERT_TRANSFER
  | SANCTION_ACTION_OTHER "32 word"

datatype CaseStatus =
    CASE_STATUS_UNSPECIFIED | CASE_STATUS_PENDING | CASE_STATUS_APPROVED | CASE_STATUS_REJECTED
  | CASE_STATUS_EXECUTED | CASE_STATUS_EXPIRED | CASE_STATUS_REVOKED | CASE_STATUS_OTHER "32 word"

datatype VoteOption =
    VOTE_OPTION_UNSPECIFIED | VOTE_OPTION_APPROVE | VOTE_OPTION_REJECT | VOTE_OPTION_ABSTAIN
  | VOTE_OPTION_OTHER "32 word"

fun action_number :: "SanctionAction \<Rightarrow> 32 word" where
  "action_number SANCTION_ACTION_UNSPECIFIED = 0"
| "action_number SANCTION_ACTION_WATCH = 1"
| "action_number SANCTION_ACTION_BLOCK_TX = 2"
| "action_number SANCTION_ACTION_FREEZE_ADDRESS = 3"
| "action_number SANCTION_ACTION_ESCROW_FUNDS = 4"
| "action_number SANCTION_ACTION_REVERT_TRANSFER = 5"
| "action_number (SANCTION_ACTION_OTHER n) = n"

fun option_number :: "VoteOption \<Rightarrow> 32 word" where
  "option_number VOTE_OPTION_UNSPECIFIED = 0"
| "option_number VOTE_OPTION_APPROVE = 1"
| "option_number VOTE_OPTION_REJECT = 2"
| "option_number VOTE_OPTION_ABSTAIN = 3"
| "option_number (VOTE_OPTION_OTHER n) = n"

fun canonical_action :: "SanctionAction \<Rightarrow> bool" where
  "canonical_action (SANCTION_ACTION_OTHER n) = (n \<notin> {0, 1, 2, 3, 4, 5})"
| "canonical_action _ = True"

fun canonical_option :: "VoteOption \<Rightarrow> bool" where
  "canonical_option (VOTE_OPTION_OTHER n) = (n \<notin> {0, 1, 2, 3})"
| "canonical_option _ = True"

lemma action_number_inject:
  "canonical_action a \<Longrightarrow> canonical_action b \<Longrightarrow> action_number a = action_number b \<longleftrightarrow> a = b"
  by (cases a; cases b) auto

lemma option_number_inject:
  "canonical_option a \<Longrightarrow> canonical_option b \<Longrightarrow> option_number a = option_number b \<longleftrightarrow> a = b"
  by (cases a; cases b) auto

section \<open>Stored messages (types.pb.go, genesis.pb.go)\<close>

record AgentInfo =
  ag_AgentId :: string
  ag_ValidatorOperatorAddress :: string
  ag_SignerAddress :: string
  ag_PublicKey :: bytes
  ag_VotingPower :: u64
  ag_Active :: bool
  ag_MetadataUri :: string

record RiskReport =
  rr_ReportId :: string
  rr_TxHash :: bytes
  rr_Sender :: string
  rr_Recipient :: string
  rr_Denom :: string
  rr_Amount :: string
  rr_Source :: string
  rr_SourceResponseId :: string
  rr_RiskScore :: u32
  rr_RiskCategories :: "string list"
  rr_ExposureType :: string
  rr_ObservedHeight :: u64
  rr_ExpiryHeight :: u64
  rr_PolicyVersion :: string
  rr_EvidenceHash :: bytes
  rr_LlmRationaleHash :: bytes
  rr_Submitter :: string
  rr_SubmitterSignature :: bytes
  rr_MessageIndex :: u32

record SanctionCase =
  sc_CaseId :: string
  sc_TxHash :: bytes
  sc_TargetAddress :: string
  sc_TargetType :: SanctionTargetType
  sc_RequestedAction :: SanctionAction
  sc_Status :: CaseStatus
  sc_ReportIds :: "string list"
  sc_OpenedHeight :: u64
  sc_VotingDeadlineHeight :: u64
  sc_ExecutedHeight :: u64
  sc_PolicyVersion :: string
  sc_DecisionHash :: bytes
  sc_PreviousCaseId :: string
  sc_Voters :: "AgentInfo option list"
  sc_QuorumThreshold :: u32
  sc_UnanimousRequiredForRevert :: bool
  sc_VotingSnapshotVersion :: u32

record AgentLease =
  al_SignerAddress :: string
  al_HolderId :: string
  al_Epoch :: u64
  al_ExpiresHeight :: u64

record SanctionVote =
  sv_CaseId :: string
  sv_AgentId :: string
  sv_Option :: VoteOption
  sv_ApprovedAction :: SanctionAction
  sv_ReasonCode :: string
  sv_RationaleHash :: bytes
  sv_SignedHeight :: u64
  sv_Signature :: bytes

record ActiveSanction =
  as_CaseId :: string
  as_TxHash :: bytes
  as_TargetAddress :: string
  as_Action :: SanctionAction
  as_ActivatedHeight :: u64

record FreezeRecord =
  fr_CaseId :: string
  fr_Address :: string
  fr_FrozenHeight :: u64

record ExecutionRecord =
  er_CaseId :: string
  er_Action :: SanctionAction
  er_TxHash :: bytes
  er_TargetAddress :: string
  er_Executor :: string
  er_ExecutedHeight :: u64
  er_ResultCode :: string
  er_ResultMessage :: string
  er_StateChangeHash :: bytes

record OriginalTransfer =
  ot_TxHash :: bytes
  ot_MessageIndex :: u32
  ot_Sender :: string
  ot_Recipient :: string
  ot_Denom :: string
  ot_Amount :: string
  ot_Height :: u64

record SettlementRecord =
  sr_Transfer :: "OriginalTransfer option"
  sr_CaseId :: string
  sr_Action :: SanctionAction
  sr_ExecutedHeight :: u64

record ReviewRecord =
  rv_CaseId :: string
  rv_Authority :: string
  rv_Reason :: string
  rv_EvidenceHash :: bytes
  rv_ReviewedHeight :: u64
  rv_RevokedHeight :: u64
  rv_RevokeReason :: string

record Params =
  p_WatchThreshold :: u32
  p_BlockThreshold :: u32
  p_FreezeThreshold :: u32
  p_RevertThreshold :: u32
  p_QuorumThreshold :: u32
  p_UnanimousRequiredForRevert :: bool
  p_EvidenceTtlBlocks :: u64
  p_VotingPeriodBlocks :: u64
  p_AcceptedRiskSources :: "string list"
  p_HighRiskCategories :: "string list"
  p_AllowedActions :: "SanctionAction list"

record GenesisState =
  g_Params :: "Params option"
  g_Agents :: "AgentInfo option list"
  g_RiskReports :: "RiskReport option list"
  g_SanctionCases :: "SanctionCase option list"
  g_SanctionVotes :: "SanctionVote option list"
  g_ActiveSanctions :: "ActiveSanction option list"
  g_FrozenAddresses :: "FreezeRecord option list"
  g_ExecutionRecords :: "ExecutionRecord option list"
  g_Authority :: string
  g_OriginalTransfers :: "OriginalTransfer option list"
  g_Settlements :: "SettlementRecord option list"
  g_Reviews :: "ReviewRecord option list"
  g_AgentLeases :: "AgentLease option list"

section \<open>Transaction messages (tx.pb.go)\<close>

record MsgRegisterAgent =
  ra_Authority :: string
  ra_Agent :: "AgentInfo option"

record MsgSubmitRiskReport =
  sm_Submitter :: string
  sm_Report :: "RiskReport option"

record MsgOpenSanctionCase =
  oc_Submitter :: string
  oc_CaseId :: string
  oc_TxHash :: bytes
  oc_TargetAddress :: string
  oc_TargetType :: SanctionTargetType
  oc_RequestedAction :: SanctionAction
  oc_ReportIds :: "string list"
  oc_PolicyVersion :: string
  oc_PreviousCaseId :: string

record MsgSubmitSanctionVote =
  vm_Submitter :: string
  vm_Vote :: "SanctionVote option"

record MsgExecuteSanction =
  xm_Executor :: string
  xm_CaseId :: string
  xm_ResultMessage :: string

record MsgRevokeSanction =
  rm_Authority :: string
  rm_CaseId :: string
  rm_Reason :: string

record MsgReviewSanction =
  wm_Authority :: string
  wm_CaseId :: string
  wm_Reason :: string
  wm_EvidenceHash :: bytes

record MsgUpdateParams =
  um_Authority :: string
  um_Params :: "Params option"

record MsgClaimAgentLease =
  lm_SignerAddress :: string
  lm_HolderId :: string
  lm_ExpectedEpoch :: u64
  lm_TtlBlocks :: u64
  lm_Renew :: bool

section \<open>Errors (errors.go)\<close>

text \<open>
  The registered errors, wrapped or not (\<open>errors.Wrapf\<close> adds a description and keeps the
  code). \<open>ErrText\<close> is a plain \<open>fmt.Errorf\<close>, \<open>ErrBech32\<close> the SDK's address error,
  \<open>ErrBank\<close> an error of the bank keeper, \<open>ErrPanic\<close> a Go panic.
\<close>

datatype error =
    ErrAgentNotFound | ErrAgentInactive | ErrDuplicateAgent | ErrRiskReportNotFound
  | ErrRiskReportExpired | ErrInvalidRiskScore | ErrSourceNotAccepted | ErrCaseNotFound
  | ErrDuplicateCase | ErrCaseNotPending | ErrVoteAlreadySubmitted | ErrInvalidSignature
  | ErrQuorumNotReached | ErrActionNotAllowed | ErrTxAlreadySanctioned | ErrAddressAlreadyFrozen
  | ErrExecutionUnsupported | ErrUnauthorized | ErrInvalidCase | ErrOriginalTransfer
  | ErrAlreadySettled | ErrReviewRequired | ErrLeaseFenced
  | ErrText string | ErrBech32 | ErrBank | ErrPanic

fun abciCode :: "error \<Rightarrow> nat option" where
  "abciCode ErrAgentNotFound = Some 2"
| "abciCode ErrAgentInactive = Some 3"
| "abciCode ErrDuplicateAgent = Some 4"
| "abciCode ErrRiskReportNotFound = Some 5"
| "abciCode ErrRiskReportExpired = Some 6"
| "abciCode ErrInvalidRiskScore = Some 7"
| "abciCode ErrSourceNotAccepted = Some 8"
| "abciCode ErrCaseNotFound = Some 9"
| "abciCode ErrDuplicateCase = Some 10"
| "abciCode ErrCaseNotPending = Some 11"
| "abciCode ErrVoteAlreadySubmitted = Some 12"
| "abciCode ErrInvalidSignature = Some 13"
| "abciCode ErrQuorumNotReached = Some 14"
| "abciCode ErrActionNotAllowed = Some 15"
| "abciCode ErrTxAlreadySanctioned = Some 16"
| "abciCode ErrAddressAlreadyFrozen = Some 17"
| "abciCode ErrExecutionUnsupported = Some 18"
| "abciCode ErrUnauthorized = Some 19"
| "abciCode ErrInvalidCase = Some 20"
| "abciCode ErrOriginalTransfer = Some 21"
| "abciCode ErrAlreadySettled = Some 22"
| "abciCode ErrReviewRequired = Some 23"
| "abciCode ErrLeaseFenced = Some 24"
| "abciCode _ = None"

section \<open>Third-party functions and the block context\<close>

type_synonym coins = "(string \<times> int) list"

text \<open>
  \<open>env\<close> collects the functions that are not under src/: address codecs, signature
  verification and hashes, the codec's encoding of the two messages that are hashed or signed,
  and the bank keeper's two transfers over an abstract bank state \<^typ>\<open>'b\<close>. The bank asks the
  send restriction it is given (\<open>AppendSendRestriction\<close>) before it moves coins; \<^term>\<open>None\<close> is
  the bank refusing, in which case it leaves its state alone.
\<close>

record 'b env =
  accAddressFromBech32 :: "string \<Rightarrow> bytes option"
  accAddressString :: "bytes \<Rightarrow> string"
  newModuleAddress :: "string \<Rightarrow> bytes"
  verifySignature :: "bytes \<Rightarrow> bytes \<Rightarrow> bytes \<Rightarrow> bool"
  pubKeyAddress :: "bytes \<Rightarrow> bytes"
  sha256 :: "bytes \<Rightarrow> bytes"
  tmhashSum :: "bytes \<Rightarrow> bytes"
  marshalRiskReport :: "RiskReport \<Rightarrow> bytes"
  marshalSanctionCase :: "SanctionCase \<Rightarrow> bytes"
  newIntFromString :: "string \<Rightarrow> int option"
  intString :: "int \<Rightarrow> string"
  validateDenom :: "string \<Rightarrow> bool"
  parseCoinNormalized :: "string \<Rightarrow> (string \<times> int) option"
  coinsString :: "coins \<Rightarrow> string"
  sendCoins :: "(bytes \<Rightarrow> bytes \<Rightarrow> bool) \<Rightarrow> bytes \<Rightarrow> bytes \<Rightarrow> coins \<Rightarrow> 'b \<Rightarrow> 'b option"
  sendCoinsFromAccountToModule ::
    "(bytes \<Rightarrow> bytes \<Rightarrow> bool) \<Rightarrow> bytes \<Rightarrow> string \<Rightarrow> coins \<Rightarrow> 'b \<Rightarrow> 'b option"

text \<open>
  \<open>sdk.Context\<close>: the block height (\<open>uint64(ctx.BlockHeight())\<close>), chain ID, the bytes of
  the running transaction, whether the execution mode is \<open>ExecModeFinalize\<close>, and the value
  stored under \<open>settlementContextKey\<close> (execution.go), a pair of endpoints.
\<close>

record ctx =
  blockHeight :: u64
  ctxChainID :: string
  txBytes :: bytes
  execModeFinalize :: bool
  settlementValue :: "(string \<times> string) option"

text \<open>The keeper's own fields (keeper.go \<open>Keeper\<close>); the bank keeper may be unset.\<close>

record Keeper =
  k_authority :: string
  k_chainID :: string
  k_hasBank :: bool

text \<open>Emitted events: type and attributes.\<close>

record event =
  ev_type :: string
  ev_attributes :: "(string \<times> string) list"

section \<open>Zero values\<close>

text \<open>Go's zero values of the enums and words, as the class \<open>default\<close>.\<close>

instantiation SanctionAction :: default
begin
definition default_SanctionAction :: SanctionAction where
  "default_SanctionAction = SANCTION_ACTION_UNSPECIFIED"
instance ..
end

instantiation VoteOption :: default
begin
definition default_VoteOption :: VoteOption where
  "default_VoteOption = VOTE_OPTION_UNSPECIFIED"
instance ..
end

text \<open>\<open>types.ActionName\<close> (policy.go).\<close>

fun ActionName :: "SanctionAction \<Rightarrow> string" where
  "ActionName SANCTION_ACTION_WATCH = ''watch''"
| "ActionName SANCTION_ACTION_BLOCK_TX = ''block_tx''"
| "ActionName SANCTION_ACTION_FREEZE_ADDRESS = ''freeze_address''"
| "ActionName SANCTION_ACTION_ESCROW_FUNDS = ''escrow_funds''"
| "ActionName SANCTION_ACTION_REVERT_TRANSFER = ''revert_transfer''"
| "ActionName _ = ''unspecified''"

end
