(* ===== verification/Keys.thy ===== *)
theory Keys
  imports Types
begin

text \<open>
  The key layout of the module's store: the prefixes of x/sanction/types/keys.go and the key
  builders of keeper/keys.go, lease.go and transfers.go, byte for byte. The lemmas say which
  keys can coincide: keys under different prefixes never do, an index or vote key determines
  its parts only when the part before the separator byte contains no NUL, and a transfer key
  only when the hash length is fixed.
\<close>

section \<open>Prefixes (types/keys.go)\<close>

definition ModuleName :: string where "ModuleName = ''sanction''"

definition ParamsKey :: bytes where "ParamsKey = [CHR 0x01]"
definition AuthorityKey :: bytes where "AuthorityKey = [CHR 0x02]"
definition AgentKeyPrefix :: bytes where "AgentKeyPrefix = [CHR 0x10]"
definition AgentBySignerKeyPrefix :: bytes where "AgentBySignerKeyPrefix = [CHR 0x11]"
definition AgentLeaseKeyPrefix :: bytes where "AgentLeaseKeyPrefix = [CHR 0x12]"
definition RiskReportKeyPrefix :: bytes where "RiskReportKeyPrefix = [CHR 0x20]"
definition RiskReportByTxKeyPrefix :: bytes where "RiskReportByTxKeyPrefix = [CHR 0x21]"
definition RiskReportByAddrKeyPrefix :: bytes where "RiskReportByAddrKeyPrefix = [CHR 0x22]"
definition SanctionCaseKeyPrefix :: bytes where "SanctionCaseKeyPrefix = [CHR 0x30]"
definition CaseByTxKeyPrefix :: bytes where "CaseByTxKeyPrefix = [CHR 0x31]"
definition CaseByAddrKeyPrefix :: bytes where "CaseByAddrKeyPrefix = [CHR 0x32]"
definition SanctionVoteKeyPrefix :: bytes where "SanctionVoteKeyPrefix = [CHR 0x40]"
definition ActiveTxSanctionKeyPrefix :: bytes where "ActiveTxSanctionKeyPrefix = [CHR 0x50]"
definition FrozenAddressKeyPrefix :: bytes where "FrozenAddressKeyPrefix = [CHR 0x51]"
definition ExecutionRecordKeyPrefix :: bytes where "ExecutionRecordKeyPrefix = [CHR 0x60]"
definition OriginalTransferKeyPrefix :: bytes where "OriginalTransferKeyPrefix = [CHR 0x70]"
definition SettlementKeyPrefix :: bytes where "SettlementKeyPrefix = [CHR 0x71]"
definition ReviewKeyPrefix :: bytes where "ReviewKeyPrefix = [CHR 0x72]"

lemmas prefix_defs =
  ParamsKey_def AuthorityKey_def AgentKeyPrefix_def AgentBySignerKeyPrefix_def
  AgentLeaseKeyPrefix_def RiskReportKeyPrefix_def RiskReportByTxKeyPrefix_def
  RiskReportByAddrKeyPrefix_def SanctionCaseKeyPrefix_def CaseByTxKeyPrefix_def
  CaseByAddrKeyPrefix_def SanctionVoteKeyPrefix_def ActiveTxSanctionKeyPrefix_def
  FrozenAddressKeyPrefix_def ExecutionRecordKeyPrefix_def OriginalTransferKeyPrefix_def
  SettlementKeyPrefix_def ReviewKeyPrefix_def

abbreviation NUL :: char where "NUL \<equiv> CHR 0x00"

section \<open>Key builders (keeper/keys.go)\<close>

definition agentKey :: "string \<Rightarrow> bytes" where
  "agentKey agentID = AgentKeyPrefix @ agentID"

definition agentBySignerKey :: "string \<Rightarrow> bytes" where
  "agentBySignerKey signer = AgentBySignerKeyPrefix @ signer"

definition agentLeaseKey :: "string \<Rightarrow> bytes" where
  "agentLeaseKey address = AgentLeaseKeyPrefix @ address"

definition riskReportKey :: "string \<Rightarrow> bytes" where
  "riskReportKey reportID = RiskReportKeyPrefix @ reportID"

definition riskReportByTxKey :: "bytes \<Rightarrow> string \<Rightarrow> bytes" where
  "riskReportByTxKey txHash reportID = RiskReportByTxKeyPrefix @ txHash @ [NUL] @ reportID"

definition riskReportByAddressKey :: "string \<Rightarrow> string \<Rightarrow> bytes" where
  "riskReportByAddressKey address reportID = RiskReportByAddrKeyPrefix @ address @ [NUL] @ reportID"

definition sanctionCaseKey :: "string \<Rightarrow> bytes" where
  "sanctionCaseKey caseID = SanctionCaseKeyPrefix @ caseID"

definition caseByTxKey :: "bytes \<Rightarrow> string \<Rightarrow> bytes" where
  "caseByTxKey txHash caseID = CaseByTxKeyPrefix @ txHash @ [NUL] @ caseID"

definition caseByAddressKey :: "string \<Rightarrow> string \<Rightarrow> bytes" where
  "caseByAddressKey address caseID = CaseByAddrKeyPrefix @ address @ [NUL] @ caseID"

definition sanctionVoteKey :: "string \<Rightarrow> string \<Rightarrow> bytes" where
  "sanctionVoteKey caseID agentID = SanctionVoteKeyPrefix @ caseID @ [NUL] @ agentID"

text \<open>The prefix \<open>GetSanctionVotes\<close> scans (store.go).\<close>

definition sanctionVotesPrefix :: "string \<Rightarrow> bytes" where
  "sanctionVotesPrefix caseID = SanctionVoteKeyPrefix @ caseID @ [NUL]"

definition activeTxSanctionKey :: "bytes \<Rightarrow> bytes" where
  "activeTxSanctionKey txHash = ActiveTxSanctionKeyPrefix @ txHash"

definition frozenAddressKey :: "string \<Rightarrow> bytes" where
  "frozenAddressKey address = FrozenAddressKeyPrefix @ address"

definition executionRecordKey :: "string \<Rightarrow> bytes" where
  "executionRecordKey caseID = ExecutionRecordKeyPrefix @ caseID"

definition reviewKey :: "string \<Rightarrow> bytes" where
  "reviewKey caseID = ReviewKeyPrefix @ caseID"

definition transferKey :: "bytes \<Rightarrow> bytes \<Rightarrow> u32 \<Rightarrow> string \<Rightarrow> bytes" where
  "transferKey p hash index denom = p @ hash @ be32 index @ denom"

definition txPrefix :: "bytes \<Rightarrow> bytes \<Rightarrow> bytes" where
  "txPrefix p txHash = p @ txHash"

definition splitIndexedValue :: "bytes \<Rightarrow> string option" where
  "splitIndexedValue value = (if value = [] then None else Some value)"

definition parseHexHash :: "string \<Rightarrow> bytes option" where
  "parseHexHash hexHash = hexDecode hexHash"

lemmas key_defs =
  agentKey_def agentBySignerKey_def agentLeaseKey_def riskReportKey_def riskReportByTxKey_def
  riskReportByAddressKey_def sanctionCaseKey_def caseByTxKey_def caseByAddressKey_def
  sanctionVoteKey_def activeTxSanctionKey_def frozenAddressKey_def executionRecordKey_def
  reviewKey_def transferKey_def

section \<open>When keys coincide\<close>

lemma single_keys_inject [key_simps]:
  "agentKey a = agentKey b \<longleftrightarrow> a = b"
  "agentBySignerKey a = agentBySignerKey b \<longleftrightarrow> a = b"
  "agentLeaseKey a = agentLeaseKey b \<longleftrightarrow> a = b"
  "riskReportKey a = riskReportKey b \<longleftrightarrow> a = b"
  "sanctionCaseKey a = sanctionCaseKey b \<longleftrightarrow> a = b"
  "activeTxSanctionKey a = activeTxSanctionKey b \<longleftrightarrow> a = b"
  "frozenAddressKey a = frozenAddressKey b \<longleftrightarrow> a = b"
  "executionRecordKey a = executionRecordKey b \<longleftrightarrow> a = b"
  "reviewKey a = reviewKey b \<longleftrightarrow> a = b"
  by (simp_all add: key_defs)

text \<open>
  The first byte of a key is its table: \<open>key_tag\<close> reads it, and two keys with different
  tags differ. Every builder's tag is a closed byte, so disequality of keys of different
  tables is decided by the simplifier.
\<close>

definition key_tag :: "bytes \<Rightarrow> char" where
  "key_tag k = (case k of [] \<Rightarrow> NUL | c # _ \<Rightarrow> c)"

lemma key_tag_simps [simp]:
  "key_tag ParamsKey = CHR 0x01" "key_tag AuthorityKey = CHR 0x02"
  "key_tag (agentKey a) = CHR 0x10" "key_tag (agentBySignerKey a) = CHR 0x11"
  "key_tag (agentLeaseKey a) = CHR 0x12" "key_tag (riskReportKey a) = CHR 0x20"
  "key_tag (riskReportByTxKey h a) = CHR 0x21" "key_tag (riskReportByAddressKey s a) = CHR 0x22"
  "key_tag (sanctionCaseKey a) = CHR 0x30" "key_tag (caseByTxKey h a) = CHR 0x31"
  "key_tag (caseByAddressKey s a) = CHR 0x32" "key_tag (sanctionVoteKey a b) = CHR 0x40"
  "key_tag (activeTxSanctionKey h) = CHR 0x50" "key_tag (frozenAddressKey s) = CHR 0x51"
  "key_tag (executionRecordKey a) = CHR 0x60" "key_tag (reviewKey a) = CHR 0x72"
  "key_tag (transferKey OriginalTransferKeyPrefix h i d) = CHR 0x70"
  "key_tag (transferKey SettlementKeyPrefix h i d) = CHR 0x71"
  by (simp_all add: key_tag_def key_defs prefix_defs)

lemma key_tag_neq: "key_tag k \<noteq> key_tag k' \<Longrightarrow> k \<noteq> k'"
  by auto

lemma hasPrefix_tag: "hasPrefix k p \<Longrightarrow> p \<noteq> [] \<Longrightarrow> key_tag k = hd p"
  by (erule hasPrefixE) (cases p; simp add: key_tag_def)

text \<open>
  A vote key determines its case only up to NUL bytes: the scan prefix of case \<open>c\<close> is a
  prefix of the vote keys of every case \<open>c @ NUL # x\<close>.
\<close>

lemma sanctionVoteKey_inject:
  assumes "NUL \<notin> set c" "NUL \<notin> set c'"
  shows "sanctionVoteKey c a = sanctionVoteKey c' a' \<longleftrightarrow> c = c' \<and> a = a'"
  using sep_unique [OF assms] by (auto simp: sanctionVoteKey_def)

lemma sanctionVoteKey_same_case [key_simps]:
  "sanctionVoteKey c a = sanctionVoteKey c a' \<longleftrightarrow> a = a'"
  by (simp add: sanctionVoteKey_def)

lemma sanctionVotesPrefix_own [simp]: "hasPrefix (sanctionVoteKey c a) (sanctionVotesPrefix c)"
  using hasPrefix_append [of "sanctionVotesPrefix c" a]
  by (simp add: sanctionVoteKey_def sanctionVotesPrefix_def)

lemma sanctionVotesPrefix_iff:
  assumes "NUL \<notin> set c" "NUL \<notin> set c'"
  shows "hasPrefix (sanctionVoteKey c' a) (sanctionVotesPrefix c) \<longleftrightarrow> c' = c"
proof
  assume "hasPrefix (sanctionVoteKey c' a) (sanctionVotesPrefix c)"
  then obtain t where "c' @ NUL # a = c @ NUL # t"
    by (rule hasPrefixE) (simp add: sanctionVoteKey_def sanctionVotesPrefix_def)
  then show "c' = c" using sep_unique [OF assms(2,1)] by simp
qed simp

lemma sanctionVotesPrefix_leak:
  "hasPrefix (sanctionVoteKey (c @ NUL # x) a) (sanctionVotesPrefix c)"
  using hasPrefix_append [of "sanctionVotesPrefix c" "x @ NUL # a"]
  by (simp add: sanctionVoteKey_def sanctionVotesPrefix_def)

lemma transferKey_inject:
  assumes "length h = length h'"
  shows "transferKey p h i d = transferKey p h' i' d' \<longleftrightarrow> h = h' \<and> i = i' \<and> d = d'"
  using assms by (auto simp: transferKey_def)

lemma caseByTxKey_inject:
  assumes "length h = length h'"
  shows "caseByTxKey h c = caseByTxKey h' c' \<longleftrightarrow> h = h' \<and> c = c'"
  using assms by (auto simp: caseByTxKey_def)

lemma txPrefix_caseByTxKey:
  assumes "length h = length h'"
  shows "hasPrefix (caseByTxKey h' c) (txPrefix CaseByTxKeyPrefix h) \<longleftrightarrow> h' = h"
  using assms by (auto simp: hasPrefix_def caseByTxKey_def txPrefix_def CaseByTxKeyPrefix_def)

end
