(* ===== verification/Validate.thy ===== *)
theory Validate
  imports Types
begin

text \<open>
  Parameter, agent, snapshot and genesis validation: x/sanction/types/genesis.go and
  voting_snapshot.go. Each loop of the code is a recursive function over the list with the
  code's "seen" maps as accumulators, and stops at the first error as the code does.
\<close>

section \<open>Parameters (genesis.go)\<close>

definition DefaultParams :: Params where
  "DefaultParams = \<lparr>
     p_WatchThreshold = 60, p_BlockThreshold = 80, p_FreezeThreshold = 85, p_RevertThreshold = 90,
     p_QuorumThreshold = 67, p_UnanimousRequiredForRevert = True,
     p_EvidenceTtlBlocks = 100, p_VotingPeriodBlocks = 20,
     p_AcceptedRiskSources = [''chainalysis-mock'', ''chainalysis''],
     p_HighRiskCategories = [''sanctioned'', ''scam'', ''darknet'', ''money_laundering'',
       ''terrorist_financing''],
     p_AllowedActions = [SANCTION_ACTION_WATCH, SANCTION_ACTION_BLOCK_TX,
       SANCTION_ACTION_FREEZE_ADDRESS, SANCTION_ACTION_ESCROW_FUNDS,
       SANCTION_ACTION_REVERT_TRANSFER]\<rparr>"

definition ValidateParams :: "Params option \<Rightarrow> error + unit" where
  "ValidateParams params = (case params of
     None \<Rightarrow> Inl (ErrText ''params cannot be nil'')
   | Some p \<Rightarrow>
     if p_WatchThreshold p > 100 \<or> p_BlockThreshold p > 100 \<or> p_FreezeThreshold p > 100
        \<or> p_RevertThreshold p > 100
     then Inl (ErrText ''thresholds must be between 0 and 100'')
     else if p_WatchThreshold p > p_BlockThreshold p \<or> p_BlockThreshold p > p_FreezeThreshold p
        \<or> p_FreezeThreshold p > p_RevertThreshold p
     then Inl (ErrText ''thresholds must be monotonic: watch <= block <= freeze <= revert'')
     else if p_QuorumThreshold p = 0 \<or> p_QuorumThreshold p > 100
     then Inl (ErrText ''quorum threshold must be between 1 and 100'')
     else if p_EvidenceTtlBlocks p = 0
     then Inl (ErrText ''evidence ttl blocks must be greater than zero'')
     else if p_VotingPeriodBlocks p = 0
     then Inl (ErrText ''voting period blocks must be greater than zero'')
     else if p_AcceptedRiskSources p = []
     then Inl (ErrText ''at least one accepted risk source is required'')
     else if p_HighRiskCategories p = []
     then Inl (ErrText ''at least one high risk category is required'')
     else if p_AllowedActions p = []
     then Inl (ErrText ''at least one allowed action is required'')
     else Inr ())"

definition ValidateAgent :: "AgentInfo option \<Rightarrow> error + unit" where
  "ValidateAgent agent = (case agent of
     None \<Rightarrow> Inl (ErrText ''agent cannot be nil'')
   | Some a \<Rightarrow>
     if ag_AgentId a = [] then Inl (ErrText ''agent id cannot be empty'')
     else if ag_SignerAddress a = [] then Inl (ErrText ''agent signer address cannot be empty'')
     else if ag_Active a \<and> ag_VotingPower a = 0
     then Inl (ErrText ''active agent voting power must be greater than zero'')
     else Inr ())"

lemma ValidateAgent_ok:
  "ValidateAgent (Some a) = Inr () \<longleftrightarrow>
     ag_AgentId a \<noteq> [] \<and> ag_SignerAddress a \<noteq> [] \<and> (ag_Active a \<longrightarrow> ag_VotingPower a \<noteq> 0)"
  by (auto simp: ValidateAgent_def)

section \<open>Case snapshots (voting_snapshot.go)\<close>

text \<open>
  The loop of \<open>ValidateCaseSnapshot\<close>: \<open>seen\<close> is \<open>seenSigners\<close>, \<open>previous\<close> the id of the
  voter before, so ids must be strictly ascending.
\<close>

fun validateVoters :: "'b env \<Rightarrow> string set \<Rightarrow> string \<Rightarrow> AgentInfo option list \<Rightarrow> error + unit" where
  "validateVoters E seen previous [] = Inr ()"
| "validateVoters E seen previous (v # vs) = (case v of
     None \<Rightarrow> Inl (ErrText ''invalid or duplicate case voter'')
   | Some a \<Rightarrow>
     if ValidateAgent v \<noteq> Inr () \<or> \<not> ag_Active a \<or> ag_VotingPower a = 0 \<or> ag_PublicKey a = []
        \<or> ag_AgentId a \<le> previous \<or> ag_SignerAddress a \<in> seen
     then Inl (ErrText ''invalid or duplicate case voter'')
     else if accAddressFromBech32 E (ag_SignerAddress a) = None \<or> length (ag_PublicKey a) \<noteq> 33
        \<or> accAddressFromBech32 E (ag_SignerAddress a) \<noteq> Some (pubKeyAddress E (ag_PublicKey a))
     then Inl (ErrText ''case voter key does not match signer'')
     else validateVoters E (insert (ag_SignerAddress a) seen) (ag_AgentId a) vs)"

definition ValidateCaseSnapshot :: "'b env \<Rightarrow> SanctionCase \<Rightarrow> error + unit" where
  "ValidateCaseSnapshot E c =
     (if sc_VotingSnapshotVersion c \<noteq> 1 \<or> sc_Voters c = [] \<or> sc_QuorumThreshold c = 0
        \<or> sc_QuorumThreshold c > 100
      then Inl (ErrText ''case requires an explicit valid voter snapshot'')
      else validateVoters E {} [] (sc_Voters c))"

section \<open>Genesis (genesis.go)\<close>

definition DefaultGenesis :: GenesisState where
  "DefaultGenesis = \<lparr>g_Params = Some DefaultParams, g_Agents = [], g_RiskReports = [],
     g_SanctionCases = [], g_SanctionVotes = [], g_ActiveSanctions = [], g_FrozenAddresses = [],
     g_ExecutionRecords = [], g_Authority = [], g_OriginalTransfers = [], g_Settlements = [],
     g_Reviews = [], g_AgentLeases = []\<rparr>"

fun validateGenesisAgents ::
    "string set \<Rightarrow> string set \<Rightarrow> AgentInfo option list \<Rightarrow> error + string set" where
  "validateGenesisAgents seenAgents seenSigners [] = Inr seenSigners"
| "validateGenesisAgents seenAgents seenSigners (None # xs) =
     validateGenesisAgents seenAgents seenSigners xs"
| "validateGenesisAgents seenAgents seenSigners (Some a # xs) =
     (case ValidateAgent (Some a) of
        Inl e \<Rightarrow> Inl e
      | Inr _ \<Rightarrow>
        if ag_AgentId a \<in> seenAgents then Inl (ErrText ''duplicate agent id'')
        else if ag_SignerAddress a \<in> seenSigners then Inl (ErrText ''duplicate agent signer'')
        else validateGenesisAgents (insert (ag_AgentId a) seenAgents)
               (insert (ag_SignerAddress a) seenSigners) xs)"

fun validateGenesisReports :: "string set \<Rightarrow> RiskReport option list \<Rightarrow> error + unit" where
  "validateGenesisReports seen [] = Inr ()"
| "validateGenesisReports seen (None # xs) = validateGenesisReports seen xs"
| "validateGenesisReports seen (Some r # xs) =
     (if rr_ReportId r = [] then Inl (ErrText ''risk report id cannot be empty'')
      else if rr_ReportId r \<in> seen then Inl (ErrText ''duplicate risk report id'')
      else validateGenesisReports (insert (rr_ReportId r) seen) xs)"

fun validateGenesisCases :: "'b env \<Rightarrow> string set \<Rightarrow> SanctionCase option list \<Rightarrow> error + unit" where
  "validateGenesisCases E seen [] = Inr ()"
| "validateGenesisCases E seen (None # xs) = validateGenesisCases E seen xs"
| "validateGenesisCases E seen (Some c # xs) =
     (if sc_CaseId c = [] then Inl (ErrText ''case id cannot be empty'')
      else if sc_CaseId c \<in> seen then Inl (ErrText ''duplicate case id'')
      else case ValidateCaseSnapshot E c of
             Inl e \<Rightarrow> Inl e
           | Inr _ \<Rightarrow> validateGenesisCases E (insert (sc_CaseId c) seen) xs)"

text \<open>The holder test shared by genesis and \<open>ClaimAgentLease\<close>: 64 lower-case hex digits.\<close>

definition validHolder :: "string \<Rightarrow> bool" where
  "validHolder h = (length h = 64 \<and> trimSet lowerHexDigits h = [])"

lemma validHolder_iff: "validHolder h \<longleftrightarrow> length h = 64 \<and> set h \<subseteq> lowerHexDigits"
  by (simp add: validHolder_def trimSet_Nil_iff)

fun validateGenesisLeases ::
    "string set \<Rightarrow> string set \<Rightarrow> AgentLease option list \<Rightarrow> error + unit" where
  "validateGenesisLeases seenSigners seenLeases [] = Inr ()"
| "validateGenesisLeases seenSigners seenLeases (None # xs) =
     Inl (ErrText ''invalid or duplicate agent lease'')"
| "validateGenesisLeases seenSigners seenLeases (Some l # xs) =
     (if al_Epoch l = 0 \<or> al_ExpiresHeight l = 0 \<or> \<not> validHolder (al_HolderId l)
         \<or> al_SignerAddress l \<in> seenLeases
      then Inl (ErrText ''invalid or duplicate agent lease'')
      else if al_SignerAddress l \<notin> seenSigners
      then Inl (ErrText ''lease signer is not registered'')
      else validateGenesisLeases seenSigners (insert (al_SignerAddress l) seenLeases) xs)"

subsection \<open>Transfers, settlements, executions and reviews\<close>

definition genesisTransferKey :: "OriginalTransfer \<Rightarrow> string" where
  "genesisTransferKey t = hexEncode (ot_TxHash t) @ ''/'' @ dec_digits (unat (ot_MessageIndex t))
     @ ''/'' @ ot_Denom t"

definition coinMatches :: "'b env \<Rightarrow> OriginalTransfer \<Rightarrow> bool" where
  "coinMatches E t = (case parseCoinNormalized E (ot_Amount t @ ot_Denom t) of
     None \<Rightarrow> False
   | Some (d, n) \<Rightarrow> n > 0 \<and> intString E n = ot_Amount t \<and> d = ot_Denom t)"

fun validateTransfers ::
    "'b env \<Rightarrow> (string \<rightharpoonup> OriginalTransfer) \<Rightarrow> OriginalTransfer option list
      \<Rightarrow> error + (string \<rightharpoonup> OriginalTransfer)" where
  "validateTransfers E receipts [] = Inr receipts"
| "validateTransfers E receipts (None # xs) = Inl (ErrText ''invalid original transfer'')"
| "validateTransfers E receipts (Some t # xs) =
     (if length (ot_TxHash t) \<noteq> 32 \<or> ot_Height t = 0
      then Inl (ErrText ''invalid original transfer'')
      else if accAddressFromBech32 E (ot_Sender t) = None then Inl ErrBech32
      else if accAddressFromBech32 E (ot_Recipient t) = None then Inl ErrBech32
      else if \<not> coinMatches E t then Inl (ErrText ''invalid original transfer coin'')
      else if receipts (genesisTransferKey t) \<noteq> None
      then Inl (ErrText ''duplicate original transfer'')
      else validateTransfers E (receipts(genesisTransferKey t \<mapsto> t)) xs)"

definition monetary :: "SanctionAction \<Rightarrow> bool" where
  "monetary a = (a = SANCTION_ACTION_REVERT_TRANSFER \<or> a = SANCTION_ACTION_ESCROW_FUNDS)"

fun validateSettlements ::
    "(string \<rightharpoonup> OriginalTransfer) \<Rightarrow> string set \<Rightarrow> SettlementRecord option list \<Rightarrow> error + unit" where
  "validateSettlements receipts settled [] = Inr ()"
| "validateSettlements receipts settled (r # rs) = (case r of
     None \<Rightarrow> Inl (ErrText ''invalid settlement'')
   | Some s \<Rightarrow> (case sr_Transfer s of
       None \<Rightarrow> Inl (ErrText ''invalid settlement'')
     | Some t \<Rightarrow>
       if sr_CaseId s = [] \<or> sr_ExecutedHeight s \<le> ot_Height t \<or> \<not> monetary (sr_Action s)
       then Inl (ErrText ''invalid settlement'')
       else if receipts (genesisTransferKey t) \<noteq> Some t \<or> genesisTransferKey t \<in> settled
       then Inl (ErrText ''duplicate or unbacked settlement'')
       else validateSettlements receipts (insert (genesisTransferKey t) settled) rs))"

text \<open>Every monetary execution record must have a settlement of its case and action.\<close>

fun validateExecutions ::
    "SettlementRecord list \<Rightarrow> ExecutionRecord option list \<Rightarrow> error + unit" where
  "validateExecutions ss [] = Inr ()"
| "validateExecutions ss (None # rs) = validateExecutions ss rs"
| "validateExecutions ss (Some r # rs) =
     (if \<not> monetary (er_Action r) then validateExecutions ss rs
      else if \<not> list_ex (\<lambda>s. sr_CaseId s = er_CaseId r \<and> sr_Action s = er_Action r) ss
      then Inl (ErrText ''monetary execution missing settlement'')
      else validateExecutions ss rs)"

fun validateReviews :: "'b env \<Rightarrow> string set \<Rightarrow> ReviewRecord option list \<Rightarrow> error + unit" where
  "validateReviews E seen [] = Inr ()"
| "validateReviews E seen (None # rs) = Inl (ErrText ''invalid or duplicate review'')"
| "validateReviews E seen (Some r # rs) =
     (if rv_CaseId r = [] \<or> length (rv_EvidenceHash r) \<noteq> 32 \<or> isBlank (rv_Reason r)
         \<or> length (rv_Reason r) > 1024 \<or> rv_ReviewedHeight r = 0
         \<or> (rv_RevokedHeight r \<noteq> 0 \<and> rv_RevokedHeight r < rv_ReviewedHeight r)
         \<or> rv_CaseId r \<in> seen
      then Inl (ErrText ''invalid or duplicate review'')
      else if accAddressFromBech32 E (rv_Authority r) = None then Inl ErrBech32
      else validateReviews E (insert (rv_CaseId r) seen) rs)"

definition validateSafetyGenesis :: "'b env \<Rightarrow> GenesisState \<Rightarrow> error + unit" where
  "validateSafetyGenesis E g =
     (if g_Authority g \<noteq> [] \<and> accAddressFromBech32 E (g_Authority g) = None
      then Inl (ErrText ''invalid sanction authority'')
      else bind_r (validateTransfers E Map.empty (g_OriginalTransfers g)) (\<lambda>receipts.
           bind_r (validateSettlements receipts {} (g_Settlements g)) (\<lambda>_.
           bind_r (validateExecutions (nonNil (g_Settlements g)) (g_ExecutionRecords g)) (\<lambda>_.
             validateReviews E {} (g_Reviews g)))))"

definition ValidateGenesis :: "'b env \<Rightarrow> GenesisState option \<Rightarrow> error + unit" where
  "ValidateGenesis E genesis = (case genesis of
     None \<Rightarrow> Inl (ErrText ''genesis state cannot be nil'')
   | Some g \<Rightarrow>
     if g_Params g = None then Inl (ErrText ''params cannot be nil'')
     else bind_r (ValidateParams (g_Params g)) (\<lambda>_.
          bind_r (validateGenesisAgents {} {} (g_Agents g)) (\<lambda>seenSigners.
          bind_r (validateGenesisReports {} (g_RiskReports g)) (\<lambda>_.
          bind_r (validateGenesisCases E {} (g_SanctionCases g)) (\<lambda>_.
          bind_r (validateGenesisLeases seenSigners {} (g_AgentLeases g)) (\<lambda>_.
            validateSafetyGenesis E g))))))"

section \<open>What an accepted snapshot guarantees\<close>

text \<open>The specification of a valid snapshot, without the loop.\<close>

definition voter_ok :: "'b env \<Rightarrow> AgentInfo \<Rightarrow> bool" where
  "voter_ok E a \<longleftrightarrow> ag_AgentId a \<noteq> [] \<and> ag_SignerAddress a \<noteq> [] \<and> ag_Active a \<and> ag_VotingPower a \<noteq> 0
     \<and> length (ag_PublicKey a) = 33
     \<and> accAddressFromBech32 E (ag_SignerAddress a) = Some (pubKeyAddress E (ag_PublicKey a))"

definition snapshot_ok :: "'b env \<Rightarrow> SanctionCase \<Rightarrow> bool" where
  "snapshot_ok E c \<longleftrightarrow> sc_VotingSnapshotVersion c = 1 \<and> sc_Voters c \<noteq> []
     \<and> sc_QuorumThreshold c \<noteq> 0 \<and> sc_QuorumThreshold c \<le> 100
     \<and> (\<exists>vs. sc_Voters c = map Some vs \<and> (\<forall>a \<in> set vs. voter_ok E a)
          \<and> sorted_wrt (<) (map ag_AgentId vs) \<and> distinct (map ag_SignerAddress vs))"

lemma validateVoters_iff:
  "validateVoters E seen prev vs = Inr () \<longleftrightarrow>
     (\<exists>as. vs = map Some as \<and> (\<forall>a \<in> set as. voter_ok E a)
        \<and> sorted_wrt (<) (prev # map ag_AgentId as)
        \<and> distinct (map ag_SignerAddress as) \<and> seen \<inter> ag_SignerAddress ` set as = {})"
proof (induction E seen prev vs rule: validateVoters.induct)
  case (1 E seen previous)
  then show ?case by simp
next
  case (2 E seen prev v vs)
  show ?case
  proof (cases v)
    case None
    then show ?thesis by (auto simp: map_eq_Cons_conv)
  next
    case (Some a)
    let ?ok = "voter_ok E a \<and> prev < ag_AgentId a \<and> ag_SignerAddress a \<notin> seen"
    have step: "validateVoters E seen prev (v # vs) = Inr () \<longleftrightarrow>
        ?ok \<and> validateVoters E (insert (ag_SignerAddress a) seen) (ag_AgentId a) vs = Inr ()"
      using Some by (auto simp: voter_ok_def ValidateAgent_ok)
    have ih: "?ok \<Longrightarrow> validateVoters E (insert (ag_SignerAddress a) seen) (ag_AgentId a) vs = Inr () \<longleftrightarrow>
       (\<exists>as. vs = map Some as \<and> (\<forall>a \<in> set as. voter_ok E a)
        \<and> sorted_wrt (<) (ag_AgentId a # map ag_AgentId as) \<and> distinct (map ag_SignerAddress as)
        \<and> insert (ag_SignerAddress a) seen \<inter> ag_SignerAddress ` set as = {})"
      using Some by (intro 2) (auto simp: voter_ok_def ValidateAgent_ok)
    show ?thesis
      unfolding step using ih Some by (fastforce simp: Cons_eq_map_conv)
  qed
qed

lemma ValidateCaseSnapshot_iff: "ValidateCaseSnapshot E c = Inr () \<longleftrightarrow> snapshot_ok E c"
proof -
  have "validateVoters E {} [] (sc_Voters c) = Inr () \<longleftrightarrow>
     (\<exists>vs. sc_Voters c = map Some vs \<and> (\<forall>a \<in> set vs. voter_ok E a)
          \<and> sorted_wrt (<) (map ag_AgentId vs) \<and> distinct (map ag_SignerAddress vs))"
    unfolding validateVoters_iff by (auto simp: voter_ok_def)
  then show ?thesis
    by (auto simp: ValidateCaseSnapshot_def snapshot_ok_def not_less)
qed

end
