(* ===== verification/Store.thy ===== *)
theory Store
  imports Keys Validate
begin

text \<open>
  The typed reads and writes of x/sanction/keeper/store.go, lease.go and transfers.go over the
  key-value store, index entries included.

  The code marshals a message to bytes before \<open>Set\<close> and unmarshals it after \<open>Get\<close>; a stored
  value is the message itself here, tagged with its type (\<open>MustUnmarshal\<close> inverts
  \<open>MustMarshal\<close>). A value of another type under a key of a table is not decoded; no write
  of this theory puts one there.

  What these operations promise is in StoreSpec: the locale \<open>typed_table\<close>, what a lookup returns
  after the writes of its own and of every other table, interpreted once per table; and the
  abstract state \<open>absstate\<close>, a record of finite maps, which every write refines (\<open>abs_Set*\<close>): the
  byte-level store behaves as independent maps, except that votes and transfers stay keyed by
  their raw key, whose parts may collide.
\<close>

section \<open>Stored values\<close>

datatype sval =
    VParams Params | VText string | VAgent AgentInfo | VLease AgentLease | VReport RiskReport
  | VCase SanctionCase | VVote SanctionVote | VActive ActiveSanction | VFreeze FreezeRecord
  | VExec ExecutionRecord | VTransfer OriginalTransfer | VSettle SettlementRecord
  | VReview ReviewRecord

type_synonym store = "(bytes, sval) kvstore"

fun asParams where "asParams (VParams x) = Some x" | "asParams _ = None"
fun asText where "asText (VText x) = Some x" | "asText _ = None"
fun asAgent where "asAgent (VAgent x) = Some x" | "asAgent _ = None"
fun asLease where "asLease (VLease x) = Some x" | "asLease _ = None"
fun asReport where "asReport (VReport x) = Some x" | "asReport _ = None"
fun asCase where "asCase (VCase x) = Some x" | "asCase _ = None"
fun asVote where "asVote (VVote x) = Some x" | "asVote _ = None"
fun asActive where "asActive (VActive x) = Some x" | "asActive _ = None"
fun asFreeze where "asFreeze (VFreeze x) = Some x" | "asFreeze _ = None"
fun asExec where "asExec (VExec x) = Some x" | "asExec _ = None"
fun asTransfer where "asTransfer (VTransfer x) = Some x" | "asTransfer _ = None"
fun asSettle where "asSettle (VSettle x) = Some x" | "asSettle _ = None"
fun asReview where "asReview (VReview x) = Some x" | "asReview _ = None"

definition lookup :: "(sval \<Rightarrow> 'a option) \<Rightarrow> bytes \<Rightarrow> store \<Rightarrow> 'a option" where
  "lookup dec k s = Option.bind (kv_get s k) dec"

definition scan :: "(sval \<Rightarrow> 'a option) \<Rightarrow> bytes \<Rightarrow> store \<Rightarrow> 'a list" where
  "scan dec p s = List.map_filter (\<lambda>e. dec (snd e)) (kv_prefix p s)"

section \<open>Operations (store.go)\<close>

definition GetParams :: "store \<Rightarrow> Params" where
  "GetParams s = (case lookup asParams ParamsKey s of None \<Rightarrow> DefaultParams | Some p \<Rightarrow> p)"

definition SetParams :: "Params \<Rightarrow> store \<Rightarrow> store" where
  "SetParams p s = kv_set ParamsKey (VParams p) s"

definition SetAgent :: "AgentInfo \<Rightarrow> store \<Rightarrow> store" where
  "SetAgent a s = kv_set (agentBySignerKey (ag_SignerAddress a)) (VText (ag_AgentId a))
     (kv_set (agentKey (ag_AgentId a)) (VAgent a) s)"

definition GetAgent :: "store \<Rightarrow> string \<Rightarrow> AgentInfo option" where
  "GetAgent s agentID = lookup asAgent (agentKey agentID) s"

definition GetAgentBySigner :: "store \<Rightarrow> string \<Rightarrow> AgentInfo option" where
  "GetAgentBySigner s signer = (case lookup asText (agentBySignerKey signer) s of
     None \<Rightarrow> None | Some agentID \<Rightarrow> GetAgent s agentID)"

definition GetAllAgents :: "store \<Rightarrow> AgentInfo list" where
  "GetAllAgents s = scan asAgent AgentKeyPrefix s"

definition SetRiskReport :: "RiskReport \<Rightarrow> store \<Rightarrow> store" where
  "SetRiskReport r s = (let
     s1 = kv_set (riskReportKey (rr_ReportId r)) (VReport r) s;
     s2 = kv_set (riskReportByTxKey (rr_TxHash r) (rr_ReportId r)) (VText (rr_ReportId r)) s1
   in if rr_Recipient r \<noteq> []
      then kv_set (riskReportByAddressKey (rr_Recipient r) (rr_ReportId r)) (VText (rr_ReportId r)) s2
      else s2)"

definition GetRiskReport :: "store \<Rightarrow> string \<Rightarrow> RiskReport option" where
  "GetRiskReport s reportID = lookup asReport (riskReportKey reportID) s"

definition GetAllRiskReports :: "store \<Rightarrow> RiskReport list" where
  "GetAllRiskReports s = scan asReport RiskReportKeyPrefix s"

definition GetRiskReportsByTx :: "store \<Rightarrow> bytes \<Rightarrow> RiskReport list" where
  "GetRiskReportsByTx s txHash = List.map_filter
     (\<lambda>v. Option.bind (splitIndexedValue v) (GetRiskReport s))
     (scan asText (txPrefix RiskReportByTxKeyPrefix txHash) s)"

definition SetSanctionCase :: "SanctionCase \<Rightarrow> store \<Rightarrow> store" where
  "SetSanctionCase c s = (let
     s1 = kv_set (sanctionCaseKey (sc_CaseId c)) (VCase c) s;
     s2 = (if sc_TxHash c \<noteq> []
           then kv_set (caseByTxKey (sc_TxHash c) (sc_CaseId c)) (VText (sc_CaseId c)) s1 else s1)
   in if sc_TargetAddress c \<noteq> []
      then kv_set (caseByAddressKey (sc_TargetAddress c) (sc_CaseId c)) (VText (sc_CaseId c)) s2
      else s2)"

definition GetSanctionCase :: "store \<Rightarrow> string \<Rightarrow> SanctionCase option" where
  "GetSanctionCase s caseID = lookup asCase (sanctionCaseKey caseID) s"

definition GetAllSanctionCases :: "store \<Rightarrow> SanctionCase list" where
  "GetAllSanctionCases s = scan asCase SanctionCaseKeyPrefix s"

definition GetSanctionCasesByTx :: "store \<Rightarrow> bytes \<Rightarrow> SanctionCase list" where
  "GetSanctionCasesByTx s txHash = List.map_filter
     (\<lambda>v. Option.bind (splitIndexedValue v) (GetSanctionCase s))
     (scan asText (txPrefix CaseByTxKeyPrefix txHash) s)"

definition SetSanctionVote :: "SanctionVote \<Rightarrow> store \<Rightarrow> store" where
  "SetSanctionVote v s = kv_set (sanctionVoteKey (sv_CaseId v) (sv_AgentId v)) (VVote v) s"

definition GetSanctionVote :: "store \<Rightarrow> string \<Rightarrow> string \<Rightarrow> SanctionVote option" where
  "GetSanctionVote s caseID agentID = lookup asVote (sanctionVoteKey caseID agentID) s"

definition GetSanctionVotes :: "store \<Rightarrow> string \<Rightarrow> SanctionVote list" where
  "GetSanctionVotes s caseID = scan asVote (sanctionVotesPrefix caseID) s"

definition SetActiveTxSanction :: "ActiveSanction \<Rightarrow> store \<Rightarrow> store" where
  "SetActiveTxSanction a s = kv_set (activeTxSanctionKey (as_TxHash a)) (VActive a) s"

definition GetActiveTxSanction :: "store \<Rightarrow> bytes \<Rightarrow> ActiveSanction option" where
  "GetActiveTxSanction s txHash = lookup asActive (activeTxSanctionKey txHash) s"

definition DeleteActiveTxSanction :: "bytes \<Rightarrow> store \<Rightarrow> store" where
  "DeleteActiveTxSanction txHash s = kv_delete (activeTxSanctionKey txHash) s"

definition SetFreezeRecord :: "FreezeRecord \<Rightarrow> store \<Rightarrow> store" where
  "SetFreezeRecord f s = kv_set (frozenAddressKey (fr_Address f)) (VFreeze f) s"

definition GetFreezeRecord :: "store \<Rightarrow> string \<Rightarrow> FreezeRecord option" where
  "GetFreezeRecord s address = lookup asFreeze (frozenAddressKey address) s"

definition DeleteFreezeRecord :: "string \<Rightarrow> store \<Rightarrow> store" where
  "DeleteFreezeRecord address s = kv_delete (frozenAddressKey address) s"

definition SetExecutionRecord :: "ExecutionRecord \<Rightarrow> store \<Rightarrow> store" where
  "SetExecutionRecord r s = kv_set (executionRecordKey (er_CaseId r)) (VExec r) s"

definition GetExecutionRecord :: "store \<Rightarrow> string \<Rightarrow> ExecutionRecord option" where
  "GetExecutionRecord s caseID = lookup asExec (executionRecordKey caseID) s"

definition GetAllExecutionRecords :: "store \<Rightarrow> ExecutionRecord list" where
  "GetAllExecutionRecords s = scan asExec ExecutionRecordKeyPrefix s"

definition GetAllActiveSanctions :: "store \<Rightarrow> ActiveSanction list" where
  "GetAllActiveSanctions s = scan asActive ActiveTxSanctionKeyPrefix s"

definition GetAllFreezeRecords :: "store \<Rightarrow> FreezeRecord list" where
  "GetAllFreezeRecords s = scan asFreeze FrozenAddressKeyPrefix s"

definition SetReview :: "ReviewRecord \<Rightarrow> store \<Rightarrow> store" where
  "SetReview r s = kv_set (reviewKey (rv_CaseId r)) (VReview r) s"

definition GetReview :: "store \<Rightarrow> string \<Rightarrow> ReviewRecord option" where
  "GetReview s caseID = lookup asReview (reviewKey caseID) s"

definition GetAllReviews :: "store \<Rightarrow> ReviewRecord list" where
  "GetAllReviews s = scan asReview ReviewKeyPrefix s"

section \<open>Leases, transfers and settlements (lease.go, transfers.go)\<close>

definition GetAgentLease :: "store \<Rightarrow> string \<Rightarrow> AgentLease option" where
  "GetAgentLease s address = lookup asLease (agentLeaseKey address) s"

definition SetAgentLease :: "AgentLease \<Rightarrow> store \<Rightarrow> store" where
  "SetAgentLease l s = kv_set (agentLeaseKey (al_SignerAddress l)) (VLease l) s"

definition GetAllAgentLeases :: "store \<Rightarrow> AgentLease list" where
  "GetAllAgentLeases s = scan asLease AgentLeaseKeyPrefix s"

definition SetOriginalTransfer :: "OriginalTransfer \<Rightarrow> store \<Rightarrow> store" where
  "SetOriginalTransfer t s = kv_set
     (transferKey OriginalTransferKeyPrefix (ot_TxHash t) (ot_MessageIndex t) (ot_Denom t)) (VTransfer t) s"

definition GetOriginalTransfer :: "store \<Rightarrow> bytes \<Rightarrow> u32 \<Rightarrow> string \<Rightarrow> OriginalTransfer option" where
  "GetOriginalTransfer s hash index denom =
     lookup asTransfer (transferKey OriginalTransferKeyPrefix hash index denom) s"

text \<open>\<open>SetSettlement\<close> dereferences the record's transfer: \<^term>\<open>None\<close> is the nil-pointer panic.\<close>

definition SetSettlement :: "SettlementRecord \<Rightarrow> store \<Rightarrow> store option" where
  "SetSettlement r s = (case sr_Transfer r of None \<Rightarrow> None
     | Some t \<Rightarrow> Some (kv_set
         (transferKey SettlementKeyPrefix (ot_TxHash t) (ot_MessageIndex t) (ot_Denom t)) (VSettle r) s))"

definition GetSettlement :: "store \<Rightarrow> bytes \<Rightarrow> u32 \<Rightarrow> string \<Rightarrow> SettlementRecord option" where
  "GetSettlement s hash index denom =
     lookup asSettle (transferKey SettlementKeyPrefix hash index denom) s"

definition GetOriginalTransfers :: "store \<Rightarrow> bytes \<Rightarrow> OriginalTransfer list" where
  "GetOriginalTransfers s hash = scan asTransfer (OriginalTransferKeyPrefix @ hash) s"

definition GetSettlements :: "store \<Rightarrow> bytes \<Rightarrow> SettlementRecord list" where
  "GetSettlements s hash = scan asSettle (SettlementKeyPrefix @ hash) s"

text \<open>The authority override (keeper.go \<open>GetAuthority\<close>).\<close>

definition GetAuthority :: "Keeper \<Rightarrow> store \<Rightarrow> string" where
  "GetAuthority K s = (case lookup asText AuthorityKey s of
     None \<Rightarrow> k_authority K | Some address \<Rightarrow> if address \<noteq> [] then address else k_authority K)"

definition SetAuthority :: "string \<Rightarrow> store \<Rightarrow> store" where
  "SetAuthority address s = kv_set AuthorityKey (VText address) s"

definition GetChainID :: "Keeper \<Rightarrow> ctx \<Rightarrow> string" where
  "GetChainID K c = (if k_chainID K \<noteq> [] then k_chainID K else ctxChainID c)"

end
