(* ===== verification/StoreSpec.thy ===== *)
theory StoreSpec
  imports Store
begin

text \<open>
  The interfaces of the typed store. \<open>typed_table\<close> is what a client of one table relies on:
  a lookup after the table's own writes and deletes, and after a write under any other tag.
  \<open>absstate\<close> is the abstract state, a record of finite maps; \<open>abs\<close> reads it off the bytes,
  and each write of the code is an update of one or two of its maps (\<open>abs_Set*\<close>). The
  invariant \<open>keyed\<close> says every record sits under its own key.
\<close>

section \<open>Lookups and scans after one write\<close>

lemma lookup_set: "lookup dec k (kv_set k' v s) = (if k = k' then dec v else lookup dec k s)"
  by (simp add: lookup_def store_simps)

lemma lookup_delete: "lookup dec k (kv_delete k' s) = (if k = k' then None else lookup dec k s)"
  by (simp add: lookup_def store_simps)

lemma lookup_empty [simp]: "lookup dec k kv_empty = None"
  by (simp add: lookup_def)

definition scan_pairs :: "(sval \<Rightarrow> 'a option) \<Rightarrow> bytes \<Rightarrow> store \<Rightarrow> (bytes \<times> 'a) list" where
  "scan_pairs dec p s = List.map_filter (\<lambda>e. map_option (Pair (fst e)) (dec (snd e))) (kv_prefix p s)"

lemma scan_scan_pairs: "scan dec p s = map snd (scan_pairs dec p s)"
  unfolding scan_def scan_pairs_def
  by (induction "kv_prefix p s" rule: list.induct) (auto simp: List.map_filter_def o_def)

lemma scan_pairs_set: "(k, x) \<in> set (scan_pairs dec p s) \<longleftrightarrow> hasPrefix k p \<and> lookup dec k s = Some x"
proof -
  have "(k, x) \<in> set (scan_pairs dec p s) \<longleftrightarrow> (\<exists>v. (k, v) \<in> set (kv_prefix p s) \<and> dec v = Some x)"
    unfolding scan_pairs_def set_map_filter by force
  then show ?thesis by (auto simp: kv_prefix_mem lookup_def bind_eq_Some_conv)
qed

lemma map_filter_fst_sorted:
  assumes "\<And>e y. f e = Some y \<Longrightarrow> fst y = fst e" and "sorted_wrt (<) (map fst xs)"
  shows "sorted_wrt (<) (map fst (List.map_filter f xs))"
  using assms(2)
proof (induction xs)
  case Nil
  then show ?case by (simp add: List.map_filter_simps)
next
  case (Cons e xs)
  have "\<forall>z \<in> set (List.map_filter f xs). fst e < fst z"
    using Cons.prems assms(1) by (fastforce simp: set_map_filter)
  with Cons show ?case
    by (auto simp: List.map_filter_simps split: option.splits dest!: assms(1))
qed

lemma scan_pairs_asc: "sorted_wrt (<) (map fst (scan_pairs dec p s))"
  unfolding scan_pairs_def by (rule map_filter_fst_sorted) (auto intro: kv_prefix_asc)

lemma scan_lookup_set: "set (scan dec p s) = {x. \<exists>k. hasPrefix k p \<and> lookup dec k s = Some x}"
proof -
  have "x \<in> set (scan dec p s) \<longleftrightarrow> (\<exists>k. (k, x) \<in> set (scan_pairs dec p s))" for x
    by (force simp: scan_scan_pairs)
  then show ?thesis by (auto simp: scan_pairs_set)
qed

lemma scan_lookup_cong:
  assumes "\<And>k. hasPrefix k p \<Longrightarrow> lookup dec k s = lookup dec k t"
  shows "scan dec p s = scan dec p t"
proof -
  have asc: "sorted (map fst (scan_pairs dec p u)) \<and> distinct (map fst (scan_pairs dec p u))" for u
    using scan_pairs_asc [of dec p u] by (simp add: strict_sorted_iff)
  have st: "set (scan_pairs dec p s) = set (scan_pairs dec p t)"
    using assms by (auto simp: scan_pairs_set)
  have "scan_pairs dec p s = scan_pairs dec p t"
    by (rule map_sorted_distinct_set_unique [where f = fst])
       (use asc st in \<open>auto simp: distinct_map\<close>)
  then show ?thesis by (simp add: scan_scan_pairs)
qed

text \<open>A scan lists every record once when each key is a function of its record.\<close>

lemma scan_distinct:
  assumes "\<And>k x. hasPrefix k p \<Longrightarrow> lookup dec k s = Some x \<Longrightarrow> k = key (f x)"
  shows "distinct (map f (scan dec p s))"
proof -
  have "map fst (scan_pairs dec p s) = map key (map f (scan dec p s))"
    using assms by (auto simp: scan_scan_pairs scan_pairs_set)
  moreover have "distinct (map fst (scan_pairs dec p s))"
    using scan_pairs_asc [of dec p s] by (simp add: strict_sorted_iff)
  ultimately show ?thesis by (metis distinct_map)
qed

section \<open>One table\<close>

locale typed_table =
  fixes tkey :: "'k \<Rightarrow> bytes" and wrap :: "'v \<Rightarrow> sval" and dec :: "sval \<Rightarrow> 'v option" and tag :: char
  assumes tkey_inject: "tkey a = tkey b \<longleftrightarrow> a = b"
    and dec_wrap: "dec (wrap v) = Some v"
    and tkey_tag: "key_tag (tkey a) = tag"
begin

lemma get_put:
  "lookup dec (tkey k') (kv_set (tkey k) (wrap v) s) = (if k' = k then Some v else lookup dec (tkey k') s)"
  by (simp add: lookup_set tkey_inject dec_wrap)

lemma get_delete:
  "lookup dec (tkey k') (kv_delete (tkey k) s) = (if k' = k then None else lookup dec (tkey k') s)"
  by (simp add: lookup_delete tkey_inject)

lemma get_foreign: "key_tag k \<noteq> tag \<Longrightarrow> lookup dec (tkey k') (kv_set k x s) = lookup dec (tkey k') s"
  using tkey_tag by (auto simp: lookup_set)

lemma get_foreign_delete:
  "key_tag k \<noteq> tag \<Longrightarrow> lookup dec (tkey k') (kv_delete k s) = lookup dec (tkey k') s"
  using tkey_tag by (auto simp: lookup_delete)

end

interpretation agents: typed_table agentKey VAgent asAgent "CHR 0x10"
  by unfold_locales (simp_all add: key_simps)
interpretation leases: typed_table agentLeaseKey VLease asLease "CHR 0x12"
  by unfold_locales (simp_all add: key_simps)
interpretation reports: typed_table riskReportKey VReport asReport "CHR 0x20"
  by unfold_locales (simp_all add: key_simps)
interpretation cases: typed_table sanctionCaseKey VCase asCase "CHR 0x30"
  by unfold_locales (simp_all add: key_simps)
interpretation actives: typed_table activeTxSanctionKey VActive asActive "CHR 0x50"
  by unfold_locales (simp_all add: key_simps)
interpretation freezes: typed_table frozenAddressKey VFreeze asFreeze "CHR 0x51"
  by unfold_locales (simp_all add: key_simps)
interpretation execs: typed_table executionRecordKey VExec asExec "CHR 0x60"
  by unfold_locales (simp_all add: key_simps)
interpretation reviews: typed_table reviewKey VReview asReview "CHR 0x72"
  by unfold_locales (simp_all add: key_simps)

section \<open>The abstract state\<close>

record absstate =
  st_params :: "Params option"
  st_authority :: "string option"
  st_agents :: "string \<rightharpoonup> AgentInfo"
  st_signers :: "string \<rightharpoonup> string"
  st_leases :: "string \<rightharpoonup> AgentLease"
  st_reports :: "string \<rightharpoonup> RiskReport"
  st_cases :: "string \<rightharpoonup> SanctionCase"
  st_caseByTx :: "bytes \<rightharpoonup> string"
  st_votes :: "bytes \<rightharpoonup> SanctionVote"
  st_active :: "bytes \<rightharpoonup> ActiveSanction"
  st_frozen :: "string \<rightharpoonup> FreezeRecord"
  st_execs :: "string \<rightharpoonup> ExecutionRecord"
  st_transfers :: "bytes \<rightharpoonup> OriginalTransfer"
  st_settles :: "bytes \<rightharpoonup> SettlementRecord"
  st_reviews :: "string \<rightharpoonup> ReviewRecord"

text \<open>Votes, transfers, settlements and the case index keep their raw keys.\<close>

definition voteRaw :: "string \<Rightarrow> string \<Rightarrow> bytes" where
  "voteRaw caseID agentID = caseID @ [NUL] @ agentID"

definition transferRaw :: "bytes \<Rightarrow> u32 \<Rightarrow> string \<Rightarrow> bytes" where
  "transferRaw hash index denom = hash @ be32 index @ denom"

definition caseTxRaw :: "bytes \<Rightarrow> string \<Rightarrow> bytes" where
  "caseTxRaw txHash caseID = txHash @ [NUL] @ caseID"

definition abs :: "store \<Rightarrow> absstate" where
  "abs s = \<lparr>
     st_params = lookup asParams ParamsKey s,
     st_authority = lookup asText AuthorityKey s,
     st_agents = (\<lambda>i. lookup asAgent (agentKey i) s),
     st_signers = (\<lambda>i. lookup asText (agentBySignerKey i) s),
     st_leases = (\<lambda>i. lookup asLease (agentLeaseKey i) s),
     st_reports = (\<lambda>i. lookup asReport (riskReportKey i) s),
     st_cases = (\<lambda>i. lookup asCase (sanctionCaseKey i) s),
     st_caseByTx = (\<lambda>i. lookup asText (CaseByTxKeyPrefix @ i) s),
     st_votes = (\<lambda>i. lookup asVote (SanctionVoteKeyPrefix @ i) s),
     st_active = (\<lambda>i. lookup asActive (activeTxSanctionKey i) s),
     st_frozen = (\<lambda>i. lookup asFreeze (frozenAddressKey i) s),
     st_execs = (\<lambda>i. lookup asExec (executionRecordKey i) s),
     st_transfers = (\<lambda>i. lookup asTransfer (OriginalTransferKeyPrefix @ i) s),
     st_settles = (\<lambda>i. lookup asSettle (SettlementKeyPrefix @ i) s),
     st_reviews = (\<lambda>i. lookup asReview (reviewKey i) s)\<rparr>"

subsection \<open>Reads\<close>

text \<open>Every read of the code is a read of the abstract state.\<close>

lemma get_abs [store_simps]:
  "GetAgent s i = st_agents (abs s) i"
  "GetAgentBySigner s g = Option.bind (st_signers (abs s) g) (st_agents (abs s))"
  "GetRiskReport s i = st_reports (abs s) i"
  "GetSanctionCase s i = st_cases (abs s) i"
  "GetSanctionVote s i a = st_votes (abs s) (voteRaw i a)"
  "GetActiveTxSanction s h = st_active (abs s) h"
  "GetFreezeRecord s i = st_frozen (abs s) i"
  "GetExecutionRecord s i = st_execs (abs s) i"
  "GetReview s i = st_reviews (abs s) i"
  "GetAgentLease s i = st_leases (abs s) i"
  "GetOriginalTransfer s h n d = st_transfers (abs s) (transferRaw h n d)"
  "GetSettlement s h n d = st_settles (abs s) (transferRaw h n d)"
  "GetParams s = (case st_params (abs s) of None \<Rightarrow> DefaultParams | Some p \<Rightarrow> p)"
  "GetAuthority K s = (case st_authority (abs s) of None \<Rightarrow> k_authority K
     | Some a \<Rightarrow> if a \<noteq> [] then a else k_authority K)"
  by (simp_all add: abs_def GetAgent_def GetAgentBySigner_def GetRiskReport_def GetSanctionCase_def
      GetSanctionVote_def GetActiveTxSanction_def GetFreezeRecord_def GetExecutionRecord_def
      GetReview_def GetAgentLease_def GetOriginalTransfer_def GetSettlement_def GetParams_def
      GetAuthority_def sanctionVoteKey_def voteRaw_def transferKey_def transferRaw_def
      split: option.splits)

lemma abs_empty: "abs kv_empty = \<lparr>st_params = None, st_authority = None, st_agents = Map.empty,
    st_signers = Map.empty, st_leases = Map.empty, st_reports = Map.empty, st_cases = Map.empty,
    st_caseByTx = Map.empty, st_votes = Map.empty, st_active = Map.empty, st_frozen = Map.empty,
    st_execs = Map.empty, st_transfers = Map.empty, st_settles = Map.empty, st_reviews = Map.empty\<rparr>"
  by (simp add: abs_def)

subsection \<open>Writes\<close>

lemmas abs_unfold = abs_def lookup_set lookup_delete fun_eq_iff key_defs prefix_defs

lemma abs_SetParams [store_simps]: "abs (SetParams p s) = (abs s)\<lparr>st_params := Some p\<rparr>"
  by (simp add: SetParams_def abs_unfold)

lemma abs_SetAuthority [store_simps]: "abs (SetAuthority a s) = (abs s)\<lparr>st_authority := Some a\<rparr>"
  by (simp add: SetAuthority_def abs_unfold)

lemma abs_SetAgent [store_simps]:
  "abs (SetAgent a s) = (abs s)
     \<lparr>st_agents := (st_agents (abs s))(ag_AgentId a \<mapsto> a),
      st_signers := (st_signers (abs s))(ag_SignerAddress a \<mapsto> ag_AgentId a)\<rparr>"
  by (simp add: SetAgent_def abs_unfold)

lemma abs_SetRiskReport [store_simps]:
  "abs (SetRiskReport r s) = (abs s)\<lparr>st_reports := (st_reports (abs s))(rr_ReportId r \<mapsto> r)\<rparr>"
  by (simp add: SetRiskReport_def abs_unfold Let_def)

lemma abs_SetSanctionCase [store_simps]:
  "abs (SetSanctionCase c s) = (abs s)
     \<lparr>st_cases := (st_cases (abs s))(sc_CaseId c \<mapsto> c),
      st_caseByTx := (if sc_TxHash c \<noteq> []
        then (st_caseByTx (abs s))(caseTxRaw (sc_TxHash c) (sc_CaseId c) \<mapsto> sc_CaseId c)
        else st_caseByTx (abs s))\<rparr>"
  by (simp add: SetSanctionCase_def abs_unfold caseTxRaw_def Let_def)

lemma abs_SetSanctionVote [store_simps]:
  "abs (SetSanctionVote v s) = (abs s)
     \<lparr>st_votes := (st_votes (abs s))(voteRaw (sv_CaseId v) (sv_AgentId v) \<mapsto> v)\<rparr>"
  by (simp add: SetSanctionVote_def abs_unfold voteRaw_def)

lemma abs_SetActiveTxSanction [store_simps]:
  "abs (SetActiveTxSanction a s) = (abs s)\<lparr>st_active := (st_active (abs s))(as_TxHash a \<mapsto> a)\<rparr>"
  by (simp add: SetActiveTxSanction_def abs_unfold)

lemma abs_DeleteActiveTxSanction [store_simps]:
  "abs (DeleteActiveTxSanction h s) = (abs s)\<lparr>st_active := (st_active (abs s))(h := None)\<rparr>"
  by (simp add: DeleteActiveTxSanction_def abs_unfold)

lemma abs_SetFreezeRecord [store_simps]:
  "abs (SetFreezeRecord f s) = (abs s)\<lparr>st_frozen := (st_frozen (abs s))(fr_Address f \<mapsto> f)\<rparr>"
  by (simp add: SetFreezeRecord_def abs_unfold)

lemma abs_DeleteFreezeRecord [store_simps]:
  "abs (DeleteFreezeRecord a s) = (abs s)\<lparr>st_frozen := (st_frozen (abs s))(a := None)\<rparr>"
  by (simp add: DeleteFreezeRecord_def abs_unfold)

lemma abs_SetExecutionRecord [store_simps]:
  "abs (SetExecutionRecord r s) = (abs s)\<lparr>st_execs := (st_execs (abs s))(er_CaseId r \<mapsto> r)\<rparr>"
  by (simp add: SetExecutionRecord_def abs_unfold)

lemma abs_SetReview [store_simps]:
  "abs (SetReview r s) = (abs s)\<lparr>st_reviews := (st_reviews (abs s))(rv_CaseId r \<mapsto> r)\<rparr>"
  by (simp add: SetReview_def abs_unfold)

lemma abs_SetAgentLease [store_simps]:
  "abs (SetAgentLease l s) = (abs s)\<lparr>st_leases := (st_leases (abs s))(al_SignerAddress l \<mapsto> l)\<rparr>"
  by (simp add: SetAgentLease_def abs_unfold)

lemma abs_SetOriginalTransfer [store_simps]:
  "abs (SetOriginalTransfer t s) = (abs s)\<lparr>st_transfers :=
     (st_transfers (abs s))(transferRaw (ot_TxHash t) (ot_MessageIndex t) (ot_Denom t) \<mapsto> t)\<rparr>"
  by (simp add: SetOriginalTransfer_def abs_unfold transferRaw_def)

lemma SetSettlement_Some:
  assumes "SetSettlement r s = Some s'"
  obtains t where "sr_Transfer r = Some t"
    and "abs s' = (abs s)\<lparr>st_settles :=
       (st_settles (abs s))(transferRaw (ot_TxHash t) (ot_MessageIndex t) (ot_Denom t) \<mapsto> r)\<rparr>"
proof -
  obtain t where t: "sr_Transfer r = Some t"
    and s': "s' = kv_set (transferKey SettlementKeyPrefix (ot_TxHash t) (ot_MessageIndex t) (ot_Denom t))
               (VSettle r) s"
    using assms by (auto simp: SetSettlement_def split: option.splits)
  have "abs s' = (abs s)\<lparr>st_settles :=
       (st_settles (abs s))(transferRaw (ot_TxHash t) (ot_MessageIndex t) (ot_Denom t) \<mapsto> r)\<rparr>"
    unfolding s' by (simp add: abs_unfold transferRaw_def)
  with t that show thesis by blast
qed

section \<open>Scans as functions of the abstract state\<close>

lemma hasPrefix_single: "hasPrefix k [c] \<longleftrightarrow> (\<exists>t. k = c # t)"
  by (cases k) (auto simp: hasPrefix_def)

lemma hasPrefix_Cons: "hasPrefix k (c # p) \<longleftrightarrow> (\<exists>t. k = c # t \<and> hasPrefix t p)"
  by (cases k) (auto simp: hasPrefix_def)

lemma getAll_set [store_simps]:
  "set (GetAllAgents s) = ran (st_agents (abs s))"
  "set (GetAllRiskReports s) = ran (st_reports (abs s))"
  "set (GetAllSanctionCases s) = ran (st_cases (abs s))"
  "set (GetAllExecutionRecords s) = ran (st_execs (abs s))"
  "set (GetAllActiveSanctions s) = ran (st_active (abs s))"
  "set (GetAllFreezeRecords s) = ran (st_frozen (abs s))"
  "set (GetAllReviews s) = ran (st_reviews (abs s))"
  "set (GetAllAgentLeases s) = ran (st_leases (abs s))"
  "set (GetSettlements s []) = ran (st_settles (abs s))"
  "set (GetOriginalTransfers s []) = ran (st_transfers (abs s))"
  "set (GetSanctionVotes s c) = {v. \<exists>k. hasPrefix k (c @ [NUL]) \<and> st_votes (abs s) k = Some v}"
  by (auto simp: GetAllAgents_def GetAllRiskReports_def GetAllSanctionCases_def
      GetAllExecutionRecords_def GetAllActiveSanctions_def GetAllFreezeRecords_def
      GetAllReviews_def GetAllAgentLeases_def GetSettlements_def GetOriginalTransfers_def
      GetSanctionVotes_def sanctionVotesPrefix_def scan_lookup_set ran_def abs_def key_defs prefix_defs
      hasPrefix_single hasPrefix_Cons)

lemma GetAllAgents_cong: "st_agents (abs s) = st_agents (abs t) \<Longrightarrow> GetAllAgents s = GetAllAgents t"
  unfolding GetAllAgents_def
  by (rule scan_lookup_cong) (auto simp: abs_def fun_eq_iff agentKey_def AgentKeyPrefix_def hasPrefix_single)

lemma GetSanctionVotes_cong:
  "st_votes (abs s) = st_votes (abs t) \<Longrightarrow> GetSanctionVotes s c = GetSanctionVotes t c"
  unfolding GetSanctionVotes_def sanctionVotesPrefix_def
  by (rule scan_lookup_cong) (auto simp: abs_def fun_eq_iff SanctionVoteKeyPrefix_def hasPrefix_Cons)

text \<open>The case index by transaction, exact on hashes of equal length.\<close>

lemma GetSanctionCasesByTx_set:
  "c \<in> set (GetSanctionCasesByTx s h) \<longleftrightarrow>
     (\<exists>k i. hasPrefix k h \<and> st_caseByTx (abs s) k = Some i \<and> i \<noteq> [] \<and> st_cases (abs s) i = Some c)"
  by (auto simp: GetSanctionCasesByTx_def List.map_filter_def scan_lookup_set splitIndexedValue_def
      txPrefix_def abs_def CaseByTxKeyPrefix_def hasPrefix_Cons GetSanctionCase_def bind_eq_Some_conv
      split: if_splits)
     (force simp: scan_lookup_set txPrefix_def CaseByTxKeyPrefix_def hasPrefix_Cons)+

section \<open>Records under their own keys\<close>

definition keyed :: "store \<Rightarrow> bool" where
  "keyed s \<longleftrightarrow>
     (\<forall>i a. st_agents (abs s) i = Some a \<longrightarrow> ag_AgentId a = i)
   \<and> (\<forall>i r. st_reports (abs s) i = Some r \<longrightarrow> rr_ReportId r = i)
   \<and> (\<forall>i c. st_cases (abs s) i = Some c \<longrightarrow> sc_CaseId c = i)
   \<and> (\<forall>k v. st_votes (abs s) k = Some v \<longrightarrow> k = voteRaw (sv_CaseId v) (sv_AgentId v))
   \<and> (\<forall>i l. st_leases (abs s) i = Some l \<longrightarrow> al_SignerAddress l = i)
   \<and> (\<forall>h a. st_active (abs s) h = Some a \<longrightarrow> as_TxHash a = h)
   \<and> (\<forall>i f. st_frozen (abs s) i = Some f \<longrightarrow> fr_Address f = i)
   \<and> (\<forall>i r. st_execs (abs s) i = Some r \<longrightarrow> er_CaseId r = i)
   \<and> (\<forall>i r. st_reviews (abs s) i = Some r \<longrightarrow> rv_CaseId r = i)
   \<and> (\<forall>k t. st_transfers (abs s) k = Some t \<longrightarrow>
        k = transferRaw (ot_TxHash t) (ot_MessageIndex t) (ot_Denom t))
   \<and> (\<forall>k r. st_settles (abs s) k = Some r \<longrightarrow>
        (\<exists>t. sr_Transfer r = Some t \<and> k = transferRaw (ot_TxHash t) (ot_MessageIndex t) (ot_Denom t)))"

text \<open>The agents of a keyed store, listed once each, under their own ids.\<close>

lemma GetAllAgents_keyed:
  assumes "keyed s"
  shows "distinct (map ag_AgentId (GetAllAgents s))"
    "a \<in> set (GetAllAgents s) \<longleftrightarrow> st_agents (abs s) (ag_AgentId a) = Some a"
proof -
  show "distinct (map ag_AgentId (GetAllAgents s))"
    unfolding GetAllAgents_def
    by (rule scan_distinct [where key = agentKey])
       (use assms in \<open>auto simp: keyed_def abs_def agentKey_def AgentKeyPrefix_def hasPrefix_single\<close>)
  show "a \<in> set (GetAllAgents s) \<longleftrightarrow> st_agents (abs s) (ag_AgentId a) = Some a"
    using assms by (auto simp: getAll_set ran_def keyed_def)
qed

lemma keyed_empty [simp]: "keyed kv_empty"
  by (simp add: keyed_def abs_empty)

lemma keyed_writes [intro]:
  "keyed s \<Longrightarrow> keyed (SetParams p s)"
  "keyed s \<Longrightarrow> keyed (SetAuthority t s)"
  "keyed s \<Longrightarrow> keyed (SetAgent a s)"
  "keyed s \<Longrightarrow> keyed (SetRiskReport r s)"
  "keyed s \<Longrightarrow> keyed (SetSanctionCase c s)"
  "keyed s \<Longrightarrow> keyed (SetSanctionVote v s)"
  "keyed s \<Longrightarrow> keyed (SetActiveTxSanction b s)"
  "keyed s \<Longrightarrow> keyed (DeleteActiveTxSanction h s)"
  "keyed s \<Longrightarrow> keyed (SetFreezeRecord f s)"
  "keyed s \<Longrightarrow> keyed (DeleteFreezeRecord t s)"
  "keyed s \<Longrightarrow> keyed (SetExecutionRecord e s)"
  "keyed s \<Longrightarrow> keyed (SetReview w s)"
  "keyed s \<Longrightarrow> keyed (SetAgentLease l s)"
  "keyed s \<Longrightarrow> keyed (SetOriginalTransfer o' s)"
  by (simp_all add: keyed_def store_simps)

lemma keyed_SetSettlement: "keyed s \<Longrightarrow> SetSettlement r s = Some s' \<Longrightarrow> keyed s'"
  by (erule SetSettlement_Some) (simp add: keyed_def)

end
