(* ===== verification/Policy.thy ===== *)
theory Policy
  imports Validate
begin

text \<open>
  The deterministic policy: x/sanction/keeper/policy.go on the chain and
  dev/agent/internal/policy/policy.go in the agents. The two are written separately and must
  agree, or an agent would request an action the chain refuses: \<open>chain_policy_is_agent_policy\<close>.
\<close>

section \<open>The chain's policy (keeper/policy.go)\<close>

fun stringInSlice :: "string \<Rightarrow> string list \<Rightarrow> bool" where
  "stringInSlice value [] = False"
| "stringInSlice value (candidate # cs) = (if value = candidate then True else stringInSlice value cs)"

fun actionInSlice :: "SanctionAction \<Rightarrow> SanctionAction list \<Rightarrow> bool" where
  "actionInSlice action [] = False"
| "actionInSlice action (allowed # as) = (if action = allowed then True else actionInSlice action as)"

definition actionAllowed :: "SanctionAction \<Rightarrow> Params \<Rightarrow> bool" where
  "actionAllowed action params = actionInSlice action (p_AllowedActions params)"

lemma stringInSlice_iff [simp]: "stringInSlice v vs \<longleftrightarrow> v \<in> set vs"
  by (induction vs) auto

lemma actionAllowed_iff: "actionAllowed a p \<longleftrightarrow> a \<in> set (p_AllowedActions p)"
proof -
  have "actionInSlice a as \<longleftrightarrow> a \<in> set as" for as by (induction as) auto
  then show ?thesis by (simp add: actionAllowed_def)
qed

text \<open>The inner and the outer loop over the reports.\<close>

fun scanCategories :: "string list \<Rightarrow> Params \<Rightarrow> bool \<Rightarrow> bool" where
  "scanCategories [] params highRisk = highRisk"
| "scanCategories (category # cs) params highRisk =
     scanCategories cs params (if stringInSlice category (p_HighRiskCategories params) then True else highRisk)"

fun scanReports :: "RiskReport list \<Rightarrow> Params \<Rightarrow> u32 \<Rightarrow> bool \<Rightarrow> u32 \<times> bool" where
  "scanReports [] params maxScore highRisk = (maxScore, highRisk)"
| "scanReports (report # rs) params maxScore highRisk =
     scanReports rs params (if rr_RiskScore report > maxScore then rr_RiskScore report else maxScore)
       (scanCategories (rr_RiskCategories report) params highRisk)"

definition ComputePolicyAction ::
    "RiskReport list \<Rightarrow> Params \<Rightarrow> SanctionTargetType \<Rightarrow> SanctionAction" where
  "ComputePolicyAction reports params targetType = (case scanReports reports params 0 False of
     (maxScore, highRisk) \<Rightarrow>
     if \<not> highRisk then
       if maxScore \<ge> p_WatchThreshold params then SANCTION_ACTION_WATCH
       else SANCTION_ACTION_UNSPECIFIED
     else let action =
         (if maxScore \<ge> p_RevertThreshold params then SANCTION_ACTION_REVERT_TRANSFER
          else if maxScore \<ge> p_FreezeThreshold params then SANCTION_ACTION_FREEZE_ADDRESS
          else if maxScore \<ge> p_BlockThreshold params then SANCTION_ACTION_BLOCK_TX
          else if maxScore \<ge> p_WatchThreshold params then SANCTION_ACTION_WATCH
          else SANCTION_ACTION_UNSPECIFIED)
       in if targetType = SANCTION_TARGET_TYPE_TX \<and>
             (action = SANCTION_ACTION_REVERT_TRANSFER \<or> action = SANCTION_ACTION_FREEZE_ADDRESS
              \<or> action = SANCTION_ACTION_ESCROW_FUNDS)
          then SANCTION_ACTION_BLOCK_TX else action)"

section \<open>The agent's policy (dev/agent/internal/policy/policy.go)\<close>

record Thresholds =
  th_WatchThreshold :: u32
  th_BlockThreshold :: u32
  th_FreezeThreshold :: u32
  th_RevertThreshold :: u32
  th_HighRiskCategories :: "string list"

definition DefaultThresholds :: Thresholds where
  "DefaultThresholds = \<lparr>th_WatchThreshold = p_WatchThreshold DefaultParams,
     th_BlockThreshold = p_BlockThreshold DefaultParams,
     th_FreezeThreshold = p_FreezeThreshold DefaultParams,
     th_RevertThreshold = p_RevertThreshold DefaultParams,
     th_HighRiskCategories = p_HighRiskCategories DefaultParams\<rparr>"

fun categoryMatches :: "string \<Rightarrow> string list \<Rightarrow> bool" where
  "categoryMatches category [] = False"
| "categoryMatches category (h # hs) = (category = h \<or> categoryMatches category hs)"

fun anyHighRisk :: "string list \<Rightarrow> string list \<Rightarrow> bool \<Rightarrow> bool" where
  "anyHighRisk [] hs highRisk = highRisk"
| "anyHighRisk (c # cs) hs highRisk = anyHighRisk cs hs (categoryMatches c hs \<or> highRisk)"

definition Action :: "u32 \<Rightarrow> string list \<Rightarrow> SanctionTargetType \<Rightarrow> Thresholds \<Rightarrow> SanctionAction" where
  "Action score categories targetType th =
     (if \<not> anyHighRisk categories (th_HighRiskCategories th) False then
        if score \<ge> th_WatchThreshold th then SANCTION_ACTION_WATCH
        else SANCTION_ACTION_UNSPECIFIED
      else let action =
         (if score \<ge> th_RevertThreshold th then SANCTION_ACTION_REVERT_TRANSFER
          else if score \<ge> th_FreezeThreshold th then SANCTION_ACTION_FREEZE_ADDRESS
          else if score \<ge> th_BlockThreshold th then SANCTION_ACTION_BLOCK_TX
          else if score \<ge> th_WatchThreshold th then SANCTION_ACTION_WATCH
          else SANCTION_ACTION_UNSPECIFIED)
       in if targetType = SANCTION_TARGET_TYPE_TX \<and>
             (action = SANCTION_ACTION_REVERT_TRANSFER \<or> action = SANCTION_ACTION_FREEZE_ADDRESS
              \<or> action = SANCTION_ACTION_ESCROW_FUNDS)
          then SANCTION_ACTION_BLOCK_TX else action)"

text \<open>The thresholds an agent builds from the chain's parameters (daemon_recovery.go \<open>evaluate\<close>).\<close>

definition thresholdsOf :: "Params \<Rightarrow> Thresholds" where
  "thresholdsOf p = \<lparr>th_WatchThreshold = p_WatchThreshold p, th_BlockThreshold = p_BlockThreshold p,
     th_FreezeThreshold = p_FreezeThreshold p, th_RevertThreshold = p_RevertThreshold p,
     th_HighRiskCategories = p_HighRiskCategories p\<rparr>"

section \<open>Facts about the loops\<close>

lemma scanCategories_eq:
  "scanCategories cs p b \<longleftrightarrow> b \<or> (\<exists>c \<in> set cs. c \<in> set (p_HighRiskCategories p))"
  by (induction cs arbitrary: b) auto

lemma anyHighRisk_eq: "anyHighRisk cs hs b \<longleftrightarrow> b \<or> (\<exists>c \<in> set cs. c \<in> set hs)"
proof -
  have "categoryMatches c hs \<longleftrightarrow> c \<in> set hs" for c by (induction hs) auto
  then show ?thesis by (induction cs arbitrary: b) auto
qed

lemma scanReports_eq:
  "scanReports rs p m b =
     (foldl max m (map rr_RiskScore rs),
      b \<or> (\<exists>c \<in> set (concat (map rr_RiskCategories rs)). c \<in> set (p_HighRiskCategories p)))"
  by (induction rs arbitrary: m b) (auto simp: scanCategories_eq max_def not_less)

definition maxRiskScore :: "RiskReport list \<Rightarrow> u32" where
  "maxRiskScore rs = foldl max 0 (map rr_RiskScore rs)"

lemma foldl_max_ge: "(m :: 'a :: linorder) \<le> foldl max m xs \<and> (\<forall>x \<in> set xs. x \<le> foldl max m xs)"
  by (induction xs arbitrary: m) (fastforce simp: max_def split: if_splits)+

section \<open>Agreement of the two policies\<close>

text \<open>The step all properties below share: the chain's decision in terms of the agent's.\<close>

lemma ComputePolicyAction_eq:
  "ComputePolicyAction rs p t = Action (maxRiskScore rs) (concat (map rr_RiskCategories rs)) t (thresholdsOf p)"
  by (simp add: ComputePolicyAction_def Action_def scanReports_eq anyHighRisk_eq maxRiskScore_def
      thresholdsOf_def del: set_concat)

text \<open>Severity, the order in which the thresholds escalate.\<close>

fun severity :: "SanctionAction \<Rightarrow> nat" where
  "severity SANCTION_ACTION_WATCH = 1"
| "severity SANCTION_ACTION_BLOCK_TX = 2"
| "severity SANCTION_ACTION_FREEZE_ADDRESS = 3"
| "severity SANCTION_ACTION_ESCROW_FUNDS = 4"
| "severity SANCTION_ACTION_REVERT_TRANSFER = 5"
| "severity _ = 0"

definition monotonicThresholds :: "Thresholds \<Rightarrow> bool" where
  "monotonicThresholds th \<longleftrightarrow> th_WatchThreshold th \<le> th_BlockThreshold th
     \<and> th_BlockThreshold th \<le> th_FreezeThreshold th \<and> th_FreezeThreshold th \<le> th_RevertThreshold th"

lemma ValidateParams_monotonic:
  "ValidateParams (Some p) = Inr () \<Longrightarrow> monotonicThresholds (thresholdsOf p)"
  by (auto simp: ValidateParams_def monotonicThresholds_def thresholdsOf_def not_less split: if_splits)

lemma Action_range:
  "Action s cs t th \<in> {SANCTION_ACTION_UNSPECIFIED, SANCTION_ACTION_WATCH, SANCTION_ACTION_BLOCK_TX,
     SANCTION_ACTION_FREEZE_ADDRESS, SANCTION_ACTION_REVERT_TRANSFER}"
  by (simp add: Action_def Let_def)

lemma Action_mono:
  assumes "s \<le> s'"
  shows "severity (Action s cs t th) \<le> severity (Action s' cs t th)"
  using assms by (auto simp: Action_def Let_def dest: order_trans)

lemma Action_tx_target:
  "Action s cs SANCTION_TARGET_TYPE_TX th
     \<in> {SANCTION_ACTION_UNSPECIFIED, SANCTION_ACTION_WATCH, SANCTION_ACTION_BLOCK_TX}"
  by (simp add: Action_def Let_def)

text \<open>With validated thresholds a sanction is recommended exactly from the watch threshold on.\<close>

lemma Action_specified_iff:
  assumes "monotonicThresholds th"
  shows "Action s cs t th \<noteq> SANCTION_ACTION_UNSPECIFIED \<longleftrightarrow> th_WatchThreshold th \<le> s"
  using assms by (auto simp: Action_def Let_def monotonicThresholds_def)

end
