(* ===== verification/Signature.thy ===== *)
theory Signature
  imports Keys Policy
begin

text \<open>
  The payloads the agents sign and the chain verifies: x/sanction/keeper/signature.go and
  \<open>DecisionHash\<close> of policy.go. Each part of a payload is written with its length, so a vote
  payload determines every signed field: \<open>VoteSignBytes\<close> is injective.
\<close>

definition writeUint64 :: "bytes \<Rightarrow> u64 \<Rightarrow> bytes" where
  "writeUint64 out value = out @ be64 value"

definition writeBytes :: "bytes \<Rightarrow> bytes \<Rightarrow> bytes" where
  "writeBytes out value = writeUint64 out (of_nat (length value)) @ value"

definition writeString :: "bytes \<Rightarrow> string \<Rightarrow> bytes" where
  "writeString out value = writeBytes out value"

text \<open>\<open>uint64(vote.Option)\<close> sign-extends the enum's \<open>int32\<close>.\<close>

definition VoteSignBytes :: "string \<Rightarrow> SanctionVote \<Rightarrow> bytes" where
  "VoteSignBytes chainID vote = (let
     out = writeString [] chainID;
     out = writeString out ModuleName;
     out = writeString out (sv_CaseId vote);
     out = writeString out (sv_AgentId vote);
     out = writeUint64 out (scast (option_number (sv_Option vote)));
     out = writeUint64 out (scast (action_number (sv_ApprovedAction vote)));
     out = writeString out (sv_ReasonCode vote);
     out = writeBytes out (sv_RationaleHash vote);
     out = writeUint64 out (sv_SignedHeight vote)
   in out)"

definition EvidenceHashStrings :: "'b env \<Rightarrow> string list \<Rightarrow> bytes" where
  "EvidenceHashStrings E parts = sha256 E (concat (map (\<lambda>part. part @ [NUL]) parts))"

definition RiskReportSignBytes :: "'b env \<Rightarrow> string \<Rightarrow> RiskReport \<Rightarrow> bytes" where
  "RiskReportSignBytes E chainID report = (let
     copyReport = report\<lparr>rr_SubmitterSignature := []\<rparr>;
     out = writeString [] chainID;
     out = writeString out ModuleName;
     out = writeBytes out (marshalRiskReport E copyReport)
   in out)"

definition VerifySecp256k1 :: "'b env \<Rightarrow> bytes \<Rightarrow> bytes \<Rightarrow> bytes \<Rightarrow> bool" where
  "VerifySecp256k1 E publicKey signature payload =
     (if publicKey = [] \<or> signature = [] then False
      else verifySignature E publicKey payload signature)"

definition DecisionHash :: "'b env \<Rightarrow> SanctionCase \<Rightarrow> bytes" where
  "DecisionHash E sanctionCase = sha256 E (marshalSanctionCase E (sanctionCase\<lparr>sc_DecisionHash := []\<rparr>))"

section \<open>Length-prefixed parts are uniquely readable\<close>

text \<open>A Go slice is shorter than \<open>2 ^ 64\<close>, so its length fits the prefix.\<close>

definition fits :: "bytes \<Rightarrow> bool" where
  "fits xs = (length xs < 2 ^ 64)"

lemma writeBytes_inject:
  assumes "fits a" "fits b"
  shows "writeBytes [] a @ x = writeBytes [] b @ y \<longleftrightarrow> a = b \<and> x = y"
proof
  assume "writeBytes [] a @ x = writeBytes [] b @ y"
  then have eq: "be64 (of_nat (length a)) @ a @ x = be64 (of_nat (length b)) @ b @ y"
    by (simp add: writeBytes_def writeUint64_def)
  then have "(of_nat (length a) :: u64) = of_nat (length b)" and ab: "a @ x = b @ y"
    by simp_all
  then have "unat (of_nat (length a) :: u64) = unat (of_nat (length b) :: u64)" by simp
  then have "length a = length b"
    using assms by (simp add: fits_def unat_of_nat)
  with ab show "a = b \<and> x = y" by simp
qed simp

lemma writeBytes_inject_end: "fits a \<Longrightarrow> fits b \<Longrightarrow> writeBytes [] a = writeBytes [] b \<longleftrightarrow> a = b"
  using writeBytes_inject [of a b "[]" "[]"] by simp

lemma scast_32_64_inject: "(scast (v :: 32 word) :: u64) = scast w \<longleftrightarrow> v = w"
proof
  assume "(scast v :: u64) = scast w"
  then have "(scast (scast v :: u64) :: 32 word) = scast (scast w :: u64)" by simp
  then show "v = w" by (simp add: scast_up_scast_id is_up)
qed simp

definition vote_fits :: "string \<Rightarrow> SanctionVote \<Rightarrow> bool" where
  "vote_fits chainID v \<longleftrightarrow> fits chainID \<and> fits (sv_CaseId v) \<and> fits (sv_AgentId v)
     \<and> fits (sv_ReasonCode v) \<and> fits (sv_RationaleHash v)
     \<and> canonical_option (sv_Option v) \<and> canonical_action (sv_ApprovedAction v)"

lemma VoteSignBytes_unfold:
  "VoteSignBytes chainID v =
     writeBytes [] chainID @ writeBytes [] ModuleName @ writeBytes [] (sv_CaseId v)
     @ writeBytes [] (sv_AgentId v) @ be64 (scast (option_number (sv_Option v)))
     @ be64 (scast (action_number (sv_ApprovedAction v))) @ writeBytes [] (sv_ReasonCode v)
     @ writeBytes [] (sv_RationaleHash v) @ be64 (sv_SignedHeight v)"
  by (simp add: VoteSignBytes_def writeString_def writeBytes_def writeUint64_def Let_def)

lemma fits_ModuleName: "fits ModuleName"
  by (simp add: fits_def ModuleName_def)

lemma VoteSignBytes_inject_raw:
  assumes v: "vote_fits c v" and w: "vote_fits d w" and eq: "VoteSignBytes c v = VoteSignBytes d w"
  shows "c = d \<and> v\<lparr>sv_Signature := []\<rparr> = w\<lparr>sv_Signature := []\<rparr>"
  using eq v w unfolding VoteSignBytes_unfold vote_fits_def
  by (simp add: writeBytes_inject writeBytes_inject_end fits_ModuleName scast_32_64_inject option_number_inject
      action_number_inject)

end
