(* ===== verification/Voting.thy ===== *)
theory Voting
  imports StoreSpec Signature
begin

text \<open>
  Voter snapshots and vote counting: x/sanction/keeper/voting_snapshot.go, with
  \<open>recomputeCaseStatus\<close>, \<open>roundedPercent\<close> and \<open>hasUnanimousApproval\<close> of msg_server.go.
  A case freezes its voters when it is opened; votes are counted against that snapshot only.
  \<open>big.Int\<close> sums are natural numbers.
\<close>

section \<open>The snapshot\<close>

text \<open>
  \<open>SnapshotCaseVoters\<close> fills in the case and validates it. \<open>sort.Slice\<close> by agent id is
  \<^const>\<open>sort_key\<close>: the agents of a store have distinct ids, so the sorted order is unique.
\<close>

definition eligible :: "AgentInfo \<Rightarrow> bool" where
  "eligible a = (ag_Active a \<and> ag_VotingPower a > 0 \<and> length (ag_PublicKey a) > 0)"

definition SnapshotCaseVoters :: "'b env \<Rightarrow> store \<Rightarrow> SanctionCase \<Rightarrow> error + SanctionCase" where
  "SnapshotCaseVoters E s c =
     (if sc_VotingSnapshotVersion c \<noteq> 0 \<or> sc_Voters c \<noteq> []
      then Inl (ErrText ''case snapshot is already set'')
      else let voters = filter eligible (GetAllAgents s) in
        if voters = [] then Inl (ErrText ''case requires a nonempty voter snapshot'')
        else let
          params = GetParams s;
          c' = c\<lparr>sc_Voters := map Some (sort_key ag_AgentId voters),
                 sc_QuorumThreshold := p_QuorumThreshold params,
                 sc_UnanimousRequiredForRevert := p_UnanimousRequiredForRevert params,
                 sc_VotingSnapshotVersion := 1\<rparr>
        in (case ValidateCaseSnapshot E c' of Inl e \<Rightarrow> Inl e | Inr _ \<Rightarrow> Inr c'))"

fun findVoter :: "string \<Rightarrow> AgentInfo option list \<Rightarrow> AgentInfo option" where
  "findVoter agentID [] = None"
| "findVoter agentID (v # vs) = (case v of
     Some a \<Rightarrow> if ag_AgentId a = agentID then Some a else findVoter agentID vs
   | None \<Rightarrow> findVoter agentID vs)"

definition caseVoter :: "SanctionCase \<Rightarrow> string \<Rightarrow> AgentInfo option" where
  "caseVoter c agentID =
     (if sc_VotingSnapshotVersion c \<noteq> 1 then None else findVoter agentID (sc_Voters c))"

section \<open>The tally\<close>

record snapshotTally =
  ty_total :: nat
  ty_approve :: nat
  ty_reject :: nat

text \<open>The map built when there are more than eight votes: the first vote of an agent wins.\<close>

fun buildOptions :: "SanctionVote option list \<Rightarrow> (string \<rightharpoonup> VoteOption) \<Rightarrow> (string \<rightharpoonup> VoteOption)" where
  "buildOptions [] options = options"
| "buildOptions (v # vs) options = (case v of
     None \<Rightarrow> buildOptions vs options
   | Some vote \<Rightarrow> buildOptions vs
       (if options (sv_AgentId vote) = None then options(sv_AgentId vote \<mapsto> sv_Option vote) else options))"

text \<open>The scan used for few votes, with the same first-match rule.\<close>

fun scanOption :: "string \<Rightarrow> SanctionVote option list \<Rightarrow> VoteOption" where
  "scanOption agentID [] = VOTE_OPTION_UNSPECIFIED"
| "scanOption agentID (v # vs) = (case v of
     Some vote \<Rightarrow> if sv_AgentId vote = agentID then sv_Option vote else scanOption agentID vs
   | None \<Rightarrow> scanOption agentID vs)"

fun tallyLoop ::
    "(string \<rightharpoonup> VoteOption) option \<Rightarrow> SanctionVote option list \<Rightarrow> AgentInfo option list
      \<Rightarrow> snapshotTally \<Rightarrow> snapshotTally" where
  "tallyLoop options votes [] t = t"
| "tallyLoop options votes (v # vs) t = (case v of
     None \<Rightarrow> tallyLoop options votes vs t
   | Some voter \<Rightarrow>
     if \<not> ag_Active voter then tallyLoop options votes vs t
     else let
       pow = unat (ag_VotingPower voter);
       t1 = t\<lparr>ty_total := ty_total t + pow\<rparr>;
       option = (case options of
         Some m \<Rightarrow> (case m (ag_AgentId voter) of None \<Rightarrow> default | Some o' \<Rightarrow> o')
       | None \<Rightarrow> scanOption (ag_AgentId voter) votes);
       t2 = (if option = VOTE_OPTION_APPROVE then t1\<lparr>ty_approve := ty_approve t1 + pow\<rparr>
             else if option = VOTE_OPTION_REJECT then t1\<lparr>ty_reject := ty_reject t1 + pow\<rparr>
             else t1)
     in tallyLoop options votes vs t2)"

definition tallySnapshotVotes :: "AgentInfo option list \<Rightarrow> SanctionVote option list \<Rightarrow> snapshotTally" where
  "tallySnapshotVotes voters votes =
     tallyLoop (if length votes > 8 then Some (buildOptions votes Map.empty) else None) votes voters
       \<lparr>ty_total = 0, ty_approve = 0, ty_reject = 0\<rparr>"

section \<open>Deciding a case\<close>

text \<open>\<open>Uint64()\<close> keeps the low 64 bits of the \<open>big.Int\<close>.\<close>

definition roundedPercent :: "nat \<Rightarrow> nat \<Rightarrow> u64" where
  "roundedPercent pow totalPower =
     (if totalPower = 0 then 0 else of_nat ((pow * 100 + (totalPower - 1)) div totalPower))"

definition activeSanctionOf :: "ctx \<Rightarrow> SanctionCase \<Rightarrow> ActiveSanction" where
  "activeSanctionOf c sc = \<lparr>as_CaseId = sc_CaseId sc, as_TxHash = sc_TxHash sc,
     as_TargetAddress = sc_TargetAddress sc, as_Action = sc_RequestedAction sc,
     as_ActivatedHeight = blockHeight c\<rparr>"

text \<open>Returns the store, the case with its new status, and (approved, rejected).\<close>

definition recomputeCaseStatus ::
    "ctx \<Rightarrow> store \<Rightarrow> SanctionCase \<Rightarrow> store \<times> SanctionCase \<times> bool \<times> bool" where
  "recomputeCaseStatus c s sc =
     (if sc_VotingSnapshotVersion sc \<noteq> 1 then (s, sc, False, False)
      else let
        votes = GetSanctionVotes s (sc_CaseId sc);
        tally = tallySnapshotVotes (sc_Voters sc) (map Some votes)
      in if ty_total tally = 0 then (s, sc, False, False)
         else if roundedPercent (ty_approve tally) (ty_total tally) \<ge> ucast (sc_QuorumThreshold sc)
         then (if sc_RequestedAction sc = SANCTION_ACTION_BLOCK_TX
               then SetActiveTxSanction (activeSanctionOf c sc) s else s,
               sc\<lparr>sc_Status := CASE_STATUS_APPROVED\<rparr>, True, False)
         else if roundedPercent (ty_reject tally) (ty_total tally) \<ge> ucast (sc_QuorumThreshold sc)
         then (s, sc\<lparr>sc_Status := CASE_STATUS_REJECTED\<rparr>, False, True)
         else (s, sc, False, False))"

text \<open>The loop of \<open>hasUnanimousApproval\<close> counts the active voters; every one must approve.\<close>

fun unanimousLoop :: "store \<Rightarrow> string \<Rightarrow> AgentInfo option list \<Rightarrow> nat \<Rightarrow> bool" where
  "unanimousLoop s caseID [] active = (active > 0)"
| "unanimousLoop s caseID (v # vs) active = (case v of
     None \<Rightarrow> unanimousLoop s caseID vs active
   | Some agent \<Rightarrow>
     if \<not> ag_Active agent \<or> ag_VotingPower agent = 0 then unanimousLoop s caseID vs active
     else (case GetSanctionVote s caseID (ag_AgentId agent) of
         None \<Rightarrow> False
       | Some vote \<Rightarrow> if sv_Option vote \<noteq> VOTE_OPTION_APPROVE then False
                      else unanimousLoop s caseID vs (Suc active)))"

definition hasUnanimousApproval :: "store \<Rightarrow> string \<Rightarrow> bool" where
  "hasUnanimousApproval s caseID = (case GetSanctionCase s caseID of
     None \<Rightarrow> False
   | Some c \<Rightarrow> if sc_VotingSnapshotVersion c \<noteq> 1 then False
               else unanimousLoop s caseID (sc_Voters c) 0)"

section \<open>The map and the scan count alike\<close>

lemma buildOptions_scan_from:
  "(case buildOptions votes m i of None \<Rightarrow> VOTE_OPTION_UNSPECIFIED | Some o' \<Rightarrow> o')
     = (case m i of None \<Rightarrow> scanOption i votes | Some o' \<Rightarrow> o')"
  by (induction votes m rule: buildOptions.induct) (auto split: option.splits)

lemma buildOptions_scan:
  "(case buildOptions votes Map.empty i of None \<Rightarrow> VOTE_OPTION_UNSPECIFIED | Some o' \<Rightarrow> o')
     = scanOption i votes"
  by (simp add: buildOptions_scan_from)

text \<open>
  The reference tally: the sum of the powers of the active voters, and of those whose first
  vote has the option.
\<close>

definition activeVoters :: "AgentInfo option list \<Rightarrow> AgentInfo list" where
  "activeVoters voters = filter ag_Active (nonNil voters)"

definition powerOf :: "AgentInfo list \<Rightarrow> nat" where
  "powerOf as = sum_list (map (\<lambda>a. unat (ag_VotingPower a)) as)"

definition votedPower :: "VoteOption \<Rightarrow> AgentInfo option list \<Rightarrow> SanctionVote option list \<Rightarrow> nat" where
  "votedPower opt voters votes =
     powerOf (filter (\<lambda>a. scanOption (ag_AgentId a) votes = opt) (activeVoters voters))"

lemma nonNil_simps [simp]:
  "nonNil [] = []" "nonNil (None # xs) = nonNil xs" "nonNil (Some x # xs) = x # nonNil xs"
  by (simp_all add: nonNil_def)

lemma nonNil_map_Some [simp]: "nonNil (map Some xs) = xs"
  by (induction xs) auto

lemma tallyLoop_eq:
  assumes "\<And>i. (case options of Some m \<Rightarrow> (case m i of None \<Rightarrow> VOTE_OPTION_UNSPECIFIED | Some o' \<Rightarrow> o')
      | None \<Rightarrow> scanOption i votes) = scanOption i votes"
  shows "tallyLoop options votes voters t =
     \<lparr>ty_total = ty_total t + powerOf (activeVoters voters),
      ty_approve = ty_approve t + votedPower VOTE_OPTION_APPROVE voters votes,
      ty_reject = ty_reject t + votedPower VOTE_OPTION_REJECT voters votes\<rparr>"
proof (induction voters arbitrary: t)
  case Nil
  then show ?case by (simp add: activeVoters_def votedPower_def powerOf_def)
next
  case (Cons v vs)
  show ?case
  proof (cases v)
    case None
    with Cons show ?thesis by (simp add: activeVoters_def votedPower_def)
  next
    case (Some a)
    with Cons show ?thesis
      by (simp add: assms [folded default_VoteOption_def] activeVoters_def votedPower_def powerOf_def Let_def)
  qed
qed

lemma tallySnapshotVotes_eq:
  "tallySnapshotVotes voters votes =
     \<lparr>ty_total = powerOf (activeVoters voters),
      ty_approve = votedPower VOTE_OPTION_APPROVE voters votes,
      ty_reject = votedPower VOTE_OPTION_REJECT voters votes\<rparr>"
  unfolding tallySnapshotVotes_def
  by (subst tallyLoop_eq) (auto simp: buildOptions_scan)

lemma powerOf_filter_le: "powerOf (filter P as) \<le> powerOf as"
  by (induction as) (auto simp: powerOf_def)

lemma powerOf_disjoint:
  "o1 \<noteq> o2 \<Longrightarrow> powerOf (filter (\<lambda>a. f a = o1) as) + powerOf (filter (\<lambda>a. f a = o2) as) \<le> powerOf as"
  by (induction as) (auto simp: powerOf_def)

lemma votedPower_le: "votedPower opt voters votes \<le> powerOf (activeVoters voters)"
  unfolding votedPower_def by (rule powerOf_filter_le)

lemma votedPower_disjoint:
  "votedPower VOTE_OPTION_APPROVE voters votes + votedPower VOTE_OPTION_REJECT voters votes
     \<le> powerOf (activeVoters voters)"
  unfolding votedPower_def by (rule powerOf_disjoint) simp

section \<open>The quorum test\<close>

text \<open>
  \<open>roundedPercent\<close> rounds up, so a quorum of \<open>q\<close> percent is met as soon as the power
  exceeds \<open>q - 1\<close> percent.
\<close>

lemma roundedPercent_le_100:
  assumes "pow \<le> (tot :: nat)"
  shows "(pow * 100 + (tot - 1)) div tot \<le> 100"
proof (cases "tot = 0")
  case False
  have "pow * 100 + (tot - 1) < 101 * tot" using assms False by simp
  then show ?thesis using False by (simp add: div_less_iff_less_mult less_Suc_eq_le [symmetric])
qed simp

lemma unat_roundedPercent:
  assumes "pow \<le> tot" "0 < tot"
  shows "unat (roundedPercent pow tot) = (pow * 100 + (tot - 1)) div tot"
  using roundedPercent_le_100 [OF assms(1)] assms(2)
  by (simp add: roundedPercent_def unat_of_nat)

lemma ceil_ge_iff:
  assumes "0 < (tot::nat)" "0 < q"
  shows "q \<le> (n + (tot - 1)) div tot \<longleftrightarrow> (q - 1) * tot < n"
proof -
  have "q \<le> (n + (tot - 1)) div tot \<longleftrightarrow> q * tot \<le> n + (tot - 1)"
    using assms(1) by (simp add: less_eq_div_iff_mult_less_eq)
  also have "\<dots> \<longleftrightarrow> (q - 1) * tot < n"
  proof (cases q)
    case 0
    with assms show ?thesis by simp
  next
    case (Suc k)
    then show ?thesis using assms(1) by (simp; linarith)
  qed
  finally show ?thesis .
qed

lemma unat_ucast_quorum: "unat (ucast (q :: u32) :: u64) = unat q"
  using unsigned_less [of q, where ?'a=nat]
  by (simp add: unsigned_ucast_eq take_bit_nat_eq_self_iff)

lemma quorum_test:
  assumes "pow \<le> tot" "0 < tot" "q \<noteq> 0"
  shows "ucast (q :: u32) \<le> roundedPercent pow tot \<longleftrightarrow> (unat q - 1) * tot < 100 * pow"
proof -
  have q: "0 < unat q" using assms(3) by (simp add: unat_gt_0)
  have "ucast q \<le> roundedPercent pow tot \<longleftrightarrow> unat q \<le> (pow * 100 + (tot - 1)) div tot"
    using assms by (simp add: word_le_nat_alt unat_roundedPercent unat_ucast_quorum)
  also have "\<dots> \<longleftrightarrow> (unat q - 1) * tot < pow * 100"
    using ceil_ge_iff [OF assms(2) q] by simp
  finally show ?thesis by (simp add: mult.commute)
qed

end
