(* ===== verification/Execution.thy ===== *)
theory Execution
  imports StoreSpec Signature
begin

text \<open>
  Receipts of transfers and the settlements that undo them: x/sanction/keeper/transfers.go and
  execution.go. A receipt (\<open>OriginalTransfer\<close>) is written by the post-handler for each coin of
  a delivered bank send; escrow and revert pay against a receipt, once.
\<close>

section \<open>Receipts (transfers.go)\<close>

text \<open>
  The messages a transaction may carry, as far as this code tells them apart. The third party's
  \<open>banktypes.MsgSend\<close> has the sender, the recipient and the coins.
\<close>

datatype sdkMsg =
    MsgSend string string coins
  | ClaimLease MsgClaimAgentLease
  | OtherMsg

definition TxHash :: "'b env \<Rightarrow> bytes \<Rightarrow> bytes" where
  "TxHash E tx = tmhashSum E tx"

fun recordCoins :: "'b env \<Rightarrow> ctx \<Rightarrow> bytes \<Rightarrow> nat \<Rightarrow> string \<Rightarrow> string \<Rightarrow> coins \<Rightarrow> store \<Rightarrow> store" where
  "recordCoins E c hash index from to [] s = s"
| "recordCoins E c hash index from to (coin # rest) s =
     recordCoins E c hash index from to rest
       (SetOriginalTransfer
         \<lparr>ot_TxHash = hash, ot_MessageIndex = of_nat index, ot_Sender = from, ot_Recipient = to,
          ot_Denom = fst coin, ot_Amount = intString E (snd coin), ot_Height = blockHeight c\<rparr> s)"

fun recordMsgs :: "'b env \<Rightarrow> ctx \<Rightarrow> bytes \<Rightarrow> nat \<Rightarrow> sdkMsg list \<Rightarrow> store \<Rightarrow> store" where
  "recordMsgs E c hash index [] s = s"
| "recordMsgs E c hash index (msg # msgs) s = recordMsgs E c hash (Suc index) msgs
     (case msg of MsgSend from to amount \<Rightarrow> recordCoins E c hash index from to amount s | _ \<Rightarrow> s)"

definition RecordOriginalTransfers ::
    "'b env \<Rightarrow> ctx \<Rightarrow> sdkMsg list \<Rightarrow> bool \<Rightarrow> bool \<Rightarrow> store \<Rightarrow> store" where
  "RecordOriginalTransfers E c msgs simulate success s =
     (if simulate \<or> \<not> success \<or> \<not> execModeFinalize c then s
      else recordMsgs E c (TxHash E (txBytes c)) 0 msgs s)"

definition validateOriginal :: "ctx \<Rightarrow> store \<Rightarrow> RiskReport \<Rightarrow> error + OriginalTransfer" where
  "validateOriginal c s report =
     (case GetOriginalTransfer s (rr_TxHash report) (rr_MessageIndex report) (rr_Denom report) of
        None \<Rightarrow> Inl ErrOriginalTransfer
      | Some t \<Rightarrow>
          if ot_Height t \<ge> blockHeight c \<or> ot_Sender t \<noteq> rr_Sender report
             \<or> ot_Recipient t \<noteq> rr_Recipient report \<or> ot_Amount t \<noteq> rr_Amount report
             \<or> ot_Denom t \<noteq> rr_Denom report \<or> ot_TxHash t \<noteq> rr_TxHash report
          then Inl ErrOriginalTransfer else Inr t)"

definition unsettledOriginal :: "ctx \<Rightarrow> store \<Rightarrow> RiskReport \<Rightarrow> error + OriginalTransfer" where
  "unsettledOriginal c s report = bind_r (validateOriginal c s report) (\<lambda>t.
     case GetSettlement s (ot_TxHash t) (ot_MessageIndex t) (ot_Denom t) of
       Some record \<Rightarrow> Inl ErrAlreadySettled
     | None \<Rightarrow> Inr t)"

section \<open>The freeze and its exemption (execution.go)\<close>

definition IsAddressFrozen :: "store \<Rightarrow> string \<Rightarrow> bool" where
  "IsAddressFrozen s address = (GetFreezeRecord s address \<noteq> None)"

definition SendCoinsAllowed :: "'b env \<Rightarrow> ctx \<Rightarrow> store \<Rightarrow> bytes \<Rightarrow> bytes \<Rightarrow> error + unit" where
  "SendCoinsAllowed E c s from to =
     (if settlementValue c = Some (accAddressString E from, accAddressString E to) then Inr ()
      else if IsAddressFrozen s (accAddressString E from) then Inl ErrAddressAlreadyFrozen
      else if IsAddressFrozen s (accAddressString E to) then Inl ErrAddressAlreadyFrozen
      else Inr ())"

definition settlementContext :: "'b env \<Rightarrow> ctx \<Rightarrow> bytes \<Rightarrow> bytes \<Rightarrow> ctx" where
  "settlementContext E c from to =
     c\<lparr>settlementValue := Some (accAddressString E from, accAddressString E to)\<rparr>"

text \<open>The restriction the bank asks about a transfer made under a context.\<close>

definition restriction :: "'b env \<Rightarrow> ctx \<Rightarrow> store \<Rightarrow> bytes \<Rightarrow> bytes \<Rightarrow> bool" where
  "restriction E c s from to = is_ok (SendCoinsAllowed E c s from to)"

definition primaryReport :: "store \<Rightarrow> SanctionCase \<Rightarrow> error + RiskReport" where
  "primaryReport s sanctionCase = (case sc_ReportIds sanctionCase of
     [] \<Rightarrow> Inl ErrRiskReportNotFound
   | reportID # _ \<Rightarrow> (case GetRiskReport s reportID of
       None \<Rightarrow> Inl ErrRiskReportNotFound
     | Some report \<Rightarrow>
         if rr_TxHash report \<noteq> sc_TxHash sanctionCase
            \<or> rr_Recipient report \<noteq> sc_TargetAddress sanctionCase
         then Inl ErrOriginalTransfer else Inr report))"

definition reportCoins :: "'b env \<Rightarrow> RiskReport \<Rightarrow> error + coins" where
  "reportCoins E report =
     (if rr_Amount report = [] \<or> rr_Denom report = []
      then Inl (ErrText ''report amount and denom are required'')
      else case newIntFromString E (rr_Amount report) of
        None \<Rightarrow> Inl (ErrText ''invalid amount'')
      | Some amount \<Rightarrow>
          if \<not> 0 < amount then Inl (ErrText ''invalid amount'')
          else if \<not> validateDenom E (rr_Denom report) then Inl (ErrText ''invalid denom'')
          else Inr [(rr_Denom report, amount)])"

definition stateChangeHash :: "'b env \<Rightarrow> string list \<Rightarrow> bytes" where
  "stateChangeHash E parts = EvidenceHashStrings E parts"

definition decodeAddress :: "'b env \<Rightarrow> string \<Rightarrow> error + bytes" where
  "decodeAddress E text = (case accAddressFromBech32 E text of None \<Rightarrow> Inl ErrBech32 | Some a \<Rightarrow> Inr a)"

text \<open>
  Both settle functions return the state-change hash with the new store and bank; an error
  leaves store and bank as they were.
\<close>

definition putSettlement ::
    "ctx \<Rightarrow> store \<Rightarrow> SanctionCase \<Rightarrow> OriginalTransfer \<Rightarrow> error + store" where
  "putSettlement c s sanctionCase original =
     (case SetSettlement \<lparr>sr_Transfer = Some original, sr_CaseId = sc_CaseId sanctionCase,
          sr_Action = sc_RequestedAction sanctionCase, sr_ExecutedHeight = blockHeight c\<rparr> s of
        None \<Rightarrow> Inl ErrPanic | Some s' \<Rightarrow> Inr s')"

definition executeEscrow ::
    "'b env \<Rightarrow> Keeper \<Rightarrow> ctx \<Rightarrow> SanctionCase \<Rightarrow> store \<Rightarrow> 'b \<Rightarrow> error + bytes \<times> store \<times> 'b" where
  "executeEscrow E K c sanctionCase s b =
     (if \<not> k_hasBank K then Inl ErrExecutionUnsupported
      else bind_r (primaryReport s sanctionCase) (\<lambda>report.
           bind_r (unsettledOriginal c s report) (\<lambda>original.
           bind_r (decodeAddress E (rr_Recipient report)) (\<lambda>recipient.
           bind_r (reportCoins E report) (\<lambda>coins.
             let settlementCtx = settlementContext E c recipient (newModuleAddress E ModuleName) in
             case sendCoinsFromAccountToModule E (restriction E settlementCtx s)
                    recipient ModuleName coins b of
               None \<Rightarrow> Inl ErrBank
             | Some b' \<Rightarrow> bind_r (putSettlement c s sanctionCase original) (\<lambda>s'.
                 Inr (stateChangeHash E [''escrow'', sc_CaseId sanctionCase, rr_Recipient report,
                        coinsString E coins], s', b')))))))"

definition executeRevert ::
    "'b env \<Rightarrow> Keeper \<Rightarrow> ctx \<Rightarrow> SanctionCase \<Rightarrow> store \<Rightarrow> 'b \<Rightarrow> error + bytes \<times> store \<times> 'b" where
  "executeRevert E K c sanctionCase s b =
     (if \<not> k_hasBank K then Inl ErrExecutionUnsupported
      else bind_r (primaryReport s sanctionCase) (\<lambda>report.
           bind_r (unsettledOriginal c s report) (\<lambda>original.
           bind_r (decodeAddress E (rr_Sender report)) (\<lambda>sender.
           bind_r (decodeAddress E (rr_Recipient report)) (\<lambda>recipient.
           bind_r (reportCoins E report) (\<lambda>coins.
             case sendCoins E (restriction E (settlementContext E c recipient sender) s)
                    recipient sender coins b of
               None \<Rightarrow> Inl ErrBank
             | Some b' \<Rightarrow> bind_r (putSettlement c s sanctionCase original) (\<lambda>s'.
                 Inr (stateChangeHash E [''revert'', sc_CaseId sanctionCase, rr_Recipient report,
                        rr_Sender report, coinsString E coins], s', b'))))))))"

section \<open>What the guards establish\<close>

lemma decodeAddress_Inr: "decodeAddress E t = Inr a \<longleftrightarrow> accAddressFromBech32 E t = Some a"
  by (auto simp: decodeAddress_def split: option.splits)

lemma validateOriginal_Inr:
  "validateOriginal c s r = Inr t \<longleftrightarrow>
     GetOriginalTransfer s (rr_TxHash r) (rr_MessageIndex r) (rr_Denom r) = Some t
   \<and> ot_Height t < blockHeight c \<and> ot_Sender t = rr_Sender r \<and> ot_Recipient t = rr_Recipient r
   \<and> ot_Amount t = rr_Amount r \<and> ot_Denom t = rr_Denom r \<and> ot_TxHash t = rr_TxHash r"
  by (auto simp: validateOriginal_def not_le split: option.splits if_splits)

lemma unsettledOriginal_Inr:
  "unsettledOriginal c s r = Inr t \<longleftrightarrow>
     validateOriginal c s r = Inr t \<and> GetSettlement s (ot_TxHash t) (ot_MessageIndex t) (ot_Denom t) = None"
  by (auto simp: unsettledOriginal_def bind_r_Inr_iff split: option.splits)

lemma primaryReport_Inr:
  "primaryReport s sc = Inr r \<longleftrightarrow>
     (\<exists>i is. sc_ReportIds sc = i # is \<and> GetRiskReport s i = Some r
        \<and> rr_TxHash r = sc_TxHash sc \<and> rr_Recipient r = sc_TargetAddress sc)"
  by (auto simp: primaryReport_def split: option.splits list.splits if_splits)

lemma reportCoins_Inr:
  "reportCoins E r = Inr cs \<longleftrightarrow>
     (\<exists>n. newIntFromString E (rr_Amount r) = Some n \<and> 0 < n \<and> validateDenom E (rr_Denom r)
        \<and> rr_Amount r \<noteq> [] \<and> rr_Denom r \<noteq> [] \<and> cs = [(rr_Denom r, n)])"
  by (auto simp: reportCoins_def split: option.splits if_splits)

text \<open>
  The settlement exemption: a transfer between exactly the two endpoints passes, frozen or not;
  every other transfer under the same context is checked as usual.
\<close>

lemma restriction_settlement:
  "restriction E (settlementContext E c f t) s f t"
  by (simp add: restriction_def SendCoinsAllowed_def settlementContext_def)

lemma restriction_iff:
  "restriction E c s f t \<longleftrightarrow>
     settlementValue c = Some (accAddressString E f, accAddressString E t)
   \<or> (\<not> IsAddressFrozen s (accAddressString E f) \<and> \<not> IsAddressFrozen s (accAddressString E t))"
  by (auto simp: restriction_def SendCoinsAllowed_def)

section \<open>One settlement\<close>

text \<open>
  What a settlement of either kind does: the receipt it pays against matches the case's primary
  report, was not settled before, and is settled now; nothing else of the store changes.
\<close>

definition settles :: "'b env \<Rightarrow> ctx \<Rightarrow> SanctionCase \<Rightarrow> store \<Rightarrow> store \<Rightarrow> OriginalTransfer \<Rightarrow> RiskReport \<Rightarrow> bool" where
  "settles E c sc s s' t r \<longleftrightarrow>
     primaryReport s sc = Inr r \<and> unsettledOriginal c s r = Inr t
   \<and> abs s' = (abs s)\<lparr>st_settles := (st_settles (abs s))
       (transferRaw (ot_TxHash t) (ot_MessageIndex t) (ot_Denom t) \<mapsto>
         \<lparr>sr_Transfer = Some t, sr_CaseId = sc_CaseId sc, sr_Action = sc_RequestedAction sc,
          sr_ExecutedHeight = blockHeight c\<rparr>)\<rparr>"

lemma putSettlement_Inr:
  "putSettlement c s sc t = Inr s' \<Longrightarrow>
     abs s' = (abs s)\<lparr>st_settles := (st_settles (abs s))
       (transferRaw (ot_TxHash t) (ot_MessageIndex t) (ot_Denom t) \<mapsto>
         \<lparr>sr_Transfer = Some t, sr_CaseId = sc_CaseId sc, sr_Action = sc_RequestedAction sc,
          sr_ExecutedHeight = blockHeight c\<rparr>)\<rparr>"
  by (auto simp: putSettlement_def split: option.splits elim!: SetSettlement_Some)

lemma putSettlement_total: "\<exists>s'. putSettlement c s sc t = Inr s'"
  by (simp add: putSettlement_def SetSettlement_def)

lemma executeEscrow_Inr:
  assumes "executeEscrow E K c sc s b = Inr (h, s', b')"
  obtains r t recipient coins where
    "settles E c sc s s' t r"
    "accAddressFromBech32 E (rr_Recipient r) = Some recipient" "reportCoins E r = Inr coins"
    "sendCoinsFromAccountToModule E
       (restriction E (settlementContext E c recipient (newModuleAddress E ModuleName)) s)
       recipient ModuleName coins b = Some b'"
  using assms
  by (auto simp: executeEscrow_def bind_r_Inr_iff Let_def decodeAddress_Inr settles_def
      split: if_splits option.splits dest!: putSettlement_Inr)

lemma executeRevert_Inr:
  assumes "executeRevert E K c sc s b = Inr (h, s', b')"
  obtains r t sender recipient coins where
    "settles E c sc s s' t r"
    "accAddressFromBech32 E (rr_Sender r) = Some sender"
    "accAddressFromBech32 E (rr_Recipient r) = Some recipient" "reportCoins E r = Inr coins"
    "sendCoins E (restriction E (settlementContext E c recipient sender) s) recipient sender coins b = Some b'"
  using assms
  by (auto simp: executeRevert_def bind_r_Inr_iff Let_def decodeAddress_Inr settles_def
      split: if_splits option.splits dest!: putSettlement_Inr)

lemma settles_unsettled:
  assumes "settles E c sc s s' t r"
  shows "st_settles (abs s) (transferRaw (ot_TxHash t) (ot_MessageIndex t) (ot_Denom t)) = None"
    and "st_transfers (abs s) (transferRaw (rr_TxHash r) (rr_MessageIndex r) (rr_Denom r)) = Some t"
  using assms by (auto simp: settles_def unsettledOriginal_Inr validateOriginal_Inr get_abs)

section \<open>What recording writes\<close>

lemma recordCoins_frame:
  "\<exists>m. abs (recordCoins E c h n f t cs s) = (abs s)\<lparr>st_transfers := m\<rparr>"
proof (induction cs arbitrary: s)
  case Nil
  then show ?case by (metis absstate.surjective absstate.update_convs(13) recordCoins.simps(1))
next
  case (Cons x xs)
  show ?case using Cons [of "SetOriginalTransfer
         \<lparr>ot_TxHash = h, ot_MessageIndex = of_nat n, ot_Sender = f, ot_Recipient = t,
          ot_Denom = fst x, ot_Amount = intString E (snd x), ot_Height = blockHeight c\<rparr> s"]
    by (auto simp: store_simps)
qed

lemma recordMsgs_frame: "\<exists>m. abs (recordMsgs E c h n msgs s) = (abs s)\<lparr>st_transfers := m\<rparr>"
proof (induction msgs arbitrary: s n)
  case Nil
  then show ?case by (metis absstate.surjective absstate.update_convs(13) recordMsgs.simps(1))
next
  case (Cons x xs)
  obtain s1 where s1: "s1 = (case x of MsgSend from to amount \<Rightarrow> recordCoins E c h n from to amount s | _ \<Rightarrow> s)"
    by simp
  have "\<exists>m. abs s1 = (abs s)\<lparr>st_transfers := m\<rparr>"
    unfolding s1 by (cases x) (auto simp: recordCoins_frame intro: exI [of _ "st_transfers (abs s)"])
  then obtain m where m: "abs s1 = (abs s)\<lparr>st_transfers := m\<rparr>" by blast
  obtain m' where "abs (recordMsgs E c h (Suc n) xs s1) = (abs s1)\<lparr>st_transfers := m'\<rparr>"
    using Cons by blast
  then have "abs (recordMsgs E c h n (x # xs) s) = (abs s)\<lparr>st_transfers := m'\<rparr>"
    by (simp add: s1 [symmetric] m)
  then show ?case by blast
qed

lemma RecordOriginalTransfers_frame:
  "\<exists>m. abs (RecordOriginalTransfers E c msgs sim ok s) = (abs s)\<lparr>st_transfers := m\<rparr>"
  unfolding RecordOriginalTransfers_def
  by (cases "sim \<or> \<not> ok \<or> \<not> execModeFinalize c")
     (auto simp: recordMsgs_frame intro: exI [of _ "st_transfers (abs s)"])

lemma keyed_recordCoins: "keyed s \<Longrightarrow> keyed (recordCoins E c h n f t cs s)"
  by (induction cs arbitrary: s) auto

lemma keyed_recordMsgs: "keyed s \<Longrightarrow> keyed (recordMsgs E c h n msgs s)"
  by (induction msgs arbitrary: s n) (auto simp: keyed_recordCoins split: sdkMsg.splits)

lemma keyed_RecordOriginalTransfers: "keyed s \<Longrightarrow> keyed (RecordOriginalTransfers E c msgs sim ok s)"
  by (simp add: RecordOriginalTransfers_def keyed_recordMsgs)

text \<open>A receipt for every coin of every send, and receipts of other keys are kept.\<close>

lemma recordCoins_other:
  assumes "\<And>d. d \<in> fst ` set cs \<Longrightarrow> k \<noteq> transferRaw h (of_nat n) d"
  shows "st_transfers (abs (recordCoins E c h n f t cs s)) k = st_transfers (abs s) k"
  using assms by (induction cs arbitrary: s) (auto simp: store_simps)

lemma transferRaw_inject:
  "length h = length h' \<Longrightarrow> transferRaw h n d = transferRaw h' n' d' \<longleftrightarrow> h = h' \<and> n = n' \<and> d = d'"
  by (auto simp: transferRaw_def)

end
