(* ===== verification/Recovery.thy ===== *)
theory Recovery
  imports Execution
begin

text \<open>
  Replacing a case whose evidence or voting period ran out: x/sanction/keeper/recovery.go. The
  old case is expired, kept, and named by its one successor.
\<close>

definition expireForReplacement ::
    "ctx \<Rightarrow> string \<Rightarrow> RiskReport \<Rightarrow> SanctionTargetType \<Rightarrow> store \<Rightarrow> error + store" where
  "expireForReplacement c previous new target s =
     (case GetSanctionCase s previous of
        None \<Rightarrow> Inl ErrCaseNotFound
      | Some sc \<Rightarrow>
        if target \<noteq> SANCTION_TARGET_TYPE_ADDRESS \<or> sc_TargetType sc \<noteq> target
           \<or> sc_TargetAddress sc \<noteq> rr_Recipient new \<or> sc_TxHash sc \<noteq> rr_TxHash new
        then Inl ErrInvalidCase
        else if sc_ExecutedHeight sc \<noteq> 0
           \<or> (sc_Status sc \<noteq> CASE_STATUS_PENDING \<and> sc_Status sc \<noteq> CASE_STATUS_APPROVED
              \<and> sc_Status sc \<noteq> CASE_STATUS_EXPIRED)
        then Inl ErrCaseNotPending
        else if GetExecutionRecord s previous \<noteq> None then Inl ErrAlreadySettled
        else bind_r (primaryReport s sc) (\<lambda>r.
          let height = blockHeight c in
          if rr_Sender r \<noteq> rr_Sender new \<or> rr_Recipient r \<noteq> rr_Recipient new
             \<or> rr_Amount r \<noteq> rr_Amount new \<or> rr_Denom r \<noteq> rr_Denom new
             \<or> rr_MessageIndex r \<noteq> rr_MessageIndex new \<or> rr_ReportId new = rr_ReportId r
             \<or> rr_ObservedHeight new \<le> rr_ObservedHeight r \<or> rr_ObservedHeight new > height
          then Inl ErrInvalidCase
          else if \<not> (rr_ExpiryHeight r \<le> height
                   \<or> (sc_Status sc = CASE_STATUS_PENDING \<and> sc_VotingDeadlineHeight sc < height)
                   \<or> sc_Status sc = CASE_STATUS_EXPIRED)
          then Inl ErrInvalidCase
          else if \<exists>other \<in> set (GetSanctionCasesByTx s (rr_TxHash new)). sc_PreviousCaseId other = previous
          then Inl ErrDuplicateCase
          else Inr (SetSanctionCase (sc\<lparr>sc_Status := CASE_STATUS_EXPIRED\<rparr>) s)))"

text \<open>Which cases may be replaced, and by what evidence.\<close>

definition replaceable :: "ctx \<Rightarrow> store \<Rightarrow> SanctionCase \<Rightarrow> RiskReport \<Rightarrow> RiskReport \<Rightarrow> bool" where
  "replaceable c s sc r new \<longleftrightarrow>
     sc_TargetType sc = SANCTION_TARGET_TYPE_ADDRESS
   \<and> sc_TargetAddress sc = rr_Recipient new \<and> sc_TxHash sc = rr_TxHash new
   \<and> sc_ExecutedHeight sc = 0
   \<and> sc_Status sc \<in> {CASE_STATUS_PENDING, CASE_STATUS_APPROVED, CASE_STATUS_EXPIRED}
   \<and> primaryReport s sc = Inr r
   \<and> rr_Sender r = rr_Sender new \<and> rr_Recipient r = rr_Recipient new
   \<and> rr_Amount r = rr_Amount new \<and> rr_Denom r = rr_Denom new
   \<and> rr_MessageIndex r = rr_MessageIndex new \<and> rr_ReportId r \<noteq> rr_ReportId new
   \<and> rr_ObservedHeight r < rr_ObservedHeight new \<and> rr_ObservedHeight new \<le> blockHeight c
   \<and> (rr_ExpiryHeight r \<le> blockHeight c
      \<or> (sc_Status sc = CASE_STATUS_PENDING \<and> sc_VotingDeadlineHeight sc < blockHeight c)
      \<or> sc_Status sc = CASE_STATUS_EXPIRED)"

lemma expireForReplacement_Inr:
  "expireForReplacement c previous new target s = Inr s' \<longleftrightarrow>
     (\<exists>sc r. GetSanctionCase s previous = Some sc \<and> target = SANCTION_TARGET_TYPE_ADDRESS
        \<and> replaceable c s sc r new \<and> GetExecutionRecord s previous = None
        \<and> (\<forall>other \<in> set (GetSanctionCasesByTx s (rr_TxHash new)). sc_PreviousCaseId other \<noteq> previous)
        \<and> s' = SetSanctionCase (sc\<lparr>sc_Status := CASE_STATUS_EXPIRED\<rparr>) s)"
  by (auto simp: expireForReplacement_def replaceable_def bind_r_Inr_iff Let_def not_le
      split: option.splits if_splits)

end
