(* ===== verification/Lease.thy ===== *)
theory Lease
  imports Execution Validate
begin

text \<open>
  Signing leases: x/sanction/keeper/lease.go. A daemon claims its signing key for a number of
  blocks; each new owner raises the epoch, and the ante check lets a leased key sign only with
  the memo of the live lease. An account with no lease is not fenced.
\<close>

definition DefaultLeaseTTL :: u64 where
  "DefaultLeaseTTL = 24"

definition LeaseMemo :: "AgentLease \<Rightarrow> string" where
  "LeaseMemo lease = ''g503-lease:'' @ formatUint (al_Epoch lease) @ '':'' @ al_HolderId lease"

definition ClaimAgentLease ::
    "'b env \<Rightarrow> ctx \<Rightarrow> MsgClaimAgentLease \<Rightarrow> store \<Rightarrow> error + AgentLease \<times> store \<times> event" where
  "ClaimAgentLease E c msg s =
     (if accAddressFromBech32 E (lm_SignerAddress msg) = None then Inl ErrBech32
      else if length (lm_HolderId msg) \<noteq> 64 \<or> trimSet lowerHexDigits (lm_HolderId msg) \<noteq> []
              \<or> lm_TtlBlocks msg < 6 \<or> lm_TtlBlocks msg > 100
      then Inl (ErrText ''invalid lease holder or TTL (6..100 blocks)'')
      else if GetAgentBySigner s (lm_SignerAddress msg) = None then Inl ErrAgentNotFound
      else let
        lease = (case GetAgentLease s (lm_SignerAddress msg) of
            Some l \<Rightarrow> l
          | None \<Rightarrow> \<lparr>al_SignerAddress = lm_SignerAddress msg, al_HolderId = [], al_Epoch = 0,
                     al_ExpiresHeight = 0\<rparr>);
        h = blockHeight c;
        finish = (\<lambda>l. let l' = l\<lparr>al_ExpiresHeight := h + lm_TtlBlocks msg\<rparr>
                       in Inr (l', SetAgentLease l' s,
                         \<lparr>ev_type = ''agent_lease_claimed'',
                          ev_attributes = [(''signer'', al_SignerAddress l'), (''holder'', al_HolderId l')]\<rparr>))
      in if al_Epoch lease \<noteq> lm_ExpectedEpoch msg then Inl (ErrText ''lease epoch changed'')
         else if lm_Renew msg then
           (if al_Epoch lease = 0 \<or> al_HolderId lease \<noteq> lm_HolderId msg \<or> al_ExpiresHeight lease \<le> h
            then Inl (ErrText ''lease lost; expired sessions cannot renew'')
            else finish lease)
         else if al_ExpiresHeight lease > h
         then Inl (ErrText ''signing key already has a live owner'')
         else if al_Epoch lease = - 1 then Inl (ErrText ''lease epoch exhausted'')
         else finish (lease\<lparr>al_Epoch := al_Epoch lease + 1, al_HolderId := lm_HolderId msg\<rparr>))"

text \<open>The query: an absent lease is the nil pointer.\<close>

definition AgentLease_query ::
    "'b env \<Rightarrow> store \<Rightarrow> string option \<Rightarrow> error + AgentLease option" where
  "AgentLease_query E s req = (case req of
     None \<Rightarrow> Inl (ErrText ''request is required'')
   | Some address \<Rightarrow> if accAddressFromBech32 E address = None then Inl ErrBech32
                     else Inr (GetAgentLease s address))"

section \<open>The ante check\<close>

text \<open>
  A transaction as the SDK shows it: its messages, whether it exposes signatures, its required
  signers (or the error of asking for them), and its memo if it has one.
\<close>

record sdkTx =
  tx_msgs :: "sdkMsg list"
  tx_sigVerifiable :: bool
  tx_signers :: "error + bytes list"
  tx_memo :: "string option"

fun claimSignerLoop :: "nat \<Rightarrow> sdkMsg list \<Rightarrow> string \<Rightarrow> error + string" where
  "claimSignerLoop n [] claimSigner = Inr claimSigner"
| "claimSignerLoop n (msg # msgs) claimSigner = (case msg of
     ClaimLease claim \<Rightarrow>
       if n \<noteq> 1 then Inl (ErrText ''lease claim must be a standalone transaction'')
       else claimSignerLoop n msgs (lm_SignerAddress claim)
   | _ \<Rightarrow> claimSignerLoop n msgs claimSigner)"

fun signersLoop :: "'b env \<Rightarrow> ctx \<Rightarrow> store \<Rightarrow> string option \<Rightarrow> string \<Rightarrow> bytes list \<Rightarrow> error + unit" where
  "signersLoop E c s memo claimSigner [] = Inr ()"
| "signersLoop E c s memo claimSigner (signer # signers) = (let address = accAddressString E signer in
     if address = claimSigner then signersLoop E c s memo claimSigner signers
     else case GetAgentLease s address of
       None \<Rightarrow> signersLoop E c s memo claimSigner signers
     | Some lease \<Rightarrow>
         if memo \<noteq> Some (LeaseMemo lease) \<or> al_ExpiresHeight lease \<le> blockHeight c
         then Inl ErrLeaseFenced
         else signersLoop E c s memo claimSigner signers)"

definition CheckAgentLeaseTx :: "'b env \<Rightarrow> ctx \<Rightarrow> store \<Rightarrow> sdkTx \<Rightarrow> error + unit" where
  "CheckAgentLeaseTx E c s tx =
     bind_r (claimSignerLoop (length (tx_msgs tx)) (tx_msgs tx) []) (\<lambda>claimSigner.
       if \<not> tx_sigVerifiable tx then Inl (ErrText ''transaction does not expose signatures'')
       else bind_r (tx_signers tx) (\<lambda>signers.
         signersLoop E c s (tx_memo tx) claimSigner signers))"

section \<open>Claims\<close>

text \<open>A live lease: its expiry is ahead.\<close>

definition live :: "ctx \<Rightarrow> AgentLease \<Rightarrow> bool" where
  "live c l = (blockHeight c < al_ExpiresHeight l)"

text \<open>Whether two leases are held by the same session.\<close>

definition sameSession :: "AgentLease \<Rightarrow> AgentLease \<Rightarrow> bool" where
  "sameSession l l' = (al_Epoch l = al_Epoch l' \<and> al_HolderId l = al_HolderId l')"

definition takenOver :: "AgentLease option \<Rightarrow> AgentLease \<Rightarrow> bool" where
  "takenOver old l' = (unat (al_Epoch l') = (case old of None \<Rightarrow> 0 | Some l \<Rightarrow> unat (al_Epoch l)) + 1)"

lemma word_add_1_unat: "(w :: u64) \<noteq> - 1 \<Longrightarrow> unat (w + 1) = unat w + 1"
  by (metis Suc_eq_plus1 add.commute eq_neg_iff_add_eq_0 unatSuc)

lemma ClaimAgentLease_store:
  assumes "ClaimAgentLease E c msg s = Inr (l, s', e)"
  shows "s' = SetAgentLease l s"
  using assms by (auto simp: ClaimAgentLease_def Let_def split: if_splits option.splits)

lemma ClaimAgentLease_guards:
  assumes "ClaimAgentLease E c msg s = Inr (l, s', e)"
  shows "validHolder (lm_HolderId msg)" "6 \<le> lm_TtlBlocks msg" "lm_TtlBlocks msg \<le> 100"
    "GetAgentBySigner s (lm_SignerAddress msg) \<noteq> None"
    "al_ExpiresHeight l = blockHeight c + lm_TtlBlocks msg"
  using assms
  by (auto simp: ClaimAgentLease_def Let_def validHolder_def not_less split: if_splits)

text \<open>A renewal: the live lease of the same session, extended.\<close>

lemma ClaimAgentLease_renew:
  assumes "ClaimAgentLease E c msg s = Inr (l, s', e)" "lm_Renew msg"
  obtains l0 where "GetAgentLease s (lm_SignerAddress msg) = Some l0" "live c l0" "0 < al_Epoch l0"
    "al_HolderId l0 = lm_HolderId msg"
    "l = l0\<lparr>al_ExpiresHeight := blockHeight c + lm_TtlBlocks msg\<rparr>"
  using assms
  by (auto simp: ClaimAgentLease_def Let_def live_def not_le word_gt_0 split: if_splits option.splits)

text \<open>A takeover: no lease, or one that has expired; the epoch goes up by one.\<close>

lemma ClaimAgentLease_takeover:
  assumes "ClaimAgentLease E c msg s = Inr (l, s', e)" "\<not> lm_Renew msg" "keyed s"
  shows "takenOver (GetAgentLease s (lm_SignerAddress msg)) l"
    "\<And>l0. GetAgentLease s (lm_SignerAddress msg) = Some l0 \<Longrightarrow> \<not> live c l0"
    "al_HolderId l = lm_HolderId msg" "al_SignerAddress l = lm_SignerAddress msg"
  using assms
  by (auto simp: ClaimAgentLease_def Let_def live_def takenOver_def word_add_1_unat keyed_def get_abs
      split: if_splits option.splits)

text \<open>The memo names the session: equal memos have equal epoch and holder.\<close>

lemma LeaseMemo_inject: "LeaseMemo l = LeaseMemo l' \<longleftrightarrow> sameSession l l'"
proof
  assume "LeaseMemo l = LeaseMemo l'"
  then have eq: "formatUint (al_Epoch l) @ CHR '':'' # al_HolderId l
      = formatUint (al_Epoch l') @ CHR '':'' # al_HolderId l'"
    by (simp add: LeaseMemo_def)
  have sep: "CHR '':'' \<notin> set (formatUint w)" for w
    by (rule formatUint_separator) (simp add: digit_val_def)
  have "formatUint (al_Epoch l) = formatUint (al_Epoch l') \<and> al_HolderId l = al_HolderId l'"
    by (rule sep_unique [OF sep sep eq])
  then show "sameSession l l'" by (simp add: sameSession_def)
qed (simp add: LeaseMemo_def sameSession_def)

section \<open>Fencing\<close>

lemma claimSignerLoop_Inr:
  assumes "claimSignerLoop n msgs a = Inr g" "g \<noteq> a"
  shows "n = 1 \<and> (\<exists>claim. ClaimLease claim \<in> set msgs \<and> lm_SignerAddress claim = g)"
  using assms
proof (induction msgs arbitrary: a)
  case (Cons x xs)
  then show ?case by (cases x) (auto split: if_splits)
qed simp

lemma signersLoop_Inr:
  "signersLoop E c s memo g signers = Inr () \<longleftrightarrow>
     (\<forall>a \<in> set signers. accAddressString E a = g
       \<or> (case GetAgentLease s (accAddressString E a) of None \<Rightarrow> True
          | Some l \<Rightarrow> memo = Some (LeaseMemo l) \<and> live c l))"
  by (induction signers) (auto simp: Let_def live_def not_le split: option.splits)


text \<open>
  C25. Signing keys have one owner at a time. A claim that succeeds either extends the live lease
  of the same epoch and holder, or raises the epoch by exactly one (without wrapping) over a
  lease that is absent or expired; it writes that lease only, under the claimed signer, who is a
  registered agent, with a 64-digit hexadecimal holder and an expiry 6 to 100 blocks ahead.
\<close>

theorem ClaimAgentLease_one_owner:
  assumes "ClaimAgentLease E c msg s = Inr (l, s', e)" "keyed s"
  shows "abs s' = (abs s)\<lparr>st_leases := (st_leases (abs s))(lm_SignerAddress msg \<mapsto> l)\<rparr>
    \<and> al_HolderId l = lm_HolderId msg \<and> validHolder (al_HolderId l)
    \<and> al_ExpiresHeight l = blockHeight c + lm_TtlBlocks msg \<and> lm_TtlBlocks msg \<in> {6..100}
    \<and> GetAgentBySigner s (lm_SignerAddress msg) \<noteq> None
    \<and> (case GetAgentLease s (lm_SignerAddress msg) of
         None \<Rightarrow> \<not> lm_Renew msg \<and> unat (al_Epoch l) = 1
       | Some l0 \<Rightarrow> if lm_Renew msg then live c l0 \<and> sameSession l0 l
                    else \<not> live c l0 \<and> unat (al_Epoch l) = unat (al_Epoch l0) + 1)"
proof -
  note g = ClaimAgentLease_guards [OF assms(1)]
  note st = ClaimAgentLease_store [OF assms(1)]
  show ?thesis
  proof (cases "lm_Renew msg")
    case True
    from ClaimAgentLease_renew [OF assms(1) this] obtain l0 where l0:
      "GetAgentLease s (lm_SignerAddress msg) = Some l0" "live c l0" "al_HolderId l0 = lm_HolderId msg"
      "l = l0\<lparr>al_ExpiresHeight := blockHeight c + lm_TtlBlocks msg\<rparr>" by blast
    then have "al_SignerAddress l = lm_SignerAddress msg"
      using assms(2) by (simp add: keyed_def get_abs)
    with l0 g st True show ?thesis by (simp add: sameSession_def store_simps)
  next
    case False
    note t = ClaimAgentLease_takeover [OF assms(1) this assms(2)]
    with g st False show ?thesis by (auto simp: takenOver_def store_simps split: option.splits)
  qed
qed

end
