(* ===== verification/MsgServer.thy ===== *)
theory MsgServer
  imports Voting Recovery Lease
begin

text \<open>
  The transaction handlers of x/sanction/keeper/msg_server.go. A handler runs on the world, the
  module's store, the bank's state and the events emitted so far, and returns a response or an
  error together with the world it leaves: writes made before an error are kept here, so the
  theorems hold whether or not the SDK rolls the transaction back.
\<close>

record 'b world =
  w_store :: store
  w_bank :: 'b
  w_events :: "event list"

type_synonym ('r, 'b) reply = "(error + 'r) \<times> 'b world"

definition fail :: "error \<Rightarrow> 'b world \<Rightarrow> ('r, 'b) reply" where
  "fail e w = (Inl e, w)"

definition onStore :: "(store \<Rightarrow> store) \<Rightarrow> 'b world \<Rightarrow> 'b world" where
  "onStore f w = w\<lparr>w_store := f (w_store w)\<rparr>"

definition emit :: "string \<Rightarrow> (string \<times> string) list \<Rightarrow> 'b world \<Rightarrow> 'b world" where
  "emit t as w = w\<lparr>w_events := w_events w @ [\<lparr>ev_type = t, ev_attributes = as\<rparr>]\<rparr>"

definition requireAuthority :: "Keeper \<Rightarrow> store \<Rightarrow> string \<Rightarrow> error + unit" where
  "requireAuthority K s authority =
     (if authority \<noteq> GetAuthority K s then Inl ErrUnauthorized else Inr ())"

text \<open>\<open>VoteOption.String()\<close>: the enum's name, or its number in decimal.\<close>

fun optionString :: "VoteOption \<Rightarrow> string" where
  "optionString VOTE_OPTION_UNSPECIFIED = ''VOTE_OPTION_UNSPECIFIED''"
| "optionString VOTE_OPTION_APPROVE = ''VOTE_OPTION_APPROVE''"
| "optionString VOTE_OPTION_REJECT = ''VOTE_OPTION_REJECT''"
| "optionString VOTE_OPTION_ABSTAIN = ''VOTE_OPTION_ABSTAIN''"
| "optionString (VOTE_OPTION_OTHER n) =
     (if sint n < 0 then CHR ''-'' # dec_digits (nat (- sint n)) else dec_digits (nat (sint n)))"

section \<open>Agents and parameters\<close>

definition RegisterAgent ::
    "'b env \<Rightarrow> Keeper \<Rightarrow> ctx \<Rightarrow> MsgRegisterAgent \<Rightarrow> 'b world \<Rightarrow> (unit, 'b) reply" where
  "RegisterAgent E K c msg w = (let s = w_store w in
     case requireAuthority K s (ra_Authority msg) of Inl e \<Rightarrow> fail e w | Inr _ \<Rightarrow>
     (case ra_Agent msg of
        None \<Rightarrow> fail ErrDuplicateAgent w
      | Some agent \<Rightarrow>
        if \<not> is_ok (ValidateAgent (Some agent)) then fail ErrDuplicateAgent w
        else if accAddressFromBech32 E (ag_SignerAddress agent) = None then fail ErrBech32 w
        else if GetAgent s (ag_AgentId agent) \<noteq> None then fail ErrDuplicateAgent w
        else if GetAgentBySigner s (ag_SignerAddress agent) \<noteq> None then fail ErrDuplicateAgent w
        else (Inr (), onStore (SetAgent agent) w)))"

definition UpdateParams :: "Keeper \<Rightarrow> MsgUpdateParams \<Rightarrow> 'b world \<Rightarrow> (unit, 'b) reply" where
  "UpdateParams K msg w =
     (case requireAuthority K (w_store w) (um_Authority msg) of Inl e \<Rightarrow> fail e w | Inr _ \<Rightarrow>
     (case um_Params msg of
        None \<Rightarrow> fail ErrInvalidCase w
      | Some p \<Rightarrow> (case ValidateParams (Some p) of Inl e \<Rightarrow> fail e w
                  | Inr _ \<Rightarrow> (Inr (), onStore (SetParams p) w))))"

text \<open>\<open>msgServer.ClaimAgentLease\<close>: lease.go's claim, run on the world.\<close>

definition ClaimAgentLease_handler ::
    "'b env \<Rightarrow> ctx \<Rightarrow> MsgClaimAgentLease \<Rightarrow> 'b world \<Rightarrow> (AgentLease, 'b) reply" where
  "ClaimAgentLease_handler E c msg w = (case ClaimAgentLease E c msg (w_store w) of
     Inl e \<Rightarrow> fail e w
   | Inr (l, s', e) \<Rightarrow> (Inr l, w\<lparr>w_store := s', w_events := w_events w @ [e]\<rparr>))"

section \<open>Risk reports\<close>

definition validateRiskReport :: "ctx \<Rightarrow> store \<Rightarrow> RiskReport \<Rightarrow> error + unit" where
  "validateRiskReport c s report =
     (if rr_ReportId report = [] then Inl ErrRiskReportNotFound
      else if rr_TxHash report = [] then Inl ErrInvalidCase
      else if rr_RiskScore report > 100 then Inl ErrInvalidRiskScore
      else if rr_EvidenceHash report = [] then Inl ErrInvalidCase
      else if rr_ExpiryHeight report \<le> blockHeight c then Inl ErrRiskReportExpired
      else if \<not> stringInSlice (rr_Source report) (p_AcceptedRiskSources (GetParams s))
      then Inl ErrSourceNotAccepted
      else Inr ())"

definition completedReport :: "string \<Rightarrow> RiskReport \<Rightarrow> RiskReport" where
  "completedReport submitter given =
     (if rr_Submitter given = [] then given\<lparr>rr_Submitter := submitter\<rparr> else given)"

definition SubmitRiskReport ::
    "'b env \<Rightarrow> Keeper \<Rightarrow> ctx \<Rightarrow> MsgSubmitRiskReport \<Rightarrow> 'b world \<Rightarrow> (string, 'b) reply" where
  "SubmitRiskReport E K c msg w = (let s = w_store w in
     if accAddressFromBech32 E (sm_Submitter msg) = None then fail ErrBech32 w
     else case sm_Report msg of None \<Rightarrow> fail ErrRiskReportNotFound w | Some given \<Rightarrow>
       let report = completedReport (sm_Submitter msg) given
       in if rr_Submitter report \<noteq> sm_Submitter msg then fail ErrUnauthorized w
       else case validateRiskReport c s report of Inl e \<Rightarrow> fail e w | Inr _ \<Rightarrow>
         if GetRiskReport s (rr_ReportId report) \<noteq> None then fail ErrDuplicateCase w
         else if (case GetAgentBySigner s (rr_Submitter report) of
             Some agent \<Rightarrow> length (rr_SubmitterSignature report) > 0
               \<and> \<not> VerifySecp256k1 E (ag_PublicKey agent) (rr_SubmitterSignature report)
                     (RiskReportSignBytes E (GetChainID K c) report)
           | None \<Rightarrow> False)
         then fail ErrInvalidSignature w
         else (Inr (rr_ReportId report),
           emit ''risk_report_submitted''
             [(''report_id'', rr_ReportId report), (''source'', rr_Source report),
              (''risk_score'', formatUint (ucast (rr_RiskScore report)))]
             (onStore (SetRiskReport report) w)))"

section \<open>Opening a case\<close>

text \<open>The loop over the report ids; \<open>reports\<close> is what was appended so far.\<close>

definition sameTransfer :: "RiskReport \<Rightarrow> RiskReport \<Rightarrow> bool" where
  "sameTransfer report primary = (rr_MessageIndex report = rr_MessageIndex primary
     \<and> rr_Sender report = rr_Sender primary \<and> rr_Recipient report = rr_Recipient primary
     \<and> rr_Amount report = rr_Amount primary \<and> rr_Denom report = rr_Denom primary)"

definition monetaryCheck :: "'b env \<Rightarrow> ctx \<Rightarrow> store \<Rightarrow> SanctionAction \<Rightarrow> RiskReport \<Rightarrow> error + unit" where
  "monetaryCheck E c s action report =
     (if action \<noteq> SANCTION_ACTION_REVERT_TRANSFER \<and> action \<noteq> SANCTION_ACTION_ESCROW_FUNDS then Inr ()
      else bind_r (unsettledOriginal c s report) (\<lambda>_.
        if \<not> is_ok (reportCoins E report) then Inl ErrInvalidCase
        else if accAddressFromBech32 E (rr_Recipient report) = None then Inl ErrBech32
        else if action = SANCTION_ACTION_REVERT_TRANSFER
             \<and> accAddressFromBech32 E (rr_Sender report) = None then Inl ErrBech32
        else Inr ()))"

fun caseReports ::
    "'b env \<Rightarrow> ctx \<Rightarrow> store \<Rightarrow> MsgOpenSanctionCase \<Rightarrow> string list \<Rightarrow> RiskReport list
      \<Rightarrow> error + RiskReport list" where
  "caseReports E c s msg [] reports = Inr reports"
| "caseReports E c s msg (reportID # ids) reports = (case GetRiskReport s reportID of
     None \<Rightarrow> Inl ErrRiskReportNotFound
   | Some report \<Rightarrow>
     if rr_ExpiryHeight report \<le> blockHeight c then Inl ErrRiskReportExpired
     else if rr_TxHash report \<noteq> oc_TxHash msg
        \<or> (oc_TargetAddress msg \<noteq> [] \<and> rr_Recipient report \<noteq> oc_TargetAddress msg)
     then Inl ErrInvalidCase
     else if reports \<noteq> [] \<and> \<not> sameTransfer report (hd reports) then Inl ErrInvalidCase
     else bind_r (monetaryCheck E c s (oc_RequestedAction msg) report)
            (\<lambda>_. caseReports E c s msg ids (reports @ [report])))"

definition openGuards :: "'b env \<Rightarrow> store \<Rightarrow> MsgOpenSanctionCase \<Rightarrow> error + unit" where
  "openGuards E s msg =
     (if accAddressFromBech32 E (oc_Submitter msg) = None then Inl ErrBech32
      else if oc_CaseId msg = [] then Inl ErrInvalidCase
      else if length (oc_TxHash msg) \<noteq> 32 \<or> (oc_TargetType msg \<noteq> SANCTION_TARGET_TYPE_TX
           \<and> oc_TargetType msg \<noteq> SANCTION_TARGET_TYPE_ADDRESS) then Inl ErrInvalidCase
      else if oc_TargetType msg = SANCTION_TARGET_TYPE_ADDRESS \<and> oc_TargetAddress msg = []
      then Inl ErrInvalidCase
      else if oc_TargetAddress msg \<noteq> [] \<and> accAddressFromBech32 E (oc_TargetAddress msg) = None
      then Inl ErrBech32
      else if GetSanctionCase s (oc_CaseId msg) \<noteq> None then Inl ErrDuplicateCase
      else if oc_ReportIds msg = [] then Inl ErrRiskReportNotFound
      else if \<not> actionAllowed (oc_RequestedAction msg) (GetParams s) then Inl ErrActionNotAllowed
      else Inr ())"

definition policyGuards ::
    "store \<Rightarrow> MsgOpenSanctionCase \<Rightarrow> RiskReport list \<Rightarrow> error + unit" where
  "policyGuards s msg reports = (let
      expectedAction = ComputePolicyAction reports (GetParams s) (oc_TargetType msg)
    in if expectedAction = SANCTION_ACTION_UNSPECIFIED then Inl ErrActionNotAllowed
       else if oc_RequestedAction msg \<noteq> expectedAction then Inl ErrActionNotAllowed
       else if oc_RequestedAction msg = SANCTION_ACTION_BLOCK_TX
            \<and> GetActiveTxSanction s (oc_TxHash msg) \<noteq> None then Inl ErrTxAlreadySanctioned
       else if oc_TargetAddress msg \<noteq> [] \<and> oc_RequestedAction msg = SANCTION_ACTION_FREEZE_ADDRESS
            \<and> GetFreezeRecord s (oc_TargetAddress msg) \<noteq> None then Inl ErrAddressAlreadyFrozen
       else Inr ())"

definition newCase :: "ctx \<Rightarrow> Params \<Rightarrow> MsgOpenSanctionCase \<Rightarrow> SanctionCase" where
  "newCase c params msg = \<lparr>sc_CaseId = oc_CaseId msg, sc_TxHash = oc_TxHash msg,
     sc_TargetAddress = oc_TargetAddress msg, sc_TargetType = oc_TargetType msg,
     sc_RequestedAction = oc_RequestedAction msg, sc_Status = CASE_STATUS_PENDING,
     sc_ReportIds = oc_ReportIds msg, sc_OpenedHeight = blockHeight c,
     sc_VotingDeadlineHeight = blockHeight c + p_VotingPeriodBlocks params, sc_ExecutedHeight = 0,
     sc_PolicyVersion = oc_PolicyVersion msg, sc_DecisionHash = [],
     sc_PreviousCaseId = oc_PreviousCaseId msg, sc_Voters = [], sc_QuorumThreshold = 0,
     sc_UnanimousRequiredForRevert = False, sc_VotingSnapshotVersion = 0\<rparr>"

definition OpenSanctionCase ::
    "'b env \<Rightarrow> ctx \<Rightarrow> MsgOpenSanctionCase \<Rightarrow> 'b world \<Rightarrow> (string, 'b) reply" where
  "OpenSanctionCase E c msg w = (let s = w_store w in
     case bind_r (openGuards E s msg) (\<lambda>_.
            bind_r (caseReports E c s msg (oc_ReportIds msg) []) (\<lambda>reports.
            bind_r (policyGuards s msg reports) (\<lambda>_.
              if oc_PreviousCaseId msg \<noteq> []
              then expireForReplacement c (oc_PreviousCaseId msg) (hd reports) (oc_TargetType msg) s
              else Inr s))) of
       Inl e \<Rightarrow> fail e w
     | Inr s1 \<Rightarrow> let w1 = w\<lparr>w_store := s1\<rparr> in
         case SnapshotCaseVoters E s1 (newCase c (GetParams s) msg) of
           Inl e \<Rightarrow> fail e w1
         | Inr sc0 \<Rightarrow> let sc = sc0\<lparr>sc_DecisionHash := DecisionHash E sc0\<rparr> in
             (Inr (sc_CaseId sc),
              emit ''sanction_case_opened''
                [(''case_id'', sc_CaseId sc), (''action'', ActionName (sc_RequestedAction sc))]
                (onStore (SetSanctionCase sc) w1)))"

section \<open>Voting\<close>

definition SubmitSanctionVote ::
    "'b env \<Rightarrow> Keeper \<Rightarrow> ctx \<Rightarrow> MsgSubmitSanctionVote \<Rightarrow> 'b world \<Rightarrow> (bool \<times> bool, 'b) reply" where
  "SubmitSanctionVote E K c msg w = (let s = w_store w in
     if accAddressFromBech32 E (vm_Submitter msg) = None then fail ErrBech32 w
     else case vm_Vote msg of None \<Rightarrow> fail ErrInvalidCase w | Some vote \<Rightarrow>
     if sv_Option vote \<noteq> VOTE_OPTION_APPROVE \<and> sv_Option vote \<noteq> VOTE_OPTION_REJECT
        \<and> sv_Option vote \<noteq> VOTE_OPTION_ABSTAIN then fail ErrInvalidCase w
     else case GetSanctionCase s (sv_CaseId vote) of None \<Rightarrow> fail ErrCaseNotFound w | Some sc \<Rightarrow>
     let allowPostApprovalVote = sc_Status sc = CASE_STATUS_APPROVED
           \<and> sc_RequestedAction sc = SANCTION_ACTION_REVERT_TRANSFER in
     if sc_Status sc \<noteq> CASE_STATUS_PENDING \<and> \<not> allowPostApprovalVote then fail ErrCaseNotPending w
     else if sc_Status sc = CASE_STATUS_PENDING \<and> blockHeight c > sc_VotingDeadlineHeight sc
     then fail ErrCaseNotPending (onStore (SetSanctionCase (sc\<lparr>sc_Status := CASE_STATUS_EXPIRED\<rparr>)) w)
     else case caseVoter sc (sv_AgentId vote) of None \<Rightarrow> fail ErrAgentNotFound w | Some agent \<Rightarrow>
     if ag_SignerAddress agent \<noteq> vm_Submitter msg then fail ErrUnauthorized w
     else if GetSanctionVote s (sv_CaseId vote) (sv_AgentId vote) \<noteq> None
     then fail ErrVoteAlreadySubmitted w
     else if sv_ApprovedAction vote \<noteq> sc_RequestedAction sc \<and> sv_Option vote = VOTE_OPTION_APPROVE
     then fail ErrActionNotAllowed w
     else if \<not> VerifySecp256k1 E (ag_PublicKey agent) (sv_Signature vote)
               (VoteSignBytes (GetChainID K c) vote) then fail ErrInvalidSignature w
     else case recomputeCaseStatus c (SetSanctionVote vote s) sc of (s2, sc', approved, rejected) \<Rightarrow>
       (Inr (approved, rejected),
        emit ''sanction_vote_submitted''
          [(''case_id'', sv_CaseId vote), (''agent_id'', sv_AgentId vote),
           (''option'', optionString (sv_Option vote))]
          (w\<lparr>w_store := SetSanctionCase sc' s2\<rparr>)))"

section \<open>Execution\<close>

definition reportFresh :: "ctx \<Rightarrow> store \<Rightarrow> SanctionCase \<Rightarrow> error + unit" where
  "reportFresh c s sc = (case sc_ReportIds sc of
     [] \<Rightarrow> Inr ()
   | reportID # _ \<Rightarrow> (case GetRiskReport s reportID of
       None \<Rightarrow> Inl ErrRiskReportNotFound
     | Some report \<Rightarrow> if rr_ExpiryHeight report > 0 \<and> rr_ExpiryHeight report \<le> blockHeight c
                     then Inl ErrRiskReportExpired else Inr ()))"

definition executionRecord :: "ctx \<Rightarrow> MsgExecuteSanction \<Rightarrow> SanctionCase \<Rightarrow> ExecutionRecord" where
  "executionRecord c msg sc = \<lparr>er_CaseId = sc_CaseId sc, er_Action = sc_RequestedAction sc,
     er_TxHash = sc_TxHash sc, er_TargetAddress = sc_TargetAddress sc,
     er_Executor = xm_Executor msg, er_ExecutedHeight = blockHeight c, er_ResultCode = ''ok'',
     er_ResultMessage = xm_ResultMessage msg, er_StateChangeHash = []\<rparr>"

text \<open>The \<open>switch\<close> on the action: the record and the world after the action's own effect.\<close>

definition performAction ::
    "'b env \<Rightarrow> Keeper \<Rightarrow> ctx \<Rightarrow> SanctionCase \<Rightarrow> ExecutionRecord \<Rightarrow> 'b world
      \<Rightarrow> error + ExecutionRecord \<times> 'b world" where
  "performAction E K c sc record w = (case sc_RequestedAction sc of
     SANCTION_ACTION_BLOCK_TX \<Rightarrow>
       Inr (record, onStore (SetActiveTxSanction (activeSanctionOf c sc)) w)
   | SANCTION_ACTION_FREEZE_ADDRESS \<Rightarrow>
       if sc_TargetAddress sc = [] then Inl ErrInvalidCase
       else Inr (record, onStore (SetFreezeRecord \<lparr>fr_CaseId = sc_CaseId sc,
              fr_Address = sc_TargetAddress sc, fr_FrozenHeight = blockHeight c\<rparr>) w)
   | SANCTION_ACTION_WATCH \<Rightarrow> Inr (record\<lparr>er_ResultCode := ''watch_only''\<rparr>, w)
   | SANCTION_ACTION_ESCROW_FUNDS \<Rightarrow>
       bind_r (executeEscrow E K c sc (w_store w) (w_bank w)) (\<lambda>(stateHash, s', b').
         Inr (record\<lparr>er_StateChangeHash := stateHash\<rparr>, w\<lparr>w_store := s', w_bank := b'\<rparr>))
   | SANCTION_ACTION_REVERT_TRANSFER \<Rightarrow>
       bind_r (executeRevert E K c sc (w_store w) (w_bank w)) (\<lambda>(stateHash, s', b').
         Inr (record\<lparr>er_StateChangeHash := stateHash\<rparr>, w\<lparr>w_store := s', w_bank := b'\<rparr>))
   | _ \<Rightarrow> Inl ErrActionNotAllowed)"

definition executeGuards ::
    "'b env \<Rightarrow> ctx \<Rightarrow> store \<Rightarrow> MsgExecuteSanction \<Rightarrow> error + SanctionCase" where
  "executeGuards E c s msg =
     (if accAddressFromBech32 E (xm_Executor msg) = None then Inl ErrBech32
      else case GetSanctionCase s (xm_CaseId msg) of None \<Rightarrow> Inl ErrCaseNotFound | Some sc \<Rightarrow>
        if sc_Status sc \<noteq> CASE_STATUS_APPROVED then Inl ErrQuorumNotReached
        else bind_r (ValidateCaseSnapshot E sc) (\<lambda>_.
          if GetExecutionRecord s (xm_CaseId msg) \<noteq> None then Inl ErrInvalidCase
          else if sc_RequestedAction sc = SANCTION_ACTION_REVERT_TRANSFER
               \<and> sc_UnanimousRequiredForRevert sc \<and> \<not> hasUnanimousApproval s (sc_CaseId sc)
          then Inl ErrQuorumNotReached
          else bind_r (reportFresh c s sc) (\<lambda>_. Inr sc)))"

definition ExecuteSanction ::
    "'b env \<Rightarrow> Keeper \<Rightarrow> ctx \<Rightarrow> MsgExecuteSanction \<Rightarrow> 'b world \<Rightarrow> (ExecutionRecord, 'b) reply" where
  "ExecuteSanction E K c msg w =
     (case bind_r (executeGuards E c (w_store w) msg) (\<lambda>sc.
             bind_r (performAction E K c sc (executionRecord c msg sc) w) (\<lambda>(record, w1).
               Inr (sc, record, w1))) of
        Inl e \<Rightarrow> fail e w
      | Inr (sc, record, w1) \<Rightarrow>
          (Inr record,
           emit ''sanction_executed''
             [(''case_id'', er_CaseId record), (''action'', ActionName (er_Action record)),
              (''result_code'', er_ResultCode record)]
             (onStore (SetExecutionRecord record)
               (onStore (SetSanctionCase (sc\<lparr>sc_Status := CASE_STATUS_EXECUTED,
                                           sc_ExecutedHeight := blockHeight c\<rparr>)) w1))))"

section \<open>Review and revocation\<close>

definition validReason :: "string \<Rightarrow> bool" where
  "validReason reason = (\<not> isBlank reason \<and> length reason \<le> 1024)"

definition ReviewSanction ::
    "Keeper \<Rightarrow> ctx \<Rightarrow> MsgReviewSanction \<Rightarrow> 'b world \<Rightarrow> (unit, 'b) reply" where
  "ReviewSanction K c msg w = (let s = w_store w in
     case requireAuthority K s (wm_Authority msg) of Inl e \<Rightarrow> fail e w | Inr _ \<Rightarrow>
     (case GetSanctionCase s (wm_CaseId msg) of None \<Rightarrow> fail ErrCaseNotFound w | Some sc \<Rightarrow>
        if sc_Status sc = CASE_STATUS_REVOKED then fail ErrCaseNotPending w
        else if GetReview s (wm_CaseId msg) \<noteq> None then fail ErrInvalidCase w
        else if length (wm_EvidenceHash msg) \<noteq> 32 \<or> \<not> validReason (wm_Reason msg)
        then fail ErrInvalidCase w
        else (Inr (),
          emit ''sanction_reviewed''
            [(''case_id'', wm_CaseId msg), (''authority'', wm_Authority msg)]
            (onStore (SetReview \<lparr>rv_CaseId = wm_CaseId msg, rv_Authority = wm_Authority msg,
               rv_Reason = wm_Reason msg, rv_EvidenceHash = wm_EvidenceHash msg,
               rv_ReviewedHeight = blockHeight c, rv_RevokedHeight = 0, rv_RevokeReason = []\<rparr>) w))))"

definition revocable :: "ctx \<Rightarrow> string \<Rightarrow> ReviewRecord \<Rightarrow> SanctionCase \<Rightarrow> bool" where
  "revocable c authority review sc = (rv_Authority review = authority
     \<and> rv_ReviewedHeight review < blockHeight c \<and> rv_RevokedHeight review = 0
     \<and> sc_Status sc \<noteq> CASE_STATUS_REVOKED)"

definition liftSanctions :: "SanctionCase \<Rightarrow> string \<Rightarrow> store \<Rightarrow> store" where
  "liftSanctions sc caseID s = (let
      s1 = (case GetActiveTxSanction s (sc_TxHash sc) of
          Some active \<Rightarrow> if as_CaseId active = caseID then DeleteActiveTxSanction (sc_TxHash sc) s else s
        | None \<Rightarrow> s)
    in case GetFreezeRecord s1 (sc_TargetAddress sc) of
         Some freeze \<Rightarrow> if fr_CaseId freeze = caseID then DeleteFreezeRecord (sc_TargetAddress sc) s1 else s1
       | None \<Rightarrow> s1)"

definition RevokeSanction ::
    "Keeper \<Rightarrow> ctx \<Rightarrow> MsgRevokeSanction \<Rightarrow> 'b world \<Rightarrow> (unit, 'b) reply" where
  "RevokeSanction K c msg w = (let s = w_store w in
     case requireAuthority K s (rm_Authority msg) of Inl e \<Rightarrow> fail e w | Inr _ \<Rightarrow>
     (case GetSanctionCase s (rm_CaseId msg) of None \<Rightarrow> fail ErrCaseNotFound w | Some sc \<Rightarrow>
     (case GetReview s (rm_CaseId msg) of None \<Rightarrow> fail ErrReviewRequired w | Some review \<Rightarrow>
        if \<not> revocable c (rm_Authority msg) review sc then fail ErrReviewRequired w
        else if \<not> validReason (rm_Reason msg) then fail ErrInvalidCase w
        else (Inr (),
          emit ''sanction_revoked'' [(''case_id'', rm_CaseId msg), (''reason'', rm_Reason msg)]
            (onStore (SetReview (review\<lparr>rv_RevokedHeight := blockHeight c,
                                     rv_RevokeReason := rm_Reason msg\<rparr>))
              (onStore (SetSanctionCase (sc\<lparr>sc_Status := CASE_STATUS_REVOKED\<rparr>))
                (onStore (liftSanctions sc (rm_CaseId msg)) w)))))))"

end
