(* ===== verification/MsgSpec.thy ===== *)
theory MsgSpec
  imports MsgServer
begin

text \<open>
  What each handler does, as one lemma per handler: it fails and leaves the world as it was
  (with one exception, a vote after the deadline), or all its guards held and the store is
  changed in exactly the stated way.
\<close>

lemma fail_eq [simp]: "fail e w = (r, w') \<longleftrightarrow> r = Inl e \<and> w' = w"
  by (auto simp: fail_def)

lemma onStore_simps [simp]:
  "w_store (onStore f w) = f (w_store w)" "w_bank (onStore f w) = w_bank w"
  "w_events (onStore f w) = w_events w"
  by (simp_all add: onStore_def)

lemma emit_simps [simp]:
  "w_store (emit t as w) = w_store w" "w_bank (emit t as w) = w_bank w"
  by (simp_all add: emit_def)

lemma requireAuthority_Inr: "requireAuthority K s a = Inr u \<longleftrightarrow> a = GetAuthority K s"
  by (auto simp: requireAuthority_def)

section \<open>Agents, parameters, leases\<close>

lemma RegisterAgent_cases:
  assumes "RegisterAgent E K c msg w = (r, w')"
  obtains (error) e where "r = Inl e" "w' = w"
  | (ok) a where "r = Inr ()" "ra_Agent msg = Some a" "ra_Authority msg = GetAuthority K (w_store w)"
      "ValidateAgent (Some a) = Inr ()" "GetAgent (w_store w) (ag_AgentId a) = None"
      "GetAgentBySigner (w_store w) (ag_SignerAddress a) = None" "w' = onStore (SetAgent a) w"
  using assms
  by (auto simp: RegisterAgent_def Let_def requireAuthority_Inr is_ok_iff
      split: if_splits option.splits sum.splits)

lemma UpdateParams_cases:
  assumes "UpdateParams K msg w = (r, w')"
  obtains (error) e where "r = Inl e" "w' = w"
  | (ok) p where "r = Inr ()" "um_Params msg = Some p" "um_Authority msg = GetAuthority K (w_store w)"
      "ValidateParams (Some p) = Inr ()" "w' = onStore (SetParams p) w"
  using assms
  by (auto simp: UpdateParams_def Let_def requireAuthority_Inr split: option.splits sum.splits)

lemma ClaimAgentLease_handler_cases:
  assumes "ClaimAgentLease_handler E c msg w = (r, w')"
  obtains (error) e where "r = Inl e" "w' = w"
  | (ok) l s' ev where "r = Inr l" "ClaimAgentLease E c msg (w_store w) = Inr (l, s', ev)"
      "w_store w' = s'" "w_bank w' = w_bank w"
  using assms by (auto simp: ClaimAgentLease_handler_def split: sum.splits)

section \<open>Reports\<close>

lemma SubmitRiskReport_cases:
  assumes "SubmitRiskReport E K c msg w = (r, w')"
  obtains (error) e where "r = Inl e" "w' = w"
  | (ok) given report where "sm_Report msg = Some given"
      "report = completedReport (sm_Submitter msg) given" "r = Inr (rr_ReportId report)" "rr_Submitter report = sm_Submitter msg"
      "validateRiskReport c (w_store w) report = Inr ()"
      "GetRiskReport (w_store w) (rr_ReportId report) = None"
      "w_store w' = SetRiskReport report (w_store w)" "w_bank w' = w_bank w"
  using assms
  by (auto simp: SubmitRiskReport_def Let_def split: if_splits option.splits sum.splits)

section \<open>Cases\<close>

lemma caseReports_Inr:
  assumes "caseReports E c s msg ids rs = Inr out"
  shows "\<exists>new. out = rs @ new \<and> length new = length ids
     \<and> (\<forall>r \<in> set new. \<exists>i \<in> set ids. GetRiskReport s i = Some r \<and> blockHeight c < rr_ExpiryHeight r
          \<and> rr_TxHash r = oc_TxHash msg
          \<and> (oc_TargetAddress msg \<noteq> [] \<longrightarrow> rr_Recipient r = oc_TargetAddress msg)
          \<and> monetaryCheck E c s (oc_RequestedAction msg) r = Inr ())
     \<and> (\<forall>r \<in> set out. rs \<noteq> [] \<or> new \<noteq> [] \<longrightarrow> r \<in> set rs \<or> sameTransfer r (hd out))"
  using assms
proof (induction ids arbitrary: rs)
  case (Cons i ids)
  then obtain r where r: "GetRiskReport s i = Some r" "blockHeight c < rr_ExpiryHeight r"
      "rr_TxHash r = oc_TxHash msg" "oc_TargetAddress msg \<noteq> [] \<longrightarrow> rr_Recipient r = oc_TargetAddress msg"
      "rs \<noteq> [] \<longrightarrow> sameTransfer r (hd rs)" "monetaryCheck E c s (oc_RequestedAction msg) r = Inr ()"
      and rest: "caseReports E c s msg ids (rs @ [r]) = Inr out"
    by (auto simp: bind_r_Inr_iff not_le split: option.splits if_splits)
  from Cons.IH [OF rest] obtain new where new: "out = (rs @ [r]) @ new" "length new = length ids"
     "\<forall>r \<in> set new. \<exists>i \<in> set ids. GetRiskReport s i = Some r \<and> blockHeight c < rr_ExpiryHeight r
          \<and> rr_TxHash r = oc_TxHash msg
          \<and> (oc_TargetAddress msg \<noteq> [] \<longrightarrow> rr_Recipient r = oc_TargetAddress msg)
          \<and> monetaryCheck E c s (oc_RequestedAction msg) r = Inr ()"
     "\<forall>x \<in> set out. x \<in> set (rs @ [r]) \<or> sameTransfer x (hd out)"
    by auto
  have "sameTransfer r (hd out)"
    using r(5) new(1) by (cases rs) (auto simp: sameTransfer_def)
  with new r show ?case by (intro exI [of _ "r # new"]) auto
qed auto

lemma ValidateCaseSnapshot_update [simp]:
  "ValidateCaseSnapshot E (sc\<lparr>sc_DecisionHash := h\<rparr>) = ValidateCaseSnapshot E sc"
  "ValidateCaseSnapshot E (sc\<lparr>sc_Status := st\<rparr>) = ValidateCaseSnapshot E sc"
  "ValidateCaseSnapshot E (sc\<lparr>sc_ExecutedHeight := n\<rparr>) = ValidateCaseSnapshot E sc"
  by (simp_all add: ValidateCaseSnapshot_def)

lemma SnapshotCaseVoters_Inr:
  assumes "SnapshotCaseVoters E s sc = Inr sc'"
  shows "\<exists>vs q u v. sc' = sc\<lparr>sc_Voters := vs, sc_QuorumThreshold := q,
      sc_UnanimousRequiredForRevert := u, sc_VotingSnapshotVersion := v\<rparr>"
    and "sc_Voters sc' = map Some (sort_key ag_AgentId (filter eligible (GetAllAgents s)))"
    and "sc_QuorumThreshold sc' = p_QuorumThreshold (GetParams s)"
    and "sc_UnanimousRequiredForRevert sc' = p_UnanimousRequiredForRevert (GetParams s)"
    and "ValidateCaseSnapshot E sc' = Inr ()" "sc_VotingSnapshotVersion sc' = 1"
  using assms by (auto simp: SnapshotCaseVoters_def Let_def split: if_splits sum.splits)

text \<open>The case that opening stores, before its decision hash.\<close>

definition openedCase :: "'b env \<Rightarrow> ctx \<Rightarrow> store \<Rightarrow> MsgOpenSanctionCase \<Rightarrow> SanctionCase \<Rightarrow> bool" where
  "openedCase E c s msg sc \<longleftrightarrow> (\<exists>sc0. SnapshotCaseVoters E s (newCase c (GetParams s) msg) = Inr sc0
     \<and> sc = sc0\<lparr>sc_DecisionHash := DecisionHash E sc0\<rparr>)"

lemma openedCase_fields:
  assumes "openedCase E c s msg sc"
  shows "sc_CaseId sc = oc_CaseId msg" "sc_TxHash sc = oc_TxHash msg"
    "sc_TargetAddress sc = oc_TargetAddress msg" "sc_TargetType sc = oc_TargetType msg"
    "sc_RequestedAction sc = oc_RequestedAction msg" "sc_Status sc = CASE_STATUS_PENDING"
    "sc_ReportIds sc = oc_ReportIds msg" "sc_OpenedHeight sc = blockHeight c"
    "sc_ExecutedHeight sc = 0" "sc_PreviousCaseId sc = oc_PreviousCaseId msg"
    "sc_VotingDeadlineHeight sc = blockHeight c + p_VotingPeriodBlocks (GetParams s)"
    "sc_VotingSnapshotVersion sc = 1"
    "sc_QuorumThreshold sc = p_QuorumThreshold (GetParams s)"
    "sc_UnanimousRequiredForRevert sc = p_UnanimousRequiredForRevert (GetParams s)"
    "sc_Voters sc = map Some (sort_key ag_AgentId (filter eligible (GetAllAgents s)))"
    "ValidateCaseSnapshot E sc = Inr ()"
proof -
  from assms obtain sc0 where sc0: "SnapshotCaseVoters E s (newCase c (GetParams s) msg) = Inr sc0"
    and sc: "sc = sc0\<lparr>sc_DecisionHash := DecisionHash E sc0\<rparr>" by (auto simp: openedCase_def)
  note S = SnapshotCaseVoters_Inr [OF sc0]
  from S(1) show "sc_CaseId sc = oc_CaseId msg" "sc_TxHash sc = oc_TxHash msg"
    "sc_TargetAddress sc = oc_TargetAddress msg" "sc_TargetType sc = oc_TargetType msg"
    "sc_RequestedAction sc = oc_RequestedAction msg" "sc_Status sc = CASE_STATUS_PENDING"
    "sc_ReportIds sc = oc_ReportIds msg" "sc_OpenedHeight sc = blockHeight c"
    "sc_ExecutedHeight sc = 0" "sc_PreviousCaseId sc = oc_PreviousCaseId msg"
    "sc_VotingDeadlineHeight sc = blockHeight c + p_VotingPeriodBlocks (GetParams s)"
    by (auto simp: sc newCase_def)
  show "sc_VotingSnapshotVersion sc = 1"
    "sc_QuorumThreshold sc = p_QuorumThreshold (GetParams s)"
    "sc_UnanimousRequiredForRevert sc = p_UnanimousRequiredForRevert (GetParams s)"
    "sc_Voters sc = map Some (sort_key ag_AgentId (filter eligible (GetAllAgents s)))"
    using S by (simp_all add: sc)
  show "ValidateCaseSnapshot E sc = Inr ()"
    using S(5) by (simp add: sc)
qed

definition replaced ::
    "ctx \<Rightarrow> MsgOpenSanctionCase \<Rightarrow> RiskReport list \<Rightarrow> store \<Rightarrow> store \<Rightarrow> bool" where
  "replaced c msg reports s s1 \<longleftrightarrow> (if oc_PreviousCaseId msg \<noteq> []
     then expireForReplacement c (oc_PreviousCaseId msg) (hd reports) (oc_TargetType msg) s = Inr s1
     else s1 = s)"

lemma replaced_GetParams: "replaced c msg reports s s1 \<Longrightarrow> GetParams s1 = GetParams s"
  by (auto simp: replaced_def expireForReplacement_Inr get_abs abs_SetSanctionCase split: if_splits)

lemma OpenSanctionCase_cases:
  assumes "OpenSanctionCase E c msg w = (r, w')"
  obtains (error) e where "r = Inl e" "w' = w"
  | (snapshot_error) e reports s1 where "r = Inl e" "w' = w\<lparr>w_store := s1\<rparr>"
      "replaced c msg reports (w_store w) s1"
  | (ok) reports s1 sc where "r = Inr (oc_CaseId msg)" "openGuards E (w_store w) msg = Inr ()"
      "caseReports E c (w_store w) msg (oc_ReportIds msg) [] = Inr reports"
      "policyGuards (w_store w) msg reports = Inr ()" "replaced c msg reports (w_store w) s1"
      "openedCase E c s1 msg sc" "w_store w' = SetSanctionCase sc s1" "w_bank w' = w_bank w"
proof -
  define g where "g = bind_r (openGuards E (w_store w) msg) (\<lambda>_.
            bind_r (caseReports E c (w_store w) msg (oc_ReportIds msg) []) (\<lambda>reports.
            bind_r (policyGuards (w_store w) msg reports) (\<lambda>_.
              if oc_PreviousCaseId msg \<noteq> []
              then expireForReplacement c (oc_PreviousCaseId msg) (hd reports) (oc_TargetType msg) (w_store w)
              else Inr (w_store w))))"
  show thesis
  proof (cases g)
    case (Inl e)
    then have "r = Inl e \<and> w' = w"
      using assms by (simp add: OpenSanctionCase_def Let_def g_def [symmetric])
    then show thesis using error by blast
  next
    case (Inr s1)
    then obtain reports where g: "openGuards E (w_store w) msg = Inr ()"
        "caseReports E c (w_store w) msg (oc_ReportIds msg) [] = Inr reports"
        "policyGuards (w_store w) msg reports = Inr ()" and re: "replaced c msg reports (w_store w) s1"
      by (auto simp: g_def bind_r_Inr_iff replaced_def split: if_splits)
    show thesis
    proof (cases "SnapshotCaseVoters E s1 (newCase c (GetParams (w_store w)) msg)")
      case (Inl e)
      then have "r = Inl e \<and> w' = w\<lparr>w_store := s1\<rparr>"
        using assms Inr by (simp add: OpenSanctionCase_def Let_def g_def [symmetric])
      with snapshot_error re show thesis by blast
    next
      case (Inr sc0)
      define sc where "sc = sc0\<lparr>sc_DecisionHash := DecisionHash E sc0\<rparr>"
      have o': "openedCase E c s1 msg sc"
        using Inr replaced_GetParams [OF re] by (auto simp: openedCase_def sc_def)
      have "r = Inr (sc_CaseId sc) \<and> w_store w' = SetSanctionCase sc s1 \<and> w_bank w' = w_bank w"
        using assms \<open>g = Inr s1\<close> Inr
        by (auto simp: OpenSanctionCase_def Let_def g_def [symmetric] sc_def)
      with ok g re o' show thesis by (simp add: openedCase_fields(1) [OF o'])
    qed
  qed
qed

section \<open>Votes\<close>

text \<open>The guards of a vote that is recorded.\<close>

definition voteAccepted ::
    "'b env \<Rightarrow> Keeper \<Rightarrow> ctx \<Rightarrow> store \<Rightarrow> string \<Rightarrow> SanctionVote \<Rightarrow> SanctionCase \<Rightarrow> AgentInfo \<Rightarrow> bool" where
  "voteAccepted E K c s submitter vote sc agent \<longleftrightarrow>
     sv_Option vote \<in> {VOTE_OPTION_APPROVE, VOTE_OPTION_REJECT, VOTE_OPTION_ABSTAIN}
   \<and> GetSanctionCase s (sv_CaseId vote) = Some sc
   \<and> (sc_Status sc = CASE_STATUS_PENDING \<and> blockHeight c \<le> sc_VotingDeadlineHeight sc
      \<or> sc_Status sc = CASE_STATUS_APPROVED \<and> sc_RequestedAction sc = SANCTION_ACTION_REVERT_TRANSFER)
   \<and> caseVoter sc (sv_AgentId vote) = Some agent \<and> ag_SignerAddress agent = submitter
   \<and> GetSanctionVote s (sv_CaseId vote) (sv_AgentId vote) = None
   \<and> (sv_Option vote = VOTE_OPTION_APPROVE \<longrightarrow> sv_ApprovedAction vote = sc_RequestedAction sc)
   \<and> VerifySecp256k1 E (ag_PublicKey agent) (sv_Signature vote) (VoteSignBytes (GetChainID K c) vote)"

lemma SubmitSanctionVote_cases:
  assumes "SubmitSanctionVote E K c msg w = (r, w')"
  obtains (error) e where "r = Inl e" "w' = w"
  | (expired) vote sc where "r = Inl ErrCaseNotPending" "vm_Vote msg = Some vote"
      "GetSanctionCase (w_store w) (sv_CaseId vote) = Some sc" "sc_Status sc = CASE_STATUS_PENDING"
      "sc_VotingDeadlineHeight sc < blockHeight c"
      "w' = onStore (SetSanctionCase (sc\<lparr>sc_Status := CASE_STATUS_EXPIRED\<rparr>)) w"
  | (ok) vote sc agent s2 sc' approved rejected where "r = Inr (approved, rejected)"
      "vm_Vote msg = Some vote"
      "voteAccepted E K c (w_store w) (vm_Submitter msg) vote sc agent"
      "recomputeCaseStatus c (SetSanctionVote vote (w_store w)) sc = (s2, sc', approved, rejected)"
      "w_store w' = SetSanctionCase sc' s2" "w_bank w' = w_bank w"
proof (cases "vm_Vote msg")
  case None
  with assms error show thesis by (auto simp: SubmitSanctionVote_def Let_def split: if_splits)
next
  case (Some vote)
  show thesis
  proof (cases "GetSanctionCase (w_store w) (sv_CaseId vote)")
    case None
    with assms error Some show thesis by (auto simp: SubmitSanctionVote_def Let_def split: if_splits)
  next
    case sc: (Some sc)
    show thesis
    proof (cases "\<exists>agent. voteAccepted E K c (w_store w) (vm_Submitter msg) vote sc agent
        \<and> accAddressFromBech32 E (vm_Submitter msg) \<noteq> None")
      case True
      then obtain agent where acc: "voteAccepted E K c (w_store w) (vm_Submitter msg) vote sc agent"
        "accAddressFromBech32 E (vm_Submitter msg) \<noteq> None" by blast
      obtain s2 sc' a b where re: "recomputeCaseStatus c (SetSanctionVote vote (w_store w)) sc = (s2, sc', a, b)"
        by (metis prod_cases4)
      with acc Some sc assms have "r = Inr (a, b) \<and> w_store w' = SetSanctionCase sc' s2 \<and> w_bank w' = w_bank w"
        unfolding voteAccepted_def by (auto simp: SubmitSanctionVote_def Let_def simp flip: not_less)
      with ok Some acc re show thesis by blast
    next
      case False
      with Some sc assms error expired show thesis
        by (auto simp: SubmitSanctionVote_def Let_def voteAccepted_def not_less
            split: if_splits option.splits prod.splits)
    qed
  qed
qed

section \<open>Counting after a vote\<close>

text \<open>Whether the recorded votes with an option reach the case's quorum.\<close>

definition quorumOf :: "VoteOption \<Rightarrow> store \<Rightarrow> SanctionCase \<Rightarrow> bool" where
  "quorumOf opt s sc \<longleftrightarrow> ucast (sc_QuorumThreshold sc)
     \<le> roundedPercent (votedPower opt (sc_Voters sc) (map Some (GetSanctionVotes s (sc_CaseId sc))))
                       (powerOf (activeVoters (sc_Voters sc)))"

lemma recomputeCaseStatus_cases:
  assumes "recomputeCaseStatus c s sc = (s', sc', approved, rejected)"
  obtains (none) "s' = s" "sc' = sc" "\<not> approved" "\<not> rejected"
  | (approved) "approved" "\<not> rejected" "sc' = sc\<lparr>sc_Status := CASE_STATUS_APPROVED\<rparr>"
      "sc_VotingSnapshotVersion sc = 1" "0 < powerOf (activeVoters (sc_Voters sc))"
      "quorumOf VOTE_OPTION_APPROVE s sc"
      "s' = (if sc_RequestedAction sc = SANCTION_ACTION_BLOCK_TX
             then SetActiveTxSanction (activeSanctionOf c sc) s else s)"
  | (rejected) "\<not> approved" "rejected" "sc' = sc\<lparr>sc_Status := CASE_STATUS_REJECTED\<rparr>" "s' = s"
      "sc_VotingSnapshotVersion sc = 1" "0 < powerOf (activeVoters (sc_Voters sc))"
      "\<not> quorumOf VOTE_OPTION_APPROVE s sc" "quorumOf VOTE_OPTION_REJECT s sc"
  using assms
  by (auto simp: recomputeCaseStatus_def Let_def tallySnapshotVotes_eq quorumOf_def split: if_splits)

section \<open>Execution\<close>

lemma executeGuards_Inr:
  assumes "executeGuards E c s msg = Inr sc"
  shows "GetSanctionCase s (xm_CaseId msg) = Some sc" "sc_Status sc = CASE_STATUS_APPROVED"
    "ValidateCaseSnapshot E sc = Inr ()" "GetExecutionRecord s (xm_CaseId msg) = None"
    "sc_RequestedAction sc = SANCTION_ACTION_REVERT_TRANSFER \<Longrightarrow> sc_UnanimousRequiredForRevert sc
       \<Longrightarrow> hasUnanimousApproval s (sc_CaseId sc)"
    "reportFresh c s sc = Inr ()"
  using assms
  by (auto simp: executeGuards_def bind_r_Inr_iff split: if_splits option.splits)

text \<open>What the action did: the execution record's fields and the effect on store and bank.\<close>

definition actionEffect ::
    "'b env \<Rightarrow> ctx \<Rightarrow> SanctionCase \<Rightarrow> 'b world \<Rightarrow> 'b world \<Rightarrow> bool" where
  "actionEffect E c sc w w1 \<longleftrightarrow> (case sc_RequestedAction sc of
     SANCTION_ACTION_BLOCK_TX \<Rightarrow> w1 = onStore (SetActiveTxSanction (activeSanctionOf c sc)) w
   | SANCTION_ACTION_FREEZE_ADDRESS \<Rightarrow> sc_TargetAddress sc \<noteq> [] \<and>
       w1 = onStore (SetFreezeRecord \<lparr>fr_CaseId = sc_CaseId sc, fr_Address = sc_TargetAddress sc,
              fr_FrozenHeight = blockHeight c\<rparr>) w
   | SANCTION_ACTION_WATCH \<Rightarrow> w1 = w
   | SANCTION_ACTION_ESCROW_FUNDS \<Rightarrow> (\<exists>t r. settles E c sc (w_store w) (w_store w1) t r)
   | SANCTION_ACTION_REVERT_TRANSFER \<Rightarrow> (\<exists>t r. settles E c sc (w_store w) (w_store w1) t r)
   | _ \<Rightarrow> False)"

lemma performAction_Inr:
  assumes "performAction E K c sc (executionRecord c msg sc) w = Inr (er, w1)"
  shows "actionEffect E c sc w w1" "er_CaseId er = sc_CaseId sc"
    "er_Action er = sc_RequestedAction sc" "er_ExecutedHeight er = blockHeight c"
  using assms
  by (auto simp: performAction_def actionEffect_def executionRecord_def bind_r_Inr_iff
      split: SanctionAction.splits if_splits elim!: executeEscrow_Inr executeRevert_Inr) blast+

lemma ExecuteSanction_cases:
  assumes "ExecuteSanction E K c msg w = (r, w')"
  obtains (error) e where "r = Inl e" "w' = w"
  | (ok) sc er w1 where "r = Inr er" "executeGuards E c (w_store w) msg = Inr sc"
      "performAction E K c sc (executionRecord c msg sc) w = Inr (er, w1)"
      "w_store w' = SetExecutionRecord er (SetSanctionCase (sc\<lparr>sc_Status := CASE_STATUS_EXECUTED,
         sc_ExecutedHeight := blockHeight c\<rparr>) (w_store w1))" "w_bank w' = w_bank w1"
  using assms
  by (auto simp: ExecuteSanction_def bind_r_def split: sum.splits prod.splits)

section \<open>Review and revocation\<close>

lemma ReviewSanction_cases:
  assumes "ReviewSanction K c msg w = (r, w')"
  obtains (error) e where "r = Inl e" "w' = w"
  | (ok) sc where "r = Inr ()" "wm_Authority msg = GetAuthority K (w_store w)"
      "GetSanctionCase (w_store w) (wm_CaseId msg) = Some sc" "sc_Status sc \<noteq> CASE_STATUS_REVOKED"
      "GetReview (w_store w) (wm_CaseId msg) = None" "length (wm_EvidenceHash msg) = 32"
      "validReason (wm_Reason msg)"
      "w_store w' = SetReview \<lparr>rv_CaseId = wm_CaseId msg, rv_Authority = wm_Authority msg,
               rv_Reason = wm_Reason msg, rv_EvidenceHash = wm_EvidenceHash msg,
               rv_ReviewedHeight = blockHeight c, rv_RevokedHeight = 0, rv_RevokeReason = []\<rparr> (w_store w)"
      "w_bank w' = w_bank w"
  using assms
  by (auto simp: ReviewSanction_def Let_def requireAuthority_Inr split: if_splits option.splits sum.splits)

lemma RevokeSanction_cases:
  assumes "RevokeSanction K c msg w = (r, w')"
  obtains (error) e where "r = Inl e" "w' = w"
  | (ok) sc review where "r = Inr ()" "rm_Authority msg = GetAuthority K (w_store w)"
      "GetSanctionCase (w_store w) (rm_CaseId msg) = Some sc"
      "GetReview (w_store w) (rm_CaseId msg) = Some review"
      "revocable c (rm_Authority msg) review sc" "validReason (rm_Reason msg)"
      "w_store w' = SetReview (review\<lparr>rv_RevokedHeight := blockHeight c, rv_RevokeReason := rm_Reason msg\<rparr>)
         (SetSanctionCase (sc\<lparr>sc_Status := CASE_STATUS_REVOKED\<rparr>)
           (liftSanctions sc (rm_CaseId msg) (w_store w)))" "w_bank w' = w_bank w"
  using assms
  by (auto simp: RevokeSanction_def Let_def requireAuthority_Inr split: if_splits option.splits sum.splits)

lemma abs_liftSanctions [store_simps]:
  "abs (liftSanctions sc i s) = (abs s)
     \<lparr>st_active := (case st_active (abs s) (sc_TxHash sc) of
          Some a \<Rightarrow> if as_CaseId a = i then (st_active (abs s))(sc_TxHash sc := None) else st_active (abs s)
        | None \<Rightarrow> st_active (abs s)),
      st_frozen := (case st_frozen (abs s) (sc_TargetAddress sc) of
          Some f \<Rightarrow> if fr_CaseId f = i then (st_frozen (abs s))(sc_TargetAddress sc := None) else st_frozen (abs s)
        | None \<Rightarrow> st_frozen (abs s))\<rparr>"
  by (auto simp: liftSanctions_def Let_def get_abs abs_DeleteActiveTxSanction abs_DeleteFreezeRecord
      split: option.splits)

end
