(* ===== verification/ValidatorSync.thy ===== *)
theory ValidatorSync
  imports StoreSpec
begin

text \<open>
  Keeping the agent registry in step with the validator set at the end of every block:
  x/sanction/keeper/validator_sync.go and \<open>SyncSanctionAgentsWithStakingValidators\<close> of
  app/app.go. An agent tied to a validator operator follows that validator's power and activity;
  a new validator with a known public key becomes an agent.
\<close>

record ValidatorAgentState =
  va_ValidatorOperatorAddress :: string
  va_SignerAddress :: string
  va_PublicKey :: bytes
  va_VotingPower :: u64
  va_Active :: bool
  va_MetadataURI :: string

fun byOperatorLoop ::
    "ValidatorAgentState list \<Rightarrow> (string \<rightharpoonup> ValidatorAgentState) \<Rightarrow> (string \<rightharpoonup> ValidatorAgentState)" where
  "byOperatorLoop [] byOperator = byOperator"
| "byOperatorLoop (state # states) byOperator =
     (if va_ValidatorOperatorAddress state = [] then byOperatorLoop states byOperator
      else byOperatorLoop states (byOperator(va_ValidatorOperatorAddress state \<mapsto> state)))"

text \<open>The variables of the function: the store, the two sets of known names, the two counters.\<close>

record syncState =
  sy_store :: store
  sy_knownOperators :: "string set"
  sy_knownAgentIDs :: "string set"
  sy_updated :: nat
  sy_deactivated :: nat

text \<open>One agent of the first loop: what it becomes, and whether it counts as deactivated or updated.\<close>

definition ineligible :: "AgentInfo \<Rightarrow> ValidatorAgentState option \<Rightarrow> bool" where
  "ineligible agent found = (case found of None \<Rightarrow> True
     | Some state \<Rightarrow> \<not> va_Active state \<or> va_VotingPower state = 0 \<or> ag_PublicKey agent = [])"

definition filledKey :: "AgentInfo \<Rightarrow> ValidatorAgentState option \<Rightarrow> AgentInfo" where
  "filledKey agent found = (case found of None \<Rightarrow> agent
     | Some state \<Rightarrow> if ag_SignerAddress agent = va_SignerAddress state \<and> length (ag_PublicKey agent) = 0
                    then agent\<lparr>ag_PublicKey := va_PublicKey state\<rparr> else agent)"

fun agentsLoop :: "(string \<rightharpoonup> ValidatorAgentState) \<Rightarrow> AgentInfo list \<Rightarrow> syncState \<Rightarrow> syncState" where
  "agentsLoop byOperator [] y = y"
| "agentsLoop byOperator (agent # agents) y = (let
     y = y\<lparr>sy_knownAgentIDs := insert (ag_AgentId agent) (sy_knownAgentIDs y)\<rparr>
   in if ag_ValidatorOperatorAddress agent = [] then agentsLoop byOperator agents y
   else let
     y = y\<lparr>sy_knownOperators := insert (ag_ValidatorOperatorAddress agent) (sy_knownOperators y)\<rparr>;
     found = byOperator (ag_ValidatorOperatorAddress agent);
     new = filledKey agent found
   in if ineligible new found then
        agentsLoop byOperator agents
          (y\<lparr>sy_deactivated := (if ag_Active new then sy_deactivated y + 1 else sy_deactivated y),
             sy_store := SetAgent (new\<lparr>ag_Active := False, ag_VotingPower := 0\<rparr>) (sy_store y)\<rparr>)
      else let power' = (case found of Some state \<Rightarrow> va_VotingPower state | None \<Rightarrow> 0) in
        agentsLoop byOperator agents
          (y\<lparr>sy_updated := (if ag_VotingPower new \<noteq> power' \<or> \<not> ag_Active new
                            then sy_updated y + 1 else sy_updated y),
             sy_store := SetAgent (new\<lparr>ag_Active := True, ag_VotingPower := power'\<rparr>) (sy_store y)\<rparr>))"

definition validatorAgentID :: "ValidatorAgentState \<Rightarrow> string" where
  "validatorAgentID state = ''validator:'' @ va_ValidatorOperatorAddress state"

definition newValidatorAgent :: "ValidatorAgentState \<Rightarrow> AgentInfo" where
  "newValidatorAgent state = \<lparr>ag_AgentId = validatorAgentID state,
     ag_ValidatorOperatorAddress = va_ValidatorOperatorAddress state,
     ag_SignerAddress = va_SignerAddress state, ag_PublicKey = va_PublicKey state,
     ag_VotingPower = va_VotingPower state, ag_Active = True,
     ag_MetadataUri = (if va_MetadataURI state = [] then ''staking-sync'' else va_MetadataURI state)\<rparr>"

fun newAgentsLoop :: "ValidatorAgentState list \<Rightarrow> syncState \<Rightarrow> syncState" where
  "newAgentsLoop [] y = y"
| "newAgentsLoop (state # states) y =
     (if va_ValidatorOperatorAddress state = [] \<or> va_SignerAddress state = [] then newAgentsLoop states y
      else if \<not> va_Active state \<or> va_VotingPower state = 0 \<or> length (va_PublicKey state) = 0
      then newAgentsLoop states y
      else if va_ValidatorOperatorAddress state \<in> sy_knownOperators y then newAgentsLoop states y
      else if validatorAgentID state \<in> sy_knownAgentIDs y then newAgentsLoop states y
      else newAgentsLoop states
        (y\<lparr>sy_store := SetAgent (newValidatorAgent state) (sy_store y),
           sy_knownOperators := insert (va_ValidatorOperatorAddress state) (sy_knownOperators y),
           sy_knownAgentIDs := insert (validatorAgentID state) (sy_knownAgentIDs y),
           sy_updated := sy_updated y + 1\<rparr>))"

definition uint64ToString :: "nat \<Rightarrow> string" where
  "uint64ToString value = formatUint (of_nat value)"

text \<open>The store, the event (none when nothing changed) and the two counters.\<close>

definition SyncAgentRegistryWithValidatorSet ::
    "ValidatorAgentState list \<Rightarrow> store \<Rightarrow> store \<times> event list \<times> nat \<times> nat" where
  "SyncAgentRegistryWithValidatorSet validatorStates s = (let
     byOperator = byOperatorLoop validatorStates Map.empty;
     y = agentsLoop byOperator (GetAllAgents s)
           \<lparr>sy_store = s, sy_knownOperators = {}, sy_knownAgentIDs = {}, sy_updated = 0, sy_deactivated = 0\<rparr>;
     y = newAgentsLoop validatorStates y
   in (sy_store y,
       if sy_updated y > 0 \<or> sy_deactivated y > 0
       then [\<lparr>ev_type = ''agent_validator_set_synced'',
              ev_attributes = [(''updated'', uint64ToString (sy_updated y)),
                               (''deactivated'', uint64ToString (sy_deactivated y))]\<rparr>]
       else [], sy_updated y, sy_deactivated y))"

fun GetAgentByOperatorLoop :: "string \<Rightarrow> AgentInfo list \<Rightarrow> AgentInfo option" where
  "GetAgentByOperatorLoop operatorAddress [] = None"
| "GetAgentByOperatorLoop operatorAddress (agent # agents) =
     (if ag_ValidatorOperatorAddress agent = operatorAddress then Some agent
      else GetAgentByOperatorLoop operatorAddress agents)"

definition GetAgentByValidatorOperator :: "store \<Rightarrow> string \<Rightarrow> AgentInfo option" where
  "GetAgentByValidatorOperator s operatorAddress = GetAgentByOperatorLoop operatorAddress (GetAllAgents s)"

section \<open>The validators the app passes on (app.go)\<close>

text \<open>
  What the staking and the account keepers answer about a validator: its operator address, the
  account address it decodes to (if it decodes), its consensus power, and the account's key.
\<close>

record stakingValidator =
  vd_Operator :: string
  vd_AccAddress :: "bytes option"
  vd_ConsensusPower :: int
  vd_Bonded :: bool
  vd_Jailed :: bool
  vd_AccountPubKey :: "bytes option"

definition validatorState :: "'b env \<Rightarrow> bytes \<Rightarrow> stakingValidator \<Rightarrow> ValidatorAgentState" where
  "validatorState E valAddr v = (let
     active = vd_Bonded v \<and> \<not> vd_Jailed v \<and> vd_ConsensusPower v > 0;
     power' = (if active then vd_ConsensusPower v else 0)
   in \<lparr>va_ValidatorOperatorAddress = vd_Operator v, va_SignerAddress = accAddressString E valAddr,
       va_PublicKey = (case vd_AccountPubKey v of None \<Rightarrow> [] | Some k \<Rightarrow> k),
       va_VotingPower = of_int power', va_Active = active, va_MetadataURI = ''staking-sync''\<rparr>)"

fun validatorStates :: "'b env \<Rightarrow> stakingValidator list \<Rightarrow> error + ValidatorAgentState list" where
  "validatorStates E [] = Inr []"
| "validatorStates E (v # vs) = (case vd_AccAddress v of
     None \<Rightarrow> Inl ErrBech32
   | Some valAddr \<Rightarrow> bind_r (validatorStates E vs) (\<lambda>states. Inr (validatorState E valAddr v # states)))"

text \<open>\<open>validators\<close> is \<open>StakingKeeper.GetAllValidators\<close>, an error or a list.\<close>

definition SyncSanctionAgentsWithStakingValidators ::
    "'b env \<Rightarrow> error + stakingValidator list \<Rightarrow> store \<Rightarrow> error + store \<times> event list" where
  "SyncSanctionAgentsWithStakingValidators E validators s = bind_r validators (\<lambda>vs.
     if vs = [] then Inr (s, [])
     else bind_r (validatorStates E vs) (\<lambda>states.
       case SyncAgentRegistryWithValidatorSet states s of (s', ev, _, _) \<Rightarrow> Inr (s', ev)))"

section \<open>What the loops do\<close>

lemma byOperatorLoop_Some:
  "byOperatorLoop states m i = Some st \<Longrightarrow>
     m i = Some st \<or> (st \<in> set states \<and> va_ValidatorOperatorAddress st = i \<and> i \<noteq> [])"
  by (induction states m rule: byOperatorLoop.induct) (auto split: if_splits)

text \<open>The agent an existing agent becomes.\<close>

definition syncedAgent :: "(string \<rightharpoonup> ValidatorAgentState) \<Rightarrow> AgentInfo \<Rightarrow> AgentInfo" where
  "syncedAgent byOperator agent =
     (if ag_ValidatorOperatorAddress agent = [] then agent
      else let found = byOperator (ag_ValidatorOperatorAddress agent); new = filledKey agent found in
        if ineligible new found then new\<lparr>ag_Active := False, ag_VotingPower := 0\<rparr>
        else new\<lparr>ag_Active := True,
                  ag_VotingPower := (case found of Some state \<Rightarrow> va_VotingPower state | None \<Rightarrow> 0)\<rparr>)"

lemma filledKey_frame [simp]:
  "ag_AgentId (filledKey a f) = ag_AgentId a"
  "ag_ValidatorOperatorAddress (filledKey a f) = ag_ValidatorOperatorAddress a"
  "ag_SignerAddress (filledKey a f) = ag_SignerAddress a"
  "ag_MetadataUri (filledKey a f) = ag_MetadataUri a"
  by (auto simp: filledKey_def split: option.splits)

lemma syncedAgent_frame [simp]:
  "ag_AgentId (syncedAgent m a) = ag_AgentId a"
  "ag_ValidatorOperatorAddress (syncedAgent m a) = ag_ValidatorOperatorAddress a"
  "ag_SignerAddress (syncedAgent m a) = ag_SignerAddress a"
  "ag_MetadataUri (syncedAgent m a) = ag_MetadataUri a"
  by (auto simp: syncedAgent_def Let_def)

lemma agentsLoop_store:
  "sy_store (agentsLoop m agents y) =
     fold (\<lambda>a s. if ag_ValidatorOperatorAddress a = [] then s else SetAgent (syncedAgent m a) s)
       agents (sy_store y)"
  by (induction agents arbitrary: y) (auto simp: Let_def syncedAgent_def)

lemma syncedAgent_same: "ag_ValidatorOperatorAddress a = [] \<Longrightarrow> syncedAgent m a = a"
  by (simp add: syncedAgent_def)

lemma fold_synced:
  assumes "distinct (map ag_AgentId agents)" "\<forall>a \<in> set agents. st_agents (abs s) (ag_AgentId a) = Some a"
  shows "st_agents (abs (fold (\<lambda>a s. if ag_ValidatorOperatorAddress a = [] then s
        else SetAgent (syncedAgent m a) s) agents s)) i =
     (if i \<in> ag_AgentId ` set agents then map_option (syncedAgent m) (st_agents (abs s) i)
      else st_agents (abs s) i)"
  using assms
proof (induction agents arbitrary: s)
  case (Cons a as)
  define f where "f = (\<lambda>a s. if ag_ValidatorOperatorAddress a = [] then s else SetAgent (syncedAgent m a) s)"
  have fa: "st_agents (abs s) (ag_AgentId a) = Some a" using Cons.prems(2) by simp
  have nin: "ag_AgentId a \<notin> ag_AgentId ` set as" using Cons.prems(1) by simp
  have st: "st_agents (abs (f a s)) j
      = (if j = ag_AgentId a then Some (syncedAgent m a) else st_agents (abs s) j)" for j
    using fa by (simp add: f_def store_simps syncedAgent_same)
  have "st_agents (abs (f a s)) (ag_AgentId b) = Some b" if "b \<in> set as" for b
  proof -
    have "ag_AgentId b \<noteq> ag_AgentId a" using nin that by (metis image_eqI)
    with Cons.prems(2) that show ?thesis by (simp add: st)
  qed
  then have "st_agents (abs (fold f as (f a s))) i =
     (if i \<in> ag_AgentId ` set as then map_option (syncedAgent m) (st_agents (abs (f a s)) i)
      else st_agents (abs (f a s)) i)"
    using Cons.IH [of "f a s"] Cons.prems(1) unfolding f_def by simp
  with nin show ?case unfolding f_def [symmetric] by (simp add: st fa)
qed simp

lemma agentsLoop_known:
  "sy_knownAgentIDs (agentsLoop m agents y) = ag_AgentId ` set agents \<union> sy_knownAgentIDs y"
  "sy_knownOperators (agentsLoop m agents y) =
     (ag_ValidatorOperatorAddress ` set agents - {[]}) \<union> sy_knownOperators y"
  by (induction agents arbitrary: y) (auto simp: Let_def)

text \<open>A listed validator that may have an agent.\<close>

definition eligibleState :: "ValidatorAgentState \<Rightarrow> bool" where
  "eligibleState st \<longleftrightarrow> va_ValidatorOperatorAddress st \<noteq> [] \<and> va_SignerAddress st \<noteq> []
     \<and> va_Active st \<and> va_VotingPower st \<noteq> 0 \<and> va_PublicKey st \<noteq> []"

lemma validatorAgentID_inject: "validatorAgentID st = validatorAgentID st'
    \<longleftrightarrow> va_ValidatorOperatorAddress st = va_ValidatorOperatorAddress st'"
  by (simp add: validatorAgentID_def)

lemma newAgentsLoop_step:
  "newAgentsLoop (st # states) y =
     (if \<not> eligibleState st \<or> va_ValidatorOperatorAddress st \<in> sy_knownOperators y
         \<or> validatorAgentID st \<in> sy_knownAgentIDs y then newAgentsLoop states y
      else newAgentsLoop states
        (y\<lparr>sy_store := SetAgent (newValidatorAgent st) (sy_store y),
           sy_knownOperators := insert (va_ValidatorOperatorAddress st) (sy_knownOperators y),
           sy_knownAgentIDs := insert (validatorAgentID st) (sy_knownAgentIDs y),
           sy_updated := sy_updated y + 1\<rparr>))"
  by (auto simp: eligibleState_def)

lemma newAgentsLoop_keep:
  "i \<in> sy_knownAgentIDs y \<Longrightarrow>
     st_agents (abs (sy_store (newAgentsLoop states y))) i = st_agents (abs (sy_store y)) i"
proof (induction states arbitrary: y)
  case (Cons st states)
  then show ?case unfolding newAgentsLoop_step
    by (auto simp: store_simps newValidatorAgent_def)
qed simp

lemma newAgentsLoop_new:
  "st_agents (abs (sy_store (newAgentsLoop states y))) i = Some a \<Longrightarrow>
     st_agents (abs (sy_store y)) i = Some a
   \<or> (\<exists>st \<in> set states. eligibleState st \<and> va_ValidatorOperatorAddress st \<notin> sy_knownOperators y
        \<and> validatorAgentID st \<notin> sy_knownAgentIDs y \<and> a = newValidatorAgent st)"
proof (induction states arbitrary: y)
  case (Cons st states)
  show ?case
  proof (cases "\<not> eligibleState st \<or> va_ValidatorOperatorAddress st \<in> sy_knownOperators y
         \<or> validatorAgentID st \<in> sy_knownAgentIDs y")
    case True
    with Cons.prems Cons.IH [of y] show ?thesis unfolding newAgentsLoop_step by auto
  next
    case False
    with Cons.prems Cons.IH show ?thesis unfolding newAgentsLoop_step
      by (fastforce simp: store_simps split: if_splits)
  qed
qed simp

lemma newAgentsLoop_all:
  assumes "st \<in> set states" "eligibleState st" "va_ValidatorOperatorAddress st \<notin> sy_knownOperators y"
    "validatorAgentID st \<notin> sy_knownAgentIDs y"
  shows "\<exists>a. st_agents (abs (sy_store (newAgentsLoop states y))) (validatorAgentID st) = Some a
     \<and> (\<exists>st' \<in> set states. va_ValidatorOperatorAddress st' = va_ValidatorOperatorAddress st
           \<and> eligibleState st' \<and> a = newValidatorAgent st')"
  using assms
proof (induction states arbitrary: y)
  case (Cons s1 states)
  show ?case
  proof (cases "va_ValidatorOperatorAddress s1 = va_ValidatorOperatorAddress st \<and> eligibleState s1")
    case True
    then have id: "validatorAgentID s1 = validatorAgentID st" by (simp add: validatorAgentID_inject)
    have "st_agents (abs (sy_store (newAgentsLoop (s1 # states) y))) (validatorAgentID st) = Some (newValidatorAgent s1)"
      unfolding newAgentsLoop_step using Cons.prems(3,4) True id
      by (simp add: newAgentsLoop_keep store_simps newValidatorAgent_def)
    with True show ?thesis by auto
  next
    case False
    with Cons.prems(1,2) have st: "st \<in> set states" by auto
    show ?thesis
    proof (cases "\<not> eligibleState s1 \<or> va_ValidatorOperatorAddress s1 \<in> sy_knownOperators y
         \<or> validatorAgentID s1 \<in> sy_knownAgentIDs y")
      case True
      with Cons.IH [OF st Cons.prems(2-4)] show ?thesis unfolding newAgentsLoop_step by auto
    next
      case f2: False
      with False have "va_ValidatorOperatorAddress s1 \<noteq> va_ValidatorOperatorAddress st" by auto
      with f2 Cons.IH [OF st Cons.prems(2)] Cons.prems(3,4) show ?thesis
        unfolding newAgentsLoop_step by (simp add: validatorAgentID_inject)
    qed
  qed
qed simp

section \<open>The registry after a sync\<close>

text \<open>Both loops write agents only.\<close>

lemma agentsLoop_inv:
  assumes "\<And>a t. P t \<Longrightarrow> P (SetAgent a t)" "P (sy_store y)"
  shows "P (sy_store (agentsLoop m agents y))"
proof -
  have "P (fold (\<lambda>a s. if ag_ValidatorOperatorAddress a = [] then s else SetAgent (syncedAgent m a) s) agents s)"
    if "P s" for s
    using that by (induction agents arbitrary: s) (auto simp: assms(1))
  with assms(2) show ?thesis by (simp add: agentsLoop_store)
qed

lemma newAgentsLoop_inv:
  assumes "\<And>a t. P t \<Longrightarrow> P (SetAgent a t)" "P (sy_store y)"
  shows "P (sy_store (newAgentsLoop states y))"
  using assms(2)
proof (induction states arbitrary: y)
  case (Cons st states)
  then show ?case unfolding newAgentsLoop_step by (simp add: assms(1))
qed simp

lemma SyncAgentRegistry_inv:
  assumes "SyncAgentRegistryWithValidatorSet states s = (s', ev, u, d)"
    and "\<And>a t. P t \<Longrightarrow> P (SetAgent a t)" "P s"
  shows "P s'"
proof -
  have "P (sy_store (newAgentsLoop states (agentsLoop (byOperatorLoop states Map.empty) (GetAllAgents s)
    \<lparr>sy_store = s, sy_knownOperators = {}, sy_knownAgentIDs = {}, sy_updated = 0, sy_deactivated = 0\<rparr>)))"
    by (rule newAgentsLoop_inv [where P = P, OF assms(2)],
        assumption, rule agentsLoop_inv [where P = P, OF assms(2)], assumption) (simp add: assms(3))
  with assms(1) show ?thesis by (simp add: SyncAgentRegistryWithValidatorSet_def Let_def)
qed

lemma SyncAgentRegistry_keyed:
  assumes "SyncAgentRegistryWithValidatorSet states s = (s', ev, u, d)" "keyed s"
  shows "keyed s'"
  using assms(1) keyed_writes(3) assms(2) by (rule SyncAgentRegistry_inv)

text \<open>Only the two agent maps change.\<close>

definition agentFrame :: "store \<Rightarrow> store \<Rightarrow> bool" where
  "agentFrame s s' \<longleftrightarrow> (\<exists>a g. abs s' = (abs s)\<lparr>st_agents := a, st_signers := g\<rparr>)"

lemma agentFrame_refl: "agentFrame s s"
  unfolding agentFrame_def by (rule exI [of _ "st_agents (abs s)"], rule exI [of _ "st_signers (abs s)"]) simp

lemma agentFrame_SetAgent:
  assumes "agentFrame s t"
  shows "agentFrame s (SetAgent a t)"
proof -
  obtain x y where "abs t = (abs s)\<lparr>st_agents := x, st_signers := y\<rparr>"
    using assms by (auto simp: agentFrame_def)
  then have "abs (SetAgent a t) = (abs s)\<lparr>st_agents := x(ag_AgentId a \<mapsto> a),
      st_signers := y(ag_SignerAddress a \<mapsto> ag_AgentId a)\<rparr>"
    by (simp add: abs_SetAgent)
  then show ?thesis unfolding agentFrame_def by (intro exI)
qed

lemma SyncAgentRegistry_frame:
  assumes "SyncAgentRegistryWithValidatorSet states s = (s', ev, u, d)"
  shows "agentFrame s s'"
  using assms agentFrame_SetAgent agentFrame_refl by (rule SyncAgentRegistry_inv)

lemma ids_GetAllAgents:
  assumes "keyed s"
  shows "ag_AgentId ` set (GetAllAgents s) = dom (st_agents (abs s))"
proof
  show "ag_AgentId ` set (GetAllAgents s) \<subseteq> dom (st_agents (abs s))"
    by (auto simp: GetAllAgents_keyed(2) [OF assms])
  show "dom (st_agents (abs s)) \<subseteq> ag_AgentId ` set (GetAllAgents s)"
  proof
    fix i assume "i \<in> dom (st_agents (abs s))"
    then obtain a where a: "st_agents (abs s) i = Some a" by auto
    then have "ag_AgentId a = i" using assms by (simp add: keyed_def)
    with a have "a \<in> set (GetAllAgents s)" by (simp add: GetAllAgents_keyed(2) [OF assms])
    with \<open>ag_AgentId a = i\<close> show "i \<in> ag_AgentId ` set (GetAllAgents s)" by (metis image_eqI)
  qed
qed

text \<open>The operators that had an agent, and the ids in use.\<close>

definition operatorsOf :: "store \<Rightarrow> string set" where
  "operatorsOf s = {ag_ValidatorOperatorAddress a |a. a \<in> ran (st_agents (abs s))}"

lemma SyncAgentRegistry_agents:
  assumes "SyncAgentRegistryWithValidatorSet states s = (s', ev, u, d)" "keyed s"
  defines "m \<equiv> byOperatorLoop states Map.empty"
  shows "st_agents (abs s) i = Some a \<Longrightarrow> st_agents (abs s') i = Some (syncedAgent m a)"
    and "st_agents (abs s') i = Some b \<Longrightarrow> st_agents (abs s) i = None \<Longrightarrow>
      \<exists>st \<in> set states. eligibleState st \<and> va_ValidatorOperatorAddress st \<notin> operatorsOf s
        \<and> i = validatorAgentID st \<and> b = newValidatorAgent st"
    and "st \<in> set states \<Longrightarrow> eligibleState st \<Longrightarrow> va_ValidatorOperatorAddress st \<notin> operatorsOf s
      \<Longrightarrow> st_agents (abs s) (validatorAgentID st) = None
      \<Longrightarrow> \<exists>a st'. st_agents (abs s') (validatorAgentID st) = Some a \<and> st' \<in> set states
         \<and> va_ValidatorOperatorAddress st' = va_ValidatorOperatorAddress st
         \<and> eligibleState st' \<and> a = newValidatorAgent st'"
proof -
  let ?y0 = "\<lparr>sy_store = s, sy_knownOperators = {}, sy_knownAgentIDs = {}, sy_updated = 0, sy_deactivated = 0\<rparr>"
  define y where "y = agentsLoop m (GetAllAgents s) ?y0"
  have s': "s' = sy_store (newAgentsLoop states y)"
    using assms(1) by (simp add: SyncAgentRegistryWithValidatorSet_def Let_def y_def m_def)
  have ids: "sy_knownAgentIDs y = dom (st_agents (abs s))"
    by (simp add: y_def agentsLoop_known ids_GetAllAgents [OF assms(2)])
  have ops: "sy_knownOperators y = operatorsOf s - {[]}"
    by (auto simp: y_def agentsLoop_known operatorsOf_def getAll_set)
  have ag: "st_agents (abs (sy_store y)) j = map_option (syncedAgent m) (st_agents (abs s) j)" for j
    unfolding y_def agentsLoop_store
    by (subst fold_synced)
       (simp_all add: GetAllAgents_keyed [OF assms(2)] ids_GetAllAgents [OF assms(2)] domIff)
  show "st_agents (abs s') i = Some (syncedAgent m a)" if "st_agents (abs s) i = Some a"
    using that newAgentsLoop_keep [of i y states] by (simp add: s' ids ag dom_def)
  show "\<exists>st \<in> set states. eligibleState st \<and> va_ValidatorOperatorAddress st \<notin> operatorsOf s
        \<and> i = validatorAgentID st \<and> b = newValidatorAgent st"
    if "st_agents (abs s') i = Some b" "st_agents (abs s) i = None"
  proof -
    have "keyed s'" using SyncAgentRegistry_keyed [OF assms(1,2)] .
    then have "ag_AgentId b = i" using that(1) by (simp add: keyed_def)
    with newAgentsLoop_new [of states y i b] that show ?thesis
      by (auto simp: s' ag ops eligibleState_def newValidatorAgent_def)
  qed
  show "\<exists>a st'. st_agents (abs s') (validatorAgentID st) = Some a \<and> st' \<in> set states
         \<and> va_ValidatorOperatorAddress st' = va_ValidatorOperatorAddress st
         \<and> eligibleState st' \<and> a = newValidatorAgent st'"
    if "st \<in> set states" "eligibleState st" "va_ValidatorOperatorAddress st \<notin> operatorsOf s"
      "st_agents (abs s) (validatorAgentID st) = None"
    using newAgentsLoop_all [OF that(1,2), of y] that by (auto simp: s' ids ops dom_def)
qed

end
