(* ===== verification/Chain.thy ===== *)
theory Chain
  imports MsgSpec ValidatorSync
begin

text \<open>
  The module as a state machine. A step is one request to the chain: a transaction message,
  the post-handler of a delivered transaction, or the end-of-block sync; between them the bank
  moves as it likes. \<open>effect\<close> is the abstract step relation the handlers refine: eight ways the
  store may change, each with the guards that allow it.
\<close>

section \<open>Requests\<close>

datatype request =
    ReqRegisterAgent MsgRegisterAgent
  | ReqSubmitRiskReport MsgSubmitRiskReport
  | ReqOpenSanctionCase MsgOpenSanctionCase
  | ReqSubmitSanctionVote MsgSubmitSanctionVote
  | ReqExecuteSanction MsgExecuteSanction
  | ReqRevokeSanction MsgRevokeSanction
  | ReqReviewSanction MsgReviewSanction
  | ReqUpdateParams MsgUpdateParams
  | ReqClaimAgentLease MsgClaimAgentLease
  | ReqPostHandler "sdkMsg list" bool bool
  | ReqEndBlock "error + stakingValidator list"

fun deliver :: "'b env \<Rightarrow> Keeper \<Rightarrow> ctx \<Rightarrow> request \<Rightarrow> 'b world \<Rightarrow> 'b world" where
  "deliver E K c (ReqRegisterAgent m) w = snd (RegisterAgent E K c m w)"
| "deliver E K c (ReqSubmitRiskReport m) w = snd (SubmitRiskReport E K c m w)"
| "deliver E K c (ReqOpenSanctionCase m) w = snd (OpenSanctionCase E c m w)"
| "deliver E K c (ReqSubmitSanctionVote m) w = snd (SubmitSanctionVote E K c m w)"
| "deliver E K c (ReqExecuteSanction m) w = snd (ExecuteSanction E K c m w)"
| "deliver E K c (ReqRevokeSanction m) w = snd (RevokeSanction K c m w)"
| "deliver E K c (ReqReviewSanction m) w = snd (ReviewSanction K c m w)"
| "deliver E K c (ReqUpdateParams m) w = snd (UpdateParams K m w)"
| "deliver E K c (ReqClaimAgentLease m) w = snd (ClaimAgentLease_handler E c m w)"
| "deliver E K c (ReqPostHandler msgs simulate success) w =
     onStore (RecordOriginalTransfers E c msgs simulate success) w"
| "deliver E K c (ReqEndBlock validators) w =
     (case SyncSanctionAgentsWithStakingValidators E validators (w_store w) of
        Inl e \<Rightarrow> w
      | Inr (s', ev) \<Rightarrow> w\<lparr>w_store := s', w_events := w_events w @ ev\<rparr>)"

inductive chainStep :: "'b env \<Rightarrow> Keeper \<Rightarrow> 'b world \<Rightarrow> 'b world \<Rightarrow> bool" for E K where
  request: "chainStep E K w (deliver E K c req w)"
| bank: "chainStep E K w (w\<lparr>w_bank := b\<rparr>)"

inductive reachable :: "'b env \<Rightarrow> Keeper \<Rightarrow> 'b world \<Rightarrow> 'b world \<Rightarrow> bool" for E K w0 where
  start: "reachable E K w0 w0"
| step: "reachable E K w0 w \<Longrightarrow> chainStep E K w w' \<Longrightarrow> reachable E K w0 w'"

section \<open>The abstract steps\<close>

text \<open>A change of parameters, agents, leases or receipts only.\<close>

definition registryFrame :: "store \<Rightarrow> store \<Rightarrow> bool" where
  "registryFrame s s' \<longleftrightarrow> (\<exists>p a g l t. abs s' = (abs s)
     \<lparr>st_params := p, st_agents := a, st_signers := g, st_leases := l, st_transfers := t\<rparr>)"

inductive effect :: "'b env \<Rightarrow> store \<Rightarrow> store \<Rightarrow> bool" for E :: "'b env" where
  registry: "registryFrame s s' \<Longrightarrow> keyed s' \<Longrightarrow> effect E s s'"
| report: "GetRiskReport s (rr_ReportId r) = None \<Longrightarrow> effect E s (SetRiskReport r s)"
| opened: "GetSanctionCase s (sc_CaseId sc) = None \<Longrightarrow> sc_Status sc = CASE_STATUS_PENDING
    \<Longrightarrow> sc_ExecutedHeight sc = 0 \<Longrightarrow> ValidateCaseSnapshot E sc = Inr ()
    \<Longrightarrow> effect E s (SetSanctionCase sc s)"
| expired: "GetSanctionCase s (sc_CaseId sc) = Some sc
    \<Longrightarrow> sc_Status sc \<in> {CASE_STATUS_PENDING, CASE_STATUS_APPROVED, CASE_STATUS_EXPIRED}
    \<Longrightarrow> effect E s (SetSanctionCase (sc\<lparr>sc_Status := CASE_STATUS_EXPIRED\<rparr>) s)"
| voted: "voteAccepted E K c s submitter vote sc agent \<Longrightarrow> sc_CaseId sc = sv_CaseId vote
    \<Longrightarrow> recomputeCaseStatus c (SetSanctionVote vote s) sc = (s2, sc', approved, rejected)
    \<Longrightarrow> effect E s (SetSanctionCase sc' s2)"
| executed: "executeGuards E c (w_store w) msg = Inr sc \<Longrightarrow> sc_CaseId sc = xm_CaseId msg
    \<Longrightarrow> actionEffect E c sc w w1 \<Longrightarrow> er_CaseId er = sc_CaseId sc
    \<Longrightarrow> er_Action er = sc_RequestedAction sc \<Longrightarrow> er_ExecutedHeight er = blockHeight c
    \<Longrightarrow> s' = SetExecutionRecord er (SetSanctionCase (sc\<lparr>sc_Status := CASE_STATUS_EXECUTED,
         sc_ExecutedHeight := blockHeight c\<rparr>) (w_store w1)) \<Longrightarrow> effect E (w_store w) s'"
| reviewed: "GetSanctionCase s (rv_CaseId rv) = Some sc \<Longrightarrow> sc_Status sc \<noteq> CASE_STATUS_REVOKED
    \<Longrightarrow> GetReview s (rv_CaseId rv) = None \<Longrightarrow> rv_RevokedHeight rv = 0
    \<Longrightarrow> effect E s (SetReview rv s)"
| revoked: "GetSanctionCase s (sc_CaseId sc) = Some sc \<Longrightarrow> GetReview s (sc_CaseId sc) = Some rv
    \<Longrightarrow> rv_CaseId rv = sc_CaseId sc \<Longrightarrow> revocable c authority rv sc
    \<Longrightarrow> effect E s (SetReview (rv\<lparr>rv_RevokedHeight := blockHeight c, rv_RevokeReason := reason\<rparr>)
         (SetSanctionCase (sc\<lparr>sc_Status := CASE_STATUS_REVOKED\<rparr>) (liftSanctions sc (sc_CaseId sc) s)))"

inductive effects :: "'b env \<Rightarrow> store \<Rightarrow> store \<Rightarrow> bool" for E :: "'b env" where
  none: "effects E s s"
| more: "effects E s t \<Longrightarrow> effect E t u \<Longrightarrow> effects E s u"

lemma effects_one: "effect E s t \<Longrightarrow> effects E s t"
  using effects.none effects.more by blast

lemma registryFrame_absI:
  "abs s' = (abs s)\<lparr>st_params := p, st_agents := a, st_signers := g, st_leases := l, st_transfers := t\<rparr>
    \<Longrightarrow> registryFrame s s'"
  unfolding registryFrame_def by (intro exI)

lemma registryFrame_simple:
  "registryFrame s (SetParams p s)" "registryFrame s (SetAgent ag s)" "registryFrame s (SetAgentLease le s)"
  by (rule registryFrame_absI [where p = "Some p" and a = "st_agents (abs s)" and g = "st_signers (abs s)"
        and l = "st_leases (abs s)" and t = "st_transfers (abs s)"], simp add: abs_SetParams)
     (rule registryFrame_absI [where p = "st_params (abs s)" and l = "st_leases (abs s)"
        and t = "st_transfers (abs s)"], simp add: abs_SetAgent,
      rule registryFrame_absI [where p = "st_params (abs s)" and a = "st_agents (abs s)"
        and g = "st_signers (abs s)" and t = "st_transfers (abs s)"], simp add: abs_SetAgentLease)

lemma registryFrame_agents:
  assumes "agentFrame s s'"
  shows "registryFrame s s'"
proof -
  obtain a g where "abs s' = (abs s)\<lparr>st_agents := a, st_signers := g\<rparr>" using assms by (auto simp: agentFrame_def)
  then show ?thesis
    by (intro registryFrame_absI [where p = "st_params (abs s)" and a = a and g = g
          and l = "st_leases (abs s)" and t = "st_transfers (abs s)"]) simp
qed

lemma registryFrame_transfers: "registryFrame s (RecordOriginalTransfers E c msgs sim ok s)"
proof -
  obtain m where "abs (RecordOriginalTransfers E c msgs sim ok s) = (abs s)\<lparr>st_transfers := m\<rparr>"
    using RecordOriginalTransfers_frame by blast
  then show ?thesis
    by (intro registryFrame_absI [where p = "st_params (abs s)" and a = "st_agents (abs s)"
          and g = "st_signers (abs s)" and l = "st_leases (abs s)" and t = m]) simp
qed

lemma keyed_case_id: "keyed s \<Longrightarrow> GetSanctionCase s i = Some sc \<Longrightarrow> sc_CaseId sc = i"
  by (simp add: keyed_def get_abs)

lemma keyed_review_id: "keyed s \<Longrightarrow> GetReview s i = Some rv \<Longrightarrow> rv_CaseId rv = i"
  by (simp add: keyed_def get_abs)

section \<open>The handlers refine the abstract steps\<close>

lemma replaced_effects:
  assumes "replaced c msg reports s s1" "keyed s"
  shows "effects E s s1"
proof (cases "oc_PreviousCaseId msg = []")
  case True
  with assms(1) show ?thesis by (simp add: replaced_def effects.none)
next
  case False
  with assms obtain sc r where sc: "GetSanctionCase s (oc_PreviousCaseId msg) = Some sc"
    "replaceable c s sc r (hd reports)" "s1 = SetSanctionCase (sc\<lparr>sc_Status := CASE_STATUS_EXPIRED\<rparr>) s"
    by (auto simp: replaced_def expireForReplacement_Inr)
  with keyed_case_id [OF assms(2) sc(1)] have "effect E s s1"
    by (auto simp: replaceable_def intro: effect.expired)
  then show ?thesis by (rule effects_one)
qed

lemma replaced_cases_None:
  assumes "replaced c msg reports s s1" "GetSanctionCase s i = None" "keyed s"
  shows "GetSanctionCase s1 i = None"
  using assms keyed_case_id [OF assms(3), of "oc_PreviousCaseId msg"]
  by (auto simp: replaced_def expireForReplacement_Inr get_abs abs_SetSanctionCase split: if_splits)

lemma openGuards_new: "openGuards E s msg = Inr () \<Longrightarrow> GetSanctionCase s (oc_CaseId msg) = None"
  by (auto simp: openGuards_def split: if_splits)

lemma ValidatorSync_effect:
  assumes "SyncSanctionAgentsWithStakingValidators E validators s = Inr (s', ev)" "keyed s"
  shows "effects E s s'"
proof -
  from assms(1) obtain vs where vs: "(if vs = [] then Inr (s, [])
     else bind_r (validatorStates E vs) (\<lambda>states.
       case SyncAgentRegistryWithValidatorSet states s of (s', ev, _, _) \<Rightarrow> Inr (s', ev)))
     = Inr (s', ev)"
    by (auto simp: SyncSanctionAgentsWithStakingValidators_def bind_r_Inr_iff)
  show ?thesis
  proof (cases "vs = []")
    case True
    with vs show ?thesis by (simp add: effects.none)
  next
    case False
    with vs obtain states where st: "validatorStates E vs = Inr states" by (auto simp: bind_r_Inr_iff)
    obtain s1 e1 u d where y1: "SyncAgentRegistryWithValidatorSet states s = (s1, e1, u, d)"
      by (metis prod_cases4)
    from vs False st y1 have "s1 = s'" "e1 = ev" by simp_all
    with y1 have y: "SyncAgentRegistryWithValidatorSet states s = (s', ev, u, d)" by simp
    have "registryFrame s s'" "keyed s'"
      using SyncAgentRegistry_frame [OF y] SyncAgentRegistry_keyed [OF y assms(2)]
      by (auto intro: registryFrame_agents)
    then show ?thesis by (intro effects_one effect.registry)
  qed
qed

theorem deliver_effects:
  assumes "keyed (w_store w)"
  shows "effects E (w_store w) (w_store (deliver E K c req w))"
proof (cases req)
  case (ReqRegisterAgent m)
  obtain r w' where h: "RegisterAgent E K c m w = (r, w')" by (cases "RegisterAgent E K c m w")
  then show ?thesis using assms
    by (cases rule: RegisterAgent_cases)
       (auto simp: ReqRegisterAgent h effects.none
          intro!: effects_one effect.registry registryFrame_simple keyed_writes)
next
  case (ReqUpdateParams m)
  obtain r w' where h: "UpdateParams K m w = (r, w')" by (cases "UpdateParams K m w")
  then show ?thesis using assms
    by (cases rule: UpdateParams_cases)
       (auto simp: ReqUpdateParams h effects.none
          intro!: effects_one effect.registry registryFrame_simple keyed_writes)
next
  case (ReqClaimAgentLease m)
  obtain r w' where h: "ClaimAgentLease_handler E c m w = (r, w')" by (cases "ClaimAgentLease_handler E c m w")
  then show ?thesis using assms
    by (cases rule: ClaimAgentLease_handler_cases)
       (auto simp: ReqClaimAgentLease h effects.none dest!: ClaimAgentLease_store
          intro!: effects_one effect.registry registryFrame_simple keyed_writes)
next
  case (ReqPostHandler msgs sim ok)
  then show ?thesis using assms
    by (auto intro!: effects_one effect.registry registryFrame_transfers keyed_RecordOriginalTransfers)
next
  case (ReqEndBlock vs)
  then show ?thesis using ValidatorSync_effect [OF _ assms]
    by (auto simp: effects.none split: sum.splits prod.splits)
next
  case (ReqSubmitRiskReport m)
  obtain r w' where h: "SubmitRiskReport E K c m w = (r, w')" by (cases "SubmitRiskReport E K c m w")
  then show ?thesis
    by (cases rule: SubmitRiskReport_cases)
       (auto simp: ReqSubmitRiskReport h effects.none intro!: effects_one effect.report)
next
  case (ReqOpenSanctionCase m)
  obtain r w' where h: "OpenSanctionCase E c m w = (r, w')" by (cases "OpenSanctionCase E c m w")
  then show ?thesis
  proof (cases rule: OpenSanctionCase_cases)
    case (ok reports s1 sc)
    note f = openedCase_fields [OF ok(6)]
    have "effect E s1 (SetSanctionCase sc s1)"
      using replaced_cases_None [OF ok(5) openGuards_new [OF ok(2)] assms] f by (intro effect.opened) auto
    with replaced_effects [OF ok(5) assms] show ?thesis
      by (auto simp: ReqOpenSanctionCase h ok(7) intro: effects.more)
  qed (auto simp: ReqOpenSanctionCase h effects.none intro: replaced_effects [OF _ assms])
next
  case (ReqSubmitSanctionVote m)
  obtain r w' where h: "SubmitSanctionVote E K c m w = (r, w')" by (cases "SubmitSanctionVote E K c m w")
  then show ?thesis
  proof (cases rule: SubmitSanctionVote_cases)
    case (expired vote sc)
    with keyed_case_id [OF assms expired(3)] show ?thesis
      by (auto simp: ReqSubmitSanctionVote h intro!: effects_one effect.expired)
  next
    case (ok vote sc agent s2 sc' a b)
    then have "GetSanctionCase (w_store w) (sv_CaseId vote) = Some sc" by (simp add: voteAccepted_def)
    from effect.voted [OF ok(3) keyed_case_id [OF assms this] ok(4)] ok(5) show ?thesis
      by (simp add: ReqSubmitSanctionVote h effects_one)
  qed (simp add: ReqSubmitSanctionVote h effects.none)
next
  case (ReqExecuteSanction m)
  obtain r w' where h: "ExecuteSanction E K c m w = (r, w')" by (cases "ExecuteSanction E K c m w")
  then show ?thesis
  proof (cases rule: ExecuteSanction_cases)
    case (ok sc er w1)
    note id = keyed_case_id [OF assms executeGuards_Inr(1) [OF ok(2)]]
    note p = performAction_Inr [OF ok(3)]
    from effect.executed [OF ok(2) id p ok(4)] show ?thesis
      by (simp add: ReqExecuteSanction h effects_one)
  qed (simp add: ReqExecuteSanction h effects.none)
next
  case (ReqReviewSanction m)
  obtain r w' where h: "ReviewSanction K c m w = (r, w')" by (cases "ReviewSanction K c m w")
  then show ?thesis
    by (cases rule: ReviewSanction_cases)
       (auto simp: ReqReviewSanction h effects.none intro!: effects_one effect.reviewed)
next
  case (ReqRevokeSanction m)
  obtain r w' where h: "RevokeSanction K c m w = (r, w')" by (cases "RevokeSanction K c m w")
  then show ?thesis
  proof (cases rule: RevokeSanction_cases)
    case (ok sc review)
    note id = keyed_case_id [OF assms ok(3)] keyed_review_id [OF assms ok(4)]
    from effect.revoked [of "w_store w" sc review c "rm_Authority m" E "rm_Reason m"] ok id show ?thesis
      by (simp add: ReqRevokeSanction h effects_one)
  qed (simp add: ReqRevokeSanction h effects.none)
qed

end
