(* ===== verification/ChainInv.thy ===== *)
theory ChainInv
  imports Chain
begin

text \<open>
  The invariants of the chain, proved for each abstract step of \<open>effect\<close> and so for every
  reachable world: records under their own keys, cases with valid snapshots, executions and
  settlements matched one to one with the cases that caused them, bans and freezes that belong
  to a live case, revocation only after a review, and the quorum behind every approval.
\<close>

section \<open>The invariants\<close>

definition casesOk :: "'b env \<Rightarrow> store \<Rightarrow> bool" where
  "casesOk E s \<longleftrightarrow> (\<forall>i c. st_cases (abs s) i = Some c \<longrightarrow> ValidateCaseSnapshot E c = Inr ())"

definition execsOk :: "store \<Rightarrow> bool" where
  "execsOk s \<longleftrightarrow>
     (\<forall>i e. st_execs (abs s) i = Some e \<longrightarrow> (\<exists>c. st_cases (abs s) i = Some c
        \<and> sc_Status c \<in> {CASE_STATUS_EXECUTED, CASE_STATUS_REVOKED}
        \<and> sc_ExecutedHeight c = er_ExecutedHeight e \<and> sc_RequestedAction c = er_Action e))
   \<and> (\<forall>i c. st_cases (abs s) i = Some c \<longrightarrow> sc_Status c = CASE_STATUS_EXECUTED
        \<longrightarrow> st_execs (abs s) i \<noteq> None)"

definition monetaryAction :: "SanctionAction \<Rightarrow> bool" where
  "monetaryAction a \<longleftrightarrow> a = SANCTION_ACTION_ESCROW_FUNDS \<or> a = SANCTION_ACTION_REVERT_TRANSFER"

definition settlesOk :: "store \<Rightarrow> bool" where
  "settlesOk s \<longleftrightarrow>
     (\<forall>k r. st_settles (abs s) k = Some r \<longrightarrow> (\<exists>e. st_execs (abs s) (sr_CaseId r) = Some e
        \<and> er_Action e = sr_Action r \<and> er_ExecutedHeight e = sr_ExecutedHeight r
        \<and> monetaryAction (sr_Action r)))
   \<and> (\<forall>k k' r r'. st_settles (abs s) k = Some r \<longrightarrow> st_settles (abs s) k' = Some r'
        \<longrightarrow> sr_CaseId r = sr_CaseId r' \<longrightarrow> k = k')
   \<and> (\<forall>i e. st_execs (abs s) i = Some e \<longrightarrow> monetaryAction (er_Action e)
        \<longrightarrow> (\<exists>k r. st_settles (abs s) k = Some r \<and> sr_CaseId r = i))"

definition bansOk :: "store \<Rightarrow> bool" where
  "bansOk s \<longleftrightarrow>
     (\<forall>h a. st_active (abs s) h = Some a \<longrightarrow> (\<exists>c. st_cases (abs s) (as_CaseId a) = Some c
        \<and> sc_TxHash c = h \<and> sc_RequestedAction c = SANCTION_ACTION_BLOCK_TX
        \<and> sc_Status c \<in> {CASE_STATUS_APPROVED, CASE_STATUS_EXECUTED, CASE_STATUS_EXPIRED}))
   \<and> (\<forall>i f. st_frozen (abs s) i = Some f \<longrightarrow> (\<exists>c. st_cases (abs s) (fr_CaseId f) = Some c
        \<and> sc_TargetAddress c = i \<and> sc_RequestedAction c = SANCTION_ACTION_FREEZE_ADDRESS
        \<and> sc_Status c = CASE_STATUS_EXECUTED))"

definition reviewsOk :: "store \<Rightarrow> bool" where
  "reviewsOk s \<longleftrightarrow>
     (\<forall>i r. st_reviews (abs s) i = Some r \<longrightarrow> (\<exists>c. st_cases (abs s) i = Some c
        \<and> (rv_RevokedHeight r \<noteq> 0 \<longrightarrow> sc_Status c = CASE_STATUS_REVOKED
             \<and> rv_ReviewedHeight r < rv_RevokedHeight r)))
   \<and> (\<forall>i c. st_cases (abs s) i = Some c \<longrightarrow> sc_Status c = CASE_STATUS_REVOKED
        \<longrightarrow> (\<exists>r. st_reviews (abs s) i = Some r \<and> rv_RevokedHeight r \<noteq> 0))"

text \<open>Votes come from the case's snapshot, signed with the voter's key.\<close>

definition votesOk :: "'b env \<Rightarrow> store \<Rightarrow> bool" where
  "votesOk E s \<longleftrightarrow> (\<forall>k v. st_votes (abs s) k = Some v \<longrightarrow>
     (\<exists>c agent chainID. st_cases (abs s) (sv_CaseId v) = Some c
        \<and> caseVoter c (sv_AgentId v) = Some agent
        \<and> VerifySecp256k1 E (ag_PublicKey agent) (sv_Signature v) (VoteSignBytes chainID v)
        \<and> (sv_Option v = VOTE_OPTION_APPROVE \<longrightarrow> sv_ApprovedAction v = sc_RequestedAction c)))"

text \<open>The power recorded for an option, straight from the vote table.\<close>

definition recordedPower :: "VoteOption \<Rightarrow> store \<Rightarrow> SanctionCase \<Rightarrow> nat" where
  "recordedPower opt s c = powerOf (filter (\<lambda>a. \<exists>v. GetSanctionVote s (sc_CaseId c) (ag_AgentId a) = Some v
     \<and> sv_Option v = opt) (activeVoters (sc_Voters c)))"

definition recordedQuorum :: "VoteOption \<Rightarrow> store \<Rightarrow> SanctionCase \<Rightarrow> bool" where
  "recordedQuorum opt s c \<longleftrightarrow> (unat (sc_QuorumThreshold c) - 1) * powerOf (activeVoters (sc_Voters c))
     < 100 * recordedPower opt s c"

text \<open>No recorded vote has a case id with a NUL byte, the separator of vote keys.\<close>

definition nulFree :: "store \<Rightarrow> bool" where
  "nulFree s \<longleftrightarrow> (\<forall>k v. st_votes (abs s) k = Some v \<longrightarrow> NUL \<notin> set (sv_CaseId v))"

definition approvedOk :: "store \<Rightarrow> bool" where
  "approvedOk s \<longleftrightarrow> (nulFree s \<longrightarrow> (\<forall>i c. st_cases (abs s) i = Some c
     \<longrightarrow> sc_Status c \<in> {CASE_STATUS_APPROVED, CASE_STATUS_EXECUTED}
     \<longrightarrow> recordedQuorum VOTE_OPTION_APPROVE s c))"

definition unanimousOk :: "store \<Rightarrow> bool" where
  "unanimousOk s \<longleftrightarrow> (\<forall>i c a. st_cases (abs s) i = Some c \<longrightarrow> sc_Status c = CASE_STATUS_EXECUTED
     \<longrightarrow> sc_RequestedAction c = SANCTION_ACTION_REVERT_TRANSFER \<longrightarrow> sc_UnanimousRequiredForRevert c
     \<longrightarrow> a \<in> set (activeVoters (sc_Voters c)) \<longrightarrow> ag_VotingPower a \<noteq> 0
     \<longrightarrow> (\<exists>v. st_votes (abs s) (voteRaw i (ag_AgentId a)) = Some v \<and> sv_Option v = VOTE_OPTION_APPROVE))"

section \<open>What one step may do to the records\<close>

text \<open>
  Reports, votes, executions and settlements are never changed or removed. A case keeps every
  field but its status and executed height, and its status moves along the edges below; an
  approval can only be lost when vote keys leak between cases. A review only ever gets its
  revocation filled in, once.
\<close>

fun statusEdge :: "bool \<Rightarrow> CaseStatus \<Rightarrow> CaseStatus \<Rightarrow> bool" where
  "statusEdge leaky CASE_STATUS_PENDING t = (t \<in> {CASE_STATUS_PENDING, CASE_STATUS_APPROVED,
     CASE_STATUS_REJECTED, CASE_STATUS_EXECUTED, CASE_STATUS_EXPIRED, CASE_STATUS_REVOKED})"
| "statusEdge leaky CASE_STATUS_APPROVED t = (t \<in> {CASE_STATUS_APPROVED, CASE_STATUS_EXECUTED,
     CASE_STATUS_EXPIRED, CASE_STATUS_REVOKED} \<or> leaky \<and> t = CASE_STATUS_REJECTED)"
| "statusEdge leaky CASE_STATUS_EXECUTED t = (t \<in> {CASE_STATUS_EXECUTED, CASE_STATUS_REVOKED})"
| "statusEdge leaky CASE_STATUS_REJECTED t = (t \<in> {CASE_STATUS_REJECTED, CASE_STATUS_REVOKED})"
| "statusEdge leaky CASE_STATUS_EXPIRED t = (t \<in> {CASE_STATUS_EXPIRED, CASE_STATUS_REVOKED})"
| "statusEdge leaky other t = (t = other \<or> t = CASE_STATUS_REVOKED)"

definition sameCase :: "SanctionCase \<Rightarrow> SanctionCase \<Rightarrow> bool" where
  "sameCase c c' \<longleftrightarrow> c' = c\<lparr>sc_Status := sc_Status c', sc_ExecutedHeight := sc_ExecutedHeight c'\<rparr>"

definition evolves :: "store \<Rightarrow> store \<Rightarrow> bool" where
  "evolves s s' \<longleftrightarrow>
     st_reports (abs s) \<subseteq>\<^sub>m st_reports (abs s') \<and> st_votes (abs s) \<subseteq>\<^sub>m st_votes (abs s')
   \<and> st_execs (abs s) \<subseteq>\<^sub>m st_execs (abs s') \<and> st_settles (abs s) \<subseteq>\<^sub>m st_settles (abs s')
   \<and> (\<forall>i c. st_cases (abs s) i = Some c \<longrightarrow> (\<exists>c'. st_cases (abs s') i = Some c' \<and> sameCase c c'
        \<and> statusEdge (\<not> nulFree s') (sc_Status c) (sc_Status c')))
   \<and> (\<forall>i r. st_reviews (abs s) i = Some r \<longrightarrow> (\<exists>h t. st_reviews (abs s') i
        = Some (r\<lparr>rv_RevokedHeight := h, rv_RevokeReason := t\<rparr>)
        \<and> (rv_RevokedHeight r \<noteq> 0 \<longrightarrow> h = rv_RevokedHeight r \<and> t = rv_RevokeReason r)))"

lemma statusEdge_refl [simp]: "statusEdge l st st"
  by (cases st) auto

lemma statusEdge_trans: "statusEdge l st su \<Longrightarrow> statusEdge l su sv \<Longrightarrow> statusEdge l st sv"
  by (cases st; cases su) auto

lemma statusEdge_mono: "statusEdge l st su \<Longrightarrow> (l \<Longrightarrow> l') \<Longrightarrow> statusEdge l' st su"
  by (cases st) auto

lemma sameCase_refl [simp]: "sameCase c c"
  by (simp add: sameCase_def)

lemma sameCase_update [simp]:
  "sameCase c (c\<lparr>sc_Status := st\<rparr>)" "sameCase c (c\<lparr>sc_Status := st, sc_ExecutedHeight := h\<rparr>)"
  by (simp_all add: sameCase_def)

lemma sameCase_fields:
  assumes "sameCase c c'"
  shows "sc_CaseId c' = sc_CaseId c" "sc_TxHash c' = sc_TxHash c" "sc_TargetAddress c' = sc_TargetAddress c"
    "sc_RequestedAction c' = sc_RequestedAction c" "sc_Voters c' = sc_Voters c"
    "sc_QuorumThreshold c' = sc_QuorumThreshold c"
    "sc_UnanimousRequiredForRevert c' = sc_UnanimousRequiredForRevert c"
    "sc_ReportIds c' = sc_ReportIds c" "sc_TargetType c' = sc_TargetType c"
  using assms [unfolded sameCase_def, THEN arg_cong, of sc_CaseId]
    assms [unfolded sameCase_def, THEN arg_cong, of sc_TxHash]
    assms [unfolded sameCase_def, THEN arg_cong, of sc_TargetAddress]
    assms [unfolded sameCase_def, THEN arg_cong, of sc_RequestedAction]
    assms [unfolded sameCase_def, THEN arg_cong, of sc_Voters]
    assms [unfolded sameCase_def, THEN arg_cong, of sc_QuorumThreshold]
    assms [unfolded sameCase_def, THEN arg_cong, of sc_UnanimousRequiredForRevert]
    assms [unfolded sameCase_def, THEN arg_cong, of sc_ReportIds]
    assms [unfolded sameCase_def, THEN arg_cong, of sc_TargetType]
  by simp_all

lemma sameCase_trans: "sameCase c c' \<Longrightarrow> sameCase c' c'' \<Longrightarrow> sameCase c c''"
  unfolding sameCase_def by (cases c; cases c'; cases c'') simp

lemma nulFree_mono: "st_votes (abs s) \<subseteq>\<^sub>m st_votes (abs s') \<Longrightarrow> nulFree s' \<Longrightarrow> nulFree s"
  by (force simp: nulFree_def map_le_def dom_def)

lemma evolves_refl: "evolves s s"
proof -
  have "\<exists>h t. r = r\<lparr>rv_RevokedHeight := h, rv_RevokeReason := t\<rparr> \<and>
     (rv_RevokedHeight r \<noteq> 0 \<longrightarrow> h = rv_RevokedHeight r \<and> t = rv_RevokeReason r)" for r :: ReviewRecord
    by (rule exI [of _ "rv_RevokedHeight r"], rule exI [of _ "rv_RevokeReason r"]) simp
  then show ?thesis by (simp add: evolves_def)
qed

lemma evolves_trans:
  assumes "evolves s t" "evolves t u"
  shows "evolves s u"
proof -
  have votes: "st_votes (abs t) \<subseteq>\<^sub>m st_votes (abs u)" using assms(2) by (simp add: evolves_def)
  have leak: "\<not> nulFree t \<Longrightarrow> \<not> nulFree u" using nulFree_mono [OF votes] by blast
  have cases: "\<exists>c''. st_cases (abs u) i = Some c'' \<and> sameCase c c''
      \<and> statusEdge (\<not> nulFree u) (sc_Status c) (sc_Status c'')" if c: "st_cases (abs s) i = Some c" for i c
  proof -
    from assms(1) c obtain c' where c': "st_cases (abs t) i = Some c'" "sameCase c c'"
      "statusEdge (\<not> nulFree t) (sc_Status c) (sc_Status c')" unfolding evolves_def by blast
    from assms(2) c'(1) obtain c'' where c'': "st_cases (abs u) i = Some c''" "sameCase c' c''"
      "statusEdge (\<not> nulFree u) (sc_Status c') (sc_Status c'')" unfolding evolves_def by blast
    from c' c'' leak show ?thesis by (blast intro: sameCase_trans statusEdge_trans statusEdge_mono)
  qed
  have reviews: "\<exists>h t. st_reviews (abs u) i = Some (r\<lparr>rv_RevokedHeight := h, rv_RevokeReason := t\<rparr>)
        \<and> (rv_RevokedHeight r \<noteq> 0 \<longrightarrow> h = rv_RevokedHeight r \<and> t = rv_RevokeReason r)"
    if r: "st_reviews (abs s) i = Some r" for i r
  proof -
    from assms(1) r obtain h x where h: "st_reviews (abs t) i = Some (r\<lparr>rv_RevokedHeight := h, rv_RevokeReason := x\<rparr>)"
      "rv_RevokedHeight r \<noteq> 0 \<longrightarrow> h = rv_RevokedHeight r \<and> x = rv_RevokeReason r" unfolding evolves_def by blast
    from assms(2) h(1) obtain h' x' where "st_reviews (abs u) i = Some
        ((r\<lparr>rv_RevokedHeight := h, rv_RevokeReason := x\<rparr>)\<lparr>rv_RevokedHeight := h', rv_RevokeReason := x'\<rparr>)"
      "rv_RevokedHeight (r\<lparr>rv_RevokedHeight := h, rv_RevokeReason := x\<rparr>) \<noteq> 0 \<longrightarrow>
         h' = rv_RevokedHeight (r\<lparr>rv_RevokedHeight := h, rv_RevokeReason := x\<rparr>)
         \<and> x' = rv_RevokeReason (r\<lparr>rv_RevokedHeight := h, rv_RevokeReason := x\<rparr>)" unfolding evolves_def by blast
    with h(2) show ?thesis by (intro exI [of _ h'] exI [of _ x']) auto
  qed
  from assms have "st_reports (abs s) \<subseteq>\<^sub>m st_reports (abs u) \<and> st_votes (abs s) \<subseteq>\<^sub>m st_votes (abs u)
     \<and> st_execs (abs s) \<subseteq>\<^sub>m st_execs (abs u) \<and> st_settles (abs s) \<subseteq>\<^sub>m st_settles (abs u)"
    unfolding evolves_def by (blast intro: map_le_trans)
  with cases reviews show ?thesis unfolding evolves_def by blast
qed

section \<open>Counting from the vote table\<close>

text \<open>With one vote per agent the scan order does not matter.\<close>

lemma scanOption_iff:
  assumes "\<And>v v'. v \<in> set vs \<Longrightarrow> v' \<in> set vs \<Longrightarrow> sv_AgentId v = sv_AgentId v' \<Longrightarrow> v = v'"
    and "opt \<noteq> VOTE_OPTION_UNSPECIFIED"
  shows "scanOption i (map Some vs) = opt \<longleftrightarrow> (\<exists>v \<in> set vs. sv_AgentId v = i \<and> sv_Option v = opt)"
  using assms(1)
proof (induction vs)
  case Nil
  with assms(2) show ?case by auto
next
  case (Cons v vs)
  have IH: "scanOption i (map Some vs) = opt \<longleftrightarrow> (\<exists>v \<in> set vs. sv_AgentId v = i \<and> sv_Option v = opt)"
    using Cons.IH Cons.prems by simp
  show ?case
  proof (cases "sv_AgentId v = i")
    case True
    have "v' = v" if "v' \<in> set vs" "sv_AgentId v' = i" for v'
      using Cons.prems [of v' v] that True by simp
    with True show ?thesis by auto
  next
    case False
    with IH show ?thesis by simp
  qed
qed

lemma GetSanctionVotes_recorded:
  assumes "keyed s" "nulFree s" "NUL \<notin> set i"
  shows "v \<in> set (GetSanctionVotes s i) \<longleftrightarrow> sv_CaseId v = i \<and> GetSanctionVote s i (sv_AgentId v) = Some v"
proof
  assume "v \<in> set (GetSanctionVotes s i)"
  then obtain k where k: "hasPrefix k (i @ [NUL])" "st_votes (abs s) k = Some v" by (auto simp: getAll_set)
  then have kr: "k = voteRaw (sv_CaseId v) (sv_AgentId v)" and n: "NUL \<notin> set (sv_CaseId v)"
    using assms(1,2) by (auto simp: keyed_def nulFree_def)
  from k(1) obtain t where t: "sv_CaseId v @ NUL # sv_AgentId v = i @ NUL # t"
    by (rule hasPrefixE) (simp add: kr voteRaw_def)
  have "sv_CaseId v = i" using sep_unique [OF n assms(3) t] by simp
  with k(2) kr show "sv_CaseId v = i \<and> GetSanctionVote s i (sv_AgentId v) = Some v" by (simp add: get_abs)
next
  assume "sv_CaseId v = i \<and> GetSanctionVote s i (sv_AgentId v) = Some v"
  moreover have "hasPrefix (voteRaw i a) (i @ [NUL])" for a
    using hasPrefix_append [of "i @ [NUL]" a] by (simp add: voteRaw_def)
  ultimately show "v \<in> set (GetSanctionVotes s i)" by (auto simp: getAll_set get_abs)
qed

lemma votedPower_recorded:
  assumes "keyed s" "nulFree s" "NUL \<notin> set (sc_CaseId c)" "opt \<noteq> VOTE_OPTION_UNSPECIFIED"
  shows "votedPower opt (sc_Voters c) (map Some (GetSanctionVotes s (sc_CaseId c))) = recordedPower opt s c"
proof -
  note mem = GetSanctionVotes_recorded [OF assms(1-3)]
  have "scanOption i (map Some (GetSanctionVotes s (sc_CaseId c))) = opt
     \<longleftrightarrow> (\<exists>v. GetSanctionVote s (sc_CaseId c) i = Some v \<and> sv_Option v = opt)" for i
  proof -
    have "scanOption i (map Some (GetSanctionVotes s (sc_CaseId c))) = opt
     \<longleftrightarrow> (\<exists>v \<in> set (GetSanctionVotes s (sc_CaseId c)). sv_AgentId v = i \<and> sv_Option v = opt)"
      by (rule scanOption_iff) (simp_all add: mem assms(4))
    also have "\<dots> \<longleftrightarrow> (\<exists>v. GetSanctionVote s (sc_CaseId c) i = Some v \<and> sv_Option v = opt)"
    proof
      assume "\<exists>v. GetSanctionVote s (sc_CaseId c) i = Some v \<and> sv_Option v = opt"
      then obtain v where v: "GetSanctionVote s (sc_CaseId c) i = Some v" "sv_Option v = opt" by blast
      then have "voteRaw (sv_CaseId v) (sv_AgentId v) = voteRaw (sc_CaseId c) i" and "NUL \<notin> set (sv_CaseId v)"
        using assms(1,2) by (auto simp: keyed_def nulFree_def get_abs)
      then have "sv_CaseId v = sc_CaseId c \<and> sv_AgentId v = i"
        using sep_unique [of NUL "sv_CaseId v" "sc_CaseId c" "sv_AgentId v" i] assms(3)
        by (simp add: voteRaw_def)
      with v mem show "\<exists>v \<in> set (GetSanctionVotes s (sc_CaseId c)). sv_AgentId v = i \<and> sv_Option v = opt"
        by auto
    qed (auto simp: mem)
    finally show ?thesis .
  qed
  then show ?thesis by (simp add: votedPower_def recordedPower_def)
qed

lemma activeVoters_snapshot:
  assumes "ValidateCaseSnapshot E c = Inr ()"
  shows "0 < powerOf (activeVoters (sc_Voters c))"
proof -
  from assms obtain vs where vs: "sc_Voters c = map Some vs" "vs \<noteq> []" "\<forall>a \<in> set vs. voter_ok E a"
    by (auto simp: ValidateCaseSnapshot_iff snapshot_ok_def)
  then obtain a as where a: "vs = a # as" by (cases vs) auto
  have "activeVoters (sc_Voters c) = vs"
    using vs by (simp add: activeVoters_def voter_ok_def)
  moreover have "0 < unat (ag_VotingPower a)"
    using vs(3) a by (simp add: voter_ok_def unat_gt_0)
  ultimately show ?thesis by (simp add: a powerOf_def)
qed

lemma quorumOf_recorded:
  assumes "keyed s" "nulFree s" "NUL \<notin> set (sc_CaseId c)" "opt \<noteq> VOTE_OPTION_UNSPECIFIED"
    and "ValidateCaseSnapshot E c = Inr ()"
  shows "quorumOf opt s c \<longleftrightarrow> recordedQuorum opt s c"
proof -
  have "sc_QuorumThreshold c \<noteq> 0" using assms(5) by (auto simp: ValidateCaseSnapshot_def split: if_splits)
  from quorum_test [OF votedPower_le activeVoters_snapshot [OF assms(5)] this]
  show ?thesis unfolding quorumOf_def recordedQuorum_def
    using votedPower_recorded [OF assms(1-4)] by metis
qed

text \<open>Recorded power only grows.\<close>

lemma recordedPower_mono:
  assumes "st_votes (abs s) \<subseteq>\<^sub>m st_votes (abs s')" "sc_CaseId c = sc_CaseId c'" "sc_Voters c = sc_Voters c'"
  shows "recordedPower opt s c \<le> recordedPower opt s' c'"
proof -
  have le: "powerOf (filter P as) \<le> powerOf (filter Q as)" if "\<And>a. P a \<Longrightarrow> Q a" for P Q as
    using that by (induction as) (auto simp: powerOf_def trans_le_add2)
  show ?thesis unfolding recordedPower_def assms(2,3)
    by (rule le) (use assms(1) in \<open>force simp: get_abs map_le_def dom_def\<close>)
qed

lemma recordedQuorum_mono:
  assumes "st_votes (abs s) \<subseteq>\<^sub>m st_votes (abs s')" "sameCase c c'" "recordedQuorum opt s c"
  shows "recordedQuorum opt s' c'"
proof -
  note f = sameCase_fields [OF assms(2)]
  from recordedPower_mono [OF assms(1), of c c' opt] f assms(3) show ?thesis
    by (simp add: recordedQuorum_def)
qed

end
