(* ===== verification/ChainSafe.thy ===== *)
theory ChainSafe
  imports ChainInv
begin

text \<open>
  Each abstract step keeps the invariants of ChainInv and evolves the records; so does every
  request, and every reachable world. The properties of the state machine are stated here.
\<close>

section \<open>Each step on the abstract state\<close>

lemma status_self [simp]: "sc\<lparr>sc_Status := sc_Status sc\<rparr> = (sc :: SanctionCase)"
  by (cases sc) simp

lemma settles_keyed: "settles E c sc s s' t r \<Longrightarrow> keyed s \<Longrightarrow> keyed s'"
  by (auto simp: settles_def keyed_def split: if_splits)

lemma effect_keyed:
  assumes "effect E s s'" "keyed s"
  shows "keyed s'"
  using assms(1)
proof cases
  case (voted K c submitter vote sc agent s2 sc' a b)
  have "keyed s2" using voted(4) assms(2)
    by (cases rule: recomputeCaseStatus_cases) (auto split: if_splits)
  then show ?thesis by (simp add: voted(1) keyed_writes)
next
  case (executed c w msg sc w1 er)
  have "keyed (w_store w1)"
    using executed(4) assms(2) unfolding actionEffect_def executed(1)
    by (auto simp: keyed_writes settles_keyed split: SanctionAction.splits)
  then show ?thesis by (simp add: executed(8) keyed_writes)
next
  case (revoked sc rv c authority reason)
  have "keyed (liftSanctions sc (sc_CaseId sc) s)"
    unfolding liftSanctions_def Let_def using assms(2) by (auto split: option.splits)
  then show ?thesis by (simp add: revoked(1) keyed_writes)
qed (auto simp: assms(2) keyed_writes)

text \<open>The four kinds of execution.\<close>

lemma actionEffect_cases:
  assumes "actionEffect E c sc w w1"
  obtains (block) "sc_RequestedAction sc = SANCTION_ACTION_BLOCK_TX"
      "abs (w_store w1) = (abs (w_store w))
         \<lparr>st_active := (st_active (abs (w_store w)))(sc_TxHash sc \<mapsto> activeSanctionOf c sc)\<rparr>"
  | (freeze) f where "sc_RequestedAction sc = SANCTION_ACTION_FREEZE_ADDRESS"
      "fr_CaseId f = sc_CaseId sc" "abs (w_store w1) = (abs (w_store w))
         \<lparr>st_frozen := (st_frozen (abs (w_store w)))(sc_TargetAddress sc \<mapsto> f)\<rparr>"
  | (watch) "sc_RequestedAction sc = SANCTION_ACTION_WATCH" "abs (w_store w1) = abs (w_store w)"
  | (settle) k r where "monetaryAction (sc_RequestedAction sc)" "st_settles (abs (w_store w)) k = None"
      "sr_CaseId r = sc_CaseId sc" "sr_Action r = sc_RequestedAction sc" "sr_ExecutedHeight r = blockHeight c"
      "abs (w_store w1) = (abs (w_store w))\<lparr>st_settles := (st_settles (abs (w_store w)))(k \<mapsto> r)\<rparr>"
proof -
  have settle': thesis if "settles E c sc (w_store w) (w_store w1) t r" "monetaryAction (sc_RequestedAction sc)" for t r
    using settle [OF that(2) settles_unsettled(1) [OF that(1)], of "\<lparr>sr_Transfer = Some t,
        sr_CaseId = sc_CaseId sc, sr_Action = sc_RequestedAction sc, sr_ExecutedHeight = blockHeight c\<rparr>"] that(1)
    by (simp add: settles_def)
  show thesis
  proof (cases "sc_RequestedAction sc")
    case SANCTION_ACTION_BLOCK_TX
    with assms block show thesis by (simp add: actionEffect_def abs_SetActiveTxSanction activeSanctionOf_def)
  next
    case SANCTION_ACTION_FREEZE_ADDRESS
    with assms have "w1 = onStore (SetFreezeRecord \<lparr>fr_CaseId = sc_CaseId sc,
        fr_Address = sc_TargetAddress sc, fr_FrozenHeight = blockHeight c\<rparr>) w"
      by (simp add: actionEffect_def)
    then show thesis by (intro freeze [OF SANCTION_ACTION_FREEZE_ADDRESS, of "\<lparr>fr_CaseId = sc_CaseId sc,
        fr_Address = sc_TargetAddress sc, fr_FrozenHeight = blockHeight c\<rparr>"]) (simp_all add: abs_SetFreezeRecord)
  next
    case SANCTION_ACTION_WATCH
    with assms watch show thesis by (simp add: actionEffect_def)
  next
    case SANCTION_ACTION_ESCROW_FUNDS
    with assms settle' show thesis by (auto simp: actionEffect_def monetaryAction_def)
  next
    case SANCTION_ACTION_REVERT_TRANSFER
    with assms settle' show thesis by (auto simp: actionEffect_def monetaryAction_def)
  qed (use assms in \<open>simp_all add: actionEffect_def\<close>)
qed

text \<open>
  A step, read on the abstract state. Registry steps touch none of the tables the invariants
  speak of; the case index by transaction is immaterial throughout.
\<close>

lemma effect_abs:
  assumes "effect E s s'" "keyed s"
  obtains (registry) p a g l t where "abs s' = (abs s)
      \<lparr>st_params := p, st_agents := a, st_signers := g, st_leases := l, st_transfers := t\<rparr>"
  | (report) r where "st_reports (abs s) (rr_ReportId r) = None"
      "abs s' = (abs s)\<lparr>st_reports := (st_reports (abs s))(rr_ReportId r \<mapsto> r)\<rparr>"
  | (opened) i sc x where "st_cases (abs s) i = None" "sc_CaseId sc = i"
      "sc_Status sc = CASE_STATUS_PENDING" "ValidateCaseSnapshot E sc = Inr ()"
      "abs s' = (abs s)\<lparr>st_cases := (st_cases (abs s))(i \<mapsto> sc), st_caseByTx := x\<rparr>"
  | (expired) i sc x where "st_cases (abs s) i = Some sc"
      "sc_Status sc \<in> {CASE_STATUS_PENDING, CASE_STATUS_APPROVED, CASE_STATUS_EXPIRED}"
      "abs s' = (abs s)\<lparr>st_cases := (st_cases (abs s))(i \<mapsto> sc\<lparr>sc_Status := CASE_STATUS_EXPIRED\<rparr>),
          st_caseByTx := x\<rparr>"
  | (voted) K c submitter vote sc agent st act x where
      "voteAccepted E K c s submitter vote sc agent" "st_cases (abs s) (sv_CaseId vote) = Some sc"
      "sc_CaseId sc = sv_CaseId vote"
      "st_votes (abs s) (voteRaw (sv_CaseId vote) (sv_AgentId vote)) = None"
      "sc_Status sc = CASE_STATUS_PENDING \<or> sc_Status sc = CASE_STATUS_APPROVED
         \<and> sc_RequestedAction sc = SANCTION_ACTION_REVERT_TRANSFER"
      "st = sc_Status sc
       \<or> st = CASE_STATUS_APPROVED \<and> quorumOf VOTE_OPTION_APPROVE (SetSanctionVote vote s) sc
       \<or> st = CASE_STATUS_REJECTED \<and> \<not> quorumOf VOTE_OPTION_APPROVE (SetSanctionVote vote s) sc"
      "act = (if st = CASE_STATUS_APPROVED \<and> sc_RequestedAction sc = SANCTION_ACTION_BLOCK_TX
              then (st_active (abs s))(sc_TxHash sc \<mapsto> activeSanctionOf c sc) else st_active (abs s))"
      "abs s' = (abs s)\<lparr>st_votes := (st_votes (abs s))(voteRaw (sv_CaseId vote) (sv_AgentId vote) \<mapsto> vote),
          st_cases := (st_cases (abs s))(sv_CaseId vote \<mapsto> sc\<lparr>sc_Status := st\<rparr>), st_active := act,
          st_caseByTx := x\<rparr>"
  | (executed) c w msg sc w1 er x where "s = w_store w" "executeGuards E c s msg = Inr sc"
      "st_cases (abs s) (xm_CaseId msg) = Some sc" "sc_CaseId sc = xm_CaseId msg"
      "sc_Status sc = CASE_STATUS_APPROVED" "st_execs (abs s) (xm_CaseId msg) = None"
      "actionEffect E c sc w w1" "er_Action er = sc_RequestedAction sc"
      "er_ExecutedHeight er = blockHeight c"
      "abs s' = (abs (w_store w1))
         \<lparr>st_cases := (st_cases (abs (w_store w1)))(xm_CaseId msg \<mapsto> sc\<lparr>sc_Status := CASE_STATUS_EXECUTED,
             sc_ExecutedHeight := blockHeight c\<rparr>), st_caseByTx := x,
          st_execs := (st_execs (abs (w_store w1)))(xm_CaseId msg \<mapsto> er)\<rparr>"
  | (reviewed) i sc rv where "st_cases (abs s) i = Some sc" "sc_Status sc \<noteq> CASE_STATUS_REVOKED"
      "st_reviews (abs s) i = None" "rv_RevokedHeight rv = 0"
      "abs s' = (abs s)\<lparr>st_reviews := (st_reviews (abs s))(i \<mapsto> rv)\<rparr>"
  | (revoked) i sc rv h reason x where "st_cases (abs s) i = Some sc" "sc_CaseId sc = i"
      "st_reviews (abs s) i = Some rv" "rv_ReviewedHeight rv < h" "rv_RevokedHeight rv = 0"
      "sc_Status sc \<noteq> CASE_STATUS_REVOKED"
      "abs s' = (abs (liftSanctions sc i s))
         \<lparr>st_cases := (st_cases (abs s))(i \<mapsto> sc\<lparr>sc_Status := CASE_STATUS_REVOKED\<rparr>), st_caseByTx := x,
          st_reviews := (st_reviews (abs s))(i \<mapsto> rv\<lparr>rv_RevokedHeight := h, rv_RevokeReason := reason\<rparr>)\<rparr>"
  using assms(1)
proof cases
  case registry'': registry
  then show thesis using registry unfolding registryFrame_def by blast
next
  case (report r)
  show thesis
    by (rule that(2) [of r]) (use report in \<open>simp_all add: get_abs abs_SetRiskReport\<close>)
next
  case (opened sc)
  show thesis
    by (rule that(3) [of "sc_CaseId sc" sc "st_caseByTx (abs (SetSanctionCase sc s))"])
       (use opened in \<open>simp_all add: get_abs abs_SetSanctionCase\<close>)
next
  case (expired sc)
  show thesis
    by (rule that(4) [of "sc_CaseId sc" sc
          "st_caseByTx (abs (SetSanctionCase (sc\<lparr>sc_Status := CASE_STATUS_EXPIRED\<rparr>) s))"])
       (use expired in \<open>simp_all add: get_abs abs_SetSanctionCase\<close>)
next
  case (reviewed rv sc)
  show thesis
    by (rule that(7) [of "rv_CaseId rv" sc rv]) (use reviewed in \<open>simp_all add: get_abs abs_SetReview\<close>)
next
  case (revoked sc rv c authority reason)
  show thesis
    by (rule that(8) [of "sc_CaseId sc" sc rv "blockHeight c" reason "st_caseByTx (abs s')"])
       (use revoked in \<open>simp_all add: get_abs abs_SetReview abs_SetSanctionCase revocable_def abs_liftSanctions\<close>)
next
  case (executed c w msg sc w1 er)
  note g = executeGuards_Inr [OF executed(2)]
  show thesis
    by (rule that(6) [of w c msg sc w1 er "st_caseByTx (abs s')"])
       (use executed g in \<open>simp_all add: get_abs abs_SetExecutionRecord abs_SetSanctionCase\<close>)
next
  case (voted K c submitter vote sc agent s2 sc' a b)
  note acc = voted(2) [unfolded voteAccepted_def]
  obtain st where st: "sc' = sc\<lparr>sc_Status := st\<rparr>"
    "st = sc_Status sc
       \<or> st = CASE_STATUS_APPROVED \<and> quorumOf VOTE_OPTION_APPROVE (SetSanctionVote vote s) sc
       \<or> st = CASE_STATUS_REJECTED \<and> \<not> quorumOf VOTE_OPTION_APPROVE (SetSanctionVote vote s) sc"
    "s2 = (if a \<and> sc_RequestedAction sc = SANCTION_ACTION_BLOCK_TX
             then SetActiveTxSanction (activeSanctionOf c sc) (SetSanctionVote vote s) else SetSanctionVote vote s)"
    "a \<Longrightarrow> st = CASE_STATUS_APPROVED" "\<not> a \<Longrightarrow> st = CASE_STATUS_APPROVED \<Longrightarrow> sc_Status sc = CASE_STATUS_APPROVED"
    using voted(4)
  proof (cases rule: recomputeCaseStatus_cases)
    case none
    show thesis by (rule that [of "sc_Status sc"]) (use none in simp_all)
  next
    case approved
    show thesis by (rule that [of CASE_STATUS_APPROVED]) (use approved in simp_all)
  next
    case rejected
    show thesis by (rule that [of CASE_STATUS_REJECTED]) (use rejected in simp_all)
  qed
  show thesis
  proof (rule that(5) [OF voted(2) _ voted(3), where st = st and x = "st_caseByTx (abs s')"])
    show "st_cases (abs s) (sv_CaseId vote) = Some sc"
      "st_votes (abs s) (voteRaw (sv_CaseId vote) (sv_AgentId vote)) = None"
      "sc_Status sc = CASE_STATUS_PENDING \<or> sc_Status sc = CASE_STATUS_APPROVED
         \<and> sc_RequestedAction sc = SANCTION_ACTION_REVERT_TRANSFER"
      using acc by (auto simp: get_abs)
    show "st = sc_Status sc
       \<or> st = CASE_STATUS_APPROVED \<and> quorumOf VOTE_OPTION_APPROVE (SetSanctionVote vote s) sc
       \<or> st = CASE_STATUS_REJECTED \<and> \<not> quorumOf VOTE_OPTION_APPROVE (SetSanctionVote vote s) sc"
      by (rule st(2))
    have "a \<longleftrightarrow> st = CASE_STATUS_APPROVED" if "sc_RequestedAction sc = SANCTION_ACTION_BLOCK_TX"
      using st(4,5) acc that by auto
    then show "abs s' = (abs s)\<lparr>st_votes := (st_votes (abs s))(voteRaw (sv_CaseId vote) (sv_AgentId vote) \<mapsto> vote),
          st_cases := (st_cases (abs s))(sv_CaseId vote \<mapsto> sc\<lparr>sc_Status := st\<rparr>),
          st_active := (if st = CASE_STATUS_APPROVED \<and> sc_RequestedAction sc = SANCTION_ACTION_BLOCK_TX
              then (st_active (abs s))(sc_TxHash sc \<mapsto> activeSanctionOf c sc) else st_active (abs s)),
          st_caseByTx := st_caseByTx (abs s')\<rparr>"
      unfolding voted(1) st(1,3) using voted(3)
      by (auto simp: abs_SetSanctionCase abs_SetSanctionVote abs_SetActiveTxSanction activeSanctionOf_def)
  qed simp
qed

section \<open>Each step evolves the records\<close>

text \<open>To evolve, it is enough to say so of each table.\<close>

lemma evolvesI:
  assumes "st_reports (abs s) \<subseteq>\<^sub>m st_reports (abs s')" "st_votes (abs s) \<subseteq>\<^sub>m st_votes (abs s')"
    "st_execs (abs s) \<subseteq>\<^sub>m st_execs (abs s')" "st_settles (abs s) \<subseteq>\<^sub>m st_settles (abs s')"
    and "\<And>i c. st_cases (abs s) i = Some c \<Longrightarrow> \<exists>c'. st_cases (abs s') i = Some c' \<and> sameCase c c'
      \<and> statusEdge (\<not> nulFree s') (sc_Status c) (sc_Status c')"
    and "\<And>i r. st_reviews (abs s) i = Some r \<Longrightarrow> st_reviews (abs s') i = Some r
      \<or> rv_RevokedHeight r = 0 \<and> (\<exists>h t. st_reviews (abs s') i
           = Some (r\<lparr>rv_RevokedHeight := h, rv_RevokeReason := t\<rparr>))"
  shows "evolves s s'"
proof -
  have "\<exists>h t. st_reviews (abs s') i = Some (r\<lparr>rv_RevokedHeight := h, rv_RevokeReason := t\<rparr>)
        \<and> (rv_RevokedHeight r \<noteq> 0 \<longrightarrow> h = rv_RevokedHeight r \<and> t = rv_RevokeReason r)"
    if "st_reviews (abs s) i = Some r" for i r
    using assms(6) [OF that]
  proof
    assume "st_reviews (abs s') i = Some r"
    then show ?thesis by (intro exI [of _ "rv_RevokedHeight r"] exI [of _ "rv_RevokeReason r"]) simp
  qed auto
  with assms(1-5) show ?thesis unfolding evolves_def by blast
qed

lemma map_le_new: "m k = None \<Longrightarrow> m \<subseteq>\<^sub>m m(k \<mapsto> x)"
  by (auto simp: map_le_def)

lemma statusEdge_expired: "st \<in> {CASE_STATUS_PENDING, CASE_STATUS_APPROVED, CASE_STATUS_EXPIRED}
    \<Longrightarrow> statusEdge l st CASE_STATUS_EXPIRED"
  by auto

lemma statusEdge_revoked: "statusEdge l st CASE_STATUS_REVOKED"
  by (cases st) auto

text \<open>A case that had its quorum keeps it after one more vote.\<close>

lemma quorum_kept:
  assumes "keyed s" "casesOk E s" "approvedOk s" "nulFree (SetSanctionVote vote s)"
    and "st_cases (abs s) i = Some sc" "sc_CaseId sc = sv_CaseId vote" "sc_Status sc = CASE_STATUS_APPROVED"
    and "GetSanctionVote s (sv_CaseId vote) (sv_AgentId vote) = None"
  shows "quorumOf VOTE_OPTION_APPROVE (SetSanctionVote vote s) sc"
proof -
  let ?s = "SetSanctionVote vote s"
  have le: "st_votes (abs s) \<subseteq>\<^sub>m st_votes (abs ?s)"
    using assms(8) by (simp add: get_abs abs_SetSanctionVote map_le_new)
  have "recordedQuorum VOTE_OPTION_APPROVE s sc"
    using assms(3,5,7) nulFree_mono [OF le assms(4)] by (simp add: approvedOk_def)
  then have "recordedQuorum VOTE_OPTION_APPROVE ?s sc"
    by (rule recordedQuorum_mono [OF le sameCase_refl])
  moreover have "NUL \<notin> set (sc_CaseId sc)"
    using assms(4,6)
    by (auto simp: nulFree_def abs_SetSanctionVote
        dest: spec [of _ "voteRaw (sv_CaseId vote) (sv_AgentId vote)"])
  moreover have "ValidateCaseSnapshot E sc = Inr ()" using assms(2,5) by (simp add: casesOk_def)
  ultimately show ?thesis
    using quorumOf_recorded [of ?s sc VOTE_OPTION_APPROVE E] assms(1,4) keyed_writes(6) by simp
qed

lemma effect_evolves:
  assumes "effect E s s'" "keyed s" "casesOk E s" "approvedOk s"
  shows "evolves s s'"
  using assms(1,2)
proof (cases rule: effect_abs)
  case (registry p a g l t)
  show ?thesis by (rule evolvesI) (auto simp: registry)
next
  case (report r)
  show ?thesis by (rule evolvesI) (auto simp: report map_le_new)
next
  case (opened i sc x)
  show ?thesis by (rule evolvesI) (auto simp: opened)
next
  case (expired i sc x)
  then show ?thesis by (intro evolvesI) (auto simp: statusEdge_expired)
next
  case (voted K c submitter vote sc agent st act x)
  have "st_votes (abs s') = st_votes (abs (SetSanctionVote vote s))" by (simp add: voted(8) abs_SetSanctionVote)
  then have nf: "nulFree s' \<longleftrightarrow> nulFree (SetSanctionVote vote s)" by (simp add: nulFree_def)
  have "statusEdge (\<not> nulFree s') (sc_Status sc) st"
  proof (cases "sc_Status sc = CASE_STATUS_APPROVED \<and> nulFree s'")
    case True
    then have "quorumOf VOTE_OPTION_APPROVE (SetSanctionVote vote s) sc"
      using quorum_kept [OF assms(2,3,4) _ voted(2,3)] voted(4) nf by (simp add: get_abs)
    with voted(6) True show ?thesis by auto
  next
    case False
    with voted(5,6) show ?thesis by auto
  qed
  then show ?thesis
    by (intro evolvesI) (auto simp: voted map_le_new)
next
  case (executed c w msg sc w1 er x)
  show ?thesis using executed(7)
    by (cases rule: actionEffect_cases; intro evolvesI)
       (auto simp: executed(1,10) executed(3,5,6) [unfolded executed(1)] map_le_new)
next
  case (reviewed i sc rv)
  then show ?thesis by (intro evolvesI) auto
next
  case (revoked i sc rv h reason x)
  then show ?thesis by (intro evolvesI) (auto simp: abs_liftSanctions statusEdge_revoked, blast)
qed

section \<open>Each step keeps the invariants\<close>

lemma newStatus_snapshot: "ValidateCaseSnapshot E sc = Inr () \<Longrightarrow> ValidateCaseSnapshot E (sc\<lparr>sc_Status := st\<rparr>) = Inr ()"
  by simp

lemma effect_casesOk:
  assumes "effect E s s'" "keyed s" "casesOk E s"
  shows "casesOk E s'"
  using assms(1,2)
proof (cases rule: effect_abs)
  case (executed c w msg sc w1 er x)
  show ?thesis using executed(7)
    by (cases rule: actionEffect_cases)
       (use executed assms(3) in \<open>auto simp: casesOk_def\<close>)
qed (use assms(3) in \<open>auto simp: casesOk_def abs_liftSanctions\<close>)

lemma execsOk_None:
  assumes "execsOk s" "\<And>c. st_cases (abs s) i = Some c \<Longrightarrow> sc_Status c \<notin> {CASE_STATUS_EXECUTED, CASE_STATUS_REVOKED}"
  shows "st_execs (abs s) i = None"
  using assms by (cases "st_execs (abs s) i") (fastforce simp: execsOk_def)+

lemma effect_execsOk:
  assumes "effect E s s'" "keyed s" "execsOk s"
  shows "execsOk s'"
  using assms(1,2)
proof (cases rule: effect_abs)
  case (executed c w msg sc w1 er x)
  show ?thesis using executed(7)
    by (cases rule: actionEffect_cases)
       (use executed assms(3) in \<open>auto simp: execsOk_def\<close>)
next
  case (voted K c submitter vote sc agent st act x)
  have "st_execs (abs s) (sv_CaseId vote) = None"
    by (rule execsOk_None [OF assms(3)]) (use voted(2,5) in auto)
  with voted assms(3) show ?thesis by (auto simp: execsOk_def)
next
  case (expired i sc x)
  then have "st_execs (abs s) i = None"
    by (intro execsOk_None [OF assms(3)]) auto
  with expired assms(3) show ?thesis by (auto simp: execsOk_def)
next
  case (opened i sc x)
  then have "st_execs (abs s) i = None"
    by (intro execsOk_None [OF assms(3)]) auto
  with opened assms(3) show ?thesis by (auto simp: execsOk_def)
next
  case (revoked i sc rv h reason x)
  with assms(3) show ?thesis by (fastforce simp: execsOk_def abs_liftSanctions)
qed (use assms(3) in \<open>auto simp: execsOk_def\<close>)

lemma effect_settlesOk:
  assumes "effect E s s'" "keyed s" "settlesOk s"
  shows "settlesOk s'"
  using assms(1,2)
proof (cases rule: effect_abs)
  case (executed c w msg sc w1 er x)
  have old: "\<forall>k r. st_settles (abs s) k = Some r \<longrightarrow> sr_CaseId r \<noteq> xm_CaseId msg"
    using executed(6) assms(3) by (fastforce simp: settlesOk_def)
  show ?thesis using executed(7)
  proof (cases rule: actionEffect_cases)
    case (settle k r)
    have st: "st_settles (abs s') = (st_settles (abs s))(k \<mapsto> r)"
      and ex: "st_execs (abs s') = (st_execs (abs s))(xm_CaseId msg \<mapsto> er)"
      using settle executed by simp_all
    have rid: "sr_CaseId r = xm_CaseId msg" and new: "st_settles (abs s) k = None"
      using settle(2,3) executed(1,4) by simp_all
    note S = assms(3) [unfolded settlesOk_def]
    show ?thesis unfolding settlesOk_def st ex
    proof (intro conjI allI impI)
      fix k' r' assume "((st_settles (abs s))(k \<mapsto> r)) k' = Some r'"
      then show "\<exists>e. ((st_execs (abs s))(xm_CaseId msg \<mapsto> er)) (sr_CaseId r') = Some e
        \<and> er_Action e = sr_Action r' \<and> er_ExecutedHeight e = sr_ExecutedHeight r' \<and> monetaryAction (sr_Action r')"
        using settle executed(8,9) rid S old by (cases "k' = k") auto
    next
      fix k1 k2 r1 r2
      assume "((st_settles (abs s))(k \<mapsto> r)) k1 = Some r1" "((st_settles (abs s))(k \<mapsto> r)) k2 = Some r2"
        "sr_CaseId r1 = sr_CaseId r2"
      then show "k1 = k2" using S old rid by (cases "k1 = k"; cases "k2 = k") auto
    next
      fix i e assume e: "((st_execs (abs s))(xm_CaseId msg \<mapsto> er)) i = Some e" "monetaryAction (er_Action e)"
      show "\<exists>k' r'. ((st_settles (abs s))(k \<mapsto> r)) k' = Some r' \<and> sr_CaseId r' = i"
      proof (cases "i = xm_CaseId msg")
        case True
        with rid show ?thesis by (intro exI [of _ k] exI [of _ r]) simp
      next
        case False
        then have "st_execs (abs s) i = Some e" using e(1) by simp
        with e(2) S obtain k0 r0 where "st_settles (abs s) k0 = Some r0" "sr_CaseId r0 = i" by blast
        with new show ?thesis by (intro exI [of _ k0] exI [of _ r0]) auto
      qed
    qed
  qed (use executed assms(3) old in \<open>auto simp: settlesOk_def monetaryAction_def\<close>)
qed (use assms(3) in \<open>auto simp: settlesOk_def abs_liftSanctions\<close>)

lemma effect_bansOk:
  assumes "effect E s s'" "keyed s" "bansOk s"
  shows "bansOk s'"
  using assms(1,2)
proof (cases rule: effect_abs)
  case (executed c w msg sc w1 er x)
  show ?thesis using executed(7)
    by (cases rule: actionEffect_cases)
       (use executed assms(3) in \<open>fastforce simp: bansOk_def activeSanctionOf_def\<close>)+
next
  case (voted K c submitter vote sc agent st act x)
  with assms(3) show ?thesis
    by (fastforce simp: bansOk_def activeSanctionOf_def)
next
  case (revoked i sc rv h reason x)
  with assms(3) show ?thesis
    by (fastforce simp: bansOk_def abs_liftSanctions split: option.splits if_splits)
next
  case (expired i sc x)
  with assms(3) show ?thesis by (fastforce simp: bansOk_def)
qed (use assms(3) in \<open>fastforce simp: bansOk_def\<close>)+

lemma effect_reviewsOk:
  assumes "effect E s s'" "keyed s" "reviewsOk s"
  shows "reviewsOk s'"
  using assms(1,2)
proof (cases rule: effect_abs)
  case (executed c w msg sc w1 er x)
  show ?thesis using executed(7)
    by (cases rule: actionEffect_cases)
       (use executed assms(3) in \<open>fastforce simp: reviewsOk_def\<close>)+
next
  case (voted K c submitter vote sc agent st act x)
  with assms(3) show ?thesis by (fastforce simp: reviewsOk_def)
next
  case (revoked i sc rv h reason x)
  with assms(3) show ?thesis by (fastforce simp: reviewsOk_def abs_liftSanctions)
next
  case (expired i sc x)
  with assms(3) show ?thesis by (fastforce simp: reviewsOk_def)
qed (use assms(3) in \<open>fastforce simp: reviewsOk_def\<close>)+

lemma sameCase_caseVoter: "sameCase c c' \<Longrightarrow> caseVoter c' i = caseVoter c i"
proof -
  assume same: "sameCase c c'"
  have "sc_VotingSnapshotVersion c' = sc_VotingSnapshotVersion c"
    using same [unfolded sameCase_def, THEN arg_cong, of sc_VotingSnapshotVersion] by simp
  then show ?thesis using sameCase_fields [OF same] by (simp add: caseVoter_def)
qed

text \<open>A vote stays valid when its case evolves.\<close>

lemma votesOk_evolves:
  assumes "votesOk E s" "evolves s s'"
    and "\<And>k v. st_votes (abs s') k = Some v \<Longrightarrow> st_votes (abs s) k = None \<Longrightarrow>
      \<exists>c agent chainID. st_cases (abs s') (sv_CaseId v) = Some c \<and> caseVoter c (sv_AgentId v) = Some agent
        \<and> VerifySecp256k1 E (ag_PublicKey agent) (sv_Signature v) (VoteSignBytes chainID v)
        \<and> (sv_Option v = VOTE_OPTION_APPROVE \<longrightarrow> sv_ApprovedAction v = sc_RequestedAction c)"
  shows "votesOk E s'"
  unfolding votesOk_def
proof (intro allI impI)
  fix k v assume v: "st_votes (abs s') k = Some v"
  show "\<exists>c agent chainID. st_cases (abs s') (sv_CaseId v) = Some c \<and> caseVoter c (sv_AgentId v) = Some agent
        \<and> VerifySecp256k1 E (ag_PublicKey agent) (sv_Signature v) (VoteSignBytes chainID v)
        \<and> (sv_Option v = VOTE_OPTION_APPROVE \<longrightarrow> sv_ApprovedAction v = sc_RequestedAction c)"
  proof (cases "st_votes (abs s) k")
    case None
    with assms(3) v show ?thesis by blast
  next
    case (Some v0)
    have "st_votes (abs s) \<subseteq>\<^sub>m st_votes (abs s')" using assms(2) by (simp add: evolves_def)
    with Some v have "v0 = v" by (force simp: map_le_def dom_def)
    with assms(1) Some obtain c agent n where c: "st_cases (abs s) (sv_CaseId v) = Some c"
      "caseVoter c (sv_AgentId v) = Some agent"
      "VerifySecp256k1 E (ag_PublicKey agent) (sv_Signature v) (VoteSignBytes n v)"
      "sv_Option v = VOTE_OPTION_APPROVE \<longrightarrow> sv_ApprovedAction v = sc_RequestedAction c"
      unfolding votesOk_def by blast
    from assms(2) c(1) obtain c' where c': "st_cases (abs s') (sv_CaseId v) = Some c'" "sameCase c c'"
      unfolding evolves_def by blast
    with c sameCase_caseVoter [OF c'(2)] sameCase_fields(4) [OF c'(2)] show ?thesis by auto
  qed
qed

lemma effect_votes_new:
  assumes "effect E s s'" "keyed s" "st_votes (abs s') k = Some v" "st_votes (abs s) k = None"
  obtains c sc sc' agent K submitter where "voteAccepted E K c s submitter v sc agent"
    "st_cases (abs s') (sv_CaseId v) = Some sc'" "sameCase sc sc'"
  using assms(1,2)
proof (cases rule: effect_abs)
  case (voted K c submitter vote sc agent st act x)
  then have "v = vote" using assms(3,4) by (auto split: if_splits)
  with voted show thesis by (intro that [of K c submitter sc agent "sc\<lparr>sc_Status := st\<rparr>"]) auto
next
  case (executed c w msg sc w1 er x)
  show thesis using executed(7)
    by (cases rule: actionEffect_cases) (use executed assms(3,4) in auto)
qed (use assms(3,4) in \<open>auto simp: abs_liftSanctions\<close>)

lemma effect_votesOk:
  assumes "effect E s s'" "keyed s" "casesOk E s" "approvedOk s" "votesOk E s"
  shows "votesOk E s'"
proof (rule votesOk_evolves [OF assms(5) effect_evolves [OF assms(1-4)]])
  fix k v assume "st_votes (abs s') k = Some v" "st_votes (abs s) k = None"
  with assms(1,2) obtain c sc sc' agent K submitter where v: "voteAccepted E K c s submitter v sc agent"
    "st_cases (abs s') (sv_CaseId v) = Some sc'" "sameCase sc sc'" by (rule effect_votes_new)
  then show "\<exists>c agent chainID. st_cases (abs s') (sv_CaseId v) = Some c \<and> caseVoter c (sv_AgentId v) = Some agent
        \<and> VerifySecp256k1 E (ag_PublicKey agent) (sv_Signature v) (VoteSignBytes chainID v)
        \<and> (sv_Option v = VOTE_OPTION_APPROVE \<longrightarrow> sv_ApprovedAction v = sc_RequestedAction c)"
    using sameCase_caseVoter [OF v(3)] sameCase_fields(4) [OF v(3)] unfolding voteAccepted_def by auto
qed

text \<open>How a case can get to an approved or executed status in one step.\<close>

lemma effect_approved:
  assumes "effect E s s'" "keyed s" "st_cases (abs s') i = Some c'"
    "sc_Status c' \<in> {CASE_STATUS_APPROVED, CASE_STATUS_EXECUTED}"
  obtains (old) c where "st_cases (abs s) i = Some c" "sameCase c c'"
      "sc_Status c \<in> {CASE_STATUS_APPROVED, CASE_STATUS_EXECUTED}"
  | (new) vote c where "st_cases (abs s) i = Some c" "sameCase c c'" "sc_CaseId c = sv_CaseId vote"
      "st_votes (abs s') = st_votes (abs (SetSanctionVote vote s))"
      "quorumOf VOTE_OPTION_APPROVE (SetSanctionVote vote s) c"
  using assms(1,2)
proof (cases rule: effect_abs)
  case (voted K c submitter vote sc agent st act x)
  show thesis
  proof (cases "i = sv_CaseId vote")
    case True
    then have c': "c' = sc\<lparr>sc_Status := st\<rparr>" using assms(3) voted(8) by simp
    show thesis
    proof (cases "st = sc_Status sc")
      case True
      with c' \<open>i = sv_CaseId vote\<close> old [of sc] voted(2) assms(4) show thesis by simp
    next
      case False
      with voted(6) c' assms(4) have "quorumOf VOTE_OPTION_APPROVE (SetSanctionVote vote s) sc" by auto
      with new [of sc vote] voted c' True show thesis by (simp add: abs_SetSanctionVote)
    qed
  next
    case False
    with assms(3) voted(8) old [of c'] assms(4) show thesis by simp
  qed
next
  case (executed c w msg sc w1 er x)
  have "st_cases (abs (w_store w1)) = st_cases (abs s)"
    using executed(7) by (cases rule: actionEffect_cases) (simp_all add: executed(1))
  then have "st_cases (abs s') = (st_cases (abs s))(xm_CaseId msg \<mapsto> sc\<lparr>sc_Status := CASE_STATUS_EXECUTED,
             sc_ExecutedHeight := blockHeight c\<rparr>)" by (simp add: executed(10))
  with assms(3,4) old executed(3,5) show thesis by (cases "i = xm_CaseId msg") auto
qed (use assms(3,4) old in \<open>auto simp: abs_liftSanctions split: if_splits\<close>)

lemma effect_approvedOk:
  assumes "effect E s s'" "keyed s" "casesOk E s" "approvedOk s"
  shows "approvedOk s'"
  unfolding approvedOk_def
proof (intro impI allI)
  fix i c' assume nf: "nulFree s'" and c': "st_cases (abs s') i = Some c'"
    "sc_Status c' \<in> {CASE_STATUS_APPROVED, CASE_STATUS_EXECUTED}"
  have le: "st_votes (abs s) \<subseteq>\<^sub>m st_votes (abs s')"
    using effect_evolves [OF assms] by (simp add: evolves_def)
  from assms(1,2) c' show "recordedQuorum VOTE_OPTION_APPROVE s' c'"
  proof (cases rule: effect_approved)
    case (old c)
    with assms(4) nulFree_mono [OF le nf] have "recordedQuorum VOTE_OPTION_APPROVE s c"
      by (auto simp: approvedOk_def)
    then show ?thesis by (rule recordedQuorum_mono [OF le old(2)])
  next
    case (new vote c)
    have nv: "nulFree (SetSanctionVote vote s)" using nf new(4) by (simp add: nulFree_def)
    then have "NUL \<notin> set (sc_CaseId c)"
      using new(3) by (auto simp: nulFree_def abs_SetSanctionVote
        dest: spec [of _ "voteRaw (sv_CaseId vote) (sv_AgentId vote)"])
    moreover have "ValidateCaseSnapshot E c = Inr ()" using assms(3) new(1) by (simp add: casesOk_def)
    ultimately have "recordedQuorum VOTE_OPTION_APPROVE (SetSanctionVote vote s) c"
      using quorumOf_recorded [OF keyed_writes(6) [OF assms(2)] nv] new(5) by blast
    then show ?thesis
      by (rule recordedQuorum_mono [rotated 2]) (simp_all add: new(2,4))
  qed
qed

lemma unanimousLoop_iff:
  "unanimousLoop s i vs n \<longleftrightarrow>
     (\<forall>a \<in> set (activeVoters vs). ag_VotingPower a \<noteq> 0 \<longrightarrow>
        (\<exists>v. GetSanctionVote s i (ag_AgentId a) = Some v \<and> sv_Option v = VOTE_OPTION_APPROVE))
   \<and> (0 < n \<or> (\<exists>a \<in> set (activeVoters vs). ag_VotingPower a \<noteq> 0))"
proof (induction vs arbitrary: n)
  case (Cons v vs)
  then show ?case
    by (cases v) (auto simp: activeVoters_def split: option.splits)
qed (simp add: activeVoters_def)

lemma effect_unanimousOk:
  assumes "effect E s s'" "keyed s" "casesOk E s" "approvedOk s" "unanimousOk s"
  shows "unanimousOk s'"
  unfolding unanimousOk_def
proof (intro allI impI)
  fix i c' a assume c': "st_cases (abs s') i = Some c'" and ex: "sc_Status c' = CASE_STATUS_EXECUTED"
    and act: "sc_RequestedAction c' = SANCTION_ACTION_REVERT_TRANSFER" "sc_UnanimousRequiredForRevert c'"
    and a: "a \<in> set (activeVoters (sc_Voters c'))" "ag_VotingPower a \<noteq> 0"
  have le: "st_votes (abs s) \<subseteq>\<^sub>m st_votes (abs s')"
    using effect_evolves [OF assms(1-4)] by (simp add: evolves_def)
  have old: "\<exists>v. st_votes (abs s') (voteRaw i (ag_AgentId a)) = Some v \<and> sv_Option v = VOTE_OPTION_APPROVE"
    if "st_cases (abs s) i = Some c" "sameCase c c'" "sc_Status c = CASE_STATUS_EXECUTED" for c
  proof -
    have "\<exists>v. st_votes (abs s) (voteRaw i (ag_AgentId a)) = Some v \<and> sv_Option v = VOTE_OPTION_APPROVE"
      using assms(5) that a act sameCase_fields [OF that(2)] by (simp add: unanimousOk_def)
    then show ?thesis using le by (force simp: map_le_def dom_def)
  qed
  show "\<exists>v. st_votes (abs s') (voteRaw i (ag_AgentId a)) = Some v \<and> sv_Option v = VOTE_OPTION_APPROVE"
    using assms(1,2)
  proof (cases rule: effect_abs)
    case (executed c w msg sc w1 er x)
    note f = actionEffect_cases [OF executed(7)]
    have cs: "st_cases (abs (w_store w1)) = st_cases (abs s)" and vs: "st_votes (abs (w_store w1)) = st_votes (abs s)"
      by (rule f; simp add: executed(1))+
    show ?thesis
    proof (cases "i = xm_CaseId msg")
      case True
      then have c: "c' = sc\<lparr>sc_Status := CASE_STATUS_EXECUTED, sc_ExecutedHeight := blockHeight c\<rparr>"
        using c' executed(10) by simp
      have "hasUnanimousApproval s (sc_CaseId sc)"
        using executeGuards_Inr(5) [OF executed(2)] act c by simp
      then have "unanimousLoop s i (sc_Voters sc) 0"
        using executed(3,4) True by (simp add: hasUnanimousApproval_def get_abs split: if_splits)
      with a c have "\<exists>v. st_votes (abs s) (voteRaw i (ag_AgentId a)) = Some v \<and> sv_Option v = VOTE_OPTION_APPROVE"
        by (auto simp: unanimousLoop_iff get_abs)
      then show ?thesis by (simp add: executed(10) vs)
    next
      case False
      with c' executed(10) cs have "st_cases (abs s) i = Some c'" by simp
      from old [OF this sameCase_refl ex] show ?thesis .
    qed
  next
    case (voted K c submitter vote sc agent st act x)
    show ?thesis
    proof (cases "i = sv_CaseId vote")
      case True
      with c' ex voted(5,6,8) show ?thesis by auto
    next
      case False
      with c' voted(8) have "st_cases (abs s) i = Some c'" by simp
      from old [OF this sameCase_refl ex] show ?thesis .
    qed
  qed (use c' ex old [OF _ sameCase_refl ex] in \<open>auto simp: abs_liftSanctions split: if_splits\<close>)
qed

section \<open>All invariants, for every request and every reachable world\<close>

definition chainOk :: "'b env \<Rightarrow> store \<Rightarrow> bool" where
  "chainOk E s \<longleftrightarrow> keyed s \<and> casesOk E s \<and> execsOk s \<and> settlesOk s \<and> bansOk s \<and> reviewsOk s
     \<and> votesOk E s \<and> approvedOk s \<and> unanimousOk s"

lemma effect_chainOk:
  assumes e: "effect E s s'" and w: "chainOk E s"
  shows "chainOk E s' \<and> evolves s s'"
proof -
  have k: "keyed s" and c: "casesOk E s" and a: "approvedOk s" using w by (simp_all add: chainOk_def)
  with w show ?thesis
    by (simp add: chainOk_def effect_keyed [OF e k] effect_casesOk [OF e k] effect_execsOk [OF e k]
        effect_settlesOk [OF e k] effect_bansOk [OF e k] effect_reviewsOk [OF e k]
        effect_votesOk [OF e k c a] effect_approvedOk [OF e k c a] effect_unanimousOk [OF e k c a]
        effect_evolves [OF e k c a])
qed

lemma effects_chainOk: "effects E s s' \<Longrightarrow> chainOk E s \<Longrightarrow> chainOk E s' \<and> evolves s s'"
  by (induction rule: effects.induct) (use evolves_refl effect_chainOk evolves_trans in blast)+

lemma chainStep_chainOk:
  assumes "chainStep E K w w'" "chainOk E (w_store w)"
  shows "chainOk E (w_store w') \<and> evolves (w_store w) (w_store w')"
  using assms
proof cases
  case (request c req)
  have "keyed (w_store w)" using assms(2) by (simp add: chainOk_def)
  from effects_chainOk [OF deliver_effects [OF this] assms(2)] show ?thesis by (simp add: request)
next
  case (bank b)
  then show ?thesis using assms(2) by (simp add: evolves_refl)
qed

lemma reachable_chainOk:
  "reachable E K w0 w \<Longrightarrow> chainOk E (w_store w0) \<Longrightarrow> chainOk E (w_store w) \<and> evolves (w_store w0) (w_store w)"
proof (induction rule: reachable.induct)
  case start
  then show ?case by (simp add: evolves_refl)
next
  case (step w w')
  with chainStep_chainOk [OF step.hyps(2)] show ?case using evolves_trans by blast
qed

end
