(* ===== verification/Genesis.thy ===== *)
theory Genesis
  imports StoreSpec
begin

text \<open>
  Loading and saving the module's state: x/sanction/keeper/genesis.go. A nil entry in the four
  lists whose elements are dereferenced without a test is a panic, \<^term>\<open>None\<close>.
\<close>

section \<open>InitGenesis\<close>

text \<open>The two shapes of loop: entries that must not be nil, and nil entries skipped.\<close>

fun setAll :: "('a \<Rightarrow> store \<Rightarrow> store option) \<Rightarrow> 'a option list \<Rightarrow> store \<Rightarrow> store option" where
  "setAll put [] s = Some s"
| "setAll put (x # xs) s = (case x of None \<Rightarrow> None
     | Some v \<Rightarrow> (case put v s of None \<Rightarrow> None | Some s' \<Rightarrow> setAll put xs s'))"

fun setPresent :: "('a \<Rightarrow> store \<Rightarrow> store) \<Rightarrow> 'a option list \<Rightarrow> store \<Rightarrow> store" where
  "setPresent put [] s = s"
| "setPresent put (x # xs) s = setPresent put xs (case x of None \<Rightarrow> s | Some v \<Rightarrow> put v s)"

definition always :: "('a \<Rightarrow> store \<Rightarrow> store) \<Rightarrow> 'a \<Rightarrow> store \<Rightarrow> store option" where
  "always put v s = Some (put v s)"

definition InitGenesis :: "GenesisState option \<Rightarrow> store \<Rightarrow> store option" where
  "InitGenesis genesis s = (let
     g = (case genesis of None \<Rightarrow> DefaultGenesis | Some g \<Rightarrow> g);
     s = (case g_Params g of None \<Rightarrow> s | Some p \<Rightarrow> SetParams p s);
     s = (if g_Authority g \<noteq> [] then SetAuthority (g_Authority g) s else s)
   in Option.bind (setAll (always SetAgentLease) (g_AgentLeases g) s) (\<lambda>s.
      Option.bind (setAll (always SetOriginalTransfer) (g_OriginalTransfers g) s) (\<lambda>s.
      Option.bind (setAll SetSettlement (g_Settlements g) s) (\<lambda>s.
      Option.bind (setAll (always SetReview) (g_Reviews g) s) (\<lambda>s. let
        s = setPresent SetAgent (g_Agents g) s;
        s = setPresent SetRiskReport (g_RiskReports g) s;
        s = setPresent SetSanctionCase (g_SanctionCases g) s;
        s = setPresent SetSanctionVote (g_SanctionVotes g) s;
        s = setPresent SetActiveTxSanction (g_ActiveSanctions g) s;
        s = setPresent SetFreezeRecord (g_FrozenAddresses g) s
      in Some (setPresent SetExecutionRecord (g_ExecutionRecords g) s))))))"

section \<open>ExportGenesis\<close>

fun caseVotes :: "store \<Rightarrow> SanctionCase list \<Rightarrow> SanctionVote list" where
  "caseVotes s [] = []"
| "caseVotes s (c # cs) = GetSanctionVotes s (sc_CaseId c) @ caseVotes s cs"

definition getAllSanctionVotes :: "store \<Rightarrow> SanctionVote list" where
  "getAllSanctionVotes s = caseVotes s (GetAllSanctionCases s)"

definition ExportGenesis :: "Keeper \<Rightarrow> store \<Rightarrow> GenesisState" where
  "ExportGenesis K s = \<lparr>g_Params = Some (GetParams s), g_Agents = map Some (GetAllAgents s),
     g_RiskReports = map Some (GetAllRiskReports s),
     g_SanctionCases = map Some (GetAllSanctionCases s),
     g_SanctionVotes = map Some (getAllSanctionVotes s),
     g_ActiveSanctions = map Some (GetAllActiveSanctions s),
     g_FrozenAddresses = map Some (GetAllFreezeRecords s),
     g_ExecutionRecords = map Some (GetAllExecutionRecords s), g_Authority = GetAuthority K s,
     g_OriginalTransfers = map Some (GetOriginalTransfers s []),
     g_Settlements = map Some (GetSettlements s []), g_Reviews = map Some (GetAllReviews s),
     g_AgentLeases = map Some (GetAllAgentLeases s)\<rparr>"

section \<open>Loops as folds\<close>

lemma setPresent_fold: "setPresent put xs s = fold put (nonNil xs) s"
  by (induction xs arbitrary: s) (auto simp: nonNil_def List.map_filter_simps split: option.splits)

lemma setPresent_map: "setPresent put (map Some xs) s = fold put xs s"
  by (induction xs arbitrary: s) auto

lemma setAll_always: "setAll (always put) (map Some xs) s = Some (fold put xs s)"
  by (induction xs arbitrary: s) (auto simp: always_def)

lemma fold_inv:
  assumes "\<And>x t. P t \<Longrightarrow> P (put x t)" "P s"
  shows "P (fold put xs s)"
  using assms(2) by (induction xs arbitrary: s) (auto intro: assms(1))

text \<open>A map written entry by entry, and when it comes out as a given map.\<close>

definition puts :: "('x \<Rightarrow> 'k) \<Rightarrow> ('x \<Rightarrow> 'v) \<Rightarrow> 'x list \<Rightarrow> ('k \<rightharpoonup> 'v) \<Rightarrow> ('k \<rightharpoonup> 'v)" where
  "puts key val xs m = fold (\<lambda>x m. m(key x \<mapsto> val x)) xs m"

lemma puts_Some:
  "puts key val xs m k = Some v \<Longrightarrow> (\<exists>x \<in> set xs. key x = k \<and> val x = v) \<or> m k = Some v"
  unfolding puts_def
proof (induction xs arbitrary: m)
  case (Cons x xs)
  from Cons.IH [of "m(key x \<mapsto> val x)"] Cons.prems show ?case by (auto split: if_splits)
qed simp

lemma puts_dom: "puts key val xs m k = None \<longleftrightarrow> m k = None \<and> k \<notin> key ` set xs"
  unfolding puts_def by (induction xs arbitrary: m) auto

lemma puts_table:
  assumes "\<And>k v. m k = Some v \<longleftrightarrow> (\<exists>x \<in> set xs. key x = k \<and> val x = v)"
  shows "puts key val xs Map.empty = m"
proof
  fix k
  show "puts key val xs Map.empty k = m k"
  proof (cases "puts key val xs Map.empty k")
    case None
    then have "k \<notin> key ` set xs" by (simp add: puts_dom)
    then have "m k = None" using assms [of k] by (cases "m k") auto
    with None show ?thesis by simp
  next
    case (Some v)
    with puts_Some [of key val xs Map.empty k v] assms [of k v] show ?thesis by simp
  qed
qed

lemma puts_own_table:
  assumes "set xs = ran m" "\<And>k x. m k = Some x \<Longrightarrow> key x = k"
  shows "puts key (\<lambda>x. x) xs Map.empty = m"
  by (rule puts_table) (use assms in \<open>auto simp: ran_def\<close>)

section \<open>Each table as it is written\<close>

lemma abs_fold:
  "abs (fold SetAgentLease ls s) = (abs s)\<lparr>st_leases := puts al_SignerAddress (\<lambda>x. x) ls (st_leases (abs s))\<rparr>"
  "abs (fold SetOriginalTransfer ts s) = (abs s)\<lparr>st_transfers :=
     puts (\<lambda>t. transferRaw (ot_TxHash t) (ot_MessageIndex t) (ot_Denom t)) (\<lambda>x. x) ts (st_transfers (abs s))\<rparr>"
  "abs (fold SetReview rs s) = (abs s)\<lparr>st_reviews := puts rv_CaseId (\<lambda>x. x) rs (st_reviews (abs s))\<rparr>"
  "abs (fold SetAgent as s) = (abs s)\<lparr>st_agents := puts ag_AgentId (\<lambda>x. x) as (st_agents (abs s)),
     st_signers := puts ag_SignerAddress ag_AgentId as (st_signers (abs s))\<rparr>"
  "abs (fold SetRiskReport ps s) = (abs s)\<lparr>st_reports := puts rr_ReportId (\<lambda>x. x) ps (st_reports (abs s))\<rparr>"
  "abs (fold SetSanctionCase cs s) = (abs s)\<lparr>st_cases := puts sc_CaseId (\<lambda>x. x) cs (st_cases (abs s)),
     st_caseByTx := puts (\<lambda>c. caseTxRaw (sc_TxHash c) (sc_CaseId c)) sc_CaseId
       (filter (\<lambda>c. sc_TxHash c \<noteq> []) cs) (st_caseByTx (abs s))\<rparr>"
  "abs (fold SetSanctionVote vs s) = (abs s)\<lparr>st_votes :=
     puts (\<lambda>v. voteRaw (sv_CaseId v) (sv_AgentId v)) (\<lambda>x. x) vs (st_votes (abs s))\<rparr>"
  "abs (fold SetActiveTxSanction bs s) = (abs s)\<lparr>st_active := puts as_TxHash (\<lambda>x. x) bs (st_active (abs s))\<rparr>"
  "abs (fold SetFreezeRecord fs s) = (abs s)\<lparr>st_frozen := puts fr_Address (\<lambda>x. x) fs (st_frozen (abs s))\<rparr>"
  "abs (fold SetExecutionRecord es s) = (abs s)\<lparr>st_execs := puts er_CaseId (\<lambda>x. x) es (st_execs (abs s))\<rparr>"
  unfolding puts_def
  by (induction ls arbitrary: s, simp_all add: abs_SetAgentLease)
     (induction ts arbitrary: s, simp_all add: abs_SetOriginalTransfer,
      induction rs arbitrary: s, simp_all add: abs_SetReview,
      induction as arbitrary: s, simp_all add: abs_SetAgent,
      induction ps arbitrary: s, simp_all add: abs_SetRiskReport,
      induction cs arbitrary: s, simp_all add: abs_SetSanctionCase,
      induction vs arbitrary: s, simp_all add: abs_SetSanctionVote,
      induction bs arbitrary: s, simp_all add: abs_SetActiveTxSanction,
      induction fs arbitrary: s, simp_all add: abs_SetFreezeRecord,
      induction es arbitrary: s, simp_all add: abs_SetExecutionRecord)

definition settleKey :: "SettlementRecord \<Rightarrow> bytes" where
  "settleKey r = (case sr_Transfer r of None \<Rightarrow> []
     | Some t \<Rightarrow> transferRaw (ot_TxHash t) (ot_MessageIndex t) (ot_Denom t))"

lemma setAll_SetSettlement:
  assumes "\<forall>r \<in> set rs. sr_Transfer r \<noteq> None"
  shows "\<exists>s'. setAll SetSettlement (map Some rs) s = Some s'
    \<and> abs s' = (abs s)\<lparr>st_settles := puts settleKey (\<lambda>x. x) rs (st_settles (abs s))\<rparr>"
  using assms
proof (induction rs arbitrary: s)
  case Nil
  then show ?case by (simp add: puts_def)
next
  case (Cons r rs)
  then obtain t where t: "sr_Transfer r = Some t" by auto
  then obtain s1 where s1: "SetSettlement r s = Some s1" by (simp add: SetSettlement_def)
  have a1: "abs s1 = (abs s)\<lparr>st_settles := (st_settles (abs s))(settleKey r \<mapsto> r)\<rparr>"
    using s1 by (rule SetSettlement_Some) (simp add: settleKey_def)
  from Cons.IH [of s1] Cons.prems obtain s' where "setAll SetSettlement (map Some rs) s1 = Some s'"
    "abs s' = (abs s1)\<lparr>st_settles := puts settleKey (\<lambda>x. x) rs (st_settles (abs s1))\<rparr>" by auto
  with s1 a1 show ?case by (simp add: puts_def)
qed

section \<open>Export, then import\<close>

text \<open>
  The index by signer and the index by transaction list exactly what the records say, and every
  vote is of a stored case.
\<close>

definition indexed :: "store \<Rightarrow> bool" where
  "indexed s \<longleftrightarrow>
     (\<forall>g i. st_signers (abs s) g = Some i \<longleftrightarrow> (\<exists>a. st_agents (abs s) i = Some a \<and> ag_SignerAddress a = g))
   \<and> (\<forall>k i. st_caseByTx (abs s) k = Some i \<longleftrightarrow>
        (\<exists>c. st_cases (abs s) i = Some c \<and> sc_TxHash c \<noteq> [] \<and> k = caseTxRaw (sc_TxHash c) i))
   \<and> (\<forall>k v. st_votes (abs s) k = Some v \<longrightarrow> st_cases (abs s) (sv_CaseId v) \<noteq> None)"

lemma caseVotes_set: "set (caseVotes s cs) = (\<Union>c \<in> set cs. set (GetSanctionVotes s (sc_CaseId c)))"
  by (induction cs) auto

lemma getAllSanctionVotes_set:
  assumes "keyed s" "indexed s"
  shows "set (getAllSanctionVotes s) = ran (st_votes (abs s))"
proof
  show "set (getAllSanctionVotes s) \<subseteq> ran (st_votes (abs s))"
    by (auto simp: getAllSanctionVotes_def caseVotes_set getAll_set ran_def)
  show "ran (st_votes (abs s)) \<subseteq> set (getAllSanctionVotes s)"
  proof
    fix v assume "v \<in> ran (st_votes (abs s))"
    then obtain k where k: "st_votes (abs s) k = Some v" by (auto simp: ran_def)
    with assms(2) have "st_cases (abs s) (sv_CaseId v) \<noteq> None" unfolding indexed_def by blast
    then obtain c where c: "st_cases (abs s) (sv_CaseId v) = Some c" by auto
    have "sc_CaseId c = sv_CaseId v" and kv: "k = voteRaw (sv_CaseId v) (sv_AgentId v)"
      using assms(1) c k by (auto simp: keyed_def)
    moreover have "hasPrefix k (sv_CaseId v @ [NUL])"
      using hasPrefix_append [of "sv_CaseId v @ [NUL]" "sv_AgentId v"] by (simp add: kv voteRaw_def)
    ultimately have "v \<in> set (GetSanctionVotes s (sc_CaseId c))" using k by (auto simp: getAll_set)
    moreover have "c \<in> set (GetAllSanctionCases s)" using c by (auto simp: getAll_set ran_def)
    ultimately show "v \<in> set (getAllSanctionVotes s)"
      by (auto simp: getAllSanctionVotes_def caseVotes_set)
  qed
qed

lemma InitGenesis_Export:
  assumes "keyed s" "indexed s"
  shows "\<exists>s'. InitGenesis (Some (ExportGenesis K s)) kv_empty = Some s' \<and> abs s' = (abs s)
    \<lparr>st_params := Some (GetParams s),
     st_authority := (if GetAuthority K s \<noteq> [] then Some (GetAuthority K s) else None)\<rparr>"
proof -
  define s1 where "s1 = SetParams (GetParams s) kv_empty"
  define s2 where "s2 = (if GetAuthority K s \<noteq> [] then SetAuthority (GetAuthority K s) s1 else s1)"
  define s3 where "s3 = fold SetOriginalTransfer (GetOriginalTransfers s []) (fold SetAgentLease (GetAllAgentLeases s) s2)"
  have "sr_Transfer r \<noteq> None" if "st_settles (abs s) k = Some r" for k r
    using assms(1) that unfolding keyed_def by fastforce
  then have "\<forall>r \<in> set (GetSettlements s []). sr_Transfer r \<noteq> None"
    unfolding getAll_set ran_def by blast
  then obtain s4 where s4: "setAll SetSettlement (map Some (GetSettlements s [])) s3 = Some s4"
    "abs s4 = (abs s3)\<lparr>st_settles := puts settleKey (\<lambda>x. x) (GetSettlements s []) (st_settles (abs s3))\<rparr>"
    using setAll_SetSettlement by blast
  define s5 where "s5 = fold SetSanctionCase (GetAllSanctionCases s) (fold SetRiskReport (GetAllRiskReports s)
     (fold SetAgent (GetAllAgents s) (fold SetReview (GetAllReviews s) s4)))"
  define s6 where "s6 = fold SetExecutionRecord (GetAllExecutionRecords s) (fold SetFreezeRecord (GetAllFreezeRecords s)
     (fold SetActiveTxSanction (GetAllActiveSanctions s) (fold SetSanctionVote (getAllSanctionVotes s) s5)))"
  have run: "InitGenesis (Some (ExportGenesis K s)) kv_empty = Some s6"
    using s4(1) [unfolded s3_def s2_def s1_def]
    by (cases "GetAuthority K s = []")
       (simp_all add: InitGenesis_def ExportGenesis_def Let_def setAll_always setPresent_map s5_def s6_def)
  note k = assms(1) [unfolded keyed_def]
  have t: "puts al_SignerAddress (\<lambda>x. x) (GetAllAgentLeases s) Map.empty = st_leases (abs s)"
    "puts (\<lambda>t. transferRaw (ot_TxHash t) (ot_MessageIndex t) (ot_Denom t)) (\<lambda>x. x)
       (GetOriginalTransfers s []) Map.empty = st_transfers (abs s)"
    "puts rv_CaseId (\<lambda>x. x) (GetAllReviews s) Map.empty = st_reviews (abs s)"
    "puts ag_AgentId (\<lambda>x. x) (GetAllAgents s) Map.empty = st_agents (abs s)"
    "puts rr_ReportId (\<lambda>x. x) (GetAllRiskReports s) Map.empty = st_reports (abs s)"
    "puts sc_CaseId (\<lambda>x. x) (GetAllSanctionCases s) Map.empty = st_cases (abs s)"
    "puts as_TxHash (\<lambda>x. x) (GetAllActiveSanctions s) Map.empty = st_active (abs s)"
    "puts fr_Address (\<lambda>x. x) (GetAllFreezeRecords s) Map.empty = st_frozen (abs s)"
    "puts er_CaseId (\<lambda>x. x) (GetAllExecutionRecords s) Map.empty = st_execs (abs s)"
    by (rule puts_own_table; use k in \<open>auto simp: getAll_set\<close>)+
  have t2: "puts settleKey (\<lambda>x. x) (GetSettlements s []) Map.empty = st_settles (abs s)"
    by (rule puts_own_table) (use k in \<open>fastforce simp: getAll_set settleKey_def\<close>)+
  have t3: "puts (\<lambda>v. voteRaw (sv_CaseId v) (sv_AgentId v)) (\<lambda>x. x) (getAllSanctionVotes s) Map.empty
      = st_votes (abs s)"
    by (rule puts_own_table) (use k getAllSanctionVotes_set [OF assms] in auto)
  have t4: "puts ag_SignerAddress ag_AgentId (GetAllAgents s) Map.empty = st_signers (abs s)"
    by (rule puts_table) (use k assms(2) in \<open>fastforce simp: indexed_def getAll_set ran_def\<close>)
  have t5: "puts (\<lambda>c. caseTxRaw (sc_TxHash c) (sc_CaseId c)) sc_CaseId
       (filter (\<lambda>c. sc_TxHash c \<noteq> []) (GetAllSanctionCases s)) Map.empty = st_caseByTx (abs s)"
    by (rule puts_table) (use k assms(2) in \<open>fastforce simp: indexed_def getAll_set ran_def\<close>)
  have "abs s6 = (abs s)\<lparr>st_params := Some (GetParams s),
     st_authority := (if GetAuthority K s \<noteq> [] then Some (GetAuthority K s) else None)\<rparr>"
    by (simp add: s6_def s5_def s4(2) s3_def abs_fold s2_def s1_def abs_SetAuthority abs_SetParams abs_empty
        t t2 t3 t4 t5)
  with run show ?thesis by blast
qed

end
