(* ===== verification/Sample.thy ===== *)
theory Sample
  imports ChainSafe Genesis
begin

text \<open>
  A small concrete world, used to apply the properties: one agent, a recorded transfer that a
  reverted case has settled, and third-party functions simple enough to compute with (an
  address is its text, a key is of the address of its first byte, every signature verifies).
\<close>

definition sampleEnv :: "nat env" where
  "sampleEnv = \<lparr>accAddressFromBech32 = (\<lambda>t. if t = [] then None else Some t),
     accAddressString = (\<lambda>b. b), newModuleAddress = (\<lambda>n. n),
     verifySignature = (\<lambda>k p s. True), pubKeyAddress = (\<lambda>k. take 1 k),
     sha256 = (\<lambda>b. take 32 b), tmhashSum = (\<lambda>b. take 32 b),
     marshalRiskReport = rr_ReportId, marshalSanctionCase = sc_CaseId,
     newIntFromString = (\<lambda>t. map_option int (dec_val 0 t)), intString = (\<lambda>n. dec_digits (nat n)),
     validateDenom = (\<lambda>d. d \<noteq> []), parseCoinNormalized = (\<lambda>t. None),
     coinsString = (\<lambda>cs. concat (map fst cs)),
     sendCoins = (\<lambda>ok f t cs b. if ok f t then Some (Suc b) else None),
     sendCoinsFromAccountToModule = (\<lambda>ok f m cs b. if ok f m then Some (Suc b) else None)\<rparr>"

definition sampleKeeper :: Keeper where
  "sampleKeeper = \<lparr>k_authority = ''gov'', k_chainID = ''g503'', k_hasBank = True\<rparr>"

definition sampleCtx :: ctx where
  "sampleCtx = \<lparr>blockHeight = 10, ctxChainID = ''g503'', txBytes = ''tx'', execModeFinalize = True,
     settlementValue = None\<rparr>"

definition sampleAgent :: AgentInfo where
  "sampleAgent = \<lparr>ag_AgentId = ''a1'', ag_ValidatorOperatorAddress = ''op'', ag_SignerAddress = ''a'',
     ag_PublicKey = replicate 33 CHR ''a'', ag_VotingPower = 10, ag_Active = True, ag_MetadataUri = []\<rparr>"

definition sampleHash :: bytes where
  "sampleHash = replicate 32 CHR ''h''"

definition sampleTransfer :: OriginalTransfer where
  "sampleTransfer = \<lparr>ot_TxHash = sampleHash, ot_MessageIndex = 0, ot_Sender = ''s'', ot_Recipient = ''r'',
     ot_Denom = ''atom'', ot_Amount = ''5'', ot_Height = 3\<rparr>"

definition sampleReport :: RiskReport where
  "sampleReport = \<lparr>rr_ReportId = ''r1'', rr_TxHash = sampleHash, rr_Sender = ''s'', rr_Recipient = ''r'',
     rr_Denom = ''atom'', rr_Amount = ''5'', rr_Source = ''chainalysis'', rr_SourceResponseId = [],
     rr_RiskScore = 95, rr_RiskCategories = [''scam''], rr_ExposureType = [], rr_ObservedHeight = 4,
     rr_ExpiryHeight = 100, rr_PolicyVersion = [], rr_EvidenceHash = ''e'', rr_LlmRationaleHash = [],
     rr_Submitter = ''a'', rr_SubmitterSignature = [], rr_MessageIndex = 0\<rparr>"

definition sampleCase :: "CaseStatus \<Rightarrow> u64 \<Rightarrow> SanctionCase" where
  "sampleCase st executed = \<lparr>sc_CaseId = ''c1'', sc_TxHash = sampleHash, sc_TargetAddress = ''r'',
     sc_TargetType = SANCTION_TARGET_TYPE_ADDRESS, sc_RequestedAction = SANCTION_ACTION_REVERT_TRANSFER,
     sc_Status = st, sc_ReportIds = [''r1''], sc_OpenedHeight = 5, sc_VotingDeadlineHeight = 25,
     sc_ExecutedHeight = executed, sc_PolicyVersion = [], sc_DecisionHash = [], sc_PreviousCaseId = [],
     sc_Voters = [Some sampleAgent], sc_QuorumThreshold = 67, sc_UnanimousRequiredForRevert = True,
     sc_VotingSnapshotVersion = 1\<rparr>"

definition sampleVote :: SanctionVote where
  "sampleVote = \<lparr>sv_CaseId = ''c1'', sv_AgentId = ''a1'', sv_Option = VOTE_OPTION_APPROVE,
     sv_ApprovedAction = SANCTION_ACTION_REVERT_TRANSFER, sv_ReasonCode = [], sv_RationaleHash = [],
     sv_SignedHeight = 6, sv_Signature = ''sig''\<rparr>"

definition sampleExec :: ExecutionRecord where
  "sampleExec = \<lparr>er_CaseId = ''c1'', er_Action = SANCTION_ACTION_REVERT_TRANSFER, er_TxHash = sampleHash,
     er_TargetAddress = ''r'', er_Executor = ''x'', er_ExecutedHeight = 9, er_ResultCode = ''ok'',
     er_ResultMessage = [], er_StateChangeHash = []\<rparr>"

definition sampleSettlement :: SettlementRecord where
  "sampleSettlement = \<lparr>sr_Transfer = Some sampleTransfer, sr_CaseId = ''c1'',
     sr_Action = SANCTION_ACTION_REVERT_TRANSFER, sr_ExecutedHeight = 9\<rparr>"

text \<open>The case approved, and the case executed.\<close>

definition approvedStore :: store where
  "approvedStore = SetSanctionVote sampleVote (SetSanctionCase (sampleCase CASE_STATUS_APPROVED 0)
     (SetRiskReport sampleReport (SetOriginalTransfer sampleTransfer (SetAgent sampleAgent kv_empty))))"

definition executedStore :: store where
  "executedStore = the (SetSettlement sampleSettlement (SetExecutionRecord sampleExec
     (SetSanctionCase (sampleCase CASE_STATUS_EXECUTED 9) approvedStore)))"

definition worldOf :: "store \<Rightarrow> nat world" where
  "worldOf s = \<lparr>w_store = s, w_bank = 0, w_events = []\<rparr>"

lemma worldOf_simps [simp]: "w_store (worldOf s) = s" "w_bank (worldOf s) = 0"
  by (simp_all add: worldOf_def)

lemmas sample_defs = sampleEnv_def sampleKeeper_def sampleCtx_def sampleAgent_def sampleTransfer_def
  sampleReport_def sampleCase_def sampleVote_def sampleExec_def sampleSettlement_def sampleHash_def

lemma abs_approvedStore:
  "abs approvedStore = \<lparr>st_params = None, st_authority = None, st_agents = [''a1'' \<mapsto> sampleAgent],
     st_signers = [''a'' \<mapsto> ''a1''], st_leases = Map.empty, st_reports = [''r1'' \<mapsto> sampleReport],
     st_cases = [''c1'' \<mapsto> sampleCase CASE_STATUS_APPROVED 0],
     st_caseByTx = [caseTxRaw sampleHash ''c1'' \<mapsto> ''c1''],
     st_votes = [voteRaw ''c1'' ''a1'' \<mapsto> sampleVote], st_active = Map.empty, st_frozen = Map.empty,
     st_execs = Map.empty, st_transfers = [transferRaw sampleHash 0 ''atom'' \<mapsto> sampleTransfer],
     st_settles = Map.empty, st_reviews = Map.empty\<rparr>"
  by (simp add: approvedStore_def abs_SetSanctionVote abs_SetSanctionCase abs_SetRiskReport
      abs_SetOriginalTransfer abs_SetAgent abs_empty sample_defs)

lemma abs_executedStore:
  "abs executedStore = (abs approvedStore)\<lparr>st_cases := [''c1'' \<mapsto> sampleCase CASE_STATUS_EXECUTED 9],
     st_execs := [''c1'' \<mapsto> sampleExec],
     st_settles := [transferRaw sampleHash 0 ''atom'' \<mapsto> sampleSettlement]\<rparr>"
proof -
  obtain s where s: "SetSettlement sampleSettlement (SetExecutionRecord sampleExec
     (SetSanctionCase (sampleCase CASE_STATUS_EXECUTED 9) approvedStore)) = Some s"
    by (auto simp: SetSettlement_def sampleSettlement_def)
  from this have "abs s = (abs approvedStore)\<lparr>st_cases := [''c1'' \<mapsto> sampleCase CASE_STATUS_EXECUTED 9],
     st_execs := [''c1'' \<mapsto> sampleExec],
     st_settles := [transferRaw sampleHash 0 ''atom'' \<mapsto> sampleSettlement]\<rparr>"
    by (rule SetSettlement_Some)
       (simp add: abs_approvedStore abs_SetExecutionRecord abs_SetSanctionCase sample_defs)
  then show ?thesis by (simp add: executedStore_def s)
qed

lemma sample_snapshot: "ValidateCaseSnapshot sampleEnv (sampleCase st h) = Inr ()"
  by (simp add: ValidateCaseSnapshot_def ValidateAgent_def sample_defs)

lemma sample_voter: "caseVoter (sampleCase st h) ''a1'' = Some sampleAgent"
  by (simp add: caseVoter_def sample_defs)

lemma sample_activeVoters: "activeVoters (sc_Voters (sampleCase st h)) = [sampleAgent]"
  by (simp add: activeVoters_def sample_defs)

lemma keyed_executed: "keyed executedStore"
  by (simp add: keyed_def abs_executedStore abs_approvedStore sample_defs)

lemma chainOk_executed: "chainOk sampleEnv executedStore"
proof -
  have "recordedPower VOTE_OPTION_APPROVE executedStore (sampleCase CASE_STATUS_EXECUTED 9) = 10"
    by (simp add: recordedPower_def sample_activeVoters)
       (simp add: get_abs abs_executedStore abs_approvedStore powerOf_def sample_defs)
  then have "recordedQuorum VOTE_OPTION_APPROVE executedStore (sampleCase CASE_STATUS_EXECUTED 9)"
    by (simp add: recordedQuorum_def sample_activeVoters) (simp add: powerOf_def sample_defs)
  then have "approvedOk executedStore"
    by (simp add: approvedOk_def abs_executedStore)
  moreover have "casesOk sampleEnv executedStore"
    by (simp add: casesOk_def abs_executedStore sample_snapshot)
  moreover have "execsOk executedStore" "settlesOk executedStore" "bansOk executedStore" "reviewsOk executedStore"
    by (simp_all add: execsOk_def settlesOk_def bansOk_def reviewsOk_def abs_executedStore abs_approvedStore
        monetaryAction_def sample_defs)
  moreover have "votesOk sampleEnv executedStore"
    using sample_voter
    by (simp add: votesOk_def abs_executedStore abs_approvedStore VerifySecp256k1_def)
       (simp add: sample_defs)
  moreover have "unanimousOk executedStore"
    by (simp add: unanimousOk_def abs_executedStore abs_approvedStore sample_activeVoters)
       (simp add: sample_defs)
  ultimately show ?thesis using keyed_executed by (simp add: chainOk_def)
qed

end
