(* ===== verification/ChainProps.thy ===== *)
theory ChainProps
  imports Sample
begin

text \<open>
  The properties of the chain module as a whole: what holds in every world reachable from a
  well-formed one, whatever requests are made, in whatever order, and whether or not a failing
  transaction is rolled back. A world loaded from a genesis without cases is well formed.
\<close>

section \<open>Where the chain starts\<close>

text \<open>A genesis file with parameters, an authority, agents, reports, leases and receipts only.\<close>

definition freshGenesis :: "GenesisState \<Rightarrow> bool" where
  "freshGenesis g \<longleftrightarrow> g_SanctionCases g = [] \<and> g_SanctionVotes g = [] \<and> g_ActiveSanctions g = []
     \<and> g_FrozenAddresses g = [] \<and> g_ExecutionRecords g = [] \<and> g_Settlements g = [] \<and> g_Reviews g = []"

lemma setAll_inv:
  assumes "setAll (always put) xs s = Some s'" "\<And>x t. P t \<Longrightarrow> P (put x t)" "P s"
  shows "P s'"
  using assms(1,3)
  by (induction xs arbitrary: s) (auto simp: always_def split: option.splits intro: assms(2))

lemma setPresent_inv:
  assumes "\<And>x t. P t \<Longrightarrow> P (put x t)" "P s"
  shows "P (setPresent put xs s)"
  using assms(2) by (induction xs arbitrary: s) (auto split: option.splits intro: assms(1))

definition noRecords :: "store \<Rightarrow> bool" where
  "noRecords s \<longleftrightarrow> keyed s \<and> st_cases (abs s) = Map.empty \<and> st_votes (abs s) = Map.empty
     \<and> st_active (abs s) = Map.empty \<and> st_frozen (abs s) = Map.empty \<and> st_execs (abs s) = Map.empty
     \<and> st_settles (abs s) = Map.empty \<and> st_reviews (abs s) = Map.empty"

lemma noRecords_writes:
  "noRecords s \<Longrightarrow> noRecords (SetParams p s)" "noRecords s \<Longrightarrow> noRecords (SetAuthority t s)"
  "noRecords s \<Longrightarrow> noRecords (SetAgent a s)" "noRecords s \<Longrightarrow> noRecords (SetRiskReport r s)"
  "noRecords s \<Longrightarrow> noRecords (SetAgentLease l s)" "noRecords s \<Longrightarrow> noRecords (SetOriginalTransfer o' s)"
  by (simp_all add: noRecords_def keyed_writes abs_SetParams abs_SetAuthority abs_SetAgent
      abs_SetRiskReport abs_SetAgentLease abs_SetOriginalTransfer)

lemma noRecords_chainOk: "noRecords s \<Longrightarrow> chainOk E s"
  by (simp add: noRecords_def chainOk_def casesOk_def execsOk_def settlesOk_def bansOk_def reviewsOk_def
      votesOk_def approvedOk_def unanimousOk_def)

lemma InitGenesis_fresh:
  assumes "InitGenesis (Some g) kv_empty = Some s" "freshGenesis g"
  shows "noRecords s"
proof -
  define s0 where "s0 = (let s = (case g_Params g of None \<Rightarrow> kv_empty | Some p \<Rightarrow> SetParams p kv_empty)
     in if g_Authority g \<noteq> [] then SetAuthority (g_Authority g) s else s)"
  have "noRecords kv_empty" by (simp add: noRecords_def abs_empty)
  then have n0: "noRecords s0" by (auto simp: s0_def Let_def noRecords_writes split: option.splits)
  from assms obtain s1 s2 where s1: "setAll (always SetAgentLease) (g_AgentLeases g) s0 = Some s1"
    and s2: "setAll (always SetOriginalTransfer) (g_OriginalTransfers g) s1 = Some s2"
    and s: "s = setPresent SetRiskReport (g_RiskReports g) (setPresent SetAgent (g_Agents g) s2)"
    by (auto simp: InitGenesis_def freshGenesis_def Let_def s0_def bind_eq_Some_conv split: if_splits)
  have "noRecords s1" by (rule setAll_inv [where P = noRecords, OF s1]) (simp_all add: n0 noRecords_writes)
  then have "noRecords s2"
    by - (rule setAll_inv [where P = noRecords, OF s2]; simp add: noRecords_writes)
  then have "noRecords (setPresent SetAgent (g_Agents g) s2)"
    by - (rule setPresent_inv [where P = noRecords]; simp add: noRecords_writes)
  then show ?thesis unfolding s
    by - (rule setPresent_inv [where P = noRecords]; simp add: noRecords_writes)
qed

section \<open>The properties\<close>

text \<open>
  C34. The chain starts well formed. Importing a genesis without cases (the default genesis is
  one) gives a world that satisfies every invariant, and every world reachable from it does:
  records sit under their own keys, cases have valid snapshots, executions and settlements match
  their cases, bans and freezes belong to live cases, revocations follow reviews, votes come
  from the snapshot with a valid signature, approvals have their quorum and reverts their
  unanimity.
\<close>

theorem genesis_reaches_chainOk:
  assumes "InitGenesis (Some g) kv_empty = Some (w_store w0)" "freshGenesis g" "reachable E K w0 w"
  shows "chainOk E (w_store w)"
  using reachable_chainOk [OF assms(3) noRecords_chainOk [OF InitGenesis_fresh [OF assms(1,2)]]] by simp

lemma genesis_reaches_chainOk_witness:
  "chainOk sampleEnv (w_store (deliver sampleEnv sampleKeeper sampleCtx
     (ReqUpdateParams \<lparr>um_Authority = ''gov'', um_Params = Some DefaultParams\<rparr>)
     (worldOf (SetParams DefaultParams kv_empty))))"
proof -
  have "InitGenesis (Some DefaultGenesis) kv_empty = Some (w_store (worldOf (SetParams DefaultParams kv_empty)))"
    by (simp add: InitGenesis_def DefaultGenesis_def)
  moreover have "freshGenesis DefaultGenesis" by (simp add: freshGenesis_def DefaultGenesis_def)
  moreover have "reachable sampleEnv sampleKeeper (worldOf (SetParams DefaultParams kv_empty))
     (deliver sampleEnv sampleKeeper sampleCtx (ReqUpdateParams \<lparr>um_Authority = ''gov'', um_Params = Some DefaultParams\<rparr>)
       (worldOf (SetParams DefaultParams kv_empty)))"
    by (rule reachable.step [OF reachable.start chainStep.request])
  ultimately show ?thesis by (rule genesis_reaches_chainOk)
qed

text \<open>
  C1. A transfer is settled at most once, and a case settles at most one transfer. In every
  reachable world, a settlement was made by a case that executed the settlement's action, at the
  settlement's height, and that case has no other settlement; and no later request changes or
  removes the settlement.
\<close>

theorem settlement_once:
  assumes "reachable E K w0 w" "chainOk E (w_store w0)" "GetSettlement (w_store w) h n d = Some r"
  shows "(\<exists>c e. GetSanctionCase (w_store w) (sr_CaseId r) = Some c
      \<and> GetExecutionRecord (w_store w) (sr_CaseId r) = Some e
      \<and> sc_Status c \<in> {CASE_STATUS_EXECUTED, CASE_STATUS_REVOKED}
      \<and> sr_Action r \<in> {SANCTION_ACTION_ESCROW_FUNDS, SANCTION_ACTION_REVERT_TRANSFER}
      \<and> sc_RequestedAction c = sr_Action r \<and> sc_ExecutedHeight c = sr_ExecutedHeight r
      \<and> er_Action e = sr_Action r \<and> er_ExecutedHeight e = sr_ExecutedHeight r)
    \<and> (\<forall>h' n' d' r'. GetSettlement (w_store w) h' n' d' = Some r' \<longrightarrow> sr_CaseId r' = sr_CaseId r
         \<longrightarrow> h' @ be32 n' @ d' = h @ be32 n @ d)
    \<and> (\<forall>w'. reachable E K w w' \<longrightarrow> GetSettlement (w_store w') h n d = Some r)"
proof -
  have ok: "chainOk E (w_store w)" using reachable_chainOk assms(1,2) by blast
  then have S: "settlesOk (w_store w)" and X: "execsOk (w_store w)" by (simp_all add: chainOk_def)
  have r: "st_settles (abs (w_store w)) (transferRaw h n d) = Some r" using assms(3) by (simp add: get_abs)
  with S obtain e where e: "st_execs (abs (w_store w)) (sr_CaseId r) = Some e" "er_Action e = sr_Action r"
    "er_ExecutedHeight e = sr_ExecutedHeight r" "monetaryAction (sr_Action r)"
    unfolding settlesOk_def by blast
  with X obtain c where "st_cases (abs (w_store w)) (sr_CaseId r) = Some c"
    "sc_Status c \<in> {CASE_STATUS_EXECUTED, CASE_STATUS_REVOKED}"
    "sc_ExecutedHeight c = er_ExecutedHeight e" "sc_RequestedAction c = er_Action e"
    unfolding execsOk_def by blast
  with e have one: "\<exists>c e. GetSanctionCase (w_store w) (sr_CaseId r) = Some c
      \<and> GetExecutionRecord (w_store w) (sr_CaseId r) = Some e
      \<and> sc_Status c \<in> {CASE_STATUS_EXECUTED, CASE_STATUS_REVOKED}
      \<and> sr_Action r \<in> {SANCTION_ACTION_ESCROW_FUNDS, SANCTION_ACTION_REVERT_TRANSFER}
      \<and> sc_RequestedAction c = sr_Action r \<and> sc_ExecutedHeight c = sr_ExecutedHeight r
      \<and> er_Action e = sr_Action r \<and> er_ExecutedHeight e = sr_ExecutedHeight r"
    by (auto simp: get_abs monetaryAction_def)
  have two: "h' @ be32 n' @ d' = h @ be32 n @ d"
    if "GetSettlement (w_store w) h' n' d' = Some r'" "sr_CaseId r' = sr_CaseId r" for h' n' d' r'
    using S that r unfolding settlesOk_def get_abs transferRaw_def by blast
  have three: "GetSettlement (w_store w') h n d = Some r" if "reachable E K w w'" for w'
  proof -
    have "st_settles (abs (w_store w)) \<subseteq>\<^sub>m st_settles (abs (w_store w'))"
      using reachable_chainOk [OF that ok] by (simp add: evolves_def)
    with r show ?thesis by (force simp: get_abs map_le_def dom_def)
  qed
  from one two three show ?thesis by blast
qed

lemma settlement_once_witness:
  "GetSettlement executedStore sampleHash 0 ''atom'' = Some sampleSettlement
   \<and> (\<exists>c e. GetSanctionCase executedStore ''c1'' = Some c \<and> GetExecutionRecord executedStore ''c1'' = Some e
      \<and> sc_Status c \<in> {CASE_STATUS_EXECUTED, CASE_STATUS_REVOKED})"
proof -
  have g: "GetSettlement (w_store (worldOf executedStore)) sampleHash 0 ''atom'' = Some sampleSettlement"
    by (simp add: get_abs abs_executedStore)
  have "chainOk sampleEnv (w_store (worldOf executedStore))" by (simp add: chainOk_executed)
  from settlement_once [OF reachable.start [of sampleEnv sampleKeeper] this g] g show ?thesis
    by (auto simp: sampleSettlement_def)
qed

end
