(* ===== verification/CoreProps.thy ===== *)
theory CoreProps
  imports Sample
begin

text \<open>
  Properties of the module's pure parts: the policy, the signed payloads and the tally.
\<close>

section \<open>The policy\<close>

text \<open>
  The chain and the agents decide alike. The action the chain computes for a case is the
  action an agent computes from the highest score and all categories of the same reports, with
  thresholds taken from the chain's parameters; for a case of one report, from that report's
  score and categories.
\<close>

lemma chain_policy_is_agent_policy:
  "ComputePolicyAction rs p t =
     Action (maxRiskScore rs) (concat (map rr_RiskCategories rs)) t (thresholdsOf p)
   \<and> ComputePolicyAction [r] p t = Action (rr_RiskScore r) (rr_RiskCategories r) t (thresholdsOf p)"
  by (simp add: ComputePolicyAction_eq maxRiskScore_def max_def)

lemma maxRiskScore_append: "maxRiskScore rs \<le> maxRiskScore (rs @ rs')"
  by (simp add: maxRiskScore_def foldl_max_ge)

lemma Action_more_categories:
  "severity (Action s cs t th) \<le> severity (Action s (cs @ cs') t th)"
  by (auto simp: Action_def Let_def anyHighRisk_eq)

text \<open>
  The policy only escalates. With validated parameters, more evidence never weakens the
  action of a case; a sanction is recommended exactly when some score reaches the watch
  threshold; a case about a transaction is never answered with a freeze, an escrow or a revert;
  and escrow is never recommended at all.
\<close>

lemma policy_escalates:
  assumes "ValidateParams (Some p) = Inr ()"
  shows "severity (ComputePolicyAction rs p t) \<le> severity (ComputePolicyAction (rs @ rs') p t)
    \<and> (ComputePolicyAction rs p t \<noteq> SANCTION_ACTION_UNSPECIFIED) = (p_WatchThreshold p \<le> maxRiskScore rs)
    \<and> ComputePolicyAction rs p SANCTION_TARGET_TYPE_TX
        \<in> {SANCTION_ACTION_UNSPECIFIED, SANCTION_ACTION_WATCH, SANCTION_ACTION_BLOCK_TX}
    \<and> ComputePolicyAction rs p t \<noteq> SANCTION_ACTION_ESCROW_FUNDS"
proof -
  have "severity (ComputePolicyAction rs p t) \<le> severity (ComputePolicyAction (rs @ rs') p t)"
    unfolding ComputePolicyAction_eq map_append concat_append
    by (rule order_trans [OF Action_mono [OF maxRiskScore_append] Action_more_categories])
  moreover have "th_WatchThreshold (thresholdsOf p) = p_WatchThreshold p" by (simp add: thresholdsOf_def)
  ultimately show ?thesis
    using Action_specified_iff [OF ValidateParams_monotonic [OF assms]] Action_tx_target Action_range
    unfolding ComputePolicyAction_eq by (metis SanctionAction.distinct insertE singletonD)
qed

section \<open>Signed payloads\<close>

text \<open>
  C35. A vote signature covers the whole vote. Two votes with the same signed bytes agree in
  chain, case, agent, option, action, reason, rationale and signed height, provided the enum
  values are proper and the fields are shorter than \<open>2 ^ 64\<close> bytes, which every Go value is.
\<close>

theorem vote_payload_injective:
  assumes "VoteSignBytes n v = VoteSignBytes n' v'" "vote_fits n v" "vote_fits n' v'"
  shows "n = n' \<and> v\<lparr>sv_Signature := []\<rparr> = v'\<lparr>sv_Signature := []\<rparr>"
  by (rule VoteSignBytes_inject_raw [OF assms(2,3,1)])

lemma vote_payload_injective_witness:
  "VoteSignBytes ''g503'' sampleVote \<noteq> VoteSignBytes ''g503'' (sampleVote\<lparr>sv_CaseId := ''c2''\<rparr>)"
proof
  assume "VoteSignBytes ''g503'' sampleVote = VoteSignBytes ''g503'' (sampleVote\<lparr>sv_CaseId := ''c2''\<rparr>)"
  from vote_payload_injective [OF this] show False
    by (simp add: vote_fits_def fits_def sampleVote_def)
qed

section \<open>Counting votes\<close>

text \<open>
  C36. The tally counts each active voter of the snapshot once. Whatever the number of votes, and
  so whichever of the two code paths runs, the total is the power of the active voters, and the
  power counted for an option is that of the active voters whose first vote has it; the powers
  counted for and against never exceed the total, even beyond \<open>2 ^ 64\<close>.
\<close>

theorem tally_reference:
  "tallySnapshotVotes voters votes =
     \<lparr>ty_total = powerOf (activeVoters voters),
      ty_approve = powerOf (filter (\<lambda>a. scanOption (ag_AgentId a) votes = VOTE_OPTION_APPROVE) (activeVoters voters)),
      ty_reject = powerOf (filter (\<lambda>a. scanOption (ag_AgentId a) votes = VOTE_OPTION_REJECT) (activeVoters voters))\<rparr>
   \<and> ty_approve (tallySnapshotVotes voters votes) + ty_reject (tallySnapshotVotes voters votes)
      \<le> ty_total (tallySnapshotVotes voters votes)"
  using votedPower_disjoint by (simp add: tallySnapshotVotes_eq votedPower_def)

text \<open>
  C20. The quorum rule. A case with a valid snapshot is approved exactly when the approving power
  exceeds the quorum percentage less one of the total (the code rounds the percentage up), and
  rejected when it is not approved and the rejecting power does; otherwise nothing changes.
  Approval of a block bans the transaction at once; no other table changes.
\<close>

theorem quorum_rule:
  fixes c :: ctx
  assumes "ValidateCaseSnapshot E sc = Inr ()" "recomputeCaseStatus c s sc = (s', sc', approved, rejected)"
    and "tally = tallySnapshotVotes (sc_Voters sc) (map Some (GetSanctionVotes s (sc_CaseId sc)))"
  shows "approved = ((unat (sc_QuorumThreshold sc) - 1) * ty_total tally < 100 * ty_approve tally)
    \<and> rejected = (\<not> approved \<and> (unat (sc_QuorumThreshold sc) - 1) * ty_total tally < 100 * ty_reject tally)
    \<and> sc' = (if approved then sc\<lparr>sc_Status := CASE_STATUS_APPROVED\<rparr>
             else if rejected then sc\<lparr>sc_Status := CASE_STATUS_REJECTED\<rparr> else sc)
    \<and> s' = (if approved \<and> sc_RequestedAction sc = SANCTION_ACTION_BLOCK_TX
            then SetActiveTxSanction (activeSanctionOf c sc) s else s)"
proof -
  have v: "sc_VotingSnapshotVersion sc = 1" and q: "sc_QuorumThreshold sc \<noteq> 0"
    using assms(1) by (auto simp: ValidateCaseSnapshot_def split: if_splits)
  note t = activeVoters_snapshot [OF assms(1)]
  note a = quorum_test [OF votedPower_le t q, of VOTE_OPTION_APPROVE "map Some (GetSanctionVotes s (sc_CaseId sc))"]
  note r = quorum_test [OF votedPower_le t q, of VOTE_OPTION_REJECT "map Some (GetSanctionVotes s (sc_CaseId sc))"]
  show ?thesis
    using assms(2) v t unfolding recomputeCaseStatus_def Let_def assms(3)
    by (auto simp: tallySnapshotVotes_eq a r split: if_splits)
qed

lemma quorum_rule_witness:
  "recomputeCaseStatus sampleCtx kv_empty (sampleCase CASE_STATUS_PENDING 0)
     = (kv_empty, sampleCase CASE_STATUS_PENDING 0, False, False)"
proof -
  have e: "GetSanctionVotes kv_empty i = []" for i
    by (simp flip: set_empty add: getAll_set abs_empty)
  obtain s' sc' a r where re: "recomputeCaseStatus sampleCtx kv_empty (sampleCase CASE_STATUS_PENDING 0) = (s', sc', a, r)"
    by (metis prod_cases4)
  from quorum_rule [OF sample_snapshot re refl] show ?thesis
    by (simp add: re e tallySnapshotVotes_eq votedPower_def powerOf_def)
qed

text \<open>
  Votes count for their own case. When no recorded vote has a NUL byte in its case id (the
  separator of vote keys), the power the tally finds for an option is that of the snapshot's
  active voters whose own recorded vote in this case has it.
\<close>

lemma tally_isolated:
  fixes c :: SanctionCase
  assumes "keyed s" "nulFree s" "NUL \<notin> set (sc_CaseId c)" "opt \<noteq> VOTE_OPTION_UNSPECIFIED"
  shows "votedPower opt (sc_Voters c) (map Some (GetSanctionVotes s (sc_CaseId c))) =
     powerOf (filter (\<lambda>a. \<exists>v. GetSanctionVote s (sc_CaseId c) (ag_AgentId a) = Some v \<and> sv_Option v = opt)
       (activeVoters (sc_Voters c)))"
  using votedPower_recorded [OF assms] by (simp add: recordedPower_def)

section \<open>Leases at a concrete input\<close>

text \<open>A lease of the sample agent's key, held until block 20.\<close>

definition sampleHolder :: string where
  "sampleHolder = replicate 64 CHR ''b''"

definition leasedStore :: store where
  "leasedStore = SetAgentLease \<lparr>al_SignerAddress = ''a'', al_HolderId = sampleHolder, al_Epoch = 3,
     al_ExpiresHeight = 20\<rparr> executedStore"

lemma abs_leasedStore:
  "abs leasedStore = (abs executedStore)\<lparr>st_leases := [''a'' \<mapsto> \<lparr>al_SignerAddress = ''a'',
     al_HolderId = sampleHolder, al_Epoch = 3, al_ExpiresHeight = 20\<rparr>]\<rparr>"
  by (simp add: leasedStore_def abs_SetAgentLease abs_executedStore abs_approvedStore)

lemma leasedStore_lease: "GetAgentLease leasedStore ''a'' = Some \<lparr>al_SignerAddress = ''a'',
     al_HolderId = sampleHolder, al_Epoch = 3, al_ExpiresHeight = 20\<rparr>"
  by (simp add: get_abs abs_leasedStore)


lemma keyed_leasedStore: "keyed leasedStore"
  unfolding leasedStore_def by (rule keyed_writes(13) [OF keyed_executed])

lemma ClaimAgentLease_one_owner_witness:
  "\<exists>l s' e. ClaimAgentLease sampleEnv (sampleCtx\<lparr>blockHeight := 30\<rparr>)
      \<lparr>lm_SignerAddress = ''a'', lm_HolderId = replicate 64 CHR ''c'', lm_ExpectedEpoch = 3,
       lm_TtlBlocks = 24, lm_Renew = False\<rparr> leasedStore = Inr (l, s', e) \<and> unat (al_Epoch l) = 4"
proof -
  let ?m = "\<lparr>lm_SignerAddress = ''a'', lm_HolderId = replicate 64 CHR ''c'', lm_ExpectedEpoch = 3,
       lm_TtlBlocks = 24, lm_Renew = False\<rparr>"
  have h: "trimSet lowerHexDigits (replicate 64 CHR ''c'') = []"
    by (simp add: trimSet_Nil_iff lowerHexDigits_def)
  have s: "GetAgentBySigner leasedStore ''a'' \<noteq> None"
    by (simp add: get_abs abs_leasedStore abs_executedStore abs_approvedStore)
  obtain l s' e where c: "ClaimAgentLease sampleEnv (sampleCtx\<lparr>blockHeight := 30\<rparr>) ?m leasedStore = Inr (l, s', e)"
    using h s leasedStore_lease by (simp add: ClaimAgentLease_def Let_def sampleEnv_def sampleCtx_def)
  from ClaimAgentLease_one_owner [OF c keyed_leasedStore] leasedStore_lease
  have "unat (al_Epoch l) = 4" by simp
  with c show ?thesis by blast
qed

end
