(* ===== verification/Proposal.thy ===== *)
theory Proposal
  imports Execution
begin

text \<open>
  Keeping sanctioned transactions out of blocks: x/sanction/keeper/proposal.go and
  proposal_abci.go. The proposer filters its transactions, every validator rejects a block that
  contains a sanctioned one, and the two must agree.
\<close>

record BlockedTx =
  bt_Hash :: bytes
  bt_Tx :: bytes

fun filterLoop ::
    "'b env \<Rightarrow> store \<Rightarrow> bytes list \<Rightarrow> bytes list \<Rightarrow> BlockedTx list \<Rightarrow> bytes list \<times> BlockedTx list" where
  "filterLoop E s [] kept blocked = (kept, blocked)"
| "filterLoop E s (tx # txs) kept blocked = (let hash = TxHash E tx in
     if GetActiveTxSanction s hash \<noteq> None
     then filterLoop E s txs kept (blocked @ [\<lparr>bt_Hash = hash, bt_Tx = tx\<rparr>])
     else filterLoop E s txs (kept @ [tx]) blocked)"

definition FilterSanctionedTxs :: "'b env \<Rightarrow> store \<Rightarrow> bytes list \<Rightarrow> bytes list \<times> BlockedTx list" where
  "FilterSanctionedTxs E s txs = filterLoop E s txs [] []"

fun ContainsSanctionedTx :: "'b env \<Rightarrow> store \<Rightarrow> bytes list \<Rightarrow> BlockedTx option" where
  "ContainsSanctionedTx E s [] = None"
| "ContainsSanctionedTx E s (tx # txs) = (let hash = TxHash E tx in
     if GetActiveTxSanction s hash \<noteq> None then Some \<lparr>bt_Hash = hash, bt_Tx = tx\<rparr>
     else ContainsSanctionedTx E s txs)"

datatype proposalStatus = ACCEPT | REJECT

definition PrepareProposalHandler :: "'b env \<Rightarrow> store \<Rightarrow> bytes list \<Rightarrow> bytes list" where
  "PrepareProposalHandler E s txs = (case FilterSanctionedTxs E s txs of (kept, _) \<Rightarrow> kept)"

definition ProcessProposalHandler :: "'b env \<Rightarrow> store \<Rightarrow> bytes list \<Rightarrow> proposalStatus" where
  "ProcessProposalHandler E s txs = (case ContainsSanctionedTx E s txs of
     Some _ \<Rightarrow> REJECT | None \<Rightarrow> ACCEPT)"

text \<open>\<open>ErrSanctionedTx\<close> carries the hash; its text is fixed.\<close>

record ErrSanctionedTx =
  es_Hash :: bytes

definition ErrSanctionedTx_Error :: "ErrSanctionedTx \<Rightarrow> string" where
  "ErrSanctionedTx_Error e = ''transaction is actively sanctioned''"

definition sdkerrorsTxSanctioned :: "bytes \<Rightarrow> ErrSanctionedTx" where
  "sdkerrorsTxSanctioned hash = \<lparr>es_Hash = hash\<rparr>"

definition CheckTxAllowed :: "'b env \<Rightarrow> store \<Rightarrow> bytes \<Rightarrow> ErrSanctionedTx option" where
  "CheckTxAllowed E s tx = (let hash = TxHash E tx in
     if GetActiveTxSanction s hash \<noteq> None then Some (sdkerrorsTxSanctioned hash) else None)"

section \<open>The two handlers agree\<close>

definition sanctioned :: "'b env \<Rightarrow> store \<Rightarrow> bytes \<Rightarrow> bool" where
  "sanctioned E s tx \<longleftrightarrow> GetActiveTxSanction s (TxHash E tx) \<noteq> None"

lemma filterLoop_eq:
  "filterLoop E s txs kept blocked =
     (kept @ filter (\<lambda>tx. \<not> sanctioned E s tx) txs,
      blocked @ map (\<lambda>tx. \<lparr>bt_Hash = TxHash E tx, bt_Tx = tx\<rparr>) (filter (sanctioned E s) txs))"
  by (induction txs arbitrary: kept blocked) (auto simp: sanctioned_def Let_def)

lemma ContainsSanctionedTx_None: "ContainsSanctionedTx E s txs = None \<longleftrightarrow> (\<forall>tx \<in> set txs. \<not> sanctioned E s tx)"
  by (induction txs) (auto simp: sanctioned_def Let_def)

lemma ContainsSanctionedTx_Some:
  "ContainsSanctionedTx E s txs = Some b \<Longrightarrow>
     bt_Tx b \<in> set txs \<and> sanctioned E s (bt_Tx b) \<and> bt_Hash b = TxHash E (bt_Tx b)"
  by (induction txs) (auto simp: sanctioned_def Let_def split: if_splits)

text \<open>
  C37. The proposer and the validators agree on sanctioned transactions. A prepared proposal is
  the given list without its sanctioned transactions, in the given order; every validator with
  the same state accepts it; a validator accepts a list exactly if no transaction of it is
  sanctioned, which is what \<open>CheckTxAllowed\<close> says transaction by transaction; and preparing an
  acceptable list changes nothing.
\<close>

theorem prepared_proposal_accepted:
  "PrepareProposalHandler E s txs = filter (\<lambda>tx. CheckTxAllowed E s tx = None) txs
   \<and> ProcessProposalHandler E s (PrepareProposalHandler E s txs) = ACCEPT
   \<and> (ProcessProposalHandler E s txs = ACCEPT) = (PrepareProposalHandler E s txs = txs)
   \<and> (ProcessProposalHandler E s txs = ACCEPT) = list_all (\<lambda>tx. CheckTxAllowed E s tx = None) txs"
proof -
  have allowed: "CheckTxAllowed E s tx = None \<longleftrightarrow> \<not> sanctioned E s tx" for tx
    by (simp add: CheckTxAllowed_def sanctioned_def Let_def)
  have prep: "PrepareProposalHandler E s txs = filter (\<lambda>tx. \<not> sanctioned E s tx) txs" for txs
    by (simp add: PrepareProposalHandler_def FilterSanctionedTxs_def filterLoop_eq)
  have proc: "ProcessProposalHandler E s txs = ACCEPT \<longleftrightarrow> (\<forall>tx \<in> set txs. \<not> sanctioned E s tx)" for txs
    by (auto simp: ProcessProposalHandler_def ContainsSanctionedTx_None split: option.splits
        dest: ContainsSanctionedTx_Some)
  show ?thesis
    unfolding prep proc by (auto simp: allowed filter_id_conv list_all_iff)
qed

end
