(* ===== verification/RecordProps.thy ===== *)
theory RecordProps
  imports Sample
begin

text \<open>
  Properties of the chain's records over time: what is never changed, how a case's status moves,
  what stands behind an execution, a ban, a revocation and a vote, and what a settlement pays.
\<close>

text \<open>
  C33. The handlers refine the abstract steps. From a store whose records sit under their own
  keys, every request (any message, succeeding or failing, the post-handler, the end-of-block
  sync) changes the store by a sequence of the eight guarded abstract steps, and nothing else.
\<close>

theorem handlers_refine_steps:
  assumes "keyed (w_store w)"
  shows "effects E (w_store w) (w_store (deliver E K c req w)) \<and> keyed (w_store (deliver E K c req w))"
proof -
  have e: "effects E (w_store w) (w_store (deliver E K c req w))" by (rule deliver_effects [OF assms])
  have "keyed t" if "effects E s t" "keyed s" for s t
    using that by (induction rule: effects.induct) (auto intro: effect_keyed)
  with e assms show ?thesis by blast
qed

lemma handlers_refine_steps_witness:
  "effects sampleEnv executedStore
     (w_store (deliver sampleEnv sampleKeeper sampleCtx (ReqReviewSanction \<lparr>wm_Authority = ''gov'',
        wm_CaseId = ''c1'', wm_Reason = ''false positive'', wm_EvidenceHash = sampleHash\<rparr>) (worldOf executedStore)))"
proof -
  have k: "keyed (w_store (worldOf executedStore))" using keyed_executed by simp
  show ?thesis using handlers_refine_steps [OF k, THEN conjunct1] by (simp only: worldOf_simps)
qed

text \<open>
  C32. The record of the past is append-only. Between any two moments of a run, risk reports,
  votes, execution records and settlements stay exactly as they were; a case keeps all its
  fields, its voters and quorum among them, but status and executed height; a review keeps all
  its fields but the revocation, which is filled in at most once.
\<close>

theorem records_append_only:
  assumes "reachable E K w w'" "chainOk E (w_store w)"
  shows "(\<forall>i r. GetRiskReport (w_store w) i = Some r \<longrightarrow> GetRiskReport (w_store w') i = Some r)
    \<and> (\<forall>i a v. GetSanctionVote (w_store w) i a = Some v \<longrightarrow> GetSanctionVote (w_store w') i a = Some v)
    \<and> (\<forall>i e. GetExecutionRecord (w_store w) i = Some e \<longrightarrow> GetExecutionRecord (w_store w') i = Some e)
    \<and> (\<forall>h n d r. GetSettlement (w_store w) h n d = Some r \<longrightarrow> GetSettlement (w_store w') h n d = Some r)
    \<and> (\<forall>i c. GetSanctionCase (w_store w) i = Some c \<longrightarrow> (\<exists>st h. GetSanctionCase (w_store w') i
         = Some (c\<lparr>sc_Status := st, sc_ExecutedHeight := h\<rparr>)))
    \<and> (\<forall>i r. GetReview (w_store w) i = Some r \<longrightarrow> (\<exists>h t. GetReview (w_store w') i
         = Some (r\<lparr>rv_RevokedHeight := h, rv_RevokeReason := t\<rparr>)
         \<and> (rv_RevokedHeight r \<noteq> 0 \<longrightarrow> h = rv_RevokedHeight r \<and> t = rv_RevokeReason r)))"
proof -
  have ev: "evolves (w_store w) (w_store w')" using reachable_chainOk [OF assms] by blast
  have le: "m \<subseteq>\<^sub>m m' \<Longrightarrow> m k = Some v \<Longrightarrow> m' k = Some v" for m m' :: "'k \<rightharpoonup> 'v" and k v
    by (force simp: map_le_def dom_def)
  have cs: "\<exists>st h. st_cases (abs (w_store w')) i = Some (c\<lparr>sc_Status := st, sc_ExecutedHeight := h\<rparr>)"
    if "st_cases (abs (w_store w)) i = Some c" for i c
    using ev that unfolding evolves_def sameCase_def by metis
  show ?thesis
    using ev cs unfolding evolves_def get_abs by (blast dest: le)
qed

lemma records_append_only_witness:
  "GetSettlement (w_store (deliver sampleEnv sampleKeeper sampleCtx (ReqExecuteSanction
     \<lparr>xm_Executor = ''x'', xm_CaseId = ''c1'', xm_ResultMessage = []\<rparr>) (worldOf executedStore)))
     sampleHash 0 ''atom'' = Some sampleSettlement"
proof -
  have "reachable sampleEnv sampleKeeper (worldOf executedStore) (deliver sampleEnv sampleKeeper sampleCtx
     (ReqExecuteSanction \<lparr>xm_Executor = ''x'', xm_CaseId = ''c1'', xm_ResultMessage = []\<rparr>) (worldOf executedStore))"
    by (rule reachable.step [OF reachable.start chainStep.request])
  from records_append_only [OF this] show ?thesis
    by (simp add: chainOk_executed) (simp add: get_abs abs_executedStore)
qed

text \<open>
  The status of a case only moves forward. Between any two moments of a run, as long as no
  recorded vote has a NUL byte in its case id, a pending case may be decided, expire or be
  revoked, an approved one may be executed, expire or be revoked but not be rejected, an
  executed, rejected or expired one may only be revoked, and a revoked one stays revoked.
\<close>

lemma case_status_forward:
  assumes "reachable E K w w'" "chainOk E (w_store w)" "nulFree (w_store w')"
    and "GetSanctionCase (w_store w) i = Some c"
  shows "\<exists>c'. GetSanctionCase (w_store w') i = Some c' \<and>
    (case sc_Status c of
       CASE_STATUS_APPROVED \<Rightarrow> sc_Status c' \<in> {CASE_STATUS_APPROVED, CASE_STATUS_EXECUTED,
         CASE_STATUS_EXPIRED, CASE_STATUS_REVOKED}
     | CASE_STATUS_EXECUTED \<Rightarrow> sc_Status c' \<in> {CASE_STATUS_EXECUTED, CASE_STATUS_REVOKED}
     | CASE_STATUS_REJECTED \<Rightarrow> sc_Status c' \<in> {CASE_STATUS_REJECTED, CASE_STATUS_REVOKED}
     | CASE_STATUS_EXPIRED \<Rightarrow> sc_Status c' \<in> {CASE_STATUS_EXPIRED, CASE_STATUS_REVOKED}
     | CASE_STATUS_REVOKED \<Rightarrow> sc_Status c' = CASE_STATUS_REVOKED
     | _ \<Rightarrow> True)"
proof -
  have ev: "evolves (w_store w) (w_store w')" using reachable_chainOk [OF assms(1,2)] by blast
  have "st_cases (abs (w_store w)) i = Some c" using assms(4) by (simp add: get_abs)
  with ev have "\<exists>c'. st_cases (abs (w_store w')) i = Some c' \<and> sameCase c c'
      \<and> statusEdge (\<not> nulFree (w_store w')) (sc_Status c) (sc_Status c')" unfolding evolves_def by blast
  then obtain c' where c': "st_cases (abs (w_store w')) i = Some c'"
    "statusEdge False (sc_Status c) (sc_Status c')" using assms(3) by auto
  from c'(2) have "case sc_Status c of
       CASE_STATUS_APPROVED \<Rightarrow> sc_Status c' \<in> {CASE_STATUS_APPROVED, CASE_STATUS_EXECUTED,
         CASE_STATUS_EXPIRED, CASE_STATUS_REVOKED}
     | CASE_STATUS_EXECUTED \<Rightarrow> sc_Status c' \<in> {CASE_STATUS_EXECUTED, CASE_STATUS_REVOKED}
     | CASE_STATUS_REJECTED \<Rightarrow> sc_Status c' \<in> {CASE_STATUS_REJECTED, CASE_STATUS_REVOKED}
     | CASE_STATUS_EXPIRED \<Rightarrow> sc_Status c' \<in> {CASE_STATUS_EXPIRED, CASE_STATUS_REVOKED}
     | CASE_STATUS_REVOKED \<Rightarrow> sc_Status c' = CASE_STATUS_REVOKED
     | _ \<Rightarrow> True"
    by (cases "sc_Status c") auto
  with c'(1) show ?thesis by (auto simp: get_abs)
qed

lemma nulFree_executed: "nulFree executedStore"
  by (simp add: nulFree_def abs_executedStore abs_approvedStore sampleVote_def)



end
