(* ===== verification/GuardProps.thy ===== *)
theory GuardProps
  imports Sample
begin

text \<open>
  Properties of the guards: how long a sanction lasts, and what opening, replacing and revoking
  a case require.
\<close>

section \<open>Properties kept along a run\<close>

lemma reachable_induct_store:
  assumes "reachable E K w w'" "chainOk E (w_store w)" "P (w_store w)"
    and step: "\<And>s s'. effect E s s' \<Longrightarrow> chainOk E s \<Longrightarrow> chainOk E s' \<Longrightarrow> evolves s s' \<Longrightarrow> P s \<Longrightarrow> P s'"
  shows "P (w_store w')"
  using assms(1)
proof (induction rule: reachable.induct)
  case start
  show ?case by (rule assms(3))
next
  case (step w1 w2)
  have es: "effects E s t \<Longrightarrow> chainOk E s \<Longrightarrow> P s \<Longrightarrow> chainOk E t \<and> P t" for s t
  proof (induction rule: effects.induct)
    case (more s t u)
    then have t: "chainOk E t" "P t" by blast+
    from effect_chainOk [OF more.hyps(2) t(1)] assms(4) [OF more.hyps(2) t(1) _ _ t(2)] show ?case by blast
  qed simp
  have ok: "chainOk E (w_store w1)" using reachable_chainOk [OF step.hyps(1) assms(2)] by blast
  from step.hyps(2) show ?case
  proof cases
    case (request c req)
    have "keyed (w_store w1)" using ok by (simp add: chainOk_def)
    from es [OF deliver_effects [OF this] ok step.IH] show ?thesis by (simp add: request)
  next
    case (bank b)
    with step.IH show ?thesis by simp
  qed
qed

section \<open>Bans and freezes\<close>

definition liftedBy :: "store \<Rightarrow> SanctionAction \<Rightarrow> (SanctionCase \<Rightarrow> bool) \<Rightarrow> bool" where
  "liftedBy s action target \<longleftrightarrow> (\<exists>i c. st_cases (abs s) i = Some c \<and> target c
     \<and> sc_RequestedAction c = action \<and> sc_Status c = CASE_STATUS_REVOKED)"

lemma liftedBy_evolves:
  assumes "evolves s s'" "liftedBy s action target"
    and "\<And>c c'. sameCase c c' \<Longrightarrow> target c \<Longrightarrow> target c'"
  shows "liftedBy s' action target"
proof -
  obtain i c where c: "st_cases (abs s) i = Some c" "target c" "sc_RequestedAction c = action"
      "sc_Status c = CASE_STATUS_REVOKED" using assms(2) by (auto simp: liftedBy_def)
  with assms(1) obtain c' where "st_cases (abs s') i = Some c'" "sameCase c c'"
      "statusEdge (\<not> nulFree s') (sc_Status c) (sc_Status c')" unfolding evolves_def by blast
  moreover from this(2) c(2) have "target c'" by (rule assms(3))
  moreover have "sc_RequestedAction c' = action" using c(3) calculation(2) by (simp add: sameCase_fields)
  ultimately show ?thesis using c(4) unfolding liftedBy_def by (intro exI [of _ i] exI [of _ c']) simp
qed

lemma effect_frozen:
  assumes e: "effect E s s'" and k: "keyed s" and b: "bansOk s" and f: "st_frozen (abs s) a = Some fr"
  shows "st_frozen (abs s') a \<noteq> None
    \<or> liftedBy s' SANCTION_ACTION_FREEZE_ADDRESS (\<lambda>c. sc_TargetAddress c = a)"
  using e k
proof (cases rule: effect_abs)
  case (executed c w msg sc w1 er x)
  show ?thesis using executed(7)
    by (cases rule: actionEffect_cases) (simp_all add: executed(10) f [unfolded executed(1)])
next
  case (revoked i sc rv h reason x)
  from b f obtain c where c: "st_cases (abs s) (fr_CaseId fr) = Some c"
     "sc_RequestedAction c = SANCTION_ACTION_FREEZE_ADDRESS" "sc_TargetAddress c = a"
    unfolding bansOk_def by blast
  show ?thesis
  proof (cases "sc_TargetAddress sc = a \<and> fr_CaseId fr = i")
    case True
    then show ?thesis using revoked(1) c by (simp add: liftedBy_def revoked) blast
  qed (use f in \<open>auto simp: revoked abs_liftSanctions split: option.splits\<close>)
qed (simp_all add: f)

lemma effect_active:
  assumes e: "effect E s s'" and k: "keyed s" and b: "bansOk s" and f: "st_active (abs s) h = Some ac"
  shows "st_active (abs s') h \<noteq> None \<or> liftedBy s' SANCTION_ACTION_BLOCK_TX (\<lambda>c. sc_TxHash c = h)"
  using e k
proof (cases rule: effect_abs)
  case (executed c w msg sc w1 er x)
  show ?thesis using executed(7)
    by (cases rule: actionEffect_cases) (simp_all add: executed(10) f [unfolded executed(1)])
next
  case (revoked i sc rv hh reason x)
  from b f obtain c where c: "st_cases (abs s) (as_CaseId ac) = Some c"
     "sc_RequestedAction c = SANCTION_ACTION_BLOCK_TX" "sc_TxHash c = h"
    unfolding bansOk_def by blast
  show ?thesis
  proof (cases "sc_TxHash sc = h \<and> as_CaseId ac = i")
    case True
    then show ?thesis using revoked(1) c by (simp add: liftedBy_def revoked) blast
  qed (use f in \<open>auto simp: revoked abs_liftSanctions split: option.splits\<close>)
qed (simp_all add: f)

lemma frozen_kept:
  assumes "effect E s s'" "chainOk E s" "evolves s s'"
    and "st_frozen (abs s) a \<noteq> None \<or> liftedBy s SANCTION_ACTION_FREEZE_ADDRESS (\<lambda>c. sc_TargetAddress c = a)"
  shows "st_frozen (abs s') a \<noteq> None \<or> liftedBy s' SANCTION_ACTION_FREEZE_ADDRESS (\<lambda>c. sc_TargetAddress c = a)"
  using assms(4)
proof
  assume "st_frozen (abs s) a \<noteq> None"
  then obtain fr where "st_frozen (abs s) a = Some fr" by auto
  from effect_frozen [OF assms(1) _ _ this] assms(2) show ?thesis by (simp add: chainOk_def)
next
  assume "liftedBy s SANCTION_ACTION_FREEZE_ADDRESS (\<lambda>c. sc_TargetAddress c = a)"
  from liftedBy_evolves [OF assms(3) this] show ?thesis by (simp add: sameCase_fields)
qed

lemma active_kept:
  assumes "effect E s s'" "chainOk E s" "evolves s s'"
    and "st_active (abs s) h \<noteq> None \<or> liftedBy s SANCTION_ACTION_BLOCK_TX (\<lambda>c. sc_TxHash c = h)"
  shows "st_active (abs s') h \<noteq> None \<or> liftedBy s' SANCTION_ACTION_BLOCK_TX (\<lambda>c. sc_TxHash c = h)"
  using assms(4)
proof
  assume "st_active (abs s) h \<noteq> None"
  then obtain ac where "st_active (abs s) h = Some ac" by auto
  from effect_active [OF assms(1) _ _ this] assms(2) show ?thesis by (simp add: chainOk_def)
next
  assume "liftedBy s SANCTION_ACTION_BLOCK_TX (\<lambda>c. sc_TxHash c = h)"
  from liftedBy_evolves [OF assms(3) this] show ?thesis by (simp add: sameCase_fields)
qed


definition frozenStore :: store where
  "frozenStore = SetFreezeRecord \<lparr>fr_CaseId = ''c2'', fr_Address = ''r'', fr_FrozenHeight = 9\<rparr>
     (SetExecutionRecord (sampleExec\<lparr>er_CaseId := ''c2'', er_Action := SANCTION_ACTION_FREEZE_ADDRESS\<rparr>)
     (SetSanctionVote (sampleVote\<lparr>sv_CaseId := ''c2'', sv_ApprovedAction := SANCTION_ACTION_FREEZE_ADDRESS\<rparr>)
     (SetSanctionCase ((sampleCase CASE_STATUS_EXECUTED 9)\<lparr>sc_CaseId := ''c2'',
        sc_RequestedAction := SANCTION_ACTION_FREEZE_ADDRESS\<rparr>) kv_empty)))"

lemma abs_frozenStore:
  "abs frozenStore = (abs kv_empty)\<lparr>
     st_frozen := [''r'' \<mapsto> \<lparr>fr_CaseId = ''c2'', fr_Address = ''r'', fr_FrozenHeight = 9\<rparr>],
     st_execs := [''c2'' \<mapsto> sampleExec\<lparr>er_CaseId := ''c2'', er_Action := SANCTION_ACTION_FREEZE_ADDRESS\<rparr>],
     st_votes := [voteRaw ''c2'' ''a1'' \<mapsto> sampleVote\<lparr>sv_CaseId := ''c2'', sv_ApprovedAction := SANCTION_ACTION_FREEZE_ADDRESS\<rparr>],
     st_cases := [''c2'' \<mapsto> (sampleCase CASE_STATUS_EXECUTED 9)\<lparr>sc_CaseId := ''c2'',
        sc_RequestedAction := SANCTION_ACTION_FREEZE_ADDRESS\<rparr>],
     st_caseByTx := [caseTxRaw sampleHash ''c2'' \<mapsto> ''c2'']\<rparr>"
  by (simp add: frozenStore_def abs_SetSanctionVote abs_SetSanctionCase abs_SetExecutionRecord
      abs_SetFreezeRecord abs_empty sample_defs)

lemma chainOk_frozen: "chainOk sampleEnv frozenStore"
proof -
  let ?c = "(sampleCase CASE_STATUS_EXECUTED 9)\<lparr>sc_CaseId := ''c2'', sc_RequestedAction := SANCTION_ACTION_FREEZE_ADDRESS\<rparr>"
  have av: "activeVoters (sc_Voters ?c) = [sampleAgent]" using sample_activeVoters by (simp add: sampleCase_def)
  have "recordedPower VOTE_OPTION_APPROVE frozenStore ?c = 10"
    unfolding recordedPower_def av by (simp add: get_abs abs_frozenStore powerOf_def sample_defs)
  then have "recordedQuorum VOTE_OPTION_APPROVE frozenStore ?c"
    unfolding recordedQuorum_def av by (simp add: powerOf_def sample_defs)
  then have "approvedOk frozenStore" by (simp add: approvedOk_def abs_frozenStore abs_empty)
  moreover have "casesOk sampleEnv frozenStore" using sample_snapshot
    by (simp add: casesOk_def abs_frozenStore abs_empty) (simp add: ValidateCaseSnapshot_def sampleCase_def)
  moreover have "execsOk frozenStore" "settlesOk frozenStore" "bansOk frozenStore" "reviewsOk frozenStore"
    "keyed frozenStore" "unanimousOk frozenStore"
    by (simp_all add: execsOk_def settlesOk_def bansOk_def reviewsOk_def keyed_def unanimousOk_def
        abs_frozenStore abs_empty monetaryAction_def sample_defs)
  moreover have "caseVoter ?c ''a1'' = Some sampleAgent"
    using sample_voter by (simp add: caseVoter_def sampleCase_def)
  then have "votesOk sampleEnv frozenStore"
    by (simp add: votesOk_def abs_frozenStore abs_empty VerifySecp256k1_def) (simp add: sample_defs)
  ultimately show ?thesis by (simp add: chainOk_def)
qed


section \<open>Opening a case\<close>

lemma caseReports_lookup:
  "caseReports E c s msg ids rs = Inr out \<Longrightarrow> \<exists>new. out = rs @ new
     \<and> map (GetRiskReport s) ids = map Some new"
proof (induction ids arbitrary: rs)
  case (Cons i ids)
  then obtain r where r: "GetRiskReport s i = Some r" "caseReports E c s msg ids (rs @ [r]) = Inr out"
    by (auto simp: bind_r_Inr_iff split: option.splits if_splits)
  from Cons.IH [OF r(2)] r(1) show ?case by fastforce
qed simp

lemma replaced_agents: "replaced c msg reports s s1 \<Longrightarrow> st_agents (abs s1) = st_agents (abs s)"
  by (auto simp: replaced_def expireForReplacement_Inr abs_SetSanctionCase split: if_splits)

text \<open>
  C23. Cases are opened by policy, on evidence. When \<open>OpenSanctionCase\<close> succeeds the case is new
  and stored as pending under the id asked for; its reports are all on chain, unexpired, about
  one transfer of the case's transaction (and target, when it has one); the action is the one
  the policy computes from those reports, allowed by the parameters, never unspecified; for an
  escrow or a revert each report matches a recorded, unsettled transfer of an earlier block; and
  the voters are exactly the agents eligible at that moment, with the parameters' quorum.
\<close>

theorem opening_follows_policy:
  assumes "OpenSanctionCase E c msg w = (Inr i, w')"
  shows "i = oc_CaseId msg \<and> GetSanctionCase (w_store w) i = None
    \<and> (\<exists>sc reports. GetSanctionCase (w_store w') i = Some sc \<and> sc_Status sc = CASE_STATUS_PENDING
      \<and> reports \<noteq> [] \<and> map (GetRiskReport (w_store w)) (sc_ReportIds sc) = map Some reports
      \<and> sc_RequestedAction sc = ComputePolicyAction reports (GetParams (w_store w)) (sc_TargetType sc)
      \<and> actionAllowed (sc_RequestedAction sc) (GetParams (w_store w))
      \<and> sc_RequestedAction sc \<noteq> SANCTION_ACTION_UNSPECIFIED
      \<and> (\<forall>r \<in> set reports. blockHeight c < rr_ExpiryHeight r \<and> rr_TxHash r = sc_TxHash sc
          \<and> sameTransfer r (hd reports)
          \<and> (sc_TargetAddress sc \<noteq> [] \<longrightarrow> rr_Recipient r = sc_TargetAddress sc)
          \<and> (sc_RequestedAction sc \<in> {SANCTION_ACTION_REVERT_TRANSFER, SANCTION_ACTION_ESCROW_FUNDS}
              \<longrightarrow> (\<exists>t. unsettledOriginal c (w_store w) r = Inr t)))
      \<and> set (sc_Voters sc) = {Some a |a. eligible a \<and> (\<exists>k. GetAgent (w_store w) k = Some a)}
      \<and> ValidateCaseSnapshot E sc = Inr ()
      \<and> sc_QuorumThreshold sc = p_QuorumThreshold (GetParams (w_store w)))"
  using assms
proof (cases rule: OpenSanctionCase_cases)
  case (ok reports s1 sc)
  note F = openedCase_fields [OF ok(6)]
  have g: "GetSanctionCase (w_store w) i = None" "oc_ReportIds msg \<noteq> []"
    "actionAllowed (oc_RequestedAction msg) (GetParams (w_store w))"
    using ok(1,2) by (auto simp: openGuards_def split: if_splits)
  have p: "oc_RequestedAction msg = ComputePolicyAction reports (GetParams (w_store w)) (oc_TargetType msg)"
    "oc_RequestedAction msg \<noteq> SANCTION_ACTION_UNSPECIFIED"
    using ok(4) by (auto simp: policyGuards_def Let_def split: if_splits)
  from caseReports_lookup [OF ok(3)] have l: "map (GetRiskReport (w_store w)) (oc_ReportIds msg) = map Some reports"
    by simp
  have ne: "reports \<noteq> []" using l g(2) by auto
  note R = caseReports_Inr [OF ok(3)]
  have each: "\<forall>r \<in> set reports. blockHeight c < rr_ExpiryHeight r \<and> rr_TxHash r = oc_TxHash msg
          \<and> sameTransfer r (hd reports)
          \<and> (oc_TargetAddress msg \<noteq> [] \<longrightarrow> rr_Recipient r = oc_TargetAddress msg)
          \<and> monetaryCheck E c (w_store w) (oc_RequestedAction msg) r = Inr ()"
    using R ne by auto
  have mon: "\<exists>t. unsettledOriginal c (w_store w) r = Inr t"
    if "r \<in> set reports" "oc_RequestedAction msg \<in> {SANCTION_ACTION_REVERT_TRANSFER, SANCTION_ACTION_ESCROW_FUNDS}" for r
    using each that by (auto simp: monetaryCheck_def bind_r_Inr_iff split: if_splits)
  have v: "set (sc_Voters sc) = {Some a |a. eligible a \<and> (\<exists>k. GetAgent (w_store w) k = Some a)}"
    using replaced_agents [OF ok(5)] by (auto simp: F(15) getAll_set get_abs ran_def)
  have q: "GetParams s1 = GetParams (w_store w)" by (rule replaced_GetParams [OF ok(5)])
  have s: "GetSanctionCase (w_store w') i = Some sc"
    using ok(1,7) F(1) by (simp add: get_abs abs_SetSanctionCase)
  show ?thesis
    by (intro conjI exI [of _ sc] exI [of _ reports])
       (use ok(1) g p l ne each mon v q s F in \<open>simp_all\<close>)
qed simp_all

text \<open>
  A case is replaced at most once, by newer evidence. When a case is opened to replace
  another, the old one concerned the same address, transaction and transfer, was never executed,
  had run out of evidence or of voting time, and is expired afterwards; the new primary report
  was observed later; and no case of that transaction named the same predecessor before.
\<close>

lemma replacement_guarded:
  assumes k: "keyed (w_store w)" and x: "indexed (w_store w)"
    and open': "OpenSanctionCase E c msg w = (Inr i, w')" and prev: "oc_PreviousCaseId msg \<noteq> []"
  shows "\<exists>old r new. GetSanctionCase (w_store w) (oc_PreviousCaseId msg) = Some old
    \<and> GetRiskReport (w_store w) (hd (oc_ReportIds msg)) = Some new
    \<and> replaceable c (w_store w) old r new \<and> sc_TxHash old = oc_TxHash msg
    \<and> GetExecutionRecord (w_store w) (oc_PreviousCaseId msg) = None
    \<and> GetSanctionCase (w_store w') (oc_PreviousCaseId msg) = Some (old\<lparr>sc_Status := CASE_STATUS_EXPIRED\<rparr>)
    \<and> (\<forall>j other. j \<noteq> [] \<longrightarrow> GetSanctionCase (w_store w) j = Some other
        \<longrightarrow> sc_TxHash other = oc_TxHash msg \<longrightarrow> sc_PreviousCaseId other \<noteq> oc_PreviousCaseId msg)
    \<and> (\<exists>sc. GetSanctionCase (w_store w') i = Some sc \<and> sc_PreviousCaseId sc = oc_PreviousCaseId msg)"
  using open'
proof (cases rule: OpenSanctionCase_cases)
  case (ok reports s1 sc)
  note F = openedCase_fields [OF ok(6)]
  have g: "GetSanctionCase (w_store w) (oc_CaseId msg) = None" "oc_ReportIds msg \<noteq> []" "length (oc_TxHash msg) = 32"
    using ok(2) by (auto simp: openGuards_def split: if_splits)
  from caseReports_lookup [OF ok(3)] have l: "map (GetRiskReport (w_store w)) (oc_ReportIds msg) = map Some reports"
    by simp
  then have ne: "reports \<noteq> []" using g(2) by auto
  with l g(2) have hd: "GetRiskReport (w_store w) (hd (oc_ReportIds msg)) = Some (hd reports)"
    by (cases "oc_ReportIds msg"; cases reports) auto
  have tx: "rr_TxHash (hd reports) = oc_TxHash msg" using caseReports_Inr [OF ok(3)] ne by auto
  from ok(5) prev obtain old r where old: "GetSanctionCase (w_store w) (oc_PreviousCaseId msg) = Some old"
    "replaceable c (w_store w) old r (hd reports)"
    "GetExecutionRecord (w_store w) (oc_PreviousCaseId msg) = None"
    "\<forall>other \<in> set (GetSanctionCasesByTx (w_store w) (rr_TxHash (hd reports))). sc_PreviousCaseId other \<noteq> oc_PreviousCaseId msg"
    "s1 = SetSanctionCase (old\<lparr>sc_Status := CASE_STATUS_EXPIRED\<rparr>) (w_store w)"
    by (auto simp: replaced_def expireForReplacement_Inr)
  have id: "sc_CaseId old = oc_PreviousCaseId msg" by (rule keyed_case_id [OF k old(1)])
  have neq: "oc_CaseId msg \<noteq> oc_PreviousCaseId msg" using g(1) old(1) by auto
  have one: "sc_PreviousCaseId other \<noteq> oc_PreviousCaseId msg"
    if "j \<noteq> []" "GetSanctionCase (w_store w) j = Some other" "sc_TxHash other = oc_TxHash msg" for j other
  proof -
    have "other \<in> set (GetSanctionCasesByTx (w_store w) (oc_TxHash msg))"
      unfolding GetSanctionCasesByTx_set
    proof (intro exI conjI)
      have "sc_TxHash other \<noteq> []" using that(3) g(3) by auto
      with x that show "st_caseByTx (abs (w_store w)) (caseTxRaw (oc_TxHash msg) j) = Some j"
        by (simp add: indexed_def get_abs)
      show "hasPrefix (caseTxRaw (oc_TxHash msg) j) (oc_TxHash msg)" by (simp add: caseTxRaw_def)
    qed (use that in \<open>simp_all add: get_abs\<close>)
    with old(4) tx show ?thesis by simp
  qed
  have old': "GetSanctionCase (w_store w') (oc_PreviousCaseId msg) = Some (old\<lparr>sc_Status := CASE_STATUS_EXPIRED\<rparr>)"
    using neq by (simp add: ok(7) old(5) get_abs abs_SetSanctionCase F(1) id)
  have new': "GetSanctionCase (w_store w') i = Some sc"
    using ok(1,7) F(1) by (simp add: get_abs abs_SetSanctionCase)
  have "sc_TxHash old = oc_TxHash msg" using old(2) tx by (simp add: replaceable_def)
  with old hd one old' new' F(10) show ?thesis by blast
qed simp_all

text \<open>A pending case past its voting deadline, and a message that replaces it.\<close>

definition staleStore :: store where
  "staleStore = SetRiskReport (sampleReport\<lparr>rr_ReportId := ''r2'', rr_ObservedHeight := 7\<rparr>)
     (SetRiskReport sampleReport (SetSanctionCase ((sampleCase CASE_STATUS_PENDING 0)\<lparr>sc_VotingDeadlineHeight := 8\<rparr>)
     (SetOriginalTransfer sampleTransfer (SetAgent sampleAgent kv_empty))))"

definition openMsg :: MsgOpenSanctionCase where
  "openMsg = \<lparr>oc_Submitter = ''x'', oc_CaseId = ''c3'', oc_TxHash = sampleHash, oc_TargetAddress = ''r'',
     oc_TargetType = SANCTION_TARGET_TYPE_ADDRESS, oc_RequestedAction = SANCTION_ACTION_REVERT_TRANSFER,
     oc_ReportIds = [''r2''], oc_PolicyVersion = [], oc_PreviousCaseId = ''c1''\<rparr>"

lemma stale_open: "fst (OpenSanctionCase sampleEnv sampleCtx openMsg (worldOf staleStore)) = Inr ''c3''"
  by code_simp

lemma stale_opens: "\<exists>w'. OpenSanctionCase sampleEnv sampleCtx openMsg (worldOf staleStore) = (Inr ''c3'', w')"
  using stale_open by (metis prod.collapse)

lemma stale_wf: "keyed staleStore" "indexed staleStore"
  by (simp_all add: staleStore_def keyed_def indexed_def abs_SetSanctionCase abs_SetRiskReport
      abs_SetOriginalTransfer abs_SetAgent abs_empty sample_defs)

lemma opening_follows_policy_witness:
  "\<exists>(sc :: SanctionCase) reports. sc_RequestedAction sc = ComputePolicyAction reports (GetParams staleStore) (sc_TargetType sc)
     \<and> sc_Status sc = CASE_STATUS_PENDING \<and> reports \<noteq> []"
proof -
  obtain w' where "OpenSanctionCase sampleEnv sampleCtx openMsg (worldOf staleStore) = (Inr ''c3'', w')"
    using stale_opens by blast
  from opening_follows_policy [OF this, THEN conjunct2, THEN conjunct2, unfolded worldOf_simps]
  obtain sc :: SanctionCase and reports where "sc_Status sc = CASE_STATUS_PENDING" "reports \<noteq> []"
    "sc_RequestedAction sc = ComputePolicyAction reports (GetParams staleStore) (sc_TargetType sc)"
    by (elim exE conjE)
  then show ?thesis by (intro exI [of _ sc] exI [of _ reports] conjI)
qed

section \<open>Review and revocation\<close>

text \<open>
  C30. Nothing is revoked without a review. Both messages act only for the module's authority.
  A revocation that succeeds found a review of that case, by the same authority, from a strictly
  earlier block and not used before; it marks the case revoked and the review used, and lifts
  the ban and the freeze this case imposed and no others.
\<close>

theorem revocation_reviewed:
  assumes "RevokeSanction K c msg w = (Inr (), w')" "chainOk E (w_store w)"
  shows "rm_Authority msg = GetAuthority K (w_store w)
    \<and> (\<exists>rv. GetReview (w_store w) (rm_CaseId msg) = Some rv \<and> rv_Authority rv = rm_Authority msg
        \<and> rv_ReviewedHeight rv < blockHeight c \<and> rv_RevokedHeight rv = 0
        \<and> GetReview (w_store w') (rm_CaseId msg)
            = Some (rv\<lparr>rv_RevokedHeight := blockHeight c, rv_RevokeReason := rm_Reason msg\<rparr>))
    \<and> (\<exists>sc. GetSanctionCase (w_store w) (rm_CaseId msg) = Some sc \<and> sc_Status sc \<noteq> CASE_STATUS_REVOKED
        \<and> GetSanctionCase (w_store w') (rm_CaseId msg) = Some (sc\<lparr>sc_Status := CASE_STATUS_REVOKED\<rparr>))
    \<and> (\<forall>h a. GetActiveTxSanction (w_store w') h = Some a
          \<longleftrightarrow> GetActiveTxSanction (w_store w) h = Some a \<and> as_CaseId a \<noteq> rm_CaseId msg)
    \<and> (\<forall>x f. GetFreezeRecord (w_store w') x = Some f
          \<longleftrightarrow> GetFreezeRecord (w_store w) x = Some f \<and> fr_CaseId f \<noteq> rm_CaseId msg)
    \<and> w_bank w' = w_bank w"
  using assms(1)
proof (cases rule: RevokeSanction_cases)
  case (ok sc rv)
  have k: "keyed (w_store w)" and b: "bansOk (w_store w)" using assms(2) by (simp_all add: chainOk_def)
  have id: "sc_CaseId sc = rm_CaseId msg" by (rule keyed_case_id [OF k ok(3)])
  have rid: "rv_CaseId rv = rm_CaseId msg" by (rule keyed_review_id [OF k ok(4)])
  note c = ok(3) [unfolded get_abs]
  have a: "sc_TxHash sc = h" if "st_active (abs (w_store w)) h = Some a" "as_CaseId a = rm_CaseId msg" for h a
    using b that c unfolding bansOk_def by fastforce
  have f: "sc_TargetAddress sc = x" if "st_frozen (abs (w_store w)) x = Some f" "fr_CaseId f = rm_CaseId msg" for x f
    using b that c unfolding bansOk_def by fastforce
  have "GetActiveTxSanction (w_store w') h = Some y
     \<longleftrightarrow> GetActiveTxSanction (w_store w) h = Some y \<and> as_CaseId y \<noteq> rm_CaseId msg" for h y
    using a [of h y] by (auto simp: ok(7) get_abs abs_SetReview abs_SetSanctionCase abs_liftSanctions
        split: option.splits if_splits)
  moreover have "GetFreezeRecord (w_store w') x = Some y
     \<longleftrightarrow> GetFreezeRecord (w_store w) x = Some y \<and> fr_CaseId y \<noteq> rm_CaseId msg" for x y
    using f [of x y] by (auto simp: ok(7) get_abs abs_SetReview abs_SetSanctionCase abs_liftSanctions
        split: option.splits if_splits)
  moreover have "GetReview (w_store w') (rm_CaseId msg)
      = Some (rv\<lparr>rv_RevokedHeight := blockHeight c, rv_RevokeReason := rm_Reason msg\<rparr>)"
    using rid by (simp add: ok(7) get_abs abs_SetReview)
  moreover have "GetSanctionCase (w_store w') (rm_CaseId msg) = Some (sc\<lparr>sc_Status := CASE_STATUS_REVOKED\<rparr>)"
    using id by (simp add: ok(7) get_abs abs_SetReview abs_SetSanctionCase)
  ultimately show ?thesis using ok(2,3,4,5,8) by (simp add: revocable_def)
qed simp_all

lemma revoke_runs: "fst (RevokeSanction sampleKeeper sampleCtx \<lparr>rm_Authority = ''gov'', rm_CaseId = ''c1'',
    rm_Reason = ''appeal''\<rparr> (worldOf (SetReview \<lparr>rv_CaseId = ''c1'', rv_Authority = ''gov'', rv_Reason = ''r'',
    rv_EvidenceHash = sampleHash, rv_ReviewedHeight = 8, rv_RevokedHeight = 0, rv_RevokeReason = []\<rparr> executedStore)))
  = Inr ()"
  by code_simp

lemma chainOk_review:
  assumes "chainOk E s" "GetReview s (rv_CaseId rv) = None" "GetSanctionCase s (rv_CaseId rv) = Some sc"
    "sc_Status sc \<noteq> CASE_STATUS_REVOKED" "rv_RevokedHeight rv = 0"
  shows "chainOk E (SetReview rv s)"
  using effect_chainOk [OF effect.reviewed assms(1)] assms(2-) by blast

lemma revocation_reviewed_witness:
  "\<exists>w'. RevokeSanction sampleKeeper sampleCtx \<lparr>rm_Authority = ''gov'', rm_CaseId = ''c1'',
    rm_Reason = ''appeal''\<rparr> (worldOf (SetReview \<lparr>rv_CaseId = ''c1'', rv_Authority = ''gov'', rv_Reason = ''r'',
    rv_EvidenceHash = sampleHash, rv_ReviewedHeight = 8, rv_RevokedHeight = 0, rv_RevokeReason = []\<rparr> executedStore))
      = (Inr (), w') \<and> w_bank w' = 0"
proof -
  let ?rv = "\<lparr>rv_CaseId = ''c1'', rv_Authority = ''gov'', rv_Reason = ''r'', rv_EvidenceHash = sampleHash,
    rv_ReviewedHeight = 8, rv_RevokedHeight = 0, rv_RevokeReason = []\<rparr>"
  obtain w' where w: "RevokeSanction sampleKeeper sampleCtx \<lparr>rm_Authority = ''gov'', rm_CaseId = ''c1'',
    rm_Reason = ''appeal''\<rparr> (worldOf (SetReview ?rv executedStore)) = (Inr (), w')"
    using revoke_runs by (metis prod.collapse)
  have "chainOk sampleEnv (w_store (worldOf (SetReview ?rv executedStore)))"
    unfolding worldOf_simps
    by (rule chainOk_review [OF chainOk_executed, of _ "sampleCase CASE_STATUS_EXECUTED 9"])
       (simp_all add: get_abs abs_executedStore abs_approvedStore, simp add: sampleCase_def)
  from revocation_reviewed [OF w this] w show ?thesis unfolding worldOf_simps by blast
qed

end
