(* ===== verification/VoteProps.thy ===== *)
theory VoteProps
  imports Sample
begin

text \<open>
  What an execution pays, what a vote does and what the validator sync leaves behind.
\<close>

section \<open>What a settlement pays\<close>


lemma execute_guards: "executeGuards sampleEnv sampleCtx approvedStore
    \<lparr>xm_Executor = ''x'', xm_CaseId = ''c1'', xm_ResultMessage = []\<rparr> = Inr (sampleCase CASE_STATUS_APPROVED 0)"
  by code_simp

lemma execute_report: "primaryReport approvedStore (sampleCase CASE_STATUS_APPROVED 0) = Inr sampleReport"
  "unsettledOriginal sampleCtx approvedStore sampleReport = Inr sampleTransfer"
  "reportCoins sampleEnv sampleReport = Inr [(''atom'', 5)]"
  by code_simp+

lemma execute_runs: "\<exists>er w'. ExecuteSanction sampleEnv sampleKeeper sampleCtx \<lparr>xm_Executor = ''x'',
    xm_CaseId = ''c1'', xm_ResultMessage = []\<rparr> (worldOf approvedStore) = (Inr er, w')"
proof -
  have a: "sc_RequestedAction (sampleCase CASE_STATUS_APPROVED 0) = SANCTION_ACTION_REVERT_TRANSFER"
    by (simp add: sampleCase_def)
  have k: "k_hasBank sampleKeeper" by (simp add: sampleKeeper_def)
  have d: "decodeAddress sampleEnv (rr_Sender sampleReport) = Inr ''s''"
    "decodeAddress sampleEnv (rr_Recipient sampleReport) = Inr ''r''"
    by (simp_all add: decodeAddress_def sampleEnv_def sampleReport_def)
  obtain s' where p: "putSettlement sampleCtx approvedStore (sampleCase CASE_STATUS_APPROVED 0) sampleTransfer = Inr s'"
    using putSettlement_total by blast
  have b: "sendCoins sampleEnv ok f t cs n = (if ok f t then Some (Suc n) else None)" for ok f t cs n
    by (simp add: sampleEnv_def)
  show ?thesis
    by (simp add: ExecuteSanction_def execute_guards performAction_def a executeRevert_def k
        execute_report d p b restriction_settlement)
qed


section \<open>Votes\<close>

lemma snapshot_power:
  assumes "ValidateCaseSnapshot E sc = Inr ()"
  shows "sc_VotingSnapshotVersion sc = 1" "0 < powerOf (activeVoters (sc_Voters sc))"
proof -
  from assms obtain vs where vs: "sc_Voters sc = map Some vs" "\<forall>a \<in> set vs. voter_ok E a" "sc_Voters sc \<noteq> []"
    and v: "sc_VotingSnapshotVersion sc = 1" unfolding ValidateCaseSnapshot_iff snapshot_ok_def by blast
  show "sc_VotingSnapshotVersion sc = 1" by (rule v)
  from vs obtain a as where a: "vs = a # as" "voter_ok E a" by (cases vs) auto
  then have "0 < unat (ag_VotingPower a)" "ag_Active a" by (auto simp: voter_ok_def word_gt_0 unat_gt_0)
  then show "0 < powerOf (activeVoters (sc_Voters sc))"
    by (simp add: vs(1) a(1) activeVoters_def powerOf_def nonNil_def List.map_filter_simps)
qed

text \<open>
  C22. A vote is the voter's own, once, and counts at once. A vote that is accepted comes from
  the signer of an agent in the case's frozen snapshot, carries a signature of that agent's key
  over the vote and the chain id, approves no action but the case's own, is the agent's first on
  the case, and arrives while the case is pending before its deadline, or approved and waiting
  for unanimity. It is then on record, and the case is approved exactly when the approving
  snapshot voters reach the quorum, else rejected exactly when the rejecting ones do, else left
  as it was.
\<close>

theorem vote_accepted_counts:
  assumes "SubmitSanctionVote E K c msg w = (Inr (approved, rejected), w')"
    and "chainOk E (w_store w)"
  shows "\<exists>vote sc agent. vm_Vote msg = Some vote \<and> voteAccepted E K c (w_store w) (vm_Submitter msg) vote sc agent
    \<and> GetSanctionVote (w_store w') (sv_CaseId vote) (sv_AgentId vote) = Some vote
    \<and> approved = quorumOf VOTE_OPTION_APPROVE (SetSanctionVote vote (w_store w)) sc
    \<and> rejected = (\<not> approved \<and> quorumOf VOTE_OPTION_REJECT (SetSanctionVote vote (w_store w)) sc)
    \<and> GetSanctionCase (w_store w') (sv_CaseId vote) = Some (sc\<lparr>sc_Status :=
        if approved then CASE_STATUS_APPROVED else if rejected then CASE_STATUS_REJECTED else sc_Status sc\<rparr>)
    \<and> (GetActiveTxSanction (w_store w') (sc_TxHash sc) =
        (if approved \<and> sc_RequestedAction sc = SANCTION_ACTION_BLOCK_TX then Some (activeSanctionOf c sc)
         else GetActiveTxSanction (w_store w) (sc_TxHash sc)))"
  using assms(1)
proof (cases rule: SubmitSanctionVote_cases)
  case (ok vote sc agent s2 sc' a r)
  have k: "keyed (w_store w)" and C: "casesOk E (w_store w)" using assms(2) by (simp_all add: chainOk_def)
  have c: "GetSanctionCase (w_store w) (sv_CaseId vote) = Some sc" using ok(3) by (simp add: voteAccepted_def)
  have id: "sc_CaseId sc = sv_CaseId vote" by (rule keyed_case_id [OF k c])
  from C c have v: "ValidateCaseSnapshot E sc = Inr ()" unfolding casesOk_def get_abs by blast
  have V: "sc_VotingSnapshotVersion sc = 1" "0 < powerOf (activeVoters (sc_Voters sc))"
    using snapshot_power [OF v] by simp_all
  have st: "sc\<lparr>sc_Status := sc_Status sc\<rparr> = sc" by simp
  from ok(4) have "approved = quorumOf VOTE_OPTION_APPROVE (SetSanctionVote vote (w_store w)) sc
    \<and> rejected = (\<not> approved \<and> quorumOf VOTE_OPTION_REJECT (SetSanctionVote vote (w_store w)) sc)
    \<and> sc' = sc\<lparr>sc_Status := if approved then CASE_STATUS_APPROVED else if rejected then CASE_STATUS_REJECTED
         else sc_Status sc\<rparr>
    \<and> s2 = (if approved \<and> sc_RequestedAction sc = SANCTION_ACTION_BLOCK_TX
           then SetActiveTxSanction (activeSanctionOf c sc) (SetSanctionVote vote (w_store w))
           else SetSanctionVote vote (w_store w))"
    using ok(1) V by (auto simp: recomputeCaseStatus_def Let_def tallySnapshotVotes_eq quorumOf_def split: if_splits)
  with ok id show ?thesis
    by (intro exI [of _ vote] exI [of _ sc] exI [of _ agent])
       (simp add: get_abs abs_SetSanctionCase abs_SetSanctionVote abs_SetActiveTxSanction activeSanctionOf_def)
qed simp_all

text \<open>The sample case before its vote.\<close>

definition pendingStore :: store where
  "pendingStore = SetSanctionCase (sampleCase CASE_STATUS_PENDING 0) (SetRiskReport sampleReport
     (SetOriginalTransfer sampleTransfer (SetAgent sampleAgent kv_empty)))"

definition voteMsg :: MsgSubmitSanctionVote where
  "voteMsg = \<lparr>vm_Submitter = ''a'', vm_Vote = Some sampleVote\<rparr>"

lemma chainOk_pending: "chainOk sampleEnv pendingStore"
proof -
  have a: "abs pendingStore = (abs kv_empty)\<lparr>st_agents := [''a1'' \<mapsto> sampleAgent],
     st_signers := [''a'' \<mapsto> ''a1''], st_reports := [''r1'' \<mapsto> sampleReport],
     st_cases := [''c1'' \<mapsto> sampleCase CASE_STATUS_PENDING 0],
     st_caseByTx := [caseTxRaw sampleHash ''c1'' \<mapsto> ''c1''],
     st_transfers := [transferRaw sampleHash 0 ''atom'' \<mapsto> sampleTransfer]\<rparr>"
    by (simp add: pendingStore_def abs_SetSanctionCase abs_SetRiskReport abs_SetOriginalTransfer
        abs_SetAgent abs_empty sample_defs)
  then have "casesOk sampleEnv pendingStore" by (simp add: casesOk_def abs_empty sample_snapshot)
  moreover have "keyed pendingStore" "execsOk pendingStore" "settlesOk pendingStore" "bansOk pendingStore"
    "reviewsOk pendingStore" "votesOk sampleEnv pendingStore" "approvedOk pendingStore" "unanimousOk pendingStore"
    by (simp_all add: a keyed_def execsOk_def settlesOk_def bansOk_def reviewsOk_def votesOk_def approvedOk_def
        unanimousOk_def abs_empty sample_defs)
  ultimately show ?thesis by (simp add: chainOk_def)
qed

lemma vote_runs: "fst (SubmitSanctionVote sampleEnv sampleKeeper sampleCtx voteMsg (worldOf pendingStore)) = Inr (True, False)"
  by code_simp

lemma vote_accepted_counts_witness:
  "\<exists>sc. quorumOf VOTE_OPTION_APPROVE (SetSanctionVote sampleVote pendingStore) sc"
proof -
  obtain w' where w: "SubmitSanctionVote sampleEnv sampleKeeper sampleCtx voteMsg (worldOf pendingStore)
      = (Inr (True, False), w')" using vote_runs by (metis prod.collapse)
  have k: "chainOk sampleEnv (w_store (worldOf pendingStore))" using chainOk_pending by simp
  from vote_accepted_counts [OF w k] obtain vote sc where "vm_Vote voteMsg = Some vote"
    "quorumOf VOTE_OPTION_APPROVE (SetSanctionVote vote pendingStore) sc" unfolding worldOf_simps by blast
  then show ?thesis by (auto simp: voteMsg_def)
qed

section \<open>The end-of-block sync\<close>

text \<open>The validator the sync uses for an operator: the last one listed.\<close>

definition listedFor :: "ValidatorAgentState list \<Rightarrow> string \<Rightarrow> ValidatorAgentState option" where
  "listedFor states op = (case filter (\<lambda>st. va_ValidatorOperatorAddress st = op) states of
     [] \<Rightarrow> None | sts \<Rightarrow> Some (last sts))"

lemma byOperatorLoop_listed:
  "op \<noteq> [] \<Longrightarrow> byOperatorLoop states m op = (case listedFor states op of None \<Rightarrow> m op | Some st \<Rightarrow> Some st)"
  by (induction states arbitrary: m) (auto simp: listedFor_def split: list.splits)

definition syncedWith :: "ValidatorAgentState option \<Rightarrow> AgentInfo \<Rightarrow> AgentInfo \<Rightarrow> bool" where
  "syncedWith found a b \<longleftrightarrow> ag_AgentId b = ag_AgentId a \<and> ag_SignerAddress b = ag_SignerAddress a
     \<and> ag_ValidatorOperatorAddress b = ag_ValidatorOperatorAddress a
     \<and> (case found of
          Some st \<Rightarrow> (if va_Active st \<and> va_VotingPower st \<noteq> 0 \<and> ag_PublicKey b \<noteq> []
            then ag_Active b \<and> ag_VotingPower b = va_VotingPower st else \<not> ag_Active b \<and> ag_VotingPower b = 0)
            \<and> (ag_PublicKey b = ag_PublicKey a
               \<or> ag_PublicKey a = [] \<and> ag_SignerAddress a = va_SignerAddress st \<and> ag_PublicKey b = va_PublicKey st)
        | None \<Rightarrow> \<not> ag_Active b \<and> ag_VotingPower b = 0 \<and> ag_PublicKey b = ag_PublicKey a)"

lemma syncedAgent_with:
  assumes "ag_ValidatorOperatorAddress a \<noteq> []"
  shows "syncedWith (m (ag_ValidatorOperatorAddress a)) a (syncedAgent m a)"
  using assms
  by (cases "m (ag_ValidatorOperatorAddress a)")
     (auto simp: syncedWith_def syncedAgent_def filledKey_def ineligible_def Let_def)

text \<open>
  C39. The sync aligns the registry with the validator set. After it, every agent keeps its id,
  signer and operator; one without an operator is untouched; one with an operator is active
  exactly when its operator's validator is listed as active with power and the agent has a key,
  then with that validator's power, otherwise inactive with none. A new agent stands only for an
  eligible listed validator whose operator had none, and each such validator gets one.
\<close>

theorem sync_aligns_registry:
  assumes "SyncAgentRegistryWithValidatorSet states s = (s', ev, u, d)" "keyed s"
  shows "(\<forall>i a. GetAgent s i = Some a \<longrightarrow> (\<exists>b. GetAgent s' i = Some b
        \<and> (if ag_ValidatorOperatorAddress a = [] then b = a
           else syncedWith (listedFor states (ag_ValidatorOperatorAddress a)) a b)))
    \<and> (\<forall>i b. GetAgent s i = None \<longrightarrow> GetAgent s' i = Some b \<longrightarrow>
        (\<exists>st \<in> set states. eligibleState st \<and> va_ValidatorOperatorAddress st \<notin> operatorsOf s
           \<and> i = validatorAgentID st \<and> b = newValidatorAgent st))
    \<and> (\<forall>st \<in> set states. eligibleState st \<longrightarrow> va_ValidatorOperatorAddress st \<notin> operatorsOf s
        \<longrightarrow> GetAgent s (validatorAgentID st) = None \<longrightarrow> GetAgent s' (validatorAgentID st) \<noteq> None)"
proof -
  note S = SyncAgentRegistry_agents [OF assms]
  have "\<exists>b. GetAgent s' i = Some b \<and> (if ag_ValidatorOperatorAddress a = [] then b = a
           else syncedWith (listedFor states (ag_ValidatorOperatorAddress a)) a b)"
    if "GetAgent s i = Some a" for i a
  proof (cases "ag_ValidatorOperatorAddress a = []")
    case True
    with S(1) that show ?thesis by (simp add: get_abs syncedAgent_same)
  next
    case False
    with byOperatorLoop_listed [OF this, of states Map.empty] have
      "byOperatorLoop states Map.empty (ag_ValidatorOperatorAddress a)
        = listedFor states (ag_ValidatorOperatorAddress a)" by (simp split: option.splits)
    with syncedAgent_with [OF False, of "byOperatorLoop states Map.empty"] False S(1) that
    show ?thesis by (simp add: get_abs)
  qed
  with S(2,3) show ?thesis unfolding get_abs by blast
qed

lemma sync_aligns_registry_witness:
  "\<exists>b. GetAgent (fst (SyncAgentRegistryWithValidatorSet [] approvedStore)) ''a1'' = Some b
     \<and> syncedWith None sampleAgent b"
proof -
  obtain s' ev u d where y: "SyncAgentRegistryWithValidatorSet [] approvedStore = (s', ev, u, d)"
    by (metis prod_cases4)
  have k: "keyed approvedStore" by (simp add: keyed_def abs_approvedStore sample_defs)
  have a: "GetAgent approvedStore ''a1'' = Some sampleAgent" by (simp add: get_abs abs_approvedStore)
  from sync_aligns_registry [OF y k, THEN conjunct1, rule_format, OF a]
  show ?thesis by (simp add: y) (simp add: sampleAgent_def listedFor_def)
qed

section \<open>Export and import\<close>

text \<open>
  C40. An exported state imports back. For a store whose records sit under their own keys and
  whose indexes match its records, exporting the genesis state and initialising an empty store
  from it never panics and gives back every table: agents and their signers, leases, reports,
  cases and their index by transaction, votes, bans, freezes, executions, receipts, settlements
  and reviews, with the parameters and the authority in force written out.
\<close>

theorem genesis_roundtrip:
  assumes "keyed s" "indexed s"
  shows "\<exists>s'. InitGenesis (Some (ExportGenesis K s)) kv_empty = Some s' \<and> abs s' = (abs s)
    \<lparr>st_params := Some (GetParams s),
     st_authority := (if GetAuthority K s \<noteq> [] then Some (GetAuthority K s) else None)\<rparr>"
  by (rule InitGenesis_Export [OF assms])

lemma genesis_roundtrip_witness:
  "\<exists>s'. InitGenesis (Some (ExportGenesis sampleKeeper approvedStore)) kv_empty = Some s'
     \<and> GetSanctionVote s' ''c1'' ''a1'' = Some sampleVote"
proof -
  have k: "keyed approvedStore" "indexed approvedStore"
    by (simp_all add: keyed_def indexed_def abs_approvedStore sample_defs)
  from genesis_roundtrip [OF k, of sampleKeeper] show ?thesis
    by (auto simp: get_abs abs_approvedStore)
qed

end
