(* ===== verification/Rows.thy ===== *)
theory Rows
  imports Types KVStore
begin

text \<open>
  The data the signing agent keeps (dev/agent): intents and their signed attempts
  (internal/txmanager/manager.go), the daemon's work items (cmd/sanction-agent/daemon.go), the
  decoded transfers (internal/watcher) and the RPC checkpoint (internal/chainclient/pool.go),
  with the JSON rows they are stored as.
\<close>

text \<open>
  The agent's errors: the three sentinels the code tests with \<open>errors.Is\<close>, a nil-pointer panic,
  an error of the outside (RPC, clock, file system), and any other \<open>fmt.Errorf\<close>.
\<close>

datatype aerror = ErrObsolete | ErrReevaluationRequired | ErrLost | APanic | AExternal string | AErr string

record DecodedTransfer =
  dt_MessageIndex :: u32
  dt_TxHash :: string
  dt_Sender :: string
  dt_Recipient :: string
  dt_Amount :: string
  dt_Denom :: string

record Checkpoint =
  cp_GenesisHash :: string
  cp_Height :: u64
  cp_BlockHash :: string

record Attempt =
  at_Tx :: bytes
  at_Hash :: string
  at_Sequence :: u64
  at_Height :: u64
  at_Code :: u32
  at_Codespace :: string
  at_CheckCode :: u32
  at_CheckCodespace :: string
  at_Resolved :: bool
  at_Broadcasts :: u64
  at_NextBroadcastAt :: int

record Recovery =
  rc_RequestID :: string
  rc_Height :: u64
  rc_Reason :: string
  rc_PreviousError :: string
  rc_PreviousMessages :: "bytes list"

record Intent =
  it_ID :: string
  it_Kind :: string
  it_CaseID :: string
  it_Messages :: "bytes list"
  it_Status :: string
  it_Attempts :: "Attempt list"
  it_LastError :: string
  it_CompletedHeight :: u64
  it_Recoveries :: "Recovery list"

text \<open>\<open>daemonWork\<close>; the stored review (\<open>*output\<close>) is a type parameter here.\<close>

record 'r daemonWork =
  wk_PreviousCaseID :: string
  wk_CaseID :: string
  wk_Hash :: string
  wk_Transfers :: "DecodedTransfer list"
  wk_SeenHeight :: u64
  wk_ApprovedHeight :: u64
  wk_Review :: "'r option"
  wk_Done :: bool
  wk_Result :: string

section \<open>JSON rows\<close>

text \<open>
  A stored value is the JSON encoding of one of the agent's types, or bytes that are not JSON of
  any of them. \<open>json.Unmarshal\<close> into a struct ignores keys the struct does not have and leaves
  fields without a key at their zero value; of the types stored, only intents and work items
  have a key in common, \<open>case_id\<close>. A JSON string or number does not unmarshal into a struct.
\<close>

datatype 'r row =
    IntentRow Intent
  | WorkRow "'r daemonWork"
  | CheckpointRow Checkpoint
  | StringRow string
  | NumberRow u64
  | RawRow bytes

definition zeroIntent :: Intent where
  "zeroIntent = \<lparr>it_ID = [], it_Kind = [], it_CaseID = [], it_Messages = [], it_Status = [], it_Attempts = [],
     it_LastError = [], it_CompletedHeight = 0, it_Recoveries = []\<rparr>"

definition zeroWork :: "'r daemonWork" where
  "zeroWork = \<lparr>wk_PreviousCaseID = [], wk_CaseID = [], wk_Hash = [], wk_Transfers = [], wk_SeenHeight = 0,
     wk_ApprovedHeight = 0, wk_Review = None, wk_Done = False, wk_Result = []\<rparr>"

fun unmarshalIntent :: "'r row \<Rightarrow> aerror + Intent" where
  "unmarshalIntent (IntentRow i) = Inr i"
| "unmarshalIntent (WorkRow w) = Inr (zeroIntent\<lparr>it_CaseID := wk_CaseID w\<rparr>)"
| "unmarshalIntent (CheckpointRow c) = Inr zeroIntent"
| "unmarshalIntent _ = Inl (AErr ''json: cannot unmarshal into Intent'')"

fun unmarshalWork :: "'r row \<Rightarrow> aerror + 'r daemonWork" where
  "unmarshalWork (WorkRow w) = Inr w"
| "unmarshalWork (IntentRow i) = Inr (zeroWork\<lparr>wk_CaseID := it_CaseID i\<rparr>)"
| "unmarshalWork (CheckpointRow c) = Inr zeroWork"
| "unmarshalWork _ = Inl (AErr ''json: cannot unmarshal into daemonWork'')"

fun unmarshalString :: "'r row \<Rightarrow> aerror + string" where
  "unmarshalString (StringRow s) = Inr s"
| "unmarshalString _ = Inl (AErr ''json: cannot unmarshal into string'')"

fun unmarshalUint64 :: "'r row \<Rightarrow> aerror + u64" where
  "unmarshalUint64 (NumberRow n) = Inr n"
| "unmarshalUint64 _ = Inl (AErr ''json: cannot unmarshal into uint64'')"

fun jsonValid :: "'r row \<Rightarrow> bool" where
  "jsonValid (RawRow b) = False"
| "jsonValid _ = True"

definition Terminal :: "Intent \<Rightarrow> bool" where
  "Terminal i = (it_Status i = ''confirmed'' \<or> it_Status i = ''satisfied'' \<or> it_Status i = ''failed''
     \<or> it_Status i = ''cancelled'')"

end
