(* ===== verification/Journal.thy ===== *)
theory Journal
  imports Rows
begin

text \<open>
  The agent's durable journal: dev/agent/internal/txmanager/store.go, index.go and the genesis
  binding of backup.go. A bbolt database is a finite map from bucket names to buckets, a bucket
  an ordered store of byte keys whose \<open>ForEach\<close> visits keys in ascending order (the contract
  \<open>ordered_store\<close>); \<open>db.Update\<close> commits all writes of its function or, on an error, none.
  The active index of a bucket is a second bucket with one entry for each unfinished row.
\<close>

type_synonym 'r bucket = "(bytes, 'r row) kvstore"
type_synonym 'r db = "string \<rightharpoonup> 'r bucket"

definition journalIndexVersion :: bytes where "journalIndexVersion = ''1''"
definition indexVersionKey :: bytes where "indexVersionKey = ''active_index_version''"
definition mark :: "'r row" where "mark = RawRow [byte 1]"

definition activeIndex :: "string \<Rightarrow> string" where
  "activeIndex bucket = (if bucket = ''intents'' then ''active_intents''
     else if bucket = ''work'' then ''active_work'' else [])"

text \<open>The two headers: what \<open>json.Unmarshal\<close> leaves in them.\<close>

fun intentHeader :: "'r row \<Rightarrow> string option" where
  "intentHeader (IntentRow i) = Some (it_Status i)"
| "intentHeader (WorkRow w) = Some []"
| "intentHeader (CheckpointRow c) = Some []"
| "intentHeader _ = None"

fun workHeader :: "'r row \<Rightarrow> (bool \<times> string) option" where
  "workHeader (WorkRow w) = Some (wk_Done w, wk_Result w)"
| "workHeader (IntentRow i) = Some (False, [])"
| "workHeader (CheckpointRow c) = Some (False, [])"
| "workHeader _ = None"

definition activeRow :: "string \<Rightarrow> 'r row \<Rightarrow> aerror + bool" where
  "activeRow bucket row =
     (if bucket = ''intents'' then
        (case intentHeader row of
           None \<Rightarrow> Inl (AErr ''invalid intent header'')
         | Some status \<Rightarrow>
             if status = ''queued'' \<or> status = ''pending'' \<or> status = ''failed'' then Inr True
             else if status = ''confirmed'' \<or> status = ''satisfied'' \<or> status = ''cancelled'' then Inr False
             else Inl (AErr ''unknown intent status''))
      else if bucket = ''work'' then
        (case workHeader row of
           None \<Rightarrow> Inl (AErr ''invalid work header'')
         | Some (done', result) \<Rightarrow> Inr (\<not> done' \<or> result = ''CASE_STATUS_EXPIRED''))
      else Inl (AErr ''bucket has no active index''))"

section \<open>Reading and writing (store.go)\<close>

text \<open>\<open>tx.Bucket(name).Get(key)\<close> on a bucket that does not exist is a nil-pointer panic.\<close>

definition Store_Get :: "'r db \<Rightarrow> string \<Rightarrow> string \<Rightarrow> ('r row \<Rightarrow> aerror + 'a) \<Rightarrow> aerror + 'a option" where
  "Store_Get d bucket key unmarshal = (case d bucket of
     None \<Rightarrow> Inl APanic
   | Some b \<Rightarrow> (case kv_get b key of
       None \<Rightarrow> Inr None
     | Some row \<Rightarrow> bind_r (unmarshal row) (\<lambda>v. Inr (Some v))))"

text \<open>bbolt refuses an empty key.\<close>

definition bucketPut :: "bytes \<Rightarrow> 'r row \<Rightarrow> 'r bucket \<Rightarrow> aerror + 'r bucket" where
  "bucketPut key row b = (if key = [] then Inl (AExternal ''key required'') else Inr (kv_set key row b))"

definition Store_Put :: "'r db \<Rightarrow> string \<Rightarrow> string \<Rightarrow> 'r row \<Rightarrow> aerror + 'r db" where
  "Store_Put d bucket key row =
     bind_r (if activeIndex bucket \<noteq> [] then activeRow bucket row else Inr False) (\<lambda>active.
       case d bucket of None \<Rightarrow> Inl (AErr ''unknown journal bucket'') | Some primary \<Rightarrow>
       bind_r (bucketPut key row primary) (\<lambda>primary'.
       let d1 = d(bucket \<mapsto> primary') in
       if activeIndex bucket = [] then Inr d1
       else case d1 (activeIndex bucket) of
         None \<Rightarrow> Inl (AErr ''journal index is missing'')
       | Some secondary \<Rightarrow>
           if active then bind_r (bucketPut key mark secondary) (\<lambda>secondary'.
             Inr (d1(activeIndex bucket \<mapsto> secondary')))
           else Inr (d1(activeIndex bucket \<mapsto> kv_delete key secondary))))"

definition Store_List :: "'r db \<Rightarrow> string \<Rightarrow> aerror + 'r row list" where
  "Store_List d bucket = (case d bucket of None \<Rightarrow> Inl APanic | Some b \<Rightarrow> Inr (map snd (kv_entries b)))"

text \<open>\<open>Snapshot\<close>: both primary buckets, the second only when the first exists.\<close>

definition Snapshot :: "'r db \<Rightarrow> aerror + 'r row list \<times> 'r row list" where
  "Snapshot d = (case d ''work'' of
     None \<Rightarrow> Inl (AErr ''invalid journal'')
   | Some w \<Rightarrow> (case d ''intents'' of
       None \<Rightarrow> Inl (AErr ''invalid journal'')
     | Some i \<Rightarrow> Inr (map snd (kv_entries w), map snd (kv_entries i))))"

section \<open>The active index (index.go)\<close>

fun listActiveLoop :: "string \<Rightarrow> 'r bucket \<Rightarrow> (bytes \<times> 'r row) list \<Rightarrow> 'r row list \<Rightarrow> aerror + 'r row list" where
  "listActiveLoop bucket primary [] rows = Inr rows"
| "listActiveLoop bucket primary ((key, _) # es) rows = (case kv_get primary key of
     None \<Rightarrow> Inl (AErr ''journal index references missing row'')
   | Some row \<Rightarrow> bind_r (activeRow bucket row) (\<lambda>active.
       if \<not> active then Inl (AErr ''journal index references completed row'')
       else listActiveLoop bucket primary es (rows @ [row])))"

definition ListActive :: "'r db \<Rightarrow> string \<Rightarrow> aerror + 'r row list" where
  "ListActive d bucket =
     (if activeIndex bucket = [] then Inl (AErr ''bucket has no active index'')
      else case (d bucket, d (activeIndex bucket)) of
        (Some primary, Some index) \<Rightarrow> listActiveLoop bucket primary (kv_entries index) []
      | _ \<Rightarrow> Inl (AErr ''journal bucket or index is missing''))"

fun rebuildIndex :: "string \<Rightarrow> (bytes \<times> 'r row) list \<Rightarrow> 'r bucket \<Rightarrow> aerror + 'r bucket" where
  "rebuildIndex bucket [] index = Inr index"
| "rebuildIndex bucket ((key, row) # es) index = bind_r (activeRow bucket row) (\<lambda>active.
     if active then bind_r (bucketPut key mark index) (rebuildIndex bucket es)
     else rebuildIndex bucket es index)"

fun migrateBuckets :: "string list \<Rightarrow> 'r db \<Rightarrow> aerror + 'r db" where
  "migrateBuckets [] d = Inr d"
| "migrateBuckets (bucket # bs) d = (case d bucket of
     None \<Rightarrow> Inl APanic
   | Some primary \<Rightarrow> bind_r (rebuildIndex bucket (kv_entries primary) kv_empty) (\<lambda>index.
       migrateBuckets bs (d(activeIndex bucket \<mapsto> index))))"

definition migrateIndexes :: "'r db \<Rightarrow> aerror + 'r db" where
  "migrateIndexes d = (case d ''meta'' of None \<Rightarrow> Inl APanic | Some meta \<Rightarrow>
     let version = kv_get meta indexVersionKey in
     if version \<noteq> None \<and> version \<noteq> Some (RawRow journalIndexVersion)
     then Inl (AErr ''unsupported journal index version'')
     else if version \<noteq> None \<and> d (activeIndex ''intents'') \<noteq> None \<and> d (activeIndex ''work'') \<noteq> None
     then Inr d
     else bind_r (migrateBuckets [''intents'', ''work''] d) (\<lambda>d'. case d' ''meta'' of
       None \<Rightarrow> Inl APanic
     | Some meta' \<Rightarrow> Inr (d'(''meta'' \<mapsto> kv_set indexVersionKey (RawRow journalIndexVersion) meta'))))"

fun validateRows :: "string \<Rightarrow> 'r bucket \<Rightarrow> (bytes \<times> 'r row) list \<Rightarrow> nat \<Rightarrow> aerror + nat" where
  "validateRows bucket index [] expected = Inr expected"
| "validateRows bucket index ((key, row) # es) expected = bind_r (activeRow bucket row) (\<lambda>active.
     let expected' = (if active then expected + 1 else expected) in
     if (kv_get index key \<noteq> None) \<noteq> active then Inl (AErr ''journal index membership mismatch'')
     else validateRows bucket index es expected')"

fun validateBuckets :: "string list \<Rightarrow> 'r db \<Rightarrow> aerror + unit" where
  "validateBuckets [] d = Inr ()"
| "validateBuckets (bucket # bs) d = (case d (activeIndex bucket) of
     None \<Rightarrow> Inl (AErr ''journal index is missing'')
   | Some index \<Rightarrow> (case d bucket of None \<Rightarrow> Inl APanic | Some primary \<Rightarrow>
       bind_r (validateRows bucket index (kv_entries primary) 0) (\<lambda>expected.
         if length (kv_entries index) \<noteq> expected then Inl (AErr ''journal index contains extra entries'')
         else validateBuckets bs d)))"

definition validateIndexes :: "'r db \<Rightarrow> aerror + unit" where
  "validateIndexes d = (case d ''meta'' of None \<Rightarrow> Inl APanic | Some meta \<Rightarrow>
     (case kv_get meta indexVersionKey of
        None \<Rightarrow> Inr ()
      | Some version \<Rightarrow>
          if version \<noteq> RawRow journalIndexVersion then Inl (AErr ''unsupported journal index version'')
          else validateBuckets [''intents'', ''work''] d))"

section \<open>Opening and binding\<close>

definition ensureBucket :: "string \<Rightarrow> 'r db \<Rightarrow> 'r db" where
  "ensureBucket name d = (case d name of None \<Rightarrow> d(name \<mapsto> kv_empty) | Some _ \<Rightarrow> d)"

text \<open>The transaction of \<open>Open\<close>; opening the file and its permissions are outside.\<close>

definition Store_Open :: "'r db \<Rightarrow> string \<Rightarrow> aerror + 'r db" where
  "Store_Open d identity = (let
     d = fold ensureBucket [''meta'', ''work'', ''intents''] d;
     meta = (case d ''meta'' of Some b \<Rightarrow> b | None \<Rightarrow> kv_empty);
     existing = kv_get meta ''identity''
   in if existing \<noteq> None \<and> existing \<noteq> Some (RawRow identity)
      then Inl (AErr ''journal chain/agent/signer identity mismatch'')
      else migrateIndexes (d(''meta'' \<mapsto> kv_set ''identity'' (RawRow identity) meta)))"

definition validDigest :: "string \<Rightarrow> bool" where
  "validDigest value = (case hexDecode value of None \<Rightarrow> False | Some b \<Rightarrow> length b = 32)"

definition keyN :: "'r db \<Rightarrow> string \<Rightarrow> aerror + nat" where
  "keyN d name = (case d name of None \<Rightarrow> Inl APanic | Some b \<Rightarrow> Inr (length (kv_entries b)))"

definition BindGenesis :: "'r db \<Rightarrow> string \<Rightarrow> bool \<Rightarrow> aerror + 'r db" where
  "BindGenesis d hash allowLegacy =
     (if \<not> validDigest hash then Inl (AErr ''invalid genesis hash'')
      else case d ''meta'' of None \<Rightarrow> Inl APanic | Some b \<Rightarrow>
      (case kv_get b ''genesis_hash'' of
         Some bz \<Rightarrow> bind_r (unmarshalString bz) (\<lambda>existing.
           if existing \<noteq> hash then Inl (AErr ''journal genesis mismatch'') else Inr d)
       | None \<Rightarrow>
           bind_r (if allowLegacy then Inr False
                   else if kv_get b ''cursor'' \<noteq> None then Inr True
                   else bind_r (keyN d ''work'') (\<lambda>n. if n \<noteq> 0 then Inr True
                        else bind_r (keyN d ''intents'') (\<lambda>m. Inr (m \<noteq> 0)))) (\<lambda>legacy.
           if legacy then Inl (AErr ''legacy journal requires explicit trusted genesis binding'')
           else Inr (d(''meta'' \<mapsto> kv_set ''genesis_hash'' (StringRow hash) b)))))"

end
