(* ===== verification/JournalSpec.thy ===== *)
theory JournalSpec
  imports Journal
begin

text \<open>
  What the journal promises: the active index always names exactly the unfinished rows, so the
  active list is the filtered history in key order; opening builds the index of an old journal,
  offline validation accepts exactly the journals whose index is right. The contract its clients
  use is the locale \<open>row_journal\<close>, interpreted for the intents and for the work items.
\<close>

section \<open>The index invariant\<close>

definition indexedBy :: "string \<Rightarrow> 'r bucket \<Rightarrow> 'r bucket \<Rightarrow> bool" where
  "indexedBy bucket primary index \<longleftrightarrow>
     (\<forall>k row. kv_get primary k = Some row \<longrightarrow> is_ok (activeRow bucket row))
   \<and> (\<forall>k. kv_get index k \<noteq> None \<longleftrightarrow> (\<exists>row. kv_get primary k = Some row \<and> activeRow bucket row = Inr True))"

definition bucketOk :: "'r db \<Rightarrow> string \<Rightarrow> bool" where
  "bucketOk d bucket \<longleftrightarrow> (\<exists>primary index. d bucket = Some primary \<and> d (activeIndex bucket) = Some index
     \<and> indexedBy bucket primary index)"

definition versionOk :: "'r db \<Rightarrow> bool" where
  "versionOk d \<longleftrightarrow> (\<exists>meta. d ''meta'' = Some meta \<and> kv_get meta indexVersionKey = Some (RawRow journalIndexVersion))"

definition indexOk :: "'r db \<Rightarrow> bool" where
  "indexOk d \<longleftrightarrow> versionOk d \<and> bucketOk d ''intents'' \<and> bucketOk d ''work''"

definition liveRow :: "string \<Rightarrow> 'r row \<Rightarrow> bool" where
  "liveRow bucket row \<longleftrightarrow> activeRow bucket row = Inr True"

definition rowAt :: "'r db \<Rightarrow> string \<Rightarrow> bytes \<Rightarrow> 'r row option" where
  "rowAt d bucket key = (case d bucket of None \<Rightarrow> None | Some b \<Rightarrow> kv_get b key)"

definition primaryName :: "string \<Rightarrow> bool" where
  "primaryName bucket \<longleftrightarrow> bucket = ''intents'' \<or> bucket = ''work''"

lemma activeIndex_simps [simp]:
  "activeIndex ''intents'' = ''active_intents''" "activeIndex ''work'' = ''active_work''" "activeIndex ''meta'' = []"
  by (simp_all add: activeIndex_def)

lemma activeIndex_primary: "activeIndex bucket \<noteq> [] \<longleftrightarrow> primaryName bucket"
  by (simp add: activeIndex_def primaryName_def)

section \<open>Listing\<close>

lemma listActiveLoop_ok:
  assumes "\<forall>e \<in> set es. \<exists>row. kv_get primary (fst e) = Some row \<and> activeRow bucket row = Inr True"
  shows "listActiveLoop bucket primary es rows = Inr (rows @ map (\<lambda>e. the (kv_get primary (fst e))) es)"
  using assms by (induction bucket primary es rows rule: listActiveLoop.induct) auto

text \<open>The keys of the index, looked up, are the active entries of the primary bucket, in order.\<close>

lemma indexedBy_entries:
  assumes "indexedBy bucket primary index"
  shows "map (\<lambda>e. the (kv_get primary (fst e))) (kv_entries index)
    = map snd (filter (\<lambda>e. liveRow bucket (snd e)) (kv_entries primary))"
proof -
  let ?f = "filter (\<lambda>e. liveRow bucket (snd e)) (kv_entries primary)"
  have keys: "set (map fst (kv_entries index)) = set (map fst ?f)"
  proof (intro set_eqI iffI)
    fix k assume "k \<in> set (map fst (kv_entries index))"
    then have "kv_get index k \<noteq> None" by (auto simp: kv.ents_get)
    then obtain row where "kv_get primary k = Some row" "activeRow bucket row = Inr True"
      using assms unfolding indexedBy_def by blast
    then show "k \<in> set (map fst ?f)" by (force simp: kv.ents_get [symmetric] liveRow_def)
  next
    fix k assume "k \<in> set (map fst ?f)"
    then obtain row where "kv_get primary k = Some row" "activeRow bucket row = Inr True"
      by (auto simp: kv.ents_get liveRow_def)
    then have "kv_get index k \<noteq> None" using assms unfolding indexedBy_def by blast
    then obtain m where "kv_get index k = Some m" by auto
    then show "k \<in> set (map fst (kv_entries index))" by (force simp: kv.ents_get [symmetric])
  qed
  have asc: "sorted_wrt (<) (map fst ?f)"
    using kv.ents_asc [of primary] by (simp add: sorted_wrt_map sorted_wrt_filter)
  have eq: "map fst (kv_entries index) = map fst ?f"
    using kv.ents_asc [of index] asc keys by (metis strict_sorted_equal)
  have get: "the (kv_get primary (fst e)) = snd e" if "e \<in> set ?f" for e
  proof -
    have "(fst e, snd e) \<in> set (kv_entries primary)" using that by simp
    then show ?thesis unfolding kv.ents_get by simp
  qed
  have "map (\<lambda>e. the (kv_get primary (fst e))) (kv_entries index)
      = map (\<lambda>k. the (kv_get primary k)) (map fst (kv_entries index))" by simp
  also have "\<dots> = map (\<lambda>e. the (kv_get primary (fst e))) ?f" by (simp only: eq) simp
  also have "\<dots> = map snd ?f" using get by simp
  finally show ?thesis .
qed

lemma ListActive_rows:
  assumes "bucketOk d bucket" "primaryName bucket"
  obtains primary where "d bucket = Some primary"
    "ListActive d bucket = Inr (map snd (filter (\<lambda>e. liveRow bucket (snd e)) (kv_entries primary)))"
proof -
  from assms(1) obtain primary index where d: "d bucket = Some primary" "d (activeIndex bucket) = Some index"
    and x: "indexedBy bucket primary index" unfolding bucketOk_def by blast
  have "\<forall>e \<in> set (kv_entries index). \<exists>row. kv_get primary (fst e) = Some row \<and> activeRow bucket row = Inr True"
  proof
    fix e assume "e \<in> set (kv_entries index)"
    then have "(fst e, snd e) \<in> set (kv_entries index)" by simp
    then have "kv_get index (fst e) \<noteq> None" unfolding kv.ents_get by simp
    with x show "\<exists>row. kv_get primary (fst e) = Some row \<and> activeRow bucket row = Inr True"
      unfolding indexedBy_def by blast
  qed
  from listActiveLoop_ok [OF this, of "[]"] indexedBy_entries [OF x]
  have "ListActive d bucket = Inr (map snd (filter (\<lambda>e. liveRow bucket (snd e)) (kv_entries primary)))"
    using assms(2) d activeIndex_primary [of bucket] by (simp add: ListActive_def)
  with d(1) show thesis by (rule that)
qed

lemma ListActive_set:
  assumes "bucketOk d bucket" "primaryName bucket"
  shows "\<exists>rows. ListActive d bucket = Inr rows
    \<and> set rows = {row. \<exists>k. rowAt d bucket k = Some row \<and> liveRow bucket row}"
proof -
  obtain primary where p: "d bucket = Some primary"
    "ListActive d bucket = Inr (map snd (filter (\<lambda>e. liveRow bucket (snd e)) (kv_entries primary)))"
    using assms by (rule ListActive_rows)
  have "set (map snd (filter (\<lambda>e. liveRow bucket (snd e)) (kv_entries primary)))
      = {row. \<exists>k. rowAt d bucket k = Some row \<and> liveRow bucket row}"
    by (force simp: rowAt_def p(1) kv.ents_get [symmetric])
  with p(2) show ?thesis by blast
qed

section \<open>Writing\<close>

lemma Store_Put_Inr:
  assumes "Store_Put d bucket key row = Inr d'" "primaryName bucket"
  obtains primary index active where "d bucket = Some primary" "d (activeIndex bucket) = Some index"
    "activeRow bucket row = Inr active" "key \<noteq> []"
    "d' = d(bucket \<mapsto> kv_set key row primary, activeIndex bucket \<mapsto>
       if active then kv_set key mark index else kv_delete key index)"
proof -
  have n: "activeIndex bucket \<noteq> []" "activeIndex bucket \<noteq> bucket"
    using assms(2) by (auto simp: primaryName_def)
  from assms(1) n obtain active primary where a: "activeRow bucket row = Inr active" "d bucket = Some primary"
    and r: "bind_r (bucketPut key row primary) (\<lambda>primary'.
       let d1 = d(bucket \<mapsto> primary') in
       if activeIndex bucket = [] then Inr d1
       else case d1 (activeIndex bucket) of
         None \<Rightarrow> Inl (AErr ''journal index is missing'')
       | Some secondary \<Rightarrow>
           if active then bind_r (bucketPut key mark secondary) (\<lambda>secondary'.
             Inr (d1(activeIndex bucket \<mapsto> secondary')))
           else Inr (d1(activeIndex bucket \<mapsto> kv_delete key secondary))) = Inr d'"
    unfolding Store_Put_def by (cases "activeRow bucket row"; cases "d bucket") simp_all
  from r have k: "key \<noteq> []" by (cases "key = []") (simp_all add: bucketPut_def)
  from r n k obtain index where i: "d (activeIndex bucket) = Some index"
    by (cases "d (activeIndex bucket)") (simp_all add: bucketPut_def Let_def)
  from r n k i have "d' = d(bucket \<mapsto> kv_set key row primary, activeIndex bucket \<mapsto>
       if active then kv_set key mark index else kv_delete key index)"
    by (cases active) (simp_all add: bucketPut_def Let_def)
  with a k i show thesis by (intro that)
qed

lemma Store_Put_meta:
  assumes "Store_Put d bucket key row = Inr d'" "\<not> primaryName bucket"
  obtains primary where "d bucket = Some primary" "key \<noteq> []" "d' = d(bucket \<mapsto> kv_set key row primary)"
  using assms activeIndex_primary [of bucket]
  by (auto simp: Store_Put_def bind_r_Inr_iff bucketPut_def Let_def split: if_splits option.splits intro!: that)

lemma indexedBy_put:
  assumes "indexedBy bucket primary index" "activeRow bucket row = Inr active"
  shows "indexedBy bucket (kv_set key row primary) (if active then kv_set key mark index else kv_delete key index)"
  using assms by (auto simp: indexedBy_def store_simps)

lemma bucketOk_cong:
  "d' bucket = d bucket \<Longrightarrow> d' (activeIndex bucket) = d (activeIndex bucket) \<Longrightarrow> bucketOk d' bucket = bucketOk d bucket"
  by (simp add: bucketOk_def)

lemma Store_Put_indexOk:
  assumes "Store_Put d bucket key row = Inr d'" "indexOk d" "primaryName bucket"
  shows "indexOk d'"
proof -
  obtain primary index active where p: "d bucket = Some primary" "d (activeIndex bucket) = Some index"
    "activeRow bucket row = Inr active"
    "d' = d(bucket \<mapsto> kv_set key row primary, activeIndex bucket \<mapsto>
       if active then kv_set key mark index else kv_delete key index)"
    using assms(1,3) by (rule Store_Put_Inr)
  have ix: "indexedBy bucket primary index"
    using assms(2,3) p(1,2) unfolding indexOk_def bucketOk_def primaryName_def by auto
  have b: "bucketOk d' bucket"
    using indexedBy_put [OF ix p(3)] assms(3) by (auto simp: bucketOk_def p(4) primaryName_def)
  have v: "versionOk d'" using assms(2,3) by (auto simp: indexOk_def versionOk_def p(4) primaryName_def)
  from assms(3) consider "bucket = ''intents''" | "bucket = ''work''" by (auto simp: primaryName_def)
  then show ?thesis
  proof cases
    case 1
    then have "bucketOk d' ''work'' = bucketOk d ''work''" by (intro bucketOk_cong) (simp_all add: p(4))
    with b v 1 assms(2) show ?thesis by (simp add: indexOk_def)
  next
    case 2
    then have "bucketOk d' ''intents'' = bucketOk d ''intents''" by (intro bucketOk_cong) (simp_all add: p(4))
    with b v 2 assms(2) show ?thesis by (simp add: indexOk_def)
  qed
qed

lemma Store_Put_rowAt:
  assumes "Store_Put d bucket key row = Inr d'" "primaryName bucket"
  shows "rowAt d' bucket k = (if k = key then Some row else rowAt d bucket k)"
    and "primaryName other \<Longrightarrow> other \<noteq> bucket \<Longrightarrow> rowAt d' other k = rowAt d other k"
    and "rowAt d' ''meta'' k = rowAt d ''meta'' k"
proof -
  obtain primary index active where p: "d bucket = Some primary"
    "d' = d(bucket \<mapsto> kv_set key row primary, activeIndex bucket \<mapsto>
       if active then kv_set key mark index else kv_delete key index)"
    using assms by (rule Store_Put_Inr)
  have n: "activeIndex bucket \<noteq> bucket" "''meta'' \<noteq> activeIndex bucket" "''meta'' \<noteq> bucket"
    using assms(2) by (auto simp: primaryName_def)
  show "rowAt d' bucket k = (if k = key then Some row else rowAt d bucket k)"
    using n by (simp add: rowAt_def p store_simps)
  show "rowAt d' ''meta'' k = rowAt d ''meta'' k" using n by (simp add: rowAt_def p(2))
  show "rowAt d' other k = rowAt d other k" if "primaryName other" "other \<noteq> bucket"
  proof -
    have "other \<noteq> activeIndex bucket" using assms(2) that(1) by (auto simp: primaryName_def)
    with that(2) show ?thesis by (simp add: rowAt_def p(2))
  qed
qed

lemma Store_Get_rowAt:
  "d bucket = Some b \<Longrightarrow> Store_Get d bucket key u = (case rowAt d bucket key of None \<Rightarrow> Inr None
     | Some row \<Rightarrow> bind_r (u row) (\<lambda>v. Inr (Some v)))"
  by (simp add: Store_Get_def rowAt_def)

text \<open>A write is refused only for an empty key or a row without a valid header.\<close>

lemma Store_Put_succeeds:
  assumes "indexOk d" "primaryName bucket" "is_ok (activeRow bucket row)" "key \<noteq> []"
  shows "\<exists>d'. Store_Put d bucket key row = Inr d'"
proof -
  obtain primary index where "d bucket = Some primary" "d (activeIndex bucket) = Some index"
    using assms(1,2) by (auto simp: indexOk_def bucketOk_def primaryName_def)
  moreover obtain active where "activeRow bucket row = Inr active" using assms(3) by (auto simp: is_ok_iff)
  moreover have "activeIndex bucket \<noteq> bucket" using assms(2) by (auto simp: primaryName_def)
  ultimately show ?thesis using assms(4) by (simp add: Store_Put_def bucketPut_def Let_def)
qed

section \<open>The contract of the clients\<close>

locale row_journal =
  fixes ok :: "'d \<Rightarrow> bool"
    and wr :: "bytes \<Rightarrow> 'v \<Rightarrow> 'd \<Rightarrow> 'd option"
    and rd :: "'d \<Rightarrow> bytes \<Rightarrow> 'v option"
    and act :: "'d \<Rightarrow> 'v list option"
    and live :: "'v \<Rightarrow> bool"
  assumes wr_ok: "ok d \<Longrightarrow> wr k v d = Some d' \<Longrightarrow> ok d'"
    and rd_wr: "ok d \<Longrightarrow> wr k v d = Some d' \<Longrightarrow> rd d' k' = (if k' = k then Some v else rd d k')"
    and act_rd: "ok d \<Longrightarrow> \<exists>vs. act d = Some vs \<and> set vs = {v. \<exists>k. rd d k = Some v \<and> live v}"
begin

lemma act_after_live:
  assumes "ok d" "wr k v d = Some d'" "live v"
  shows "\<exists>vs. act d' = Some vs \<and> v \<in> set vs"
  using act_rd [OF wr_ok [OF assms(1,2)]] rd_wr [OF assms(1,2)] assms(3) by fastforce

lemma act_after_finished:
  assumes "ok d" "wr k v d = Some d'" "\<not> live v" "act d' = Some vs" "u \<in> set vs"
  shows "\<exists>k'. k' \<noteq> k \<and> rd d k' = Some u"
proof -
  from act_rd [OF wr_ok [OF assms(1,2)]] assms(4,5) obtain k' where k': "rd d' k' = Some u" "live u" by auto
  with rd_wr [OF assms(1,2)] assms(3) show ?thesis by (auto split: if_splits)
qed

text \<open>A whole run of writes: what is read is the last value written.\<close>

fun writes :: "(bytes \<times> 'v) list \<Rightarrow> 'd \<Rightarrow> 'd option" where
  "writes [] d = Some d"
| "writes ((k, v) # ws) d = (case wr k v d of None \<Rightarrow> None | Some d' \<Rightarrow> writes ws d')"

lemma writes_ok:
  assumes "ok d" "writes ws d = Some d'"
  shows "ok d' \<and> (\<forall>k. rd d' k = (case map_of (rev ws) k of None \<Rightarrow> rd d k | Some v \<Rightarrow> Some v))"
  using assms
proof (induction ws arbitrary: d)
  case (Cons w ws)
  obtain k v where w: "w = (k, v)" by (cases w)
  from Cons.prems(2) w obtain d1 where d1: "wr k v d = Some d1" "writes ws d1 = Some d'"
    by (auto split: option.splits)
  from Cons.IH [OF wr_ok [OF Cons.prems(1) d1(1)] d1(2)] show ?case
    using rd_wr [OF Cons.prems(1) d1(1)] by (auto simp: w map_add_def split: option.splits)
qed simp

end

definition ok_opt :: "aerror + 'a \<Rightarrow> 'a option" where
  "ok_opt r = (case r of Inl e \<Rightarrow> None | Inr x \<Rightarrow> Some x)"

lemma ok_opt_Some [simp]: "ok_opt r = Some x \<longleftrightarrow> r = Inr x"
  by (auto simp: ok_opt_def split: sum.splits)

lemma row_journal_primary:
  assumes "primaryName bucket"
  shows "row_journal indexOk (\<lambda>k v d. ok_opt (Store_Put d bucket k v)) (\<lambda>d. rowAt d bucket)
    (\<lambda>d. ok_opt (ListActive d bucket)) (liveRow bucket)"
proof
  show "indexOk d \<Longrightarrow> ok_opt (Store_Put d bucket k v) = Some d' \<Longrightarrow> indexOk d'" for d k v d'
    using Store_Put_indexOk assms by fastforce
  show "indexOk d \<Longrightarrow> ok_opt (Store_Put d bucket k v) = Some d' \<Longrightarrow>
      rowAt d' bucket k' = (if k' = k then Some v else rowAt d bucket k')" for d k v d' k'
    using Store_Put_rowAt(1) [OF _ assms] by fastforce
  show "\<exists>vs. ok_opt (ListActive d bucket) = Some vs \<and>
      set vs = {v. \<exists>k. rowAt d bucket k = Some v \<and> liveRow bucket v}" if "indexOk d" for d
  proof -
    have "bucketOk d bucket" using that assms by (auto simp: indexOk_def primaryName_def)
    from ListActive_set [OF this assms] show ?thesis by auto
  qed
qed

interpretation intents: row_journal indexOk "\<lambda>k v d. ok_opt (Store_Put d ''intents'' k v)"
  "\<lambda>d. rowAt d ''intents''" "\<lambda>d. ok_opt (ListActive d ''intents'')" "liveRow ''intents''"
  by (rule row_journal_primary) (simp add: primaryName_def)

interpretation works: row_journal indexOk "\<lambda>k v d. ok_opt (Store_Put d ''work'' k v)"
  "\<lambda>d. rowAt d ''work''" "\<lambda>d. ok_opt (ListActive d ''work'')" "liveRow ''work''"
  by (rule row_journal_primary) (simp add: primaryName_def)

section \<open>Opening and validating\<close>

lemma rebuildIndex_Inr:
  assumes "rebuildIndex bucket es index = Inr index'"
  shows "(\<forall>e \<in> set es. is_ok (activeRow bucket (snd e)))
    \<and> (\<forall>k. kv_get index' k \<noteq> None \<longleftrightarrow> kv_get index k \<noteq> None
         \<or> (\<exists>row. (k, row) \<in> set es \<and> activeRow bucket row = Inr True))"
  using assms
proof (induction bucket es index rule: rebuildIndex.induct)
  case (2 bucket key row es index)
  then obtain active where a: "activeRow bucket row = Inr active" by (auto simp: bind_r_Inr_iff)
  show ?case
  proof (cases active)
    case True
    with 2(3) a have r: "rebuildIndex bucket es (kv_set key mark index) = Inr index'"
      by (simp add: bucketPut_def split: if_splits)
    from 2(1) [OF True _] r have "(\<forall>e \<in> set es. is_ok (activeRow bucket (snd e)))
      \<and> (\<forall>k. kv_get index' k \<noteq> None \<longleftrightarrow> kv_get (kv_set key mark index) k \<noteq> None
         \<or> (\<exists>row. (k, row) \<in> set es \<and> activeRow bucket row = Inr True))" by blast
    with a True show ?thesis by (auto simp: store_simps)
  next
    case False
    with 2(3) a have "rebuildIndex bucket es index = Inr index'" by simp
    with 2(2) [OF False] a False show ?thesis by auto
  qed
qed simp

lemma rebuildIndex_indexedBy:
  assumes "rebuildIndex bucket (kv_entries primary) kv_empty = Inr index"
  shows "indexedBy bucket primary index"
proof -
  note R = rebuildIndex_Inr [OF assms]
  have "is_ok (activeRow bucket row)" if "kv_get primary k = Some row" for k row
  proof -
    from that have "(k, row) \<in> set (kv_entries primary)" by (simp add: kv.ents_get)
    with R show ?thesis by fastforce
  qed
  with R show ?thesis by (simp add: indexedBy_def kv.ents_get)
qed

text \<open>Opening a journal of the first version builds the index; a current one is left as it is.\<close>

lemma migrateIndexes_indexOk:
  assumes "migrateIndexes d = Inr d'"
    and "kv_get (the (d ''meta'')) indexVersionKey = None \<or> indexOk d"
  shows "indexOk d' \<and> (\<forall>bucket k. primaryName bucket \<longrightarrow> rowAt d' bucket k = rowAt d bucket k)"
proof -
  from assms(1) obtain meta where m: "d ''meta'' = Some meta" by (auto simp: migrateIndexes_def split: option.splits)
  show ?thesis
  proof (cases "kv_get meta indexVersionKey")
    case None
    with assms(1) m obtain d1 meta' where r: "migrateBuckets [''intents'', ''work''] d = Inr d1"
      "d1 ''meta'' = Some meta'" "d' = d1(''meta'' \<mapsto> kv_set indexVersionKey (RawRow journalIndexVersion) meta')"
      by (auto simp: migrateIndexes_def Let_def bind_r_Inr_iff split: option.splits)
    from r(1) obtain pi xi where i: "d ''intents'' = Some pi" "rebuildIndex ''intents'' (kv_entries pi) kv_empty = Inr xi"
      and r2: "migrateBuckets [''work''] (d(''active_intents'' \<mapsto> xi)) = Inr d1"
      by (auto simp: bind_r_Inr_iff split: option.splits)
    from r2 obtain pw xw where w: "d ''work'' = Some pw" "rebuildIndex ''work'' (kv_entries pw) kv_empty = Inr xw"
      and d1: "d1 = d(''active_intents'' \<mapsto> xi, ''active_work'' \<mapsto> xw)"
      by (auto simp: bind_r_Inr_iff split: option.splits)
    have "bucketOk d' ''intents''" "bucketOk d' ''work''"
      using rebuildIndex_indexedBy [OF i(2)] rebuildIndex_indexedBy [OF w(2)] i(1) w(1)
      by (simp_all add: bucketOk_def r(3) d1)
    moreover have "versionOk d'" by (simp add: versionOk_def r(3) store_simps)
    moreover have "rowAt d' bucket k = rowAt d bucket k" if "primaryName bucket" for bucket k
      using that by (auto simp: rowAt_def r(3) d1 primaryName_def)
    ultimately show ?thesis by (simp add: indexOk_def)
  next
    case (Some v)
    with assms(2) m have ok: "indexOk d" by simp
    then have "d (activeIndex ''intents'') \<noteq> None" "d (activeIndex ''work'') \<noteq> None"
      by (auto simp: indexOk_def bucketOk_def)
    with assms(1) m Some have "d' = d" by (simp add: migrateIndexes_def split: if_splits)
    with ok show ?thesis by simp
  qed
qed

lemma validateRows_Inr:
  "validateRows bucket index es n = Inr m \<longleftrightarrow>
     (\<forall>e \<in> set es. is_ok (activeRow bucket (snd e))
        \<and> (kv_get index (fst e) \<noteq> None \<longleftrightarrow> activeRow bucket (snd e) = Inr True))
     \<and> m = n + length (filter (\<lambda>e. liveRow bucket (snd e)) es)"
proof (induction es arbitrary: n)
  case (Cons e es)
  obtain key row where e: "e = (key, row)" by (cases e)
  show ?case
  proof (cases "activeRow bucket row")
    case (Inl err)
    then show ?thesis by (simp add: e)
  next
    case (Inr active)
    then have l: "liveRow bucket row \<longleftrightarrow> active" by (simp add: liveRow_def)
    show ?thesis
    proof (cases "(kv_get index key \<noteq> None) = active")
      case True
      then show ?thesis using Cons.IH [of "Suc n"] Cons.IH [of n] Inr l by (cases active) (simp_all add: e)
    next
      case False
      then have "validateRows bucket index (e # es) n = Inl (AErr ''journal index membership mismatch'')"
        using Inr by (simp add: e)
      then show ?thesis using False Inr by (auto simp: e)
    qed
  qed
qed auto

lemma card_keys: "length (kv_entries s) = card {k. kv_get s k \<noteq> None}"
proof -
  have "{k. kv_get s k \<noteq> None} = fst ` set (kv_entries s)"
    by (force simp: kv.ents_get [symmetric])
  then show ?thesis using distinct_card [OF kv.ents_distinct [of s]] by simp
qed

lemma validate_indexedBy:
  "(\<exists>n. validateRows bucket index (kv_entries primary) 0 = Inr n \<and> length (kv_entries index) = n)
     \<longleftrightarrow> indexedBy bucket primary index"
proof -
  let ?L = "{k. \<exists>row. kv_get primary k = Some row \<and> activeRow bucket row = Inr True}"
  let ?f = "filter (\<lambda>e. liveRow bucket (snd e)) (kv_entries primary)"
  have L: "?L = fst ` set ?f" by (force simp: kv.ents_get [symmetric] liveRow_def)
  have cL: "length ?f = card ?L"
    unfolding L using distinct_card [of "map fst ?f"] kv.ents_distinct [of primary] by (simp add: distinct_map_filter)
  have fin: "finite {k. kv_get index k \<noteq> None}"
  proof -
    have "{k. kv_get index k \<noteq> None} = fst ` set (kv_entries index)" by (force simp: kv.ents_get [symmetric])
    then show ?thesis by simp
  qed
  have sub: "?L \<subseteq> {k. kv_get index k \<noteq> None}"
    if "\<forall>e \<in> set (kv_entries primary). kv_get index (fst e) \<noteq> None \<longleftrightarrow> activeRow bucket (snd e) = Inr True"
  proof
    fix k assume "k \<in> ?L"
    then obtain row where "(k, row) \<in> set (kv_entries primary)" "activeRow bucket row = Inr True"
      by (auto simp: kv.ents_get)
    with that show "k \<in> {k. kv_get index k \<noteq> None}" by fastforce
  qed
  have mem: "(\<forall>e \<in> set (kv_entries primary). Q (fst e) (snd e)) \<longleftrightarrow> (\<forall>k row. kv_get primary k = Some row \<longrightarrow> Q k row)" for Q
    by (force simp: kv.ents_get [symmetric])
  show ?thesis
  proof
    assume "\<exists>n. validateRows bucket index (kv_entries primary) 0 = Inr n \<and> length (kv_entries index) = n"
    then have v: "\<forall>e \<in> set (kv_entries primary). is_ok (activeRow bucket (snd e))
        \<and> (kv_get index (fst e) \<noteq> None \<longleftrightarrow> activeRow bucket (snd e) = Inr True)"
      and c: "length (kv_entries index) = length ?f" by (auto simp: validateRows_Inr)
    from c cL have "card ?L = card {k. kv_get index k \<noteq> None}" by (simp add: card_keys)
    with sub v fin have "?L = {k. kv_get index k \<noteq> None}" by (intro card_subset_eq) blast+
    with v show "indexedBy bucket primary index"
      unfolding indexedBy_def mem [where Q = "\<lambda>k row. is_ok (activeRow bucket row)
        \<and> (kv_get index k \<noteq> None \<longleftrightarrow> activeRow bucket row = Inr True)"] by blast
  next
    assume x: "indexedBy bucket primary index"
    then have "{k. kv_get index k \<noteq> None} = ?L" unfolding indexedBy_def by blast
    then have "length (kv_entries index) = length ?f" using cL by (simp add: card_keys)
    moreover have "\<forall>e \<in> set (kv_entries primary). is_ok (activeRow bucket (snd e))
        \<and> (kv_get index (fst e) \<noteq> None \<longleftrightarrow> activeRow bucket (snd e) = Inr True)"
      unfolding mem [where Q = "\<lambda>k row. is_ok (activeRow bucket row)
        \<and> (kv_get index k \<noteq> None \<longleftrightarrow> activeRow bucket row = Inr True)"]
      using x unfolding indexedBy_def by (metis option.inject)
    ultimately show "\<exists>n. validateRows bucket index (kv_entries primary) 0 = Inr n \<and> length (kv_entries index) = n"
      by (simp add: validateRows_Inr)
  qed
qed

end
