(* ===== verification/TxManager.thy ===== *)
theory TxManager
  imports JournalSpec Keys
begin

text \<open>
  The transaction manager of a signing agent: dev/agent/internal/txmanager/manager.go and
  recovery.go. It keeps one intent per operation in the journal, signs at most one attempt at a
  time for the account, writes the signed bytes before it sends them, and reconciles with the
  chain before it sends anything again.

  The chain, the clock and the SDK's encodings are parameters. \<open>chainIO\<close> holds what the outside
  answers during one call of an operation; different calls may see different answers. Every
  operation returns its result together with the state it leaves, which keeps the writes made
  before an error. \<open>ms_sent\<close> is a ghost: the bytes handed to the network, each with the journal
  as it was on disk at that moment.
\<close>

record TxResult =
  tr_Found :: bool
  tr_Height :: u64
  tr_Code :: u32
  tr_Codespace :: string
  tr_Log :: string
  tr_Tx :: bytes

record Account =
  ac_Number :: u64
  ac_Sequence :: u64

record BroadcastResult =
  br_Code :: u32
  br_Data :: string
  br_Log :: string
  br_Hash :: string
  br_Codespace :: string

record SignOptions =
  so_ChainID :: string
  so_PrivateKeyHex :: string
  so_AccountNumber :: u64
  so_Sequence :: u64
  so_GasLimit :: u64
  so_FeeAmount :: "(string \<times> int) list"
  so_Memo :: string

text \<open>The SDK's codec and signing, the transaction hash, the manager's settings.\<close>

record 'm manager =
  mg_Options :: SignOptions
  mg_RetryInterval :: int
  marshalInterface :: "'m \<Rightarrow> bytes option"
  unmarshalInterface :: "bytes \<Rightarrow> 'm option"
  EncodeSignedTx :: "SignOptions \<Rightarrow> 'm list \<Rightarrow> bytes option"
  txMemo :: "bytes \<Rightarrow> string option"
  txHashSum :: "bytes \<Rightarrow> bytes"
  sha256Sum :: "bytes \<Rightarrow> bytes"

record chainIO =
  io_LookupTx :: "string \<Rightarrow> aerror + TxResult"
  io_Satisfied :: "Intent \<Rightarrow> u64 \<Rightarrow> aerror + bool"
  io_AccountAt :: "u64 \<Rightarrow> aerror + Account"
  io_BroadcastTxSync :: "bytes \<Rightarrow> BroadcastResult \<times> aerror option"
  io_BeforeSend :: "aerror option"
  io_now :: int
  io_nowRetry :: int

record 'r mstate =
  ms_db :: "'r db"
  ms_sent :: "(bytes \<times> 'r db) list"
  ms_events :: "Intent list"

fun errText :: "aerror \<Rightarrow> string" where
  "errText ErrObsolete = ''intent is no longer applicable''"
| "errText ErrReevaluationRequired = ''fresh independent evaluation required before execution''"
| "errText ErrLost = ''signing ownership lost; this process must stop''"
| "errText APanic = ''panic''"
| "errText (AExternal s) = s"
| "errText (AErr s) = s"

text \<open>Codes of the SDK's root errors (github.com/cosmos/cosmos-sdk/types/errors).\<close>

definition sdkErrInsufficientFunds :: u32 where "sdkErrInsufficientFunds = 5"
definition sdkErrOutOfGas :: u32 where "sdkErrOutOfGas = 11"
definition sdkErrInsufficientFee :: u32 where "sdkErrInsufficientFee = 13"
definition sdkErrTxInMempoolCache :: u32 where "sdkErrTxInMempoolCache = 19"
definition sdkErrMempoolIsFull :: u32 where "sdkErrMempoolIsFull = 20"
definition sdkErrWrongSequence :: u32 where "sdkErrWrongSequence = 32"

definition codeOf :: "error \<Rightarrow> u32" where
  "codeOf e = (case abciCode e of Some n \<Rightarrow> of_nat n | None \<Rightarrow> 1)"

section \<open>Saving and queueing (manager.go)\<close>

definition save :: "Intent \<Rightarrow> 'r mstate \<Rightarrow> aerror option \<times> 'r mstate" where
  "save i st = (case Store_Put (ms_db st) ''intents'' (it_ID i) (IntentRow i) of
     Inl e \<Rightarrow> (Some e, st)
   | Inr d \<Rightarrow> (None, st\<lparr>ms_db := d, ms_events := ms_events st @ [i]\<rparr>))"

fun marshalLoop :: "'m manager \<Rightarrow> 'm list \<Rightarrow> aerror + bytes list" where
  "marshalLoop M [] = Inr []"
| "marshalLoop M (msg # msgs) = (case marshalInterface M msg of
     None \<Rightarrow> Inl (AExternal ''marshal'')
   | Some bz \<Rightarrow> bind_r (marshalLoop M msgs) (\<lambda>out. Inr (bz # out)))"

definition marshalMessages :: "'m manager \<Rightarrow> 'm list \<Rightarrow> aerror + bytes list" where
  "marshalMessages M msgs = (if msgs = [] then Inl (AErr ''intent needs messages'') else marshalLoop M msgs)"

definition Enqueue ::
    "'m manager \<Rightarrow> string \<Rightarrow> string \<Rightarrow> string \<Rightarrow> 'm list \<Rightarrow> 'r mstate \<Rightarrow> aerror option \<times> 'r mstate" where
  "Enqueue M ident kind caseID msgs st = (case Store_Get (ms_db st) ''intents'' ident unmarshalIntent of
     Inl e \<Rightarrow> (Some e, st)
   | Inr (Some existing) \<Rightarrow>
       if it_Kind existing \<noteq> kind \<or> it_CaseID existing \<noteq> caseID
       then (Some (AErr ''intent ID belongs to a different operation''), st)
       else (None, st)
   | Inr None \<Rightarrow> (case marshalMessages M msgs of
       Inl e \<Rightarrow> (Some e, st)
     | Inr encoded \<Rightarrow>
         (case Store_Put (ms_db st) ''intents'' ident (IntentRow (zeroIntent
             \<lparr>it_ID := ident, it_Kind := kind, it_CaseID := caseID, it_Status := ''queued'', it_Messages := encoded\<rparr>)) of
           Inl e \<Rightarrow> (Some e, st)
         | Inr d \<Rightarrow> (None, st\<lparr>ms_db := d\<rparr>))))"

section \<open>Reconciling with the chain (recovery.go)\<close>

text \<open>
  The loop over the attempts: the attempts with what was learned, and the height of the first
  one found committed successfully, or the error that stopped the loop.
\<close>

fun reconcileAttempts :: "chainIO \<Rightarrow> u64 \<Rightarrow> Attempt list \<Rightarrow> (aerror + u64 option) \<times> Attempt list" where
  "reconcileAttempts io height [] = (Inr None, [])"
| "reconcileAttempts io height (a # as) = (case io_LookupTx io (at_Hash a) of
     Inl e \<Rightarrow> (Inl e, a # as)
   | Inr r \<Rightarrow>
       if tr_Found r then
         if tr_Height r > height then (Inl (AErr ''tx result is ahead of committed snapshot''), a # as)
         else let a' = a\<lparr>at_Resolved := True, at_Height := tr_Height r, at_Code := tr_Code r,
                         at_Codespace := tr_Codespace r\<rparr> in
           if tr_Code r = 0 then (Inr (Some (tr_Height r)), a' # as)
           else (case reconcileAttempts io height as of (out, as') \<Rightarrow> (out, a' # as'))
       else (case reconcileAttempts io height as of (out, as') \<Rightarrow> (out, a # as')))"

text \<open>The answer of \<open>reconcile\<close> (done, error), the caller's intent and the state afterwards.\<close>

definition reconcile ::
    "chainIO \<Rightarrow> u64 \<Rightarrow> Intent \<Rightarrow> 'r mstate \<Rightarrow> (bool \<times> aerror option) \<times> Intent \<times> 'r mstate" where
  "reconcile io height i st = (case reconcileAttempts io height (it_Attempts i) of
     (Inl e, as) \<Rightarrow> ((False, Some e), i\<lparr>it_Attempts := as\<rparr>, st)
   | (Inr (Some h), as) \<Rightarrow>
       (let i' = i\<lparr>it_Attempts := as, it_Status := ''confirmed'', it_CompletedHeight := h, it_LastError := []\<rparr>
        in case save i' st of (e, st') \<Rightarrow> ((True, e), i', st'))
   | (Inr None, as) \<Rightarrow> (let i' = i\<lparr>it_Attempts := as\<rparr> in
       case io_Satisfied io i' height of
         Inl e \<Rightarrow> if e = ErrObsolete then (let i'' = i'\<lparr>it_Status := ''cancelled''\<rparr> in
                    case save i'' st of (e', st') \<Rightarrow> ((True, e'), i'', st'))
                  else ((False, Some e), i', st)
       | Inr True \<Rightarrow> (let i'' = i'\<lparr>it_Status := ''satisfied'', it_CompletedHeight := height, it_LastError := []\<rparr> in
                    case save i'' st of (e', st') \<Rightarrow> ((True, e'), i'', st'))
       | Inr False \<Rightarrow> ((False, None), i', st)))"

definition Retryable :: "Intent \<Rightarrow> bool" where
  "Retryable i =
     (if it_Status i \<noteq> ''failed'' \<or> it_Attempts i = [] then False
      else let a = last (it_Attempts i);
        code = (if at_CheckCode a \<noteq> 0 then at_CheckCode a else at_Code a);
        space = (if at_CheckCode a \<noteq> 0 then at_CheckCodespace a else at_Codespace a)
      in if space = ModuleName then code = codeOf ErrRiskReportExpired
         else if space \<noteq> [] \<and> space \<noteq> ''sdk'' then False
         else code = sdkErrInsufficientFunds \<or> code = sdkErrOutOfGas \<or> code = sdkErrInsufficientFee
            \<or> code = sdkErrMempoolIsFull \<or> code = sdkErrWrongSequence)"

section \<open>Sending (manager.go)\<close>

definition fencedMemo :: "'m manager \<Rightarrow> bytes \<Rightarrow> bool" where
  "fencedMemo M bz = (if so_Memo (mg_Options M) = [] then False
     else case txMemo M bz of None \<Rightarrow> False | Some memo \<Rightarrow> memo \<noteq> so_Memo (mg_Options M))"

definition onLast :: "(Attempt \<Rightarrow> Attempt) \<Rightarrow> Intent \<Rightarrow> Intent" where
  "onLast f i = i\<lparr>it_Attempts := butlast (it_Attempts i) @ [f (last (it_Attempts i))]\<rparr>"

definition broadcastAttempt :: "'m manager \<Rightarrow> chainIO \<Rightarrow> Intent \<Rightarrow> 'r mstate \<Rightarrow> aerror option \<times> 'r mstate" where
  "broadcastAttempt M io i st =
     (if io_now io < at_NextBroadcastAt (last (it_Attempts i)) then (None, st)
      else case io_BeforeSend io of Some e \<Rightarrow> (Some e, st) | None \<Rightarrow>
      let retry = (if mg_RetryInterval M = 0 then 2000000000 else mg_RetryInterval M);
          i1 = onLast (\<lambda>a. a\<lparr>at_NextBroadcastAt := io_nowRetry io + retry,
                            at_Broadcasts := at_Broadcasts a + 1\<rparr>) i
      in case save i1 st of (Some e, st1) \<Rightarrow> (Some e, st1) | (None, st1) \<Rightarrow>
      let tx = at_Tx (last (it_Attempts i1));
          st2 = st1\<lparr>ms_sent := ms_sent st1 @ [(tx, ms_db st1)]\<rparr>
      in case io_BroadcastTxSync io tx of (result, sendErr) \<Rightarrow>
      let i2 = i1\<lparr>it_LastError := (case sendErr of None \<Rightarrow> [] | Some e \<Rightarrow> errText e)\<rparr>;
          i3 = (if sendErr \<noteq> None \<and> br_Code result \<noteq> 0 \<and> br_Code result \<noteq> sdkErrWrongSequence
                   \<and> br_Code result \<noteq> sdkErrTxInMempoolCache
                then onLast (\<lambda>a. a\<lparr>at_CheckCode := br_Code result, at_CheckCodespace := br_Codespace result\<rparr>)
                       (i2\<lparr>it_Status := ''failed''\<rparr>)
                else i2)
      in case save i3 st2 of (Some e, st3) \<Rightarrow> (Some e, st3) | (None, st3) \<Rightarrow> (sendErr, st3))"

definition reconcileFailed ::
    "'m manager \<Rightarrow> chainIO \<Rightarrow> u64 \<Rightarrow> Intent \<Rightarrow> 'r mstate \<Rightarrow> (bool \<times> aerror option) \<times> 'r mstate" where
  "reconcileFailed M io height i st = (case reconcile io height i st of ((done', err), i', st') \<Rightarrow>
     if err \<noteq> None \<or> done' \<or> it_Attempts i' = [] then ((False, err), st')
     else let a = last (it_Attempts i'); code = codeOf ErrLeaseFenced;
       fenced = ((at_Codespace a = ModuleName \<and> at_Code a = code)
                 \<or> (at_CheckCodespace a = ModuleName \<and> at_CheckCode a = code))
     in if \<not> fenced \<or> \<not> fencedMemo M (at_Tx a) then ((False, None), st')
        else let i'' = (onLast (\<lambda>a. a\<lparr>at_Resolved := True\<rparr>) i')\<lparr>it_Status := ''queued'',
               it_Recoveries := it_Recoveries i' @ [\<lparr>rc_RequestID = [], rc_Height = height,
                 rc_Reason = ''resume definitively fenced intent under new ownership'', rc_PreviousError = [],
                 rc_PreviousMessages = []\<rparr>]\<rparr>
             in case save i'' st' of (e, st'') \<Rightarrow> ((True, e), st''))"

text \<open>Looking up the last attempt: still ahead of the snapshot, confirmed, or go on.\<close>

datatype lookupOutcome = Ahead | ConfirmedAt Intent | GoOn Intent

definition lookupLast :: "chainIO \<Rightarrow> u64 \<Rightarrow> Intent \<Rightarrow> aerror + lookupOutcome" where
  "lookupLast io height i =
     (if it_Attempts i = [] \<or> at_Resolved (last (it_Attempts i)) then Inr (GoOn i)
      else bind_r (io_LookupTx io (at_Hash (last (it_Attempts i)))) (\<lambda>r.
        if \<not> tr_Found r then Inr (GoOn i)
        else if tr_Height r > height then Inr Ahead
        else let i' = onLast (\<lambda>a. a\<lparr>at_Height := tr_Height r, at_Code := tr_Code r, at_Resolved := True,
                                  at_Codespace := tr_Codespace r\<rparr>) i
          in if tr_Code r = 0
             then Inr (ConfirmedAt (i'\<lparr>it_Status := ''confirmed'', it_CompletedHeight := tr_Height r, it_LastError := []\<rparr>))
             else Inr (GoOn (i'\<lparr>it_LastError := ''DeliverTx code='' @ dec_digits (unat (tr_Code r)) @ '': '' @ tr_Log r\<rparr>))))"

fun unmarshalMessages :: "'m manager \<Rightarrow> bytes list \<Rightarrow> 'm list option" where
  "unmarshalMessages M [] = Some []"
| "unmarshalMessages M (bz # bs) = (case unmarshalInterface M bz of None \<Rightarrow> None
     | Some m \<Rightarrow> map_option ((#) m) (unmarshalMessages M bs))"

text \<open>A signature made under an older lease epoch is fenced: mark it resolved and queue again.\<close>

definition requeueFenced :: "'m manager \<Rightarrow> u64 \<Rightarrow> Intent \<Rightarrow> Intent" where
  "requeueFenced M height i =
     (if it_Attempts i \<noteq> [] \<and> fencedMemo M (at_Tx (last (it_Attempts i)))
         \<and> (\<not> at_Resolved (last (it_Attempts i))
            \<or> (at_Code (last (it_Attempts i)) = codeOf ErrLeaseFenced
               \<and> at_Codespace (last (it_Attempts i)) = ''sanction''))
      then (onLast (\<lambda>a. a\<lparr>at_Resolved := True\<rparr>) i)\<lparr>it_Status := ''queued'',
             it_Recoveries := it_Recoveries i @ [\<lparr>rc_RequestID = [], rc_Height = height,
               rc_Reason = ''re-sign fenced attempt after ownership transfer'', rc_PreviousError = [],
               rc_PreviousMessages = []\<rparr>]\<rparr>
      else i)"

text \<open>Signing the next attempt, when the last one is settled or its sequence is used up.\<close>

definition signAttempt :: "'m manager \<Rightarrow> Account \<Rightarrow> Intent \<Rightarrow> aerror + Intent" where
  "signAttempt M account i = (case unmarshalMessages M (it_Messages i) of
     None \<Rightarrow> Inl (AExternal ''unmarshal'')
   | Some msgs \<Rightarrow> (case EncodeSignedTx M ((mg_Options M)\<lparr>so_AccountNumber := ac_Number account,
                                             so_Sequence := ac_Sequence account\<rparr>) msgs of
       None \<Rightarrow> Inl (AExternal ''sign'')
     | Some bz \<Rightarrow> Inr (i\<lparr>it_Attempts := it_Attempts i @ [\<lparr>at_Tx = bz,
           at_Hash = toUpper (hexEncode (txHashSum M bz)), at_Sequence = ac_Sequence account, at_Height = 0,
           at_Code = 0, at_Codespace = [], at_CheckCode = 0, at_CheckCodespace = [], at_Resolved = False,
           at_Broadcasts = 0, at_NextBroadcastAt = 0\<rparr>], it_Status := ''pending''\<rparr>)))"

definition advance ::
    "'m manager \<Rightarrow> chainIO \<Rightarrow> u64 \<Rightarrow> Account \<Rightarrow> Intent \<Rightarrow> 'r mstate \<Rightarrow> aerror option \<times> 'r mstate" where
  "advance M io height account i st = (let i = requeueFenced M height i; as = it_Attempts i; a = last as in
     if as \<noteq> [] \<and> \<not> at_Resolved a \<and> ac_Sequence account < at_Sequence a
     then (Some (AErr ''account sequence moved backwards''), st)
     else if as = [] \<or> at_Resolved a \<or> ac_Sequence account > at_Sequence a then
       if as \<noteq> [] \<and> at_Resolved a \<and> it_Status i \<noteq> ''queued'' then save (i\<lparr>it_Status := ''failed''\<rparr>) st
       else (case signAttempt M account i of
           Inl e \<Rightarrow> (Some e, st)
         | Inr i' \<Rightarrow> broadcastAttempt M io i' st)
     else broadcastAttempt M io i st)"

definition stepIntent ::
    "'m manager \<Rightarrow> chainIO \<Rightarrow> u64 \<Rightarrow> Intent \<Rightarrow> 'r mstate \<Rightarrow> aerror option \<times> 'r mstate" where
  "stepIntent M io height i st = (case lookupLast io height i of
     Inl e \<Rightarrow> (Some e, st)
   | Inr Ahead \<Rightarrow> (None, st)
   | Inr (ConfirmedAt i') \<Rightarrow> save i' st
   | Inr (GoOn i') \<Rightarrow> (case io_Satisfied io i' height of
       Inl e \<Rightarrow> if e = ErrObsolete then save (i'\<lparr>it_Status := ''cancelled''\<rparr>) st else (Some e, st)
     | Inr True \<Rightarrow> save (i'\<lparr>it_Status := ''satisfied'', it_CompletedHeight := height, it_LastError := []\<rparr>) st
     | Inr False \<Rightarrow> (case io_AccountAt io height of
         Inl e \<Rightarrow> (Some e, st)
       | Inr account \<Rightarrow> advance M io height account i' st)))"

fun stepLoop ::
    "'m manager \<Rightarrow> chainIO \<Rightarrow> u64 \<Rightarrow> 'r row list \<Rightarrow> 'r mstate \<Rightarrow> aerror option \<times> 'r mstate" where
  "stepLoop M io height [] st = (None, st)"
| "stepLoop M io height (row # rows) st = (case unmarshalIntent row of
     Inl e \<Rightarrow> (Some e, st)
   | Inr i \<Rightarrow>
       if it_Status i = ''failed'' then
         (case reconcileFailed M io height i st of ((requeued, err), st') \<Rightarrow>
            if err \<noteq> None \<or> requeued then (err, st') else stepLoop M io height rows st')
       else if Terminal i then stepLoop M io height rows st
       else stepIntent M io height i st)"

definition Step :: "'m manager \<Rightarrow> chainIO \<Rightarrow> u64 \<Rightarrow> 'r mstate \<Rightarrow> aerror option \<times> 'r mstate" where
  "Step M io height st = (case ListActive (ms_db st) ''intents'' of
     Inl e \<Rightarrow> (Some e, st)
   | Inr rows \<Rightarrow> stepLoop M io height rows st)"

section \<open>Operator recovery (recovery.go)\<close>

text \<open>The check that no earlier attempt can still be included, marking each resolved.\<close>

fun settleAttempts :: "Account \<Rightarrow> Attempt list \<Rightarrow> aerror + Attempt list" where
  "settleAttempts account [] = Inr []"
| "settleAttempts account (a # as) =
     (if ac_Sequence account < at_Sequence a then Inl (AErr ''account sequence moved backwards'')
      else if \<not> at_Resolved a \<and> at_CheckCode a = 0 \<and> ac_Sequence account \<le> at_Sequence a
      then Inl (AErr ''prior tx outcome is still uncertain'')
      else bind_r (settleAttempts account as) (\<lambda>as'. Inr (a\<lparr>at_Resolved := True\<rparr> # as')))"

text \<open>The search for an earlier recovery with the same request id.\<close>

fun priorRecovery :: "string \<Rightarrow> Recovery list \<Rightarrow> Recovery option" where
  "priorRecovery requestID [] = None"
| "priorRecovery requestID (r # rs) = (if rc_RequestID r = requestID then Some r else priorRecovery requestID rs)"

text \<open>
  The caller's \<open>prepare\<close> builds the messages of the retry. It may write to the journal (the daemon
  stores its new review there), so it passes the state along.
\<close>

type_synonym ('m, 'r) preparation = "Intent \<Rightarrow> 'r mstate \<Rightarrow> (aerror + 'm list) \<times> 'r mstate"

definition retryFailed ::
    "'m manager \<Rightarrow> chainIO \<Rightarrow> u64 \<Rightarrow> string \<Rightarrow> string \<Rightarrow> ('m, 'r) preparation \<Rightarrow> Intent \<Rightarrow> 'r mstate
      \<Rightarrow> aerror option \<times> 'r mstate" where
  "retryFailed M io height reason requestID prepare i st =
     (if \<not> Retryable i then (Some (AErr ''failure is not allowlisted for retry''), st)
      else case io_AccountAt io height of Inl e \<Rightarrow> (Some e, st) | Inr account \<Rightarrow>
      (case settleAttempts account (it_Attempts i) of Inl e \<Rightarrow> (Some e, st) | Inr as \<Rightarrow>
       let i1 = i\<lparr>it_Attempts := as\<rparr> in
       case prepare i1 st of
         (Inl e, st') \<Rightarrow> if e = ErrObsolete then save (i1\<lparr>it_Status := ''cancelled''\<rparr>) st' else (Some e, st')
       | (Inr msgs, st') \<Rightarrow> (case marshalMessages M msgs of
           Inl e \<Rightarrow> (Some e, st')
         | Inr encoded \<Rightarrow> save (i1\<lparr>it_Recoveries := it_Recoveries i1 @ [\<lparr>rc_RequestID = requestID,
               rc_Height = height, rc_Reason = reason, rc_PreviousError = it_LastError i1,
               rc_PreviousMessages = it_Messages i1\<rparr>], it_Messages := encoded, it_Status := ''queued'',
               it_LastError := [], it_CompletedHeight := 0\<rparr>) st')))"

definition Recover ::
    "'m manager \<Rightarrow> chainIO \<Rightarrow> string \<Rightarrow> u64 \<Rightarrow> string \<Rightarrow> ('m, 'r) preparation \<Rightarrow> string
      \<Rightarrow> 'r mstate \<Rightarrow> aerror option \<times> 'r mstate" where
  "Recover M io ident height reason prepare givenID st =
     (if isBlank reason \<or> length reason > 1024 then (Some (AErr ''recovery reason must contain 1-1024 bytes''), st)
      else let requestID = (if givenID \<noteq> [] then givenID else hexEncode (sha256Sum M reason)) in
      if length requestID > 128 then (Some (AErr ''recovery request ID exceeds 128 bytes''), st)
      else case Store_Get (ms_db st) ''intents'' ident unmarshalIntent of
        Inl e \<Rightarrow> (Some e, st)
      | Inr None \<Rightarrow> (Some (AErr ''intent not found''), st)
      | Inr (Some i) \<Rightarrow> (case priorRecovery requestID (it_Recoveries i) of
          Some r \<Rightarrow> if rc_Reason r \<noteq> reason
                    then (Some (AErr ''recovery request ID reused with a different reason''), st) else (None, st)
        | None \<Rightarrow>
            if Terminal i \<and> it_Status i \<noteq> ''failed'' then (None, st)
            else if it_Status i \<noteq> ''failed'' then (Some (AErr ''only failed intents can be retried''), st)
            else (case reconcile io height i st of ((done', err), i', st') \<Rightarrow>
              if done' \<or> (err \<noteq> None \<and> err \<noteq> Some ErrReevaluationRequired) then (err, st')
              else retryFailed M io height reason requestID prepare i' st')))"

definition RefreshQueued ::
    "'m manager \<Rightarrow> string \<Rightarrow> u64 \<Rightarrow> 'm list \<Rightarrow> 'r mstate \<Rightarrow> aerror option \<times> 'r mstate" where
  "RefreshQueued M ident height msgs st = (case Store_Get (ms_db st) ''intents'' ident unmarshalIntent of
     Inl e \<Rightarrow> (Some e, st)
   | Inr None \<Rightarrow> (None, st)
   | Inr (Some i) \<Rightarrow>
       if it_Status i \<noteq> ''queued'' then (None, st)
       else if \<exists>a \<in> set (it_Attempts i). \<not> at_Resolved a
       then (Some (AErr ''cannot refresh an unresolved signed attempt''), st)
       else (case marshalMessages M msgs of
           Inl e \<Rightarrow> (Some e, st)
         | Inr encoded \<Rightarrow>
             if it_Messages i = encoded then (None, st)
             else save (i\<lparr>it_Recoveries := it_Recoveries i @ [\<lparr>rc_RequestID = [], rc_Height = height,
                 rc_Reason = ''refresh unbroadcast evidence'', rc_PreviousError = [],
                 rc_PreviousMessages = it_Messages i\<rparr>], it_Messages := encoded\<rparr>) st))"

end
