(* ===== verification/TxSpec.thy ===== *)
theory TxSpec
  imports TxManager
begin

text \<open>
  What the transaction manager promises. \<open>intentExt\<close> is how an intent may change: its identity
  stays, a signed attempt is never dropped or altered except for what was learned about its
  outcome, recoveries are only appended. \<open>journalOk\<close> is the invariant of the journal on disk,
  \<open>keeps\<close> the promise each operation is shown to meet.
\<close>

section \<open>The abstract specification\<close>

definition attemptExt :: "Attempt \<Rightarrow> Attempt \<Rightarrow> bool" where
  "attemptExt a b \<longleftrightarrow> at_Tx b = at_Tx a \<and> at_Hash b = at_Hash a \<and> at_Sequence b = at_Sequence a
     \<and> (at_Resolved a \<longrightarrow> at_Resolved b)"

definition attemptsExt :: "Attempt list \<Rightarrow> Attempt list \<Rightarrow> bool" where
  "attemptsExt as bs \<longleftrightarrow> (\<exists>bs1 bs2. bs = bs1 @ bs2 \<and> list_all2 attemptExt as bs1)"

definition recoveriesExt :: "Recovery list \<Rightarrow> Recovery list \<Rightarrow> bool" where
  "recoveriesExt rs rs' \<longleftrightarrow> (\<exists>new. rs' = rs @ new)"

definition intentExt :: "Intent \<Rightarrow> Intent \<Rightarrow> bool" where
  "intentExt i j \<longleftrightarrow> it_ID j = it_ID i \<and> it_Kind j = it_Kind i \<and> it_CaseID j = it_CaseID i
     \<and> attemptsExt (it_Attempts i) (it_Attempts j) \<and> recoveriesExt (it_Recoveries i) (it_Recoveries j)"

definition final :: "Intent \<Rightarrow> bool" where
  "final i \<longleftrightarrow> it_Status i = ''confirmed'' \<or> it_Status i = ''satisfied'' \<or> it_Status i = ''cancelled''"

definition statusOk :: "Intent \<Rightarrow> bool" where
  "statusOk i \<longleftrightarrow> final i \<or> it_Status i = ''queued'' \<or> it_Status i = ''pending'' \<or> it_Status i = ''failed''"

text \<open>An attempt whose outcome is unknown is followed only by one with a later sequence.\<close>

definition seqChain :: "Attempt list \<Rightarrow> bool" where
  "seqChain as \<longleftrightarrow> successively (\<lambda>a b. at_Resolved a \<or> at_Sequence a < at_Sequence b) as"

definition journalOk :: "'r db \<Rightarrow> bool" where
  "journalOk d \<longleftrightarrow> indexOk d \<and> (\<forall>k row. rowAt d ''intents'' k = Some row \<longrightarrow>
     (\<exists>i. row = IntentRow i \<and> it_ID i = k \<and> k \<noteq> [] \<and> statusOk i \<and> seqChain (it_Attempts i)))"

definition intentAt :: "'r db \<Rightarrow> string \<Rightarrow> Intent option" where
  "intentAt d k = (case rowAt d ''intents'' k of Some (IntentRow i) \<Rightarrow> Some i | _ \<Rightarrow> None)"

definition journalStep :: "'r db \<Rightarrow> 'r db \<Rightarrow> bool" where
  "journalStep d d' \<longleftrightarrow> (\<forall>k i. intentAt d k = Some i \<longrightarrow>
     (\<exists>j. intentAt d' k = Some j \<and> intentExt i j \<and> (final i \<longrightarrow> j = i)))"

text \<open>Bytes are durable in a journal when they are a signed attempt of an unfinished intent.\<close>

definition durable :: "bytes \<Rightarrow> 'r db \<Rightarrow> bool" where
  "durable tx d \<longleftrightarrow> (\<exists>k i. intentAt d k = Some i \<and> \<not> final i \<and> it_Attempts i \<noteq> [] \<and> at_Tx (last (it_Attempts i)) = tx)"

definition sends :: "'r mstate \<Rightarrow> 'r mstate \<Rightarrow> bool" where
  "sends st st' \<longleftrightarrow> ms_sent st' = ms_sent st
     \<or> (\<exists>tx d. ms_sent st' = ms_sent st @ [(tx, d)] \<and> journalOk d \<and> journalStep (ms_db st) d
        \<and> journalStep d (ms_db st') \<and> durable tx d)"

definition keeps :: "'r mstate \<Rightarrow> 'r mstate \<Rightarrow> bool" where
  "keeps st st' \<longleftrightarrow> journalOk (ms_db st') \<and> journalStep (ms_db st) (ms_db st') \<and> sends st st'"

section \<open>How intents change\<close>

lemma attemptExt_refl [simp]: "attemptExt a a" by (simp add: attemptExt_def)

lemma attemptExt_trans: "attemptExt a b \<Longrightarrow> attemptExt b c \<Longrightarrow> attemptExt a c" by (simp add: attemptExt_def)

lemma attemptsExt_refl [simp]: "attemptsExt as as"
  unfolding attemptsExt_def by (rule exI [of _ as], rule exI [of _ "[]"]) (simp add: list_all2_refl)

lemma attemptsExt_snoc: "attemptsExt as bs \<Longrightarrow> attemptsExt as (bs @ cs)"
  unfolding attemptsExt_def by force

lemma attemptsExt_mono:
  assumes "attemptsExt as bs" "list_all2 attemptExt bs cs"
  shows "attemptsExt as cs"
proof -
  from assms(1) obtain b1 b2 where b: "bs = b1 @ b2" "list_all2 attemptExt as b1" unfolding attemptsExt_def by blast
  from assms(2) b(1) obtain c1 c2 where c: "cs = c1 @ c2" "list_all2 attemptExt b1 c1"
    by (auto simp: list_all2_append1)
  have "list_all2 attemptExt as c1" using list_all2_trans [OF attemptExt_trans b(2) c(2)] .
  with c(1) show ?thesis unfolding attemptsExt_def by blast
qed

lemma attemptsExt_trans: "attemptsExt as bs \<Longrightarrow> attemptsExt bs cs \<Longrightarrow> attemptsExt as cs"
  using attemptsExt_mono attemptsExt_snoc unfolding attemptsExt_def [of bs] by blast

lemma recoveriesExt_refl [simp]: "recoveriesExt rs rs" by (simp add: recoveriesExt_def)
lemma recoveriesExt_snoc [simp]: "recoveriesExt rs rs' \<Longrightarrow> recoveriesExt rs (rs' @ new)"
  by (auto simp: recoveriesExt_def)
lemma recoveriesExt_trans: "recoveriesExt rs rs' \<Longrightarrow> recoveriesExt rs' rs'' \<Longrightarrow> recoveriesExt rs rs''"
  by (auto simp: recoveriesExt_def)

lemma intentExt_refl [simp]: "intentExt i i" by (simp add: intentExt_def)

lemma intentExt_trans: "intentExt i j \<Longrightarrow> intentExt j k \<Longrightarrow> intentExt i k"
  unfolding intentExt_def using attemptsExt_trans recoveriesExt_trans by metis

lemma journalStep_refl [simp]: "journalStep d d" by (auto simp: journalStep_def)

lemma journalStep_trans: "journalStep d d' \<Longrightarrow> journalStep d' d'' \<Longrightarrow> journalStep d d''"
  unfolding journalStep_def using intentExt_trans by metis

lemma keeps_refl: "journalOk (ms_db st) \<Longrightarrow> keeps st st" by (simp add: keeps_def sends_def)

text \<open>Two steps, of which at most one sends, keep the promise together.\<close>

lemma keeps_trans:
  assumes "keeps st st'" "keeps st' st''" "ms_sent st' = ms_sent st \<or> ms_sent st'' = ms_sent st'"
  shows "keeps st st''"
proof -
  have s: "journalStep (ms_db st) (ms_db st')" "journalStep (ms_db st') (ms_db st'')"
    using assms(1,2) by (auto simp: keeps_def)
  have "sends st st''"
  proof (cases "ms_sent st' = ms_sent st")
    case True
    then show ?thesis using assms(2) s(1) unfolding keeps_def sends_def by (auto intro: journalStep_trans)
  next
    case False
    with assms(1,3) have "ms_sent st'' = ms_sent st'" by simp
    then show ?thesis using assms(1) s(2) False unfolding keeps_def sends_def by (auto intro: journalStep_trans)
  qed
  with assms(1,2) s journalStep_trans show ?thesis unfolding keeps_def by auto
qed

text \<open>What was durable when it was sent is an attempt on disk ever after.\<close>

lemma durable_kept:
  assumes "durable tx d" "journalStep d d'"
  shows "\<exists>k i. intentAt d' k = Some i \<and> tx \<in> at_Tx ` set (it_Attempts i)"
proof -
  from assms(1) obtain k i where i: "intentAt d k = Some i" "it_Attempts i \<noteq> []" "at_Tx (last (it_Attempts i)) = tx"
    unfolding durable_def by blast
  with assms(2) obtain j where j: "intentAt d' k = Some j" "attemptsExt (it_Attempts i) (it_Attempts j)"
    unfolding journalStep_def intentExt_def by blast
  from j(2) obtain bs1 bs2 where b: "it_Attempts j = bs1 @ bs2" "list_all2 attemptExt (it_Attempts i) bs1"
    unfolding attemptsExt_def by blast
  then have n: "bs1 \<noteq> []" using i(2) by auto
  with b(2) have "attemptExt (last (it_Attempts i)) (last bs1)"
    using i(2) by (simp add: list_all2_conv_all_nth last_conv_nth)
  with b(1) i(3) j(1) n show ?thesis by (auto simp: attemptExt_def intro!: exI [of _ k] exI [of _ j] rev_image_eqI [of "last bs1"])
qed

section \<open>Attempts\<close>

lemma list_all2_onLast:
  assumes "as \<noteq> []" "attemptExt (last as) (f (last as))"
  shows "list_all2 attemptExt as (butlast as @ [f (last as)])"
proof -
  have "list_all2 attemptExt (butlast as @ [last as]) (butlast as @ [f (last as)])"
    using assms(2) by (intro list_all2_appendI) (simp_all add: list_all2_refl)
  then show ?thesis using assms(1) by simp
qed

lemma seqChain_mono: "list_all2 attemptExt as bs \<Longrightarrow> seqChain as \<Longrightarrow> seqChain bs"
  unfolding seqChain_def successively_conv_nth attemptExt_def
  by (auto simp: list_all2_conv_all_nth)

lemma seqChain_snoc: "seqChain (as @ [b]) \<longleftrightarrow> seqChain as \<and> (as \<noteq> [] \<longrightarrow> at_Resolved (last as) \<or> at_Sequence (last as) < at_Sequence b)"
  by (auto simp: seqChain_def successively_append_iff)

lemma reconcileAttempts_ext: "list_all2 attemptExt as (snd (reconcileAttempts io height as))"
  by (induction as) (auto simp: attemptExt_def list_all2_refl Let_def split: sum.split prod.split)

lemma settleAttempts_ext: "settleAttempts account as = Inr bs \<Longrightarrow> list_all2 attemptExt as bs \<and> (\<forall>b \<in> set bs. at_Resolved b)"
  by (induction account as arbitrary: bs rule: settleAttempts.induct)
     (auto simp: attemptExt_def bind_r_Inr_iff split: if_splits)

section \<open>Saving\<close>

text \<open>The intent in the caller's hands: it extends the unfinished one on disk.\<close>

definition inHand :: "Intent \<Rightarrow> 'r mstate \<Rightarrow> bool" where
  "inHand i st \<longleftrightarrow> journalOk (ms_db st) \<and> statusOk i \<and> seqChain (it_Attempts i)
     \<and> (\<exists>i0. intentAt (ms_db st) (it_ID i) = Some i0 \<and> \<not> final i0 \<and> intentExt i0 i)"

lemma intentAt_rowAt: "intentAt d k = Some i \<longleftrightarrow> rowAt d ''intents'' k = Some (IntentRow i)"
  by (auto simp: intentAt_def split: option.splits row.splits)

lemma journalOk_intent:
  assumes "journalOk d" "intentAt d k = Some i"
  shows "it_ID i = k" "k \<noteq> []" "statusOk i" "seqChain (it_Attempts i)"
  using assms unfolding journalOk_def intentAt_rowAt by fastforce+

lemma inHand_stored:
  assumes "journalOk (ms_db st)" "intentAt (ms_db st) k = Some i" "\<not> final i"
  shows "inHand i st"
  using journalOk_intent [OF assms(1,2)] assms by (auto simp: inHand_def)

lemma activeRow_statusOk: "statusOk i \<Longrightarrow> activeRow ''intents'' (IntentRow i) = Inr (\<not> final i)"
  by (auto simp: statusOk_def final_def activeRow_def)

lemma Store_Put_intent:
  assumes "Store_Put d ''intents'' (it_ID i) (IntentRow i) = Inr d'"
  shows "intentAt d' k = (if k = it_ID i then Some i else intentAt d k)"
    "rowAt d' ''work'' k = rowAt d ''work'' k" "rowAt d' ''meta'' k = rowAt d ''meta'' k"
  using Store_Put_rowAt [OF assms, of k] Store_Put_rowAt(2) [OF assms, of "''work''" k]
  by (auto simp: primaryName_def intentAt_def)

lemma Store_Put_journalOk:
  assumes "Store_Put d ''intents'' (it_ID i) (IntentRow i) = Inr d'" "journalOk d" "it_ID i \<noteq> []"
    "statusOk i" "seqChain (it_Attempts i)"
  shows "journalOk d'"
proof -
  have "indexOk d'" using Store_Put_indexOk [OF assms(1)] assms(2) by (simp add: journalOk_def primaryName_def)
  moreover have "rowAt d' ''intents'' k = (if k = it_ID i then Some (IntentRow i) else rowAt d ''intents'' k)" for k
    using Store_Put_rowAt(1) [OF assms(1)] by (simp add: primaryName_def)
  ultimately show ?thesis using assms(2-5) by (auto simp: journalOk_def)
qed

lemma save_inHand:
  assumes "inHand i st"
  obtains st' where "save i st = (None, st')" "keeps st st'" "ms_sent st' = ms_sent st"
    "ms_events st' = ms_events st @ [i]" "intentAt (ms_db st') (it_ID i) = Some i" "\<not> final i \<Longrightarrow> inHand i st'"
proof -
  from assms obtain i0 where i0: "intentAt (ms_db st) (it_ID i) = Some i0" "\<not> final i0" "intentExt i0 i"
    and ok: "journalOk (ms_db st)" "statusOk i" "seqChain (it_Attempts i)" unfolding inHand_def by blast
  have k: "it_ID i \<noteq> []" using journalOk_intent(2) [OF ok(1) i0(1)] .
  have "indexOk (ms_db st)" using ok(1) by (simp add: journalOk_def)
  from Store_Put_succeeds [OF this _ _ k, of "''intents''" "IntentRow i"] obtain d'
    where d: "Store_Put (ms_db st) ''intents'' (it_ID i) (IntentRow i) = Inr d'"
    using activeRow_statusOk [OF ok(2)] by (auto simp: primaryName_def is_ok_iff)
  let ?st = "st\<lparr>ms_db := d', ms_events := ms_events st @ [i]\<rparr>"
  note p = Store_Put_intent [OF d]
  have ok': "journalOk d'" using Store_Put_journalOk [OF d ok(1) k ok(2,3)] .
  have s: "save i st = (None, ?st)" by (simp add: save_def d)
  have "journalStep (ms_db st) d'" using i0 by (auto simp: journalStep_def p)
  then have "keeps st ?st" using ok' by (simp add: keeps_def sends_def p)
  moreover have "inHand i ?st" if "\<not> final i" using inHand_stored [of ?st "it_ID i" i] ok' that p(1) by simp
  ultimately show thesis using s p(1) by (intro that [of ?st]) simp_all
qed

lemma inHand_change:
  assumes "inHand i st" "it_ID j = it_ID i" "it_Kind j = it_Kind i" "it_CaseID j = it_CaseID i"
    "attemptsExt (it_Attempts i) (it_Attempts j)" "recoveriesExt (it_Recoveries i) (it_Recoveries j)"
    "seqChain (it_Attempts j)" "statusOk j"
  shows "inHand j st"
proof -
  from assms(1) obtain i0 where "journalOk (ms_db st)" "intentAt (ms_db st) (it_ID i) = Some i0" "\<not> final i0"
    "intentExt i0 i" unfolding inHand_def by blast
  moreover from assms have "intentExt i j" by (simp add: intentExt_def)
  ultimately show ?thesis using assms intentExt_trans unfolding inHand_def by metis
qed

lemma inHand_seqChain: "inHand i st \<Longrightarrow> seqChain (it_Attempts i)" by (simp add: inHand_def)

lemma inHand_status:
  assumes "inHand i st" "it_ID j = it_ID i" "it_Kind j = it_Kind i" "it_CaseID j = it_CaseID i"
    "it_Attempts j = it_Attempts i" "recoveriesExt (it_Recoveries i) (it_Recoveries j)" "statusOk j"
  shows "inHand j st"
  using inHand_change [OF assms(1-4)] inHand_seqChain [OF assms(1)] assms(5-7) by simp

lemma inHand_onLast:
  assumes "inHand i st" "it_Attempts i \<noteq> []" "attemptExt (last (it_Attempts i)) (f (last (it_Attempts i)))"
  shows "inHand (onLast f i) st"
proof -
  note l = list_all2_onLast [where f = f, OF assms(2,3)]
  from assms(1) have "statusOk (onLast f i)" by (simp add: inHand_def statusOk_def final_def onLast_def)
  then show ?thesis
    using attemptsExt_mono [OF attemptsExt_refl l] seqChain_mono [OF l inHand_seqChain [OF assms(1)]]
    by (intro inHand_change [OF assms(1)]) (simp_all add: onLast_def)
qed

lemma onLast_simps [simp]:
  "it_ID (onLast f i) = it_ID i" "it_Kind (onLast f i) = it_Kind i" "it_CaseID (onLast f i) = it_CaseID i"
  "it_Status (onLast f i) = it_Status i" "it_Recoveries (onLast f i) = it_Recoveries i"
  "it_Messages (onLast f i) = it_Messages i" "it_Attempts (onLast f i) \<noteq> []"
  "last (it_Attempts (onLast f i)) = f (last (it_Attempts i))"
  by (simp_all add: onLast_def)

lemma statusOk_simps [simp]:
  "it_Status i = ''queued'' \<Longrightarrow> statusOk i" "it_Status i = ''pending'' \<Longrightarrow> statusOk i"
  "it_Status i = ''failed'' \<Longrightarrow> statusOk i" "it_Status i = ''confirmed'' \<Longrightarrow> statusOk i"
  "it_Status i = ''satisfied'' \<Longrightarrow> statusOk i" "it_Status i = ''cancelled'' \<Longrightarrow> statusOk i"
  by (simp_all add: statusOk_def final_def)

section \<open>The operations keep the promise\<close>

text \<open>Reconciling either saves the settled intent, or leaves the disk as it is.\<close>

lemma reconcile_cases:
  assumes "reconcile io height i st = ((done', err), i', st')"
  obtains
    "\<not> done'" "st' = st" "i' = i\<lparr>it_Attempts := snd (reconcileAttempts io height (it_Attempts i))\<rparr>"
  | "done'" "save i' st = (err, st')" "final i'" "it_ID i' = it_ID i" "it_Kind i' = it_Kind i" "it_CaseID i' = it_CaseID i"
    "it_Recoveries i' = it_Recoveries i" "it_Attempts i' = snd (reconcileAttempts io height (it_Attempts i))"
  using assms unfolding reconcile_def
  by (auto simp: Let_def final_def split: prod.splits sum.splits option.splits bool.splits if_splits)

lemma reconcile_attempts_inHand:
  assumes "inHand i st" "it_ID j = it_ID i" "it_Kind j = it_Kind i" "it_CaseID j = it_CaseID i"
    "it_Recoveries j = it_Recoveries i" "it_Attempts j = snd (reconcileAttempts io height (it_Attempts i))" "statusOk j"
  shows "inHand j st"
  using attemptsExt_mono [OF attemptsExt_refl reconcileAttempts_ext] assms
    seqChain_mono [OF reconcileAttempts_ext inHand_seqChain [OF assms(1)]]
  by (intro inHand_change [OF assms(1)]) simp_all

lemma reconcile_inHand:
  assumes "inHand i st" "reconcile io height i st = ((done', err), i', st')"
  shows "keeps st st' \<and> ms_sent st' = ms_sent st \<and> (if done' then err = None \<and> intentAt (ms_db st') (it_ID i) = Some i' \<and> final i'
    else st' = st \<and> inHand i' st \<and> it_Status i' = it_Status i \<and> it_ID i' = it_ID i \<and> it_Recoveries i' = it_Recoveries i)"
  using assms(2)
proof (cases rule: reconcile_cases)
  case 1
  have "statusOk i" "journalOk (ms_db st)" using assms(1) by (simp_all add: inHand_def)
  then have "inHand i' st" "keeps st st"
    using 1(3) by (auto intro!: reconcile_attempts_inHand [OF assms(1)] keeps_refl simp: statusOk_def final_def)
  with 1 show ?thesis by simp
next
  case 2
  have "inHand i' st" using 2 by (intro reconcile_attempts_inHand [OF assms(1)]) (auto simp: statusOk_def)
  then obtain s1 where "save i' st = (None, s1)" "keeps st s1" "ms_sent s1 = ms_sent st"
    "intentAt (ms_db s1) (it_ID i') = Some i'" by (rule save_inHand)
  with 2 show ?thesis by simp
qed

lemma final_simps [simp]:
  "it_Status i = ''queued'' \<Longrightarrow> \<not> final i" "it_Status i = ''pending'' \<Longrightarrow> \<not> final i"
  "it_Status i = ''failed'' \<Longrightarrow> \<not> final i"
  by (simp_all add: final_def)

lemma broadcastAttempt_keeps:
  assumes "inHand i st" "\<not> final i" "it_Attempts i \<noteq> []"
  shows "keeps st (snd (broadcastAttempt M io i st))"
proof (cases "io_now io < at_NextBroadcastAt (last (it_Attempts i)) \<or> io_BeforeSend io \<noteq> None")
  case True
  moreover have "keeps st st" using assms(1) by (intro keeps_refl) (simp add: inHand_def)
  ultimately show ?thesis by (auto simp: broadcastAttempt_def)
next
  case False
  define f where "f a = a\<lparr>at_NextBroadcastAt := io_nowRetry io + (if mg_RetryInterval M = 0 then 2000000000 else mg_RetryInterval M),
    at_Broadcasts := at_Broadcasts a + 1\<rparr>" for a :: Attempt
  define i1 where "i1 = onLast f i"
  have h1: "inHand i1 st" unfolding i1_def
    by (intro inHand_onLast [OF assms(1,3)]) (simp add: f_def attemptExt_def)
  have f1: "\<not> final i1" using assms(2) by (simp add: i1_def final_def)
  obtain s1 where s1: "save i1 st = (None, s1)" "keeps st s1" "ms_sent s1 = ms_sent st"
    "intentAt (ms_db s1) (it_ID i1) = Some i1" "inHand i1 s1"
    using h1 f1 by (metis save_inHand)
  define tx where "tx = at_Tx (last (it_Attempts i1))"
  define s2 where "s2 = s1\<lparr>ms_sent := ms_sent s1 @ [(tx, ms_db s1)]\<rparr>"
  have n1: "it_Attempts i1 \<noteq> []" by (simp add: i1_def)
  have "durable tx (ms_db s1)" unfolding durable_def using s1(4) f1 n1 tx_def by blast
  then have k2: "keeps st s2" using s1(2,3) by (auto simp: keeps_def sends_def s2_def)
  obtain result sendErr where r: "io_BroadcastTxSync io tx = (result, sendErr)" by fastforce
  define i2 where "i2 = i1\<lparr>it_LastError := (case sendErr of None \<Rightarrow> [] | Some e \<Rightarrow> errText e)\<rparr>"
  define g where "g a = a\<lparr>at_CheckCode := br_Code result, at_CheckCodespace := br_Codespace result\<rparr>" for a :: Attempt
  define i3 where "i3 = (if sendErr \<noteq> None \<and> br_Code result \<noteq> 0 \<and> br_Code result \<noteq> sdkErrWrongSequence
                   \<and> br_Code result \<noteq> sdkErrTxInMempoolCache then onLast g (i2\<lparr>it_Status := ''failed''\<rparr>) else i2)"
  have h1': "inHand i1 s2" using s1(5) by (simp add: inHand_def s2_def)
  have "statusOk i1" using h1' by (simp add: inHand_def)
  then have "statusOk i2" by (simp add: i2_def statusOk_def final_def)
  then have h2: "inHand (i2\<lparr>it_Status := ''failed''\<rparr>) s2" "inHand i2 s2"
    by (auto intro!: inHand_status [OF h1'] simp: i2_def)
  have h3: "inHand i3 s2" using h2 n1
    unfolding i3_def by (auto intro!: inHand_onLast simp: i2_def g_def attemptExt_def)
  obtain s3 where s3: "save i3 s2 = (None, s3)" "keeps s2 s3" "ms_sent s3 = ms_sent s2"
    using h3 by (rule save_inHand)
  have "broadcastAttempt M io i st = (sendErr, s3)"
    using False s1(1) s3(1) [unfolded i3_def i2_def g_def] r
    by (simp add: broadcastAttempt_def Let_def f_def [abs_def, symmetric] i1_def [symmetric] tx_def [symmetric] s2_def [symmetric]
        split del: if_split)
  then show ?thesis using keeps_trans [OF k2 s3(2)] s3(3) by simp
qed

lemma save_keeps: "inHand i st \<Longrightarrow> keeps st (snd (save i st)) \<and> ms_sent (snd (save i st)) = ms_sent st"
  by (metis save_inHand snd_conv)

lemma inHand_journalOk: "inHand i st \<Longrightarrow> journalOk (ms_db st)" by (simp add: inHand_def)

lemma inHand_requeue:
  assumes "inHand i st" "it_Attempts i \<noteq> []"
  shows "inHand ((onLast (\<lambda>a. a\<lparr>at_Resolved := True\<rparr>) i)\<lparr>it_Status := ''queued'', it_Recoveries := it_Recoveries i @ rs\<rparr>) st"
proof -
  let ?f = "\<lambda>a. a\<lparr>at_Resolved := True\<rparr>"
  have "inHand (onLast ?f i) st" by (rule inHand_onLast [OF assms]) (simp add: attemptExt_def)
  from inHand_status [OF this] show ?thesis by simp
qed

lemma reconcileFailed_keeps:
  assumes "inHand i st"
  shows "keeps st (snd (reconcileFailed M io height i st))
    \<and> ms_sent (snd (reconcileFailed M io height i st)) = ms_sent st"
proof -
  obtain done' err i' st' where r: "reconcile io height i st = ((done', err), i', st')" by (metis prod.collapse)
  note k = reconcile_inHand [OF assms r]
  have "keeps st (snd (save ((onLast (\<lambda>a. a\<lparr>at_Resolved := True\<rparr>) i')\<lparr>it_Status := ''queued'',
      it_Recoveries := it_Recoveries i' @ rs\<rparr>) st)) \<and> ms_sent (snd (save ((onLast (\<lambda>a. a\<lparr>at_Resolved := True\<rparr>) i')
      \<lparr>it_Status := ''queued'', it_Recoveries := it_Recoveries i' @ rs\<rparr>) st)) = ms_sent st"
    if "\<not> done'" "it_Attempts i' \<noteq> []" for rs
    using k that by (intro save_keeps inHand_requeue) simp_all
  then show ?thesis using k
    by (cases done') (auto simp: reconcileFailed_def r Let_def prod.case_eq_if)
qed

lemma lookupLast_inHand:
  assumes "inHand i st" "lookupLast io height i = Inr res"
  shows "case res of Ahead \<Rightarrow> True | ConfirmedAt j \<Rightarrow> inHand j st
    | GoOn j \<Rightarrow> inHand j st \<and> it_Status j = it_Status i"
proof (cases "it_Attempts i = [] \<or> at_Resolved (last (it_Attempts i))")
  case True
  then show ?thesis using assms by (auto simp: lookupLast_def)
next
  case False
  then obtain r where r: "io_LookupTx io (at_Hash (last (it_Attempts i))) = Inr r"
    using assms(2) by (auto simp: lookupLast_def bind_r_Inr_iff)
  define f where "f a = a\<lparr>at_Height := tr_Height r, at_Code := tr_Code r, at_Resolved := True,
    at_Codespace := tr_Codespace r\<rparr>" for a :: Attempt
  have h: "inHand (onLast f i) st"
    using False by (intro inHand_onLast [OF assms(1)]) (simp_all add: f_def attemptExt_def)
  have s: "statusOk i" using assms(1) by (simp add: inHand_def)
  have c: "inHand ((onLast f i)\<lparr>it_Status := ''confirmed'', it_CompletedHeight := h', it_LastError := e\<rparr>) st" for h' e
    by (rule inHand_status [OF h]) simp_all
  have g: "inHand ((onLast f i)\<lparr>it_LastError := e\<rparr>) st" for e
    by (rule inHand_status [OF h]) (use s in \<open>simp_all add: statusOk_def final_def\<close>)
  show ?thesis using assms False r c g
    by (auto simp: lookupLast_def Let_def f_def [abs_def, symmetric] split: if_splits)
qed

lemma requeueFenced_inHand:
  assumes "inHand i st"
  shows "inHand (requeueFenced M height i) st" "\<not> final i \<Longrightarrow> \<not> final (requeueFenced M height i)"
  using inHand_requeue [OF assms] assms by (auto simp: requeueFenced_def)

lemma signAttempt_inHand:
  assumes "inHand i st" "signAttempt M account i = Inr j"
    "it_Attempts i = [] \<or> at_Resolved (last (it_Attempts i)) \<or> at_Sequence (last (it_Attempts i)) < ac_Sequence account"
  shows "inHand j st" "\<not> final j" "it_Attempts j \<noteq> []"
proof -
  have "\<exists>a. at_Sequence a = ac_Sequence account \<and> it_Attempts j = it_Attempts i @ [a]
    \<and> it_Status j = ''pending'' \<and> it_ID j = it_ID i \<and> it_Kind j = it_Kind i \<and> it_CaseID j = it_CaseID i
    \<and> it_Recoveries j = it_Recoveries i"
    using assms(2) by (auto simp: signAttempt_def split: option.splits)
  then obtain a where a: "at_Sequence a = ac_Sequence account" "it_Attempts j = it_Attempts i @ [a]"
    "it_Status j = ''pending''" "it_ID j = it_ID i" "it_Kind j = it_Kind i" "it_CaseID j = it_CaseID i"
    "it_Recoveries j = it_Recoveries i" by blast
  show "inHand j st"
    by (rule inHand_change [OF assms(1)])
       (use a assms(3) inHand_seqChain [OF assms(1)] in \<open>auto simp: attemptsExt_snoc seqChain_snoc\<close>)
  show "\<not> final j" "it_Attempts j \<noteq> []" using a by simp_all
qed

lemma advance_keeps:
  assumes "inHand i st" "\<not> final i"
  shows "keeps st (snd (advance M io height account i st))"
proof -
  define j where "j = requeueFenced M height i"
  have j: "inHand j st" "\<not> final j" using requeueFenced_inHand [OF assms(1)] assms(2) by (simp_all add: j_def)
  have f: "inHand (j\<lparr>it_Status := ''failed''\<rparr>) st" by (rule inHand_status [OF j(1)]) simp_all
  have s: "keeps st (snd (case signAttempt M account j of Inl e \<Rightarrow> (Some e, st) | Inr i' \<Rightarrow> broadcastAttempt M io i' st))"
    if "it_Attempts j = [] \<or> at_Resolved (last (it_Attempts j)) \<or> at_Sequence (last (it_Attempts j)) < ac_Sequence account"
  proof (cases "signAttempt M account j")
    case (Inl e)
    then show ?thesis using keeps_refl [OF inHand_journalOk [OF j(1)]] by simp
  next
    case (Inr j')
    from signAttempt_inHand [OF j(1) Inr that] show ?thesis using broadcastAttempt_keeps Inr by simp
  qed
  show ?thesis
    using s save_keeps [OF f] broadcastAttempt_keeps [OF j, of M io] keeps_refl [OF inHand_journalOk [OF j(1)]]
    by (simp add: advance_def Let_def j_def [symmetric])
qed

lemma stepIntent_keeps:
  assumes "inHand i st" "\<not> final i"
  shows "keeps st (snd (stepIntent M io height i st))"
proof (cases "lookupLast io height i")
  case (Inl e)
  then show ?thesis using keeps_refl [OF inHand_journalOk [OF assms(1)]] by (simp add: stepIntent_def)
next
  case (Inr res)
  note l = lookupLast_inHand [OF assms(1) Inr]
  show ?thesis
  proof (cases res)
    case Ahead
    then show ?thesis using Inr keeps_refl [OF inHand_journalOk [OF assms(1)]] by (simp add: stepIntent_def)
  next
    case (ConfirmedAt j)
    then show ?thesis using Inr l save_keeps [of j st] by (simp add: stepIntent_def)
  next
    case (GoOn j)
    with l have j: "inHand j st" "\<not> final j" using assms(2) by (simp_all add: final_def)
    have "inHand (j\<lparr>it_Status := ''cancelled''\<rparr>) st"
      "inHand (j\<lparr>it_Status := ''satisfied'', it_CompletedHeight := height, it_LastError := []\<rparr>) st"
      by (auto intro: inHand_status [OF j(1)])
    note c = this [THEN save_keeps]
    show ?thesis using Inr GoOn c advance_keeps [OF j] keeps_refl [OF inHand_journalOk [OF assms(1)]]
      by (auto simp: stepIntent_def split: sum.split bool.split)
  qed
qed

text \<open>Settling a failed intent touches no other intent.\<close>

lemma save_other: "k \<noteq> it_ID i \<Longrightarrow> intentAt (ms_db (snd (save i st))) k = intentAt (ms_db st) k"
  by (auto simp: save_def Store_Put_intent(1) split: sum.split)

lemma reconcile_other:
  assumes "reconcile io height i st = (r, i', st')" "k \<noteq> it_ID i"
  shows "intentAt (ms_db st') k = intentAt (ms_db st) k" "it_ID i' = it_ID i"
proof -
  obtain done' err where r: "r = (done', err)" by fastforce
  have "intentAt (ms_db st') k = intentAt (ms_db st) k \<and> it_ID i' = it_ID i"
    using assms(1) unfolding r
  proof (cases rule: reconcile_cases)
    case 2
    then show ?thesis using save_other [of k i' st] assms(2) by simp
  qed simp
  then show "intentAt (ms_db st') k = intentAt (ms_db st) k" "it_ID i' = it_ID i" by blast+
qed

lemma reconcileFailed_other:
  assumes "k \<noteq> it_ID i"
  shows "intentAt (ms_db (snd (reconcileFailed M io height i st))) k = intentAt (ms_db st) k"
proof -
  obtain done' err i' st' where r: "reconcile io height i st = ((done', err), i', st')" by (metis prod.collapse)
  show ?thesis using reconcile_other [OF r assms] assms
    by (simp add: reconcileFailed_def r Let_def prod.case_eq_if save_other)
qed

lemma stepLoop_keeps:
  assumes "journalOk (ms_db st)"
    "\<forall>row \<in> set rows. \<exists>i. row = IntentRow i \<and> intentAt (ms_db st) (it_ID i) = Some i \<and> \<not> final i" "distinct (map (\<lambda>row. case row of IntentRow i \<Rightarrow> it_ID i | _ \<Rightarrow> []) rows)"
  shows "keeps st (snd (stepLoop M io height rows st))"
  using assms
proof (induction M io height rows st rule: stepLoop.induct)
  case (1 M io height st)
  then show ?case by (simp add: keeps_refl)
next
  case (2 M io height row rows st)
  then obtain i where i: "row = IntentRow i" "intentAt (ms_db st) (it_ID i) = Some i" "\<not> final i" by auto
  have h: "inHand i st" using inHand_stored 2(3) i by blast
  show ?case
  proof (cases "it_Status i = ''failed''")
    case True
    obtain requeued err st' where r: "reconcileFailed M io height i st = ((requeued, err), st')" by (metis prod.collapse)
    have k: "keeps st st'" "ms_sent st' = ms_sent st" using reconcileFailed_keeps [OF h, of M io height] r by simp_all
    have o: "intentAt (ms_db st') k = intentAt (ms_db st) k" if "k \<noteq> it_ID i" for k
      using reconcileFailed_other [OF that, of M io height st] r by simp
    show ?thesis
    proof (cases "err \<noteq> None \<or> requeued")
      case False
      have rows: "\<forall>row \<in> set rows. \<exists>i. row = IntentRow i \<and> intentAt (ms_db st') (it_ID i) = Some i \<and> \<not> final i"
      proof
        fix row' assume m: "row' \<in> set rows"
        with 2(4) obtain j where j: "row' = IntentRow j" "intentAt (ms_db st) (it_ID j) = Some j" "\<not> final j" by auto
        have "it_ID j \<noteq> it_ID i" using 2(5) m i(1) j(1) by force
        with j o show "\<exists>i. row' = IntentRow i \<and> intentAt (ms_db st') (it_ID i) = Some i \<and> \<not> final i" by auto
      qed
      have "keeps st' (snd (stepLoop M io height rows st'))"
        using 2(1) [OF _ True r [symmetric] refl] False k(1) rows 2(5) i(1) by (simp add: keeps_def)
      then show ?thesis using i r True False keeps_trans [OF k(1)] k(2) by simp
    qed (use k i r True in auto)
  next
    case False
    then have "\<not> Terminal i" using i(3) by (simp add: Terminal_def final_def)
    with False show ?thesis using i stepIntent_keeps [OF h i(3)] by simp
  qed
qed

lemma ListActive_intents:
  assumes "journalOk d"
  obtains rows where "ListActive d ''intents'' = Inr rows"
    "\<forall>row \<in> set rows. \<exists>i. row = IntentRow i \<and> intentAt d (it_ID i) = Some i \<and> \<not> final i"
    "distinct (map (\<lambda>row. case row of IntentRow i \<Rightarrow> it_ID i | _ \<Rightarrow> []) rows)"
proof -
  have ok: "bucketOk d ''intents''" using assms by (simp add: journalOk_def indexOk_def)
  obtain primary where p: "d ''intents'' = Some primary"
    "ListActive d ''intents'' = Inr (map snd (filter (\<lambda>e. liveRow ''intents'' (snd e)) (kv_entries primary)))"
    using ListActive_rows [OF ok] by (auto simp: primaryName_def)
  let ?f = "filter (\<lambda>e. liveRow ''intents'' (snd e)) (kv_entries primary)"
  have e: "\<exists>i. snd e = IntentRow i \<and> it_ID i = fst e \<and> intentAt d (it_ID i) = Some i \<and> \<not> final i" if "e \<in> set ?f" for e
  proof -
    have "(fst e, snd e) \<in> set (kv_entries primary)" using that by simp
    then have "rowAt d ''intents'' (fst e) = Some (snd e)" unfolding kv.ents_get by (simp add: rowAt_def p(1))
    moreover from this assms obtain i where i: "snd e = IntentRow i" "it_ID i = fst e" "statusOk i"
      unfolding journalOk_def by blast
    moreover from that have "activeRow ''intents'' (snd e) = Inr True" by (simp add: liveRow_def)
    then have "\<not> final i" unfolding i(1) activeRow_statusOk [OF i(3)] by simp
    ultimately show ?thesis using i by (simp add: intentAt_rowAt)
  qed
  have "map (\<lambda>row. case row of IntentRow i \<Rightarrow> it_ID i | _ \<Rightarrow> []) (map snd ?f) = map fst ?f"
    using e by fastforce
  moreover have "distinct (map fst ?f)" using kv.ents_distinct [of primary] by (simp add: distinct_map_filter)
  ultimately have "distinct (map (\<lambda>row. case row of IntentRow i \<Rightarrow> it_ID i | _ \<Rightarrow> []) (map snd ?f))" by (simp only:)
  moreover have "\<forall>row \<in> set (map snd ?f). \<exists>i. row = IntentRow i \<and> intentAt d (it_ID i) = Some i \<and> \<not> final i"
    using e by fastforce
  ultimately show thesis using p(2) by (intro that)
qed

lemma Step_keeps:
  assumes "journalOk (ms_db st)"
  shows "keeps st (snd (Step M io height st))"
proof -
  obtain rows where "ListActive (ms_db st) ''intents'' = Inr rows"
    "\<forall>row \<in> set rows. \<exists>i. row = IntentRow i \<and> intentAt (ms_db st) (it_ID i) = Some i \<and> \<not> final i"
    "distinct (map (\<lambda>row. case row of IntentRow i \<Rightarrow> it_ID i | _ \<Rightarrow> []) rows)"
    using assms by (rule ListActive_intents)
  then show ?thesis using stepLoop_keeps [OF assms] by (simp add: Step_def)
qed

lemma Store_Get_intents:
  assumes "journalOk d"
  shows "Store_Get d ''intents'' k unmarshalIntent = Inr (intentAt d k)"
proof -
  obtain b where b: "d ''intents'' = Some b" using assms by (auto simp: journalOk_def indexOk_def bucketOk_def)
  show ?thesis
  proof (cases "rowAt d ''intents'' k")
    case None
    then show ?thesis using b by (simp add: Store_Get_rowAt intentAt_def)
  next
    case (Some row)
    then obtain i where "row = IntentRow i" using assms unfolding journalOk_def by blast
    with Some show ?thesis using b by (simp add: Store_Get_rowAt intentAt_def)
  qed
qed

lemma inHand_attempts:
  assumes "inHand i st" "list_all2 attemptExt (it_Attempts i) as"
  shows "inHand (i\<lparr>it_Attempts := as\<rparr>) st"
  using attemptsExt_mono [OF attemptsExt_refl assms(2)] seqChain_mono [OF assms(2) inHand_seqChain [OF assms(1)]] assms(1)
  by (intro inHand_change [OF assms(1)]) (simp_all add: inHand_def statusOk_def final_def)

text \<open>A preparation may write, but not to the intents, and sends nothing.\<close>

definition intentsKept :: "'r mstate \<Rightarrow> 'r mstate \<Rightarrow> bool" where
  "intentsKept st st' \<longleftrightarrow> ms_sent st' = ms_sent st \<and> journalOk (ms_db st') \<and> (\<forall>k. intentAt (ms_db st') k = intentAt (ms_db st) k)"

definition preparesOk :: "('m, 'r) preparation \<Rightarrow> bool" where
  "preparesOk prepare \<longleftrightarrow> (\<forall>i st. journalOk (ms_db st) \<longrightarrow> intentsKept st (snd (prepare i st)))"

lemma intentsKept_inHand: "intentsKept st st' \<Longrightarrow> inHand i st \<Longrightarrow> inHand i st'"
  by (simp add: intentsKept_def inHand_def)

lemma intentsKept_keeps:
  assumes "intentsKept st st'" "keeps st' st''" "ms_sent st'' = ms_sent st'"
  shows "keeps st st'' \<and> ms_sent st'' = ms_sent st"
  using assms by (simp add: intentsKept_def keeps_def sends_def journalStep_def)

lemma retryFailed_keeps:
  assumes "inHand i st" "preparesOk prepare"
  shows "keeps st (snd (retryFailed M io height reason requestID prepare i st))
    \<and> ms_sent (snd (retryFailed M io height reason requestID prepare i st)) = ms_sent st"
proof -
  have k: "keeps st st" by (rule keeps_refl [OF inHand_journalOk [OF assms(1)]])
  have p: "intentsKept st st'" if "prepare j st = (r, st')" for j r st'
    using assms(2) inHand_journalOk [OF assms(1)] that unfolding preparesOk_def by (metis snd_conv)
  have h: "inHand (i\<lparr>it_Attempts := as\<rparr>) st" if "settleAttempts account (it_Attempts i) = Inr as" for as account
    using inHand_attempts [OF assms(1)] settleAttempts_ext [OF that] by blast
  have s: "keeps st (snd (save j st')) \<and> ms_sent (snd (save j st')) = ms_sent st"
    if "settleAttempts account (it_Attempts i) = Inr as" "prepare j' st = (r, st')" "it_ID j = it_ID i" "it_Kind j = it_Kind i"
    "it_CaseID j = it_CaseID i" "it_Attempts j = as" "recoveriesExt (it_Recoveries i) (it_Recoveries j)" "statusOk j"
    for as account j j' r st'
  proof -
    have "inHand j st'"
      by (rule inHand_status [OF intentsKept_inHand [OF p [OF that(2)] h [OF that(1)]]]) (use that in simp_all)
    from save_keeps [OF this] show ?thesis using intentsKept_keeps [OF p [OF that(2)]] by blast
  qed
  have q: "keeps st st' \<and> ms_sent st' = ms_sent st" if "prepare j st = (r, st')" for j r st'
    using p [OF that] by (simp add: intentsKept_def keeps_def sends_def journalStep_def)
  show ?thesis
  proof (cases "Retryable i \<and> is_ok (io_AccountAt io height)")
    case False
    then show ?thesis using k by (auto simp: retryFailed_def is_ok_iff split: sum.split)
  next
    case True
    then obtain account where account: "io_AccountAt io height = Inr account" by (auto simp: is_ok_iff)
    show ?thesis
    proof (cases "settleAttempts account (it_Attempts i)")
      case (Inl e)
      then show ?thesis using k True by (simp add: retryFailed_def account)
    next
      case (Inr as)
      obtain r st' where prep: "prepare (i\<lparr>it_Attempts := as\<rparr>) st = (r, st')" by fastforce
      have "statusOk (i\<lparr>it_Status := x\<rparr>)" if "x = ''cancelled'' \<or> x = ''queued''" for x using that by auto
      then show ?thesis using q [OF prep] s [OF Inr prep] True
        by (cases r) (auto simp: retryFailed_def account Inr prep Let_def split: sum.split)
    qed
  qed
qed

lemma Recover_keeps:
  assumes "journalOk (ms_db st)" "preparesOk prepare"
  shows "keeps st (snd (Recover M io ident height reason prepare givenID st))
    \<and> ms_sent (snd (Recover M io ident height reason prepare givenID st)) = ms_sent st"
proof -
  note k = keeps_refl [OF assms(1)]
  have r: "keeps st (snd (case reconcile io height i st of ((done', err), i', st') \<Rightarrow>
              if done' \<or> (err \<noteq> None \<and> err \<noteq> Some ErrReevaluationRequired) then (err, st')
              else retryFailed M io height reason requestID prepare i' st'))
    \<and> ms_sent (snd (case reconcile io height i st of ((done', err), i', st') \<Rightarrow>
              if done' \<or> (err \<noteq> None \<and> err \<noteq> Some ErrReevaluationRequired) then (err, st')
              else retryFailed M io height reason requestID prepare i' st')) = ms_sent st"
    if "intentAt (ms_db st) ident = Some i" "it_Status i = ''failed''" for i requestID
  proof -
    have h: "inHand i st" using inHand_stored [OF assms(1) that(1)] that(2) by simp
    obtain done' err i' st' where r: "reconcile io height i st = ((done', err), i', st')" by (metis prod.collapse)
    show ?thesis using reconcile_inHand [OF h r] retryFailed_keeps [of i' st prepare M io height reason requestID] assms(2)
      by (cases done') (auto simp: r)
  qed
  show ?thesis using k r
    by (auto simp: Recover_def Let_def Store_Get_intents [OF assms(1)] split: option.split)
qed

lemma RefreshQueued_keeps:
  assumes "journalOk (ms_db st)"
  shows "keeps st (snd (RefreshQueued M ident height msgs st))
    \<and> ms_sent (snd (RefreshQueued M ident height msgs st)) = ms_sent st"
proof -
  have "keeps st (snd (save j st)) \<and> ms_sent (snd (save j st)) = ms_sent st"
    if "intentAt (ms_db st) ident = Some i" "it_Status i = ''queued''" "it_ID j = it_ID i" "it_Kind j = it_Kind i"
    "it_CaseID j = it_CaseID i" "it_Attempts j = it_Attempts i" "recoveriesExt (it_Recoveries i) (it_Recoveries j)"
    "it_Status j = ''queued''" for i j
    using that by (intro save_keeps inHand_status [OF inHand_stored [OF assms that(1)]]) simp_all
  then show ?thesis using keeps_refl [OF assms]
    by (auto simp: RefreshQueued_def Store_Get_intents [OF assms] split: option.split sum.split)
qed

lemma Enqueue_keeps:
  assumes "journalOk (ms_db st)"
  shows "keeps st (snd (Enqueue M ident kind caseID msgs st))
    \<and> ms_sent (snd (Enqueue M ident kind caseID msgs st)) = ms_sent st"
proof -
  have p: "keeps st (st\<lparr>ms_db := d\<rparr>)" if n: "intentAt (ms_db st) ident = None"
    and d: "Store_Put (ms_db st) ''intents'' ident (IntentRow i) = Inr d"
    and i: "it_ID i = ident" "it_Status i = ''queued''" "it_Attempts i = []" for i d
  proof -
    have d': "Store_Put (ms_db st) ''intents'' (it_ID i) (IntentRow i) = Inr d" using d i(1) by simp
    then have ne: "it_ID i \<noteq> []" by (rule Store_Put_Inr) (simp_all add: primaryName_def)
    have "journalOk d"
      by (rule Store_Put_journalOk [OF d' assms ne]) (use i in \<open>simp_all add: seqChain_def\<close>)
    then show ?thesis using Store_Put_intent [OF d'] i(1) n by (auto simp: keeps_def sends_def journalStep_def)
  qed
  show ?thesis using keeps_refl [OF assms] p
    by (auto simp: Enqueue_def Store_Get_intents [OF assms] zeroIntent_def split: option.split sum.split)
qed

section \<open>Runs\<close>

text \<open>The manager's operations, each with what the outside answers during it.\<close>

datatype ('m, 'r) operation =
    OpEnqueue string string string "'m list"
  | OpStep chainIO u64
  | OpRecover chainIO string u64 string "('m, 'r) preparation" string
  | OpRefresh string u64 "'m list"

fun operationOk :: "('m, 'r) operation \<Rightarrow> bool" where
  "operationOk (OpRecover io ident height reason prepare givenID) = preparesOk prepare"
| "operationOk op = True"

fun runOp :: "'m manager \<Rightarrow> ('m, 'r) operation \<Rightarrow> 'r mstate \<Rightarrow> 'r mstate" where
  "runOp M (OpEnqueue ident kind caseID msgs) st = snd (Enqueue M ident kind caseID msgs st)"
| "runOp M (OpStep io height) st = snd (Step M io height st)"
| "runOp M (OpRecover io ident height reason prepare givenID) st = snd (Recover M io ident height reason prepare givenID st)"
| "runOp M (OpRefresh ident height msgs) st = snd (RefreshQueued M ident height msgs st)"

definition runOps :: "'m manager \<Rightarrow> ('m, 'r) operation list \<Rightarrow> 'r mstate \<Rightarrow> 'r mstate" where
  "runOps M ops st = fold (runOp M) ops st"

lemma runOp_keeps: "journalOk (ms_db st) \<Longrightarrow> operationOk op \<Longrightarrow> keeps st (runOp M op st)"
  by (cases op) (simp_all add: Enqueue_keeps Step_keeps Recover_keeps RefreshQueued_keeps)

lemma runOps_induct:
  assumes "journalOk (ms_db st)" "P st" "\<And>st st'. P st \<Longrightarrow> keeps st st' \<Longrightarrow> P st'" "\<forall>op \<in> set ops. operationOk op"
  shows "P (runOps M ops st)"
proof -
  have "P (runOps M ops st) \<and> journalOk (ms_db (runOps M ops st))"
    using assms(1,2,4)
  proof (induction ops arbitrary: st)
    case (Cons op ops)
    have k: "keeps st (runOp M op st)" by (rule runOp_keeps) (use Cons.prems in simp_all)
    then have "journalOk (ms_db (runOp M op st))" by (simp add: keeps_def)
    with k Cons.IH assms(3) [OF Cons.prems(2) k] Cons.prems(3) show ?case by (simp add: runOps_def)
  qed (simp add: runOps_def)
  then show ?thesis by simp
qed

lemma runOps_journal:
  fixes st :: "'r mstate"
  assumes "journalOk (ms_db st)" "\<forall>op \<in> set ops. operationOk op"
  shows "journalOk (ms_db (runOps M ops st)) \<and> journalStep (ms_db st) (ms_db (runOps M ops st))"
proof (rule runOps_induct [OF assms(1) _ _ assms(2), where P = "\<lambda>st'. journalOk (ms_db st') \<and> journalStep (ms_db st) (ms_db st')"])
  show "journalOk (ms_db st) \<and> journalStep (ms_db st) (ms_db st)" using assms(1) by simp
next
  fix s1 s2 :: "'r mstate"
  assume "journalOk (ms_db s1) \<and> journalStep (ms_db st) (ms_db s1)" "keeps s1 s2"
  then show "journalOk (ms_db s2) \<and> journalStep (ms_db st) (ms_db s2)"
    using journalStep_trans unfolding keeps_def by blast
qed

lemma runOps_sent:
  fixes st :: "'r mstate"
  assumes "journalOk (ms_db st)" "ms_sent st = []" "\<forall>op \<in> set ops. operationOk op"
  shows "\<forall>e \<in> set (ms_sent (runOps M ops st)). durable (fst e) (snd e) \<and> journalStep (snd e) (ms_db (runOps M ops st))"
proof (rule runOps_induct [OF assms(1) _ _ assms(3), where P = "\<lambda>st'. \<forall>e \<in> set (ms_sent st'). durable (fst e) (snd e) \<and> journalStep (snd e) (ms_db st')"])
  show "\<forall>e \<in> set (ms_sent st). durable (fst e) (snd e) \<and> journalStep (snd e) (ms_db st)" using assms(2) by simp
next
  fix s1 s2 :: "'r mstate"
  assume h: "\<forall>e \<in> set (ms_sent s1). durable (fst e) (snd e) \<and> journalStep (snd e) (ms_db s1)" and k: "keeps s1 s2"
  from k have s: "journalStep (ms_db s1) (ms_db s2)" "sends s1 s2" by (simp_all add: keeps_def)
  have old: "\<forall>e \<in> set (ms_sent s1). durable (fst e) (snd e) \<and> journalStep (snd e) (ms_db s2)"
    using h journalStep_trans [OF _ s(1)] by blast
  from s(2) show "\<forall>e \<in> set (ms_sent s2). durable (fst e) (snd e) \<and> journalStep (snd e) (ms_db s2)"
    unfolding sends_def using old by auto
qed

text \<open>A fresh journal.\<close>

lemma Store_Open_fresh: "\<exists>d. Store_Open Map.empty identity = Inr d \<and> journalOk d \<and> (\<forall>k. intentAt d k = None)"
  by (auto simp: Store_Open_def migrateIndexes_def ensureBucket_def Let_def store_simps journalOk_def indexOk_def
      versionOk_def bucketOk_def indexedBy_def rowAt_def intentAt_def indexVersionKey_def)

end
