(* ===== verification/TxProps.thy ===== *)
theory TxProps
  imports TxSpec
begin

text \<open>
  Properties of the signing agent's journal and transaction manager, with a small manager whose
  messages are byte strings for the witnesses.
\<close>

section \<open>A sample manager\<close>

definition sampleOptions :: SignOptions where
  "sampleOptions = \<lparr>so_ChainID = ''g503'', so_PrivateKeyHex = [], so_AccountNumber = 0, so_Sequence = 0,
     so_GasLimit = 200000, so_FeeAmount = [], so_Memo = ''lease''\<rparr>"

definition sampleManager :: "bytes manager" where
  "sampleManager = \<lparr>mg_Options = sampleOptions, mg_RetryInterval = 0, marshalInterface = Some, unmarshalInterface = Some,
     EncodeSignedTx = (\<lambda>o' msgs. Some (concat msgs @ dec_digits (unat (so_Sequence o')))), txMemo = (\<lambda>_. Some ''lease''),
     txHashSum = (\<lambda>bz. bz), sha256Sum = (\<lambda>bz. bz)\<rparr>"

definition sampleJournal :: "nat db" where
  "sampleJournal = (case Store_Open Map.empty ''agent'' of Inr d \<Rightarrow> d | Inl _ \<Rightarrow> Map.empty)"

definition sampleState :: "nat mstate" where
  "sampleState = \<lparr>ms_db = sampleJournal, ms_sent = [], ms_events = []\<rparr>"

text \<open>The outside: nothing on chain yet, the account at sequence 7, every send accepted.\<close>

definition sampleIO :: chainIO where
  "sampleIO = \<lparr>io_LookupTx = (\<lambda>_. Inr \<lparr>tr_Found = False, tr_Height = 0, tr_Code = 0, tr_Codespace = [], tr_Log = [], tr_Tx = []\<rparr>),
     io_Satisfied = (\<lambda>_ _. Inr False), io_AccountAt = (\<lambda>_. Inr \<lparr>ac_Number = 1, ac_Sequence = 7\<rparr>),
     io_BroadcastTxSync = (\<lambda>_. (\<lparr>br_Code = 0, br_Data = [], br_Log = [], br_Hash = [], br_Codespace = []\<rparr>, None)),
     io_BeforeSend = None, io_now = 10, io_nowRetry = 10\<rparr>"

lemma sampleJournal_ok: "journalOk sampleJournal" "intentAt sampleJournal k = None"
proof -
  obtain d :: "nat db" where "Store_Open Map.empty ''agent'' = Inr d" "journalOk d" "\<forall>k. intentAt d k = None"
    using Store_Open_fresh [of "''agent''"] by blast
  then show "journalOk sampleJournal" "intentAt sampleJournal k = None" by (simp_all add: sampleJournal_def)
qed

definition queuedIntent :: Intent where
  "queuedIntent = zeroIntent\<lparr>it_ID := ''vote'', it_Kind := ''vote'', it_CaseID := ''c'', it_Status := ''queued'',
     it_Messages := [''m'']\<rparr>"

definition failedIntent :: Intent where
  "failedIntent = zeroIntent\<lparr>it_ID := ''vote'', it_Kind := ''vote'', it_CaseID := ''c'', it_Status := ''failed'',
     it_Messages := [''m''], it_Attempts := [\<lparr>at_Tx = ''m7'', at_Hash = ''6D37'', at_Sequence = 7, at_Height = 0,
       at_Code = 0, at_Codespace = [], at_CheckCode = 0, at_CheckCodespace = [], at_Resolved = False,
       at_Broadcasts = 1, at_NextBroadcastAt = 0\<rparr>]\<rparr>"

definition stateWith :: "Intent \<Rightarrow> nat mstate" where
  "stateWith i = sampleState\<lparr>ms_db := (case Store_Put sampleJournal ''intents'' (it_ID i) (IntentRow i) of
     Inr d \<Rightarrow> d | Inl _ \<Rightarrow> sampleJournal)\<rparr>"

lemma stateWith_ok:
  assumes "it_ID i \<noteq> []" "statusOk i" "seqChain (it_Attempts i)"
  shows "journalOk (ms_db (stateWith i))" "intentAt (ms_db (stateWith i)) (it_ID i) = Some i"
    "k \<noteq> it_ID i \<Longrightarrow> intentAt (ms_db (stateWith i)) k = None"
proof -
  have "is_ok (activeRow ''intents'' (IntentRow i :: nat row))"
    unfolding activeRow_statusOk [OF assms(2)] by simp
  then have "\<exists>d. Store_Put sampleJournal ''intents'' (it_ID i) (IntentRow i) = Inr d"
    using sampleJournal_ok(1) assms(1) by (intro Store_Put_succeeds) (simp_all add: journalOk_def primaryName_def)
  then obtain d where d: "Store_Put sampleJournal ''intents'' (it_ID i) (IntentRow i) = Inr d" by blast
  then show "journalOk (ms_db (stateWith i))" "intentAt (ms_db (stateWith i)) (it_ID i) = Some i"
    "k \<noteq> it_ID i \<Longrightarrow> intentAt (ms_db (stateWith i)) k = None"
    using sampleJournal_ok(2) Store_Put_journalOk [OF d sampleJournal_ok(1) assms] Store_Put_intent(1) [OF d] by (simp_all add: stateWith_def)
qed

lemma queued_ok: "journalOk (ms_db (stateWith queuedIntent))" "intentAt (ms_db (stateWith queuedIntent)) ''vote'' = Some queuedIntent"
  using stateWith_ok [of queuedIntent] by (simp_all add: queuedIntent_def seqChain_def zeroIntent_def)

lemma failed_ok: "journalOk (ms_db (stateWith failedIntent))" "intentAt (ms_db (stateWith failedIntent)) ''vote'' = Some failedIntent"
  using stateWith_ok [of failedIntent] by (simp_all add: failedIntent_def seqChain_def zeroIntent_def)

definition feeAttempt :: Attempt where
  "feeAttempt = \<lparr>at_Tx = ''m7'', at_Hash = ''6D37'', at_Sequence = 7, at_Height = 0,
       at_Code = 0, at_Codespace = [], at_CheckCode = 13, at_CheckCodespace = ''sdk'', at_Resolved = False,
       at_Broadcasts = 1, at_NextBroadcastAt = 0\<rparr>"

definition feeIntent :: Intent where
  "feeIntent = failedIntent\<lparr>it_Attempts := [feeAttempt]\<rparr>"

definition feeRetried :: Intent where
  "feeRetried = feeIntent\<lparr>it_Attempts := [feeAttempt\<lparr>at_Resolved := True\<rparr>], it_Status := ''queued'',
     it_Recoveries := [\<lparr>rc_RequestID = ''r1'', rc_Height = 5, rc_Reason = ''gas price'', rc_PreviousError = [],
       rc_PreviousMessages = [''m'']\<rparr>]\<rparr>"

lemma fee_ok: "journalOk (ms_db (stateWith feeIntent))" "intentAt (ms_db (stateWith feeIntent)) ''vote'' = Some feeIntent"
  using stateWith_ok [of feeIntent] by (simp_all add: feeIntent_def failedIntent_def seqChain_def zeroIntent_def)

lemmas agent_sample_defs = feeAttempt_def feeIntent_def failedIntent_def feeRetried_def zeroIntent_def sampleManager_def sampleOptions_def
  sampleIO_def

section \<open>Progress\<close>

lemma broadcastAttempt_sends:
  assumes "inHand i st" "\<not> final i" "it_Attempts i \<noteq> []" "at_NextBroadcastAt (last (it_Attempts i)) \<le> io_now io"
    "io_BeforeSend io = None" "io_BroadcastTxSync io (at_Tx (last (it_Attempts i))) = (result, None)"
  shows "\<exists>st' d j. broadcastAttempt M io i st = (None, st') \<and> ms_sent st' = ms_sent st @ [(at_Tx (last (it_Attempts i)), d)]
    \<and> intentAt (ms_db st') (it_ID i) = Some j \<and> it_Status j = it_Status i
    \<and> map at_Tx (it_Attempts j) = map at_Tx (it_Attempts i)"
proof -
  define f where "f a = a\<lparr>at_NextBroadcastAt := io_nowRetry io + (if mg_RetryInterval M = 0 then 2000000000 else mg_RetryInterval M),
    at_Broadcasts := at_Broadcasts a + 1\<rparr>" for a :: Attempt
  define i1 where "i1 = onLast f i"
  have h1: "inHand i1 st" unfolding i1_def by (intro inHand_onLast [OF assms(1,3)]) (simp add: f_def attemptExt_def)
  have f1: "\<not> final i1" using assms(2) by (simp add: i1_def final_def)
  obtain s1 where s1: "save i1 st = (None, s1)" "ms_sent s1 = ms_sent st" "inHand i1 s1" using h1 f1 by (metis save_inHand)
  have tx: "at_Tx (last (it_Attempts i1)) = at_Tx (last (it_Attempts i))" by (simp add: i1_def f_def)
  define s2 where "s2 = s1\<lparr>ms_sent := ms_sent s1 @ [(at_Tx (last (it_Attempts i)), ms_db s1)]\<rparr>"
  have h1': "inHand i1 s2" using s1(3) by (simp add: inHand_def s2_def)
  have "statusOk i1" using h1' by (simp add: inHand_def)
  then have "inHand (i1\<lparr>it_LastError := []\<rparr>) s2" by (intro inHand_status [OF h1']) (simp_all add: statusOk_def final_def)
  then obtain s3 where s3: "save (i1\<lparr>it_LastError := []\<rparr>) s2 = (None, s3)" "ms_sent s3 = ms_sent s2"
    "intentAt (ms_db s3) (it_ID (i1\<lparr>it_LastError := []\<rparr>)) = Some (i1\<lparr>it_LastError := []\<rparr>)" by (rule save_inHand)
  have "broadcastAttempt M io i st = (None, s3)"
    using assms(4-6) s1(1) s3(1)
    by (simp add: broadcastAttempt_def Let_def f_def [abs_def, symmetric] i1_def [symmetric] tx s2_def [symmetric])
  moreover have "map at_Tx (it_Attempts i1) = map at_Tx (it_Attempts i)"
  proof -
    have "map at_Tx (it_Attempts i1) = map at_Tx (butlast (it_Attempts i) @ [last (it_Attempts i)])"
      by (simp add: i1_def onLast_def f_def)
    then show ?thesis using assms(3) by simp
  qed
  ultimately show ?thesis using s3(2,3) s1(2) by (intro exI [of _ s3] exI [of _ "ms_db s1"] exI [of _ "i1\<lparr>it_LastError := []\<rparr>"])
    (simp add: s2_def i1_def)
qed

lemma queued_first_sent:
  assumes "journalOk (ms_db st)" "ListActive (ms_db st) ''intents'' = Inr (IntentRow i # rows)"
    and i: "it_Status i = ''queued''" "it_Attempts i = []"
    and io: "io_Satisfied io i height = Inr False" "io_AccountAt io height = Inr account" "io_BeforeSend io = None" "0 \<le> io_now io"
    and M: "unmarshalMessages M (it_Messages i) = Some msgs"
      "EncodeSignedTx M ((mg_Options M)\<lparr>so_AccountNumber := ac_Number account, so_Sequence := ac_Sequence account\<rparr>) msgs = Some bz"
      "io_BroadcastTxSync io bz = (result, None)"
  shows "\<exists>st' d j. Step M io height st = (None, st') \<and> ms_sent st' = ms_sent st @ [(bz, d)]
    \<and> intentAt (ms_db st') (it_ID i) = Some j \<and> it_Status j = ''pending'' \<and> map at_Tx (it_Attempts j) = [bz]"
proof -
  obtain rows' where r: "ListActive (ms_db st) ''intents'' = Inr rows'"
    "\<forall>row \<in> set rows'. \<exists>i. row = IntentRow i \<and> intentAt (ms_db st) (it_ID i) = Some i \<and> \<not> final i"
    using assms(1) by (rule ListActive_intents)
  moreover from this(1) assms(2) have "rows' = IntentRow i # rows" by simp
  ultimately have m: "intentAt (ms_db st) (it_ID i) = Some i" by simp
  have h: "inHand i st" using inHand_stored [OF assms(1) m] i(1) by simp
  obtain j where j: "signAttempt M account i = Inr j" "it_ID j = it_ID i" "it_Status j = ''pending''"
    "map at_Tx (it_Attempts j) = [bz]" "at_NextBroadcastAt (last (it_Attempts j)) = 0" "at_Tx (last (it_Attempts j)) = bz"
    using M i(2) by (simp add: signAttempt_def)
  have hj: "inHand j st" "\<not> final j" "it_Attempts j \<noteq> []" using signAttempt_inHand [OF h j(1)] i(2) by simp_all
  have q: "requeueFenced M height i = i" using i(2) by (simp add: requeueFenced_def)
  have "Step M io height st = broadcastAttempt M io j st"
    using assms(2) i io(1,2) j(1) by (simp add: Step_def stepIntent_def lookupLast_def advance_def q Terminal_def Let_def)
  with broadcastAttempt_sends [OF hj, of io result M] io j M(3) show ?thesis by auto
qed

lemma stateWith_first:
  assumes "it_ID i \<noteq> []" "statusOk i" "seqChain (it_Attempts i)" "\<not> final i"
  shows "\<exists>rows. ListActive (ms_db (stateWith i)) ''intents'' = Inr (IntentRow i # rows)"
proof -
  note ok = stateWith_ok [OF assms(1-3)]
  have "bucketOk (ms_db (stateWith i)) ''intents''" using ok(1) by (simp add: journalOk_def indexOk_def)
  from ListActive_set [OF this] obtain rows where r: "ListActive (ms_db (stateWith i)) ''intents'' = Inr rows"
    "set rows = {row. \<exists>k. rowAt (ms_db (stateWith i)) ''intents'' k = Some row \<and> liveRow ''intents'' row}"
    by (auto simp: primaryName_def)
  have only: "row = IntentRow i" if "rowAt (ms_db (stateWith i)) ''intents'' k = Some row" for k and row :: "nat row"
  proof -
    from that ok(1) obtain j where "row = IntentRow j" unfolding journalOk_def by blast
    with that ok(2) ok(3) [of k] show ?thesis by (cases "k = it_ID i") (auto simp: intentAt_def)
  qed
  have "liveRow ''intents'' (IntentRow i :: nat row)" unfolding liveRow_def activeRow_statusOk [OF assms(2)] using assms(4) by simp
  then have "set rows = {IntentRow i}" unfolding r(2) using only ok(2) unfolding intentAt_rowAt by blast
  then obtain rs where "rows = IntentRow i # rs" by (cases rows) auto
  with r(1) show ?thesis by blast
qed

lemma queued_first: "\<exists>rows. ListActive (ms_db (stateWith queuedIntent)) ''intents'' = Inr (IntentRow queuedIntent # rows)"
  by (rule stateWith_first) (simp_all add: queuedIntent_def seqChain_def zeroIntent_def)

lemma sample_sends:
  "\<exists>st' d j. Step sampleManager sampleIO 5 (stateWith queuedIntent) = (None, st') \<and> ms_sent st' = [(''m7'', d)]
    \<and> intentAt (ms_db st') ''vote'' = Some j \<and> it_Status j = ''pending'' \<and> map at_Tx (it_Attempts j) = [''m7'']"
proof -
  obtain rows where r: "ListActive (ms_db (stateWith queuedIntent)) ''intents'' = Inr (IntentRow queuedIntent # rows)"
    using queued_first by blast
  have d: "dec_digits 7 = ''7''" by code_simp
  have "\<exists>st' d j. Step sampleManager sampleIO 5 (stateWith queuedIntent) = (None, st')
    \<and> ms_sent st' = ms_sent (stateWith queuedIntent) @ [(''m7'', d)]
    \<and> intentAt (ms_db st') (it_ID queuedIntent) = Some j \<and> it_Status j = ''pending'' \<and> map at_Tx (it_Attempts j) = [''m7'']"
    by (rule queued_first_sent [OF queued_ok(1) r, where account = "\<lparr>ac_Number = 1, ac_Sequence = 7\<rparr>" and msgs = "[''m'']"
        and result = "\<lparr>br_Code = 0, br_Data = [], br_Log = [], br_Hash = [], br_Codespace = []\<rparr>"])
       (simp_all add: queuedIntent_def agent_sample_defs d)
  then show ?thesis by (simp add: queuedIntent_def zeroIntent_def stateWith_def sampleState_def)
qed

section \<open>The journal\<close>

text \<open>
  Nothing signed is forgotten. Whatever operations run on a journal in order, and whatever the
  chain answers, the journal stays in order (its index exact; an attempt of unknown outcome followed
  only by one with a later sequence), every intent keeps its identity, its signed attempts and its
  recoveries, and one that was confirmed, satisfied or cancelled never changes again.
\<close>

lemma journal_history_kept:
  assumes "journalOk (ms_db st)" "\<forall>op \<in> set ops. operationOk op"
  shows "journalOk (ms_db (runOps M ops st)) \<and> (\<forall>k i. intentAt (ms_db st) k = Some i \<longrightarrow>
    (\<exists>j. intentAt (ms_db (runOps M ops st)) k = Some j \<and> intentExt i j \<and> (final i \<longrightarrow> j = i)))"
  using runOps_journal [OF assms] unfolding journalStep_def by blast

text \<open>
  No lost broadcast. Every byte string a run hands to the network was, at that moment, already on
  disk as the last signed attempt of an unfinished intent, and that attempt is still on disk at the
  end of the run.
\<close>

lemma sent_bytes_durable:
  assumes "journalOk (ms_db st)" "ms_sent st = []" "(tx, d) \<in> set (ms_sent (runOps M ops st))"
    "\<forall>op \<in> set ops. operationOk op"
  shows "durable tx d \<and> (\<exists>k i. intentAt (ms_db (runOps M ops st)) k = Some i \<and> tx \<in> at_Tx ` set (it_Attempts i))"
proof -
  from runOps_sent [OF assms(1,2,4)] assms(3) have d: "durable tx d" "journalStep d (ms_db (runOps M ops st))" by force+
  with durable_kept show ?thesis by blast
qed

section \<open>Recovery\<close>

text \<open>Two preparations: one builds a message, one finds the intent obsolete.\<close>

definition sampleRetry :: "(string, 'r) preparation" where
  "sampleRetry i st = (Inr [''m''], st)"

definition obsoleteRetry :: "(string, 'r) preparation" where
  "obsoleteRetry i st = (Inl ErrObsolete, st)"

lemma sampleRetry_ok: "preparesOk sampleRetry" "preparesOk obsoleteRetry"
  by (simp_all add: preparesOk_def intentsKept_def sampleRetry_def obsoleteRetry_def)

lemma priorRecovery_None: "priorRecovery q rs = None \<Longrightarrow> rc_RequestID r = q \<Longrightarrow> priorRecovery q (rs @ [r]) = Some r"
  by (induction q rs rule: priorRecovery.induct) (auto split: if_splits)

lemma retryFailed_None:
  assumes "retryFailed M io height reason requestID prepare i st = (None, st')"
  shows "\<exists>j st0. save j st0 = (None, st') \<and> it_ID j = it_ID i
    \<and> ((it_Status j = ''cancelled'' \<and> it_Recoveries j = it_Recoveries i)
      \<or> (\<exists>r. it_Recoveries j = it_Recoveries i @ [r] \<and> rc_RequestID r = requestID \<and> rc_Reason r = reason))"
  using assms unfolding retryFailed_def Let_def
  by (auto split: if_splits sum.splits prod.splits)

lemma save_None:
  assumes "save i st = (None, st')"
  shows "intentAt (ms_db st') (it_ID i) = Some i"
  using assms Store_Put_intent(1) by (fastforce simp: save_def split: sum.splits)

text \<open>What a recovery that succeeded leaves: a later one with the same request finds it done.\<close>

lemma Recover_done:
  assumes ok: "journalOk (ms_db st)" "journalOk (ms_db st')"
    and i: "intentAt (ms_db st') ident = Some i"
    and reason: "\<not> isBlank reason" "length reason \<le> 1024" "length (if givenID \<noteq> [] then givenID else hexEncode (sha256Sum M reason)) \<le> 128"
    and d: "case priorRecovery (if givenID \<noteq> [] then givenID else hexEncode (sha256Sum M reason)) (it_Recoveries i) of
      Some r \<Rightarrow> rc_Reason r = reason | None \<Rightarrow> final i"
  shows "Recover M io ident height reason prepare givenID st' = (None, st')"
  using reason d i
  by (auto simp: Recover_def Let_def Store_Get_intents [OF ok(2)] final_def Terminal_def split: option.splits if_splits)

text \<open>
  Recovery is idempotent. When a recovery request succeeded, the same request again - under
  whatever the chain answers then - succeeds and changes nothing, so an operator may repeat it
  after a crash without starting a second retry.
\<close>

lemma recover_idempotent:
  assumes "journalOk (ms_db st)" "Recover M io ident height reason prepare givenID st = (None, st')" "preparesOk prepare"
  shows "Recover M io' ident height' reason prepare' givenID st' = (None, st')"
proof -
  let ?q = "if givenID \<noteq> [] then givenID else hexEncode (sha256Sum M reason)"
  have ok': "journalOk (ms_db st')" using Recover_keeps [OF assms(1,3), of M io ident height reason givenID] assms(2)
    by (simp add: keeps_def)
  from assms(2) have reason: "\<not> isBlank reason" "length reason \<le> 1024" "length ?q \<le> 128"
    by (auto simp: Recover_def Let_def split: if_splits)
  from assms(2) reason obtain i where i: "intentAt (ms_db st) ident = Some i"
    by (auto simp: Recover_def Let_def Store_Get_intents [OF assms(1)] split: option.splits)
  have done': "Recover M io' ident height' reason prepare' givenID st' = (None, st')"
    if "intentAt (ms_db st') ident = Some j" "case priorRecovery ?q (it_Recoveries j) of Some r \<Rightarrow> rc_Reason r = reason | None \<Rightarrow> final j" for j
    using Recover_done [where M = M, OF assms(1) ok' that(1) reason that(2)] .
  show ?thesis
  proof (cases "priorRecovery ?q (it_Recoveries i) \<noteq> None \<or> it_Status i \<noteq> ''failed''")
    case True
    then have "st' = st" "case priorRecovery ?q (it_Recoveries i) of Some r \<Rightarrow> rc_Reason r = reason | None \<Rightarrow> final i"
      using assms(2) reason i
      by (auto simp: Recover_def Let_def Store_Get_intents [OF assms(1)] Terminal_def final_def split: option.splits if_splits)
    with done' i show ?thesis by simp
  next
    case False
    have h: "inHand i st" using inHand_stored [OF assms(1) i] False by simp
    have id: "it_ID i = ident" using journalOk_intent(1) [OF assms(1) i] .
    obtain done1 err i1 st1 where r: "reconcile io height i st = ((done1, err), i1, st1)" by (metis prod.collapse)
    note k = reconcile_inHand [OF h r]
    have rec: "it_Recoveries i1 = it_Recoveries i" using r by (rule reconcile_cases) simp_all
    show ?thesis
    proof (cases done1)
      case True
      with assms(2) reason i r False have "st' = st1"
        by (auto simp: Recover_def Let_def Store_Get_intents [OF assms(1)] Terminal_def)
      with True k have "intentAt (ms_db st') ident = Some i1" "final i1" by (simp_all add: id)
      moreover have "priorRecovery ?q (it_Recoveries i1) = None" using False rec by simp
      ultimately show ?thesis using done' [of i1] by simp
    next
      case False': False
      with assms(2) reason i r k False have "retryFailed M io height reason ?q prepare i1 st = (None, st')"
        by (auto simp: Recover_def Let_def Store_Get_intents [OF assms(1)] Terminal_def split: if_splits)
      from retryFailed_None [OF this] obtain j st0 where j: "save j st0 = (None, st')" "it_ID j = it_ID i1"
        "(it_Status j = ''cancelled'' \<and> it_Recoveries j = it_Recoveries i1)
          \<or> (\<exists>r. it_Recoveries j = it_Recoveries i1 @ [r] \<and> rc_RequestID r = ?q \<and> rc_Reason r = reason)" by blast
      have jd: "intentAt (ms_db st') ident = Some j" using save_None [OF j(1)] j(2) k False' id by simp
      from j(3) show ?thesis
      proof
        assume c: "it_Status j = ''cancelled'' \<and> it_Recoveries j = it_Recoveries i1"
        then show ?thesis using False rec by (intro done' [OF jd]) (simp add: final_def)
      next
        assume "\<exists>r. it_Recoveries j = it_Recoveries i1 @ [r] \<and> rc_RequestID r = ?q \<and> rc_Reason r = reason"
        then obtain r where "it_Recoveries j = it_Recoveries i1 @ [r]" "rc_RequestID r = ?q" "rc_Reason r = reason" by blast
        then show ?thesis using False rec priorRecovery_None [of ?q "it_Recoveries i" r] by (intro done' [OF jd]) simp
      qed
    qed
  qed
qed

lemma reconcileAttempts_unknown:
  assumes "a \<in> set as" "io_LookupTx io (at_Hash a) = Inr r" "\<not> tr_Found r"
  shows "a \<in> set (snd (reconcileAttempts io height as))"
  using assms by (induction as) (auto simp: Let_def split: sum.split prod.split)

lemma settleAttempts_unknown:
  assumes "a \<in> set as" "\<not> at_Resolved a" "at_CheckCode a = 0" "ac_Sequence account \<le> at_Sequence a"
  shows "\<exists>e. settleAttempts account as = Inl e"
  using assms by (induction as) (auto split: sum.split)

lemma retryFailed_blocked:
  assumes "a \<in> set (it_Attempts i)" "\<not> at_Resolved a" "at_CheckCode a = 0"
    "\<And>account. io_AccountAt io height = Inr account \<Longrightarrow> ac_Sequence account \<le> at_Sequence a"
  shows "snd (retryFailed M io height reason q prepare i st) = st"
  using settleAttempts_unknown [OF assms(1-3)] assms(4)
  by (fastforce simp: retryFailed_def split: sum.split)

text \<open>
  C27. Unknown outcomes stay blocked. While an attempt of a failed intent is neither found on the chain
  nor refused by it, and the account has not used up its sequence, a recovery never queues the
  intent again: it leaves the intent as it was, or finds it done.
\<close>

theorem uncertain_attempt_blocks:
  assumes "journalOk (ms_db st)" "intentAt (ms_db st) ident = Some i"
    and a: "a \<in> set (it_Attempts i)" "\<not> at_Resolved a" "at_CheckCode a = 0"
    and look: "io_LookupTx io (at_Hash a) = Inr r" "\<not> tr_Found r"
    and "seq": "\<And>account. io_AccountAt io height = Inr account \<Longrightarrow> ac_Sequence account \<le> at_Sequence a"
  shows "\<exists>j. intentAt (ms_db (snd (Recover M io ident height reason prepare givenID st))) ident = Some j \<and> (j = i \<or> final j)"
proof -
  have f: "\<exists>j. intentAt (ms_db (snd (case reconcile io height i st of ((done', err), i', st') \<Rightarrow>
              if done' \<or> (err \<noteq> None \<and> err \<noteq> Some ErrReevaluationRequired) then (err, st')
              else retryFailed M io height reason q prepare i' st'))) ident = Some j \<and> (j = i \<or> final j)"
    if s: "it_Status i = ''failed''" for q
  proof -
    have h: "inHand i st" using inHand_stored [OF assms(1,2)] s by simp
    have id: "it_ID i = ident" using journalOk_intent(1) [OF assms(1,2)] .
    obtain done' err i' st' where r: "reconcile io height i st = ((done', err), i', st')" by (metis prod.collapse)
    note k = reconcile_inHand [OF h r]
    show ?thesis
    proof (cases "done' \<or> (err \<noteq> None \<and> err \<noteq> Some ErrReevaluationRequired)")
      case True
      then show ?thesis using k id assms(2) by (cases done') (auto simp: r)
    next
      case False
      have n: "\<not> done'" using k False by (auto split: if_splits)
      with k have st: "st' = st" by simp
      have "a \<in> set (it_Attempts i')"
        using r by (rule reconcile_cases) (use reconcileAttempts_unknown [OF a(1) look] n in auto)
      then have "snd (retryFailed M io height reason q prepare i' st) = st" by (rule retryFailed_blocked [OF _ a(2,3) "seq"])
      then show ?thesis using False assms(2) st by (simp add: r)
    qed
  qed
  show ?thesis using f assms(2)
    by (auto simp: Recover_def Let_def Store_Get_intents [OF assms(1)] split: option.split)
qed

theorem uncertain_attempt_blocks_witness:
  "\<exists>j. intentAt (ms_db (snd (Recover sampleManager sampleIO ''vote'' 5 ''gas price'' sampleRetry ''r1''
     (stateWith failedIntent)))) ''vote'' = Some j \<and> (j = failedIntent \<or> final j)"
  by (rule uncertain_attempt_blocks [OF failed_ok, where a = "hd (it_Attempts failedIntent)" and r = "case io_LookupTx sampleIO [] of Inr r \<Rightarrow> r"])
     (simp_all add: failedIntent_def sampleIO_def)

section \<open>Progress of a queued intent\<close>

text \<open>
  C28. A queued intent gets out. When the first unfinished intent is queued without an attempt, still
  wanted, and the outside answers, one step signs it with the account's current number and sequence,
  sends exactly those bytes, and leaves it pending with that one attempt.
\<close>

theorem queued_intent_sent:
  assumes "journalOk (ms_db st)" "ListActive (ms_db st) ''intents'' = Inr (IntentRow i # rows)"
    and i: "it_Status i = ''queued''" "it_Attempts i = []"
    and io: "io_Satisfied io i height = Inr False" "io_AccountAt io height = Inr account" "io_BeforeSend io = None" "0 \<le> io_now io"
    and M: "unmarshalMessages M (it_Messages i) = Some msgs"
      "EncodeSignedTx M ((mg_Options M)\<lparr>so_AccountNumber := ac_Number account, so_Sequence := ac_Sequence account\<rparr>) msgs = Some bz"
      "io_BroadcastTxSync io bz = (result, None)"
  shows "\<exists>st' d j. Step M io height st = (None, st') \<and> ms_sent st' = ms_sent st @ [(bz, d)]
    \<and> intentAt (ms_db st') (it_ID i) = Some j \<and> it_Status j = ''pending'' \<and> map at_Tx (it_Attempts j) = [bz]"
  using queued_first_sent [OF assms] .

theorem queued_intent_sent_witness:
  "\<exists>st' d j. Step sampleManager sampleIO 5 (stateWith queuedIntent) = (None, st') \<and> ms_sent st' = [(''m7'', d)]
    \<and> intentAt (ms_db st') ''vote'' = Some j \<and> it_Status j = ''pending'' \<and> map at_Tx (it_Attempts j) = [''m7'']"
proof -
  obtain rows where r: "ListActive (ms_db (stateWith queuedIntent)) ''intents'' = Inr (IntentRow queuedIntent # rows)"
    using queued_first by blast
  have d: "dec_digits 7 = ''7''" by code_simp
  have "\<exists>st' d j. Step sampleManager sampleIO 5 (stateWith queuedIntent) = (None, st')
    \<and> ms_sent st' = ms_sent (stateWith queuedIntent) @ [(''m7'', d)]
    \<and> intentAt (ms_db st') (it_ID queuedIntent) = Some j \<and> it_Status j = ''pending'' \<and> map at_Tx (it_Attempts j) = [''m7'']"
    by (rule queued_intent_sent [OF queued_ok(1) r, where account = "\<lparr>ac_Number = 1, ac_Sequence = 7\<rparr>" and msgs = "[''m'']"
        and result = "\<lparr>br_Code = 0, br_Data = [], br_Log = [], br_Hash = [], br_Codespace = []\<rparr>"])
       (simp_all add: queuedIntent_def agent_sample_defs d)
  then show ?thesis by (simp add: queuedIntent_def zeroIntent_def stateWith_def sampleState_def)
qed

section \<open>Offline validation\<close>

text \<open>
  Offline validation is exact. On a versioned journal, \<open>validateIndexes\<close> accepts precisely when
  both index buckets name exactly the unfinished rows of their primary buckets.
\<close>

lemma validateIndexes_exact:
  assumes "d ''meta'' = Some meta" "kv_get meta indexVersionKey \<noteq> None"
  shows "validateIndexes d = Inr () \<longleftrightarrow> indexOk d"
proof -
  have b: "validateBuckets (bucket # bs) d = Inr () \<longleftrightarrow> bucketOk d bucket \<and> validateBuckets bs d = Inr ()" for bucket bs
    using validate_indexedBy [of bucket "the (d (activeIndex bucket))" "the (d bucket)"]
    by (auto simp: bucketOk_def bind_r_Inr_iff split: option.split)
  show ?thesis using assms b [of "''intents''" "[''work'']"] b [of "''work''" "[]"]
    by (cases "kv_get meta indexVersionKey = Some (RawRow journalIndexVersion)")
       (auto simp: validateIndexes_def indexOk_def versionOk_def simp del: validateBuckets.simps(2))
qed

end
