(* ===== verification/ChainClient.thy ===== *)
theory ChainClient
  imports TxManager
begin

text \<open>
  The agent's RPC client: dev/agent/internal/chainclient/client.go and query.go. HTTP and JSON are
  outside: an answer is what the transport and the decoder give, \<open>None\<close> where the JSON does not
  unmarshal into the wire struct. Every check the client makes on an answer is here.
\<close>

text \<open>Errors of one RPC call: the node's JSON-RPC error, or any other.\<close>

datatype rpcError = RPCError int string string | OtherError aerror

text \<open>Errors of \<open>Query\<close>: a \<open>*QueryError\<close>, or any other.\<close>

datatype queryError = QueryError u32 string | OtherQuery aerror

definition formatInt :: "int \<Rightarrow> string" where
  "formatInt n = (if n < 0 then ''-'' @ dec_digits (nat (- n)) else dec_digits (nat n))"

definition plain :: "rpcError \<Rightarrow> aerror" where
  "plain e = (case e of OtherError a \<Rightarrow> a | RPCError code msg data \<Rightarrow> AExternal (''rpc error '' @ formatInt code @ '': '' @ msg @ '': '' @ data))"

definition plainQuery :: "queryError \<Rightarrow> aerror" where
  "plainQuery e = (case e of OtherQuery a \<Rightarrow> a | QueryError code log \<Rightarrow> AExternal (''ABCI query code='' @ dec_digits (unat code) @ '': '' @ log))"

text \<open>
  \<open>strings.EqualFold\<close>. It is only used here with one side made of hex digits or of the fixed text
  of a node's message, whose letters have no folding outside ASCII (only k and s have one).
\<close>

definition equalFold :: "string \<Rightarrow> string \<Rightarrow> bool" where
  "equalFold a b = (toUpper a = toUpper b)"

fun containsStr :: "string \<Rightarrow> string \<Rightarrow> bool" where
  "containsStr [] sub = (sub = [])"
| "containsStr (c # s) sub = (hasPrefix (c # s) sub \<or> containsStr s sub)"

definition validHash :: "string \<Rightarrow> bool" where
  "validHash v = (case hexDecode v of None \<Rightarrow> False | Some bz \<Rightarrow> length bz = 32)"

section \<open>One call (client.go)\<close>

text \<open>The JSON-RPC envelope; a missing or \<open>null\<close> result is \<open>None\<close>.\<close>

record 'w RPCResponse =
  rr_JSONRPC :: string
  rr_ID :: u64
  rr_Result :: "'w option"
  rr_Error :: "(int \<times> string \<times> string) option"

record 'w httpAnswer =
  ha_Transport :: "string option"
  ha_StatusCode :: int
  ha_Body :: "'w RPCResponse option"

text \<open>\<open>rpc\<close> on a plain client; \<open>nextID\<close> is the client's counter before the call.\<close>

definition rpc :: "u64 \<Rightarrow> 'w httpAnswer \<Rightarrow> (rpcError + 'w) \<times> u64" where
  "rpc nextID ans = (let ident = nextID + 1 in
     (case ha_Transport ans of Some e \<Rightarrow> Inl (OtherError (AExternal e)) | None \<Rightarrow>
      if ha_StatusCode ans < 200 \<or> ha_StatusCode ans \<ge> 300 then Inl (OtherError (AErr ''rpc returned''))
      else case ha_Body ans of None \<Rightarrow> Inl (OtherError (AExternal ''json'')) | Some r \<Rightarrow>
      if rr_JSONRPC r \<noteq> ''2.0'' \<or> rr_ID r \<noteq> ident
      then Inl (OtherError (AErr ''rpc response version or id does not match request''))
      else case rr_Error r of Some (code, msg, data) \<Rightarrow> Inl (RPCError code msg data) | None \<Rightarrow>
      case rr_Result r of None \<Rightarrow> Inl (OtherError (AErr ''rpc response is missing a result''))
      | Some w \<Rightarrow> Inr w, ident))"

text \<open>Unmarshalling the result of a call into the wire struct.\<close>

definition unmarshalTo :: "rpcError + 'w option \<Rightarrow> aerror + 'w" where
  "unmarshalTo ans = (case ans of Inl e \<Rightarrow> Inl (plain e)
     | Inr None \<Rightarrow> Inl (AExternal ''json'') | Inr (Some w) \<Rightarrow> Inr w)"

definition CurrentHeight :: "rpcError + string option \<Rightarrow> aerror + u64" where
  "CurrentHeight ans = bind_r (unmarshalTo ans) (\<lambda>h. case parseUint64 h of
     None \<Rightarrow> Inl (AErr ''invalid chain height'') | Some n \<Rightarrow> Inr n)"

definition zeroBroadcast :: BroadcastResult where
  "zeroBroadcast = \<lparr>br_Code = 0, br_Data = [], br_Log = [], br_Hash = [], br_Codespace = []\<rparr>"

text \<open>The acknowledgement: the decoded result, and whether it has a \<open>code\<close> at all.\<close>

definition BroadcastTxSync ::
    "(bytes \<Rightarrow> bytes) \<Rightarrow> bytes \<Rightarrow> rpcError + (BroadcastResult \<times> bool) option \<Rightarrow> BroadcastResult \<times> aerror option" where
  "BroadcastTxSync hashSum tx ans = (case unmarshalTo ans of
     Inl e \<Rightarrow> (zeroBroadcast, Some e)
   | Inr (result, hasCode) \<Rightarrow>
       if \<not> hasCode then (result, Some (AErr ''broadcast response is missing a result code''))
       else if br_Code result \<noteq> 0
       then (result, Some (AErr (''broadcast failed code='' @ dec_digits (unat (br_Code result)) @ '' log='' @ br_Log result)))
       else if hexDecode (br_Hash result) \<noteq> Some (hashSum tx)
       then (result, Some (AErr ''broadcast response hash does not match submitted tx''))
       else (result, None))"

section \<open>Reads (query.go)\<close>

text \<open>Times are nanoseconds since Go's zero time, so \<open>IsZero\<close> is 0.\<close>

record Status =
  ss_ChainID :: string
  ss_Height :: u64
  ss_BlockHash :: string
  ss_BlockTime :: int
  ss_CatchingUp :: bool
  ss_syncKnown :: bool

record statusWire =
  sw_Network :: string
  sw_Height :: string
  sw_Hash :: string
  sw_Time :: int
  sw_CatchingUp :: "bool option"

definition StatusOf :: "rpcError + statusWire option \<Rightarrow> aerror + Status" where
  "StatusOf ans = bind_r (unmarshalTo ans) (\<lambda>w.
     case parseUint64 (sw_Height w) of None \<Rightarrow> Inl (AErr ''invalid node status'') | Some h \<Rightarrow>
     if sw_Network w = [] then Inl (AErr ''invalid node status'')
     else Inr \<lparr>ss_ChainID = sw_Network w, ss_Height = h, ss_BlockHash = sw_Hash w, ss_BlockTime = sw_Time w,
       ss_CatchingUp = (case sw_CatchingUp w of None \<Rightarrow> False | Some b \<Rightarrow> b), ss_syncKnown = (sw_CatchingUp w \<noteq> None)\<rparr>)"

record abciWire =
  aw_Code :: u32
  aw_Log :: string
  aw_Value :: bytes
  aw_Height :: string

definition Query :: "u64 \<Rightarrow> rpcError + abciWire option option \<Rightarrow> queryError + bytes" where
  "Query height ans = (case unmarshalTo ans of
     Inl e \<Rightarrow> Inl (OtherQuery e)
   | Inr None \<Rightarrow> Inl (OtherQuery (AErr ''query missing response''))
   | Inr (Some r) \<Rightarrow>
       if aw_Code r \<noteq> 0 then Inl (QueryError (aw_Code r) (aw_Log r))
       else if height \<noteq> 0 \<and> aw_Height r \<noteq> formatUint height then Inl (OtherQuery (AErr ''query height mismatch''))
       else Inr (aw_Value r))"

text \<open>The account's protobuf decoding is the SDK's: \<open>None\<close> for an error, \<open>Some None\<close> for no account.\<close>

definition AccountAt :: "(bytes \<Rightarrow> Account option option) \<Rightarrow> u64 \<Rightarrow> rpcError + abciWire option option \<Rightarrow> aerror + Account" where
  "AccountAt unpackAccount height ans = (case Query height ans of
     Inl e \<Rightarrow> Inl (plainQuery e)
   | Inr bz \<Rightarrow> (case unpackAccount bz of
       None \<Rightarrow> Inl (AExternal ''unmarshal'')
     | Some None \<Rightarrow> Inl (AErr ''account not found'')
     | Some (Some a) \<Rightarrow> Inr a))"

record txWire =
  tw_Hash :: string
  tw_Height :: string
  tw_Result :: "(u32 option \<times> string \<times> string) option"
  tw_Tx :: bytes

definition zeroTxResult :: TxResult where
  "zeroTxResult = \<lparr>tr_Found = False, tr_Height = 0, tr_Code = 0, tr_Codespace = [], tr_Log = [], tr_Tx = []\<rparr>"

definition notFound :: "string \<Rightarrow> rpcError \<Rightarrow> bool" where
  "notFound hash e = (case e of RPCError code msg data \<Rightarrow> code = -32603 \<and> equalFold data (''tx ('' @ hash @ '') not found'')
     | OtherError a \<Rightarrow> False)"

definition LookupTx :: "(bytes \<Rightarrow> bytes) \<Rightarrow> string \<Rightarrow> rpcError + txWire option \<Rightarrow> aerror + TxResult" where
  "LookupTx hashSum hash ans =
     (if \<not> validHash hash then Inl (AErr ''invalid tx hash'')
      else case ans of
        Inl e \<Rightarrow> if notFound hash e then Inr zeroTxResult else Inl (plain e)
      | Inr None \<Rightarrow> Inl (AExternal ''json'')
      | Inr (Some w) \<Rightarrow> (case (parseUint64 (tw_Height w), tw_Result w) of
          (Some h, Some (Some code, log, codespace)) \<Rightarrow>
            if h = 0 \<or> \<not> equalFold hash (tw_Hash w) then Inl (AErr ''invalid tx result'')
            else if \<not> equalFold hash (hexEncode (hashSum (tw_Tx w)))
            then Inl (AErr ''indexed transaction bytes do not match hash'')
            else Inr \<lparr>tr_Found = True, tr_Height = h, tr_Code = code, tr_Codespace = codespace, tr_Log = log,
              tr_Tx = tw_Tx w\<rparr>
        | _ \<Rightarrow> Inl (AErr ''invalid tx result'')))"

text \<open>
  The genesis object: its \<open>chain_id\<close> where that is a string, whether \<open>app_state\<close> and
  \<open>genesis_time\<close> are there, and its canonical JSON.
\<close>

record genesisWire =
  gw_ChainID :: "string option"
  gw_AppState :: bool
  gw_Time :: bool
  gw_Canonical :: bytes

definition GenesisHash :: "(bytes \<Rightarrow> bytes) \<Rightarrow> string \<Rightarrow> rpcError + genesisWire option \<Rightarrow> aerror + string" where
  "GenesisHash sha chainID ans = bind_r (unmarshalTo ans) (\<lambda>w.
     if gw_ChainID w \<noteq> Some chainID \<or> \<not> gw_AppState w \<or> \<not> gw_Time w
     then Inl (AErr ''invalid or mismatched genesis'') else Inr (hexEncode (sha (gw_Canonical w))))"

record blockWire =
  bw_Hash :: string
  bw_ChainID :: string
  bw_Height :: string
  bw_Time :: int
  bw_Txs :: "bytes list"

record resultsWire =
  rw_Height :: string
  rw_Codes :: "u32 list"

definition BlockTxs ::
    "u64 \<Rightarrow> rpcError + blockWire option \<Rightarrow> rpcError + resultsWire option \<Rightarrow> aerror + bytes list \<times> u32 list" where
  "BlockTxs height blockAns resultsAns = bind_r (unmarshalTo blockAns) (\<lambda>b.
     if bw_Height b \<noteq> formatUint height then Inl (AErr ''block height mismatch'')
     else bind_r (unmarshalTo resultsAns) (\<lambda>r.
       if rw_Height r \<noteq> formatUint height \<or> length (rw_Codes r) \<noteq> length (bw_Txs b)
       then Inl (AErr ''block results mismatch'') else Inr (bw_Txs b, rw_Codes r)))"

section \<open>What an accepted answer says\<close>

lemma equalFold_refl [simp]: "equalFold a a" by (simp add: equalFold_def)
lemma equalFold_sym: "equalFold a b \<Longrightarrow> equalFold b a" by (simp add: equalFold_def)
lemma equalFold_trans: "equalFold a b \<Longrightarrow> equalFold b c \<Longrightarrow> equalFold a c" by (simp add: equalFold_def)

text \<open>A transaction is believed committed only with its own bytes.\<close>

lemma LookupTx_found:
  assumes "LookupTx hashSum hash ans = Inr r" "tr_Found r"
  shows "equalFold hash (hexEncode (hashSum (tr_Tx r))) \<and> tr_Height r \<noteq> 0"
  using assms
  by (auto simp: LookupTx_def zeroTxResult_def split: if_splits sum.splits option.splits)

lemma BroadcastTxSync_ok:
  "BroadcastTxSync hashSum tx ans = (result, None) \<Longrightarrow> br_Code result = 0 \<and> hexDecode (br_Hash result) = Some (hashSum tx)"
  by (auto simp: BroadcastTxSync_def split: sum.splits if_splits)

end
