(* ===== verification/RpcPool.thy ===== *)
theory RpcPool
  imports ChainClient
begin

text \<open>
  The guarded RPC pool: dev/agent/internal/chainclient/pool.go. Before a status read or a
  broadcast the pool asks every endpoint, keeps those that are fresh and continue the last
  checkpoint, and goes on only with a group of at least \<open>MinAgreement\<close> endpoints that report the
  same genesis and the same block at a common height. The probes' answers, the clock and the
  outcome of persisting a checkpoint are parameters of one selection (\<open>poolIO\<close>).
\<close>

section \<open>Settings\<close>

record RPCSafety =
  rs_ChainID :: string
  rs_GenesisHash :: string
  rs_MaxBlockAge :: int
  rs_MaxFutureSkew :: int
  rs_MaxHeightLag :: u64
  rs_MinAgreement :: int
  rs_ProbeTimeout :: int
  rs_Checkpoint :: Checkpoint
  rs_Persist :: bool

text \<open>The pool; \<open>pl_saved\<close> is a ghost, the checkpoints handed to \<open>Persist\<close> successfully.\<close>

record rpcPool =
  pl_clients :: "string list"
  pl_policy :: RPCSafety
  pl_checkpoint :: Checkpoint
  pl_selected :: "nat option"
  pl_genesis :: "string \<rightharpoonup> string"
  pl_saved :: "Checkpoint list"

text \<open>What \<open>url.Parse\<close> gives for a trimmed endpoint.\<close>

record parsedURL =
  ur_Scheme :: string
  ur_Host :: string
  ur_HasUser :: bool
  ur_RawQuery :: string
  ur_Fragment :: string

fun addEndpoints :: "(string \<Rightarrow> string) \<Rightarrow> (string \<Rightarrow> parsedURL option) \<Rightarrow> string list \<Rightarrow> string list \<Rightarrow> aerror + string list" where
  "addEndpoints trim parse [] seen = Inr seen"
| "addEndpoints trim parse (e # es) seen = (let endpoint = trim e in
     case parse endpoint of
       None \<Rightarrow> Inl (AErr ''RPC endpoints must be distinct HTTP(S) URLs'')
     | Some u \<Rightarrow>
         if ur_Host u = [] \<or> ur_HasUser u \<or> ur_RawQuery u \<noteq> [] \<or> ur_Fragment u \<noteq> []
            \<or> (ur_Scheme u \<noteq> ''http'' \<and> ur_Scheme u \<noteq> ''https'') \<or> endpoint \<in> set seen
         then Inl (AErr ''RPC endpoints must be distinct HTTP(S) URLs'')
         else addEndpoints trim parse es (seen @ [endpoint]))"

definition orDefault :: "int \<Rightarrow> int \<Rightarrow> int" where
  "orDefault v d = (if v = 0 then d else v)"

definition checkSaved :: "RPCSafety \<Rightarrow> aerror + RPCSafety" where
  "checkSaved p = (let cp = rs_Checkpoint p in
     if cp_Height cp > 0 then
       if \<not> validHash (cp_BlockHash cp) \<or> \<not> validHash (cp_GenesisHash cp)
       then Inl (AErr ''invalid saved RPC checkpoint'')
       else if rs_GenesisHash p \<noteq> [] \<and> \<not> equalFold (rs_GenesisHash p) (cp_GenesisHash cp)
       then Inl (AErr ''saved checkpoint genesis mismatch'')
       else Inr (p\<lparr>rs_GenesisHash := cp_GenesisHash cp\<rparr>)
     else if cp_BlockHash cp \<noteq> [] \<or> cp_GenesisHash cp \<noteq> [] then Inl (AErr ''incomplete saved RPC checkpoint'')
     else Inr p)"

text \<open>\<open>trim\<close> strips white space and trailing slashes, \<open>parse\<close> is \<open>url.Parse\<close>.\<close>

definition NewResilient ::
    "(string \<Rightarrow> string) \<Rightarrow> (string \<Rightarrow> parsedURL option) \<Rightarrow> string list \<Rightarrow> int \<Rightarrow> RPCSafety \<Rightarrow> aerror + rpcPool" where
  "NewResilient trim parse endpoints timeout p0 =
     (if endpoints = [] \<or> rs_ChainID p0 = [] \<or> timeout \<le> 0
      then Inl (AErr ''RPC endpoints, chain ID and positive timeout are required'')
      else let p1 = p0\<lparr>rs_MaxBlockAge := orDefault (rs_MaxBlockAge p0) 15000000000,
          rs_MaxFutureSkew := orDefault (rs_MaxFutureSkew p0) 3000000000,
          rs_ProbeTimeout := orDefault (rs_ProbeTimeout p0) 3000000000\<rparr> in
      if rs_MaxBlockAge p1 < 0 \<or> rs_MaxFutureSkew p1 < 0 \<or> rs_ProbeTimeout p1 \<le> 0
      then Inl (AErr ''RPC safety durations must be positive'')
      else bind_r (checkSaved p1) (\<lambda>p2.
        if rs_GenesisHash p2 \<noteq> [] \<and> \<not> validHash (rs_GenesisHash p2) then Inl (AErr ''invalid trusted genesis hash'')
        else bind_r (addEndpoints trim parse endpoints []) (\<lambda>clients.
          let p3 = p2\<lparr>rs_MinAgreement := orDefault (rs_MinAgreement p2) (int (length clients div 2 + 1))\<rparr> in
          if rs_MinAgreement p3 < 1 \<or> rs_MinAgreement p3 > int (length clients)
          then Inl (AErr ''RPC minimum agreement exceeds endpoint count'')
          else Inr \<lparr>pl_clients = clients, pl_policy = p3, pl_checkpoint = rs_Checkpoint p3, pl_selected = None,
            pl_genesis = Map.empty, pl_saved = []\<rparr>)))"

section \<open>Probing\<close>

record blockReference =
  bk_Hash :: string
  bk_Time :: int

definition blockReferenceOf :: "u64 \<Rightarrow> string \<Rightarrow> rpcError + blockWire option \<Rightarrow> aerror + blockReference" where
  "blockReferenceOf height chainID ans = bind_r (unmarshalTo ans) (\<lambda>b.
     if bw_ChainID b \<noteq> chainID \<or> bw_Height b \<noteq> formatUint height \<or> \<not> validHash (bw_Hash b) \<or> bw_Time b = 0
     then Inl (AErr ''invalid checkpoint block response'')
     else Inr \<lparr>bk_Hash = toUpper (bw_Hash b), bk_Time = bw_Time b\<rparr>)"

text \<open>\<open>time.Time.Sub\<close> saturates at the range of a duration.\<close>

definition timeSub :: "int \<Rightarrow> int \<Rightarrow> int" where
  "timeSub a b = max (- (2 ^ 63)) (min (2 ^ 63 - 1) (a - b))"

definition fresh :: "rpcPool \<Rightarrow> Status \<Rightarrow> int \<Rightarrow> aerror option" where
  "fresh p s now =
     (if ss_ChainID s \<noteq> rs_ChainID (pl_policy p) \<or> ss_Height s = 0 \<or> ss_Height s < cp_Height (pl_checkpoint p)
         \<or> \<not> ss_syncKnown s \<or> ss_CatchingUp s \<or> \<not> validHash (ss_BlockHash s) \<or> ss_BlockTime s = 0
      then Some (AErr ''wrong chain, catching up, missing metadata or height rollback'')
      else if timeSub now (ss_BlockTime s) > rs_MaxBlockAge (pl_policy p)
         \<or> timeSub (ss_BlockTime s) now > rs_MaxFutureSkew (pl_policy p)
      then Some (AErr ''stale or future block time'')
      else None)"

text \<open>
  What one selection sees of endpoint \<open>n\<close>: its answers, and the clock where the code reads it. The
  block answer is a function of the height asked for and whether it is the second probe.
\<close>

record poolIO =
  pi_status :: "nat \<Rightarrow> rpcError + statusWire option"
  pi_now :: "nat \<Rightarrow> int"
  pi_genesis :: "nat \<Rightarrow> rpcError + genesisWire option"
  pi_block :: "nat \<Rightarrow> bool \<Rightarrow> u64 \<Rightarrow> rpcError + blockWire option"
  pi_since :: "nat \<Rightarrow> int"
  pi_until :: "nat \<Rightarrow> int"
  pi_persistError :: "aerror option"
  pi_ctxError :: "aerror option"
  pi_finalSince :: int
  pi_finalUntil :: int
  pi_sha256 :: "bytes \<Rightarrow> bytes"

record rpcCandidate =
  cd_client :: nat
  cd_status :: Status
  cd_genesis :: string
  cd_block :: blockReference
  cd_err :: "aerror option"

definition zeroCandidate :: "nat \<Rightarrow> rpcCandidate" where
  "zeroCandidate n = \<lparr>cd_client = n, cd_status = \<lparr>ss_ChainID = [], ss_Height = 0, ss_BlockHash = [], ss_BlockTime = 0,
     ss_CatchingUp = False, ss_syncKnown = False\<rparr>, cd_genesis = [], cd_block = \<lparr>bk_Hash = [], bk_Time = 0\<rparr>, cd_err = None\<rparr>"

definition candidateGenesis :: "rpcPool \<Rightarrow> poolIO \<Rightarrow> nat \<Rightarrow> aerror + string" where
  "candidateGenesis p io n = (case pl_genesis p (pl_clients p ! n) of
     Some g \<Rightarrow> if g \<noteq> [] then Inr g else GenesisHash (pi_sha256 io) (rs_ChainID (pl_policy p)) (pi_genesis io n)
   | None \<Rightarrow> GenesisHash (pi_sha256 io) (rs_ChainID (pl_policy p)) (pi_genesis io n))"

definition checkContinuity :: "rpcPool \<Rightarrow> poolIO \<Rightarrow> nat \<Rightarrow> aerror option" where
  "checkContinuity p io n =
     (if cp_Height (pl_checkpoint p) = 0 then None
      else case blockReferenceOf (cp_Height (pl_checkpoint p)) (rs_ChainID (pl_policy p))
                  (pi_block io n False (cp_Height (pl_checkpoint p))) of
        Inl e \<Rightarrow> Some e
      | Inr b \<Rightarrow> if equalFold (bk_Hash b) (cp_BlockHash (pl_checkpoint p)) then None
                else Some (AErr ''RPC checkpoint continuity mismatch''))"

text \<open>The first probe of endpoint \<open>n\<close>.\<close>

definition probe :: "rpcPool \<Rightarrow> poolIO \<Rightarrow> nat \<Rightarrow> rpcCandidate" where
  "probe p io n = (let c = zeroCandidate n in
     case StatusOf (pi_status io n) of Inl e \<Rightarrow> c\<lparr>cd_err := Some e\<rparr> | Inr s \<Rightarrow>
     let c = c\<lparr>cd_status := s\<rparr> in
     case fresh p s (pi_now io n) of Some e \<Rightarrow> c\<lparr>cd_err := Some e\<rparr> | None \<Rightarrow>
     case candidateGenesis p io n of Inl e \<Rightarrow> c\<lparr>cd_err := Some e\<rparr> | Inr g \<Rightarrow>
     let c = c\<lparr>cd_genesis := g\<rparr> in
     if rs_GenesisHash (pl_policy p) \<noteq> [] \<and> \<not> equalFold g (rs_GenesisHash (pl_policy p))
     then c\<lparr>cd_err := Some (AErr ''RPC genesis mismatch'')\<rparr>
     else c\<lparr>cd_err := checkContinuity p io n\<rparr>)"

section \<open>Selecting (selectEndpoint)\<close>

definition highestOf :: "rpcCandidate list \<Rightarrow> u64" where
  "highestOf cs = fold (\<lambda>c m. if cd_err c = None \<and> ss_Height (cd_status c) > m then ss_Height (cd_status c) else m) cs 0"

text \<open>The loop that drops laggards and takes the least height of the rest.\<close>

fun dropLaggards :: "u64 \<Rightarrow> u64 \<Rightarrow> rpcCandidate list \<Rightarrow> u64 \<Rightarrow> rpcCandidate list \<times> u64" where
  "dropLaggards highest lag [] common = ([], common)"
| "dropLaggards highest lag (c # cs) common = (let
     c' = (if cd_err c = None \<and> highest - ss_Height (cd_status c) > lag
           then c\<lparr>cd_err := Some (AErr ''RPC too far behind the freshest eligible endpoint'')\<rparr> else c);
     common' = (if cd_err c' = None \<and> ss_Height (cd_status c') < common then ss_Height (cd_status c') else common)
   in case dropLaggards highest lag cs common' of (out, m) \<Rightarrow> (c' # out, m))"

text \<open>The second probe, of the block at the common height.\<close>

definition probeCommon :: "rpcPool \<Rightarrow> poolIO \<Rightarrow> u64 \<Rightarrow> rpcCandidate \<Rightarrow> rpcCandidate" where
  "probeCommon p io common c = (if cd_err c \<noteq> None then c
     else case blockReferenceOf common (rs_ChainID (pl_policy p)) (pi_block io (cd_client c) True common) of
       Inl e \<Rightarrow> c\<lparr>cd_block := \<lparr>bk_Hash = [], bk_Time = 0\<rparr>, cd_err := Some e\<rparr>
     | Inr b \<Rightarrow> c\<lparr>cd_block := b\<rparr>)"

definition checkCommon :: "rpcPool \<Rightarrow> poolIO \<Rightarrow> u64 \<Rightarrow> rpcCandidate \<Rightarrow> rpcCandidate" where
  "checkCommon p io common c = (if cd_err c \<noteq> None then c
     else if (common = ss_Height (cd_status c) \<and> \<not> equalFold (bk_Hash (cd_block c)) (ss_BlockHash (cd_status c)))
        \<or> timeSub (pi_since io (cd_client c)) (bk_Time (cd_block c)) > rs_MaxBlockAge (pl_policy p)
        \<or> timeSub (bk_Time (cd_block c)) (pi_until io (cd_client c)) > rs_MaxFutureSkew (pl_policy p)
     then c\<lparr>cd_err := Some (AErr ''common block is stale or inconsistent with status'')\<rparr>
     else c)"

definition groupKey :: "rpcCandidate \<Rightarrow> string" where
  "groupKey c = cd_genesis c @ ''/'' @ bk_Hash (cd_block c)"

definition groupOf :: "string \<Rightarrow> rpcCandidate list \<Rightarrow> rpcCandidate list" where
  "groupOf k cs = filter (\<lambda>c. cd_err c = None \<and> groupKey c = k) cs"

text \<open>
  The groups that reach the agreement, in the order their first member appears. Go visits the map
  in any order; with two such groups the code stops, with one there is nothing to order.
\<close>

definition agreedGroups :: "int \<Rightarrow> rpcCandidate list \<Rightarrow> rpcCandidate list list" where
  "agreedGroups minAgreement cs = filter (\<lambda>g. int (length g) \<ge> minAgreement)
     (map (\<lambda>k. groupOf k cs) (remdups (map groupKey (filter (\<lambda>c. cd_err c = None) cs))))"

text \<open>The probes up to the groups: the candidates and the common height.\<close>

definition probed :: "rpcPool \<Rightarrow> poolIO \<Rightarrow> rpcCandidate list \<times> u64" where
  "probed p io = (let
     cs = map (probe p io) [0..<length (pl_clients p)];
     highest = highestOf cs
   in case dropLaggards highest (rs_MaxHeightLag (pl_policy p)) cs highest of (cs', common) \<Rightarrow>
     (map (\<lambda>c. checkCommon p io common (probeCommon p io common c)) cs', common))"

text \<open>\<open>sort.SliceStable\<close> by descending height.\<close>

definition byHeight :: "rpcCandidate list \<Rightarrow> rpcCandidate list" where
  "byHeight cs = sort_key (\<lambda>c. - int (unat (ss_Height (cd_status c)))) cs"

text \<open>The status answer exposes the common height.\<close>

definition statusAnswer :: "rpcPool \<Rightarrow> u64 \<Rightarrow> rpcCandidate \<Rightarrow> statusWire" where
  "statusAnswer p common chosen = \<lparr>sw_Network = rs_ChainID (pl_policy p), sw_Height = formatUint common,
     sw_Hash = bk_Hash (cd_block chosen), sw_Time = bk_Time (cd_block chosen), sw_CatchingUp = Some False\<rparr>"

definition adopt :: "rpcPool \<Rightarrow> poolIO \<Rightarrow> u64 \<Rightarrow> rpcCandidate list \<Rightarrow> (aerror + statusWire) \<times> rpcPool" where
  "adopt p io common agreed = (let
     chosen = hd (byHeight agreed);
     nextCp = \<lparr>cp_GenesisHash = cd_genesis chosen, cp_Height = common, cp_BlockHash = bk_Hash (cd_block chosen)\<rparr>;
     persist = (nextCp \<noteq> pl_checkpoint p \<and> rs_Persist (pl_policy p))
   in if cp_Height nextCp < cp_Height (pl_checkpoint p) then (Inl (AErr ''RPC checkpoint moved backwards''), p)
      else if persist \<and> pi_persistError io \<noteq> None then (Inl (AErr ''persist RPC checkpoint''), p)
      else let p1 = p\<lparr>pl_checkpoint := nextCp, pl_policy := (pl_policy p)\<lparr>rs_GenesisHash := cp_GenesisHash nextCp\<rparr>,
          pl_genesis := fold (\<lambda>c m. m(pl_clients p ! cd_client c \<mapsto> cd_genesis c)) (byHeight agreed) (pl_genesis p),
          pl_saved := (if persist then pl_saved p @ [nextCp] else pl_saved p)\<rparr> in
        case pi_ctxError io of Some e \<Rightarrow> (Inl e, p1) | None \<Rightarrow>
        if timeSub (pi_finalSince io) (bk_Time (cd_block chosen)) > rs_MaxBlockAge (pl_policy p)
           \<or> timeSub (bk_Time (cd_block chosen)) (pi_finalUntil io) > rs_MaxFutureSkew (pl_policy p)
        then (Inl (AErr ''common block expired while persisting checkpoint''), p1)
        else (Inr (statusAnswer p common chosen), p1\<lparr>pl_selected := Some (cd_client chosen)\<rparr>))"

definition selectEndpoint :: "rpcPool \<Rightarrow> poolIO \<Rightarrow> (aerror + statusWire) \<times> rpcPool" where
  "selectEndpoint p0 io = (let p = p0\<lparr>pl_selected := None\<rparr> in
     case probed p io of (cs, common) \<Rightarrow>
     case agreedGroups (rs_MinAgreement (pl_policy p)) cs of
       [] \<Rightarrow> (Inl (AErr ''no fresh continuous RPC group meets agreement''), p)
     | [agreed] \<Rightarrow> adopt p io common agreed
     | _ \<Rightarrow> (Inl (AErr ''conflicting RPC groups meet minimum agreement; stop''), p))"

text \<open>
  \<open>call\<close>: the answer is the status itself, or the request goes to the selected endpoint. What
  \<open>OnBroadcast\<close> is told is the checkpoint and endpoint at that moment, the state returned.
\<close>

datatype callTarget = Answer statusWire | Forward nat

definition call :: "rpcPool \<Rightarrow> poolIO \<Rightarrow> string \<Rightarrow> (aerror + callTarget) \<times> rpcPool" where
  "call p io method =
     (if method = ''status'' \<or> method = ''broadcast_tx_sync'' \<or> pl_selected p = None then
        (case selectEndpoint p io of
           (Inl e, p') \<Rightarrow> (Inl e, p')
         | (Inr status, p') \<Rightarrow> if method = ''status'' then (Inr (Answer status), p')
             else (Inr (Forward (the (pl_selected p'))), p'))
      else (Inr (Forward (the (pl_selected p))), p))"

definition RPCObservation :: "rpcPool \<Rightarrow> Checkpoint \<times> string" where
  "RPCObservation p = (pl_checkpoint p, (case pl_selected p of None \<Rightarrow> [] | Some n \<Rightarrow> pl_clients p ! n))"

end
