(* ===== verification/RpcSpec.thy ===== *)
theory RpcSpec
  imports RpcPool
begin

text \<open>
  What a selection of the RPC pool guarantees: the endpoints of the adopted group all answered,
  all continue the old checkpoint, and all report the new checkpoint's genesis and block.
\<close>

text \<open>What is known of an endpoint that is still a candidate at the end.\<close>

definition vouches :: "rpcPool \<Rightarrow> poolIO \<Rightarrow> nat \<Rightarrow> Checkpoint \<Rightarrow> bool" where
  "vouches p io n cp \<longleftrightarrow> n < length (pl_clients p)
     \<and> (\<exists>s. StatusOf (pi_status io n) = Inr s \<and> fresh p s (pi_now io n) = None \<and> cp_Height cp \<le> ss_Height s)
     \<and> candidateGenesis p io n = Inr (cp_GenesisHash cp)
     \<and> (rs_GenesisHash (pl_policy p) \<noteq> [] \<longrightarrow> equalFold (cp_GenesisHash cp) (rs_GenesisHash (pl_policy p)))
     \<and> checkContinuity p io n = None
     \<and> (\<exists>b. blockReferenceOf (cp_Height cp) (rs_ChainID (pl_policy p)) (pi_block io n True (cp_Height cp)) = Inr b
          \<and> bk_Hash b = cp_BlockHash cp)"

definition checkpointOf :: "u64 \<Rightarrow> rpcCandidate \<Rightarrow> Checkpoint" where
  "checkpointOf common c = \<lparr>cp_GenesisHash = cd_genesis c, cp_Height = common, cp_BlockHash = bk_Hash (cd_block c)\<rparr>"

section \<open>The probes\<close>

definition probeOk :: "rpcPool \<Rightarrow> poolIO \<Rightarrow> rpcCandidate \<Rightarrow> bool" where
  "probeOk p io c \<longleftrightarrow> StatusOf (pi_status io (cd_client c)) = Inr (cd_status c)
     \<and> fresh p (cd_status c) (pi_now io (cd_client c)) = None
     \<and> candidateGenesis p io (cd_client c) = Inr (cd_genesis c)
     \<and> (rs_GenesisHash (pl_policy p) \<noteq> [] \<longrightarrow> equalFold (cd_genesis c) (rs_GenesisHash (pl_policy p)))
     \<and> checkContinuity p io (cd_client c) = None"

lemma probe_client [simp]: "cd_client (probe p io n) = n"
  by (auto simp: probe_def zeroCandidate_def Let_def split: sum.split option.split)

lemma probe_ok: "cd_err (probe p io n) = None \<Longrightarrow> probeOk p io (probe p io n)"
  by (auto simp: probe_def zeroCandidate_def probeOk_def Let_def split: sum.splits option.splits if_splits)

lemma dropLaggards_spec:
  assumes "dropLaggards h lag cs m = (cs', m')"
  shows "map cd_client cs' = map cd_client cs \<and> m' \<le> m
    \<and> (\<forall>c \<in> set cs'. cd_err c = None \<longrightarrow> c \<in> set cs \<and> m' \<le> ss_Height (cd_status c))"
  using assms
proof (induction cs arbitrary: m cs' m')
  case (Cons c cs)
  define c' where "c' = (if cd_err c = None \<and> h - ss_Height (cd_status c) > lag
           then c\<lparr>cd_err := Some (AErr ''RPC too far behind the freshest eligible endpoint'')\<rparr> else c)"
  define m1 where "m1 = (if cd_err c' = None \<and> ss_Height (cd_status c') < m then ss_Height (cd_status c') else m)"
  obtain out m2 where r: "dropLaggards h lag cs m1 = (out, m2)" by fastforce
  have e: "cs' = c' # out" "m' = m2"
    using Cons.prems by (simp_all add: Let_def c'_def [symmetric] m1_def [symmetric] r)
  have c: "cd_client c' = cd_client c" "cd_err c' = None \<Longrightarrow> c' = c" by (auto simp: c'_def)
  have m: "m1 \<le> m" "cd_err c' = None \<Longrightarrow> m1 \<le> ss_Height (cd_status c')" by (auto simp: m1_def)
  from Cons.IH [OF r] e c m show ?case by fastforce
qed simp

lemma probeCommon_ok:
  assumes "cd_err (checkCommon p io common (probeCommon p io common c)) = None"
  shows "cd_err c = None" "checkCommon p io common (probeCommon p io common c) = c\<lparr>cd_block := cd_block (probeCommon p io common c)\<rparr>"
    "blockReferenceOf common (rs_ChainID (pl_policy p)) (pi_block io (cd_client c) True common) = Inr (cd_block (probeCommon p io common c))"
  using assms by (auto simp: checkCommon_def probeCommon_def split: if_splits sum.splits)

lemma checkCommon_client [simp]: "cd_client (checkCommon p io common (probeCommon p io common c)) = cd_client c"
  by (auto simp: checkCommon_def probeCommon_def split: sum.splits)

lemma probed_spec:
  assumes "probed p io = (cs, common)"
  shows "map cd_client cs = [0..<length (pl_clients p)]"
    "c \<in> set cs \<Longrightarrow> cd_err c = None \<Longrightarrow> vouches p io (cd_client c) (checkpointOf common c)"
proof -
  define cs0 where "cs0 = map (probe p io) [0..<length (pl_clients p)]"
  obtain cs1 where d: "dropLaggards (highestOf cs0) (rs_MaxHeightLag (pl_policy p)) cs0 (highestOf cs0) = (cs1, common)"
    and cs: "cs = map (\<lambda>c. checkCommon p io common (probeCommon p io common c)) cs1"
    using assms by (auto simp: probed_def Let_def cs0_def split: prod.splits)
  note s = dropLaggards_spec [OF d]
  show "map cd_client cs = [0..<length (pl_clients p)]" using s by (simp add: cs cs0_def comp_def)
  assume c: "c \<in> set cs" "cd_err c = None"
  then obtain c1 where c1: "c1 \<in> set cs1" "c = checkCommon p io common (probeCommon p io common c1)" by (auto simp: cs)
  note k = probeCommon_ok [OF c(2) [unfolded c1(2)]]
  from s k(1) c1(1) have "c1 \<in> set cs0" "common \<le> ss_Height (cd_status c1)" by blast+
  moreover from this(1) k(1) obtain n where "n < length (pl_clients p)" "c1 = probe p io n" "probeOk p io c1"
    using probe_ok by (auto simp: cs0_def)
  ultimately show "vouches p io (cd_client c) (checkpointOf common c)"
    using k(2,3) c1(2) by (auto simp: vouches_def checkpointOf_def probeOk_def)
qed

section \<open>The agreement\<close>

lemma groupKey_eq:
  assumes "groupKey c = groupKey d" "validHash (bk_Hash (cd_block c))" "validHash (bk_Hash (cd_block d))"
  shows "cd_genesis c = cd_genesis d \<and> bk_Hash (cd_block c) = bk_Hash (cd_block d)"
proof -
  have l: "length s = 64" if "validHash s" for s
  proof -
    have "hexDecode s = Some b \<Longrightarrow> length s = 2 * length b" for b
      by (induction s arbitrary: b rule: hexDecode.induct) (auto split: option.splits)
    with that show ?thesis by (auto simp: validHash_def split: option.splits)
  qed
  from l [OF assms(2)] l [OF assms(3)] assms(1) show ?thesis
    by (simp add: groupKey_def append_eq_append_conv)
qed

lemma hexDecode_toUpper: "map_option length (hexDecode (toUpper s)) = map_option length (hexDecode s)"
proof -
  have v: "hex_val (upperChar c) = hex_val c" for c
  proof -
    have "(of_char c :: nat) < 256" by (metis char_of_char mod_less_divisor of_char_of zero_less_numeral)
    then show ?thesis by (auto simp: hex_val_def upperChar_def Let_def)
  qed
  show ?thesis by (induction s rule: hexDecode.induct) (auto simp: toUpper_def v split: option.splits)
qed

lemma blockReferenceOf_hash: "blockReferenceOf h chain ans = Inr b \<Longrightarrow> validHash (bk_Hash b)"
  using hexDecode_toUpper [of "bw_Hash (case unmarshalTo ans of Inr w \<Rightarrow> w)"]
  by (auto simp: blockReferenceOf_def bind_r_Inr_iff validHash_def split: if_splits option.splits)

lemma agreedGroups_one:
  assumes "agreedGroups k cs = [g]"
  shows "int (length g) \<ge> k" "\<exists>key. g = groupOf key cs" "g \<noteq> []"
proof -
  have "g \<in> set (agreedGroups k cs)" by (simp add: assms)
  then obtain c where c: "c \<in> set cs" "cd_err c = None" "g = groupOf (groupKey c) cs" "int (length g) \<ge> k"
    by (auto simp: agreedGroups_def)
  then have "c \<in> set g" by (simp add: groupOf_def)
  with c show "int (length g) \<ge> k" "\<exists>key. g = groupOf key cs" "g \<noteq> []" by auto
qed

lemma selectEndpoint_adopts:
  assumes "selectEndpoint p0 io = (r, p')"
  obtains (failed) e where "r = Inl e" "p' = p0\<lparr>pl_selected := None\<rparr>"
  | (adopted) cs common agreed where "probed (p0\<lparr>pl_selected := None\<rparr>) io = (cs, common)"
    "agreedGroups (rs_MinAgreement (pl_policy p0)) cs = [agreed]" "adopt (p0\<lparr>pl_selected := None\<rparr>) io common agreed = (r, p')"
  using assms unfolding selectEndpoint_def Let_def
  by (auto split: prod.splits list.splits)

lemma byHeight_set [simp]: "set (byHeight cs) = set cs" by (simp add: byHeight_def)

lemma hd_byHeight: "cs \<noteq> [] \<Longrightarrow> hd (byHeight cs) \<in> set cs"
  by (metis byHeight_set hd_in_set set_empty)

text \<open>What an adoption, whether or not it is followed by a late failure, rests on.\<close>

definition agreement :: "rpcPool \<Rightarrow> poolIO \<Rightarrow> Checkpoint \<Rightarrow> nat set" where
  "agreement p io cp = {n. vouches p io n cp}"

lemma adopted_agreement:
  assumes "probed p io = (cs, common)" "agreedGroups k cs = [agreed]" "c \<in> set agreed"
  shows "int (card (agreement p io (checkpointOf common c))) \<ge> k"
    "d \<in> set agreed \<Longrightarrow> cd_client d \<in> agreement p io (checkpointOf common c) \<and> checkpointOf common d = checkpointOf common c"
proof -
  note one = agreedGroups_one [OF assms(2)]
  have m: "d \<in> set cs \<and> cd_err d = None \<and> groupKey d = groupKey c" if "d \<in> set agreed" for d
    using one(2) that assms(3) by (auto simp: groupOf_def)
  have v: "vouches p io (cd_client d) (checkpointOf common d)" if "d \<in> set agreed" for d
    using m [OF that] probed_spec(2) [OF assms(1)] by blast
  have h: "validHash (bk_Hash (cd_block d))" if "d \<in> set agreed" for d
    using v [OF that] blockReferenceOf_hash unfolding vouches_def checkpointOf_def by fastforce
  have eq: "checkpointOf common d = checkpointOf common c" if "d \<in> set agreed" for d
    using groupKey_eq [of d c] m [OF that] h [OF that] h [OF assms(3)] by (simp add: checkpointOf_def)
  then show "d \<in> set agreed \<Longrightarrow> cd_client d \<in> agreement p io (checkpointOf common c) \<and> checkpointOf common d = checkpointOf common c"
    using v by (auto simp: agreement_def)
  obtain key where key: "agreed = groupOf key cs" using one(2) by blast
  have "distinct (map cd_client cs)" using probed_spec(1) [OF assms(1)] by simp
  then have "distinct (map cd_client agreed)" unfolding key groupOf_def by (simp add: distinct_map_filter)
  then have "length agreed = card (cd_client ` set agreed)" using distinct_card by fastforce
  also have "\<dots> \<le> card (agreement p io (checkpointOf common c))"
  proof (rule card_mono)
    show "finite (agreement p io (checkpointOf common c))"
      by (rule finite_subset [of _ "{..<length (pl_clients p)}"]) (auto simp: agreement_def vouches_def)
    show "cd_client ` set agreed \<subseteq> agreement p io (checkpointOf common c)" using v eq by (auto simp: agreement_def)
  qed
  finally show "int (card (agreement p io (checkpointOf common c))) \<ge> k" using one(1) by simp
qed

lemma probe_selected [simp]:
  "fresh (p\<lparr>pl_selected := x\<rparr>) = fresh p" "candidateGenesis (p\<lparr>pl_selected := x\<rparr>) = candidateGenesis p"
  "checkContinuity (p\<lparr>pl_selected := x\<rparr>) = checkContinuity p"
  by (simp_all add: fun_eq_iff fresh_def candidateGenesis_def checkContinuity_def split: option.split sum.split)

lemma vouches_selected [simp]: "vouches (p\<lparr>pl_selected := x\<rparr>) io n cp = vouches p io n cp"
  by (simp add: vouches_def)

lemma agreement_selected [simp]: "agreement (p\<lparr>pl_selected := x\<rparr>) io cp = agreement p io cp"
  by (simp add: agreement_def)

lemma adopt_cases:
  assumes "adopt p io common agreed = (r, p')" "c = hd (byHeight agreed)"
  obtains (kept) e where "r = Inl e" "p' = p"
  | (moved) "pl_clients p' = pl_clients p" "pl_checkpoint p' = checkpointOf common c" "cp_Height (pl_checkpoint p) \<le> common"
    "pl_policy p' = (pl_policy p)\<lparr>rs_GenesisHash := cd_genesis c\<rparr>"
    "\<And>s. r = Inr s \<Longrightarrow> pl_selected p' = Some (cd_client c) \<and> s = statusAnswer p common c"
    "\<And>e. r = Inl e \<Longrightarrow> pl_selected p' = pl_selected p"
  using assms
  by (auto simp: adopt_def Let_def checkpointOf_def not_less split: if_split_asm option.split_asm)

text \<open>Every selection either leaves the checkpoint, or adopts one the agreement vouches for.\<close>

definition advanced :: "rpcPool \<Rightarrow> poolIO \<Rightarrow> rpcPool \<Rightarrow> bool" where
  "advanced p io p' \<longleftrightarrow> (let cp = pl_checkpoint p' in
     int (card (agreement p io cp)) \<ge> rs_MinAgreement (pl_policy p) \<and> agreement p io cp \<noteq> {}
     \<and> cp_Height (pl_checkpoint p) \<le> cp_Height cp
     \<and> pl_policy p' = (pl_policy p)\<lparr>rs_GenesisHash := cp_GenesisHash cp\<rparr>)"

lemma selectEndpoint_checkpoint:
  assumes "selectEndpoint p io = (r, p')"
  shows "pl_clients p' = pl_clients p
    \<and> ((pl_checkpoint p' = pl_checkpoint p \<and> pl_policy p' = pl_policy p) \<or> advanced p io p')"
    "r = Inr s \<Longrightarrow> advanced p io p' \<and> (\<exists>n. pl_selected p' = Some n \<and> n \<in> agreement p io (pl_checkpoint p'))
       \<and> sw_Height s = formatUint (cp_Height (pl_checkpoint p')) \<and> sw_Hash s = cp_BlockHash (pl_checkpoint p')"
    "r = Inl e \<Longrightarrow> pl_selected p' = None"
proof -
  have "(pl_clients p' = pl_clients p
      \<and> ((pl_checkpoint p' = pl_checkpoint p \<and> pl_policy p' = pl_policy p) \<or> advanced p io p'))
    \<and> (\<forall>s. r = Inr s \<longrightarrow> advanced p io p' \<and> (\<exists>n. pl_selected p' = Some n \<and> n \<in> agreement p io (pl_checkpoint p'))
       \<and> sw_Height s = formatUint (cp_Height (pl_checkpoint p')) \<and> sw_Hash s = cp_BlockHash (pl_checkpoint p'))
    \<and> (\<forall>e. r = Inl e \<longrightarrow> pl_selected p' = None)"
    using assms
  proof (cases rule: selectEndpoint_adopts)
    case (failed e)
    then show ?thesis by simp
  next
    case (adopted cs common agreed)
    define c where "c = hd (byHeight agreed)"
    have c: "c \<in> set agreed" unfolding c_def using hd_byHeight agreedGroups_one(3) [OF adopted(2)] by blast
    note A = adopted_agreement [OF adopted(1,2) c, simplified agreement_selected]
    from adopted(3) c_def show ?thesis
    proof (cases rule: adopt_cases)
      case (kept e)
      then show ?thesis by simp
    next
      case moved
      have "advanced p io p'"
        using moved(2-4) A(1) A(2) [OF c] by (auto simp: advanced_def Let_def checkpointOf_def)
      moreover have "cd_client c \<in> agreement p io (pl_checkpoint p')" using A(2) [OF c] moved(2) by simp
      ultimately show ?thesis using moved(1,2,5,6) by (auto simp: statusAnswer_def checkpointOf_def)
    qed
  qed
  then show "pl_clients p' = pl_clients p
      \<and> ((pl_checkpoint p' = pl_checkpoint p \<and> pl_policy p' = pl_policy p) \<or> advanced p io p')"
    "r = Inr s \<Longrightarrow> advanced p io p' \<and> (\<exists>n. pl_selected p' = Some n \<and> n \<in> agreement p io (pl_checkpoint p'))
       \<and> sw_Height s = formatUint (cp_Height (pl_checkpoint p')) \<and> sw_Hash s = cp_BlockHash (pl_checkpoint p')"
    "r = Inl e \<Longrightarrow> pl_selected p' = None" by blast+
qed

section \<open>Calls\<close>

lemma call_pool:
  assumes "call p io method = (r, p')"
  shows "p' = p \<and> pl_selected p \<noteq> None \<and> method \<noteq> ''status'' \<and> method \<noteq> ''broadcast_tx_sync'' \<and> r = Inr (Forward (the (pl_selected p)))
    \<or> (\<exists>q. selectEndpoint p io = (q, p') \<and> (case q of Inl e \<Rightarrow> r = Inl e
        | Inr s \<Rightarrow> r = Inr (if method = ''status'' then Answer s else Forward (the (pl_selected p')))))"
  using assms unfolding call_def
  by (auto split: if_splits prod.splits sum.splits)

fun calls :: "(poolIO \<times> string) list \<Rightarrow> rpcPool \<Rightarrow> rpcPool" where
  "calls [] p = p"
| "calls ((io, method) # rest) p = calls rest (snd (call p io method))"

text \<open>Along any run of calls the observed chain only grows.\<close>

definition continues :: "rpcPool \<Rightarrow> rpcPool \<Rightarrow> bool" where
  "continues p p' \<longleftrightarrow> cp_Height (pl_checkpoint p) \<le> cp_Height (pl_checkpoint p')
     \<and> rs_MinAgreement (pl_policy p') = rs_MinAgreement (pl_policy p) \<and> pl_clients p' = pl_clients p
     \<and> (rs_GenesisHash (pl_policy p) \<noteq> [] \<longrightarrow> equalFold (rs_GenesisHash (pl_policy p')) (rs_GenesisHash (pl_policy p)))"

lemma equalFold_Nil: "equalFold a b \<Longrightarrow> a = [] \<longleftrightarrow> b = []"
  by (auto simp: equalFold_def toUpper_def)

lemma continues_refl: "continues p p" by (simp add: continues_def)

lemma continues_trans: "continues p q \<Longrightarrow> continues q r \<Longrightarrow> continues p r"
  using order_trans [of "cp_Height (pl_checkpoint p)" "cp_Height (pl_checkpoint q)" "cp_Height (pl_checkpoint r)"]
    equalFold_trans [of "rs_GenesisHash (pl_policy r)" "rs_GenesisHash (pl_policy q)" "rs_GenesisHash (pl_policy p)"]
    equalFold_Nil [of "rs_GenesisHash (pl_policy q)" "rs_GenesisHash (pl_policy p)"]
  by (auto simp: continues_def)

lemma advanced_continues: "advanced p io p' \<Longrightarrow> pl_clients p' = pl_clients p \<Longrightarrow> continues p p'"
  by (auto simp: advanced_def Let_def continues_def agreement_def vouches_def)

lemma call_continues: "continues p (snd (call p io method))"
proof -
  obtain r p' where c: "call p io method = (r, p')" by fastforce
  from call_pool [OF c] show ?thesis
  proof
    assume "p' = p \<and> pl_selected p \<noteq> None \<and> method \<noteq> ''status'' \<and> method \<noteq> ''broadcast_tx_sync'' \<and> r = Inr (Forward (the (pl_selected p)))"
    then show ?thesis by (simp add: c continues_refl)
  next
    assume "\<exists>q. selectEndpoint p io = (q, p') \<and> (case q of Inl e \<Rightarrow> r = Inl e
        | Inr s \<Rightarrow> r = Inr (if method = ''status'' then Answer s else Forward (the (pl_selected p'))))"
    then obtain q where "selectEndpoint p io = (q, p')" by blast
    from selectEndpoint_checkpoint(1) [OF this] show ?thesis
      using advanced_continues by (auto simp: c continues_def)
  qed
qed

lemma calls_continues: "continues p (calls cs p)"
proof (induction cs p rule: calls.induct)
  case (2 io m later p)
  then show ?case using continues_trans [OF call_continues] by simp
qed (simp add: continues_refl)

end
