(* ===== verification/RpcProps.thy ===== *)
theory RpcProps
  imports RpcSpec
begin

text \<open>Properties of the guarded RPC pool, with a pool of three endpoints for the witnesses.\<close>

definition rpcHash :: string where
  "rpcHash = replicate 64 CHR ''A''"

definition otherHash :: string where
  "otherHash = replicate 64 CHR ''B''"

lemma rpcHash_facts:
  "validHash rpcHash" "toUpper rpcHash = rpcHash" "validHash otherHash" "toUpper otherHash = otherHash"
  "hexEncode ''g'' = ''67''"
  by code_simp+

lemma rpcHash_other: "rpcHash \<noteq> otherHash" by (simp add: rpcHash_def otherHash_def)

lemma sampleDigits: "char_of (55::nat) = CHR ''7''" "char_of (56::nat) = CHR ''8''" by code_simp+

lemma sampleFormat: "formatUint 7 = ''7''" "formatUint 8 = ''8''"
  by (simp_all add: formatUint_def dec_digits.simps digit_char_def sampleDigits)

lemma sampleParse: "parseUint64 ''7'' = Some 7" "parseUint64 ''8'' = Some 8"
  using parseUint64_formatUint [of 7] parseUint64_formatUint [of 8] by (simp_all add: sampleFormat)

definition samplePolicy :: RPCSafety where
  "samplePolicy = \<lparr>rs_ChainID = ''g503'', rs_GenesisHash = [], rs_MaxBlockAge = 15, rs_MaxFutureSkew = 3, rs_MaxHeightLag = 2,
     rs_MinAgreement = 2, rs_ProbeTimeout = 3,
     rs_Checkpoint = \<lparr>cp_GenesisHash = [], cp_Height = 0, cp_BlockHash = []\<rparr>, rs_Persist = True\<rparr>"

definition samplePool :: rpcPool where
  "samplePool = \<lparr>pl_clients = [''http://a'', ''http://b'', ''http://c''], pl_policy = samplePolicy,
     pl_checkpoint = rs_Checkpoint samplePolicy, pl_selected = None, pl_genesis = Map.empty, pl_saved = []\<rparr>"

definition sampleBlock :: "string \<Rightarrow> u64 \<Rightarrow> blockWire" where
  "sampleBlock hash h = \<lparr>bw_Hash = hash, bw_ChainID = ''g503'', bw_Height = formatUint h, bw_Time = 100, bw_Txs = []\<rparr>"

text \<open>The first two endpoints agree, one a block behind the other; the third is down.\<close>

definition sampleProbe :: poolIO where
  "sampleProbe = \<lparr>pi_status = (\<lambda>n. if n < 2
        then Inr (Some \<lparr>sw_Network = ''g503'', sw_Height = (if n = 0 then ''7'' else ''8''), sw_Hash = rpcHash, sw_Time = 100, sw_CatchingUp = Some False\<rparr>)
        else Inl (OtherError (AExternal ''down''))),
     pi_now = (\<lambda>_. 101),
     pi_genesis = (\<lambda>_. Inr (Some \<lparr>gw_ChainID = Some ''g503'', gw_AppState = True, gw_Time = True, gw_Canonical = ''g''\<rparr>)),
     pi_block = (\<lambda>_ _ h. Inr (Some (sampleBlock rpcHash h))), pi_since = (\<lambda>_. 102), pi_until = (\<lambda>_. 102),
     pi_persistError = None, pi_ctxError = None, pi_finalSince = 103, pi_finalUntil = 103, pi_sha256 = (\<lambda>b. b)\<rparr>"

lemmas pool_eval = samplePool_def samplePolicy_def sampleProbe_def sampleBlock_def probe_def StatusOf_def unmarshalTo_def
  zeroCandidate_def fresh_def candidateGenesis_def GenesisHash_def checkContinuity_def timeSub_def rpcHash_facts sampleFormat sampleParse
  highestOf_def checkCommon_def probeCommon_def blockReferenceOf_def Let_def

lemma sampleProbe_ok: "is_ok (fst (selectEndpoint samplePool sampleProbe))"
  by (simp add: selectEndpoint_def probed_def upt_rec pool_eval)
     (simp add: agreedGroups_def groupOf_def groupKey_def adopt_def byHeight_def pool_eval)

text \<open>
  C19. No single endpoint is believed. A selection succeeds only with a set of at least
  \<open>MinAgreement\<close> endpoints, each of which answered in time with fresh status, had the new
  checkpoint's genesis, returned its block at its height, and at the height of the old checkpoint
  the block seen there before; the selected endpoint is one of them, and the height and hash the
  status shows are the agreed ones.
\<close>

theorem pool_agreement:
  assumes "selectEndpoint p io = (Inr s, p')"
  shows "\<exists>A. int (card A) \<ge> rs_MinAgreement (pl_policy p) \<and> (\<forall>n \<in> A. vouches p io n (pl_checkpoint p'))
    \<and> (\<exists>n \<in> A. pl_selected p' = Some n) \<and> cp_Height (pl_checkpoint p) \<le> cp_Height (pl_checkpoint p')
    \<and> sw_Height s = formatUint (cp_Height (pl_checkpoint p')) \<and> sw_Hash s = cp_BlockHash (pl_checkpoint p')"
  using selectEndpoint_checkpoint(2) [OF assms refl]
  by (intro exI [of _ "agreement p io (pl_checkpoint p')"]) (auto simp: advanced_def Let_def agreement_def)

theorem pool_agreement_witness:
  "\<exists>s p'. selectEndpoint samplePool sampleProbe = (Inr s, p') \<and> sw_Height s = formatUint (cp_Height (pl_checkpoint p'))
    \<and> (\<exists>A. int (card A) \<ge> 2 \<and> (\<forall>n \<in> A. vouches samplePool sampleProbe n (pl_checkpoint p')))"
proof -
  obtain s p' where r: "selectEndpoint samplePool sampleProbe = (Inr s, p')"
    using sampleProbe_ok by (cases "selectEndpoint samplePool sampleProbe") (auto simp: is_ok_iff)
  have "rs_MinAgreement (pl_policy samplePool) = 2" by (simp add: samplePool_def samplePolicy_def)
  with pool_agreement [OF r] r show ?thesis by auto
qed

text \<open>
  C29. The observed chain never goes back. Whatever the endpoints answer in any sequence of calls,
  the height of the checkpoint never falls, the genesis once learnt or configured stays the same,
  and the agreement that is asked for is never lowered.
\<close>

theorem pool_never_goes_back:
  "cp_Height (pl_checkpoint p) \<le> cp_Height (pl_checkpoint (calls cs p))
    \<and> (rs_GenesisHash (pl_policy p) = [] \<or> equalFold (rs_GenesisHash (pl_policy (calls cs p))) (rs_GenesisHash (pl_policy p)))
    \<and> rs_MinAgreement (pl_policy (calls cs p)) = rs_MinAgreement (pl_policy p)"
  using calls_continues [of p cs] by (auto simp: continues_def)

lemma agreedGroups_two:
  assumes "k1 \<noteq> k2" "int (length (groupOf k1 cs)) \<ge> m" "int (length (groupOf k2 cs)) \<ge> m" "m \<ge> 1"
  shows "\<nexists>g. agreedGroups m cs = [g]" "agreedGroups m cs \<noteq> []"
proof -
  have g: "groupOf k cs \<in> set (agreedGroups m cs) \<and> groupOf k cs \<noteq> []" if "int (length (groupOf k cs)) \<ge> m" for k
  proof -
    from that assms(4) have n: "groupOf k cs \<noteq> []" by auto
    then obtain c where "c \<in> set cs" "cd_err c = None" "groupKey c = k" by (auto simp: groupOf_def filter_empty_conv)
    with that n show ?thesis by (auto simp: agreedGroups_def)
  qed
  from g [OF assms(2)] show "agreedGroups m cs \<noteq> []" by auto
  show "\<nexists>g. agreedGroups m cs = [g]"
  proof
    assume "\<exists>g. agreedGroups m cs = [g]"
    with g [OF assms(2)] g [OF assms(3)] have e: "groupOf k1 cs = groupOf k2 cs" "groupOf k1 cs \<noteq> []" by auto
    then obtain c where "c \<in> set (groupOf k1 cs)" "c \<in> set (groupOf k2 cs)" by (metis hd_in_set)
    then show False using assms(1) by (auto simp: groupOf_def)
  qed
qed

text \<open>
  A split view stops the agent. When two different groups - of another genesis or another block
  at the common height - both reach the agreement, the selection fails, no endpoint is selected and
  the checkpoint stays as it was.
\<close>

lemma pool_conflict_stops:
  assumes "probed (p\<lparr>pl_selected := None\<rparr>) io = (cs, common)" "k1 \<noteq> k2" "rs_MinAgreement (pl_policy p) \<ge> 1"
    "int (length (groupOf k1 cs)) \<ge> rs_MinAgreement (pl_policy p)" "int (length (groupOf k2 cs)) \<ge> rs_MinAgreement (pl_policy p)"
  shows "\<exists>e. selectEndpoint p io = (Inl e, p\<lparr>pl_selected := None\<rparr>)"
proof -
  note t = agreedGroups_two [OF assms(2,4,5,3)]
  then obtain g1 g2 gs where "agreedGroups (rs_MinAgreement (pl_policy p)) cs = g1 # g2 # gs"
    by (metis list.exhaust)
  then show ?thesis using assms(1) by (simp add: selectEndpoint_def Let_def)
qed

text \<open>Two pairs of endpoints on different histories.\<close>

definition splitPool :: rpcPool where
  "splitPool = samplePool\<lparr>pl_clients := [''http://a'', ''http://b'', ''http://c'', ''http://d'']\<rparr>"

definition splitProbe :: poolIO where
  "splitProbe = sampleProbe\<lparr>pi_status := (\<lambda>n. Inr (Some \<lparr>sw_Network = ''g503'', sw_Height = ''7'',
        sw_Hash = (if n < 2 then rpcHash else otherHash), sw_Time = 100, sw_CatchingUp = Some False\<rparr>)),
     pi_block := (\<lambda>n _ h. Inr (Some (sampleBlock (if n < 2 then rpcHash else otherHash) h)))\<rparr>"

end
