(* ===== verification/Ownership.thy ===== *)
theory Ownership
  imports ChainClient Lease Sample
begin

text \<open>
  Signing ownership of an agent process: dev/agent/internal/ownership/session.go. A process claims
  its signing key on the chain under a fresh random holder id and signs only while the chain, read
  at a finalized height, still shows its lease.

  The outside is a list of observations, one for each round of a polling loop; a loop that uses up
  its observations is still waiting, which is the value \<open>None\<close>. Every loop also stops at the
  deadline the code sets: an observation says whether the deadline has passed.
\<close>

record Session =
  se_Address :: string
  se_Options :: SignOptions
  se_TTL :: u64
  se_Lease :: "AgentLease option"
  se_holder :: string

section \<open>Reading the lease\<close>

text \<open>One round of \<open>Read\<close>: the query's answer decoded (\<open>None\<close> if it does not decode), and the pause.\<close>

record readRound =
  ro_answer :: "queryError + AgentLease option option"
  ro_late :: bool
  ro_pause :: "aerror option"

definition futureHeight :: "queryError \<Rightarrow> bool" where
  "futureHeight e = (case e of QueryError code log \<Rightarrow> code = 26 \<and> containsStr log ''future'' | OtherQuery a \<Rightarrow> False)"

fun Read :: "readRound list \<Rightarrow> (aerror + AgentLease option) option" where
  "Read [] = None"
| "Read (r # rs) = (case ro_answer r of
     Inr None \<Rightarrow> Some (Inl (AExternal ''unmarshal''))
   | Inr (Some lease) \<Rightarrow> Some (Inr lease)
   | Inl e \<Rightarrow>
       if \<not> futureHeight e \<or> ro_late r then Some (Inl (plainQuery e))
       else (case ro_pause r of Some e' \<Rightarrow> Some (Inl e') | None \<Rightarrow> Read rs))"

section \<open>Claiming\<close>

text \<open>One round of a polling loop: the status, the lease read at its height, the clock, the pause.\<close>

record pollRound =
  po_status :: "aerror + Status"
  po_read :: "readRound list"
  po_late :: bool
  po_pause :: "aerror option"

record claimIO =
  cl_status :: "aerror + Status"
  cl_read :: "readRound list"
  cl_account :: "aerror + Account"
  cl_encode :: "SignOptions \<Rightarrow> MsgClaimAgentLease \<Rightarrow> bytes option"
  cl_broadcastErr :: "bytes \<Rightarrow> aerror option"
  cl_polls :: "pollRound list"

definition confirms :: "u64 \<Rightarrow> bool \<Rightarrow> Session \<Rightarrow> Status \<Rightarrow> AgentLease option \<Rightarrow> bool" where
  "confirms expected renew s status lease = (case lease of None \<Rightarrow> False | Some l \<Rightarrow>
     al_Epoch l = expected \<and> al_HolderId l = se_holder s \<and> al_ExpiresHeight l > ss_Height status
     \<and> (\<not> renew \<or> (case se_Lease s of None \<Rightarrow> True | Some l0 \<Rightarrow> al_ExpiresHeight l > al_ExpiresHeight l0)))"

definition lostTo :: "u64 \<Rightarrow> Session \<Rightarrow> AgentLease option \<Rightarrow> bool" where
  "lostTo expected s lease = (case lease of None \<Rightarrow> False | Some l \<Rightarrow>
     al_Epoch l > expected \<or> (al_Epoch l = expected \<and> al_HolderId l \<noteq> se_holder s))"

text \<open>The loop that waits for the claim in finalized state: the answer and the session.\<close>

fun claimPolls :: "pollRound list \<Rightarrow> u64 \<Rightarrow> bool \<Rightarrow> aerror option \<Rightarrow> Session \<Rightarrow> (aerror option \<times> Session) option" where
  "claimPolls [] expected renew broadcastErr s = None"
| "claimPolls (p # ps) expected renew broadcastErr s = (case po_status p of
     Inl e \<Rightarrow> Some (Some e, s)
   | Inr status \<Rightarrow> (case Read (po_read p) of
       None \<Rightarrow> None
     | Some (Inl e) \<Rightarrow> Some (Some e, s)
     | Some (Inr lease) \<Rightarrow>
         (if confirms expected renew s status lease then Some (None, s\<lparr>se_Lease := lease\<rparr>)
             else if lostTo expected s lease then Some (Some ErrLost, s)
             else if broadcastErr \<noteq> None then Some (Some (AErr ''lease acquisition not confirmed''), s)
             else if po_late p then Some (Some (AErr ''lease acquisition result unknown; stop and reconcile on next startup''), s)
             else (case po_pause p of Some e \<Rightarrow> Some (Some e, s) | None \<Rightarrow> claimPolls ps expected renew broadcastErr s))))"

text \<open>The answer, the session, and the transactions submitted: at most one.\<close>

definition claim :: "claimIO \<Rightarrow> u64 \<Rightarrow> bool \<Rightarrow> Session \<Rightarrow> (aerror option \<times> Session) option \<times> bytes list" where
  "claim io epoch renew s = (case cl_status io of
     Inl e \<Rightarrow> (Some (Some e, s), [])
   | Inr status \<Rightarrow> (case Read (cl_read io) of
       None \<Rightarrow> (None, [])
     | Some (Inl e) \<Rightarrow> (Some (Some e, s), [])
     | Some (Inr _) \<Rightarrow> (case cl_account io of
         Inl e \<Rightarrow> (Some (Some e, s), [])
       | Inr account \<Rightarrow>
           (let opts = (se_Options s)\<lparr>so_AccountNumber := ac_Number account, so_Sequence := ac_Sequence account,
                  so_GasLimit := 250000, so_Memo := []\<rparr>;
              msg = \<lparr>lm_SignerAddress = se_Address s, lm_HolderId = se_holder s, lm_ExpectedEpoch = epoch,
                  lm_TtlBlocks = se_TTL s, lm_Renew = renew\<rparr>
            in case cl_encode io opts msg of
              None \<Rightarrow> (Some (Some (AExternal ''sign''), s), [])
            | Some bz \<Rightarrow> (claimPolls (cl_polls io) (if renew then epoch else epoch + 1) renew (cl_broadcastErr io bz) s, [bz])))))"

fun acquirePolls :: "pollRound list \<Rightarrow> claimIO \<Rightarrow> Session \<Rightarrow> (aerror option \<times> Session) option \<times> bytes list" where
  "acquirePolls [] io s = (None, [])"
| "acquirePolls (p # ps) io s = (case po_status p of
     Inl e \<Rightarrow> (Some (Some e, s), [])
   | Inr status \<Rightarrow>
       if ss_ChainID status \<noteq> so_ChainID (se_Options s) then (Some (Some (AErr ''ownership RPC chain ID mismatch''), s), [])
       else (case Read (po_read p) of
         None \<Rightarrow> (None, [])
       | Some (Inl e) \<Rightarrow> (Some (Some e, s), [])
       | Some (Inr lease) \<Rightarrow>
           if (case lease of None \<Rightarrow> True | Some l \<Rightarrow> al_ExpiresHeight l \<le> ss_Height status)
           then claim io (case lease of None \<Rightarrow> 0 | Some l \<Rightarrow> al_Epoch l) False s
           else if po_late p then (Some (Some (AErr ''signing key already owned''), s), [])
           else (case po_pause p of Some e \<Rightarrow> (Some (Some e, s), []) | None \<Rightarrow> acquirePolls ps io s)))"

text \<open>\<open>random\<close> is what \<open>crypto/rand\<close> gives, 32 bytes or an error.\<close>

definition Acquire :: "bytes option \<Rightarrow> pollRound list \<Rightarrow> claimIO \<Rightarrow> Session \<Rightarrow> (aerror option \<times> Session) option \<times> bytes list" where
  "Acquire random polls io s0 = (let s = (if se_TTL s0 = 0 then s0\<lparr>se_TTL := DefaultLeaseTTL\<rparr> else s0) in
     if se_TTL s < 6 \<or> se_TTL s > 100 then (Some (Some (AErr ''lease TTL must be 6..100 blocks''), s), [])
     else case random of
       None \<Rightarrow> (Some (Some (AExternal ''rand''), s), [])
     | Some bz \<Rightarrow> acquirePolls polls io (s\<lparr>se_holder := hexEncode bz\<rparr>))"

section \<open>Validating\<close>

definition validatedStatus :: "pollRound \<Rightarrow> Session \<Rightarrow> (aerror + Status) option" where
  "validatedStatus p s = (case po_status p of
     Inl e \<Rightarrow> Some (Inl e)
   | Inr status \<Rightarrow>
       if ss_ChainID status \<noteq> so_ChainID (se_Options s) then Some (Inl (AErr ''ownership RPC chain ID mismatch''))
       else (case Read (po_read p) of
         None \<Rightarrow> None
       | Some (Inl e) \<Rightarrow> Some (Inl e)
       | Some (Inr lease) \<Rightarrow> (case (se_Lease s, lease) of
           (Some own, Some l) \<Rightarrow>
             if al_Epoch l \<noteq> al_Epoch own \<or> al_HolderId l \<noteq> se_holder s \<or> al_ExpiresHeight l \<le> ss_Height status
             then Some (Inl ErrLost) else Some (Inr status)
         | _ \<Rightarrow> Some (Inl ErrLost))))"

definition Validate :: "pollRound \<Rightarrow> Session \<Rightarrow> aerror option option" where
  "Validate p s = map_option (\<lambda>r. case r of Inl e \<Rightarrow> Some e | Inr _ \<Rightarrow> None) (validatedStatus p s)"

definition Ensure :: "pollRound \<Rightarrow> claimIO \<Rightarrow> Session \<Rightarrow> (aerror option \<times> Session) option \<times> bytes list" where
  "Ensure p io s = (case validatedStatus p s of
     None \<Rightarrow> (None, [])
   | Some (Inl e) \<Rightarrow> (Some (Some e, s), [])
   | Some (Inr status) \<Rightarrow> (case se_Lease s of
       None \<Rightarrow> (Some (Some APanic, s), [])
     | Some own \<Rightarrow>
         if al_ExpiresHeight own \<le> ss_Height status + se_TTL s div 2 then claim io (al_Epoch own) True s
         else (Some (None, s), [])))"

text \<open>The memo of a nil lease is that of the zero lease (the getters of a nil message).\<close>

definition Memo :: "Session \<Rightarrow> string" where
  "Memo s = (case se_Lease s of
     None \<Rightarrow> LeaseMemo \<lparr>al_SignerAddress = [], al_HolderId = [], al_Epoch = 0, al_ExpiresHeight = 0\<rparr>
   | Some l \<Rightarrow> LeaseMemo l)"

section \<open>What a session holds\<close>

text \<open>The session's own lease carries its own holder id.\<close>

definition ownLease :: "Session \<Rightarrow> bool" where
  "ownLease s \<longleftrightarrow> (\<forall>l. se_Lease s = Some l \<longrightarrow> al_HolderId l = se_holder s)"

text \<open>A successful claim was read back from finalized state, unexpired and with this process as holder.\<close>

definition confirmedIn :: "pollRound list \<Rightarrow> u64 \<Rightarrow> Session \<Rightarrow> bool" where
  "confirmedIn ps expected s \<longleftrightarrow> (\<exists>p \<in> set ps. \<exists>status l. po_status p = Inr status \<and> Read (po_read p) = Some (Inr (Some l))
     \<and> se_Lease s = Some l \<and> al_Epoch l = expected \<and> al_HolderId l = se_holder s \<and> ss_Height status < al_ExpiresHeight l)"

lemma claimPolls_confirmed:
  assumes "claimPolls ps expected renew b s = Some (None, s')"
  shows "confirmedIn ps expected s' \<and> se_holder s' = se_holder s"
  using assms
proof (induction ps)
  case (Cons p ps)
  then obtain status lease where r: "po_status p = Inr status" "Read (po_read p) = Some (Inr lease)"
    by (auto split: sum.splits option.splits)
  show ?case
  proof (cases "confirms expected renew s status lease")
    case True
    then obtain l where l: "lease = Some l" by (auto simp: confirms_def split: option.splits)
    with True have "al_Epoch l = expected" "al_HolderId l = se_holder s" "ss_Height status < al_ExpiresHeight l"
      by (simp_all add: confirms_def)
    then show ?thesis using Cons.prems r True l by (auto simp: confirmedIn_def)
  next
    case False
    then have "claimPolls ps expected renew b s = Some (None, s')"
      using Cons.prems r by (auto split: if_splits option.splits)
    from Cons.IH [OF this] show ?thesis by (auto simp: confirmedIn_def)
  qed
qed simp

lemma claimPolls_failed:
  assumes "claimPolls ps expected renew b s = Some (Some e, s')"
  shows "s' = s"
  using assms
  by (induction ps) (auto split: sum.splits option.splits if_splits)

lemma claim_confirmed:
  assumes "claim io epoch renew s = (Some (None, s'), sent)"
  shows "confirmedIn (cl_polls io) (if renew then epoch else epoch + 1) s' \<and> se_holder s' = se_holder s \<and> length sent = 1"
  using assms claimPolls_confirmed
  by (auto simp: claim_def Let_def split: sum.splits option.splits)

lemma claim_once: "length (snd (claim io epoch renew s)) \<le> 1"
  by (simp add: claim_def Let_def split: sum.split option.split)

lemma acquirePolls_once: "length (snd (acquirePolls ps io s)) \<le> 1"
  by (induction ps io s rule: acquirePolls.induct)
     (auto simp: claim_once [simplified] split: sum.split option.split)

lemma acquirePolls_confirmed:
  assumes "acquirePolls ps io s = (Some (None, s'), sent)"
  shows "\<exists>epoch. confirmedIn (cl_polls io) epoch s' \<and> se_holder s' = se_holder s"
  using assms
  by (induction ps io s rule: acquirePolls.induct)
     (auto split: sum.splits option.splits if_splits dest: claim_confirmed)

lemma confirmedIn_own: "confirmedIn ps expected s \<Longrightarrow> ownLease s"
  by (auto simp: confirmedIn_def ownLease_def)

section \<open>Properties\<close>

definition sampleOwner :: Session where
  "sampleOwner = \<lparr>se_Address = ''agent'', se_Options = \<lparr>so_ChainID = ''g503'', so_PrivateKeyHex = [], so_AccountNumber = 0,
     so_Sequence = 0, so_GasLimit = 0, so_FeeAmount = [], so_Memo = []\<rparr>, se_TTL = 0, se_Lease = None, se_holder = []\<rparr>"

definition statusAt :: "u64 \<Rightarrow> Status" where
  "statusAt h = \<lparr>ss_ChainID = ''g503'', ss_Height = h, ss_BlockHash = [], ss_BlockTime = 1, ss_CatchingUp = False, ss_syncKnown = True\<rparr>"

definition readAt :: "u64 \<Rightarrow> AgentLease option \<Rightarrow> pollRound" where
  "readAt h l = \<lparr>po_status = Inr (statusAt h), po_read = [\<lparr>ro_answer = Inr (Some l), ro_late = False, ro_pause = None\<rparr>],
     po_late = False, po_pause = None\<rparr>"

definition sampleLease :: AgentLease where
  "sampleLease = \<lparr>al_SignerAddress = ''agent'', al_HolderId = ''3031'', al_Epoch = 1, al_ExpiresHeight = 40\<rparr>"

definition sampleClaim :: claimIO where
  "sampleClaim = \<lparr>cl_status = Inr (statusAt 11), cl_read = po_read (readAt 11 None), cl_account = Inr \<lparr>ac_Number = 1, ac_Sequence = 2\<rparr>,
     cl_encode = (\<lambda>_ _. Some ''tx''), cl_broadcastErr = (\<lambda>_. None), cl_polls = [readAt 12 None, readAt 13 (Some sampleLease)]\<rparr>"

text \<open>
  Ownership is finalized before it is used. A successful \<open>Acquire\<close> submitted at most one claim,
  and holds a lease that it read back from the chain at some status height, not yet expired there,
  whose holder is the fresh random id of this very process.
\<close>

lemma acquire_confirmed:
  assumes "Acquire (Some random) polls io s = (Some (None, s'), sent)"
  shows "length sent \<le> 1 \<and> se_holder s' = hexEncode random \<and> (\<exists>p status l. p \<in> set (cl_polls io)
    \<and> po_status p = Inr status \<and> Read (po_read p) = Some (Inr (Some l)) \<and> se_Lease s' = Some l
    \<and> al_HolderId l = hexEncode random \<and> ss_Height status < al_ExpiresHeight l)"
proof -
  define s1 where "s1 = (if se_TTL s = 0 then s\<lparr>se_TTL := DefaultLeaseTTL\<rparr> else s)\<lparr>se_holder := hexEncode random\<rparr>"
  have a: "acquirePolls polls io s1 = (Some (None, s'), sent)"
    using assms by (simp add: Acquire_def Let_def s1_def split: if_splits)
  from acquirePolls_confirmed [OF a] obtain epoch where "confirmedIn (cl_polls io) epoch s'" "se_holder s' = hexEncode random"
    by (auto simp: s1_def)
  moreover have "length sent \<le> 1" using acquirePolls_once [of polls io s1] a by simp
  ultimately show ?thesis by (fastforce simp: confirmedIn_def)
qed

lemma sample_acquired:
  "Acquire (Some ''01'') [readAt 10 None] sampleClaim sampleOwner
     = (Some (None, sampleOwner\<lparr>se_TTL := 24, se_holder := ''3031'', se_Lease := Some sampleLease\<rparr>), [''tx''])"
  by code_simp

text \<open>
  C26. A validated session may sign, and only then. When the session's read shows the store's lease
  for its key, validation succeeds exactly while that lease is the session's and unexpired; then a
  transaction signed by the key alone with the session's memo passes the chain's own fence at that
  height. After any takeover it reports \<open>ErrLost\<close>.
\<close>

theorem validated_session_signs:
  assumes "po_status p = Inr status" "ss_ChainID status = so_ChainID (se_Options s)"
    "Read (po_read p) = Some (Inr (GetAgentLease store (se_Address s)))" "ownLease s" "blockHeight c = ss_Height status"
    and tx: "claimSignerLoop (length (tx_msgs tx)) (tx_msgs tx) [] = Inr []" "tx_sigVerifiable tx" "tx_signers tx = Inr [a]"
      "accAddressString E a = se_Address s" "tx_memo tx = Some (Memo s)"
  shows "(validatedStatus p s = Some (Inr status) \<longrightarrow> CheckAgentLeaseTx E c store tx = Inr ())
    \<and> (validatedStatus p s = Some (Inr status) \<longleftrightarrow> (\<exists>l own. GetAgentLease store (se_Address s) = Some l \<and> se_Lease s = Some own
         \<and> sameSession l own \<and> live c l))
    \<and> (validatedStatus p s \<noteq> Some (Inr status) \<longrightarrow> validatedStatus p s = Some (Inl ErrLost))"
proof -
  have v: "validatedStatus p s = (case (se_Lease s, GetAgentLease store (se_Address s)) of
      (Some own, Some l) \<Rightarrow> if al_Epoch l \<noteq> al_Epoch own \<or> al_HolderId l \<noteq> se_holder s \<or> al_ExpiresHeight l \<le> ss_Height status
             then Some (Inl ErrLost) else Some (Inr status) | _ \<Rightarrow> Some (Inl ErrLost))"
    using assms(1-3) by (simp add: validatedStatus_def)
  have memo: "Memo s = LeaseMemo l" if "se_Lease s = Some own" "al_Epoch l = al_Epoch own" "al_HolderId l = se_holder s" for l own
    using that assms(4) by (simp add: Memo_def LeaseMemo_def ownLease_def)
  have "validatedStatus p s = Some (Inr status) \<Longrightarrow> CheckAgentLeaseTx E c store tx = Inr ()"
    using tx assms(5) memo by (auto simp: v CheckAgentLeaseTx_def not_le Let_def split: option.splits if_splits)
  moreover have "validatedStatus p s = Some (Inr status) \<longleftrightarrow> (\<exists>l own. GetAgentLease store (se_Address s) = Some l \<and> se_Lease s = Some own
         \<and> sameSession l own \<and> live c l)"
    using assms(4,5) by (auto simp: v sameSession_def live_def ownLease_def not_le split: option.splits if_splits)
  moreover have "validatedStatus p s \<noteq> Some (Inr status) \<Longrightarrow> validatedStatus p s = Some (Inl ErrLost)"
    by (auto simp: v split: option.splits if_splits)
  ultimately show ?thesis by blast
qed

theorem validated_session_signs_witness:
  "CheckAgentLeaseTx sampleEnv (sampleCtx\<lparr>blockHeight := 13\<rparr>) (SetAgentLease sampleLease kv_empty)
     \<lparr>tx_msgs = [], tx_sigVerifiable = True, tx_signers = Inr [''agent''], tx_memo = Some (LeaseMemo sampleLease)\<rparr> = Inr ()"
proof -
  let ?s = "sampleOwner\<lparr>se_holder := ''3031'', se_Lease := Some sampleLease\<rparr>"
  let ?p = "readAt 13 (Some sampleLease)"
  have get: "GetAgentLease (SetAgentLease sampleLease kv_empty) ''agent'' = Some sampleLease"
    by (simp add: sampleLease_def store_simps)
  have m: "Memo ?s = LeaseMemo sampleLease" by (simp add: Memo_def)
  have v: "validatedStatus ?p ?s = Some (Inr (statusAt 13))"
    by (simp add: validatedStatus_def readAt_def statusAt_def sampleOwner_def sampleLease_def)
  let ?tx = "\<lparr>tx_msgs = [], tx_sigVerifiable = True, tx_signers = Inr [''agent''], tx_memo = Some (LeaseMemo sampleLease)\<rparr>"
  have "po_status ?p = Inr (statusAt 13)" by (simp add: readAt_def)
  moreover have "ss_ChainID (statusAt 13) = so_ChainID (se_Options ?s)" by (simp add: statusAt_def sampleOwner_def)
  moreover have "Read (po_read ?p) = Some (Inr (GetAgentLease (SetAgentLease sampleLease kv_empty) (se_Address ?s)))"
    by (simp add: readAt_def sampleOwner_def get)
  moreover have "ownLease ?s" by (simp add: ownLease_def sampleLease_def)
  moreover have "blockHeight (sampleCtx\<lparr>blockHeight := 13\<rparr>) = ss_Height (statusAt 13)" by (simp add: statusAt_def)
  moreover have "claimSignerLoop (length (tx_msgs ?tx)) (tx_msgs ?tx) [] = Inr []" by simp
  moreover have "tx_sigVerifiable ?tx" "tx_signers ?tx = Inr [''agent'']" "tx_memo ?tx = Some (Memo ?s)" by (simp_all add: m)
  moreover have "accAddressString sampleEnv ''agent'' = se_Address ?s" by (simp add: sampleEnv_def sampleOwner_def)
  ultimately have "validatedStatus ?p ?s = Some (Inr (statusAt 13)) \<longrightarrow> CheckAgentLeaseTx sampleEnv (sampleCtx\<lparr>blockHeight := 13\<rparr>)
      (SetAgentLease sampleLease kv_empty) ?tx = Inr ()"
    using validated_session_signs by blast
  with v show ?thesis by blast
qed

end
