(* ===== verification/Controller.thy ===== *)
theory Controller
  imports TxManager
begin

text \<open>
  The experiment controller's journal: dev/agent/internal/controller/journal.go. A bbolt file with
  one bucket; a step's record is written before its callback runs and again when it has ended.
  The file's state, \<open>crypto/rand\<close>, SHA-256 and the callbacks are outside. \<open>cj_runs\<close> is a ghost: the
  callbacks started, each with its step's name and the operation id it was given.
\<close>

record stepRecord =
  sr_Status :: string
  sr_Result :: "bytes option"
  sr_Error :: string

text \<open>A value of the bucket: plain bytes, a step's record, or another JSON value under \<open>data/\<close>.\<close>

datatype controllerRow = PlainRow bytes | StepRow stepRecord | DataRow bytes

record controllerJournal =
  cj_bucket :: "string \<rightharpoonup> controllerRow"
  cj_Owner :: string
  cj_runs :: "(string \<times> string) list"

text \<open>What \<open>Lstat\<close> shows: no file, or whether it is regular and private.\<close>

datatype fileState = Missing | Present bool | StatError

definition rowString :: "controllerRow option \<Rightarrow> string" where
  "rowString r = (case r of Some (PlainRow s) \<Rightarrow> s | _ \<Rightarrow> [])"

definition openChecks :: "fileState \<Rightarrow> bool \<Rightarrow> aerror option" where
  "openChecks f resume = (case f of
     StatError \<Rightarrow> Some (AExternal ''lstat'')
   | Present private' \<Rightarrow>
       if \<not> private' then Some (AErr ''controller journal must be a private regular file'')
       else if \<not> resume then Some (AErr ''controller journal exists; explicit resume is required'') else None
   | Missing \<Rightarrow> if resume then Some (AErr ''controller journal is missing'') else None)"

text \<open>The transaction of \<open>Open\<close>; \<open>identity\<close> is the hexadecimal hash of the marshalled identity.\<close>

definition openTx ::
    "string \<Rightarrow> bool \<Rightarrow> bytes option \<Rightarrow> (string \<rightharpoonup> controllerRow) \<Rightarrow> aerror + controllerJournal" where
  "openTx identity resume nonce b =
     (if resume then
        (let owner = rowString (b ''owner'') in
         if rowString (b ''identity'') \<noteq> identity then Inl (AErr ''controller inventory/revision/scenario mismatch'')
         else if length owner \<noteq> 64 then Inl (AErr ''invalid controller owner'')
         else if rowString (b ''finished'') = ''cleaned'' then Inl (AErr ''cleaned experiment cannot be resumed'')
         else Inr \<lparr>cj_bucket = b, cj_Owner = owner, cj_runs = []\<rparr>)
      else if b ''identity'' \<noteq> None
      then Inl (AErr ''controller journal was concurrently initialized; explicit resume is required'')
      else (case nonce of None \<Rightarrow> Inl (AExternal ''rand'') | Some bz \<Rightarrow>
        Inr \<lparr>cj_bucket = b(''identity'' \<mapsto> PlainRow identity, ''owner'' \<mapsto> PlainRow (hexEncode bz)), cj_Owner = hexEncode bz,
          cj_runs = []\<rparr>))"

definition controllerOpen ::
    "fileState \<Rightarrow> string \<Rightarrow> bool \<Rightarrow> aerror option \<Rightarrow> bytes option \<Rightarrow> (string \<rightharpoonup> controllerRow) \<Rightarrow> aerror + controllerJournal" where
  "controllerOpen f identity resume lock nonce b = (case openChecks f resume of Some e \<Rightarrow> Inl e | None \<Rightarrow>
     case lock of Some e \<Rightarrow> Inl (AErr (''controller is already running or journal unavailable: '' @ errText e)) | None \<Rightarrow>
     openTx identity resume nonce b)"

definition dataKey :: "string \<Rightarrow> string" where
  "dataKey key = ''data/'' @ key"

definition stepKey :: "string \<Rightarrow> string" where
  "stepKey name = ''step/'' @ name"

text \<open>\<open>Get\<close> into a step's record.\<close>

definition getStep :: "string \<Rightarrow> controllerJournal \<Rightarrow> aerror + stepRecord option" where
  "getStep key j = (case cj_bucket j (dataKey key) of
     None \<Rightarrow> Inr None
   | Some (StepRow r) \<Rightarrow> Inr (Some r)
   | Some _ \<Rightarrow> Inl (AExternal ''json''))"

text \<open>\<open>putErr\<close> is what the database says to a write.\<close>

definition putStep :: "string \<Rightarrow> stepRecord \<Rightarrow> aerror option \<Rightarrow> controllerJournal \<Rightarrow> aerror option \<times> controllerJournal" where
  "putStep key r putErr j = (case putErr of Some e \<Rightarrow> (Some e, j)
     | None \<Rightarrow> (None, j\<lparr>cj_bucket := (cj_bucket j)(dataKey key \<mapsto> StepRow r)\<rparr>))"

text \<open>
  What one call meets: the context, the database's answers to the two writes, and SHA-256. The
  callback takes the operation id and the state of its own world, and gives the JSON of its value or
  an error.
\<close>

record stepIO =
  sp_ctxErr :: "aerror option"
  sp_putErr1 :: "aerror option"
  sp_putErr2 :: "aerror option"
  sp_sha256 :: "bytes \<Rightarrow> bytes"

type_synonym 'w callback = "string \<Rightarrow> 'w \<Rightarrow> (aerror + bytes) \<times> 'w"

definition operationID :: "(bytes \<Rightarrow> bytes) \<Rightarrow> string \<Rightarrow> string \<Rightarrow> string" where
  "operationID sha owner name = hexEncode (sha (owner @ ''/'' @ name))"

definition savedStep :: "stepRecord option \<Rightarrow> stepRecord" where
  "savedStep found = (case found of None \<Rightarrow> \<lparr>sr_Status = [], sr_Result = None, sr_Error = []\<rparr> | Some r \<Rightarrow> r)"

text \<open>The end of a call: the callback's outcome is recorded and returned.\<close>

definition endStep ::
    "stepIO \<Rightarrow> string \<Rightarrow> aerror + bytes \<Rightarrow> controllerJournal \<Rightarrow> (aerror + bytes option) \<times> controllerJournal" where
  "endStep io name out j = (case out of
     Inl e \<Rightarrow> (case putStep (stepKey name) \<lparr>sr_Status = ''interrupted'', sr_Result = None, sr_Error = errText e\<rparr> (sp_putErr2 io) j of
         (Some e2, j') \<Rightarrow> (Inl (AErr (errText e @ ''; persist interruption: '' @ errText e2)), j')
       | (None, j') \<Rightarrow> (Inl e, j'))
   | Inr bz \<Rightarrow> (case putStep (stepKey name) \<lparr>sr_Status = ''done'', sr_Result = Some bz, sr_Error = []\<rparr> (sp_putErr2 io) j of
         (Some e, j') \<Rightarrow> (Inl e, j')
       | (None, j') \<Rightarrow> (Inr (Some bz), j')))"

text \<open>The answer: an error, or the result's JSON (none if a \<open>done\<close> record has none).\<close>

definition controllerStep ::
    "stepIO \<Rightarrow> 'w callback \<Rightarrow> string \<Rightarrow> controllerJournal \<Rightarrow> 'w \<Rightarrow> (aerror + bytes option) \<times> controllerJournal \<times> 'w" where
  "controllerStep io run name j w = (case sp_ctxErr io of Some e \<Rightarrow> (Inl e, j, w) | None \<Rightarrow>
     case getStep (stepKey name) j of Inl e \<Rightarrow> (Inl e, j, w) | Inr found \<Rightarrow>
     let saved = savedStep found in
     if found \<noteq> None \<and> sr_Status saved \<notin> {''done'', ''pending'', ''interrupted''}
     then (Inl (AErr ''invalid saved controller step status''), j, w)
     else if sr_Status saved = ''done'' then (Inr (sr_Result saved), j, w)
     else case putStep (stepKey name) \<lparr>sr_Status = ''pending'', sr_Result = None, sr_Error = []\<rparr> (sp_putErr1 io) j of
       (Some e, j') \<Rightarrow> (Inl e, j', w)
     | (None, j1) \<Rightarrow>
         let op = operationID (sp_sha256 io) (cj_Owner j1) name; (out, w') = run op w;
           (r, j') = endStep io name out (j1\<lparr>cj_runs := cj_runs j1 @ [(name, op)]\<rparr>) in
         (r, j', w'))"

definition controllerFinish :: "string \<Rightarrow> aerror option \<Rightarrow> controllerJournal \<Rightarrow> aerror option \<times> controllerJournal" where
  "controllerFinish status putErr j =
     (if status \<noteq> ''passed'' \<and> status \<noteq> ''cleaned'' then (Some (AErr ''invalid controller terminal status''), j)
      else case putErr of Some e \<Rightarrow> (Some e, j)
        | None \<Rightarrow> (None, j\<lparr>cj_bucket := (cj_bucket j)(''finished'' \<mapsto> PlainRow status)\<rparr>))"

section \<open>What steps keep\<close>

definition stepDone :: "controllerJournal \<Rightarrow> string \<Rightarrow> bytes \<Rightarrow> bool" where
  "stepDone j name bz \<longleftrightarrow> getStep (stepKey name) j = Inr (Some \<lparr>sr_Status = ''done'', sr_Result = Some bz, sr_Error = []\<rparr>)"

lemma dataKey_inject [simp]: "dataKey a = dataKey b \<longleftrightarrow> a = b" by (simp add: dataKey_def)

lemma stepKey_inject [simp]: "stepKey a = stepKey b \<longleftrightarrow> a = b" by (simp add: stepKey_def)

lemma getStep_runs [simp]: "getStep k (j\<lparr>cj_runs := r\<rparr>) = getStep k j" by (simp add: getStep_def)

lemma putStep_get: "putStep k r e j = (e', j') \<Longrightarrow> getStep k' j' = (if e' = None \<and> k' = k then Inr (Some r) else getStep k' j)"
  by (auto simp: putStep_def getStep_def split: option.splits)

lemma putStep_runs: "putStep k r e j = (e', j') \<Longrightarrow> cj_runs j' = cj_runs j \<and> cj_Owner j' = cj_Owner j"
  by (auto simp: putStep_def split: option.splits)

lemma endStep_done: "endStep io name out j = (Inr r, j') \<Longrightarrow> \<exists>bz. out = Inr bz \<and> r = Some bz \<and> stepDone j' name bz"
  by (cases out) (auto simp: endStep_def stepDone_def putStep_get split: option.splits prod.splits)

lemma endStep_frame:
  assumes "endStep io name out j = (r, j')"
  shows "cj_runs j' = cj_runs j" "cj_Owner j' = cj_Owner j" "k \<noteq> stepKey name \<Longrightarrow> getStep k j' = getStep k j"
    "\<And>k. (\<forall>n. k \<noteq> dataKey (stepKey n)) \<Longrightarrow> cj_bucket j' k = cj_bucket j k"
  using assms by (auto simp: endStep_def putStep_def getStep_def split: sum.splits option.splits)

text \<open>How a call can go: nothing is run, or the callback runs once under the step's operation id.\<close>

lemma controllerStep_cases:
  assumes "controllerStep io run name j w = (r, j', w')"
  obtains (kept) "j' = j" "w' = w"
      "\<And>out. r = Inr out \<Longrightarrow> \<exists>s. getStep (stepKey name) j = Inr (Some s) \<and> sr_Status s = ''done'' \<and> out = sr_Result s"
  | (ran) "\<And>s. getStep (stepKey name) j = Inr (Some s) \<Longrightarrow> sr_Status s \<noteq> ''done''"
     "cj_runs j' = cj_runs j @ [(name, operationID (sp_sha256 io) (cj_Owner j) name)]" "cj_Owner j' = cj_Owner j"
     "\<And>k. k \<noteq> stepKey name \<Longrightarrow> getStep k j' = getStep k j"
     "\<And>k. (\<forall>n. k \<noteq> dataKey (stepKey n)) \<Longrightarrow> cj_bucket j' k = cj_bucket j k"
     "w' = snd (run (operationID (sp_sha256 io) (cj_Owner j) name) w)"
     "\<And>out. r = Inr out \<Longrightarrow> \<exists>bz. out = Some bz \<and> stepDone j' name bz
        \<and> fst (run (operationID (sp_sha256 io) (cj_Owner j) name) w) = Inr bz"
proof (cases "sp_ctxErr io \<noteq> None \<or> \<not> is_ok (getStep (stepKey name) j)")
  case True
  then have "j' = j" "w' = w" "\<And>out. r \<noteq> Inr out"
    using assms by (auto simp: controllerStep_def is_ok_iff split: option.splits sum.splits)
  then show ?thesis by (intro kept) auto
next
  case False
  then obtain found where f: "getStep (stepKey name) j = Inr found" and c: "sp_ctxErr io = None" by (auto simp: is_ok_iff)
  obtain e1 j1 where p1: "putStep (stepKey name) \<lparr>sr_Status = ''pending'', sr_Result = None, sr_Error = []\<rparr> (sp_putErr1 io) j = (e1, j1)"
    by fastforce
  note g1 = putStep_get [OF p1] and o1 = putStep_runs [OF p1]
  define op where "op = operationID (sp_sha256 io) (cj_Owner j1) name"
  obtain out w1 where rn: "run op w = (out, w1)" by fastforce
  obtain r2 j2 where en: "endStep io name out (j1\<lparr>cj_runs := cj_runs j1 @ [(name, op)]\<rparr>) = (r2, j2)" by fastforce
  note fr = endStep_frame [OF en]
  show ?thesis
  proof (cases "found \<noteq> None \<and> sr_Status (savedStep found) \<notin> {''pending'', ''interrupted''} \<or> sr_Status (savedStep found) = ''done''")
    case True
    then have "j' = j" "w' = w" "\<And>out. r = Inr out \<Longrightarrow> found = Some (savedStep found) \<and> sr_Status (savedStep found) = ''done'' \<and> out = sr_Result (savedStep found)"
      using assms by (auto simp: controllerStep_def c f Let_def savedStep_def split: if_splits option.splits)
    then show ?thesis by (intro kept) (use f in auto)
  next
    case go: False
    then have nd: "\<And>s. getStep (stepKey name) j = Inr (Some s) \<Longrightarrow> sr_Status s \<noteq> ''done''" using f by (auto simp: savedStep_def)
    have eq: "(r, j', w') = (case e1 of Some e \<Rightarrow> (Inl e, j1, w) | None \<Rightarrow> (r2, j2, w1))"
      using assms go by (auto simp: controllerStep_def c f p1 rn en Let_def op_def [symmetric] split: option.splits)
    show ?thesis
    proof (cases e1)
      case (Some e)
      then have "j1 = j" using p1 by (auto simp: putStep_def split: option.splits)
      with eq Some show ?thesis by (intro kept) auto
    next
      case None
      have b1: "\<And>k. (\<forall>n. k \<noteq> dataKey (stepKey n)) \<Longrightarrow> cj_bucket j1 k = cj_bucket j k"
        using p1 by (auto simp: putStep_def split: option.splits)
      have ok: "\<exists>bz. out' = Some bz \<and> stepDone j2 name bz \<and> out = Inr bz" if "r2 = Inr out'" for out'
        using endStep_done [of io name out _ out' j2] en that by blast
      show ?thesis using nd eq None o1 g1 fr b1 rn ok
        by (intro ran) (auto simp: op_def)
    qed
  qed
qed

fun controllerSteps :: "(stepIO \<times> 'w callback \<times> string) list \<Rightarrow> controllerJournal \<times> 'w \<Rightarrow> controllerJournal \<times> 'w" where
  "controllerSteps [] s = s"
| "controllerSteps ((io, run, name) # rest) (j, w) = controllerSteps rest (snd (controllerStep io run name j w))"

definition runsOf :: "string \<Rightarrow> controllerJournal \<Rightarrow> (string \<times> string) list" where
  "runsOf name j = filter (\<lambda>e. fst e = name) (cj_runs j)"

lemma stepDone_kept:
  assumes "stepDone j name bz" "controllerStep io run other j w = (r, j', w')"
  shows "stepDone j' name bz" "runsOf name j' = runsOf name j"
proof -
  from assms(2) have "stepDone j' name bz \<and> runsOf name j' = runsOf name j"
  proof (cases rule: controllerStep_cases)
    case kept
    with assms show ?thesis by simp
  next
    case ran
    have "other \<noteq> name" using ran(1) assms(1) by (auto simp: stepDone_def)
    then show ?thesis using ran(2,4) assms(1) by (simp add: stepDone_def runsOf_def)
  qed
  then show "stepDone j' name bz" "runsOf name j' = runsOf name j" by simp_all
qed

lemma steps_keep_done:
  assumes "stepDone j name bz" "controllerSteps steps (j, w) = (j', w')"
  shows "stepDone j' name bz \<and> runsOf name j' = runsOf name j"
  using assms
proof (induction steps arbitrary: j w)
  case (Cons s steps)
  obtain io run other where s: "s = (io, run, other)" by (cases s) auto
  obtain r j1 w1 where c: "controllerStep io run other j w = (r, j1, w1)" by (cases "controllerStep io run other j w") auto
  from Cons.IH [OF stepDone_kept(1) [OF Cons.prems(1) c]] stepDone_kept(2) [OF Cons.prems(1) c] Cons.prems(2)
  show ?case by (simp add: s c)
qed simp

text \<open>
  A finished step is never run again. Once a step has returned its result, then after any further
  steps of the experiment - under any callbacks, errors and database answers - asking for that step
  again returns the same result and starts no callback for it.
\<close>

lemma step_runs_once:
  assumes "controllerStep io run name j w = (Inr (Some bz), j1, w1)" "sp_sha256 io = sha"
    and "\<And>s. getStep (stepKey name) j \<noteq> Inr (Some s)"
    and "controllerSteps steps (j1, w1) = (j2, w2)" "sp_ctxErr io' = None"
  shows "controllerStep io' run' name j2 w2 = (Inr (Some bz), j2, w2)
    \<and> runsOf name j2 = runsOf name j @ [(name, operationID sha (cj_Owner j) name)]"
proof -
  have "stepDone j1 name bz \<and> runsOf name j1 = runsOf name j @ [(name, operationID sha (cj_Owner j) name)]"
    using assms(1)
  proof (cases rule: controllerStep_cases)
    case kept
    with assms(3) show ?thesis by blast
  next
    case ran
    with assms(2) show ?thesis by (auto simp: runsOf_def)
  qed
  with steps_keep_done [OF _ assms(4)] show ?thesis
    using assms(5) by (simp add: controllerStep_def stepDone_def savedStep_def Let_def)
qed

definition sampleStep :: stepIO where
  "sampleStep = \<lparr>sp_ctxErr = None, sp_putErr1 = None, sp_putErr2 = None, sp_sha256 = (\<lambda>b. b)\<rparr>"

end
