(* ===== verification/AgentApi.thy ===== *)
theory AgentApi
  imports Policy
begin

text \<open>
  The mechanical reviewer's HTTP service and the two mock services beside it:
  dev/mock/agent-api/main.go, dev/mock/risk-service/main.go and dev/mock/llm-service/main.go. The
  service scores a transfer and recommends an action; the agents compare its answer with the
  policy. HTTP, JSON and the clock are outside; Go's Unicode \<open>ToLower\<close> and \<open>TrimSpace\<close> and
  \<open>ParseFloat\<close> are parameters. The reported confidence, a float, is left out.
\<close>

record goText =
  ToLower :: "string \<Rightarrow> string"
  TrimSpace :: "string \<Rightarrow> string"

text \<open>A parsed float64: a number \<open>m * 2^e\<close>, an infinity (with its sign), or not a number.\<close>

datatype goFloat = FNum int int | FInf bool | FNaN

definition floatAtLeast :: "goFloat \<Rightarrow> int \<Rightarrow> bool" where
  "floatAtLeast f n = (case f of FNum m e \<Rightarrow> if e \<ge> 0 then m * 2 ^ nat e \<ge> n else m \<ge> n * 2 ^ nat (- e)
     | FInf positive \<Rightarrow> positive | FNaN \<Rightarrow> False)"

definition floatPositive :: "goFloat \<Rightarrow> bool" where
  "floatPositive f = (case f of FNum m e \<Rightarrow> m > 0 | FInf positive \<Rightarrow> positive | FNaN \<Rightarrow> False)"

definition floatBelow :: "goFloat \<Rightarrow> int \<Rightarrow> bool" where
  "floatBelow f n = (f \<noteq> FNaN \<and> \<not> floatAtLeast f n)"

section \<open>Requests\<close>

record txInput =
  ti_TxHash :: string
  ti_Sender :: string
  ti_Recipient :: string
  ti_Amount :: string
  ti_Denom :: string
  ti_Confirmed :: bool

record riskInput =
  ri_Source :: string
  ri_ResponseID :: string
  ri_Address :: string
  ri_Score :: u32
  ri_Categories :: "string list"
  ri_ExposureType :: string

record policyInput =
  po_WatchThreshold :: u32
  po_BlockThreshold :: u32
  po_FreezeThreshold :: u32
  po_RevertThreshold :: u32
  po_HighRisk :: "string list"
  po_CriticalRisk :: "string list"
  po_TrustedAddresses :: "string list"
  po_BlockedAddresses :: "string list"

record evaluateRequest =
  er_AgentID :: string
  er_TargetType :: string
  er_Tx :: txInput
  er_Risk :: riskInput
  er_Policy :: policyInput

record evaluateResponse =
  ep_AgentID :: string
  ep_DecisionID :: string
  ep_Approved :: bool
  ep_VoteOption :: string
  ep_Action :: string
  ep_RawRiskScore :: u32
  ep_CalibratedScore :: u32
  ep_ReviewLevel :: string
  ep_EvidenceStatus :: string
  ep_Rationale :: string
  ep_RequiredEvidence :: "string list"
  ep_Findings :: "string list"

section \<open>Text\<close>

fun splitComma :: "string \<Rightarrow> string list" where
  "splitComma [] = [[]]"
| "splitComma (c # s) = (if c = CHR '','' then [] # splitComma s
     else case splitComma s of [] \<Rightarrow> [[c]] | w # ws \<Rightarrow> (c # w) # ws)"

fun joinWith :: "string \<Rightarrow> string list \<Rightarrow> string" where
  "joinWith sep [] = []"
| "joinWith sep [w] = w"
| "joinWith sep (w # ws) = w @ sep @ joinWith sep ws"

text \<open>The loop of \<open>normalizeList\<close> before the sort.\<close>

fun normalizeLoop :: "goText \<Rightarrow> string list \<Rightarrow> string list \<Rightarrow> string list" where
  "normalizeLoop T [] out = out"
| "normalizeLoop T (v # vs) out = (let value = ToLower T (TrimSpace T v) in
     if value = [] \<or> value \<in> set out then normalizeLoop T vs out else normalizeLoop T vs (out @ [value]))"

definition normalizeList :: "goText \<Rightarrow> string list \<Rightarrow> string list" where
  "normalizeList T values = sort (normalizeLoop T values [])"

definition parseSet :: "goText \<Rightarrow> string \<Rightarrow> string set" where
  "parseSet T csv = set (filter (\<lambda>item. item \<noteq> []) (map (\<lambda>item. ToLower T (TrimSpace T item)) (splitComma csv)))"

definition signed :: "int \<Rightarrow> string" where
  "signed n = (if n < 0 then ''-'' @ dec_digits (nat (- n)) else ''+'' @ dec_digits (nat n))"

section \<open>Scoring\<close>

definition orThreshold :: "u32 \<Rightarrow> u32 \<Rightarrow> u32" where
  "orThreshold v d = (if v = 0 then d else v)"

definition defaultHighRisk :: "string list" where
  "defaultHighRisk = [''sanctioned'', ''scam'', ''darknet'', ''money_laundering'', ''terrorist_financing'']"

definition defaultCriticalRisk :: "string list" where
  "defaultCriticalRisk = [''sanctioned'', ''terrorist_financing'', ''ransomware'']"

definition applyDefaults :: "goText \<Rightarrow> evaluateRequest \<Rightarrow> evaluateRequest" where
  "applyDefaults T req = (let p = er_Policy req; r = er_Risk req in req
     \<lparr>er_TargetType := (if er_TargetType req = [] then ''tx'' else er_TargetType req),
      er_Policy := p\<lparr>po_WatchThreshold := orThreshold (po_WatchThreshold p) 60,
        po_BlockThreshold := orThreshold (po_BlockThreshold p) 80,
        po_FreezeThreshold := orThreshold (po_FreezeThreshold p) 85,
        po_RevertThreshold := orThreshold (po_RevertThreshold p) 90,
        po_HighRisk := normalizeList T (if po_HighRisk p = [] then defaultHighRisk else po_HighRisk p),
        po_CriticalRisk := normalizeList T (if po_CriticalRisk p = [] then defaultCriticalRisk else po_CriticalRisk p),
        po_TrustedAddresses := normalizeList T (po_TrustedAddresses p),
        po_BlockedAddresses := normalizeList T (po_BlockedAddresses p)\<rparr>,
      er_Risk := r\<lparr>ri_Categories := normalizeList T (ri_Categories r),
        ri_ExposureType := ToLower T (TrimSpace T (ri_ExposureType r))\<rparr>\<rparr>)"

definition categoryWeights :: "(string \<times> int) list" where
  "categoryWeights = [(''sanctioned'', 18), (''terrorist_financing'', 18), (''ransomware'', 16), (''money_laundering'', 12),
     (''scam'', 10), (''darknet'', 9), (''mixer'', 8), (''fraud'', 8), (''unknown'', 0), (''low_risk'', -10),
     (''false_positive_review'', -20)]"

type_synonym scored = "int \<times> string list"

fun scoreCategories :: "string list \<Rightarrow> scored \<Rightarrow> scored" where
  "scoreCategories [] s = s"
| "scoreCategories (c # cs) (score, findings) = (case map_of categoryWeights c of
     None \<Rightarrow> scoreCategories cs (score, findings)
   | Some weight \<Rightarrow> if weight = 0 then scoreCategories cs (score, findings)
       else scoreCategories cs (score + weight, findings @ [''category:'' @ c @ '':'' @ signed weight]))"

definition scoreExposure :: "string \<Rightarrow> scored \<Rightarrow> scored" where
  "scoreExposure e s = (case s of (score, findings) \<Rightarrow>
     if e = ''direct'' then (score + 8, findings @ [''exposure:direct:+8''])
     else if e = ''indirect'' then (score + 3, findings @ [''exposure:indirect:+3''])
     else if e = [] \<or> e = ''none'' then (score - 3, findings @ [''exposure:none:-3''])
     else (score, findings @ [''exposure:'' @ e @ '':+0'']))"

definition parseAmount :: "goText \<Rightarrow> (string \<Rightarrow> goFloat option) \<Rightarrow> string \<Rightarrow> goFloat option" where
  "parseAmount T parseFloat value = (let v = TrimSpace T value in if v = [] then None else parseFloat v)"

definition scoreAmount :: "goText \<Rightarrow> (string \<Rightarrow> goFloat option) \<Rightarrow> string \<Rightarrow> scored \<Rightarrow> scored" where
  "scoreAmount T parseFloat text s = (case s of (score, findings) \<Rightarrow>
     (case parseAmount T parseFloat text of
        Some amount \<Rightarrow>
          if floatAtLeast amount 1000000 then (score + 8, findings @ [''amount:very_large:+8''])
          else if floatAtLeast amount 10000 then (score + 4, findings @ [''amount:large:+4''])
          else if floatPositive amount \<and> floatBelow amount 1 then (score - 2, findings @ [''amount:dust:-2''])
          else (score, findings)
      | None \<Rightarrow> if text = [] then (score - 3, findings @ [''amount:missing:-3''])
          else (score - 2, findings @ [''amount:unparseable:-2''])))"

definition scoreAddresses :: "goText \<Rightarrow> evaluateRequest \<Rightarrow> scored \<Rightarrow> scored" where
  "scoreAddresses T req s = (let sender = ToLower T (ti_Sender (er_Tx req)); recipient = ToLower T (ti_Recipient (er_Tx req));
       trusted = po_TrustedAddresses (er_Policy req); blocked = po_BlockedAddresses (er_Policy req);
       s1 = (if stringInSlice sender trusted \<or> stringInSlice recipient trusted
             then (fst s - 25, snd s @ [''policy:trusted_address:-25'']) else s)
     in if stringInSlice sender blocked \<or> stringInSlice recipient blocked
        then (fst s1 + 30, snd s1 @ [''policy:blocked_address:+30'']) else s1)"

definition missingEvidence :: "evaluateRequest \<Rightarrow> string list" where
  "missingEvidence req =
     (if ti_TxHash (er_Tx req) = [] then [''tx_hash''] else [])
     @ (if ti_Recipient (er_Tx req) = [] then [''recipient''] else [])
     @ (if ri_Source (er_Risk req) = [] then [''risk_source''] else [])
     @ (if ri_ResponseID (er_Risk req) = [] then [''risk_response_id''] else [])
     @ (if ri_Categories (er_Risk req) = [] then [''risk_categories''] else [])"

definition evidenceStatus :: "evaluateRequest \<Rightarrow> string \<times> string list" where
  "evidenceStatus req = (let missing = missingEvidence req in
     if missing = [] then (''complete'', missing)
     else if length missing \<le> 2 then (''partial'', missing)
     else (''insufficient'', missing))"

definition missingPenalty :: "string \<Rightarrow> int \<times> string" where
  "missingPenalty item =
     (if item = ''risk_response_id'' \<or> item = ''risk_source'' then (6, '':-6'')
      else if item = ''tx_hash'' \<or> item = ''recipient'' then (15, '':-15'')
      else (3, '':-3''))"

fun scoreMissing :: "string list \<Rightarrow> scored \<Rightarrow> scored" where
  "scoreMissing [] s = s"
| "scoreMissing (item # items) s = scoreMissing items
     (fst s - fst (missingPenalty item), snd s @ [''evidence:'' @ item @ snd (missingPenalty item)])"

definition clampScore :: "int \<Rightarrow> int" where
  "clampScore score = (let s = (if score < 0 then 0 else score) in if s > 100 then 100 else s)"

text \<open>\<open>sort.Strings(findings[1:])\<close> sorts all but the first finding.\<close>

definition sortTail :: "string list \<Rightarrow> string list" where
  "sortTail fs = (case fs of [] \<Rightarrow> [] | f # rest \<Rightarrow> f # sort rest)"

definition calibrateRiskScore :: "goText \<Rightarrow> (string \<Rightarrow> goFloat option) \<Rightarrow> evaluateRequest \<Rightarrow> u32 \<times> string list" where
  "calibrateRiskScore T parseFloat req = (let
     s0 = (int (unat (ri_Score (er_Risk req))), [''base_risk_score='' @ dec_digits (unat (ri_Score (er_Risk req)))]);
     s1 = scoreCategories (ri_Categories (er_Risk req)) s0;
     s2 = scoreExposure (ri_ExposureType (er_Risk req)) s1;
     s3 = scoreAmount T parseFloat (ti_Amount (er_Tx req)) s2;
     s4 = scoreAddresses T req s3;
     s5 = scoreMissing (snd (evidenceStatus req)) s4
   in (of_int (clampScore (fst s5)), sortTail (snd s5)))"

section \<open>Deciding\<close>

fun anyIn :: "string list \<Rightarrow> string list \<Rightarrow> bool \<Rightarrow> bool" where
  "anyIn [] high highRisk = highRisk"
| "anyIn (c # cs) high highRisk = anyIn cs high (if stringInSlice c high then True else highRisk)"

definition decideAction :: "evaluateRequest \<Rightarrow> u32 \<Rightarrow> string \<Rightarrow> string" where
  "decideAction req score evidence = (let p = er_Policy req;
       highRisk = anyIn (ri_Categories (er_Risk req)) (po_HighRisk p) False in
     if evidence = ''insufficient'' then (if score \<ge> po_WatchThreshold p then ''watch'' else ''none'')
     else if \<not> highRisk then (if score \<ge> po_WatchThreshold p then ''watch'' else ''none'')
     else let action = (if score \<ge> po_RevertThreshold p then ''revert_transfer''
         else if score \<ge> po_FreezeThreshold p then ''freeze_address''
         else if score \<ge> po_BlockThreshold p then ''block_tx''
         else if score \<ge> po_WatchThreshold p then ''watch'' else ''none'')
       in if er_TargetType req = ''tx'' \<and> (action = ''revert_transfer'' \<or> action = ''freeze_address'')
          then ''block_tx'' else action)"

definition reviewLevel :: "u32 \<Rightarrow> string \<Rightarrow> string \<Rightarrow> string" where
  "reviewLevel score action evidence =
     (if evidence = ''insufficient'' then ''manual_review_required''
      else if action = ''none'' then ''auto_reject''
      else if score \<ge> 90 then ''critical''
      else if score \<ge> 80 then ''high''
      else if score \<ge> 60 then ''monitor''
      else ''manual_review_required'')"

definition rationale :: "evaluateRequest \<Rightarrow> string \<Rightarrow> u32 \<Rightarrow> string list \<Rightarrow> string list \<Rightarrow> string" where
  "rationale req action score findings missing =
     (if action = ''none''
      then ''calibrated_score='' @ dec_digits (unat score) @ '' does not exceed policy thresholds for a high-confidence sanction''
      else let detail = joinWith '';'' findings @ (if missing \<noteq> [] then '';missing='' @ joinWith '','' missing else []) in
        ''mechanical policy approved '' @ action @ '' because calibrated_score='' @ dec_digits (unat score)
        @ '' categories='' @ joinWith '','' (ri_Categories (er_Risk req)) @ '' exposure='' @ ri_ExposureType (er_Risk req)
        @ '' target_type='' @ er_TargetType req @ '' findings='' @ detail)"

definition requiredEvidence :: "string list \<Rightarrow> string list" where
  "requiredEvidence missing = [''risk_response'', ''tx_metadata'', ''policy_thresholds''] @ map (\<lambda>item. ''missing:'' @ item) missing"

definition decisionID :: "(evaluateRequest \<Rightarrow> bytes) \<Rightarrow> (bytes \<Rightarrow> bytes) \<Rightarrow> evaluateRequest \<Rightarrow> string" where
  "decisionID marshal sha req = ''decision-'' @ hexEncode (sha (''g503-mechanical-v2'' @ [byte 10] @ marshal req))"

text \<open>The body of the handler after decoding, with \<open>evaluate\<close>: an HTTP status, or the answer.\<close>

datatype 'a httpResult = HttpError nat | HttpOk 'a

definition validRequest :: "evaluateRequest \<Rightarrow> bool" where
  "validRequest req \<longleftrightarrow> \<not> (ri_Score (er_Risk req) > 100 \<or> (er_TargetType req \<noteq> ''tx'' \<and> er_TargetType req \<noteq> ''address'')
     \<or> po_WatchThreshold (er_Policy req) > po_BlockThreshold (er_Policy req)
     \<or> po_BlockThreshold (er_Policy req) > po_FreezeThreshold (er_Policy req)
     \<or> po_FreezeThreshold (er_Policy req) > po_RevertThreshold (er_Policy req)
     \<or> po_RevertThreshold (er_Policy req) > 100)"

definition respond ::
    "goText \<Rightarrow> (string \<Rightarrow> goFloat option) \<Rightarrow> (evaluateRequest \<Rightarrow> string) \<Rightarrow> evaluateRequest \<Rightarrow> evaluateResponse" where
  "respond T parseFloat decision req = (case calibrateRiskScore T parseFloat req of (score, findings) \<Rightarrow>
     (case evidenceStatus req of (evidence, missing) \<Rightarrow>
      let action = decideAction req score evidence; approved = (action \<noteq> ''none'') in
      \<lparr>ep_AgentID = er_AgentID req, ep_DecisionID = decision req, ep_Approved = approved,
       ep_VoteOption = (if approved then ''approve'' else ''reject''), ep_Action = action,
       ep_RawRiskScore = ri_Score (er_Risk req), ep_CalibratedScore = score,
       ep_ReviewLevel = reviewLevel score action evidence, ep_EvidenceStatus = evidence,
       ep_Rationale = rationale req action score findings missing, ep_RequiredEvidence = requiredEvidence missing,
       ep_Findings = findings\<rparr>))"

text \<open>The decoded body: an error (with whether it was too large), or the request.\<close>

definition handleEvaluate ::
    "goText \<Rightarrow> (string \<Rightarrow> goFloat option) \<Rightarrow> (evaluateRequest \<Rightarrow> string) \<Rightarrow> string \<Rightarrow> bool + evaluateRequest
      \<Rightarrow> evaluateResponse httpResult" where
  "handleEvaluate T parseFloat decision method body =
     (if method \<noteq> ''POST'' then HttpError 405
      else case body of
        Inl tooLarge \<Rightarrow> HttpError (if tooLarge then 413 else 400)
      | Inr req0 \<Rightarrow>
          if er_AgentID req0 = [] \<or> ti_TxHash (er_Tx req0) = [] then HttpError 400
          else let req = applyDefaults T req0 in
            if \<not> validRequest req then HttpError 400 else HttpOk (respond T parseFloat decision req))"

section \<open>Access (newAPIHandler, rateLimiter)\<close>

record rateLimiter =
  rl_limit :: int
  rl_window :: int
  rl_clients :: "string \<Rightarrow> int"

text \<open>\<open>since\<close> and \<open>now\<close> are the two clock reads, a minute is in nanoseconds.\<close>

definition allow :: "(string \<Rightarrow> string option) \<Rightarrow> int \<Rightarrow> int \<Rightarrow> string \<Rightarrow> rateLimiter \<Rightarrow> bool \<times> rateLimiter" where
  "allow splitHost since now remote r =
     (if rl_limit r \<le> 0 then (True, r)
      else let host = (case splitHost remote of Some h \<Rightarrow> h | None \<Rightarrow> remote);
        r1 = (if since - rl_window r \<ge> 60000000000 then r\<lparr>rl_window := now, rl_clients := (\<lambda>_. 0)\<rparr> else r);
        r2 = r1\<lparr>rl_clients := (rl_clients r1)(host := rl_clients r1 host + 1)\<rparr>
      in (rl_clients r2 host \<le> rl_limit r2, r2))"

record httpRequest =
  hr_Method :: string
  hr_Authorization :: string
  hr_Role :: string
  hr_RemoteAddr :: string
  hr_Body :: "bool + evaluateRequest"

definition serveEvaluate ::
    "goText \<Rightarrow> (string \<Rightarrow> goFloat option) \<Rightarrow> (evaluateRequest \<Rightarrow> string) \<Rightarrow> (string \<Rightarrow> string option) \<Rightarrow> string \<Rightarrow> string set
      \<Rightarrow> int \<Rightarrow> int \<Rightarrow> httpRequest \<Rightarrow> rateLimiter \<Rightarrow> evaluateResponse httpResult \<times> rateLimiter" where
  "serveEvaluate T parseFloat decision splitHost token roles since now r limiter =
     (if token \<noteq> [] \<and> hr_Authorization r \<noteq> ''Bearer '' @ token then (HttpError 401, limiter)
      else if roles \<noteq> {} \<and> ToLower T (TrimSpace T (hr_Role r)) \<notin> roles then (HttpError 403, limiter)
      else case allow splitHost since now (hr_RemoteAddr r) limiter of (ok, limiter') \<Rightarrow>
        if \<not> ok then (HttpError 429, limiter')
        else (handleEvaluate T parseFloat decision (hr_Method r) (hr_Body r), limiter'))"

section \<open>The mock risk and explanation services\<close>

record riskConfig =
  rk_addresses :: "string set"
  rk_score :: u32
  rk_categories :: "string list"

fun containsText :: "string \<Rightarrow> string \<Rightarrow> bool" where
  "containsText [] sub = (sub = [])"
| "containsText (c # s) sub = (hasPrefix (c # s) sub \<or> containsText s sub)"

definition configureHighRiskAddresses :: "goText \<Rightarrow> string \<Rightarrow> riskConfig \<Rightarrow> riskConfig" where
  "configureHighRiskAddresses T addresses k = k\<lparr>rk_addresses := rk_addresses k \<union> parseSet T addresses\<rparr>"

definition configureExplicitRisk :: "goText \<Rightarrow> u32 \<Rightarrow> string \<Rightarrow> riskConfig \<Rightarrow> riskConfig" where
  "configureExplicitRisk T score categories k = (let cs = filter (\<lambda>c. c \<noteq> []) (map (TrimSpace T) (splitComma categories)) in
     k\<lparr>rk_score := score, rk_categories := (if cs = [] then [''scam''] else cs)\<rparr>)"

text \<open>Score, categories and exposure of a key.\<close>

definition classify :: "goText \<Rightarrow> riskConfig \<Rightarrow> string \<Rightarrow> u32 \<times> string list \<times> string" where
  "classify T k key = (let lower = ToLower T key in
     if lower \<in> rk_addresses k then (rk_score k, rk_categories k, ''direct'')
     else if containsText lower ''sanction'' then (98, [''sanctioned'', ''money_laundering''], ''direct'')
     else if containsText lower ''scam'' then (86, [''scam''], ''direct'')
     else if containsText lower ''launder'' then (92, [''money_laundering''], ''indirect'')
     else if containsText lower ''watch'' then (65, [''unknown''], ''indirect'')
     else (12, [''low_risk''], ''none''))"

definition explainAction :: "u32 \<Rightarrow> string" where
  "explainAction score = (if score \<ge> 90 then ''revert'' else if score \<ge> 85 then ''freeze''
     else if score \<ge> 80 then ''block'' else if score \<ge> 60 then ''watch'' else ''none'')"

section \<open>Facts\<close>

lemma clampScore_bounds: "0 \<le> clampScore n \<and> clampScore n \<le> 100"
  by (simp add: clampScore_def Let_def)

lemma anyIn_eq: "anyIn cs high b \<longleftrightarrow> b \<or> (\<exists>c \<in> set cs. c \<in> set high)"
  by (induction cs arbitrary: b) auto

lemma normalizeLoop_set: "set (normalizeLoop T vs out) = set out \<union> {w. w \<noteq> [] \<and> (\<exists>v \<in> set vs. w = ToLower T (TrimSpace T v))}"
  by (induction T vs out rule: normalizeLoop.induct) (auto simp: Let_def)

lemma normalizeLoop_distinct: "distinct out \<Longrightarrow> distinct (normalizeLoop T vs out)"
  by (induction T vs out rule: normalizeLoop.induct) (auto simp: Let_def)

section \<open>Properties\<close>

text \<open>
  C38. The reviewer's answer stays in range and is consistent. Whatever is posted, an answered request
  has a calibrated score of at most 100, an action from the policy's five, and votes to approve exactly
  when that action is not \<open>none\<close>; without enough evidence it never recommends more than watching.
\<close>

theorem reviewer_answer_bounded:
  assumes "handleEvaluate T parseFloat decision method body = HttpOk r"
  shows "unat (ep_CalibratedScore r) \<le> 100 \<and> ep_RawRiskScore r \<le> 100
    \<and> ep_Action r \<in> {''none'', ''watch'', ''block_tx'', ''freeze_address'', ''revert_transfer''}
    \<and> (ep_VoteOption r = ''approve'' \<longleftrightarrow> ep_Action r \<noteq> ''none'')
    \<and> (ep_EvidenceStatus r = ''insufficient'' \<longrightarrow> ep_Action r \<in> {''none'', ''watch''} \<and> ep_ReviewLevel r = ''manual_review_required'')"
proof -
  obtain req where r: "r = respond T parseFloat decision req" "validRequest req"
    using assms by (auto simp: handleEvaluate_def Let_def split: if_splits sum.splits)
  have u: "unat (of_int n :: u32) \<le> 100" if "0 \<le> n" "n \<le> 100" for n
  proof -
    have "(of_int n :: u32) = of_nat (nat n)" using that by simp
    then have "unat (of_int n :: u32) = nat n mod 2 ^ LENGTH(32)" by (simp add: unat_of_nat)
    also have "\<dots> = nat n" using that by simp
    finally show ?thesis using that by simp
  qed
  have s: "unat (fst (calibrateRiskScore T parseFloat req)) \<le> 100"
    using u clampScore_bounds by (simp add: calibrateRiskScore_def Let_def)
  obtain evidence missing where e: "evidenceStatus req = (evidence, missing)" by fastforce
  obtain score findings where c: "calibrateRiskScore T parseFloat req = (score, findings)" by fastforce
  have act: "decideAction req score evidence \<in> {''none'', ''watch'', ''block_tx'', ''freeze_address'', ''revert_transfer''}"
    "evidence = ''insufficient'' \<Longrightarrow> decideAction req score evidence \<in> {''none'', ''watch''}"
    by (simp_all add: decideAction_def Let_def)
  show ?thesis
    using s r(2) act by (simp add: r(1) respond_def c e Let_def reviewLevel_def validRequest_def not_less)
qed

text \<open>The names the service gives the policy's actions.\<close>

definition actionName :: "SanctionAction \<Rightarrow> string" where
  "actionName a = (if a = SANCTION_ACTION_WATCH then ''watch'' else if a = SANCTION_ACTION_BLOCK_TX then ''block_tx''
     else if a = SANCTION_ACTION_FREEZE_ADDRESS then ''freeze_address''
     else if a = SANCTION_ACTION_REVERT_TRANSFER then ''revert_transfer'' else ''none'')"

text \<open>
  The reviewer applies the chain's policy. With enough evidence, the recommended action is the one
  the agent's policy - and so the chain's - gives for the calibrated score under the same thresholds and
  high-risk categories.
\<close>

lemma reviewer_applies_policy:
  assumes "evidence \<noteq> ''insufficient''" "th = \<lparr>th_WatchThreshold = po_WatchThreshold (er_Policy req),
      th_BlockThreshold = po_BlockThreshold (er_Policy req), th_FreezeThreshold = po_FreezeThreshold (er_Policy req),
      th_RevertThreshold = po_RevertThreshold (er_Policy req), th_HighRiskCategories = po_HighRisk (er_Policy req)\<rparr>"
    "targetType = (if er_TargetType req = ''tx'' then SANCTION_TARGET_TYPE_TX else SANCTION_TARGET_TYPE_ADDRESS)"
  shows "decideAction req score evidence = actionName (Action score (ri_Categories (er_Risk req)) targetType th)"
  using assms
  by (simp add: decideAction_def Action_def actionName_def Let_def anyIn_eq anyHighRisk_eq)

definition sampleText :: goText where
  "sampleText = \<lparr>ToLower = (\<lambda>s. s), TrimSpace = (\<lambda>s. s)\<rparr>"

definition sampleRequest :: evaluateRequest where
  "sampleRequest = \<lparr>er_AgentID = ''a1'', er_TargetType = ''tx'',
     er_Tx = \<lparr>ti_TxHash = ''AB'', ti_Sender = ''s'', ti_Recipient = ''r'', ti_Amount = [], ti_Denom = ''u'', ti_Confirmed = True\<rparr>,
     er_Risk = \<lparr>ri_Source = ''x'', ri_ResponseID = ''y'', ri_Address = ''r'', ri_Score = 86, ri_Categories = [''scam''],
       ri_ExposureType = ''direct''\<rparr>,
     er_Policy = \<lparr>po_WatchThreshold = 60, po_BlockThreshold = 80, po_FreezeThreshold = 85, po_RevertThreshold = 90, po_HighRisk = [''scam''],
       po_CriticalRisk = [], po_TrustedAddresses = [], po_BlockedAddresses = []\<rparr>\<rparr>"

lemma sample_answer:
  "handleEvaluate sampleText (\<lambda>_. None) (\<lambda>_. ''d'') ''POST'' (Inr sampleRequest)
     = HttpOk (respond sampleText (\<lambda>_. None) (\<lambda>_. ''d'') (applyDefaults sampleText sampleRequest))"
  by (simp add: handleEvaluate_def sampleRequest_def validRequest_def applyDefaults_def orThreshold_def Let_def)

theorem reviewer_answer_bounded_witness:
  "unat (ep_CalibratedScore (respond sampleText (\<lambda>_. None) (\<lambda>_. ''d'') (applyDefaults sampleText sampleRequest))) \<le> 100"
  using reviewer_answer_bounded [OF sample_answer] by blast

text \<open>A run of calls of the limiter, each with its two clock reads and its remote address.\<close>

fun allowRun :: "(string \<Rightarrow> string option) \<Rightarrow> (int \<times> int \<times> string) list \<Rightarrow> rateLimiter \<Rightarrow> (string \<times> bool) list" where
  "allowRun splitHost [] r = []"
| "allowRun splitHost ((since, now, remote) # rest) r =
     ((case splitHost remote of Some h \<Rightarrow> h | None \<Rightarrow> remote), fst (allow splitHost since now remote r))
       # allowRun splitHost rest (snd (allow splitHost since now remote r))"

lemma allowRun_count:
  assumes "rl_limit r > 0" "\<forall>q \<in> set reqs. fst q - rl_window r < 60000000000"
  shows "int (length (filter (\<lambda>e. e = (host, True)) (allowRun splitHost reqs r))) \<le> max 0 (rl_limit r - rl_clients r host)"
  using assms
proof (induction reqs arbitrary: r)
  case (Cons q reqs)
  obtain since now remote where q: "q = (since, now, remote)" by (cases q) auto
  define h where "h = (case splitHost remote of Some h \<Rightarrow> h | None \<Rightarrow> remote)"
  define r' where "r' = r\<lparr>rl_clients := (rl_clients r)(h := rl_clients r h + 1)\<rparr>"
  have a: "allow splitHost since now remote r = (rl_clients r h + 1 \<le> rl_limit r, r')"
    using Cons.prems by (simp add: allow_def q h_def [symmetric] Let_def r'_def)
  have "int (length (filter (\<lambda>e. e = (host, True)) (allowRun splitHost reqs r'))) \<le> max 0 (rl_limit r' - rl_clients r' host)"
    using Cons.prems by (intro Cons.IH) (simp_all add: r'_def)
  then have ih: "int (length (filter (\<lambda>e. e = (host, True)) (allowRun splitHost reqs r')))
      \<le> max 0 (rl_limit r - (if h = host then rl_clients r host + 1 else rl_clients r host))" by (auto simp: r'_def)
  have "filter (\<lambda>e. e = (host, True)) (allowRun splitHost (q # reqs) r)
      = (if h = host \<and> rl_clients r host + 1 \<le> rl_limit r then [(host, True)] else [])
        @ filter (\<lambda>e. e = (host, True)) (allowRun splitHost reqs r')"
    by (auto simp: q a h_def [symmetric])
  then show ?case using ih by (auto split: if_splits)
qed simp

text \<open>
  The rate limit holds. Within one window, from a fresh limiter with a positive limit, no host has
  more than \<open>limit\<close> requests let through, in whatever order the hosts' requests arrive.
\<close>

lemma rate_limit_holds:
  assumes "rl_limit r > 0" "rl_clients r host = 0" "\<forall>q \<in> set reqs. fst q - rl_window r < 60000000000"
  shows "int (length (filter (\<lambda>e. e = (host, True)) (allowRun splitHost reqs r))) \<le> rl_limit r"
  using allowRun_count [OF assms(1,3), of host splitHost] assms(1,2) by simp

end
