(* ===== verification/Lab.thy ===== *)
theory Lab
  imports Controller RpcPool AgentApi "HOL-Library.AList"
begin

text \<open>
  The multi-host experiment's laboratory: dev/agent/internal/multihost/lab.go. An inventory of
  five hosts, the scripts sent to them over SSH, the states they report and the genesis merged from theirs.
  \<open>labIO\<close> is what the outside answers: a host's output for a script, whether a pause ends and how often
  a deadline is found ahead, each as a function of everything done before (\<open>ls_log\<close>). \<open>net/url\<close>,
  \<open>net.ParseIP\<close> and JSON are parameters.
\<close>

section \<open>The inventory\<close>

record labHost =
  lh_ID :: string
  lh_SSH :: string
  lh_Port :: int
  lh_Identity :: string
  lh_PeerIP :: string

record inventory =
  iv_RunID :: string
  iv_ChainID :: string
  iv_Repository :: string
  iv_Revision :: string
  iv_RemoteBase :: string
  iv_Hosts :: "labHost list"

definition alnum :: "char \<Rightarrow> bool" where
  "alnum c = (let n = of_char c :: nat in 48 \<le> n \<and> n \<le> 57 \<or> 65 \<le> n \<and> n \<le> 90 \<or> 97 \<le> n \<and> n \<le> 122)"

definition labWord :: "string \<Rightarrow> bool" where
  "labWord s = (case s of [] \<Rightarrow> False
     | c # cs \<Rightarrow> alnum c \<and> length cs \<le> 47 \<and> list_all (\<lambda>d. alnum d \<or> d \<in> set ''_-'') cs)"

definition sshTarget :: "string \<Rightarrow> bool" where
  "sshTarget s = (case s of [] \<Rightarrow> False | c # cs \<Rightarrow> alnum c \<and> list_all (\<lambda>d. alnum d \<or> d \<in> set ''_.@-'') cs)"

definition labRevision :: "string \<Rightarrow> bool" where
  "labRevision s = (length s = 40 \<and> list_all (\<lambda>d. hex_val d \<noteq> None) s)"

definition remotePath :: "string \<Rightarrow> bool" where
  "remotePath s = (case s of [] \<Rightarrow> False
     | c # cs \<Rightarrow> c = CHR ''/'' \<and> cs \<noteq> [] \<and> list_all (\<lambda>d. alnum d \<or> d \<in> set ''_/-'') cs)"

text \<open>\<open>filepath.Clean\<close>: the elements that remain, \<open>stack\<close> those already read, last first.\<close>

fun splitSlash :: "string \<Rightarrow> string list" where
  "splitSlash [] = [[]]"
| "splitSlash (c # s) = (if c = CHR ''/'' then [] # splitSlash s
     else case splitSlash s of [] \<Rightarrow> [[c]] | p # ps \<Rightarrow> (c # p) # ps)"

fun cleanParts :: "bool \<Rightarrow> string list \<Rightarrow> string list \<Rightarrow> string list" where
  "cleanParts rooted stack [] = rev stack"
| "cleanParts rooted stack (p # ps) =
     (if p = [] \<or> p = ''.'' then cleanParts rooted stack ps
      else if p = ''..'' then (case stack of
          [] \<Rightarrow> cleanParts rooted (if rooted then [] else [p]) ps
        | q # qs \<Rightarrow> cleanParts rooted (if q = ''..'' then p # stack else qs) ps)
      else cleanParts rooted (p # stack) ps)"

definition cleanPath :: "string \<Rightarrow> string" where
  "cleanPath s = (let rooted = hasPrefix s ''/''; path = joinWith ''/'' (cleanParts rooted [] (splitSlash s)) in
     if rooted then CHR ''/'' # path else if path = [] then ''.'' else path)"

definition labPorts :: "int list" where
  "labPorts = [26656, 26657, 1317, 8081, 8082, 8083]"

fun validateHosts :: "(string \<Rightarrow> bool) \<Rightarrow> string list \<Rightarrow> string list \<Rightarrow> string list \<Rightarrow> labHost list \<Rightarrow> aerror option" where
  "validateHosts ip4 seenID seenSSH seenIP [] = None"
| "validateHosts ip4 seenID seenSSH seenIP (h # hs) =
     (if \<not> labWord (lh_ID h) \<or> \<not> sshTarget (lh_SSH h) \<or> 1 < length (filter (\<lambda>c. c = CHR ''@'') (lh_SSH h))
         \<or> \<not> ip4 (lh_PeerIP h) \<or> lh_Port h < 1 \<or> 65535 < lh_Port h
         \<or> lh_ID h \<in> set seenID \<or> lh_SSH h \<in> set seenSSH \<or> lh_PeerIP h \<in> set seenIP
      then Some (AErr ''five distinct IDs, SSH targets and IPv4 peer addresses are required'')
      else if lh_Port h \<in> set labPorts then Some (AErr ''SSH port must not overlap lab ports'')
      else validateHosts ip4 (lh_ID h # seenID) (lh_SSH h # seenSSH) (lh_PeerIP h # seenIP) hs)"

text \<open>\<open>ip4\<close>: \<open>net.ParseIP\<close> reads an address that has a four-byte form.\<close>

definition validateInventory :: "(string \<Rightarrow> parsedURL option) \<Rightarrow> (string \<Rightarrow> bool) \<Rightarrow> inventory \<Rightarrow> aerror option" where
  "validateInventory parse ip4 i =
     (if \<not> labWord (iv_RunID i) \<or> \<not> labWord (iv_ChainID i) \<or> \<not> labRevision (iv_Revision i)
         \<or> trimSet {CHR ''0''} (iv_Revision i) = []
         \<or> (case parse (iv_Repository i) of None \<Rightarrow> True
            | Some u \<Rightarrow> ur_Scheme u \<noteq> ''https'' \<or> ur_Host u = [] \<or> ur_HasUser u \<or> ur_RawQuery u \<noteq> [] \<or> ur_Fragment u \<noteq> [])
      then Some (AErr ''valid run/chain IDs, HTTPS repository and full nonzero commit SHA are required'')
      else if \<not> remotePath (iv_RemoteBase i) \<or> cleanPath (iv_RemoteBase i) \<noteq> iv_RemoteBase i
         \<or> iv_RemoteBase i = ''/'' \<or> length (iv_Hosts i) \<noteq> 5
      then Some (AErr ''a dedicated absolute remote_base and exactly five hosts are required'')
      else validateHosts ip4 [] [] [] (iv_Hosts i))"

section \<open>Scripts\<close>

definition squote :: char where "squote = CHR 0x27"

definition dquote :: char where "dquote = CHR 0x22"

definition newline :: char where "newline = CHR 0x0A"

definition line :: "string \<Rightarrow> string" where
  "line s = s @ [newline]"

definition Quote :: "string \<Rightarrow> string" where
  "Quote s = squote # concat (map (\<lambda>c. if c = squote then [squote, dquote, squote, dquote, squote] else [c]) s) @ [squote]"

text \<open>\<open>ssh\<close>'s arguments; the script is its standard input.\<close>

definition sshArgs :: "labHost \<Rightarrow> string list" where
  "sshArgs h = [''-o'', ''BatchMode=yes'', ''-o'', ''StrictHostKeyChecking=yes'', ''-o'', ''ForwardAgent=no'', ''-o'',
      ''ConnectTimeout=10'', ''-p'', formatInt (lh_Port h)]
    @ (if lh_Identity h \<noteq> [] then [''-i'', lh_Identity h] else []) @ [''--'', lh_SSH h, ''bash'', ''-se'']"

record runner =
  rn_Inventory :: inventory
  rn_owner :: string

definition root :: "runner \<Rightarrow> string" where
  "root r = iv_RemoteBase (rn_Inventory r) @ ''/'' @ iv_RunID (rn_Inventory r)"

definition scriptPrefix :: "runner \<Rightarrow> string" where
  "scriptPrefix r = line ''set -euo pipefail'' @ line ''umask 077'' @ line (''root='' @ Quote (root r))
     @ line (''run='' @ Quote (iv_RunID (rn_Inventory r))) @ line (''owner='' @ Quote (rn_owner r))"

definition ownedGuard :: string where
  "ownedGuard = line ''test \"$(cat \"$root/.g503-lab-owned\")\" = \"$owner\"''"

definition workerScript :: "runner \<Rightarrow> string \<Rightarrow> string list \<Rightarrow> string" where
  "workerScript r action args = scriptPrefix r @ ownedGuard
     @ line (''bash \"$root/source/dev/scripts/multihost-worker.sh\" \"$root\" \"$run\" \"$owner\" '' @ Quote action
         @ concat (map (\<lambda>arg. '' '' @ Quote arg) args))"

definition putScript :: "runner \<Rightarrow> string \<Rightarrow> bytes \<Rightarrow> string" where
  "putScript r name bz = scriptPrefix r @ ownedGuard
     @ line (''cat > \"$root/'' @ name @ ''\" <<'' @ [squote] @ ''G503_JSON_EOF'' @ [squote]) @ line bz @ line ''G503_JSON_EOF''"

section \<open>Running them\<close>

datatype labEvent = Ran labHost string | Paused int

record labWorld =
  ls_log :: "labEvent list"
  ls_files :: "string \<rightharpoonup> bytes"

type_synonym 'a lab = "labWorld \<Rightarrow> (aerror + 'a) \<times> labWorld"

record nodeState =
  ns_Height :: string
  ns_Sends :: int

datatype json = JNull | JBool bool | JNumber string | JText string | JArray "json list" | JObject "(string \<times> json) list"

text \<open>What the file system says while a result is written.\<close>

record saveIO =
  sv_create :: "aerror option"
  sv_write :: "aerror option"
  sv_sync :: "aerror option"
  sv_close :: "aerror option"
  sv_rename :: "aerror option"
  sv_openDir :: "aerror option"
  sv_syncDir :: "aerror option"

record labIO =
  lb_run :: "labEvent list \<Rightarrow> labHost \<Rightarrow> string \<Rightarrow> aerror + bytes"
  lb_pause :: "labEvent list \<Rightarrow> int \<Rightarrow> aerror option"
  lb_rounds :: "labEvent list \<Rightarrow> nat"
  lb_save :: "labEvent list \<Rightarrow> string \<Rightarrow> saveIO"
  lb_trim :: "string \<Rightarrow> string"
  lb_nodeState :: "bytes \<Rightarrow> nodeState option"
  lb_decode :: "bytes \<Rightarrow> json option"
  lb_marshal :: "json \<Rightarrow> bytes"
  lb_txHash :: "bytes \<Rightarrow> string option"

definition retL :: "'a \<Rightarrow> 'a lab" where
  "retL x w = (Inr x, w)"

definition failL :: "aerror \<Rightarrow> 'a lab" where
  "failL e w = (Inl e, w)"

definition andThen :: "'a lab \<Rightarrow> ('a \<Rightarrow> 'b lab) \<Rightarrow> 'b lab" where
  "andThen m f w = (case m w of (Inl e, w') \<Rightarrow> (Inl e, w') | (Inr x, w') \<Rightarrow> f x w')"

definition transportRun :: "labIO \<Rightarrow> labHost \<Rightarrow> string \<Rightarrow> bytes lab" where
  "transportRun io h script w = (lb_run io (ls_log w) h script, w\<lparr>ls_log := ls_log w @ [Ran h script]\<rparr>)"

definition worker :: "labIO \<Rightarrow> runner \<Rightarrow> labHost \<Rightarrow> string \<Rightarrow> string list \<Rightarrow> bytes lab" where
  "worker io r h action args = transportRun io h (workerScript r action args)"

definition labPut :: "labIO \<Rightarrow> runner \<Rightarrow> labHost \<Rightarrow> string \<Rightarrow> json \<Rightarrow> unit lab" where
  "labPut io r h name value =
     andThen (transportRun io h (putScript r name (lb_marshal io value))) (\<lambda>_. retL ())"

definition pause :: "labIO \<Rightarrow> int \<Rightarrow> unit lab" where
  "pause io d w = (case lb_pause io (ls_log w) d of None \<Rightarrow> Inr () | Some e \<Rightarrow> Inl e, w\<lparr>ls_log := ls_log w @ [Paused d]\<rparr>)"

text \<open>The loop of \<open>wait\<close>; \<open>n\<close> is how often the clock is found before the deadline.\<close>

fun waitLoop :: "labIO \<Rightarrow> unit lab \<Rightarrow> aerror option \<Rightarrow> nat \<Rightarrow> unit lab" where
  "waitLoop io check prev 0 w =
     (Inl (AErr (''phase timed out: '' @ (case prev of None \<Rightarrow> ''%!w(<nil>)'' | Some e \<Rightarrow> errText e))), w)"
| "waitLoop io check prev (Suc n) w = (case check w of
     (Inr _, w1) \<Rightarrow> (Inr (), w1)
   | (Inl e, w1) \<Rightarrow> (case pause io 1000000000 w1 of
       (Inl e', w2) \<Rightarrow> (Inl e', w2)
     | (Inr _, w2) \<Rightarrow> waitLoop io check (Some e) n w2))"

definition wait :: "labIO \<Rightarrow> unit lab \<Rightarrow> unit lab" where
  "wait io check w = waitLoop io check None (lb_rounds io (ls_log w)) w"

text \<open>One action after the other, over a list; the first error ends it.\<close>

fun eachL :: "('a \<Rightarrow> 'b lab) \<Rightarrow> 'a list \<Rightarrow> 'b list lab" where
  "eachL f [] w = (Inr [], w)"
| "eachL f (x # xs) w = (case f x w of
     (Inl e, w') \<Rightarrow> (Inl e, w')
   | (Inr y, w') \<Rightarrow> (case eachL f xs w' of (Inl e, w'') \<Rightarrow> (Inl e, w'') | (Inr ys, w'') \<Rightarrow> (Inr (y # ys), w'')))"

definition doneL :: "'a lab \<Rightarrow> unit lab" where
  "doneL m = andThen m (\<lambda>_. retL ())"

definition onHosts :: "runner \<Rightarrow> (labHost \<Rightarrow> 'b lab) \<Rightarrow> unit lab" where
  "onHosts r f = doneL (eachL f (iv_Hosts (rn_Inventory r)))"

text \<open>\<open>ParseUint\<close> with its error dropped: 0 for what is no number, the largest value for one too large.\<close>

definition nodeHeight :: "nodeState \<Rightarrow> u64" where
  "nodeHeight s = (if ns_Height s = [] then 0 else case dec_val 0 (ns_Height s) of
     None \<Rightarrow> 0 | Some n \<Rightarrow> if n < 2 ^ 64 then of_nat n else - 1)"

definition hostState :: "labIO \<Rightarrow> runner \<Rightarrow> labHost \<Rightarrow> nodeState lab" where
  "hostState io r h = andThen (worker io r h ''state'' []) (\<lambda>bz. case lb_nodeState io bz of
     None \<Rightarrow> failL (AErr (''invalid node state on '' @ lh_ID h))
   | Some s \<Rightarrow> if nodeHeight s = 0 then failL (AErr (''invalid node state on '' @ lh_ID h)) else retL s)"

text \<open>Five states: \<open>Validate\<close> has counted the hosts.\<close>

definition states :: "labIO \<Rightarrow> runner \<Rightarrow> nodeState list lab" where
  "states io r = eachL (hostState io r) (iv_Hosts (rn_Inventory r))"

definition lowestHeight :: "nodeState list \<Rightarrow> u64" where
  "lowestHeight ss = fold (\<lambda>s height. if nodeHeight s < height then nodeHeight s else height) ss (nodeHeight (ss ! 0))"

fun sameBlock :: "labIO \<Rightarrow> runner \<Rightarrow> u64 \<Rightarrow> string \<Rightarrow> labHost list \<Rightarrow> unit lab" where
  "sameBlock io r height seen [] w = (Inr (), w)"
| "sameBlock io r height seen (h # hs) w = (case worker io r h ''block-hash'' [formatUint height] w of
     (Inl e, w') \<Rightarrow> (Inl e, w')
   | (Inr bz, w') \<Rightarrow> (let next = lb_trim io bz in
       case hexDecode next of
         None \<Rightarrow> (Inl (AErr (''five hosts disagree on common block '' @ formatUint height)), w')
       | Some decoded \<Rightarrow> if length decoded \<noteq> 32 \<or> (seen \<noteq> [] \<and> \<not> equalFold seen next)
           then (Inl (AErr (''five hosts disagree on common block '' @ formatUint height)), w')
           else sameBlock io r height next hs w'))"

definition converged :: "labIO \<Rightarrow> runner \<Rightarrow> unit lab" where
  "converged io r = andThen (states io r) (\<lambda>ss. sameBlock io r (lowestHeight ss) [] (iv_Hosts (rn_Inventory r)))"

definition numbered :: "'a list \<Rightarrow> (nat \<times> 'a) list" where
  "numbered xs = zip [0..<length xs] xs"

text \<open>The peers a host is cut off from: those on the other side of the split.\<close>

definition blockedFrom :: "nat \<Rightarrow> labHost list \<Rightarrow> nat \<Rightarrow> string list" where
  "blockedFrom split hosts n = map (\<lambda>(p, peer). lh_PeerIP peer) (filter (\<lambda>(p, peer). (n < split) \<noteq> (p < split)) (numbered hosts))"

definition partitionHosts :: "labIO \<Rightarrow> runner \<Rightarrow> nat \<Rightarrow> unit lab" where
  "partitionHosts io r split = doneL (eachL (\<lambda>(n, h). worker io r h ''partition'' (blockedFrom split (iv_Hosts (rn_Inventory r)) n))
     (numbered (iv_Hosts (rn_Inventory r))))"

definition heal :: "labIO \<Rightarrow> runner \<Rightarrow> unit lab" where
  "heal io r = onHosts r (\<lambda>h. worker io r h ''heal'' [])"

section \<open>The shared genesis\<close>

text \<open>A failed type assertion or index panics; \<open>mergeGenesis\<close> recovers it as this error.\<close>

definition badGenesis :: aerror where
  "badGenesis = AErr ''invalid fresh genesis structure''"

definition objectAt :: "string \<Rightarrow> (string \<times> json) list \<Rightarrow> aerror + (string \<times> json) list" where
  "objectAt k m = (case map_of m k of Some (JObject o') \<Rightarrow> Inr o' | _ \<Rightarrow> Inl badGenesis)"

definition arrayAt :: "string \<Rightarrow> (string \<times> json) list \<Rightarrow> aerror + json list" where
  "arrayAt k m = (case map_of m k of Some (JArray xs) \<Rightarrow> Inr xs | _ \<Rightarrow> Inl badGenesis)"

definition textAt :: "string \<Rightarrow> (string \<times> json) list \<Rightarrow> aerror + string" where
  "textAt k m = (case map_of m k of Some (JText s) \<Rightarrow> Inr s | _ \<Rightarrow> Inl badGenesis)"

definition asObject :: "json \<Rightarrow> aerror + (string \<times> json) list" where
  "asObject v = (case v of JObject o' \<Rightarrow> Inr o' | _ \<Rightarrow> Inl badGenesis)"

type_synonym jsonTable = "(string \<times> (string \<times> json) list) list"

definition accountAddress :: "(string \<times> json) list \<Rightarrow> aerror + string" where
  "accountAddress m = (let address = (case map_of m ''address'' of Some (JText a) \<Rightarrow> a | _ \<Rightarrow> []) in
     if address \<noteq> [] then Inr address else bind_r (objectAt ''base_account'' m) (textAt ''address''))"

fun addRows :: "((string \<times> json) list \<Rightarrow> aerror + string) \<Rightarrow> json list \<Rightarrow> jsonTable \<Rightarrow> aerror + jsonTable" where
  "addRows address [] t = Inr t"
| "addRows address (v # vs) t = bind_r (asObject v) (\<lambda>m. bind_r (address m) (\<lambda>a. addRows address vs (al_set a m t)))"

record mergeState =
  mg_validators :: "json list"
  mg_agents :: "json list"
  mg_accounts :: jsonTable
  mg_balances :: jsonTable

definition namedAgent :: "nat \<Rightarrow> (string \<times> json) list \<Rightarrow> aerror + json" where
  "namedAgent n app = bind_r (objectAt ''sanction'' app) (\<lambda>sanction. bind_r (arrayAt ''agents'' sanction) (\<lambda>agents.
     case agents of [] \<Rightarrow> Inl badGenesis
     | a # _ \<Rightarrow> bind_r (asObject a) (\<lambda>m. Inr (JObject (AList.update ''agent_id'' (JText (''validator-'' @ dec_digits (n + 1))) m)))))"

definition mergeDoc :: "nat \<Rightarrow> (string \<times> json) list \<Rightarrow> mergeState \<Rightarrow> aerror + mergeState" where
  "mergeDoc n doc st = (case map_of doc ''validators'' of
     Some (JArray [v]) \<Rightarrow> (case map_of doc ''app_state'' of
       Some (JObject app) \<Rightarrow>
         bind_r (objectAt ''auth'' app) (\<lambda>auth. bind_r (arrayAt ''accounts'' auth) (\<lambda>accounts.
         bind_r (addRows accountAddress accounts (mg_accounts st)) (\<lambda>accounts'.
         bind_r (objectAt ''bank'' app) (\<lambda>bank. bind_r (arrayAt ''balances'' bank) (\<lambda>balances.
         bind_r (addRows (textAt ''address'') balances (mg_balances st)) (\<lambda>balances'.
         bind_r (namedAgent n app) (\<lambda>agent.
         Inr \<lparr>mg_validators = mg_validators st @ [v], mg_agents = mg_agents st @ [agent],
           mg_accounts = accounts', mg_balances = balances'\<rparr>)))))))
     | _ \<Rightarrow> Inl (AErr ''missing app state''))
   | _ \<Rightarrow> Inl (AErr ''each fresh genesis needs one validator''))"

text \<open>\<open>Decode\<close> into a map: null gives the nil map, which has no entries.\<close>

definition decodeDoc :: "(bytes \<Rightarrow> json option) \<Rightarrow> bytes \<Rightarrow> aerror + (string \<times> json) list" where
  "decodeDoc decode bz = (case decode bz of Some (JObject doc) \<Rightarrow> Inr doc | Some JNull \<Rightarrow> Inr [] | _ \<Rightarrow> Inl (AExternal ''json''))"

fun mergeLoop :: "(bytes \<Rightarrow> json option) \<Rightarrow> nat \<Rightarrow> bytes list \<Rightarrow> mergeState \<Rightarrow> aerror + mergeState" where
  "mergeLoop decode n [] st = Inr st"
| "mergeLoop decode n (bz # rest) st =
     bind_r (decodeDoc decode bz) (\<lambda>doc. bind_r (mergeDoc n doc st) (mergeLoop decode (n + 1) rest))"

definition accountRow :: "nat \<Rightarrow> (string \<times> json) list \<Rightarrow> (string \<times> json) list" where
  "accountRow n m = (if map_of m ''address'' \<noteq> None \<and> map_of m ''address'' \<noteq> Some JNull
     then AList.update ''sequence'' (JText ''0'') (AList.update ''account_number'' (JText (dec_digits (n + 10))) m) else m)"

text \<open>\<open>big.Int.SetString\<close> in base 10.\<close>

definition parseBig :: "string \<Rightarrow> int option" where
  "parseBig s = (let (neg, ds) = (case s of [] \<Rightarrow> (False, [])
       | c # cs \<Rightarrow> if c = CHR ''-'' then (True, cs) else if c = CHR ''+'' then (False, cs) else (False, s)) in
     if ds = [] then None else map_option (\<lambda>n. if neg then - int n else int n) (dec_val 0 ds))"

fun sumCoins :: "json list \<Rightarrow> int \<Rightarrow> aerror + int" where
  "sumCoins [] supply = Inr supply"
| "sumCoins (v # vs) supply = bind_r (asObject v) (\<lambda>c. bind_r (textAt ''amount'' c) (\<lambda>amount.
     case parseBig amount of
       None \<Rightarrow> Inl (AErr ''invalid demo balance'')
     | Some n \<Rightarrow> if map_of c ''denom'' \<noteq> Some (JText ''stake'') then Inl (AErr ''invalid demo balance'')
         else sumCoins vs (supply + n)))"

fun sumBalances :: "(string \<times> json) list list \<Rightarrow> int \<Rightarrow> aerror + int" where
  "sumBalances [] supply = Inr supply"
| "sumBalances (m # ms) supply =
     bind_r (arrayAt ''coins'' m) (\<lambda>coins. bind_r (sumCoins coins supply) (sumBalances ms))"

text \<open>A slice that was never appended to is nil, null in JSON.\<close>

definition sliceOf :: "json list \<Rightarrow> json" where
  "sliceOf xs = (if xs = [] then JNull else JArray xs)"

text \<open>The tables are kept in key order, the order the code sorts the keys of its maps into.\<close>

definition mergeGenesis :: "(bytes \<Rightarrow> json option) \<Rightarrow> bytes list \<Rightarrow> aerror + (string \<times> json) list" where
  "mergeGenesis decode documents =
     bind_r (mergeLoop decode 0 documents \<lparr>mg_validators = [], mg_agents = [], mg_accounts = [], mg_balances = []\<rparr>) (\<lambda>st.
     bind_r (sumBalances (map snd (mg_balances st)) 0) (\<lambda>supply.
     case documents of [] \<Rightarrow> Inl badGenesis | first # _ \<Rightarrow>
     bind_r (decodeDoc decode first) (\<lambda>base. bind_r (objectAt ''app_state'' base) (\<lambda>app.
     bind_r (objectAt ''auth'' app) (\<lambda>auth. bind_r (objectAt ''bank'' app) (\<lambda>bank.
     bind_r (objectAt ''sanction'' app) (\<lambda>sanction. bind_r (objectAt ''params'' sanction) (\<lambda>params.
     let auth' = AList.update ''accounts'' (sliceOf (map (\<lambda>(n, k, m). JObject (accountRow n m)) (numbered (mg_accounts st)))) auth;
       bank' = AList.update ''supply'' (JArray [JObject [(''amount'', JText (formatInt supply)), (''denom'', JText ''stake'')]])
         (AList.update ''balances'' (sliceOf (map (JObject \<circ> snd) (mg_balances st))) bank);
       params' = AList.update ''voting_period_blocks'' (JText ''100'') (AList.update ''evidence_ttl_blocks'' (JText ''300'') params);
       sanction' = AList.update ''params'' (JObject params') (AList.update ''agents'' (JArray (mg_agents st)) sanction);
       app' = AList.update ''sanction'' (JObject sanction') (AList.update ''bank'' (JObject bank') (AList.update ''auth'' (JObject auth') app)) in
     Inr (AList.update ''app_state'' (JObject app') (AList.update ''validators'' (JArray (mg_validators st)) base))))))))))"

end
