(* ===== verification/Workflow.thy ===== *)
theory Workflow
  imports Lab
begin

text \<open>
  The experiment itself: dev/agent/internal/multihost/workflow.go and dev/agent/cmd/g503-multihost/main.go.
  Eighteen steps under the controller's journal, each a callback on the five hosts, then the cleanup.
  A callback's result goes through the JSON of the journal (\<open>labCodec\<close>).
\<close>

section \<open>Results and steps\<close>

definition joinErrors :: "aerror list \<Rightarrow> aerror option" where
  "joinErrors es = (if es = [] then None else Some (AErr (joinWith [newline] (map errText es))))"

definition opt_list :: "'a option \<Rightarrow> 'a list" where
  "opt_list x = (case x of None \<Rightarrow> [] | Some y \<Rightarrow> [y])"

text \<open>A temporary file is written, synced, closed and renamed; the directory is synced last.\<close>

definition atomicResult :: "labIO \<Rightarrow> string \<Rightarrow> bytes \<Rightarrow> unit lab" where
  "atomicResult io name bz w = (let sv = lb_save io (ls_log w) name in
     case sv_create sv of Some e \<Rightarrow> (Inl e, w) | None \<Rightarrow>
     case joinErrors (opt_list (case sv_write sv of Some e \<Rightarrow> Some e | None \<Rightarrow> sv_sync sv) @ opt_list (sv_close sv)) of
       Some e \<Rightarrow> (Inl e, w) | None \<Rightarrow>
     case sv_rename sv of Some e \<Rightarrow> (Inl e, w) | None \<Rightarrow>
     let w' = w\<lparr>ls_files := (ls_files w)(name \<mapsto> bz)\<rparr> in
     case sv_openDir sv of Some e \<Rightarrow> (Inl e, w') | None \<Rightarrow>
     case sv_syncDir sv of Some e \<Rightarrow> (Inl e, w') | None \<Rightarrow> (Inr (), w'))"

record bootstrap =
  bs_Genesis :: "bytes list"
  bs_NodeIDs :: "string list"

record labCodec =
  lc_null :: bytes
  lc_bootstrap :: "bootstrap \<Rightarrow> bytes"
  lc_unbootstrap :: "bytes \<Rightarrow> bootstrap option"
  lc_text :: "string \<Rightarrow> bytes"
  lc_untext :: "bytes \<Rightarrow> string option"
  lc_states :: "nodeState list \<Rightarrow> bytes"
  lc_unstates :: "bytes \<Rightarrow> nodeState list option"

record labRun =
  rs_journal :: controllerJournal
  rs_phases :: "string list"
  rs_world :: labWorld

type_synonym 'a phases = "labRun \<Rightarrow> (aerror + 'a) \<times> labRun"

text \<open>What the context and the database say during a step.\<close>

type_synonym labSteps = "labEvent list \<Rightarrow> stepIO"

definition decodeResult :: "(bytes \<Rightarrow> 'v option) \<Rightarrow> bytes option \<Rightarrow> aerror + 'v" where
  "decodeResult decode bz = (case bz of None \<Rightarrow> Inl (AExternal ''json'')
     | Some b \<Rightarrow> (case decode b of None \<Rightarrow> Inl (AExternal ''json'') | Some v \<Rightarrow> Inr v))"

definition labStep ::
    "labSteps \<Rightarrow> string \<Rightarrow> ('v \<Rightarrow> bytes) \<Rightarrow> (bytes option \<Rightarrow> aerror + 'o) \<Rightarrow> (string \<Rightarrow> 'v lab) \<Rightarrow> 'o phases" where
  "labStep steps name marshal result run s =
     (let (r, j, w) = controllerStep (steps (ls_log (rs_world s)))
          (\<lambda>op w. case run op w of (Inl e, w') \<Rightarrow> (Inl e, w') | (Inr v, w') \<Rightarrow> (Inr (marshal v), w')) name (rs_journal s) (rs_world s);
        s' = s\<lparr>rs_journal := j, rs_phases := rs_phases s @ [name], rs_world := w\<rparr> in
      case r of Inl e \<Rightarrow> (Inl e, s') | Inr bz \<Rightarrow> (result bz, s'))"

text \<open>A step whose result nobody reads.\<close>

definition quietStep :: "labSteps \<Rightarrow> labCodec \<Rightarrow> string \<Rightarrow> (string \<Rightarrow> unit lab) \<Rightarrow> unit phases" where
  "quietStep steps C name run = labStep steps name (\<lambda>_. lc_null C) (\<lambda>_. Inr ()) run"

definition andPhase :: "'a phases \<Rightarrow> ('a \<Rightarrow> 'b phases) \<Rightarrow> 'b phases" where
  "andPhase m f s = (case m s of (Inl e, s') \<Rightarrow> (Inl e, s') | (Inr x, s') \<Rightarrow> f x s')"

section \<open>The callbacks\<close>

definition hostAt :: "runner \<Rightarrow> nat \<Rightarrow> labHost" where
  "hostAt r n = iv_Hosts (rn_Inventory r) ! n"

definition preflightScript :: "runner \<Rightarrow> string" where
  "preflightScript r = scriptPrefix r @ line ''test ! -e \"$root\"'' @ line ''test \"$(uname -s)\" = Linux''
     @ line ''for c in go git curl jq perl sha256sum ss flock; do command -v \"$c\" >/dev/null; done''
     @ line ''for port in 26656 26657 1317 8081 8082 8083 9090; do test -z \"$(ss -H -ltn \"sport = :$port\")\"; done''
     @ line ''sudo -n iptables --version >/dev/null'' @ line ''cat /etc/machine-id''"

fun preflightLoop :: "labIO \<Rightarrow> runner \<Rightarrow> string list \<Rightarrow> labHost list \<Rightarrow> unit lab" where
  "preflightLoop io r machines [] w = (Inr (), w)"
| "preflightLoop io r machines (h # hs) w = (case transportRun io h (preflightScript r) w of
     (Inl e, w') \<Rightarrow> (Inl e, w')
   | (Inr bz, w') \<Rightarrow> (let id = lb_trim io bz in
       if id = [] \<or> id \<in> set machines then (Inl (AErr ''hosts must report five distinct machine IDs''), w')
       else preflightLoop io r (id # machines) hs w'))"

definition provisionScript :: "runner \<Rightarrow> labHost \<Rightarrow> string" where
  "provisionScript r h = (let i = rn_Inventory r; repo = Quote (iv_Repository i); rev = Quote (iv_Revision i) in
     scriptPrefix r @ line (''mkdir -p '' @ Quote (iv_RemoteBase i))
     @ line (''if test ! -d \"$root\"; then mkdir \"$root\"; printf '' @ Quote ''%s'' @ '' \"$owner\" >\"$root/.g503-lab-owned\"; fi'')
     @ ownedGuard
     @ line (''if test ! -d \"$root/source\"; then git clone --quiet --no-checkout -- '' @ repo @ '' \"$root/source\"; fi'')
     @ line (''test \"$(git -C \"$root/source\" remote get-url origin)\" = '' @ repo)
     @ line (''git -C \"$root/source\" checkout --quiet --detach '' @ rev)
     @ line (''test \"$(git -C \"$root/source\" rev-parse HEAD)\" = '' @ rev)
     @ line (''bash \"$root/source/dev/scripts/multihost-worker.sh\" \"$root\" \"$run\" \"$owner\" init ''
         @ Quote (iv_ChainID i) @ '' '' @ Quote (lh_ID h)))"

definition agentToken :: "(bytes \<Rightarrow> bytes) \<Rightarrow> runner \<Rightarrow> string" where
  "agentToken sha r = hexEncode (sha (rn_owner r @ ''/agent-api''))"

definition provisionHost :: "labIO \<Rightarrow> (bytes \<Rightarrow> bytes) \<Rightarrow> runner \<Rightarrow> labHost \<Rightarrow> (bytes \<times> bytes) lab" where
  "provisionHost io sha r h =
     andThen (transportRun io h (provisionScript r h)) (\<lambda>_.
     andThen (labPut io r h ''secret.json'' (JObject [(''token'', JText (agentToken sha r))])) (\<lambda>_.
     andThen (worker io r h ''genesis'' []) (\<lambda>genesis.
     andThen (worker io r h ''node-id'' []) (\<lambda>bz. retL (genesis, bz)))))"

fun provisionLoop :: "labIO \<Rightarrow> (bytes \<Rightarrow> bytes) \<Rightarrow> runner \<Rightarrow> bootstrap \<Rightarrow> labHost list \<Rightarrow> bootstrap lab" where
  "provisionLoop io sha r b [] w = (Inr b, w)"
| "provisionLoop io sha r b (h # hs) w = (case provisionHost io sha r h w of
     (Inl e, w') \<Rightarrow> (Inl e, w')
   | (Inr (genesis, bz), w') \<Rightarrow> (let id = lb_trim io bz in
       case hexDecode id of
         None \<Rightarrow> (Inl (AErr ''invalid or duplicate Comet node ID''), w')
       | Some decoded \<Rightarrow> if length decoded \<noteq> 20 \<or> id \<in> set (bs_NodeIDs b)
           then (Inl (AErr ''invalid or duplicate Comet node ID''), w')
           else provisionLoop io sha r \<lparr>bs_Genesis = bs_Genesis b @ [genesis], bs_NodeIDs = bs_NodeIDs b @ [id]\<rparr> hs w'))"

definition peersOf :: "runner \<Rightarrow> bootstrap \<Rightarrow> nat \<Rightarrow> string" where
  "peersOf r b n = joinWith '','' (map (\<lambda>(p, peer). (bs_NodeIDs b ! p) @ ''@'' @ lh_PeerIP peer @ '':26656'')
     (filter (\<lambda>(p, peer). p \<noteq> n) (numbered (iv_Hosts (rn_Inventory r)))))"

definition statesReady :: "labIO \<Rightarrow> runner \<Rightarrow> unit lab" where
  "statesReady io r = doneL (states io r)"

definition startValidators :: "labIO \<Rightarrow> runner \<Rightarrow> bootstrap \<Rightarrow> unit lab" where
  "startValidators io r b = (case mergeGenesis (lb_decode io) (bs_Genesis b) of Inl e \<Rightarrow> failL e | Inr combined \<Rightarrow>
     andThen (eachL (\<lambda>(n, h). andThen (labPut io r h ''genesis.json'' (JObject combined)) (\<lambda>_.
         worker io r h ''start-node'' [iv_ChainID (rn_Inventory r), peersOf r b n])) (numbered (iv_Hosts (rn_Inventory r))))
       (\<lambda>_. wait io (statesReady io r)))"

definition agentConfig :: "runner \<Rightarrow> nat \<Rightarrow> json" where
  "agentConfig r n = (let hosts = iv_Hosts (rn_Inventory r); first = lh_PeerIP (hosts ! 0);
       endpoints = map (\<lambda>h. ''http://'' @ lh_PeerIP h @ '':26657'') hosts in
     JObject [(''agent_api'', JObject [(''role'', JText ''validator-agent''), (''token_env'', JText ''G503_AGENT_API_TOKEN''),
         (''url'', JText (''http://'' @ first @ '':8083''))]),
       (''agent_id'', JText (''validator-'' @ dec_digits (n + 1))),
       (''broadcast'', JObject [(''fee'', JText ''0stake''), (''gas'', JNumber ''700000'')]),
       (''chain_id'', JText (iv_ChainID (rn_Inventory r))),
       (''daemon'', JObject [(''enabled'', JBool True), (''state_dir'', JText (root r @ ''/agent-state''))]),
       (''key_file'', JText (root r @ ''/agent.key'')),
       (''llm_provider'', JText ''mock''), (''llm_url'', JText (''http://'' @ first @ '':8082'')),
       (''risk_provider'', JText ''mock''), (''risk_url'', JText (''http://'' @ first @ '':8081'')),
       (''rpc_endpoints'', JArray (map JText endpoints)),
       (''rpc_safety'', JObject [(''max_block_age_seconds'', JNumber ''15''), (''max_height_lag'', JNumber ''2''),
         (''min_agreement'', JNumber ''3'')]),
       (''rpc_url'', JText (endpoints ! n))])"

definition startAgents :: "labIO \<Rightarrow> runner \<Rightarrow> unit lab" where
  "startAgents io r = andThen (worker io r (hostAt r 0) ''start-services'' []) (\<lambda>_.
     andThen (eachL (\<lambda>(n, h). andThen (labPut io r h ''agent.json'' (agentConfig r n)) (\<lambda>_. worker io r h ''start-agent'' []))
         (numbered (iv_Hosts (rn_Inventory r)))) (\<lambda>_.
     wait io (onHosts r (\<lambda>h. worker io r h ''agent-ready'' []))))"

definition labTransfer :: "labIO \<Rightarrow> runner \<Rightarrow> string \<Rightarrow> string lab" where
  "labTransfer io r op = andThen (worker io r (hostAt r 0) ''transfer'' [op]) (\<lambda>bz. case lb_txHash io bz of
     None \<Rightarrow> failL (AErr ''invalid transfer response'')
   | Some hash \<Rightarrow> if length hash \<noteq> 64 then failL (AErr ''invalid transfer response'') else retL hash)"

definition settled :: "labIO \<Rightarrow> runner \<Rightarrow> string \<Rightarrow> labHost \<Rightarrow> unit lab" where
  "settled io r hash h = doneL (worker io r h ''settlement'' [hash])"

definition transferOperation :: "labIO \<Rightarrow> runner \<Rightarrow> string \<Rightarrow> unit lab" where
  "transferOperation io r op = andThen (labTransfer io r op) (\<lambda>hash. wait io (settled io r hash (hostAt r 0)))"

definition isolation :: "labIO \<Rightarrow> runner \<Rightarrow> string \<Rightarrow> string lab" where
  "isolation io r op =
     andThen (pause io 20000000000) (\<lambda>_. andThen (states io r) (\<lambda>before.
     andThen (labTransfer io r op) (\<lambda>hash. andThen (pause io 5000000000) (\<lambda>_. andThen (states io r) (\<lambda>after.
     if nodeHeight (after ! 0) \<le> nodeHeight (before ! 0) \<or> ns_Sends (after ! 4) \<noteq> ns_Sends (before ! 4)
     then failL (AErr ''4:1 majority must progress while isolated agent stops sends'')
     else andThen (worker io r (hostAt r 0) ''unsettled'' [hash]) (\<lambda>_. retL hash))))))"

definition healRestart :: "labIO \<Rightarrow> runner \<Rightarrow> unit lab" where
  "healRestart io r = andThen (heal io r) (\<lambda>_. doneL (worker io r (hostAt r 4) ''restart-agent'' []))"

definition haltCheck :: "labIO \<Rightarrow> runner \<Rightarrow> nodeState list lab" where
  "haltCheck io r =
     andThen (pause io 20000000000) (\<lambda>_. andThen (states io r) (\<lambda>before.
     andThen (pause io 5000000000) (\<lambda>_. andThen (states io r) (\<lambda>after.
     if \<exists>(a, b) \<in> set (zip after before). nodeHeight a \<noteq> nodeHeight b \<or> ns_Sends a \<noteq> ns_Sends b
     then failL (AErr ''3:2 split must halt blocks and stale agent sends'') else retL after))))"

definition resumedCheck :: "labIO \<Rightarrow> runner \<Rightarrow> nodeState list \<Rightarrow> unit lab" where
  "resumedCheck io r halted = andThen (states io r) (\<lambda>now.
     if nodeHeight (now ! 0) \<le> nodeHeight (halted ! 0) then failL (AErr ''chain not resumed'') else retL ())"

section \<open>The experiment\<close>

definition labWorkflow :: "labIO \<Rightarrow> labSteps \<Rightarrow> labCodec \<Rightarrow> (bytes \<Rightarrow> bytes) \<Rightarrow> runner \<Rightarrow> unit phases" where
  "labWorkflow io steps C sha r = (let quiet = quietStep steps C; hosts = iv_Hosts (rn_Inventory r) in
     andPhase (quiet ''preflight-five-distinct-machines'' (\<lambda>_. preflightLoop io r [] hosts)) (\<lambda>_.
     andPhase (labStep steps ''provision'' (lc_bootstrap C) (decodeResult (lc_unbootstrap C))
         (\<lambda>_. provisionLoop io sha r \<lparr>bs_Genesis = [], bs_NodeIDs = []\<rparr> hosts)) (\<lambda>initial.
     andPhase (quiet ''start-five-validators'' (\<lambda>_. startValidators io r initial)) (\<lambda>_.
     andPhase (quiet ''start-five-agents'' (\<lambda>_. startAgents io r)) (\<lambda>_.
     andPhase (quiet ''baseline-compensation'' (transferOperation io r)) (\<lambda>_.
     andPhase (quiet ''4-1-apply'' (\<lambda>_. partitionHosts io r 4)) (\<lambda>_.
     andPhase (labStep steps ''4-1-partition'' (lc_text C) (decodeResult (lc_untext C)) (isolation io r)) (\<lambda>hash.
     andPhase (quiet ''4-1-heal'' (\<lambda>_. healRestart io r)) (\<lambda>_.
     andPhase (quiet ''4-1-settlement'' (\<lambda>_. wait io (settled io r hash (hostAt r 0)))) (\<lambda>_.
     andPhase (quiet ''3-2-apply'' (\<lambda>_. partitionHosts io r 3)) (\<lambda>_.
     andPhase (labStep steps ''3-2-halt-and-stale-send-suppression'' (lc_states C) (decodeResult (lc_unstates C))
         (\<lambda>_. haltCheck io r)) (\<lambda>halted.
     andPhase (quiet ''3-2-heal'' (\<lambda>_. heal io r)) (\<lambda>_.
     andPhase (quiet ''3-2-resumed'' (\<lambda>_. wait io (resumedCheck io r halted))) (\<lambda>_.
     andPhase (quiet ''all-five-stop'' (\<lambda>_. onHosts r (\<lambda>h. worker io r h ''stop-node'' []))) (\<lambda>_.
     andPhase (quiet ''all-five-restart'' (\<lambda>_. onHosts r (\<lambda>h. worker io r h ''restart-node'' []))) (\<lambda>_.
     andPhase (quiet ''all-five-restart-and-persistence'' (\<lambda>_. wait io (onHosts r (settled io r hash)))) (\<lambda>_.
     andPhase (quiet ''post-restart-compensation'' (transferOperation io r)) (\<lambda>_.
     quiet ''common-block-convergence'' (\<lambda>_. wait io (converged io r))))))))))))))))))))"

definition cleanupScript :: "runner \<Rightarrow> string" where
  "cleanupScript r = scriptPrefix r @ line (''if test -f \"$root/source/dev/scripts/multihost-worker.sh\" && test \"$(cat \"$root/.g503-lab-owned\" ''
     @ ''2>/dev/null || true)\" = \"$owner\"; then bash \"$root/source/dev/scripts/multihost-worker.sh\" \"$root\" \"$run\" \"$owner\" cleanup; fi'')"

definition cleanupHost :: "labIO \<Rightarrow> runner \<Rightarrow> labHost \<Rightarrow> unit lab" where
  "cleanupHost io r h = andThen (transportRun io h (cleanupScript r)) (\<lambda>_.
     andThen (worker io r h ''collect'' []) (atomicResult io (lh_ID h @ ''-logs.tar.gz'')))"

text \<open>Every host is tried; the errors are joined.\<close>

fun cleanupLoop :: "labIO \<Rightarrow> runner \<Rightarrow> labHost list \<Rightarrow> labWorld \<Rightarrow> aerror list \<times> labWorld" where
  "cleanupLoop io r [] w = ([], w)"
| "cleanupLoop io r (h # hs) w = (let (res, w1) = cleanupHost io r h w; (errs, w2) = cleanupLoop io r hs w1 in
     ((case res of Inl e \<Rightarrow> e # errs | Inr _ \<Rightarrow> errs), w2))"

definition cleanup :: "labIO \<Rightarrow> runner \<Rightarrow> labWorld \<Rightarrow> aerror option \<times> labWorld" where
  "cleanup io r w = (let (errs, w') = cleanupLoop io r (iv_Hosts (rn_Inventory r)) w in (joinErrors errs, w'))"

record labSummary =
  lm_Status :: string
  lm_Revision :: string
  lm_RealHosts :: bool
  lm_Phases :: "string list"
  lm_Error :: string
  lm_CleanupSucceeded :: bool

definition plannedPhases :: "string list" where
  "plannedPhases = [''preflight-five-distinct-machines'', ''fresh-isolated-provision'', ''shared-genesis-five-validators'',
     ''five-resident-agents'', ''baseline-compensation'', ''4-1-partition-and-heal'',
     ''3-2-halt-stale-send-suppression-and-heal'', ''all-five-restart-and-persistence'', ''scoped-cleanup-and-log-collection'']"

definition emptySummary :: labSummary where
  "emptySummary = \<lparr>lm_Status = [], lm_Revision = [], lm_RealHosts = False, lm_Phases = [], lm_Error = [], lm_CleanupSucceeded = False\<rparr>"

definition Plan :: "(string \<Rightarrow> parsedURL option) \<Rightarrow> (string \<Rightarrow> bool) \<Rightarrow> inventory \<Rightarrow> aerror + labSummary" where
  "Plan parse ip4 i = (case validateInventory parse ip4 i of Some e \<Rightarrow> Inl e
     | None \<Rightarrow> Inr (emptySummary\<lparr>lm_Status := ''planned'', lm_Revision := iv_Revision i, lm_Phases := plannedPhases\<rparr>))"

datatype transport = NoTransport | SSHTransport | OtherTransport

text \<open>What one run is given and meets; \<open>ex_lstat\<close>: the results are a private directory.\<close>

record executeIO =
  ex_lab :: labIO
  ex_steps :: labSteps
  ex_codec :: labCodec
  ex_sha256 :: "bytes \<Rightarrow> bytes"
  ex_parse :: "string \<Rightarrow> parsedURL option"
  ex_ip4 :: "string \<Rightarrow> bool"
  ex_identity :: "inventory \<Rightarrow> bytes"
  ex_summary :: "labSummary \<Rightarrow> bytes"
  ex_mkdir :: "aerror option"
  ex_lstat :: bool
  ex_file :: fileState
  ex_lock :: "aerror option"
  ex_nonce :: "bytes option"
  ex_finish :: "aerror option"

record runOptions =
  ro_Inventory :: inventory
  ro_Transport :: transport
  ro_Resume :: bool
  ro_CleanupOnly :: bool

text \<open>The body of \<open>Execute\<close> once the journal is open: the summary and the error it returns with.\<close>

definition executeOpened ::
    "executeIO \<Rightarrow> runOptions \<Rightarrow> controllerJournal \<Rightarrow> labWorld \<Rightarrow> labSummary \<times> aerror option \<times> controllerJournal \<times> labWorld" where
  "executeOpened E opts j w =
     (let r = \<lparr>rn_Inventory = ro_Inventory opts, rn_owner = cj_Owner j\<rparr>;
        summary = emptySummary\<lparr>lm_Status := ''interrupted'', lm_Revision := iv_Revision (ro_Inventory opts),
          lm_RealHosts := (ro_Transport opts = SSHTransport)\<rparr> in
      if ro_CleanupOnly opts then (case cleanup (ex_lab E) r w of
          (Some e, w1) \<Rightarrow> (summary, Some e, j, w1)
        | (None, w1) \<Rightarrow> (let (fe, j') = controllerFinish ''cleaned'' (ex_finish E) j in
            (summary\<lparr>lm_Status := ''cleaned'', lm_CleanupSucceeded := True\<rparr>, fe, j', w1)))
      else (case labWorkflow (ex_lab E) (\<lambda>log. (ex_steps E log)\<lparr>sp_sha256 := ex_sha256 E\<rparr>) (ex_codec E) (ex_sha256 E) r \<lparr>rs_journal = j, rs_phases = [], rs_world = w\<rparr> of
          (Inl e, s) \<Rightarrow> (summary\<lparr>lm_Phases := rs_phases s\<rparr>, Some e, rs_journal s, rs_world s)
        | (Inr _, s) \<Rightarrow> (let summary = summary\<lparr>lm_Phases := rs_phases s\<rparr> in
            case cleanup (ex_lab E) r (rs_world s) of
              (Some e, w1) \<Rightarrow> (summary, Some e, rs_journal s, w1)
            | (None, w1) \<Rightarrow> (case controllerFinish ''passed'' (ex_finish E) (rs_journal s) of
                (Some e, j') \<Rightarrow> (summary, Some e, j', w1)
              | (None, j') \<Rightarrow> (summary\<lparr>lm_Status := ''passed'', lm_CleanupSucceeded := True\<rparr>, None, j', w1)))))"

text \<open>The deferred function: the summary is saved whatever happened.\<close>

definition saveSummary :: "executeIO \<Rightarrow> labSummary \<Rightarrow> aerror option \<Rightarrow> labWorld \<Rightarrow> labSummary \<times> aerror option \<times> labWorld" where
  "saveSummary E summary err w =
     (let summary = (case err of None \<Rightarrow> summary | Some e \<Rightarrow> summary\<lparr>lm_Error := errText e\<rparr>);
        (res, w') = atomicResult (ex_lab E) ''summary.json'' (ex_summary E summary) w in
      (summary, joinErrors (opt_list err @ (case res of Inl e \<Rightarrow> [e] | Inr _ \<Rightarrow> [])), w'))"

definition executeChecks :: "executeIO \<Rightarrow> runOptions \<Rightarrow> aerror option" where
  "executeChecks E opts =
     (case Plan (ex_parse E) (ex_ip4 E) (ro_Inventory opts) of Inl e \<Rightarrow> Some e | Inr _ \<Rightarrow>
      if ro_Transport opts = NoTransport then Some (AErr ''transport is required'')
      else case (if ro_Resume opts then None
          else if ro_CleanupOnly opts then Some (AErr ''cleanup requires explicit resume'') else ex_mkdir E) of
        Some e \<Rightarrow> Some e
      | None \<Rightarrow> if \<not> ex_lstat E then Some (AErr ''results must be a private directory, not a symlink'') else None)"

text \<open>
  \<open>Execute\<close> on the journal's bucket and the world: the summary, the error, the journal it leaves (none if
  it was not opened) and the world.
\<close>

definition Execute ::
    "executeIO \<Rightarrow> runOptions \<Rightarrow> (string \<rightharpoonup> controllerRow) \<Rightarrow> labWorld
      \<Rightarrow> labSummary \<times> aerror option \<times> controllerJournal option \<times> labWorld" where
  "Execute E opts b w = (case executeChecks E opts of Some e \<Rightarrow> (emptySummary, Some e, None, w) | None \<Rightarrow>
     case controllerOpen (ex_file E) (hexEncode (ex_sha256 E (ex_identity E (ro_Inventory opts)))) (ro_Resume opts)
         (ex_lock E) (ex_nonce E) b of
       Inl e \<Rightarrow> (emptySummary, Some e, None, w)
     | Inr j \<Rightarrow> (let (summary, err, j', w1) = executeOpened E opts j w; (summary', err', w2) = saveSummary E summary err w1 in
         (summary', err', Some j', w2)))"

text \<open>The command: \<open>loaded\<close> is the inventory file decoded. It answers an error or the summary printed.\<close>

record labFlags =
  lf_revision :: string
  lf_results :: string
  lf_execute :: bool
  lf_resume :: bool
  lf_cleanup :: bool
  lf_timeout :: int

definition multihostMain ::
    "executeIO \<Rightarrow> labFlags \<Rightarrow> aerror + inventory \<Rightarrow> (string \<rightharpoonup> controllerRow) \<Rightarrow> labWorld
      \<Rightarrow> (aerror + labSummary) \<times> controllerJournal option \<times> labWorld" where
  "multihostMain E f loaded b w = (case loaded of Inl e \<Rightarrow> (Inl e, None, w) | Inr i \<Rightarrow>
     (let i = (if lf_revision f \<noteq> [] then i\<lparr>iv_Revision := lf_revision f\<rparr> else i) in
      if (lf_resume f \<or> lf_cleanup f) \<and> \<not> lf_execute f then (Inl (AErr ''resume/cleanup require -execute''), None, w)
      else if \<not> lf_execute f then (Plan (ex_parse E) (ex_ip4 E) i, None, w)
      else if lf_results f = [] \<or> lf_timeout f \<le> 0
      then (Inl (AErr ''-results is required and -timeout must be positive''), None, w)
      else (let (summary, err, j, w') = Execute E \<lparr>ro_Inventory = i, ro_Transport = SSHTransport, ro_Resume = lf_resume f,
            ro_CleanupOnly = lf_cleanup f\<rparr> b w in
          ((case err of Some e \<Rightarrow> Inl e | None \<Rightarrow> Inr summary), j, w'))))"

end
