(* ===== verification/LabProps.thy ===== *)
theory LabProps
  imports Workflow
begin

text \<open>
  What the experiment promises. Its steps are run in their order and each under one operation id, over
  any number of resumed processes; a run that passes has done them all and collected every host's logs;
  and a script says to the shell what the code means, whatever the inventory's strings are.
\<close>

section \<open>Order of the steps\<close>

definition stepNames :: "string list" where
  "stepNames = [''preflight-five-distinct-machines'', ''provision'', ''start-five-validators'', ''start-five-agents'',
     ''baseline-compensation'', ''4-1-apply'', ''4-1-partition'', ''4-1-heal'', ''4-1-settlement'', ''3-2-apply'',
     ''3-2-halt-and-stale-send-suppression'', ''3-2-heal'', ''3-2-resumed'', ''all-five-stop'', ''all-five-restart'',
     ''all-five-restart-and-persistence'', ''post-restart-compensation'', ''common-block-convergence'']"

definition finished :: "(string \<rightharpoonup> controllerRow) \<Rightarrow> string \<Rightarrow> bool" where
  "finished b name = (case b (dataKey (stepKey name)) of Some (StepRow s) \<Rightarrow> sr_Status s = ''done'' | _ \<Rightarrow> False)"

definition earlier :: "string list \<Rightarrow> string \<Rightarrow> string set" where
  "earlier names n = set (takeWhile (\<lambda>m. m \<noteq> n) names)"

text \<open>
  The callbacks started so far: each under its step's operation id, with all earlier steps done, and
  none after one of a later step.
\<close>

definition inOrder :: "string list \<Rightarrow> (string \<Rightarrow> string) \<Rightarrow> (string \<rightharpoonup> controllerRow) \<Rightarrow> (string \<times> string) list \<Rightarrow> bool" where
  "inOrder names opOf b runs \<longleftrightarrow>
     (\<forall>x \<in> set runs. fst x \<in> set names \<and> snd x = opOf (fst x) \<and> (\<forall>m \<in> earlier names (fst x). finished b m))
     \<and> sorted_wrt (\<lambda>x y. fst y \<notin> earlier names (fst x)) runs"

lemma finished_iff: "finished (cj_bucket j) n \<longleftrightarrow> (\<exists>s. getStep (stepKey n) j = Inr (Some s) \<and> sr_Status s = ''done'')"
  by (auto simp: finished_def getStep_def split: option.splits controllerRow.splits)

lemma inOrder_mono: "inOrder names opOf b runs \<Longrightarrow> (\<And>n. finished b n \<Longrightarrow> finished b' n) \<Longrightarrow> inOrder names opOf b' runs"
  by (simp add: inOrder_def)

lemma inOrder_snoc:
  assumes "inOrder names opOf b runs" "n \<in> set names" "\<forall>m \<in> earlier names n. finished b m" "\<not> finished b n"
  shows "inOrder names opOf b (runs @ [(n, opOf n)])"
proof -
  have "n \<notin> earlier names (fst x)" if "x \<in> set runs" for x using assms(1,4) that by (auto simp: inOrder_def)
  with assms show ?thesis by (simp add: inOrder_def sorted_wrt_append)
qed

lemma earlier_take:
  assumes "distinct names" "take (Suc (length ps)) names = ps @ [n]"
  shows "n \<in> set names" "earlier names n = set ps"
proof -
  have n: "names = ps @ n # drop (Suc (length ps)) names"
    using assms(2) by (metis append.assoc append_Cons append_Nil append_take_drop_id)
  then have "\<forall>m \<in> set ps. m \<noteq> n" using assms(1) by (metis distinct_append disjoint_iff list.set_intros(1))
  then have "takeWhile (\<lambda>m. m \<noteq> n) (ps @ n # drop (Suc (length ps)) names) = ps"
    using takeWhile_append2 [of ps "\<lambda>m. m \<noteq> n" "n # drop (Suc (length ps)) names"] by simp
  with n show "earlier names n = set ps" unfolding earlier_def by metis
  show "n \<in> set names" using n by (metis in_set_conv_decomp)
qed

text \<open>The journal while an owner's experiment runs; \<open>prior\<close> are the callbacks of earlier processes.\<close>

definition orderly :: "(bytes \<Rightarrow> bytes) \<Rightarrow> string list \<Rightarrow> (string \<times> string) list \<Rightarrow> controllerJournal \<Rightarrow> bool" where
  "orderly sha names prior j \<longleftrightarrow> inOrder names (operationID sha (cj_Owner j)) (cj_bucket j) (prior @ cj_runs j)"

definition proceeds :: "controllerJournal \<Rightarrow> controllerJournal \<Rightarrow> bool" where
  "proceeds j j' \<longleftrightarrow> cj_Owner j' = cj_Owner j \<and> (\<forall>n. finished (cj_bucket j) n \<longrightarrow> finished (cj_bucket j') n)
     \<and> (\<forall>n. finished (cj_bucket j) n \<longrightarrow> runsOf n j' = runsOf n j)
     \<and> cj_bucket j' ''identity'' = cj_bucket j ''identity'' \<and> cj_bucket j' ''owner'' = cj_bucket j ''owner''"

lemma proceeds_refl [simp]: "proceeds j j" by (simp add: proceeds_def)

lemma proceeds_trans: "proceeds j k \<Longrightarrow> proceeds k l \<Longrightarrow> proceeds j l" by (simp add: proceeds_def)

lemma step_in_order:
  assumes "distinct names" "take (Suc (length ps)) names = ps @ [n]" "controllerStep io run n j w = (r, j', w')"
    and "sp_sha256 io = sha" "orderly sha names prior j" "\<forall>m \<in> set ps. finished (cj_bucket j) m"
  shows "orderly sha names prior j' \<and> proceeds j j' \<and> (is_ok r \<longrightarrow> finished (cj_bucket j') n)"
  using assms(3)
proof (cases rule: controllerStep_cases)
  case kept
  with assms(5) show ?thesis by (auto simp: is_ok_iff finished_iff)
next
  case ran
  note e = earlier_take [OF assms(1,2)]
  have nf: "\<not> finished (cj_bucket j) n" using ran(1) by (auto simp: finished_iff)
  have fin: "finished (cj_bucket j') m" if "finished (cj_bucket j) m" for m
  proof -
    have "m \<noteq> n" using nf that by auto
    with ran(4) that show ?thesis by (simp add: finished_iff)
  qed
  from assms(5,6) have "inOrder names (operationID sha (cj_Owner j)) (cj_bucket j) ((prior @ cj_runs j) @ [(n, operationID sha (cj_Owner j) n)])"
    by (intro inOrder_snoc) (simp_all add: orderly_def e nf)
  then have "orderly sha names prior j'"
    unfolding orderly_def using ran(2,3) assms(4) by (simp add: inOrder_mono [OF _ fin])
  moreover have "is_ok r \<longrightarrow> finished (cj_bucket j') n" using ran(7) by (auto simp: is_ok_iff finished_iff stepDone_def)
  moreover have "runsOf m j' = runsOf m j" if "finished (cj_bucket j) m" for m
    using that nf ran(2) by (auto simp: runsOf_def)
  ultimately show ?thesis using fin ran(3,5) by (simp add: proceeds_def dataKey_def)
qed

section \<open>Stages\<close>

text \<open>
  A part of the workflow that follows the steps \<open>ps\<close> and runs the steps \<open>ns\<close>: it keeps the order and
  what is done, and when it succeeds its steps are done and its phases listed.
\<close>

definition stage :: "(bytes \<Rightarrow> bytes) \<Rightarrow> string list \<Rightarrow> string list \<Rightarrow> string list \<Rightarrow> 'a phases \<Rightarrow> bool" where
  "stage sha names ps ns m \<longleftrightarrow> (\<forall>prior s r s'. m s = (r, s') \<longrightarrow> orderly sha names prior (rs_journal s)
     \<longrightarrow> (\<forall>n \<in> set ps. finished (cj_bucket (rs_journal s)) n)
     \<longrightarrow> orderly sha names prior (rs_journal s') \<and> proceeds (rs_journal s) (rs_journal s')
       \<and> (is_ok r \<longrightarrow> (\<forall>n \<in> set ns. finished (cj_bucket (rs_journal s')) n) \<and> rs_phases s' = rs_phases s @ ns))"

lemma stageD:
  assumes "stage sha names ps ns m" "m s = (r, s')" "orderly sha names prior (rs_journal s)"
    and "\<forall>n \<in> set ps. finished (cj_bucket (rs_journal s)) n"
  shows "orderly sha names prior (rs_journal s')" "proceeds (rs_journal s) (rs_journal s')"
    "is_ok r \<Longrightarrow> \<forall>n \<in> set ns. finished (cj_bucket (rs_journal s')) n" "is_ok r \<Longrightarrow> rs_phases s' = rs_phases s @ ns"
  using assms unfolding stage_def by blast+

lemma labStep_stage:
  assumes "distinct names" "take (Suc (length ps)) names = ps @ [n]" "\<And>log. sp_sha256 (steps log) = sha"
  shows "stage sha names ps [n] (labStep steps n marshal result run)"
  unfolding stage_def
proof (intro allI impI)
  fix prior :: "(string \<times> string) list" and s s' :: labRun and r
  assume m: "labStep steps n marshal result run s = (r, s')" and o': "orderly sha names prior (rs_journal s)"
    and d: "\<forall>n \<in> set ps. finished (cj_bucket (rs_journal s)) n"
  obtain r0 j w where c: "controllerStep (steps (ls_log (rs_world s)))
      (\<lambda>op w. case run op w of (Inl e, w') \<Rightarrow> (Inl e, w') | (Inr v, w') \<Rightarrow> (Inr (marshal v), w')) n (rs_journal s) (rs_world s) = (r0, j, w)"
    by (rule prod_cases3)
  have s': "rs_journal s' = j \<and> rs_phases s' = rs_phases s @ [n] \<and> (is_ok r \<longrightarrow> is_ok r0)"
    using m by (cases r0) (auto simp: labStep_def c Let_def)
  from step_in_order [OF assms(1,2) c assms(3) o' d] s'
  show "orderly sha names prior (rs_journal s') \<and> proceeds (rs_journal s) (rs_journal s')
       \<and> (is_ok r \<longrightarrow> (\<forall>n \<in> set [n]. finished (cj_bucket (rs_journal s')) n) \<and> rs_phases s' = rs_phases s @ [n])"
    by simp
qed

lemma stage_then:
  assumes m: "stage sha names ps ns m" and f: "\<And>x. stage sha names (ps @ ns) ns' (f x)"
  shows "stage sha names ps (ns @ ns') (andPhase m f)"
  unfolding stage_def
proof (intro allI impI)
  fix prior :: "(string \<times> string) list" and s s' :: labRun and r
  assume a: "andPhase m f s = (r, s')" and o': "orderly sha names prior (rs_journal s)"
    and d: "\<forall>n \<in> set ps. finished (cj_bucket (rs_journal s)) n"
  obtain r1 s1 where m1: "m s = (r1, s1)" by fastforce
  note h1 = stageD [OF m m1 o' d]
  show "orderly sha names prior (rs_journal s') \<and> proceeds (rs_journal s) (rs_journal s')
       \<and> (is_ok r \<longrightarrow> (\<forall>n \<in> set (ns @ ns'). finished (cj_bucket (rs_journal s')) n) \<and> rs_phases s' = rs_phases s @ ns @ ns')"
  proof (cases r1)
    case (Inl e)
    with a m1 h1(1,2) show ?thesis by (auto simp: andPhase_def)
  next
    case (Inr x)
    then have f1: "f x s1 = (r, s')" using a m1 by (simp add: andPhase_def)
    have fin: "\<forall>n \<in> set (ps @ ns). finished (cj_bucket (rs_journal s1)) n" using h1(2,3) d Inr by (auto simp: proceeds_def)
    note h2 = stageD [OF f f1 h1(1) fin]
    have "\<forall>n \<in> set ns. finished (cj_bucket (rs_journal s')) n" using h2(2) h1(3) Inr by (simp add: proceeds_def)
    with h2 h1(4) Inr proceeds_trans [OF h1(2) h2(2)] show ?thesis by auto
  qed
qed

lemma stage_step:
  assumes "distinct names" "take (Suc (length ps)) names = ps @ [n]" "\<And>log. sp_sha256 (steps log) = sha"
    and "\<And>x. stage sha names (ps @ [n]) ns (f x)"
  shows "stage sha names ps (n # ns) (andPhase (labStep steps n marshal result run) f)"
  using stage_then [OF labStep_stage [OF assms(1,2,3)] assms(4)] by simp

lemma distinct_stepNames: "distinct stepNames"
  by code_simp

theorem workflow_stage:
  assumes "\<And>log. sp_sha256 (steps log) = sha"
  shows "stage sha stepNames [] stepNames (labWorkflow io steps C sha' r)"
proof -
  have "stage sha stepNames [] [''preflight-five-distinct-machines'', ''provision'', ''start-five-validators'', ''start-five-agents'',
     ''baseline-compensation'', ''4-1-apply'', ''4-1-partition'', ''4-1-heal'', ''4-1-settlement'', ''3-2-apply'',
     ''3-2-halt-and-stale-send-suppression'', ''3-2-heal'', ''3-2-resumed'', ''all-five-stop'', ''all-five-restart'',
     ''all-five-restart-and-persistence'', ''post-restart-compensation'', ''common-block-convergence''] (labWorkflow io steps C sha' r)"
    unfolding labWorkflow_def quietStep_def Let_def
    by (rule stage_step [OF distinct_stepNames _ assms] labStep_stage [OF distinct_stepNames _ assms] | simp add: stepNames_def; fail)+
  then show ?thesis by (simp add: stepNames_def)
qed

section \<open>Runs of the experiment\<close>

lemma finish_orderly:
  assumes "controllerFinish status e j = (fe, j')"
  shows "orderly sha names prior j \<Longrightarrow> orderly sha names prior j'" "proceeds j j'"
    "fe = None \<Longrightarrow> cj_bucket j' ''finished'' = Some (PlainRow status)"
proof -
  have f: "finished (cj_bucket j') = finished (cj_bucket j) \<and> cj_runs j' = cj_runs j \<and> cj_Owner j' = cj_Owner j
      \<and> cj_bucket j' ''identity'' = cj_bucket j ''identity'' \<and> cj_bucket j' ''owner'' = cj_bucket j ''owner''"
    using assms by (auto simp: controllerFinish_def finished_def dataKey_def fun_eq_iff split: if_splits option.splits)
  then show "orderly sha names prior j \<Longrightarrow> orderly sha names prior j'" "proceeds j j'"
    by (simp_all add: orderly_def inOrder_def proceeds_def runsOf_def)
  show "fe = None \<Longrightarrow> cj_bucket j' ''finished'' = Some (PlainRow status)"
    using assms by (auto simp: controllerFinish_def split: if_splits option.splits)
qed

lemma workflow_orderly:
  assumes "labWorkflow io (\<lambda>log. (steps log)\<lparr>sp_sha256 := sha\<rparr>) C sha' r \<lparr>rs_journal = j, rs_phases = [], rs_world = w\<rparr> = (res, s')"
    and "orderly sha stepNames prior j"
  shows "orderly sha stepNames prior (rs_journal s') \<and> proceeds j (rs_journal s')
    \<and> (is_ok res \<longrightarrow> (\<forall>n \<in> set stepNames. finished (cj_bucket (rs_journal s')) n) \<and> rs_phases s' = stepNames)"
proof -
  have "stage sha stepNames [] stepNames (labWorkflow io (\<lambda>log. (steps log)\<lparr>sp_sha256 := sha\<rparr>) C sha' r)"
    by (rule workflow_stage) simp
  from stageD [OF this assms(1)] assms(2) show ?thesis by simp
qed

lemma executeOpened_orderly:
  assumes "executeOpened E opts j w = (summary, err, j', w')" "orderly (ex_sha256 E) stepNames prior j"
  shows "orderly (ex_sha256 E) stepNames prior j' \<and> proceeds j j'"
proof (cases "ro_CleanupOnly opts")
  case True
  with assms show ?thesis
    by (auto simp: executeOpened_def Let_def dest: finish_orderly split: option.splits prod.splits)
next
  case False
  obtain res s where wf: "labWorkflow (ex_lab E) (\<lambda>log. (ex_steps E log)\<lparr>sp_sha256 := ex_sha256 E\<rparr>) (ex_codec E) (ex_sha256 E)
      \<lparr>rn_Inventory = ro_Inventory opts, rn_owner = cj_Owner j\<rparr> \<lparr>rs_journal = j, rs_phases = [], rs_world = w\<rparr> = (res, s)"
    by fastforce
  note o' = workflow_orderly [OF wf assms(2)]
  show ?thesis
  proof (cases "j' = rs_journal s")
    case True
    with o' show ?thesis by simp
  next
    case other: False
    then obtain fe where "controllerFinish ''passed'' (ex_finish E) (rs_journal s) = (fe, j')"
      using assms(1) False by (auto simp: executeOpened_def wf Let_def split: sum.splits option.splits prod.splits)
    from finish_orderly [OF this] o' show ?thesis by (blast intro: proceeds_trans)
  qed
qed

text \<open>The processes of one experiment, one after the other, and the callbacks they started.\<close>

type_synonym experimentState = "(string \<rightharpoonup> controllerRow) \<times> labWorld \<times> (string \<times> string) list"

fun experimentLife :: "(executeIO \<times> runOptions) list \<Rightarrow> experimentState \<Rightarrow> experimentState" where
  "experimentLife [] s = s"
| "experimentLife ((E, opts) # es) (b, w, runs) = (case Execute E opts b w of
     (_, _, None, w') \<Rightarrow> experimentLife es (b, w', runs)
   | (_, _, Some j, w') \<Rightarrow> experimentLife es (cj_bucket j, w', runs @ cj_runs j))"

definition experimentOk :: "(bytes \<Rightarrow> bytes) \<Rightarrow> experimentState \<Rightarrow> bool" where
  "experimentOk sha s = (case s of (b, w, runs) \<Rightarrow> (b ''identity'' = None \<longrightarrow> b = Map.empty \<and> runs = [])
     \<and> inOrder stepNames (operationID sha (rowString (b ''owner''))) b runs)"

definition startsOf :: "string \<Rightarrow> (string \<times> string) list \<Rightarrow> (string \<times> string) list" where
  "startsOf n runs = filter (\<lambda>e. fst e = n) runs"

text \<open>Opening the journal finds the owner of the callbacks before, or a new experiment.\<close>

lemma open_orderly:
  assumes "controllerOpen f identity resume lock nonce b = Inr j" "experimentOk sha (b, w, runs)"
  shows "orderly sha stepNames runs j" "cj_runs j = []" "cj_bucket j ''identity'' \<noteq> None"
    "cj_Owner j = rowString (cj_bucket j ''owner'')" "finished b n \<Longrightarrow> cj_bucket j = b"
proof -
  from assms(1) have tx: "openTx identity resume nonce b = Inr j" and r: "resume \<Longrightarrow> f = Present True"
    by (auto simp: controllerOpen_def openChecks_def split: option.splits fileState.splits if_splits)
  show "orderly sha stepNames runs j" "cj_runs j = []" "cj_Owner j = rowString (cj_bucket j ''owner'')"
    using tx assms(2) by (auto simp: openTx_def Let_def orderly_def experimentOk_def inOrder_def rowString_def split: if_splits option.splits)
  show "cj_bucket j ''identity'' \<noteq> None" "finished b n \<Longrightarrow> cj_bucket j = b"
    using tx assms(2) by (auto simp: openTx_def Let_def experimentOk_def rowString_def finished_def split: if_splits option.splits)
qed

lemma Execute_ok:
  assumes "Execute E opts b w = (summary, err, Some j, w')" "experimentOk sha (b, w, runs)" "ex_sha256 E = sha"
  shows "experimentOk sha (cj_bucket j, w', runs @ cj_runs j)"
    "finished b n \<Longrightarrow> finished (cj_bucket j) n \<and> startsOf n (cj_runs j) = []"
proof -
  obtain j0 where o': "controllerOpen (ex_file E) (hexEncode (ex_sha256 E (ex_identity E (ro_Inventory opts)))) (ro_Resume opts)
      (ex_lock E) (ex_nonce E) b = Inr j0"
    and x: "\<exists>s0 e0 w1. executeOpened E opts j0 w = (s0, e0, j, w1)"
    using assms(1) by (auto simp: Execute_def Let_def split: option.splits sum.splits prod.splits)
  note op = open_orderly [OF o' assms(2)]
  from x executeOpened_orderly [of E opts j0 w _ _ j _ runs] op(1) assms(3)
  have e: "orderly sha stepNames runs j" "proceeds j0 j" by blast+
  then show "experimentOk sha (cj_bucket j, w', runs @ cj_runs j)"
    using op(3,4) by (auto simp: experimentOk_def orderly_def proceeds_def)
  show "finished b n \<Longrightarrow> finished (cj_bucket j) n \<and> startsOf n (cj_runs j) = []"
    using e(2) op(2) op(5) [of n] by (simp add: proceeds_def startsOf_def runsOf_def)
qed

lemma life_ok:
  assumes "experimentLife es (b, w, runs) = (b', w', runs')" "experimentOk sha (b, w, runs)" "\<forall>x \<in> set es. ex_sha256 (fst x) = sha"
  shows "experimentOk sha (b', w', runs') \<and> (\<forall>n. finished b n \<longrightarrow> finished b' n \<and> startsOf n runs' = startsOf n runs)"
  using assms
proof (induction es arbitrary: b w runs)
  case (Cons e es)
  obtain E opts where e: "e = (E, opts)" by fastforce
  obtain summary err jo w1 where x: "Execute E opts b w = (summary, err, jo, w1)" by (rule prod_cases4)
  show ?case
  proof (cases jo)
    case None
    with Cons.prems x e have "experimentLife es (b, w1, runs) = (b', w', runs')" by simp
    moreover have "experimentOk sha (b, w1, runs)" using Cons.prems(2) by (simp add: experimentOk_def)
    ultimately show ?thesis using Cons.IH Cons.prems(3) by simp
  next
    case (Some j)
    have sh: "ex_sha256 E = sha" using Cons.prems(3) e by simp
    note ok = Execute_ok [OF x [unfolded Some] Cons.prems(2) sh]
    have "experimentLife es (cj_bucket j, w1, runs @ cj_runs j) = (b', w', runs')" using Cons.prems(1) x Some e by simp
    from Cons.IH [OF this ok(1)] Cons.prems(3) ok(2) show ?thesis by (simp add: startsOf_def)
  qed
qed simp

section \<open>Collected logs\<close>

definition saved :: "labWorld \<Rightarrow> string \<Rightarrow> bool" where
  "saved w name \<longleftrightarrow> ls_files w name \<noteq> None"

lemma atomicResult_files:
  "atomicResult io name bz w = (res, w') \<Longrightarrow> (is_ok res \<longrightarrow> ls_files w' name = Some bz) \<and> (saved w k \<longrightarrow> saved w' k)"
  by (auto simp: atomicResult_def saved_def Let_def split: option.splits if_splits)

lemma transportRun_files: "ls_files (snd (transportRun io h script w)) = ls_files w"
  by (simp add: transportRun_def)

lemma cleanupHost_files:
  assumes "cleanupHost io r h w = (res, w')"
  shows "is_ok res \<Longrightarrow> saved w' (lh_ID h @ ''-logs.tar.gz'')" "saved w k \<Longrightarrow> saved w' k"
proof -
  obtain r1 w1 where t: "transportRun io h (cleanupScript r) w = (r1, w1)" by fastforce
  obtain r2 w2 where c: "worker io r h ''collect'' [] w1 = (r2, w2)" by fastforce
  have f: "ls_files w1 = ls_files w \<and> ls_files w2 = ls_files w"
    using transportRun_files [of io h "cleanupScript r" w] transportRun_files [of io h "workerScript r ''collect'' []" w1] t c
    by (simp add: worker_def)
  have "(is_ok res \<longrightarrow> saved w' (lh_ID h @ ''-logs.tar.gz'')) \<and> (saved w k \<longrightarrow> saved w' k)"
  proof (cases "is_ok r1 \<and> is_ok r2")
    case True
    then obtain bz where "atomicResult io (lh_ID h @ ''-logs.tar.gz'') bz w2 = (res, w')"
      using assms t c by (auto simp: cleanupHost_def andThen_def is_ok_iff)
    from atomicResult_files [OF this, of k] f show ?thesis by (auto simp: saved_def)
  next
    case False
    then show ?thesis using assms t c f by (auto simp: cleanupHost_def andThen_def is_ok_iff saved_def split: sum.splits)
  qed
  then show "is_ok res \<Longrightarrow> saved w' (lh_ID h @ ''-logs.tar.gz'')" "saved w k \<Longrightarrow> saved w' k" by blast+
qed

lemma cleanupLoop_files:
  "cleanupLoop io r hs w = (errs, w') \<Longrightarrow> (saved w k \<longrightarrow> saved w' k)
     \<and> (errs = [] \<longrightarrow> (\<forall>h \<in> set hs. saved w' (lh_ID h @ ''-logs.tar.gz'')))"
proof (induction hs arbitrary: w errs w' k)
  case (Cons h hs)
  obtain res w1 where c: "cleanupHost io r h w = (res, w1)" by fastforce
  obtain errs1 w2 where l: "cleanupLoop io r hs w1 = (errs1, w2)" by fastforce
  have e: "w' = w2" "errs = [] \<longrightarrow> is_ok res \<and> errs1 = []" using Cons.prems c l by (auto simp: Let_def split: sum.splits)
  note ch = cleanupHost_files [OF c] and ih = Cons.IH [OF l]
  show ?case
  proof (intro conjI impI ballI)
    show "saved w' k" if "saved w k" using ch(2) [OF that] ih e(1) by blast
    fix h' assume "errs = []" "h' \<in> set (h # hs)"
    then show "saved w' (lh_ID h' @ ''-logs.tar.gz'')"
      using ch(1) ih [of "lh_ID h @ ''-logs.tar.gz''"] e by auto
  qed
qed simp

lemma saveSummary_files:
  assumes "saveSummary E summary err w = (summary', None, w')"
  shows "err = None" "summary' = summary" "ls_files w' ''summary.json'' = Some (ex_summary E summary)" "saved w k \<Longrightarrow> saved w' k"
proof -
  obtain res w1 where a: "atomicResult (ex_lab E) ''summary.json'' (ex_summary E summary) w = (res, w1)" by fastforce
  have "err = None \<and> is_ok res \<and> summary' = summary \<and> w' = w1"
    using assms a by (auto simp: saveSummary_def Let_def joinErrors_def opt_list_def split: option.splits sum.splits prod.splits if_splits)
  with atomicResult_files [OF a, of k]
  show "err = None" "summary' = summary" "ls_files w' ''summary.json'' = Some (ex_summary E summary)" "saved w k \<Longrightarrow> saved w' k"
    by auto
qed

lemma executeOpened_passed:
  assumes "executeOpened E opts j0 w = (summary, None, j, w1)" "\<not> ro_CleanupOnly opts"
    and "labWorkflow (ex_lab E) (\<lambda>log. (ex_steps E log)\<lparr>sp_sha256 := ex_sha256 E\<rparr>) (ex_codec E) (ex_sha256 E)
      \<lparr>rn_Inventory = ro_Inventory opts, rn_owner = cj_Owner j0\<rparr> \<lparr>rs_journal = j0, rs_phases = [], rs_world = w\<rparr> = (res, s)"
    and "cleanup (ex_lab E) \<lparr>rn_Inventory = ro_Inventory opts, rn_owner = cj_Owner j0\<rparr> (rs_world s) = (ce, w3)"
    and "controllerFinish ''passed'' (ex_finish E) (rs_journal s) = (fe, jf)"
  shows "is_ok res" "ce = None" "fe = None" "j = jf" "w1 = w3" "lm_Status summary = ''passed''" "lm_Phases summary = rs_phases s"
    "lm_Revision summary = iv_Revision (ro_Inventory opts)"
proof -
  have x: "(summary, None, j, w1) = executeOpened E opts j0 w" using assms(1) by simp
  have r: "is_ok res" using x assms(2,3) by (cases res) (simp_all add: executeOpened_def Let_def)
  then obtain u where u: "res = Inr u" by (auto simp: is_ok_iff)
  have c: "ce = None" using x assms(2-4) by (cases ce) (simp_all add: executeOpened_def Let_def u)
  have f: "fe = None" using x assms(2-5) by (cases fe) (simp_all add: executeOpened_def Let_def u c)
  from x assms(2-5) have "summary = (emptySummary\<lparr>lm_Status := ''interrupted'', lm_Revision := iv_Revision (ro_Inventory opts),
      lm_RealHosts := (ro_Transport opts = SSHTransport)\<rparr>)\<lparr>lm_Phases := rs_phases s, lm_Status := ''passed'', lm_CleanupSucceeded := True\<rparr>
      \<and> j = jf \<and> w1 = w3"
    by (simp add: executeOpened_def Let_def u c f)
  with r c f show "is_ok res" "ce = None" "fe = None" "j = jf" "w1 = w3" "lm_Status summary = ''passed''"
    "lm_Phases summary = rs_phases s" "lm_Revision summary = iv_Revision (ro_Inventory opts)" by simp_all
qed

section \<open>Properties\<close>

text \<open>
  C16. The experiment never goes back. Over any number of processes on one journal - interrupted, resumed
  or cleaning up, whatever hosts, clock and database answer - a step's callback is started only when all
  earlier steps are done, never after one of a later step, and always under the same operation id; and
  a step that is done stays done and is never started again.
\<close>

theorem experiment_in_order:
  assumes "experimentLife es (Map.empty, w, []) = (b, w', runs)" "\<forall>x \<in> set es. ex_sha256 (fst x) = sha"
    and "experimentLife later (b, w', runs) = (b', w2, runs')" "\<forall>x \<in> set later. ex_sha256 (fst x) = sha"
  shows "(\<forall>(n, op) \<in> set runs. n \<in> set stepNames \<and> op = operationID sha (rowString (b ''owner'')) n
      \<and> (\<forall>m \<in> earlier stepNames n. finished b m))
    \<and> sorted_wrt (\<lambda>x y. fst y \<notin> earlier stepNames (fst x)) runs
    \<and> (\<forall>n. finished b n \<longrightarrow> finished b' n \<and> startsOf n runs' = startsOf n runs)"
proof -
  have "experimentOk sha (Map.empty, w, [])" by (simp add: experimentOk_def inOrder_def)
  from life_ok [OF assms(1) this assms(2)] have ok: "experimentOk sha (b, w', runs)" by simp
  then have "inOrder stepNames (operationID sha (rowString (b ''owner''))) b runs" by (simp add: experimentOk_def)
  with life_ok [OF assms(3) ok assms(4)] show ?thesis by (auto simp: inOrder_def)
qed

text \<open>
  C17. A run that passes has done everything. When \<open>Execute\<close> returns no error from a run that is not only
  a cleanup, all eighteen steps are done in the journal, it is marked as passed, the log archive of
  every host is among the results, and the saved summary is the one returned: passed, with every phase.
\<close>

theorem experiment_passed:
  assumes "Execute E opts b w = (summary, None, jo, w')" "\<not> ro_CleanupOnly opts"
  shows "\<exists>j. jo = Some j \<and> (\<forall>n \<in> set stepNames. finished (cj_bucket j) n)
    \<and> cj_bucket j ''finished'' = Some (PlainRow ''passed'')
    \<and> (\<forall>h \<in> set (iv_Hosts (ro_Inventory opts)). ls_files w' (lh_ID h @ ''-logs.tar.gz'') \<noteq> None)
    \<and> ls_files w' ''summary.json'' = Some (ex_summary E summary)
    \<and> lm_Status summary = ''passed'' \<and> lm_Phases summary = stepNames \<and> lm_Revision summary = iv_Revision (ro_Inventory opts)"
proof -
  obtain j0 where o': "controllerOpen (ex_file E) (hexEncode (ex_sha256 E (ex_identity E (ro_Inventory opts)))) (ro_Resume opts)
      (ex_lock E) (ex_nonce E) b = Inr j0"
    using assms(1) by (auto simp: Execute_def Let_def split: option.splits sum.splits prod.splits)
  obtain s0 e0 j w1 where x: "executeOpened E opts j0 w = (s0, e0, j, w1)" by (rule prod_cases4)
  obtain s1 e1 w2 where sv: "saveSummary E s0 e0 w1 = (s1, e1, w2)" by (rule prod_cases3)
  have eq: "s1 = summary" "e1 = None" "jo = Some j" "w2 = w'"
    using assms(1) o' x sv by (auto simp: Execute_def Let_def split: option.splits)
  note sf = saveSummary_files [OF sv [unfolded eq(2)]]
  define r where "r = \<lparr>rn_Inventory = ro_Inventory opts, rn_owner = cj_Owner j0\<rparr>"
  obtain res s where wf: "labWorkflow (ex_lab E) (\<lambda>log. (ex_steps E log)\<lparr>sp_sha256 := ex_sha256 E\<rparr>) (ex_codec E) (ex_sha256 E)
      r \<lparr>rs_journal = j0, rs_phases = [], rs_world = w\<rparr> = (res, s)" by fastforce
  obtain errs w3 where cl: "cleanupLoop (ex_lab E) r (iv_Hosts (ro_Inventory opts)) (rs_world s) = (errs, w3)" by fastforce
  obtain fe jf where fi: "controllerFinish ''passed'' (ex_finish E) (rs_journal s) = (fe, jf)" by fastforce
  have cu: "cleanup (ex_lab E) r (rs_world s) = (joinErrors errs, w3)" using cl by (simp add: cleanup_def r_def)
  note ok = executeOpened_passed [OF x [unfolded sf(1)] assms(2) wf [unfolded r_def] cu [unfolded r_def] fi]
  have "orderly (ex_sha256 E) stepNames [] j0"
    using o' by (auto simp: controllerOpen_def openTx_def orderly_def inOrder_def Let_def split: option.splits if_splits)
  moreover have "errs = []" using ok(2) by (simp add: joinErrors_def split: if_splits)
  ultimately have "errs = []" "orderly (ex_sha256 E) stepNames [] j0" by simp_all
  from workflow_orderly [OF wf this(2)] ok(1) finish_orderly [OF fi] ok(3,4)
  have "\<forall>n \<in> set stepNames. finished (cj_bucket j) n" "rs_phases s = stepNames" "cj_bucket j ''finished'' = Some (PlainRow ''passed'')"
    by (auto simp: proceeds_def)
  moreover have "\<forall>h \<in> set (iv_Hosts (ro_Inventory opts)). saved w' (lh_ID h @ ''-logs.tar.gz'')"
    using cleanupLoop_files [OF cl] \<open>errs = []\<close> ok(5) sf(4) eq(4) by blast
  ultimately show ?thesis using ok sf(2,3) eq by (auto simp: saved_def)
qed

section \<open>What the shell reads\<close>

text \<open>
  The words of a command line by the quoting rules of the shell: single quotes keep every byte, double
  quotes expand variables. A byte with a meaning of its own that is not quoted, or another expansion,
  is outside this reader.
\<close>

datatype shMode = Plain | Single | Double | Variable string

definition nameChar :: "char \<Rightarrow> bool" where
  "nameChar c = (alnum c \<or> c = CHR ''_'')"

definition plainChar :: "char \<Rightarrow> bool" where
  "plainChar c = (alnum c \<or> c \<in> set ''_-./=:,'')"

fun shWord :: "(string \<Rightarrow> string) \<Rightarrow> shMode \<Rightarrow> string \<Rightarrow> (string \<times> string) option" where
  "shWord env Plain [] = Some ([], [])"
| "shWord env Plain (c # s) = (if c = squote then shWord env Single s else if c = dquote then shWord env Double s
     else if c = CHR '' '' then Some ([], c # s)
     else if plainChar c then map_option (apfst (Cons c)) (shWord env Plain s) else None)"
| "shWord env Single (c # s) = (if c = squote then shWord env Plain s else map_option (apfst (Cons c)) (shWord env Single s))"
| "shWord env Double (c # s) = (if c = dquote then shWord env Plain s else if c = CHR ''$'' then shWord env (Variable []) s
     else if c = CHR 0x60 \<or> c = CHR 0x5C then None else map_option (apfst (Cons c)) (shWord env Double s))"
| "shWord env (Variable name) (c # s) = (if nameChar c then shWord env (Variable (name @ [c])) s
     else if name = [] then None
     else map_option (apfst (append (env name))) (if c = dquote then shWord env Plain s
       else if c = CHR ''$'' then shWord env (Variable []) s
       else if c = CHR 0x60 \<or> c = CHR 0x5C then None else map_option (apfst (Cons c)) (shWord env Double s)))"
| "shWord env mode [] = None"

fun shWords :: "nat \<Rightarrow> (string \<Rightarrow> string) \<Rightarrow> string \<Rightarrow> string list option" where
  "shWords 0 env s = None"
| "shWords (Suc n) env s = (case shWord env Plain s of None \<Rightarrow> None
     | Some (w, []) \<Rightarrow> Some [w]
     | Some (w, c # rest) \<Rightarrow> map_option (Cons w) (shWords n env rest))"

lemma quote_chars: "squote \<noteq> dquote" "squote \<noteq> CHR ''$''" "squote \<noteq> CHR 0x60" "squote \<noteq> CHR 0x5C" "squote \<noteq> CHR '' ''"
  "dquote \<noteq> squote" "CHR '' '' \<noteq> squote" "CHR '' '' \<noteq> dquote"
  by (simp_all add: squote_def dquote_def)

lemma shWord_Single:
  "shWord env Single (concat (map (\<lambda>c. if c = squote then [squote, dquote, squote, dquote, squote] else [c]) s) @ squote # rest)
     = map_option (apfst (append s)) (shWord env Plain rest)"
proof (induction s)
  case Nil
  show ?case by (cases "shWord env Plain rest") (auto split: prod.splits)
next
  case (Cons c s)
  then show ?case by (cases "c = squote") (auto simp: quote_chars option.map_comp comp_def apfst_def map_prod_def intro!: option.map_cong)
qed

lemma shWord_Quote: "shWord env Plain (Quote s @ rest) = map_option (apfst (append s)) (shWord env Plain rest)"
  using shWord_Single [of env s rest] by (simp add: Quote_def quote_chars)

lemma shWords_args:
  "shWords (Suc (length args)) env (Quote a @ concat (map (\<lambda>x. '' '' @ Quote x) args)) = Some (a # args)"
proof (induction args arbitrary: a)
  case Nil
  show ?case using shWord_Quote [of env a "[]"] by simp
next
  case (Cons b args)
  have "shWord env Plain (Quote a @ CHR '' '' # Quote b @ concat (map (\<lambda>x. '' '' @ Quote x) args))
      = Some (a, CHR '' '' # Quote b @ concat (map (\<lambda>x. '' '' @ Quote x) args))"
    by (simp add: shWord_Quote quote_chars)
  with Cons.IH [of b] show ?case by simp
qed

definition labEnv :: "runner \<Rightarrow> string \<Rightarrow> string" where
  "labEnv r name = (if name = ''root'' then root r else if name = ''run'' then iv_RunID (rn_Inventory r)
     else if name = ''owner'' then rn_owner r else [])"

lemma shWord_bash: "shWord env Plain (''bash '' @ s) = Some (''bash'', CHR '' '' # s)"
  by (simp add: plainChar_def alnum_def squote_def dquote_def)

lemma shWord_script:
  "shWord env Plain (''\"$root/source/dev/scripts/multihost-worker.sh\" '' @ s)
     = Some (env ''root'' @ ''/source/dev/scripts/multihost-worker.sh'', CHR '' '' # s)"
  by (simp add: nameChar_def alnum_def squote_def dquote_def)

lemma shWord_variables:
  "shWord env Plain (''\"$root\" '' @ s) = Some (env ''root'', CHR '' '' # s)"
  "shWord env Plain (''\"$run\" '' @ s) = Some (env ''run'', CHR '' '' # s)"
  "shWord env Plain (''\"$owner\" '' @ s) = Some (env ''owner'', CHR '' '' # s)"
  by (simp_all add: nameChar_def alnum_def squote_def dquote_def)

lemma shWords_step: "shWord env Plain s = Some (w, c # rest) \<Longrightarrow> shWords (Suc n) env s = map_option (Cons w) (shWords n env rest)"
  by simp

lemma shWord_assignment:
  assumes "list_all plainChar name"
  shows "shWords 1 env (name @ Quote v) = Some [name @ v]"
proof -
  have "shWord env Plain (name @ Quote v) = Some (name @ v, [])" using assms
  proof (induction name)
    case Nil
    show ?case using shWord_Quote [of env v "[]"] by simp
  next
    case (Cons c name)
    have "c \<noteq> squote" "c \<noteq> dquote" "c \<noteq> CHR '' ''"
      using Cons.prems by (auto simp: plainChar_def alnum_def squote_def dquote_def)
    with Cons show ?case by simp
  qed
  then show ?thesis by simp
qed

lemma assignment_names: "list_all plainChar ''root=''" "list_all plainChar ''run=''" "list_all plainChar ''owner=''"
  by code_simp+

text \<open>
  C18. A worker script says what the code means. Whatever the run id, the owner, the remote base, the action and
  its arguments are - quotes, blanks, newlines or dollar signs - the shell assigns exactly the root, the
  run and the owner, and the script's last command has exactly the words the code gives it.
\<close>

theorem worker_script_words:
  "\<exists>assigns cmd. workerScript r action args
      = line ''set -euo pipefail'' @ line ''umask 077'' @ concat (map line assigns) @ ownedGuard @ line cmd
    \<and> map (shWords 1 env) assigns
      = [Some [''root='' @ root r], Some [''run='' @ iv_RunID (rn_Inventory r)], Some [''owner='' @ rn_owner r]]
    \<and> shWords (6 + length args) (labEnv r) cmd
      = Some ([''bash'', root r @ ''/source/dev/scripts/multihost-worker.sh'', root r, iv_RunID (rn_Inventory r), rn_owner r, action] @ args)"
proof -
  define tail where "tail = Quote action @ concat (map (\<lambda>arg. '' '' @ Quote arg) args)"
  define cmd where "cmd = ''bash \"$root/source/dev/scripts/multihost-worker.sh\" \"$root\" \"$run\" \"$owner\" '' @ tail"
  define assigns where "assigns = [''root='' @ Quote (root r), ''run='' @ Quote (iv_RunID (rn_Inventory r)), ''owner='' @ Quote (rn_owner r)]"
  have "cmd = ''bash '' @ ''\"$root/source/dev/scripts/multihost-worker.sh\" '' @ ''\"$root\" '' @ ''\"$run\" '' @ ''\"$owner\" '' @ tail"
    by (simp add: cmd_def)
  moreover have "6 + length args = Suc (Suc (Suc (Suc (Suc (Suc (length args))))))" by simp
  ultimately have words: "shWords (6 + length args) (labEnv r) cmd
      = Some ([''bash'', root r @ ''/source/dev/scripts/multihost-worker.sh'', root r, iv_RunID (rn_Inventory r), rn_owner r, action] @ args)"
    using shWords_args [of args "labEnv r" action]
    by (simp only: shWords_step [OF shWord_bash] shWords_step [OF shWord_script] shWords_step [OF shWord_variables(1)]
        shWords_step [OF shWord_variables(2)] shWords_step [OF shWord_variables(3)] tail_def)
      (simp add: labEnv_def)
  have assigned: "map (shWords 1 env) assigns
      = [Some [''root='' @ root r], Some [''run='' @ iv_RunID (rn_Inventory r)], Some [''owner='' @ rn_owner r]]"
    by (simp only: assigns_def list.map shWord_assignment [OF assignment_names(1)] shWord_assignment [OF assignment_names(2)]
        shWord_assignment [OF assignment_names(3)])
  have script: "workerScript r action args
      = line ''set -euo pipefail'' @ line ''umask 077'' @ concat (map line assigns) @ ownedGuard @ line cmd"
    by (simp add: workerScript_def scriptPrefix_def assigns_def cmd_def tail_def)
  show ?thesis by (rule exI [of _ assigns], rule exI [of _ cmd], intro conjI) (fact script assigned words)+
qed

section \<open>Witnesses\<close>

definition sampleHost :: "char \<Rightarrow> labHost" where
  "sampleHost c = \<lparr>lh_ID = ''h'' @ [c], lh_SSH = ''root@h'' @ [c], lh_Port = 22, lh_Identity = [], lh_PeerIP = ''10.0.0.'' @ [c]\<rparr>"

definition sampleInventory :: inventory where
  "sampleInventory = \<lparr>iv_RunID = ''run1'', iv_ChainID = ''g503-lab-1'', iv_Repository = ''https://example.org/g503'',
     iv_Revision = replicate 40 (CHR ''a''), iv_RemoteBase = ''/opt/g503'', iv_Hosts = map sampleHost ''12345''\<rparr>"

definition sampleSave :: saveIO where
  "sampleSave = \<lparr>sv_create = None, sv_write = None, sv_sync = None, sv_close = None, sv_rename = None, sv_openDir = None, sv_syncDir = None\<rparr>"

text \<open>Every host answers each script with \<open>answer\<close>; nothing fails on the controller's side.\<close>

definition sampleLab :: "(labHost \<Rightarrow> aerror + bytes) \<Rightarrow> labIO" where
  "sampleLab answer = \<lparr>lb_run = (\<lambda>log h script. answer h), lb_pause = (\<lambda>log d. None), lb_rounds = (\<lambda>log. 1),
     lb_save = (\<lambda>log name. sampleSave), lb_trim = (\<lambda>s. s), lb_nodeState = (\<lambda>bz. Some \<lparr>ns_Height = ''5'', ns_Sends = 0\<rparr>),
     lb_decode = (\<lambda>bz. None), lb_marshal = (\<lambda>v. []), lb_txHash = (\<lambda>bz. None)\<rparr>"

definition sampleCodec :: labCodec where
  "sampleCodec = \<lparr>lc_null = ''null'', lc_bootstrap = (\<lambda>b. []), lc_unbootstrap = (\<lambda>bz. Some \<lparr>bs_Genesis = [], bs_NodeIDs = []\<rparr>),
     lc_text = (\<lambda>s. s), lc_untext = (\<lambda>bz. Some bz), lc_states = (\<lambda>ss. []), lc_unstates = (\<lambda>bz. Some [])\<rparr>"

definition sampleExecute :: "(labHost \<Rightarrow> aerror + bytes) \<Rightarrow> executeIO" where
  "sampleExecute answer = \<lparr>ex_lab = sampleLab answer, ex_steps = (\<lambda>log. sampleStep), ex_codec = sampleCodec, ex_sha256 = (\<lambda>bz. ''s''),
     ex_parse = (\<lambda>s. Some \<lparr>ur_Scheme = ''https'', ur_Host = ''example.org'', ur_HasUser = False, ur_RawQuery = [], ur_Fragment = []\<rparr>),
     ex_ip4 = (\<lambda>s. True), ex_identity = (\<lambda>i. []), ex_summary = (\<lambda>m. lm_Status m), ex_mkdir = None, ex_lstat = True,
     ex_file = Present True, ex_lock = None, ex_nonce = None, ex_finish = None\<rparr>"

definition sampleOptions :: runOptions where
  "sampleOptions = \<lparr>ro_Inventory = sampleInventory, ro_Transport = SSHTransport, ro_Resume = True, ro_CleanupOnly = False\<rparr>"

definition emptyLab :: labWorld where
  "emptyLab = \<lparr>ls_log = [], ls_files = Map.empty\<rparr>"

definition doneRecord :: stepRecord where
  "doneRecord = \<lparr>sr_Status = ''done'', sr_Result = Some ''null'', sr_Error = []\<rparr>"

text \<open>The journal of an experiment that was interrupted after its last step.\<close>

definition sampleBucket :: "string \<rightharpoonup> controllerRow" where
  "sampleBucket k = (if k = ''identity'' then Some (PlainRow (hexEncode ''s'')) else if k = ''owner'' then Some (PlainRow (replicate 64 (CHR ''0'')))
     else if hasPrefix k ''data/step/'' then Some (StepRow doneRecord) else None)"

definition sampleJournal :: controllerJournal where
  "sampleJournal = \<lparr>cj_bucket = sampleBucket, cj_Owner = replicate 64 (CHR ''0''), cj_runs = []\<rparr>"

definition agreeing :: "labHost \<Rightarrow> aerror + bytes" where
  "agreeing h = Inr ''ok''"

lemma sampleJournal_done: "getStep (stepKey n) sampleJournal = Inr (Some doneRecord)"
  using hasPrefix_append [of "''data/step/''" n] by (simp add: getStep_def sampleJournal_def sampleBucket_def dataKey_def stepKey_def)

lemma labStep_done:
  assumes "rs_journal s = sampleJournal" "sp_ctxErr (steps (ls_log (rs_world s))) = None"
  shows "labStep steps n marshal result run s = (result (Some ''null''), s\<lparr>rs_phases := rs_phases s @ [n]\<rparr>)"
  using assms sampleJournal_done [of n] by (simp add: labStep_def controllerStep_def savedStep_def doneRecord_def)

lemma cleanup_clean:
  assumes "\<And>log h script. lb_run io log h script = Inr bz" "\<And>log name. lb_save io log name = sampleSave"
  shows "\<exists>w'. cleanup io r w = (None, w')"
proof -
  have "is_ok (fst (cleanupHost io r h w))" for h w
    by (simp add: cleanupHost_def andThen_def worker_def transportRun_def atomicResult_def assms sampleSave_def joinErrors_def opt_list_def Let_def)
  then have "fst (cleanupLoop io r hs w) = []" for hs
  proof (induction hs arbitrary: w)
    case (Cons h hs)
    from Cons.prems have "is_ok (fst (cleanupHost io r h w))" .
    with Cons.IH [OF Cons.prems] show ?case by (auto simp: Let_def is_ok_iff split: prod.splits) (metis fst_conv)
  qed simp
  then show ?thesis by (auto simp: cleanup_def joinErrors_def Let_def split: prod.splits) (metis fst_conv)
qed

theorem experiment_passed_witness:
  "\<exists>summary j w'. Execute (sampleExecute agreeing) sampleOptions sampleBucket emptyLab = (summary, None, Some j, w')
    \<and> finished (cj_bucket j) ''common-block-convergence'' \<and> lm_Phases summary = stepNames
    \<and> ls_files w' ''h3-logs.tar.gz'' \<noteq> None"
proof -
  let ?E = "sampleExecute agreeing"
  have ck: "executeChecks ?E sampleOptions = None" by code_simp
  have op: "controllerOpen (ex_file ?E) (hexEncode (ex_sha256 ?E (ex_identity ?E (ro_Inventory sampleOptions)))) (ro_Resume sampleOptions)
      (ex_lock ?E) (ex_nonce ?E) sampleBucket = Inr sampleJournal"
    by (simp add: controllerOpen_def openChecks_def openTx_def sampleExecute_def sampleOptions_def sampleBucket_def rowString_def
        sampleJournal_def hasPrefix_def)
  define r where "r = \<lparr>rn_Inventory = ro_Inventory sampleOptions, rn_owner = cj_Owner sampleJournal\<rparr>"
  obtain s where wf: "labWorkflow (ex_lab ?E) (\<lambda>log. (ex_steps ?E log)\<lparr>sp_sha256 := ex_sha256 ?E\<rparr>) (ex_codec ?E) (ex_sha256 ?E) r
      \<lparr>rs_journal = sampleJournal, rs_phases = [], rs_world = emptyLab\<rparr> = (Inr (), s)" and j: "rs_journal s = sampleJournal"
    by (simp add: labWorkflow_def quietStep_def andPhase_def labStep_done Let_def decodeResult_def sampleExecute_def sampleCodec_def sampleStep_def)
  obtain w1 where cl: "cleanup (ex_lab ?E) r (rs_world s) = (None, w1)"
    using cleanup_clean [of "ex_lab ?E" "''ok''"] by (auto simp: sampleExecute_def sampleLab_def agreeing_def)
  have f: "ex_finish ?E = None" "\<And>log name. lb_save (ex_lab ?E) log name = sampleSave" "\<not> ro_CleanupOnly sampleOptions"
    by (simp_all add: sampleExecute_def sampleLab_def sampleOptions_def)
  have "fst (snd (Execute ?E sampleOptions sampleBucket emptyLab)) = None"
    by (simp add: Execute_def ck op executeOpened_def Let_def wf [unfolded r_def] cl [unfolded r_def] controllerFinish_def saveSummary_def
        atomicResult_def joinErrors_def opt_list_def f sampleSave_def)
  then obtain summary jo w' where x: "Execute ?E sampleOptions sampleBucket emptyLab = (summary, None, jo, w')"
    by (metis prod.collapse)
  have "sampleHost CHR ''3'' \<in> set (iv_Hosts (ro_Inventory sampleOptions))" "lh_ID (sampleHost CHR ''3'') @ ''-logs.tar.gz'' = ''h3-logs.tar.gz''"
    "''common-block-convergence'' \<in> set stepNames" "\<not> ro_CleanupOnly sampleOptions"
    by (simp_all add: sampleOptions_def sampleInventory_def sampleHost_def stepNames_def)
  with experiment_passed [OF x] x show ?thesis by force
qed

definition freshExecute :: executeIO where
  "freshExecute = (sampleExecute (\<lambda>h. Inl (AErr ''ssh'')))\<lparr>ex_file := Missing, ex_nonce := Some (replicate 32 (CHR 0x00))\<rparr>"

definition twoTries :: "(executeIO \<times> runOptions) list" where
  "twoTries = [(freshExecute, sampleOptions\<lparr>ro_Resume := False\<rparr>), (sampleExecute (\<lambda>h. Inl (AErr ''ssh'')), sampleOptions)]"

text \<open>Two processes that cannot reach the first host: the first step is started twice, under one operation id.\<close>

theorem experiment_in_order_witness:
  "\<exists>b w runs. experimentLife twoTries (Map.empty, emptyLab, []) = (b, w, runs)
    \<and> runs = replicate 2 (''preflight-five-distinct-machines'', operationID (\<lambda>bz. ''s'') (rowString (b ''owner'')) ''preflight-five-distinct-machines'')"
proof -
  have n: "map fst (snd (snd (experimentLife twoTries (Map.empty, emptyLab, []))))
    = replicate 2 ''preflight-five-distinct-machines''" by code_simp
  obtain b w runs where l: "experimentLife twoTries (Map.empty, emptyLab, []) = (b, w, runs)" by (rule prod_cases3)
  have sha: "\<forall>x \<in> set twoTries. ex_sha256 (fst x) = (\<lambda>bz. ''s'')" "\<forall>x \<in> set ([] :: (executeIO \<times> runOptions) list). ex_sha256 (fst x) = (\<lambda>bz. ''s'')"
    by (simp_all add: twoTries_def freshExecute_def sampleExecute_def)
  have "\<forall>(n, op) \<in> set runs. op = operationID (\<lambda>bz. ''s'') (rowString (b ''owner'')) n"
    using experiment_in_order [OF l sha(1) experimentLife.simps(1) sha(2)] by blast
  moreover have "map fst runs = replicate 2 ''preflight-five-distinct-machines''" using n l by simp
  ultimately have "runs = replicate 2 (''preflight-five-distinct-machines'', operationID (\<lambda>bz. ''s'') (rowString (b ''owner'')) ''preflight-five-distinct-machines'')"
    by (auto simp: numeral_2_eq_2 map_eq_Cons_conv)
  with l show ?thesis by blast
qed

end
