(* ===== verification/Clients.thy ===== *)
theory Clients
  imports AgentApi TxManager
begin

text \<open>
  The agent's clients of its three services and its configuration:
  dev/agent/internal/riskclient/client.go, internal/agentapi/client.go, internal/llmclient/client.go
  and internal/agentconfig/config.go. HTTP, JSON, the file system and the environment are outside:
  the record \<open>web\<close> holds their answers and encodings. Every check on an answer is here.
\<close>

section \<open>Requests and answers\<close>

record TxScreenRequest =
  ts_TxHash :: string
  ts_Sender :: string
  ts_Recipient :: string
  ts_Amount :: string
  ts_Denom :: string

record RiskResponse =
  rs_Source :: string
  rs_ResponseID :: string
  rs_Address :: string
  rs_TxHash :: string
  rs_RiskScore :: u32
  rs_RiskCategories :: "string list"
  rs_ExposureType :: string
  rs_UpdatedAt :: string

record llmRiskInput =
  lr_Source :: string
  lr_Score :: u32
  lr_Categories :: "string list"
  lr_ExposureType :: string

record ExplainRequest =
  xq_Task :: string
  xq_PolicyVersion :: string
  xq_Tx :: "(string \<times> string) list"
  xq_Risk :: llmRiskInput

record ExplainResponse =
  xp_RecommendedAction :: string
  xp_Rationale :: string
  xp_Caveats :: string
  xp_RequiredEvidence :: "string list"

record webRequest =
  wr_Method :: string
  wr_URL :: string
  wr_Headers :: "(string \<times> string) list"
  wr_Body :: bytes

record webAnswer =
  wa_StatusCode :: int
  wa_Status :: string
  wa_Body :: bytes

text \<open>
  \<open>http.NewRequestWithContext\<close>, the transport, and the JSON encodings. A decoder gives \<open>None\<close> where
  \<open>encoding/json\<close> reports an error; the reviewer's decision comes with its own JSON, which the client
  marshals again from the decoded struct.
\<close>

record web =
  wb_newRequest :: "webRequest \<Rightarrow> bool"
  wb_Do :: "webRequest \<Rightarrow> aerror + webAnswer"
  wb_screenJSON :: "TxScreenRequest \<Rightarrow> bytes"
  wb_evaluateJSON :: "evaluateRequest \<Rightarrow> bytes"
  wb_explainJSON :: "ExplainRequest \<Rightarrow> bytes"
  wb_explainIndentJSON :: "ExplainRequest \<Rightarrow> string"
  wb_ollamaJSON :: "string \<Rightarrow> string \<Rightarrow> bytes"
  wb_riskOf :: "bytes \<Rightarrow> RiskResponse option"
  wb_decisionOf :: "bytes \<Rightarrow> (evaluateResponse \<times> bytes) option"
  wb_explanationOf :: "bytes \<Rightarrow> ExplainResponse option"
  wb_ollamaOf :: "bytes \<Rightarrow> string option"

text \<open>\<open>strings.TrimRight(endpoint, "/")\<close>.\<close>

definition trimSlashes :: "string \<Rightarrow> string" where
  "trimSlashes s = rev (dropWhile (\<lambda>c. c = CHR ''/'') (rev s))"

text \<open>One call: build the request, send it, refuse any status but 2xx.\<close>

definition exchange :: "web \<Rightarrow> string \<Rightarrow> webRequest \<Rightarrow> aerror + bytes" where
  "exchange W service req = (if \<not> wb_newRequest W req then Inl (AExternal ''http: invalid request'') else
     bind_r (wb_Do W req) (\<lambda>resp.
       if wa_StatusCode resp < 200 \<or> wa_StatusCode resp \<ge> 300
       then Inl (AErr (service @ '' returned '' @ wa_Status resp)) else Inr (wa_Body resp)))"

definition decoded :: "'a option \<Rightarrow> aerror + 'a" where
  "decoded x = (case x of None \<Rightarrow> Inl (AExternal ''json'') | Some v \<Rightarrow> Inr v)"

section \<open>The risk provider (riskclient)\<close>

record riskClient =
  rk_Endpoint :: string
  rk_Provider :: string
  rk_APIKey :: string

definition NewWithProvider :: "string \<Rightarrow> string \<Rightarrow> string \<Rightarrow> riskClient" where
  "NewWithProvider endpoint provider apiKey =
     \<lparr>rk_Endpoint = trimSlashes endpoint, rk_Provider = provider, rk_APIKey = apiKey\<rparr>"

definition riskDo :: "web \<Rightarrow> webRequest \<Rightarrow> aerror + RiskResponse" where
  "riskDo W req = bind_r (exchange W ''risk service'' req) (\<lambda>body. decoded (wb_riskOf W body))"

definition AddressRisk :: "web \<Rightarrow> riskClient \<Rightarrow> string \<Rightarrow> aerror + RiskResponse" where
  "AddressRisk W c address = (if address = [] then Inl (AErr ''address is required'') else
     riskDo W \<lparr>wr_Method = ''GET'', wr_URL = rk_Endpoint c @ ''/v1/address/'' @ address @ ''/risk'', wr_Headers = [], wr_Body = []\<rparr>)"

definition screenChainalysis :: "web \<Rightarrow> riskClient \<Rightarrow> TxScreenRequest \<Rightarrow> aerror + RiskResponse" where
  "screenChainalysis W c screen =
     (if ts_Recipient screen = [] then Inl (AErr ''recipient is required'')
      else if rk_APIKey c = [] then Inl (AErr ''chainalysis API key is required'')
      else bind_r (riskDo W \<lparr>wr_Method = ''GET'', wr_URL = rk_Endpoint c @ ''/v1/address/'' @ ts_Recipient screen @ ''/risk'',
             wr_Headers = [(''Authorization'', ''Bearer '' @ rk_APIKey c)], wr_Body = []\<rparr>) (\<lambda>response.
        Inr (response\<lparr>rs_Source := ''chainalysis'', rs_Address := ts_Recipient screen, rs_TxHash := ts_TxHash screen\<rparr>)))"

definition ScreenTx :: "web \<Rightarrow> riskClient \<Rightarrow> TxScreenRequest \<Rightarrow> aerror + RiskResponse" where
  "ScreenTx W c screen =
     (if rk_Provider c = ''chainalysis'' then screenChainalysis W c screen
      else riskDo W \<lparr>wr_Method = ''POST'', wr_URL = rk_Endpoint c @ ''/v1/tx/screen'',
        wr_Headers = [(''Content-Type'', ''application/json'')], wr_Body = wb_screenJSON W screen\<rparr>)"

section \<open>The reviewer (agentapi)\<close>

record TLSConfig =
  tl_CertFile :: string
  tl_KeyFile :: string
  tl_CAFile :: string

text \<open>What the file system and crypto/tls say to the three files.\<close>

record tlsFiles =
  tf_LoadX509KeyPair :: "string \<Rightarrow> string \<Rightarrow> aerror option"
  tf_ReadFile :: "string \<Rightarrow> aerror + bytes"
  tf_AppendCertsFromPEM :: "bytes \<Rightarrow> bool"

record agentClient =
  ac_Endpoint :: string
  ac_Token :: string
  ac_Role :: string

definition loadTLSConfig :: "tlsFiles \<Rightarrow> TLSConfig \<Rightarrow> aerror option" where
  "loadTLSConfig F paths =
     (if tl_CertFile paths = [] \<or> tl_KeyFile paths = [] \<or> tl_CAFile paths = []
      then Some (AErr ''mtls cert, key, and ca files must all be provided'')
      else case tf_LoadX509KeyPair F (tl_CertFile paths) (tl_KeyFile paths) of Some e \<Rightarrow> Some e | None \<Rightarrow>
      (case tf_ReadFile F (tl_CAFile paths) of Inl e \<Rightarrow> Some e | Inr caPEM \<Rightarrow>
       if \<not> tf_AppendCertsFromPEM F caPEM then Some (AErr (''failed to parse ca file '' @ tl_CAFile paths)) else None))"

definition agentNew :: "tlsFiles \<Rightarrow> string \<Rightarrow> string \<Rightarrow> string \<Rightarrow> TLSConfig \<Rightarrow> aerror + agentClient" where
  "agentNew F endpoint token role tls = (let c = \<lparr>ac_Endpoint = trimSlashes endpoint, ac_Token = token, ac_Role = role\<rparr> in
     if tl_CertFile tls \<noteq> [] \<or> tl_KeyFile tls \<noteq> [] \<or> tl_CAFile tls \<noteq> []
     then (case loadTLSConfig F tls of Some e \<Rightarrow> Inl e | None \<Rightarrow> Inr c) else Inr c)"

definition Evaluate :: "web \<Rightarrow> agentClient \<Rightarrow> evaluateRequest \<Rightarrow> aerror + evaluateResponse \<times> bytes" where
  "Evaluate W c request = bind_r (exchange W ''agent API'' \<lparr>wr_Method = ''POST'', wr_URL = ac_Endpoint c @ ''/v1/agents/evaluate'',
       wr_Headers = (''Content-Type'', ''application/json'')
         # (if ac_Token c \<noteq> [] then [(''Authorization'', ''Bearer '' @ ac_Token c)] else [])
         @ (if ac_Role c \<noteq> [] then [(''X-Agent-Role'', ac_Role c)] else []), wr_Body = wb_evaluateJSON W request\<rparr>)
     (\<lambda>body. decoded (wb_decisionOf W body))"

section \<open>The explanation service (llmclient)\<close>

record llmClient =
  lc_Endpoint :: string
  lc_Provider :: string
  lc_Model :: string

definition llmNew :: "string \<Rightarrow> string \<Rightarrow> string \<Rightarrow> llmClient" where
  "llmNew endpoint provider model = \<lparr>lc_Endpoint = trimSlashes endpoint, lc_Provider = provider, lc_Model = model\<rparr>"

definition explainMock :: "web \<Rightarrow> llmClient \<Rightarrow> ExplainRequest \<Rightarrow> aerror + ExplainResponse" where
  "explainMock W c request = bind_r (exchange W ''llm service'' \<lparr>wr_Method = ''POST'', wr_URL = lc_Endpoint c @ ''/v1/explain'',
       wr_Headers = [(''Content-Type'', ''application/json'')], wr_Body = wb_explainJSON W request\<rparr>)
     (\<lambda>body. decoded (wb_explanationOf W body))"

definition ollamaPrompt :: "web \<Rightarrow> ExplainRequest \<Rightarrow> string" where
  "ollamaPrompt W request = ''Return JSON with recommended_action, rationale, caveats, and required_evidence for this risk review.''
     @ [CHR 0x0A] @ wb_explainIndentJSON W request"

definition explainOllama :: "web \<Rightarrow> llmClient \<Rightarrow> ExplainRequest \<Rightarrow> aerror + ExplainResponse" where
  "explainOllama W c request = bind_r (exchange W ''ollama'' \<lparr>wr_Method = ''POST'', wr_URL = lc_Endpoint c @ ''/api/generate'',
       wr_Headers = [(''Content-Type'', ''application/json'')], wr_Body = wb_ollamaJSON W (lc_Model c) (ollamaPrompt W request)\<rparr>)
     (\<lambda>body. bind_r (decoded (wb_ollamaOf W body)) (\<lambda>text. decoded (wb_explanationOf W text)))"

definition Explain :: "web \<Rightarrow> llmClient \<Rightarrow> ExplainRequest \<Rightarrow> aerror + ExplainResponse" where
  "Explain W c request =
     (if lc_Provider c = [] \<or> lc_Provider c = ''mock'' then explainMock W c request
      else if lc_Provider c = ''ollama'' then explainOllama W c request
      else Inl (AErr (''unsupported llm provider: '' @ lc_Provider c)))"

section \<open>Configuration (agentconfig)\<close>

record AgentAPIConfig =
  aa_URL :: string
  aa_TokenEnv :: string
  aa_Role :: string
  aa_MTLSCertFile :: string
  aa_MTLSKeyFile :: string
  aa_MTLSCAFile :: string

record BroadcastConfig =
  bc_AccountNumber :: u64
  bc_Sequence :: u64
  bc_Gas :: u64
  bc_Fee :: string

record Config =
  cf_ChainID :: string
  cf_RiskURL :: string
  cf_RiskProvider :: string
  cf_RiskAPIKeyEnv :: string
  cf_LLMURL :: string
  cf_LLMProvider :: string
  cf_LLMModel :: string
  cf_AgentID :: string
  cf_PrivateKeyHex :: string
  cf_KeyFile :: string
  cf_AgentAPI :: AgentAPIConfig
  cf_Broadcast :: BroadcastConfig

definition zeroConfig :: Config where
  "zeroConfig = \<lparr>cf_ChainID = [], cf_RiskURL = [], cf_RiskProvider = [], cf_RiskAPIKeyEnv = [], cf_LLMURL = [],
     cf_LLMProvider = [], cf_LLMModel = [], cf_AgentID = [], cf_PrivateKeyHex = [], cf_KeyFile = [],
     cf_AgentAPI = \<lparr>aa_URL = [], aa_TokenEnv = [], aa_Role = [], aa_MTLSCertFile = [], aa_MTLSKeyFile = [], aa_MTLSCAFile = []\<rparr>,
     cf_Broadcast = \<lparr>bc_AccountNumber = 0, bc_Sequence = 0, bc_Gas = 0, bc_Fee = []\<rparr>\<rparr>"

definition defaultString :: "string \<Rightarrow> string \<Rightarrow> string" where
  "defaultString value fallback = (if value = [] then fallback else value)"

text \<open>\<open>file\<close> is the file's content or the error of reading it, \<open>json\<close> the decoder.\<close>

definition Load :: "string \<Rightarrow> aerror + bytes \<Rightarrow> (bytes \<Rightarrow> Config option) \<Rightarrow> aerror + Config" where
  "Load path file json = (if path = [] then Inr zeroConfig else
     bind_r file (\<lambda>bz. bind_r (decoded (json bz)) (\<lambda>cfg.
       Inr (if cf_RiskAPIKeyEnv cfg \<noteq> [] \<and> cf_RiskAPIKeyEnv cfg \<noteq> ''-''
            then cfg\<lparr>cf_RiskProvider := defaultString (cf_RiskProvider cfg) ''chainalysis''\<rparr> else cfg))))"

text \<open>\<open>stat\<close>: an error, or whether the file is regular and its permission bits.\<close>

definition ReadKeyFile :: "goText \<Rightarrow> string \<Rightarrow> aerror + bool \<times> u32 \<Rightarrow> aerror + bytes \<Rightarrow> aerror + string" where
  "ReadKeyFile T path stat content = (case stat of Inl e \<Rightarrow> Inl e | Inr (regular, perm) \<Rightarrow>
     if \<not> regular \<or> and perm 63 \<noteq> 0
     then Inl (AErr (''key file must be a regular file accessible only by its owner: '' @ path))
     else bind_r content (\<lambda>key. Inr (TrimSpace T key)))"

definition RiskAPIKey :: "(string \<Rightarrow> string) \<Rightarrow> Config \<Rightarrow> string" where
  "RiskAPIKey getenv c = (if cf_RiskAPIKeyEnv c = [] then [] else getenv (cf_RiskAPIKeyEnv c))"

definition AgentAPIToken :: "(string \<Rightarrow> string) \<Rightarrow> Config \<Rightarrow> string" where
  "AgentAPIToken getenv c = (if aa_TokenEnv (cf_AgentAPI c) = [] then [] else getenv (aa_TokenEnv (cf_AgentAPI c)))"

definition ValidateForAgentAPI :: "(string \<Rightarrow> string) \<Rightarrow> Config \<Rightarrow> aerror option" where
  "ValidateForAgentAPI getenv c =
     (if aa_URL (cf_AgentAPI c) = [] then None
      else if cf_AgentID c = [] then Some (AErr ''agent_id is required when agent_api.url is set'')
      else if aa_TokenEnv (cf_AgentAPI c) = [] then Some (AErr ''agent_api.token_env is required when agent_api.url is set'')
      else if getenv (aa_TokenEnv (cf_AgentAPI c)) = []
      then Some (AErr (''environment variable '' @ aa_TokenEnv (cf_AgentAPI c) @ '' is empty''))
      else None)"

end
