(* ===== verification/Signer.thy ===== *)
theory Signer
  imports Clients Signature
begin

text \<open>
  The agent's key: dev/agent/internal/signer/signer.go, and the transfers it decodes from a
  transaction, dev/agent/internal/watcher/decoder.go. The curve, the hash and the SDK's transaction
  decoder are parameters; the payloads are those the chain verifies (Signature).
\<close>

text \<open>
  secp256k1: whether 32 bytes overflow the group order or are zero (\<open>ModNScalar\<close>), the account
  address and the public key of a private key, and signing.
\<close>

record curve =
  cu_overflow :: "bytes \<Rightarrow> bool"
  cu_zero :: "bytes \<Rightarrow> bool"
  cu_address :: "bytes \<Rightarrow> string"
  cu_public :: "bytes \<Rightarrow> bytes"
  cu_sign :: "bytes \<Rightarrow> bytes \<Rightarrow> bytes option"

record Signer =
  sg_AgentID :: string
  sg_PrivKey :: bytes
  sg_Address :: string

definition ParsePrivateKey :: "goText \<Rightarrow> curve \<Rightarrow> string \<Rightarrow> aerror + bytes" where
  "ParsePrivateKey T C privateKeyHex = (case hexDecode (TrimSpace T privateKeyHex) of
     None \<Rightarrow> Inl (AErr ''invalid private key encoding'')
   | Some keyBytes \<Rightarrow>
       if length keyBytes \<noteq> 32 then Inl (AErr ''secp256k1 private key must be 32 bytes'')
       else if cu_overflow C keyBytes \<or> cu_zero C keyBytes then Inl (AErr ''invalid secp256k1 private key scalar'')
       else Inr keyBytes)"

definition signerNew :: "goText \<Rightarrow> curve \<Rightarrow> string \<Rightarrow> string \<Rightarrow> aerror + Signer" where
  "signerNew T C agentID privateKeyHex = bind_r (ParsePrivateKey T C privateKeyHex) (\<lambda>priv.
     Inr \<lparr>sg_AgentID = agentID, sg_PrivKey = priv, sg_Address = cu_address C priv\<rparr>)"

definition signerPublicKey :: "curve \<Rightarrow> Signer \<Rightarrow> bytes" where
  "signerPublicKey C s = cu_public C (sg_PrivKey s)"

definition EvidenceHash :: "'b env \<Rightarrow> bytes list \<Rightarrow> bytes" where
  "EvidenceHash E parts = sha256 E (concat parts)"

definition RationaleHash :: "'b env \<Rightarrow> string \<Rightarrow> string \<Rightarrow> bytes" where
  "RationaleHash E rationale' caveats = sha256 E (rationale' @ [CHR 0x0A] @ caveats)"

definition SignVote :: "curve \<Rightarrow> Signer \<Rightarrow> string \<Rightarrow> SanctionVote option \<Rightarrow> aerror + SanctionVote" where
  "SignVote C s chainID vote = (case vote of None \<Rightarrow> Inl (AErr ''vote is required'') | Some v0 \<Rightarrow>
     let v = v0\<lparr>sv_AgentId := sg_AgentID s\<rparr> in
     case cu_sign C (sg_PrivKey s) (VoteSignBytes chainID v) of
       None \<Rightarrow> Inl (AExternal ''sign'')
     | Some signature \<Rightarrow> Inr (v\<lparr>sv_Signature := signature\<rparr>))"

definition SignRiskReport :: "'b env \<Rightarrow> curve \<Rightarrow> Signer \<Rightarrow> string \<Rightarrow> RiskReport option \<Rightarrow> aerror + RiskReport" where
  "SignRiskReport E C s chainID report = (case report of None \<Rightarrow> Inl (AErr ''risk report is required'') | Some r0 \<Rightarrow>
     let r = r0\<lparr>rr_Submitter := sg_Address s\<rparr> in
     case cu_sign C (sg_PrivKey s) (RiskReportSignBytes E chainID r) of
       None \<Rightarrow> Inl (AExternal ''sign'')
     | Some signature \<Rightarrow> Inr (r\<lparr>rr_SubmitterSignature := signature\<rparr>))"

section \<open>Transfers (watcher/decoder.go)\<close>

text \<open>The messages of a decoded transaction that the agent looks at.\<close>

datatype txMsg = BankSend string string "(string \<times> int) list" | OpenCase MsgOpenSanctionCase | AnotherMsg

type_synonym txDecoder = "bytes \<Rightarrow> txMsg list option"

record PendingTx =
  pt_Bytes :: bytes
  pt_Hash :: string

definition sendTransfers :: "'b env \<Rightarrow> PendingTx \<Rightarrow> nat \<Rightarrow> txMsg \<Rightarrow> DecodedTransfer list" where
  "sendTransfers E tx index msg = (case msg of
     BankSend from to coins \<Rightarrow> map (\<lambda>(denom, amount). \<lparr>dt_MessageIndex = of_nat index, dt_TxHash = pt_Hash tx, dt_Sender = from,
       dt_Recipient = to, dt_Amount = intString E amount, dt_Denom = denom\<rparr>) coins
   | _ \<Rightarrow> [])"

fun transfersFrom :: "'b env \<Rightarrow> PendingTx \<Rightarrow> nat \<Rightarrow> txMsg list \<Rightarrow> DecodedTransfer list" where
  "transfersFrom E tx index [] = []"
| "transfersFrom E tx index (msg # msgs) = sendTransfers E tx index msg @ transfersFrom E tx (index + 1) msgs"

definition DecodeTransfers :: "'b env \<Rightarrow> txDecoder \<Rightarrow> PendingTx \<Rightarrow> aerror + DecodedTransfer list" where
  "DecodeTransfers E dec tx = (case dec (pt_Bytes tx) of
     None \<Rightarrow> Inl (AExternal ''tx decode'')
   | Some msgs \<Rightarrow> Inr (transfersFrom E tx 0 msgs))"

definition DecodeTransfer :: "'b env \<Rightarrow> txDecoder \<Rightarrow> PendingTx \<Rightarrow> aerror + DecodedTransfer option" where
  "DecodeTransfer E dec tx = bind_r (DecodeTransfers E dec tx) (\<lambda>ts.
     Inr (case ts of [] \<Rightarrow> None | t # _ \<Rightarrow> Some t))"

definition MustDecodeTransfer :: "'b env \<Rightarrow> txDecoder \<Rightarrow> PendingTx \<Rightarrow> aerror + DecodedTransfer" where
  "MustDecodeTransfer E dec tx = bind_r (DecodeTransfer E dec tx) (\<lambda>found. case found of
     None \<Rightarrow> Inl (AErr (''no bank MsgSend found in pending tx '' @ pt_Hash tx))
   | Some t \<Rightarrow> Inr t)"

text \<open>A decoded transfer names the message and coin it came from.\<close>

lemma transfersFrom_mem:
  "t \<in> set (transfersFrom E tx n msgs) \<Longrightarrow> \<exists>k from to coins denom amount. k < length msgs \<and> msgs ! k = BankSend from to coins
    \<and> (denom, amount) \<in> set coins \<and> t = \<lparr>dt_MessageIndex = of_nat (n + k), dt_TxHash = pt_Hash tx, dt_Sender = from,
        dt_Recipient = to, dt_Amount = intString E amount, dt_Denom = denom\<rparr>"
proof (induction msgs arbitrary: n)
  case (Cons msg msgs)
  then consider "t \<in> set (sendTransfers E tx n msg)" | "t \<in> set (transfersFrom E tx (n + 1) msgs)" by auto
  then show ?case
  proof cases
    case 1
    then show ?thesis by (intro exI [of _ 0]) (auto simp: sendTransfers_def split: txMsg.splits)
  next
    case 2
    from Cons.IH [OF this] obtain k "from" to coins denom amount where "k < length msgs" "msgs ! k = BankSend from to coins"
      "(denom, amount) \<in> set coins" "t = \<lparr>dt_MessageIndex = of_nat (n + 1 + k), dt_TxHash = pt_Hash tx, dt_Sender = from,
        dt_Recipient = to, dt_Amount = intString E amount, dt_Denom = denom\<rparr>" by blast
    then show ?thesis
      by (intro exI [of _ "Suc k"] exI [of _ "from"] exI [of _ to] exI [of _ coins] exI [of _ denom] exI [of _ amount]) simp
  qed
qed simp

section \<open>What the agent signs, the chain accepts\<close>

text \<open>
  The documented contract of the curve: a signature made with a key verifies under its public key,
  and neither is empty.
\<close>

definition signsFor :: "'b env \<Rightarrow> curve \<Rightarrow> bool" where
  "signsFor E C \<longleftrightarrow> (\<forall>key payload signature. cu_sign C key payload = Some signature \<longrightarrow>
     cu_public C key \<noteq> [] \<and> signature \<noteq> [] \<and> verifySignature E (cu_public C key) payload signature)"

lemma VoteSignBytes_signature [simp]: "VoteSignBytes chainID (v\<lparr>sv_Signature := x\<rparr>) = VoteSignBytes chainID v"
  by (simp add: VoteSignBytes_def)

lemma RiskReportSignBytes_signature [simp]:
  "RiskReportSignBytes E chainID (r\<lparr>rr_SubmitterSignature := x\<rparr>) = RiskReportSignBytes E chainID r"
  by (simp add: RiskReportSignBytes_def)

lemma SignVote_verifies:
  assumes "signsFor E C" "SignVote C s chainID (Some v) = Inr v'"
  shows "VerifySecp256k1 E (signerPublicKey C s) (sv_Signature v') (VoteSignBytes chainID v')
    \<and> v' = v\<lparr>sv_AgentId := sg_AgentID s, sv_Signature := sv_Signature v'\<rparr>"
  using assms by (auto simp: SignVote_def signsFor_def VerifySecp256k1_def signerPublicKey_def Let_def split: option.splits)

lemma SignRiskReport_verifies:
  assumes "signsFor E C" "SignRiskReport E C s chainID (Some r) = Inr r'"
  shows "VerifySecp256k1 E (signerPublicKey C s) (rr_SubmitterSignature r') (RiskReportSignBytes E chainID r')
    \<and> r' = r\<lparr>rr_Submitter := sg_Address s, rr_SubmitterSignature := rr_SubmitterSignature r'\<rparr>"
  using assms by (auto simp: SignRiskReport_def signsFor_def VerifySecp256k1_def signerPublicKey_def Let_def split: option.splits)

end
