(* ===== verification/RpcGuard.thy ===== *)
theory RpcGuard
  imports RpcPool
begin

text \<open>
  Guarded one-shot sending: dev/agent/internal/rpcguard/guard.go. A request with an id is signed
  once; its signed bytes are stored before they are sent, and every later call with the id sends
  those bytes again or nothing. The key, the codec, JSON, SHA-256 and the chain's answers are
  parameters. \<open>gs_sent\<close> is a ghost: the broadcasts, each with its record's key if it has one.
\<close>

record guardAttempt =
  ga_Intent :: string
  ga_Tx :: bytes
  ga_Hash :: string
  ga_Sequence :: u64
  ga_AccountNumber :: "u64 option"

datatype guardRow = RequestRow guardAttempt | SavedCheckpoint Checkpoint | BadRow

record guardSession =
  gs_bucket :: "string \<rightharpoonup> guardRow"
  gs_sent :: "(string option \<times> bytes) list"

text \<open>
  The process's helpers: parsing the private key to its address, the unsigned encoding, the JSON of
  the operation's identity (its options, signer and messages), the signed encoding, the hash.
\<close>

record 'm guardEnv =
  ge_signer :: "string \<Rightarrow> string option"
  ge_unsigned :: "'m list \<Rightarrow> bytes option"
  ge_identity :: "SignOptions \<Rightarrow> string \<Rightarrow> bytes \<Rightarrow> bytes"
  ge_signed :: "SignOptions \<Rightarrow> 'm list \<Rightarrow> bytes option"
  ge_sha256 :: "bytes \<Rightarrow> bytes"

record guardIO =
  gi_status :: "aerror + Status"
  gi_lookup :: "string \<Rightarrow> aerror + TxResult"
  gi_account :: "string \<Rightarrow> u64 \<Rightarrow> aerror + Account"
  gi_putErr :: "aerror option"
  gi_broadcast :: "bytes \<Rightarrow> BroadcastResult \<times> aerror option"

definition requestKey :: "'m guardEnv \<Rightarrow> string \<Rightarrow> string" where
  "requestKey G id' = ''request/'' @ hexEncode (ge_sha256 G id')"

definition guardOpen :: "(string \<rightharpoonup> guardRow) \<Rightarrow> RPCSafety \<Rightarrow> string \<Rightarrow> aerror + RPCSafety" where
  "guardOpen b policy chainID = (let p = policy\<lparr>rs_ChainID := chainID\<rparr> in
     case b ''checkpoint'' of
       None \<Rightarrow> Inr p
     | Some (SavedCheckpoint cp) \<Rightarrow> Inr (p\<lparr>rs_Checkpoint := cp\<rparr>)
     | Some _ \<Rightarrow> Inl (AExternal ''json''))"

definition guardPut :: "string \<Rightarrow> guardRow \<Rightarrow> aerror option \<Rightarrow> guardSession \<Rightarrow> aerror option \<times> guardSession" where
  "guardPut key row putErr s = (case putErr of Some e \<Rightarrow> (Some e, s)
     | None \<Rightarrow> (None, s\<lparr>gs_bucket := (gs_bucket s)(key \<mapsto> row)\<rparr>))"

definition getRequest :: "string \<Rightarrow> guardSession \<Rightarrow> aerror + guardAttempt option" where
  "getRequest key s = (case gs_bucket s key of
     None \<Rightarrow> Inr None
   | Some (RequestRow a) \<Rightarrow> Inr (Some a)
   | Some _ \<Rightarrow> Inl (AExternal ''json''))"

text \<open>The receipt's hash, account number and sequence.\<close>

definition Receipt :: "'m guardEnv \<Rightarrow> string \<Rightarrow> guardSession \<Rightarrow> aerror + string \<times> u64 option \<times> u64" where
  "Receipt G id' s = bind_r (getRequest (requestKey G id') s) (\<lambda>found. case found of
     None \<Rightarrow> Inl (AErr ''request receipt not found'')
   | Some a \<Rightarrow> Inr (ga_Hash a, ga_AccountNumber a, ga_Sequence a))"

definition broadcast :: "guardIO \<Rightarrow> string option \<Rightarrow> bytes \<Rightarrow> guardSession
    \<Rightarrow> (BroadcastResult \<times> aerror option) \<times> guardSession" where
  "broadcast io key tx s = (gi_broadcast io tx, s\<lparr>gs_sent := gs_sent s @ [(key, tx)]\<rparr>)"

definition refuse :: "aerror \<Rightarrow> guardSession \<Rightarrow> (BroadcastResult \<times> aerror option) \<times> guardSession" where
  "refuse e s = ((zeroBroadcast, Some e), s)"

text \<open>The branch for a request already on record: reconcile, and send the same bytes again.\<close>

definition resend :: "'m guardEnv \<Rightarrow> guardIO \<Rightarrow> string \<Rightarrow> string \<Rightarrow> string \<Rightarrow> Status \<Rightarrow> guardAttempt \<Rightarrow> guardSession
    \<Rightarrow> (BroadcastResult \<times> aerror option) \<times> guardSession" where
  "resend G io key signer intentHash status saved s =
     (if ga_Intent saved \<noteq> intentHash then refuse (AErr ''request ID is already bound to a different operation'') s
      else if \<not> equalFold (ga_Hash saved) (hexEncode (ge_sha256 G (ga_Tx saved)))
      then refuse (AErr ''corrupt saved signed transaction'') s
      else case gi_lookup io (ga_Hash saved) of Inl e \<Rightarrow> refuse e s | Inr result \<Rightarrow>
      if tr_Found result then
        (if tr_Code result \<noteq> 0
         then refuse (AErr (''saved request finalized with code '' @ dec_digits (unat (tr_Code result)))) s
         else ((zeroBroadcast\<lparr>br_Hash := ga_Hash saved, br_Log := ''reconciled committed request''\<rparr>, None), s))
      else case gi_account io signer (ss_Height status) of Inl e \<Rightarrow> refuse e s | Inr account \<Rightarrow>
      if ac_Sequence account \<noteq> ga_Sequence saved
      then refuse (AErr ''saved request outcome unresolved: account sequence changed; refusing replacement'') s
      else broadcast io (Some key) (ga_Tx saved) s)"

text \<open>The branch for a new request: sign, store, then send.\<close>

definition sendNew :: "'m guardEnv \<Rightarrow> guardIO \<Rightarrow> string \<Rightarrow> string \<Rightarrow> SignOptions \<Rightarrow> 'm list \<Rightarrow> guardSession
    \<Rightarrow> (BroadcastResult \<times> aerror option) \<times> guardSession" where
  "sendNew G io key intentHash options msgs s = (case ge_signed G options msgs of
     None \<Rightarrow> refuse (AExternal ''sign'') s
   | Some tx \<Rightarrow> (case guardPut key (RequestRow \<lparr>ga_Intent = intentHash, ga_Tx = tx,
         ga_Hash = toUpper (hexEncode (ge_sha256 G tx)), ga_Sequence = so_Sequence options,
         ga_AccountNumber = Some (so_AccountNumber options)\<rparr>) (gi_putErr io) s of
       (Some e, s') \<Rightarrow> refuse e s'
     | (None, s') \<Rightarrow> broadcast io (Some key) tx s'))"

definition Send :: "'m guardEnv \<Rightarrow> guardIO \<Rightarrow> string \<Rightarrow> SignOptions \<Rightarrow> 'm list \<Rightarrow> guardSession
    \<Rightarrow> (BroadcastResult \<times> aerror option) \<times> guardSession" where
  "Send G io id' options msgs s =
     (if id' = [] then (case ge_signed G options msgs of None \<Rightarrow> refuse (AExternal ''sign'') s | Some tx \<Rightarrow> broadcast io None tx s)
      else if length id' > 200 then refuse (AErr ''request ID exceeds 200 bytes'') s
      else let identity = options\<lparr>so_PrivateKeyHex := [], so_AccountNumber := 0, so_Sequence := 0\<rparr>; key = requestKey G id' in
      case ge_signer G (so_PrivateKeyHex options) of None \<Rightarrow> refuse (AExternal ''key'') s | Some signer \<Rightarrow>
      case ge_unsigned G msgs of None \<Rightarrow> refuse (AExternal ''encode'') s | Some utx \<Rightarrow>
      let intentHash = hexEncode (ge_sha256 G (ge_identity G identity signer utx)) in
      case getRequest key s of Inl e \<Rightarrow> refuse e s | Inr found \<Rightarrow>
      if (case found of None \<Rightarrow> False | Some a \<Rightarrow> ga_Intent a = [] \<or> ga_Hash a = [] \<or> ga_Tx a = [])
      then refuse (AErr ''incomplete saved signed request; refusing replacement'') s
      else case gi_status io of Inl e \<Rightarrow> refuse e s | Inr status \<Rightarrow>
      (case found of
         Some saved \<Rightarrow> resend G io key signer intentHash status saved s
       | None \<Rightarrow> sendNew G io key intentHash options msgs s))"

section \<open>What a session keeps\<close>

text \<open>Every broadcast of a request is of the bytes on record for it.\<close>

definition recorded :: "guardSession \<Rightarrow> bool" where
  "recorded s \<longleftrightarrow> (\<forall>e \<in> set (gs_sent s). \<forall>k. fst e = Some k \<longrightarrow>
     (\<exists>a. gs_bucket s k = Some (RequestRow a) \<and> ga_Tx a = snd e))"

definition requestsKept :: "guardSession \<Rightarrow> guardSession \<Rightarrow> bool" where
  "requestsKept s s' \<longleftrightarrow> (\<forall>k a. gs_bucket s k = Some (RequestRow a) \<longrightarrow> gs_bucket s' k = Some (RequestRow a))"

lemma Send_cases:
  assumes "Send G io id' options msgs s = (r, s')"
  obtains (refused) "s' = s"
  | (plain) tx where "s' = s\<lparr>gs_sent := gs_sent s @ [(None, tx)]\<rparr>"
  | (again) k a where "gs_bucket s k = Some (RequestRow a)" "s' = s\<lparr>gs_sent := gs_sent s @ [(Some k, ga_Tx a)]\<rparr>"
  | (new) k a where "gs_bucket s k = None"
     "s' = s\<lparr>gs_bucket := (gs_bucket s)(k \<mapsto> RequestRow a), gs_sent := gs_sent s @ [(Some k, ga_Tx a)]\<rparr>"
proof -
  have resend_: "resend G io k signer ih status saved s = (r, s') \<Longrightarrow>
      s' = s \<or> s' = s\<lparr>gs_sent := gs_sent s @ [(Some k, ga_Tx saved)]\<rparr>" for k signer ih status saved
    by (auto simp: resend_def refuse_def broadcast_def split: if_splits sum.splits)
  have new_: "sendNew G io k ih options msgs s = (r, s') \<Longrightarrow>
      s' = s \<or> (\<exists>a. s' = s\<lparr>gs_bucket := (gs_bucket s)(k \<mapsto> RequestRow a), gs_sent := gs_sent s @ [(Some k, ga_Tx a)]\<rparr>)" for k ih
    by (auto simp: sendNew_def guardPut_def refuse_def broadcast_def split: option.splits
        intro!: exI [of _ "\<lparr>ga_Intent = ih, ga_Tx = the (ge_signed G options msgs),
          ga_Hash = toUpper (hexEncode (ge_sha256 G (the (ge_signed G options msgs)))), ga_Sequence = so_Sequence options,
          ga_AccountNumber = Some (so_AccountNumber options)\<rparr>"])
  have found: "getRequest k s = Inr (Some a) \<Longrightarrow> gs_bucket s k = Some (RequestRow a)"
      "getRequest k s = Inr None \<Longrightarrow> gs_bucket s k = None" for k a
    by (auto simp: getRequest_def split: option.splits guardRow.splits)
  show thesis
  proof (cases "id' = []")
    case True
    with assms have "s' = s \<or> (\<exists>tx. s' = s\<lparr>gs_sent := gs_sent s @ [(None, tx)]\<rparr>)"
      by (auto simp: Send_def refuse_def broadcast_def split: option.splits)
    then show ?thesis using refused plain by blast
  next
    case False
    define k where "k = requestKey G id'"
    have "s' = s \<or> (\<exists>signer ih status saved. getRequest k s = Inr (Some saved) \<and> resend G io k signer ih status saved s = (r, s'))
        \<or> (\<exists>ih. getRequest k s = Inr None \<and> sendNew G io k ih options msgs s = (r, s'))"
    proof (cases "length id' > 200 \<or> ge_signer G (so_PrivateKeyHex options) = None \<or> ge_unsigned G msgs = None")
      case True
      then show ?thesis using assms False by (auto simp: Send_def refuse_def Let_def split: if_splits option.splits)
    next
      case ok: False
      then obtain signer utx where u: "ge_signer G (so_PrivateKeyHex options) = Some signer" "ge_unsigned G msgs = Some utx" by auto
      show ?thesis
      proof (cases "getRequest k s")
        case (Inl e)
        then show ?thesis using assms False ok u by (simp add: Send_def refuse_def Let_def k_def)
      next
        case (Inr f)
        then show ?thesis using assms False ok u
          by (cases f; cases "gi_status io") (auto simp: Send_def refuse_def Let_def k_def split: if_splits)
      qed
    qed
    then show ?thesis
    proof (elim disjE exE conjE)
      assume "s' = s" then show ?thesis by (rule refused)
    next
      fix signer ih status saved
      assume "getRequest k s = Inr (Some saved)" "resend G io k signer ih status saved s = (r, s')"
      then show ?thesis using resend_ found(1) refused again by blast
    next
      fix ih
      assume "getRequest k s = Inr None" "sendNew G io k ih options msgs s = (r, s')"
      then show ?thesis using new_ found(2) refused new by blast
    qed
  qed
qed

lemma Send_keeps:
  assumes "Send G io id' options msgs s = (r, s')" "recorded s"
  shows "recorded s' \<and> requestsKept s s'"
  using assms(1)
proof (cases rule: Send_cases)
  case (new k a)
  then show ?thesis using assms(2) by (fastforce simp: recorded_def requestsKept_def)
qed (use assms(2) in \<open>auto simp: recorded_def requestsKept_def\<close>)

fun sendAll :: "'m guardEnv \<Rightarrow> (guardIO \<times> string \<times> SignOptions \<times> 'm list) list \<Rightarrow> guardSession \<Rightarrow> guardSession" where
  "sendAll G [] s = s"
| "sendAll G ((io, id', options, msgs) # rest) s = sendAll G rest (snd (Send G io id' options msgs s))"

lemma sendAll_recorded: "recorded s \<Longrightarrow> recorded (sendAll G reqs s)"
proof (induction G reqs s rule: sendAll.induct)
  case (2 G io id' options msgs rest s)
  then show ?case
    using Send_keeps [of G io id' options msgs s "fst (Send G io id' options msgs s)" "snd (Send G io id' options msgs s)"] by simp
qed simp

text \<open>
  One request, one transaction. In any sequence of sends from an empty record, whatever the ids,
  messages and chain answers, all broadcasts of one request carry the same signed bytes: a replacement
  is never signed.
\<close>

lemma one_request_one_tx:
  assumes "gs_sent s = []" "(Some k, tx1) \<in> set (gs_sent (sendAll G reqs s))" "(Some k, tx2) \<in> set (gs_sent (sendAll G reqs s))"
  shows "tx1 = tx2"
proof -
  have "recorded (sendAll G reqs s)" by (rule sendAll_recorded) (simp add: recorded_def assms(1))
  then have "\<exists>a. gs_bucket (sendAll G reqs s) k = Some (RequestRow a) \<and> ga_Tx a = tx"
    if "(Some k, tx) \<in> set (gs_sent (sendAll G reqs s))" for tx
    using that unfolding recorded_def by fastforce
  from this [OF assms(2)] this [OF assms(3)] show ?thesis by auto
qed

definition sampleGuard :: "bytes guardEnv" where
  "sampleGuard = \<lparr>ge_signer = (\<lambda>_. Some ''me''), ge_unsigned = (\<lambda>ms. Some (concat ms)), ge_identity = (\<lambda>_ _ bz. bz),
     ge_signed = (\<lambda>_ ms. Some (concat ms)), ge_sha256 = (\<lambda>bz. bz)\<rparr>"

definition sampleGuardIO :: guardIO where
  "sampleGuardIO = \<lparr>gi_status = Inr \<lparr>ss_ChainID = ''g503'', ss_Height = 5, ss_BlockHash = [], ss_BlockTime = 1, ss_CatchingUp = False,
     ss_syncKnown = True\<rparr>, gi_lookup = (\<lambda>_. Inr zeroTxResult), gi_account = (\<lambda>_ _. Inr \<lparr>ac_Number = 1, ac_Sequence = 0\<rparr>),
     gi_putErr = None, gi_broadcast = (\<lambda>_. (zeroBroadcast, Some (AExternal ''timeout'')))\<rparr>"

definition sampleSendOptions :: SignOptions where
  "sampleSendOptions = \<lparr>so_ChainID = ''g503'', so_PrivateKeyHex = ''1'', so_AccountNumber = 0, so_Sequence = 0, so_GasLimit = 0,
     so_FeeAmount = [], so_Memo = []\<rparr>"

end
