(* ===== verification/Evaluation.thy ===== *)
theory Evaluation
  imports Signer RpcGuard Chain
begin

text \<open>
  One evaluation of a transfer by a signing agent, and the one-shot and watch commands:
  dev/agent/cmd/sanction-agent/main.go. The agent screens the transfer, asks the reviewer and the
  explanation service, applies the policy, refuses answers that are inconsistent, and signs a risk
  report and a vote. The messages it sends are the chain's own requests (\<open>Chain.request\<close>). Flags,
  standard output and process exit are outside.
\<close>

section \<open>Options and results\<close>

record inputTx =
  in_MessageIndex :: u32
  in_TxHash :: string
  in_Sender :: string
  in_Recipient :: string
  in_Amount :: string
  in_Denom :: string
  in_Confirmed :: bool

record broadcastOutput =
  bo_Messages :: "string list"
  bo_Result :: BroadcastResult

record reviewOutput =
  ou_Risk :: RiskResponse
  ou_Explanation :: ExplainResponse
  ou_Decision :: "evaluateResponse option"
  ou_Action :: string
  ou_RiskReport :: "RiskReport option"
  ou_Vote :: "SanctionVote option"
  ou_AgentInfo :: "AgentInfo option"
  ou_Broadcast :: "broadcastOutput option"

text \<open>\<open>op_rpcSession\<close>: whether a guard session is already open.\<close>

record processOptions =
  op_requestID :: string
  op_rpcSession :: bool
  op_leaseTTL :: u64
  op_retryIntent :: string
  op_retryRequestID :: string
  op_retryReason :: string
  op_genesisBinding :: string
  op_thresholds :: "Thresholds option"
  op_riskURL :: string
  op_riskProvider :: string
  op_riskAPIKey :: string
  op_llmURL :: string
  op_llmProvider :: string
  op_llmModel :: string
  op_agentAPIURL :: string
  op_agentAPIToken :: string
  op_agentAPIRole :: string
  op_mtlsCertFile :: string
  op_mtlsKeyFile :: string
  op_mtlsCAFile :: string
  op_trustedAddrs :: "string list"
  op_blockedAddrs :: "string list"
  op_txConfirmed :: bool
  op_chainID :: string
  op_agentID :: string
  op_privKeyHex :: string
  op_caseID :: string
  op_height :: u64
  op_expiryHeight :: u64
  op_targetType :: string
  op_broadcast :: bool
  op_execute :: bool
  op_accountNumber :: u64
  op_sequence :: u64
  op_gasLimit :: u64
  op_fee :: string

text \<open>The functions outside the program that an evaluation calls.\<close>

record 'b agentEnv =
  ae_E :: "'b env"
  ae_T :: goText
  ae_C :: curve
  ae_tls :: tlsFiles
  ae_parseCoins :: "string \<Rightarrow> (string \<times> int) list option"
  ae_riskJSON :: "RiskResponse \<Rightarrow> bytes"
  ae_explanationJSON :: "ExplainResponse \<Rightarrow> bytes"
  ae_decoder :: txDecoder
  ae_guard :: "request guardEnv"

text \<open>What one command meets: the services, and \<open>rpcguard.Open\<close> for a namespace.\<close>

record commandIO =
  ci_web :: web
  ci_openGuard :: "string \<Rightarrow> aerror option"
  ci_guard :: guardIO

section \<open>Names\<close>

definition parseSanctionAction :: "string \<Rightarrow> aerror + SanctionAction" where
  "parseSanctionAction name =
     (if name = [] \<or> name = ''none'' \<or> name = ''unspecified'' then Inr SANCTION_ACTION_UNSPECIFIED
      else if name = ''watch'' then Inr SANCTION_ACTION_WATCH
      else if name = ''block_tx'' then Inr SANCTION_ACTION_BLOCK_TX
      else if name = ''freeze_address'' then Inr SANCTION_ACTION_FREEZE_ADDRESS
      else if name = ''escrow_funds'' then Inr SANCTION_ACTION_ESCROW_FUNDS
      else if name = ''revert_transfer'' then Inr SANCTION_ACTION_REVERT_TRANSFER
      else Inl (AErr (''unsupported sanction action: '' @ name)))"

definition parseTargetType :: "string \<Rightarrow> aerror + SanctionTargetType" where
  "parseTargetType name =
     (if name = [] \<or> name = ''tx'' then Inr SANCTION_TARGET_TYPE_TX
      else if name = ''address'' then Inr SANCTION_TARGET_TYPE_ADDRESS
      else Inl (AErr (''unsupported target type: '' @ name)))"

definition splitCSV :: "goText \<Rightarrow> string \<Rightarrow> string list" where
  "splitCSV T value = filter (\<lambda>part. part \<noteq> []) (map (TrimSpace T) (splitComma value))"

definition policyVersion :: "evaluateResponse option \<Rightarrow> string" where
  "policyVersion decision = (case decision of None \<Rightarrow> ''poc-v1'' | Some d \<Rightarrow> ''poc-v1+agent-api:'' @ ep_DecisionID d)"

text \<open>\<open>json\<close> is the file decoded, or the error of opening or decoding it.\<close>

definition readTx :: "aerror + inputTx \<Rightarrow> aerror + inputTx" where
  "readTx json = bind_r json (\<lambda>tx. if in_TxHash tx = [] \<or> in_Recipient tx = []
     then Inl (AErr ''tx_hash and recipient are required'') else Inr tx)"

text \<open>
  \<open>applyConfigDefaults\<close>: every flag the configuration file sets replaces the flag's default; the
  caller puts back the flags given on the command line. The second result is the key file.
\<close>

definition orNonEmpty :: "string \<Rightarrow> string \<Rightarrow> string" where
  "orNonEmpty configured old = (if configured \<noteq> [] then configured else old)"

definition orNonZero :: "u64 \<Rightarrow> u64 \<Rightarrow> u64" where
  "orNonZero configured old = (if configured \<noteq> 0 then configured else old)"

definition applyConfigDefaults :: "(string \<Rightarrow> string) \<Rightarrow> Config \<Rightarrow> processOptions \<times> string \<Rightarrow> processOptions \<times> string" where
  "applyConfigDefaults getenv cfg = (\<lambda>(o', keyFile). (o'\<lparr>
     op_riskURL := orNonEmpty (cf_RiskURL cfg) (op_riskURL o'), op_riskProvider := orNonEmpty (cf_RiskProvider cfg) (op_riskProvider o'),
     op_riskAPIKey := orNonEmpty (RiskAPIKey getenv cfg) (op_riskAPIKey o'), op_llmURL := orNonEmpty (cf_LLMURL cfg) (op_llmURL o'),
     op_llmProvider := orNonEmpty (cf_LLMProvider cfg) (op_llmProvider o'), op_llmModel := orNonEmpty (cf_LLMModel cfg) (op_llmModel o'),
     op_agentAPIURL := orNonEmpty (aa_URL (cf_AgentAPI cfg)) (op_agentAPIURL o'),
     op_agentAPIToken := orNonEmpty (AgentAPIToken getenv cfg) (op_agentAPIToken o'),
     op_agentAPIRole := orNonEmpty (aa_Role (cf_AgentAPI cfg)) (op_agentAPIRole o'),
     op_mtlsCertFile := orNonEmpty (aa_MTLSCertFile (cf_AgentAPI cfg)) (op_mtlsCertFile o'),
     op_mtlsKeyFile := orNonEmpty (aa_MTLSKeyFile (cf_AgentAPI cfg)) (op_mtlsKeyFile o'),
     op_mtlsCAFile := orNonEmpty (aa_MTLSCAFile (cf_AgentAPI cfg)) (op_mtlsCAFile o'),
     op_chainID := orNonEmpty (cf_ChainID cfg) (op_chainID o'), op_agentID := orNonEmpty (cf_AgentID cfg) (op_agentID o'),
     op_privKeyHex := orNonEmpty (cf_PrivateKeyHex cfg) (op_privKeyHex o'),
     op_accountNumber := orNonZero (bc_AccountNumber (cf_Broadcast cfg)) (op_accountNumber o'),
     op_sequence := orNonZero (bc_Sequence (cf_Broadcast cfg)) (op_sequence o'),
     op_gasLimit := orNonZero (bc_Gas (cf_Broadcast cfg)) (op_gasLimit o'),
     op_fee := orNonEmpty (bc_Fee (cf_Broadcast cfg)) (op_fee o')\<rparr>,
     orNonEmpty (cf_KeyFile cfg) keyFile))"

section \<open>Sending\<close>

definition openCommandRPC :: "'b agentEnv \<Rightarrow> commandIO \<Rightarrow> processOptions \<Rightarrow> aerror option" where
  "openCommandRPC A io opts =
     (if op_privKeyHex opts = [] then ci_openGuard io (''watch-'' @ op_agentID opts)
      else case signerNew (ae_T A) (ae_C A) (op_agentID opts) (op_privKeyHex opts) of
        Inl e \<Rightarrow> Some e | Inr s \<Rightarrow> ci_openGuard io (sg_Address s))"

definition sendCommand :: "'b agentEnv \<Rightarrow> commandIO \<Rightarrow> processOptions \<Rightarrow> SignOptions \<Rightarrow> request list \<Rightarrow> guardSession
    \<Rightarrow> (BroadcastResult \<times> aerror option) \<times> guardSession" where
  "sendCommand A io opts signOptions msgs gs =
     (case (if op_rpcSession opts then None else openCommandRPC A io opts) of
        Some e \<Rightarrow> ((zeroBroadcast, Some e), gs)
      | None \<Rightarrow> Send (ae_guard A) (ci_guard io) (op_requestID opts) signOptions msgs gs)"

definition signOptionsOf :: "processOptions \<Rightarrow> (string \<times> int) list \<Rightarrow> SignOptions" where
  "signOptionsOf opts fee = \<lparr>so_ChainID = op_chainID opts, so_PrivateKeyHex = op_privKeyHex opts,
     so_AccountNumber = op_accountNumber opts, so_Sequence = op_sequence opts, so_GasLimit = op_gasLimit opts,
     so_FeeAmount = fee, so_Memo = []\<rparr>"

text \<open>The end both commands share: parse the fee, send, report the names.\<close>

definition sendNamed :: "'b agentEnv \<Rightarrow> commandIO \<Rightarrow> processOptions \<Rightarrow> (string \<times> request) list \<Rightarrow> guardSession
    \<Rightarrow> (aerror + broadcastOutput) \<times> guardSession" where
  "sendNamed A io opts named gs = (case ae_parseCoins A (op_fee opts) of
     None \<Rightarrow> (Inl (AExternal ''fee''), gs)
   | Some fee \<Rightarrow> (case sendCommand A io opts (signOptionsOf opts fee) (map snd named) gs of
       ((result, Some e), gs') \<Rightarrow> (Inl e, gs')
     | ((result, None), gs') \<Rightarrow> (Inr \<lparr>bo_Messages = map fst named, bo_Result = result\<rparr>, gs')))"

definition caseMessages ::
    "string \<Rightarrow> string \<Rightarrow> RiskReport \<Rightarrow> SanctionVote option \<Rightarrow> SanctionAction \<Rightarrow> SanctionTargetType \<Rightarrow> bool \<Rightarrow> (string \<times> request) list" where
  "caseMessages submitter caseID report vote action targetType execute =
     [(''MsgSubmitRiskReport'', ReqSubmitRiskReport \<lparr>sm_Submitter = submitter, sm_Report = Some report\<rparr>)]
     @ (if caseID \<noteq> [] \<and> action \<noteq> SANCTION_ACTION_UNSPECIFIED
        then [(''MsgOpenSanctionCase'', ReqOpenSanctionCase \<lparr>oc_Submitter = submitter, oc_CaseId = caseID, oc_TxHash = rr_TxHash report,
               oc_TargetAddress = rr_Recipient report, oc_TargetType = targetType, oc_RequestedAction = action,
               oc_ReportIds = [rr_ReportId report], oc_PolicyVersion = rr_PolicyVersion report, oc_PreviousCaseId = []\<rparr>)]
        else [])
     @ (case vote of None \<Rightarrow> [] | Some v \<Rightarrow>
          [(''MsgSubmitSanctionVote'', ReqSubmitSanctionVote \<lparr>vm_Submitter = submitter, vm_Vote = Some v\<rparr>)])
     @ (if execute \<and> caseID \<noteq> [] \<and> action \<noteq> SANCTION_ACTION_UNSPECIFIED
        then [(''MsgExecuteSanction'', ReqExecuteSanction \<lparr>xm_Executor = submitter, xm_CaseId = caseID,
               xm_ResultMessage = ''executed by sanction-agent''\<rparr>)]
        else [])"

definition broadcastMessages ::
    "'b agentEnv \<Rightarrow> commandIO \<Rightarrow> processOptions \<Rightarrow> string \<Rightarrow> string \<Rightarrow> RiskReport \<Rightarrow> SanctionVote option \<Rightarrow> SanctionAction
      \<Rightarrow> SanctionTargetType \<Rightarrow> bool \<Rightarrow> guardSession \<Rightarrow> (aerror + broadcastOutput) \<times> guardSession" where
  "broadcastMessages A io opts submitter caseID report vote action targetType execute gs =
     sendNamed A io opts (caseMessages submitter caseID report vote action targetType execute) gs"

definition decodeHash :: "string \<Rightarrow> aerror + bytes" where
  "decodeHash text = (if text = [] then Inr [] else (case hexDecode text of None \<Rightarrow> Inl (AExternal ''hex'') | Some h \<Rightarrow> Inr h))"

text \<open>The messages of a control transaction, in the order they are appended.\<close>

definition controlVote :: "'b agentEnv \<Rightarrow> processOptions \<Rightarrow> Signer \<Rightarrow> string \<Rightarrow> string \<Rightarrow> aerror + (string \<times> request) list" where
  "controlVote A opts s name hashHex =
     bind_r (parseSanctionAction name) (\<lambda>action.
     bind_r (decodeHash hashHex) (\<lambda>rationaleHash.
     bind_r (SignVote (ae_C A) s (op_chainID opts) (Some \<lparr>sv_CaseId = op_caseID opts, sv_AgentId = [],
               sv_Option = VOTE_OPTION_APPROVE, sv_ApprovedAction = action, sv_ReasonCode = ''policy_match'',
               sv_RationaleHash = rationaleHash, sv_SignedHeight = op_height opts, sv_Signature = []\<rparr>)) (\<lambda>vote.
     Inr [(''MsgSubmitSanctionVote'', ReqSubmitSanctionVote \<lparr>vm_Submitter = sg_Address s, vm_Vote = Some vote\<rparr>)])))"

definition controlMessages ::
    "'b agentEnv \<Rightarrow> processOptions \<Rightarrow> Signer \<Rightarrow> bool \<Rightarrow> bool \<Rightarrow> string \<Rightarrow> string \<Rightarrow> aerror + (string \<times> request) list" where
  "controlMessages A opts s voteOnly executeOnly name hashHex =
     bind_r (if voteOnly then controlVote A opts s name hashHex else Inr []) (\<lambda>votes.
     let named = votes @ (if executeOnly then [(''MsgExecuteSanction'', ReqExecuteSanction \<lparr>xm_Executor = sg_Address s,
           xm_CaseId = op_caseID opts, xm_ResultMessage = ''executed by sanction-agent control tx''\<rparr>)] else [])
     in if named = [] then Inl (AErr ''no control message requested'') else Inr named)"

definition broadcastControlTx ::
    "'b agentEnv \<Rightarrow> commandIO \<Rightarrow> processOptions \<Rightarrow> bool \<Rightarrow> bool \<Rightarrow> string \<Rightarrow> string \<Rightarrow> guardSession
      \<Rightarrow> (aerror + broadcastOutput) \<times> guardSession" where
  "broadcastControlTx A io opts voteOnly executeOnly name hashHex gs =
     (case bind_r (signerNew (ae_T A) (ae_C A) (op_agentID opts) (op_privKeyHex opts))
             (\<lambda>s. controlMessages A opts s voteOnly executeOnly name hashHex) of
        Inl e \<Rightarrow> (Inl e, gs)
      | Inr named \<Rightarrow> sendNamed A io opts named gs)"

section \<open>Evaluating one transfer (\<open>processTx\<close>)\<close>

definition reviewRequest :: "processOptions \<Rightarrow> Thresholds \<Rightarrow> inputTx \<Rightarrow> RiskResponse \<Rightarrow> evaluateRequest" where
  "reviewRequest opts th tx risk = \<lparr>er_AgentID = op_agentID opts, er_TargetType = op_targetType opts,
     er_Tx = \<lparr>ti_TxHash = in_TxHash tx, ti_Sender = in_Sender tx, ti_Recipient = in_Recipient tx, ti_Amount = in_Amount tx,
       ti_Denom = in_Denom tx, ti_Confirmed = (op_txConfirmed opts \<or> in_Confirmed tx)\<rparr>,
     er_Risk = \<lparr>ri_Source = rs_Source risk, ri_ResponseID = rs_ResponseID risk, ri_Address = rs_Address risk,
       ri_Score = rs_RiskScore risk, ri_Categories = rs_RiskCategories risk, ri_ExposureType = rs_ExposureType risk\<rparr>,
     er_Policy = \<lparr>po_WatchThreshold = th_WatchThreshold th, po_BlockThreshold = th_BlockThreshold th,
       po_FreezeThreshold = th_FreezeThreshold th, po_RevertThreshold = th_RevertThreshold th,
       po_HighRisk = th_HighRiskCategories th, po_CriticalRisk = [''sanctioned'', ''terrorist_financing'', ''ransomware''],
       po_TrustedAddresses = op_trustedAddrs opts, po_BlockedAddresses = op_blockedAddrs opts\<rparr>\<rparr>"

text \<open>The reviewer's decision and its JSON, if a reviewer is configured.\<close>

definition askReviewer :: "'b agentEnv \<Rightarrow> web \<Rightarrow> processOptions \<Rightarrow> evaluateRequest \<Rightarrow> aerror + (evaluateResponse \<times> bytes) option" where
  "askReviewer A W opts req = (if op_agentAPIURL opts = [] then Inr None else
     bind_r (agentNew (ae_tls A) (op_agentAPIURL opts) (op_agentAPIToken opts) (op_agentAPIRole opts)
        \<lparr>tl_CertFile = op_mtlsCertFile opts, tl_KeyFile = op_mtlsKeyFile opts, tl_CAFile = op_mtlsCAFile opts\<rparr>) (\<lambda>client.
     bind_r (Evaluate W client req) (\<lambda>d. Inr (Some d))))"

text \<open>The risk as the rest of the evaluation sees it: with the reviewer's score and decision id.\<close>

definition calibrated :: "(evaluateResponse \<times> bytes) option \<Rightarrow> RiskResponse \<Rightarrow> RiskResponse" where
  "calibrated decision risk = (case decision of None \<Rightarrow> risk | Some (d, _) \<Rightarrow>
     risk\<lparr>rs_RiskScore := ep_CalibratedScore d, rs_ResponseID := rs_ResponseID risk @ ''|agent-decision:'' @ ep_DecisionID d\<rparr>)"

definition explainRequest :: "inputTx \<Rightarrow> RiskResponse \<Rightarrow> ExplainRequest" where
  "explainRequest tx risk = \<lparr>xq_Task = ''risk_explanation'', xq_PolicyVersion = ''poc-v1'',
     xq_Tx = [(''hash'', in_TxHash tx), (''sender'', in_Sender tx), (''recipient'', in_Recipient tx), (''amount'', in_Amount tx),
       (''denom'', in_Denom tx)],
     xq_Risk = \<lparr>lr_Source = rs_Source risk, lr_Score = rs_RiskScore risk, lr_Categories = rs_RiskCategories risk,
       lr_ExposureType = rs_ExposureType risk\<rparr>\<rparr>"

text \<open>The checks of a decision against the agent's own policy action.\<close>

definition checkDecision :: "processOptions \<Rightarrow> SanctionAction \<Rightarrow> evaluateResponse \<Rightarrow> aerror option" where
  "checkDecision opts action d =
     (if ep_AgentID d \<noteq> op_agentID opts \<or> ep_DecisionID d = [] \<or> ep_CalibratedScore d > 100
      then Some (AErr ''agent API returned an invalid decision identity or score'')
      else if ep_EvidenceStatus d \<noteq> ''complete''
      then Some (AErr (''agent API evidence is '' @ ep_EvidenceStatus d @ ''; manual review is required before signing''))
      else case parseSanctionAction (ep_Action d) of Inl e \<Rightarrow> Some e | Inr agentAction \<Rightarrow>
      let approve = (action \<noteq> SANCTION_ACTION_UNSPECIFIED) in
      if agentAction \<noteq> action
      then Some (AErr (''agent API action '' @ ep_Action d @ '' conflicts with chain policy action '' @ ActionName action))
      else if ep_Approved d \<noteq> approve \<or> (approve \<and> ep_VoteOption d \<noteq> ''approve'') \<or> (\<not> approve \<and> ep_VoteOption d \<noteq> ''reject'')
      then Some (AErr ''agent API returned inconsistent action and vote'')
      else None)"

definition rationaleHashOf :: "'b agentEnv \<Rightarrow> (evaluateResponse \<times> bytes) option \<Rightarrow> ExplainResponse \<Rightarrow> bytes" where
  "rationaleHashOf A decision x = (case decision of
     None \<Rightarrow> RationaleHash (ae_E A) (xp_Rationale x) (xp_Caveats x)
   | Some (d, json) \<Rightarrow> EvidenceHash (ae_E A) [ep_Rationale d, json])"

text \<open>\<open>raw\<close> is the provider's answer, \<open>risk\<close> the calibrated one.\<close>

definition unsignedReport ::
    "'b agentEnv \<Rightarrow> processOptions \<Rightarrow> inputTx \<Rightarrow> bytes \<Rightarrow> RiskResponse \<Rightarrow> RiskResponse \<Rightarrow> (evaluateResponse \<times> bytes) option
      \<Rightarrow> ExplainResponse \<Rightarrow> RiskReport" where
  "unsignedReport A opts tx txHash raw risk decision x =
     \<lparr>rr_ReportId = ''report-'' @ in_TxHash tx, rr_TxHash = txHash, rr_Sender = in_Sender tx, rr_Recipient = in_Recipient tx,
      rr_Denom = in_Denom tx, rr_Amount = in_Amount tx, rr_Source = rs_Source risk, rr_SourceResponseId = rs_ResponseID risk,
      rr_RiskScore = rs_RiskScore risk, rr_RiskCategories = rs_RiskCategories risk, rr_ExposureType = rs_ExposureType risk,
      rr_ObservedHeight = op_height opts, rr_ExpiryHeight = op_expiryHeight opts,
      rr_PolicyVersion = policyVersion (map_option fst decision),
      rr_EvidenceHash = EvidenceHash (ae_E A) [in_TxHash tx, rs_ResponseID raw,
         ''raw_score='' @ dec_digits (unat (rs_RiskScore raw)), ae_riskJSON A risk, ae_explanationJSON A x,
         (case decision of None \<Rightarrow> [] | Some (_, json) \<Rightarrow> json)],
      rr_LlmRationaleHash = rationaleHashOf A decision x, rr_Submitter = [], rr_SubmitterSignature = [],
      rr_MessageIndex = in_MessageIndex tx\<rparr>"

definition effectiveCaseID :: "processOptions \<Rightarrow> inputTx \<Rightarrow> SanctionAction \<Rightarrow> string" where
  "effectiveCaseID opts tx action = (if op_caseID opts = [] \<and> action \<noteq> SANCTION_ACTION_UNSPECIFIED
     then ''case-'' @ in_TxHash tx else op_caseID opts)"

text \<open>The vote, when there is a case and an action.\<close>

definition policyVote :: "'b agentEnv \<Rightarrow> processOptions \<Rightarrow> Signer \<Rightarrow> inputTx \<Rightarrow> SanctionAction \<Rightarrow> bytes \<Rightarrow> aerror + SanctionVote option" where
  "policyVote A opts s tx action rationaleHash =
     (if effectiveCaseID opts tx action = [] \<or> action = SANCTION_ACTION_UNSPECIFIED then Inr None
      else bind_r (SignVote (ae_C A) s (op_chainID opts) (Some \<lparr>sv_CaseId = effectiveCaseID opts tx action, sv_AgentId = [],
             sv_Option = VOTE_OPTION_APPROVE, sv_ApprovedAction = action, sv_ReasonCode = ''policy_match'',
             sv_RationaleHash = rationaleHash, sv_SignedHeight = op_height opts, sv_Signature = []\<rparr>)) (\<lambda>v. Inr (Some v)))"

text \<open>The signed part of the result, before any broadcast.\<close>

definition signResult ::
    "'b agentEnv \<Rightarrow> processOptions \<Rightarrow> inputTx \<Rightarrow> RiskResponse \<Rightarrow> (evaluateResponse \<times> bytes) option \<Rightarrow> SanctionAction \<Rightarrow> reviewOutput
      \<Rightarrow> aerror + Signer \<times> RiskReport \<times> reviewOutput" where
  "signResult A opts tx raw decision action result =
     bind_r (signerNew (ae_T A) (ae_C A) (op_agentID opts) (op_privKeyHex opts)) (\<lambda>s.
     case hexDecode (in_TxHash tx) of None \<Rightarrow> Inl (AErr ''tx_hash must be hex when signing'') | Some txHash \<Rightarrow>
     bind_r (SignRiskReport (ae_E A) (ae_C A) s (op_chainID opts)
        (Some (unsignedReport A opts tx txHash raw (ou_Risk result) decision (ou_Explanation result)))) (\<lambda>report.
     bind_r (policyVote A opts s tx action (rationaleHashOf A decision (ou_Explanation result))) (\<lambda>vote.
     Inr (s, report, result\<lparr>ou_RiskReport := Some report, ou_AgentInfo := Some \<lparr>ag_AgentId = op_agentID opts,
        ag_ValidatorOperatorAddress = [], ag_SignerAddress = sg_Address s, ag_PublicKey = signerPublicKey (ae_C A) s,
        ag_VotingPower = 1, ag_Active = True, ag_MetadataUri = []\<rparr>, ou_Vote := vote\<rparr>))))"

definition thresholdsIn :: "processOptions \<Rightarrow> Thresholds" where
  "thresholdsIn opts = (case op_thresholds opts of None \<Rightarrow> DefaultThresholds | Some th \<Rightarrow> th)"

text \<open>Up to the signing: the provider's answer, the decision, the action and the result so far.\<close>

definition screened ::
    "'b agentEnv \<Rightarrow> web \<Rightarrow> processOptions \<Rightarrow> inputTx
      \<Rightarrow> aerror + RiskResponse \<times> (evaluateResponse \<times> bytes) option \<times> SanctionAction \<times> SanctionTargetType \<times> reviewOutput" where
  "screened A W opts tx =
     bind_r (ScreenTx W (NewWithProvider (op_riskURL opts) (op_riskProvider opts) (op_riskAPIKey opts))
        \<lparr>ts_TxHash = in_TxHash tx, ts_Sender = in_Sender tx, ts_Recipient = in_Recipient tx, ts_Amount = in_Amount tx,
         ts_Denom = in_Denom tx\<rparr>) (\<lambda>raw.
     bind_r (parseTargetType (op_targetType opts)) (\<lambda>targetType.
     bind_r (askReviewer A W opts (reviewRequest opts (thresholdsIn opts) tx raw)) (\<lambda>decision.
     let risk = calibrated decision raw in
     bind_r (Explain W (llmNew (op_llmURL opts) (op_llmProvider opts) (op_llmModel opts)) (explainRequest tx risk)) (\<lambda>x.
     let action = Action (rs_RiskScore risk) (rs_RiskCategories risk) targetType (thresholdsIn opts) in
     (case (case decision of None \<Rightarrow> None | Some (d, _) \<Rightarrow> checkDecision opts action d) of
        Some e \<Rightarrow> Inl e
      | None \<Rightarrow> Inr (raw, decision, action, targetType, \<lparr>ou_Risk = risk, ou_Explanation = x, ou_Decision = map_option fst decision,
          ou_Action = ActionName action, ou_RiskReport = None, ou_Vote = None, ou_AgentInfo = None, ou_Broadcast = None\<rparr>))))))"

definition processTx :: "'b agentEnv \<Rightarrow> commandIO \<Rightarrow> inputTx \<Rightarrow> processOptions \<Rightarrow> guardSession \<Rightarrow> (aerror + reviewOutput) \<times> guardSession" where
  "processTx A io tx opts gs = (case screened A (ci_web io) opts tx of
     Inl e \<Rightarrow> (Inl e, gs)
   | Inr (raw, decision, action, targetType, result) \<Rightarrow>
       if op_agentID opts = [] \<or> op_privKeyHex opts = [] then (Inr result, gs)
       else (case signResult A opts tx raw decision action result of
         Inl e \<Rightarrow> (Inl e, gs)
       | Inr (s, report, done1) \<Rightarrow>
           if \<not> op_broadcast opts then (Inr done1, gs)
           else (case broadcastMessages A io opts (sg_Address s) (effectiveCaseID opts tx action) report (ou_Vote done1) action
                   targetType (op_execute opts) gs of
             (Inl e, gs') \<Rightarrow> (Inl e, gs')
           | (Inr b, gs') \<Rightarrow> (Inr (done1\<lparr>ou_Broadcast := Some b\<rparr>), gs'))))"

section \<open>Evaluating the transfers of a transaction\<close>

definition inputOf :: "DecodedTransfer \<Rightarrow> inputTx" where
  "inputOf t = \<lparr>in_MessageIndex = dt_MessageIndex t, in_TxHash = dt_TxHash t, in_Sender = dt_Sender t, in_Recipient = dt_Recipient t,
     in_Amount = dt_Amount t, in_Denom = dt_Denom t, in_Confirmed = False\<rparr>"

text \<open>Go compares the enum as a signed 32-bit integer.\<close>

definition actionGreater :: "SanctionAction \<Rightarrow> SanctionAction \<Rightarrow> bool" where
  "actionGreater a b = (sint (action_number a) > sint (action_number b))"

text \<open>The loop: the result with the gravest action so far, of those the one with the highest score.\<close>

fun selectWorst ::
    "'b agentEnv \<Rightarrow> commandIO \<Rightarrow> processOptions \<Rightarrow> DecodedTransfer list \<Rightarrow> (reviewOutput \<times> SanctionAction) option \<Rightarrow> guardSession
      \<Rightarrow> (aerror + (reviewOutput \<times> SanctionAction) option) \<times> guardSession" where
  "selectWorst A io opts [] selected gs = (Inr selected, gs)"
| "selectWorst A io opts (t # ts) selected gs = (case processTx A io (inputOf t) opts gs of
     (Inl e, gs') \<Rightarrow> (Inl e, gs')
   | (Inr result, gs') \<Rightarrow> (case parseSanctionAction (ou_Action result) of
       Inl e \<Rightarrow> (Inl e, gs')
     | Inr action \<Rightarrow> selectWorst A io opts ts
         (case selected of None \<Rightarrow> Some (result, action)
          | Some (best, worst) \<Rightarrow>
              if actionGreater action worst \<or> (action = worst \<and> rs_RiskScore (ou_Risk result) > rs_RiskScore (ou_Risk best))
              then Some (result, action) else Some (best, worst)) gs'))"

definition processPendingTransfers ::
    "'b agentEnv \<Rightarrow> commandIO \<Rightarrow> DecodedTransfer list \<Rightarrow> processOptions \<Rightarrow> guardSession \<Rightarrow> (aerror + reviewOutput) \<times> guardSession" where
  "processPendingTransfers A io transfers opts gs =
     (if transfers = [] then (Inl (AErr ''no transfers to screen''), gs)
      else case selectWorst A io (opts\<lparr>op_broadcast := False\<rparr>) transfers None gs of
        (Inl e, gs') \<Rightarrow> (Inl e, gs')
      | (Inr None, gs') \<Rightarrow> (Inl APanic, gs')
      | (Inr (Some (selected, _)), gs') \<Rightarrow>
          (case (ou_Vote selected, ou_RiskReport selected) of
             (Some vote, Some report) \<Rightarrow>
               if \<not> op_broadcast opts then (Inr selected, gs')
               else (case bind_r (parseSanctionAction (ou_Action selected)) (\<lambda>action.
                         bind_r (parseTargetType (op_targetType opts)) (\<lambda>target. Inr (action, target))) of
                 Inl e \<Rightarrow> (Inl e, gs')
               | Inr (action, target) \<Rightarrow>
                   (case broadcastMessages A io opts (rr_Submitter report) (sv_CaseId vote) report (Some vote) action target
                           (op_execute opts) gs' of
                     (Inl e, gs2) \<Rightarrow> (Inl e, gs2)
                   | (Inr b, gs2) \<Rightarrow> (Inr (selected\<lparr>ou_Broadcast := Some b\<rparr>), gs2)))
           | _ \<Rightarrow> (Inr selected, gs')))"

section \<open>The watch command (\<open>runWatch\<close>)\<close>

text \<open>The handler of one pending transaction; the options' sequence counts the broadcasts.\<close>

definition watchHandler ::
    "'b agentEnv \<Rightarrow> commandIO \<Rightarrow> aerror + u64 \<Rightarrow> PendingTx \<Rightarrow> processOptions \<Rightarrow> guardSession
      \<Rightarrow> (aerror + reviewOutput option) \<times> processOptions \<times> guardSession" where
  "watchHandler A io height pending opts gs = (case DecodeTransfers (ae_E A) (ae_decoder A) pending of
     Inl e \<Rightarrow> (Inl e, opts, gs)
   | Inr [] \<Rightarrow> (Inr None, opts, gs)
   | Inr transfers \<Rightarrow>
       (let ttl = op_expiryHeight opts - op_height opts in
        case (if op_privKeyHex opts = [] then Inr opts else bind_r height (\<lambda>h.
                if h > - 1 - ttl then Inl (AErr ''evidence expiry height overflows'')
                else Inr (opts\<lparr>op_height := h, op_expiryHeight := h + ttl\<rparr>))) of
          Inl e \<Rightarrow> (Inl e, opts, gs)
        | Inr current \<Rightarrow> (case processPendingTransfers A io transfers current gs of
            (Inl e, gs') \<Rightarrow> (Inl e, opts, gs')
          | (Inr result, gs') \<Rightarrow> (Inr (Some result),
              (if ou_Broadcast result = None then opts else opts\<lparr>op_sequence := op_sequence opts + 1\<rparr>), gs'))))"

text \<open>The checks before watching starts.\<close>

definition watchChecks :: "'b agentEnv \<Rightarrow> commandIO \<Rightarrow> processOptions \<Rightarrow> aerror option" where
  "watchChecks A io opts =
     (if op_targetType opts \<noteq> [] \<and> op_targetType opts \<noteq> ''tx''
      then Some (AErr ''watch requires target-type tx for pending transfers'')
      else if op_expiryHeight opts \<le> op_height opts then Some (AErr ''expiry-height must be greater than height'')
      else if op_broadcast opts \<and> op_privKeyHex opts = [] then Some (AErr ''watch broadcast requires a signing key'')
      else if op_privKeyHex opts = [] then openCommandRPC A io opts
      else case signerNew (ae_T A) (ae_C A) (op_agentID opts) (op_privKeyHex opts) of
        Inl e \<Rightarrow> Some e | Inr _ \<Rightarrow> openCommandRPC A io opts)"

text \<open>What a round fetches: the pending transactions behind a fresh status.\<close>

definition watchFetch :: "'b agentEnv \<Rightarrow> aerror + Status \<Rightarrow> aerror + bytes list \<Rightarrow> aerror + PendingTx list" where
  "watchFetch A status txs = bind_r status (\<lambda>_. bind_r txs (\<lambda>txs.
     Inr (map (\<lambda>tx. \<lparr>pt_Bytes = tx, pt_Hash = hexEncode (sha256 (ae_E A) tx)\<rparr>) txs)))"

text \<open>
  \<open>PollUnconfirmed\<close> (internal/watcher/watcher.go). One round fetches the pending set and hands the
  handler every transaction that the last round did not finish; \<open>handler\<close> gives the error, if any,
  and the state it leaves. Only the transactions of the current set are remembered.
\<close>

fun pollTxs ::
    "(PendingTx \<Rightarrow> 's \<Rightarrow> aerror option \<times> 's) \<Rightarrow> bytes set \<Rightarrow> PendingTx list \<Rightarrow> bytes set \<Rightarrow> 's \<Rightarrow> bytes set \<times> 's" where
  "pollTxs handler seen [] nextSeen s = (nextSeen, s)"
| "pollTxs handler seen (tx # txs) nextSeen s =
     (if pt_Bytes tx \<in> seen then pollTxs handler seen txs (insert (pt_Bytes tx) nextSeen) s
      else case handler tx s of
        (Some e, s') \<Rightarrow> pollTxs handler seen txs nextSeen s'
      | (None, s') \<Rightarrow> pollTxs handler seen txs (insert (pt_Bytes tx) nextSeen) s')"

text \<open>A run over the answers of the rounds; a round whose fetch fails changes nothing.\<close>

fun PollUnconfirmed ::
    "(PendingTx \<Rightarrow> 's \<Rightarrow> aerror option \<times> 's) \<Rightarrow> (aerror + PendingTx list) list \<Rightarrow> bytes set \<Rightarrow> 's \<Rightarrow> bytes set \<times> 's" where
  "PollUnconfirmed handler [] seen s = (seen, s)"
| "PollUnconfirmed handler (Inl e # rounds) seen s = PollUnconfirmed handler rounds seen s"
| "PollUnconfirmed handler (Inr txs # rounds) seen s =
     (case pollTxs handler seen txs {} s of (seen', s') \<Rightarrow> PollUnconfirmed handler rounds seen' s')"

end
