(* ===== verification/Tools.thy ===== *)
theory Tools
  imports Evaluation Lab
begin

text \<open>
  The operator's tools: dev/agent/cmd/g503-send, g503-validator and g503-ops, the opening of a guarded
  session (\<open>Open\<close> in internal/rpcguard/guard.go) and the two readers of pending transactions. A tool builds
  one message from its flags, signs it for a printout (\<open>-dry-run\<close>) or sends it through the session that
  belongs to its chain and signer. The flags are records; printing, parsing of coins and the SDK's
  messages are parameters.
\<close>

section \<open>Pending transactions\<close>

definition pendingLimit :: "int \<Rightarrow> int" where
  "pendingLimit limit = (if limit \<le> 0 then 100 else limit)"

text \<open>\<open>rpcAnswer limit\<close> is the pool's answer to \<open>unconfirmed_txs\<close>, decoded.\<close>

definition PendingTransactions :: "(string \<Rightarrow> rpcError + bytes list option) \<Rightarrow> int \<Rightarrow> aerror + bytes list" where
  "PendingTransactions rpcAnswer limit = unmarshalTo (rpcAnswer (formatInt (pendingLimit limit)))"

record watcherClient =
  wc_Endpoint :: string
  wc_Fetch :: "(int \<Rightarrow> aerror + PendingTx list) option"

definition watcherNew :: "string \<Rightarrow> watcherClient" where
  "watcherNew endpoint = \<lparr>wc_Endpoint = trimSlashes endpoint, wc_Fetch = None\<rparr>"

text \<open>The decoded body: its error, and its list of base64 strings if it has a result.\<close>

record unconfirmedBody =
  ub_Error :: "(int \<times> string) option"
  ub_Txs :: "string list option"

fun decodePending :: "(string \<Rightarrow> bytes option) \<Rightarrow> (bytes \<Rightarrow> bytes) \<Rightarrow> string list \<Rightarrow> aerror + PendingTx list" where
  "decodePending base64 hashSum [] = Inr []"
| "decodePending base64 hashSum (e # es) = (case base64 e of
     None \<Rightarrow> Inl (AExternal ''base64'')
   | Some tx \<Rightarrow> bind_r (decodePending base64 hashSum es) (\<lambda>rest.
       Inr (\<lparr>pt_Bytes = tx, pt_Hash = hexEncode (hashSum tx)\<rparr> # rest)))"

definition UnconfirmedTxs ::
    "web \<Rightarrow> (bytes \<Rightarrow> unconfirmedBody option) \<Rightarrow> (string \<Rightarrow> bytes option) \<Rightarrow> (bytes \<Rightarrow> bytes) \<Rightarrow> watcherClient \<Rightarrow> int \<Rightarrow> aerror + PendingTx list" where
  "UnconfirmedTxs W bodyOf base64 hashSum c limit = (case wc_Fetch c of Some fetch \<Rightarrow> fetch limit | None \<Rightarrow>
     bind_r (exchange W ''comet rpc'' \<lparr>wr_Method = ''GET'',
         wr_URL = wc_Endpoint c @ ''/unconfirmed_txs?limit='' @ formatInt (pendingLimit limit), wr_Headers = [], wr_Body = []\<rparr>) (\<lambda>bz.
     bind_r (decoded (bodyOf bz)) (\<lambda>body. case ub_Error body of
       Some (code, message) \<Rightarrow> Inl (AErr (''comet RPC error '' @ formatInt code @ '': '' @ message))
     | None \<Rightarrow> (case ub_Txs body of
         None \<Rightarrow> Inl (AErr ''comet RPC response has no result'')
       | Some txs \<Rightarrow> decodePending base64 hashSum txs))))"

text \<open>
  \<open>waitForGuardedMempool\<close>. Each round reads a status and the pending set; then the context is done, the
  eight seconds are over, or the next tick comes. A list that is used up is a wait that goes on.
\<close>

datatype waitEvent = ContextDone aerror | DeadlineOver | NextTick

fun waitForGuardedMempool ::
    "(bytes \<Rightarrow> bytes) \<Rightarrow> string \<Rightarrow> ((aerror + Status) \<times> (aerror + bytes list) \<times> waitEvent) list \<Rightarrow> (aerror + bool) option" where
  "waitForGuardedMempool hashSum hash [] = None"
| "waitForGuardedMempool hashSum hash ((status, txs, event) # rounds) = (case status of Inl e \<Rightarrow> Some (Inl e) | Inr _ \<Rightarrow>
     case txs of Inl e \<Rightarrow> Some (Inl e) | Inr pending \<Rightarrow>
     if \<exists>tx \<in> set pending. equalFold (hexEncode (hashSum tx)) hash then Some (Inr True)
     else case event of ContextDone e \<Rightarrow> Some (Inl e) | DeadlineOver \<Rightarrow> Some (Inr False)
       | NextTick \<Rightarrow> waitForGuardedMempool hashSum hash rounds)"

section \<open>A guarded session\<close>

record guardOptions =
  gd_Endpoints :: string
  gd_StateDir :: string
  gd_RequestID :: string
  gd_Namespace :: string
  gd_Policy :: RPCSafety

text \<open>The defaults \<open>Flags\<close> registers.\<close>

definition defaultGuardOptions :: guardOptions where
  "defaultGuardOptions = \<lparr>gd_Endpoints = [], gd_StateDir = [], gd_RequestID = [], gd_Namespace = [],
     gd_Policy = \<lparr>rs_ChainID = [], rs_GenesisHash = [], rs_MaxBlockAge = 15000000000, rs_MaxFutureSkew = 3000000000,
       rs_MaxHeightLag = 2, rs_MinAgreement = 0, rs_ProbeTimeout = 3000000000,
       rs_Checkpoint = \<lparr>cp_GenesisHash = [], cp_Height = 0, cp_BlockHash = []\<rparr>, rs_Persist = False\<rparr>\<rparr>"

text \<open>
  What the process finds: its environment and home, whether the directory is private, the journal
  files by path and what \<open>Lstat\<close>, the lock and the URL parser say.
\<close>

record toolPlace =
  tp_stateEnv :: string
  tp_home :: "aerror + string"
  tp_mkdir :: "aerror option"
  tp_private :: "string \<Rightarrow> bool"
  tp_file :: "string \<Rightarrow> fileState"
  tp_lock :: "aerror option"
  tp_trim :: "string \<Rightarrow> string"
  tp_parseURL :: "string \<Rightarrow> parsedURL option"
  tp_sha256 :: "bytes \<Rightarrow> bytes"

type_synonym toolDisk = "string \<rightharpoonup> guardSession"

definition emptySession :: guardSession where
  "emptySession = \<lparr>gs_bucket = Map.empty, gs_sent = []\<rparr>"

definition sessionAt :: "toolDisk \<Rightarrow> string \<Rightarrow> guardSession" where
  "sessionAt disk path = (case disk path of None \<Rightarrow> emptySession | Some s \<Rightarrow> s)"

definition guardDir :: "toolPlace \<Rightarrow> guardOptions \<Rightarrow> aerror + string" where
  "guardDir P o' = (if gd_StateDir o' \<noteq> [] then Inr (gd_StateDir o') else if tp_stateEnv P \<noteq> [] then Inr (tp_stateEnv P)
     else bind_r (tp_home P) (\<lambda>home. Inr (cleanPath (joinWith ''/'' (filter (\<lambda>p. p \<noteq> []) [home, ''.local'', ''state'', ''g503'', ''rpc''])))))"

definition guardPath :: "toolPlace \<Rightarrow> string \<Rightarrow> string \<Rightarrow> string \<Rightarrow> string" where
  "guardPath P dir chainID namespace =
     cleanPath (dir @ ''/'' @ hexEncode (tp_sha256 P (chainID @ [CHR 0x00] @ namespace)) @ ''.db'')"

text \<open>\<open>Open\<close>: the journal's path and the pool its client calls through.\<close>

definition openSession :: "toolPlace \<Rightarrow> guardOptions \<Rightarrow> string \<Rightarrow> string \<Rightarrow> toolDisk \<Rightarrow> aerror + string \<times> rpcPool" where
  "openSession P o' chainID fallback disk = bind_r (guardDir P o') (\<lambda>dir.
     case tp_mkdir P of Some e \<Rightarrow> Inl e | None \<Rightarrow>
     if \<not> tp_private P dir then Inl (AErr ''RPC state directory must be private and not a symlink'')
     else let path = guardPath P dir chainID (gd_Namespace o') in
     case tp_file P path of
       StatError \<Rightarrow> Inl (AExternal ''lstat'')
     | Present False \<Rightarrow> Inl (AErr ''RPC journal must be a private regular file'')
     | _ \<Rightarrow> (case tp_lock P of Some e \<Rightarrow> Inl (AErr (''lock RPC journal: '' @ errText e)) | None \<Rightarrow>
         bind_r (guardOpen (gs_bucket (sessionAt disk path)) (gd_Policy o') chainID) (\<lambda>policy.
         bind_r (NewResilient (tp_trim P) (tp_parseURL P)
             (if gd_Endpoints o' = [] then [fallback] else splitComma (gd_Endpoints o')) 10000000000 (policy\<lparr>rs_Persist := True\<rparr>))
           (\<lambda>pool. Inr (path, pool)))))"

section \<open>The messages of the tools\<close>

datatype toolMsg =
    ModuleMsg request
  | BankSend string string "(string \<times> int) list"
  | CreateValidator string bytes "string \<times> int" string
  | Undelegate string string "string \<times> int"
  | Unjail string

record toolEnv =
  te_T :: goText
  te_C :: curve
  te_valAddress :: "string \<Rightarrow> string"
  te_parseCoins :: "string \<Rightarrow> (string \<times> int) list option"
  te_parseCoin :: "string \<Rightarrow> (string \<times> int) option"
  te_coinString :: "string \<times> int \<Rightarrow> string"
  te_coinsString :: "(string \<times> int) list \<Rightarrow> string"
  te_pubKeyFile :: "string \<Rightarrow> aerror + bytes"
  te_createOk :: "toolMsg \<Rightarrow> aerror option"
  te_guard :: "toolMsg guardEnv"
  te_hash :: "bytes \<Rightarrow> bytes"

definition addressFromPrivateKeyHex :: "toolEnv \<Rightarrow> string \<Rightarrow> aerror + string" where
  "addressFromPrivateKeyHex T hex = (case hexDecode hex of
     None \<Rightarrow> Inl (AExternal ''hex'')
   | Some keyBytes \<Rightarrow> if length keyBytes \<noteq> 32 then Inl (AErr ''secp256k1 private key must be 32 bytes'')
       else Inr (cu_address (te_C T) keyBytes))"

text \<open>The flags every tool has.\<close>

record toolFlags =
  tf_guard :: guardOptions
  tf_rpcURL :: string
  tf_chainID :: string
  tf_privKeyHex :: string
  tf_accountNumber :: u64
  tf_sequence :: u64
  tf_gas :: u64
  tf_fee :: string
  tf_dryRun :: bool

definition toolOptions :: "toolFlags \<Rightarrow> (string \<times> int) list \<Rightarrow> SignOptions" where
  "toolOptions f fees = \<lparr>so_ChainID = tf_chainID f, so_PrivateKeyHex = tf_privKeyHex f, so_AccountNumber = tf_accountNumber f,
     so_Sequence = tf_sequence f, so_GasLimit = tf_gas f, so_FeeAmount = fees, so_Memo = []\<rparr>"

text \<open>What a run meets once it sends.\<close>

record toolIO =
  ti_place :: toolPlace
  ti_guard :: guardIO
  ti_rounds :: "((aerror + Status) \<times> (aerror + bytes list) \<times> waitEvent) list"

text \<open>The end all tools share: open the session of the namespace and send.\<close>

definition guardedSend ::
    "toolEnv \<Rightarrow> toolIO \<Rightarrow> toolFlags \<Rightarrow> string \<Rightarrow> SignOptions \<Rightarrow> toolMsg \<Rightarrow> toolDisk \<Rightarrow> (aerror + BroadcastResult \<times> string) \<times> toolDisk" where
  "guardedSend T io f namespace options msg disk =
     (case openSession (ti_place io) ((tf_guard f)\<lparr>gd_Namespace := namespace\<rparr>) (tf_chainID f) (tf_rpcURL f) disk of
        Inl e \<Rightarrow> (Inl e, disk)
      | Inr (path, pool) \<Rightarrow>
          (case Send (te_guard T) (ti_guard io) (gd_RequestID (tf_guard f)) options [msg] (sessionAt disk path) of
             ((result, Some e), s) \<Rightarrow> (Inl e, disk(path \<mapsto> s))
           | ((result, None), s) \<Rightarrow> (Inr (result, path), disk(path \<mapsto> s))))"

text \<open>With a request id the account number and sequence printed are those of the record.\<close>

definition receiptNumbers :: "toolEnv \<Rightarrow> toolFlags \<Rightarrow> guardSession \<Rightarrow> aerror + u64 \<times> u64" where
  "receiptNumbers T f s = (if gd_RequestID (tf_guard f) = [] then Inr (tf_accountNumber f, tf_sequence f)
     else bind_r (Receipt (te_guard T) (gd_RequestID (tf_guard f)) s) (\<lambda>(hash, number, sequence).
       Inr ((case number of None \<Rightarrow> tf_accountNumber f | Some n \<Rightarrow> n), sequence)))"

section \<open>g503-send\<close>

record sendFlags =
  sf_tool :: toolFlags
  sf_from :: string
  sf_to :: string
  sf_amount :: string
  sf_checkMempool :: bool

record sendOutput =
  sd_Message :: string
  sd_From :: string
  sd_To :: string
  sd_Amount :: string
  sd_Account :: u64
  sd_Sequence :: u64
  sd_TxHash :: string
  sd_TxBytesHex :: string
  sd_Broadcast :: "BroadcastResult option"
  sd_MempoolSeen :: bool

text \<open>\<open>None\<close>: still polling for the transaction.\<close>

definition sendTool :: "toolEnv \<Rightarrow> toolIO \<Rightarrow> sendFlags \<Rightarrow> toolDisk \<Rightarrow> (aerror + sendOutput) option \<times> toolDisk" where
  "sendTool T io f disk = (let tf = sf_tool f in
     if tf_privKeyHex tf = [] then (Some (Inl (AErr ''-privkey-hex is required'')), disk)
     else if sf_to f = [] then (Some (Inl (AErr ''-to is required'')), disk)
     else case (if sf_from f = [] then addressFromPrivateKeyHex T (tf_privKeyHex tf) else Inr (sf_from f)) of
       Inl e \<Rightarrow> (Some (Inl e), disk)
     | Inr sender \<Rightarrow>
     case te_parseCoins T (sf_amount f) of None \<Rightarrow> (Some (Inl (AExternal ''amount'')), disk) | Some coins \<Rightarrow>
     case te_parseCoins T (tf_fee tf) of None \<Rightarrow> (Some (Inl (AExternal ''fee'')), disk) | Some fees \<Rightarrow>
     let msg = BankSend sender (sf_to f) coins; options = toolOptions tf fees in
     case ge_signed (te_guard T) options [msg] of None \<Rightarrow> (Some (Inl (AExternal ''sign'')), disk) | Some tx \<Rightarrow>
     let out = \<lparr>sd_Message = ''bank.MsgSend signed tx encoded'', sd_From = sender, sd_To = sf_to f, sd_Amount = te_coinsString T coins,
         sd_Account = tf_accountNumber tf, sd_Sequence = tf_sequence tf, sd_TxHash = toUpper (hexEncode (te_hash T tx)),
         sd_TxBytesHex = hexEncode tx, sd_Broadcast = None, sd_MempoolSeen = False\<rparr> in
     if tf_dryRun tf then (Some (Inr out), disk)
     else case guardedSend T io tf sender options msg disk of
       (Inl e, disk') \<Rightarrow> (Some (Inl e), disk')
     | (Inr (result, path), disk') \<Rightarrow>
     case receiptNumbers T tf (sessionAt disk' path) of Inl e \<Rightarrow> (Some (Inl e), disk') | Inr (account, sequence) \<Rightarrow>
     case (if sf_checkMempool f then waitForGuardedMempool (te_hash T) (br_Hash result) (ti_rounds io) else Some (Inr False)) of
       None \<Rightarrow> (None, disk')
     | Some (Inl e) \<Rightarrow> (Some (Inl e), disk')
     | Some (Inr seen) \<Rightarrow> (Some (Inr (out\<lparr>sd_Message := ''bank.MsgSend broadcast_tx_sync completed'', sd_Account := account,
           sd_Sequence := sequence, sd_TxHash := br_Hash result, sd_TxBytesHex := [], sd_Broadcast := Some result,
           sd_MempoolSeen := seen\<rparr>)), disk'))"

section \<open>g503-validator\<close>

record validatorFlags =
  vf_tool :: toolFlags
  vf_action :: string
  vf_amount :: string
  vf_pubkeyFile :: string
  vf_moniker :: string

definition buildMsg :: "toolEnv \<Rightarrow> validatorFlags \<Rightarrow> string \<Rightarrow> string \<Rightarrow> aerror + toolMsg \<times> string" where
  "buildMsg T f signer valAddr =
     (if vf_action f = ''create-validator'' then
        (if vf_pubkeyFile f = [] then Inl (AErr ''-pubkey-file is required for create-validator'')
         else bind_r (te_pubKeyFile T (vf_pubkeyFile f)) (\<lambda>pubKey. case te_parseCoin T (vf_amount f) of
             None \<Rightarrow> Inl (AExternal ''amount'')
           | Some coin \<Rightarrow> (let msg = CreateValidator valAddr pubKey coin (vf_moniker f) in
               case te_createOk T msg of Some e \<Rightarrow> Inl e | None \<Rightarrow> Inr (msg, te_coinString T coin))))
      else if vf_action f = ''unbond'' then (case te_parseCoin T (vf_amount f) of
          None \<Rightarrow> Inl (AExternal ''amount'')
        | Some coin \<Rightarrow> Inr (Undelegate signer valAddr coin, te_coinString T coin))
      else if vf_action f = ''unjail'' then Inr (Unjail valAddr, [])
      else Inl (AErr (''unknown action '' @ vf_action f)))"

record validatorOutput =
  vo_Message :: string
  vo_Action :: string
  vo_Signer :: string
  vo_Validator :: string
  vo_Amount :: string
  vo_Account :: u64
  vo_Sequence :: u64
  vo_TxHash :: string
  vo_TxBytesHex :: string
  vo_Broadcast :: "BroadcastResult option"

definition validatorTool :: "toolEnv \<Rightarrow> toolIO \<Rightarrow> validatorFlags \<Rightarrow> toolDisk \<Rightarrow> (aerror + validatorOutput) \<times> toolDisk" where
  "validatorTool T io f disk = (let tf = vf_tool f in
     if tf_privKeyHex tf = [] then (Inl (AErr ''-privkey-hex is required''), disk)
     else case addressFromPrivateKeyHex T (tf_privKeyHex tf) of Inl e \<Rightarrow> (Inl e, disk) | Inr signer \<Rightarrow>
     let valAddr = te_valAddress T signer in
     case buildMsg T f signer valAddr of Inl e \<Rightarrow> (Inl e, disk) | Inr (msg, amount) \<Rightarrow>
     case te_parseCoins T (tf_fee tf) of None \<Rightarrow> (Inl (AExternal ''fee''), disk) | Some fees \<Rightarrow>
     let options = toolOptions tf fees in
     case ge_signed (te_guard T) options [msg] of None \<Rightarrow> (Inl (AExternal ''sign''), disk) | Some tx \<Rightarrow>
     let out = \<lparr>vo_Message = ''validator lifecycle tx encoded'', vo_Action = vf_action f, vo_Signer = signer, vo_Validator = valAddr,
         vo_Amount = amount, vo_Account = tf_accountNumber tf, vo_Sequence = tf_sequence tf,
         vo_TxHash = toUpper (hexEncode (te_hash T tx)), vo_TxBytesHex = hexEncode tx, vo_Broadcast = None\<rparr> in
     if tf_dryRun tf then (Inr out, disk)
     else case guardedSend T io tf signer options msg disk of
       (Inl e, disk') \<Rightarrow> (Inl e, disk')
     | (Inr (result, path), disk') \<Rightarrow>
     case receiptNumbers T tf (sessionAt disk' path) of Inl e \<Rightarrow> (Inl e, disk') | Inr (account, sequence) \<Rightarrow>
     (Inr (out\<lparr>vo_Message := ''validator lifecycle tx broadcast_tx_sync completed'', vo_Broadcast := Some result,
         vo_TxHash := br_Hash result, vo_TxBytesHex := (if gd_RequestID (tf_guard tf) = [] then vo_TxBytesHex out else []),
         vo_Account := account, vo_Sequence := sequence\<rparr>), disk'))"

section \<open>g503-ops\<close>

definition configTemplate :: json where
  "configTemplate = JObject [(''chain_id'', JText ''g503-local-1''), (''rpc_url'', JText ''http://127.0.0.1:26657''),
     (''risk_url'', JText ''http://127.0.0.1:8081''), (''risk_provider'', JText ''mock''), (''risk_api_key_env'', JText ''CHAINALYSIS_API_KEY''),
     (''llm_url'', JText ''http://127.0.0.1:8082''), (''llm_provider'', JText ''mock''), (''llm_model'', JText ''llama3.1''),
     (''agent_id'', JText ''validator-1''), (''key_file'', JText ''/etc/g503/agent-key.hex''),
     (''agent_api'', JObject [(''url'', JText ''http://127.0.0.1:8083''), (''token_env'', JText ''G503_AGENT_API_TOKEN''),
       (''role'', JText ''validator-agent''), (''mtls_cert_file'', JText []), (''mtls_key_file'', JText []), (''mtls_ca_file'', JText []),
       (''trusted_addresses'', JArray []), (''blocked_addresses'', JArray [])]),
     (''broadcast'', JObject [(''gas'', JNumber ''700000''), (''fee'', JText ''0stake'')])]"

record decisionFlags =
  df_tool :: toolFlags
  df_keyFile :: string
  df_caseID :: string
  df_reason :: string
  df_evidenceHex :: string

text \<open>\<open>keyFile\<close> is \<open>ReadKeyFile\<close>'s answer for the path.\<close>

definition decisionKey :: "(string \<Rightarrow> aerror + string) \<Rightarrow> decisionFlags \<Rightarrow> aerror + string" where
  "decisionKey keyFile f = (if tf_privKeyHex (df_tool f) = [] \<and> df_keyFile f \<noteq> [] then keyFile (df_keyFile f)
     else Inr (tf_privKeyHex (df_tool f)))"

definition decisionMsg :: "string \<Rightarrow> string \<Rightarrow> decisionFlags \<Rightarrow> aerror + request" where
  "decisionMsg command authority f =
     (if command = ''review-sanction'' then (case hexDecode (df_evidenceHex f) of
          Some evidence \<Rightarrow> if length evidence \<noteq> 32 then Inl (AErr ''-evidence-hash-hex must be a 32-byte SHA-256 hash'')
            else Inr (ReqReviewSanction \<lparr>wm_Authority = authority, wm_CaseId = df_caseID f, wm_Reason = df_reason f, wm_EvidenceHash = evidence\<rparr>)
        | None \<Rightarrow> Inl (AErr ''-evidence-hash-hex must be a 32-byte SHA-256 hash''))
      else Inr (ReqRevokeSanction \<lparr>rm_Authority = authority, rm_CaseId = df_caseID f, rm_Reason = df_reason f\<rparr>))"

record decisionOutput =
  do_Authority :: string
  do_Message :: request
  do_Broadcast :: "BroadcastResult option"

definition sanctionDecisionCmd ::
    "toolEnv \<Rightarrow> toolIO \<Rightarrow> (string \<Rightarrow> aerror + string) \<Rightarrow> string \<Rightarrow> decisionFlags \<Rightarrow> toolDisk \<Rightarrow> (aerror + decisionOutput) \<times> toolDisk" where
  "sanctionDecisionCmd T io keyFile command f disk =
     (if df_caseID f = [] then (Inl (AErr ''-case-id is required''), disk)
      else case decisionKey keyFile f of Inl e \<Rightarrow> (Inl e, disk) | Inr key \<Rightarrow>
      case signerNew (te_T T) (te_C T) ''authority'' key of Inl e \<Rightarrow> (Inl e, disk) | Inr s \<Rightarrow>
      case decisionMsg command (sg_Address s) f of Inl e \<Rightarrow> (Inl e, disk) | Inr msg \<Rightarrow>
      case te_parseCoins T (tf_fee (df_tool f)) of None \<Rightarrow> (Inl (AExternal ''fee''), disk) | Some fee \<Rightarrow>
      let tf = (df_tool f)\<lparr>tf_privKeyHex := key\<rparr>; out = \<lparr>do_Authority = sg_Address s, do_Message = msg, do_Broadcast = None\<rparr> in
      if tf_dryRun tf then (Inr out, disk)
      else case guardedSend T io tf (sg_Address s) (toolOptions tf fee) (ModuleMsg msg) disk of
        (Inl e, disk') \<Rightarrow> (Inl e, disk')
      | (Inr (result, path), disk') \<Rightarrow> (Inr (out\<lparr>do_Broadcast := Some result\<rparr>), disk'))"

text \<open>
  \<open>audit-bundle\<close>: the artifacts' contents under their names, and the hash a review is recorded with. The
  fields are the file names, in the order the code's map may yield them in.
\<close>

fun readArtifacts :: "(string \<Rightarrow> aerror + bytes) \<Rightarrow> (string \<times> string) list \<Rightarrow> aerror + (string \<times> bytes) list" where
  "readArtifacts readFile [] = Inr []"
| "readArtifacts readFile ((name, path) # rest) = (if path = [] then readArtifacts readFile rest
     else bind_r (readFile path) (\<lambda>bz. bind_r (readArtifacts readFile rest) (\<lambda>more'. Inr ((name, bz) # more'))))"

record auditBundle =
  ab_Reason :: string
  ab_Artifacts :: "(string \<times> string) list"
  ab_Contents :: "(string \<times> bytes) list"
  ab_EvidenceHashHex :: string

text \<open>\<open>contentsJSON\<close> sorts by key; the entries are inserted in that order.\<close>

definition auditBundleCmd ::
    "(bytes \<Rightarrow> bytes) \<Rightarrow> ((string \<times> bytes) list \<Rightarrow> bytes) \<Rightarrow> (string \<Rightarrow> aerror + bytes) \<Rightarrow> string \<Rightarrow> (string \<times> string) list \<Rightarrow> aerror + auditBundle" where
  "auditBundleCmd sha contentsJSON readFile reason paths = bind_r (readArtifacts readFile paths) (\<lambda>read.
     let contents = fold (\<lambda>(k, v). al_set k v) read [];
       artifacts = fold (\<lambda>(k, v). al_set k v) (filter (\<lambda>(name, path). path \<noteq> []) paths) [] in
     if contents = [] then Inl (AErr ''at least one evidence artifact is required'')
     else Inr \<lparr>ab_Reason = reason, ab_Artifacts = artifacts, ab_Contents = contents,
       ab_EvidenceHashHex = hexEncode (sha (contentsJSON contents))\<rparr>)"

text \<open>\<open>rotate-key\<close>: a new key file is created and never overwrites one; the address is of the key written.\<close>

record keyIO =
  ki_key :: bytes
  ki_create :: "aerror option"
  ki_write :: "aerror option"
  ki_close :: "aerror option"

definition rotateKeyCmd ::
    "toolEnv \<Rightarrow> keyIO \<Rightarrow> string \<Rightarrow> string \<Rightarrow> (string \<rightharpoonup> bytes) \<Rightarrow> (aerror + string \<times> string) \<times> (string \<rightharpoonup> bytes)" where
  "rotateKeyCmd T io out agentID files =
     (if out = [] then (Inl (AErr ''-out is required''), files)
      else case (if files out \<noteq> None then Some (AExternal ''file exists'') else ki_create io) of Some e \<Rightarrow> (Inl e, files) | None \<Rightarrow>
      case ki_write io of Some e \<Rightarrow> (Inl e, files(out \<mapsto> [])) | None \<Rightarrow>
      let files' = files(out \<mapsto> hexEncode (ki_key io) @ [newline]) in
      case ki_close io of Some e \<Rightarrow> (Inl e, files') | None \<Rightarrow>
      case signerNew (te_T T) (te_C T) agentID (hexEncode (ki_key io)) of Inl e \<Rightarrow> (Inl e, files')
      | Inr s \<Rightarrow> (Inr (sg_Address s, hexEncode (signerPublicKey (te_C T) s)), files'))"

section \<open>What the tools keep\<close>

datatype toolRun =
    SendRun toolIO sendFlags
  | ValidatorRun toolIO validatorFlags
  | DecisionRun toolIO "string \<Rightarrow> aerror + string" string decisionFlags

fun runTool :: "toolEnv \<Rightarrow> toolRun \<Rightarrow> toolDisk \<Rightarrow> toolDisk" where
  "runTool T (SendRun io f) disk = snd (sendTool T io f disk)"
| "runTool T (ValidatorRun io f) disk = snd (validatorTool T io f disk)"
| "runTool T (DecisionRun io keyFile command f) disk = snd (sanctionDecisionCmd T io keyFile command f disk)"

fun flagsOf :: "toolRun \<Rightarrow> toolFlags" where
  "flagsOf (SendRun io f) = sf_tool f"
| "flagsOf (ValidatorRun io f) = vf_tool f"
| "flagsOf (DecisionRun io keyFile command f) = df_tool f"

fun runTools :: "toolEnv \<Rightarrow> toolRun list \<Rightarrow> toolDisk \<Rightarrow> toolDisk" where
  "runTools T [] disk = disk"
| "runTools T (run # runs) disk = runTools T runs (runTool T run disk)"

text \<open>What sending does to the disk: nothing, or one \<open>Send\<close> on one session.\<close>

definition oneSend :: "toolEnv \<Rightarrow> toolDisk \<Rightarrow> toolDisk \<Rightarrow> bool" where
  "oneSend T disk disk' \<longleftrightarrow> disk' = disk \<or>
     (\<exists>path io id' options msgs. disk' = disk(path \<mapsto> snd (Send (te_guard T) io id' options msgs (sessionAt disk path))))"

lemma oneSend_refl [simp]: "oneSend T disk disk" by (simp add: oneSend_def)

lemma guardedSend_oneSend:
  assumes "guardedSend T io f namespace options msg disk = (r, disk')"
  shows "oneSend T disk disk'"
proof (cases "openSession (ti_place io) ((tf_guard f)\<lparr>gd_Namespace := namespace\<rparr>) (tf_chainID f) (tf_rpcURL f) disk")
  case (Inl e)
  with assms show ?thesis by (simp add: guardedSend_def)
next
  case (Inr o')
  obtain path pool where p: "o' = (path, pool)" by fastforce
  obtain result err s where sd: "Send (te_guard T) (ti_guard io) (gd_RequestID (tf_guard f)) options [msg] (sessionAt disk path) = ((result, err), s)"
    by (metis prod.collapse)
  then have "disk' = disk(path \<mapsto> snd (Send (te_guard T) (ti_guard io) (gd_RequestID (tf_guard f)) options [msg] (sessionAt disk path)))"
    using assms Inr p by (cases err) (simp_all add: guardedSend_def)
  then show ?thesis unfolding oneSend_def by blast
qed

lemma sendTool_disk:
  assumes "sendTool T io f disk = (r, disk')"
  shows "if tf_dryRun (sf_tool f) then disk' = disk else oneSend T disk disk'"
proof (cases "disk' = disk")
  case False
  then have "\<not> tf_dryRun (sf_tool f) \<and> (\<exists>sender options msg r'. guardedSend T io (sf_tool f) sender options msg disk = (r', disk'))"
    using assms by (auto simp: sendTool_def Let_def split: if_splits sum.splits option.splits prod.splits)
  then show ?thesis using guardedSend_oneSend by fastforce
qed simp

lemma validatorTool_disk:
  assumes "validatorTool T io f disk = (r, disk')"
  shows "if tf_dryRun (vf_tool f) then disk' = disk else oneSend T disk disk'"
proof (cases "disk' = disk")
  case False
  then have "\<not> tf_dryRun (vf_tool f) \<and> (\<exists>sender options msg r'. guardedSend T io (vf_tool f) sender options msg disk = (r', disk'))"
    using assms by (auto simp: validatorTool_def Let_def split: if_splits sum.splits option.splits prod.splits)
  then show ?thesis using guardedSend_oneSend by fastforce
qed simp

lemma sanctionDecisionCmd_disk:
  assumes "sanctionDecisionCmd T io keyFile command f disk = (r, disk')"
  shows "if tf_dryRun (df_tool f) then disk' = disk else oneSend T disk disk'"
proof (cases "disk' = disk")
  case False
  then have "\<not> tf_dryRun (df_tool f) \<and> (\<exists>tf sender options msg r'. guardedSend T io tf sender options msg disk = (r', disk'))"
    using assms by (auto simp: sanctionDecisionCmd_def Let_def split: if_splits sum.splits option.splits prod.splits)
  then show ?thesis using guardedSend_oneSend by fastforce
qed simp

lemma runTool_disk: "if tf_dryRun (flagsOf run) then runTool T run disk = disk else oneSend T disk (runTool T run disk)"
proof (cases run)
  case (SendRun io f)
  then show ?thesis using sendTool_disk [of T io f disk "fst (sendTool T io f disk)" "snd (sendTool T io f disk)"] by simp
next
  case (ValidatorRun io f)
  then show ?thesis using validatorTool_disk [of T io f disk "fst (validatorTool T io f disk)" "snd (validatorTool T io f disk)"] by simp
next
  case (DecisionRun io keyFile command f)
  then show ?thesis
    using sanctionDecisionCmd_disk [of T io keyFile command f disk "fst (sanctionDecisionCmd T io keyFile command f disk)"
        "snd (sanctionDecisionCmd T io keyFile command f disk)"] by simp
qed

definition diskRecorded :: "toolDisk \<Rightarrow> bool" where
  "diskRecorded disk \<longleftrightarrow> (\<forall>path. recorded (sessionAt disk path))"

lemma recordedD: "recorded s \<Longrightarrow> (Some k, tx) \<in> set (gs_sent s) \<Longrightarrow> \<exists>a. gs_bucket s k = Some (RequestRow a) \<and> ga_Tx a = tx"
  unfolding recorded_def by (metis fst_conv snd_conv)

lemma oneSend_recorded:
  assumes "oneSend T disk disk'" "diskRecorded disk"
  shows "diskRecorded disk' \<and> (\<forall>path. requestsKept (sessionAt disk path) (sessionAt disk' path))"
proof -
  consider "disk' = disk"
    | (sent) path io id' options msgs where "disk' = disk(path \<mapsto> snd (Send (te_guard T) io id' options msgs (sessionAt disk path)))"
    using assms(1) by (auto simp: oneSend_def)
  then show ?thesis
  proof cases
    case 1
    with assms(2) show ?thesis by (simp add: requestsKept_def)
  next
    case sent
    let ?s = "snd (Send (te_guard T) io id' options msgs (sessionAt disk path))"
    have "recorded ?s \<and> requestsKept (sessionAt disk path) ?s"
      using Send_keeps [of "te_guard T" io id' options msgs "sessionAt disk path" "fst (Send (te_guard T) io id' options msgs (sessionAt disk path))"]
        assms(2) by (simp add: diskRecorded_def)
    with assms(2) sent show ?thesis by (auto simp: diskRecorded_def sessionAt_def requestsKept_def)
  qed
qed

lemma runTools_recorded:
  "diskRecorded disk \<Longrightarrow> diskRecorded (runTools T runs disk)
     \<and> (\<forall>path. requestsKept (sessionAt disk path) (sessionAt (runTools T runs disk) path))"
proof (induction runs arbitrary: disk)
  case Nil
  then show ?case by (simp add: requestsKept_def)
next
  case (Cons run runs)
  have "oneSend T disk (runTool T run disk)" using runTool_disk [of run T disk] by (simp split: if_splits)
  from oneSend_recorded [OF this Cons.prems] Cons.IH [of "runTool T run disk"] show ?case by (simp add: requestsKept_def)
qed

section \<open>Property\<close>


definition sampleToolGuard :: "toolMsg guardEnv" where
  "sampleToolGuard = \<lparr>ge_signer = (\<lambda>_. Some ''me''), ge_unsigned = (\<lambda>ms. Some ''u''), ge_identity = (\<lambda>_ _ bz. bz),
     ge_signed = (\<lambda>_ ms. Some ''m''), ge_sha256 = (\<lambda>bz. bz)\<rparr>"

definition sampleTool :: toolEnv where
  "sampleTool = \<lparr>te_T = \<lparr>ToLower = (\<lambda>s. s), TrimSpace = (\<lambda>s. s)\<rparr>,
     te_C = \<lparr>cu_overflow = (\<lambda>_. False), cu_zero = (\<lambda>_. False), cu_address = (\<lambda>_. ''auth''), cu_public = (\<lambda>_. []), cu_sign = (\<lambda>_ _. None)\<rparr>,
     te_valAddress = (\<lambda>s. s), te_parseCoins = (\<lambda>_. Some []), te_parseCoin = (\<lambda>_. None), te_coinString = (\<lambda>_. []),
     te_coinsString = (\<lambda>_. []), te_pubKeyFile = (\<lambda>_. Inr []), te_createOk = (\<lambda>_. None), te_guard = sampleToolGuard, te_hash = (\<lambda>bz. bz)\<rparr>"

definition samplePlace :: toolPlace where
  "samplePlace = \<lparr>tp_stateEnv = ''/s'', tp_home = Inr ''/h'', tp_mkdir = None, tp_private = (\<lambda>_. True), tp_file = (\<lambda>_. Missing),
     tp_lock = None, tp_trim = (\<lambda>s. s),
     tp_parseURL = (\<lambda>_. Some \<lparr>ur_Scheme = ''http'', ur_Host = ''h'', ur_HasUser = False, ur_RawQuery = [], ur_Fragment = []\<rparr>),
     tp_sha256 = (\<lambda>_. ''s'')\<rparr>"

definition sampleDecision :: decisionFlags where
  "sampleDecision = \<lparr>df_tool = \<lparr>tf_guard = defaultGuardOptions\<lparr>gd_RequestID := ''r''\<rparr>, tf_rpcURL = ''http://h'', tf_chainID = ''g503'',
     tf_privKeyHex = replicate 64 (CHR ''1''), tf_accountNumber = 0, tf_sequence = 0, tf_gas = 0, tf_fee = [], tf_dryRun = False\<rparr>,
     df_keyFile = [], df_caseID = ''case'', df_reason = ''appeal'', df_evidenceHex = []\<rparr>"

definition revokeRun :: toolRun where
  "revokeRun = DecisionRun \<lparr>ti_place = samplePlace, ti_guard = sampleGuardIO, ti_rounds = []\<rparr> (\<lambda>_. Inr []) ''revoke-sanction'' sampleDecision"


end
