(* ===== verification/AgentMain.thy ===== *)
theory AgentMain
  imports Evaluation Lab
begin

text \<open>
  The command line of the signing agent: \<open>main\<close> in dev/agent/cmd/sanction-agent/main.go. Flags and the
  configuration file become the options of a run, flags given on the command line first; then exactly
  one mode is chosen, or the run is refused. The parsing of flags is outside: \<open>agentFlags\<close> holds their
  values and the names of those that were given.
\<close>

section \<open>Options\<close>

record agentFlags =
  af_explicit :: "string set"
  af_opts :: processOptions
  af_keyFile :: string
  af_trusted :: string
  af_blocked :: string
  af_rpcURL :: string
  af_rpcEndpoints :: string
  af_safety :: RPCSafety
  af_txPath :: string
  af_voteOnly :: bool
  af_executeOnly :: bool
  af_voteAction :: string
  af_rationaleHash :: string
  af_watch :: bool
  af_daemon :: bool
  af_stateDir :: string
  af_startHeight :: u64
  af_daemonStatus :: bool
  af_journalBackup :: string
  af_journalRestore :: string
  af_backupChecksum :: string
  af_printGenesis :: bool

text \<open>The rest of the configuration file, beside \<open>Config\<close>.\<close>

record daemonConfig =
  dg_RPCURL :: string
  dg_RPCEndpoints :: "string list"
  dg_MaxBlockAgeSeconds :: int
  dg_MaxFutureSkewSeconds :: int
  dg_ProbeTimeoutSeconds :: int
  dg_MinAgreement :: int
  dg_MaxHeightLag :: "u64 option"
  dg_Enabled :: bool
  dg_StateDir :: string
  dg_StartHeight :: u64
  dg_Trusted :: "string list"
  dg_Blocked :: "string list"

text \<open>A flag given on the command line is set again after the configuration has been applied.\<close>

definition given :: "agentFlags \<Rightarrow> string \<Rightarrow> 'a \<Rightarrow> 'a \<Rightarrow> 'a" where
  "given f name flag configured = (if name \<in> af_explicit f then flag else configured)"

definition explicitFirst :: "agentFlags \<Rightarrow> processOptions \<Rightarrow> processOptions" where
  "explicitFirst f c = (let o' = af_opts f in o'\<lparr>
     op_riskURL := given f ''risk-url'' (op_riskURL o') (op_riskURL c),
     op_riskProvider := given f ''risk-provider'' (op_riskProvider o') (op_riskProvider c),
     op_riskAPIKey := given f ''risk-api-key'' (op_riskAPIKey o') (op_riskAPIKey c),
     op_llmURL := given f ''llm-url'' (op_llmURL o') (op_llmURL c),
     op_llmProvider := given f ''llm-provider'' (op_llmProvider o') (op_llmProvider c),
     op_llmModel := given f ''llm-model'' (op_llmModel o') (op_llmModel c),
     op_agentAPIURL := given f ''agent-api-url'' (op_agentAPIURL o') (op_agentAPIURL c),
     op_agentAPIToken := given f ''agent-api-token'' (op_agentAPIToken o') (op_agentAPIToken c),
     op_agentAPIRole := given f ''agent-api-role'' (op_agentAPIRole o') (op_agentAPIRole c),
     op_mtlsCertFile := given f ''mtls-cert-file'' (op_mtlsCertFile o') (op_mtlsCertFile c),
     op_mtlsKeyFile := given f ''mtls-key-file'' (op_mtlsKeyFile o') (op_mtlsKeyFile c),
     op_mtlsCAFile := given f ''mtls-ca-file'' (op_mtlsCAFile o') (op_mtlsCAFile c),
     op_chainID := given f ''chain-id'' (op_chainID o') (op_chainID c),
     op_agentID := given f ''agent-id'' (op_agentID o') (op_agentID c),
     op_privKeyHex := given f ''privkey-hex'' (op_privKeyHex o') (op_privKeyHex c),
     op_accountNumber := given f ''account-number'' (op_accountNumber o') (op_accountNumber c),
     op_sequence := given f ''sequence'' (op_sequence o') (op_sequence c),
     op_gasLimit := given f ''gas'' (op_gasLimit o') (op_gasLimit c),
     op_fee := given f ''fee'' (op_fee o') (op_fee c)\<rparr>)"

text \<open>The flags that the rest of the file fills in where they were not given.\<close>

definition configuredSafety :: "agentFlags \<Rightarrow> daemonConfig \<Rightarrow> string \<Rightarrow> RPCSafety" where
  "configuredSafety f d chainID = (let s = af_safety f; pick = (\<lambda>name v k flag. given f name flag (if v \<noteq> 0 then v * k else flag)) in
     s\<lparr>rs_ChainID := chainID,
       rs_MaxBlockAge := pick ''rpc-max-block-age'' (dg_MaxBlockAgeSeconds d) 1000000000 (rs_MaxBlockAge s),
       rs_MaxFutureSkew := pick ''rpc-max-future-skew'' (dg_MaxFutureSkewSeconds d) 1000000000 (rs_MaxFutureSkew s),
       rs_ProbeTimeout := pick ''rpc-probe-timeout'' (dg_ProbeTimeoutSeconds d) 1000000000 (rs_ProbeTimeout s),
       rs_MinAgreement := pick ''rpc-min-agreement'' (dg_MinAgreement d) 1 (rs_MinAgreement s),
       rs_MaxHeightLag := given f ''rpc-max-height-lag'' (rs_MaxHeightLag s)
         (case dg_MaxHeightLag d of None \<Rightarrow> rs_MaxHeightLag s | Some l \<Rightarrow> l)\<rparr>)"

definition resolveFlags :: "(string \<Rightarrow> string) \<Rightarrow> Config \<Rightarrow> daemonConfig \<Rightarrow> agentFlags \<Rightarrow> agentFlags" where
  "resolveFlags getenv cfg d f = (let (c, keyFile) = applyConfigDefaults getenv cfg (af_opts f, af_keyFile f);
       opts = explicitFirst f c in
     f\<lparr>af_opts := opts,
       af_keyFile := given f ''key-file'' (af_keyFile f) keyFile,
       af_rpcURL := given f ''rpc-url'' (af_rpcURL f) (orNonEmpty (dg_RPCURL d) (af_rpcURL f)),
       af_rpcEndpoints := given f ''rpc-endpoints'' (af_rpcEndpoints f) (joinWith '','' (dg_RPCEndpoints d)),
       af_safety := configuredSafety f d (op_chainID opts),
       af_daemon := given f ''daemon'' (af_daemon f) (dg_Enabled d \<or> af_daemon f),
       af_stateDir := given f ''state-dir'' (af_stateDir f) (orNonEmpty (dg_StateDir d) (af_stateDir f)),
       af_startHeight := given f ''start-height'' (af_startHeight f) (orNonZero (dg_StartHeight d) (af_startHeight f))\<rparr>)"

section \<open>Modes\<close>

datatype agentMode =
    Fatal aerror
  | PrintGenesis string string
  | BackupJournal string string
  | ShowJournal string
  | RestoreJournal processOptions string string string
  | ControlTx processOptions bool bool string string
  | WatchPending processOptions
  | RunAgent processOptions string u64
  | EvaluateFile processOptions string

definition fatal :: "string \<Rightarrow> agentMode" where
  "fatal text = Fatal (AErr text)"

definition maintenanceCount :: "agentFlags \<Rightarrow> nat" where
  "maintenanceCount f = (if af_daemonStatus f then 1 else 0) + (if af_journalBackup f \<noteq> [] then 1 else 0)
     + (if af_journalRestore f \<noteq> [] then 1 else 0) + (if af_printGenesis f then 1 else 0)"

definition journalPath :: "agentFlags \<Rightarrow> string" where
  "journalPath f = cleanPath (af_stateDir f @ ''/agent.db'')"

text \<open>The options handed to every mode but the maintenance ones.\<close>

definition modeOptions :: "goText \<Rightarrow> daemonConfig \<Rightarrow> agentFlags \<Rightarrow> string \<Rightarrow> processOptions" where
  "modeOptions T d f key = (let lists = (\<lambda>name flag configured. splitCSV T (given f name flag
       (if configured \<noteq> [] then joinWith '','' configured else flag))) in
     (af_opts f)\<lparr>op_rpcSession := False, op_privKeyHex := key, op_broadcast := op_broadcast (af_opts f) \<or> af_daemon f,
       op_trustedAddrs := lists ''trusted-addresses'' (af_trusted f) (dg_Trusted d),
       op_blockedAddrs := lists ''blocked-addresses'' (af_blocked f) (dg_Blocked d), op_thresholds := None\<rparr>)"

definition selectMode :: "agentFlags \<Rightarrow> processOptions \<Rightarrow> agentMode" where
  "selectMode f opts =
     (if af_journalRestore f \<noteq> [] then
        (if af_stateDir f = [] then fatal ''journal-restore requires state-dir''
         else RestoreJournal opts (af_journalRestore f) (journalPath f) (af_backupChecksum f))
      else if op_retryIntent opts \<noteq> [] \<and> \<not> af_daemon f then fatal ''retry-intent requires daemon mode''
      else if af_voteOnly f \<or> af_executeOnly f then
        (if op_caseID opts = [] then fatal ''-case-id is required for -vote-only and -execute-only''
         else ControlTx opts (af_voteOnly f) (af_executeOnly f) (af_voteAction f) (af_rationaleHash f))
      else if af_watch f then WatchPending opts
      else if af_daemon f then
        (if af_voteOnly f \<or> af_executeOnly f \<or> af_txPath f \<noteq> [] then fatal ''daemon cannot be combined with one-shot modes''
         else RunAgent opts (af_stateDir f) (af_startHeight f))
      else if af_txPath f = [] then fatal ''-tx is required unless -watch is set''
      else EvaluateFile opts (af_txPath f))"

text \<open>\<open>readKey\<close> is \<open>ReadKeyFile\<close>; \<open>f\<close> the resolved flags.\<close>

definition chooseMode :: "goText \<Rightarrow> (string \<Rightarrow> aerror + string) \<Rightarrow> daemonConfig \<Rightarrow> agentFlags \<Rightarrow> agentMode" where
  "chooseMode T readKey d f =
     (if maintenanceCount f > 1 \<or> (maintenanceCount f > 0 \<and> op_retryIntent (af_opts f) \<noteq> [])
      then fatal ''journal commands and retry-intent are mutually exclusive''
      else if af_printGenesis f then PrintGenesis (af_rpcURL f) (op_chainID (af_opts f))
      else if af_journalBackup f \<noteq> [] then
        (if af_stateDir f = [] then fatal ''journal-backup requires state-dir'' else BackupJournal (journalPath f) (af_journalBackup f))
      else if af_daemonStatus f then
        (if af_stateDir f = [] then fatal ''daemon-status requires state-dir'' else ShowJournal (journalPath f))
      else if af_daemon f \<and> (af_watch f \<or> af_voteOnly f \<or> af_executeOnly f \<or> af_txPath f \<noteq> [])
      then fatal ''daemon cannot be combined with watch or one-shot modes''
      else case (if ''privkey-hex'' \<notin> af_explicit f \<and> af_keyFile f \<noteq> [] then readKey (af_keyFile f)
          else Inr (op_privKeyHex (af_opts f))) of
        Inl e \<Rightarrow> Fatal e
      | Inr key \<Rightarrow> (let opts = modeOptions T d f key in
          if af_journalRestore f = [] \<and> op_agentAPIURL opts \<noteq> [] \<and> (op_agentID opts = [] \<or> op_agentAPIToken opts = [])
          then fatal ''agent-id and agent API token are required when agent-api-url is set''
          else if op_broadcast opts \<and> (op_agentID opts = [] \<or> key = []) then fatal ''broadcast requires agent-id and a private key''
          else selectMode f opts))"

definition agentMain ::
    "goText \<Rightarrow> (string \<Rightarrow> string) \<Rightarrow> (string \<Rightarrow> aerror + string) \<Rightarrow> aerror + Config \<times> daemonConfig \<Rightarrow> agentFlags \<Rightarrow> agentMode" where
  "agentMain T getenv readKey loaded f = (case loaded of Inl e \<Rightarrow> Fatal e
     | Inr (cfg, d) \<Rightarrow> chooseMode T readKey d (resolveFlags getenv cfg d f))"

section \<open>What a mode implies\<close>

fun sendingMode :: "agentMode \<Rightarrow> processOptions option" where
  "sendingMode (ControlTx opts _ _ _ _) = Some opts"
| "sendingMode (WatchPending opts) = Some opts"
| "sendingMode (RunAgent opts _ _) = Some opts"
| "sendingMode (EvaluateFile opts _) = Some opts"
| "sendingMode _ = None"

text \<open>
  A run that may send is no maintenance run; when it broadcasts it has an agent id and a key; and what
  was given on the command line is what it uses, whatever the configuration file says.
\<close>

lemma selectMode_opts: "sendingMode (selectMode f opts) = Some o' \<Longrightarrow> o' = opts \<and> af_journalRestore f = []"
  by (auto simp: selectMode_def fatal_def split: if_splits)

lemma chooseMode_sending:
  assumes "sendingMode (chooseMode T readKey d f) = Some opts"
  shows "maintenanceCount f = 0 \<and> (op_broadcast opts \<longrightarrow> op_agentID opts \<noteq> [] \<and> op_privKeyHex opts \<noteq> [])
    \<and> (\<exists>key. opts = modeOptions T d f key)"
proof -
  obtain key where m: "opts = modeOptions T d f key" "op_broadcast opts \<longrightarrow> op_agentID opts \<noteq> [] \<and> key \<noteq> []"
    "af_journalRestore f = []" "\<not> af_printGenesis f" "af_journalBackup f = []" "\<not> af_daemonStatus f"
    using assms by (auto simp: chooseMode_def fatal_def Let_def dest!: selectMode_opts split: if_splits sum.splits)
  then show ?thesis by (auto simp: maintenanceCount_def modeOptions_def Let_def)
qed

end
