(* ===== verification/QueryServer.thy ===== *)
theory QueryServer
  imports Genesis
begin

text \<open>
  The query service: x/sanction/keeper/query_server.go. Each query reads the committed store and
  changes nothing. A hash that does not decode is the error \<open>hex.DecodeString\<close> gives.
\<close>

definition hexError :: error where
  "hexError = ErrText ''encoding/hex: invalid input''"

definition Query_Authority :: "Keeper \<Rightarrow> store \<Rightarrow> error + string" where
  "Query_Authority k s = Inr (GetAuthority k s)"

definition Query_OriginalTransfers :: "store \<Rightarrow> string \<Rightarrow> error + OriginalTransfer list" where
  "Query_OriginalTransfers s txHash = (case parseHexHash txHash of
     None \<Rightarrow> Inl ErrOriginalTransfer
   | Some hash \<Rightarrow> if length hash \<noteq> 32 then Inl ErrOriginalTransfer else Inr (GetOriginalTransfers s hash))"

definition Query_Settlements :: "store \<Rightarrow> string \<Rightarrow> error + SettlementRecord list" where
  "Query_Settlements s txHash = (case parseHexHash txHash of
     None \<Rightarrow> Inl ErrOriginalTransfer
   | Some hash \<Rightarrow> if length hash \<noteq> 32 then Inl ErrOriginalTransfer else Inr (GetSettlements s hash))"

definition orError :: "error \<Rightarrow> 'a option \<Rightarrow> error + 'a" where
  "orError e found = (case found of None \<Rightarrow> Inl e | Some x \<Rightarrow> Inr x)"

definition Query_Review :: "store \<Rightarrow> string \<Rightarrow> error + ReviewRecord" where
  "Query_Review s caseId = orError ErrReviewRequired (GetReview s caseId)"

definition Query_Params :: "store \<Rightarrow> error + Params" where
  "Query_Params s = Inr (GetParams s)"

definition Query_Agent :: "store \<Rightarrow> string \<Rightarrow> error + AgentInfo" where
  "Query_Agent s agentId = orError ErrAgentNotFound (GetAgent s agentId)"

definition Query_Agents :: "store \<Rightarrow> error + AgentInfo list" where
  "Query_Agents s = Inr (GetAllAgents s)"

definition Query_RiskReport :: "store \<Rightarrow> string \<Rightarrow> error + RiskReport" where
  "Query_RiskReport s reportId = orError ErrRiskReportNotFound (GetRiskReport s reportId)"

definition Query_RiskReportsByTx :: "store \<Rightarrow> string \<Rightarrow> error + RiskReport list" where
  "Query_RiskReportsByTx s txHash = (case parseHexHash txHash of
     None \<Rightarrow> Inl hexError | Some hash \<Rightarrow> Inr (GetRiskReportsByTx s hash))"

definition Query_SanctionCase :: "store \<Rightarrow> string \<Rightarrow> error + SanctionCase" where
  "Query_SanctionCase s caseId = orError ErrCaseNotFound (GetSanctionCase s caseId)"

definition Query_SanctionCasesByTx :: "store \<Rightarrow> string \<Rightarrow> error + SanctionCase list" where
  "Query_SanctionCasesByTx s txHash = (case parseHexHash txHash of
     None \<Rightarrow> Inl hexError | Some hash \<Rightarrow> Inr (GetSanctionCasesByTx s hash))"

definition Query_SanctionVotes :: "store \<Rightarrow> string \<Rightarrow> error + SanctionVote list" where
  "Query_SanctionVotes s caseId = Inr (GetSanctionVotes s caseId)"

definition Query_ActiveTxSanction :: "store \<Rightarrow> string \<Rightarrow> error + ActiveSanction" where
  "Query_ActiveTxSanction s txHash = (case parseHexHash txHash of
     None \<Rightarrow> Inl hexError | Some hash \<Rightarrow> orError ErrCaseNotFound (GetActiveTxSanction s hash))"

definition Query_FrozenAddress :: "store \<Rightarrow> string \<Rightarrow> error + FreezeRecord" where
  "Query_FrozenAddress s address = orError ErrCaseNotFound (GetFreezeRecord s address)"

definition Query_ExecutionRecord :: "store \<Rightarrow> string \<Rightarrow> error + ExecutionRecord" where
  "Query_ExecutionRecord s caseId = orError ErrCaseNotFound (GetExecutionRecord s caseId)"

end
