(* ===== verification/CaseIds.thy ===== *)
theory CaseIds
  imports TxManager
begin

text \<open>
  The names the daemons agree on without talking to each other: the case id of a transaction and of
  its recovery rounds (\<open>autoCaseID\<close> of dev/agent/cmd/sanction-agent/daemon.go, \<open>parseAutoCaseID\<close>
  and \<open>roundID\<close> of daemon_recovery.go). Every agent derives the same id from the same transaction.
  Hashes are ASCII hexadecimal, where \<open>strings.ToUpper\<close> is \<open>toUpper\<close>.
\<close>

definition autoCaseID :: "string \<Rightarrow> string" where
  "autoCaseID hash = ''auto-'' @ toUpper hash"

definition roundID :: "string \<Rightarrow> u64 \<Rightarrow> string" where
  "roundID hash n = (if n = 0 then autoCaseID hash else autoCaseID hash @ ''-r'' @ formatUint n)"

definition parseRound :: "string \<Rightarrow> aerror + u64" where
  "parseRound rest = (if rest = [] then Inr 0
     else if \<not> hasPrefix rest ''-r'' then Inl (AErr ''invalid recovery round'')
     else case parseUint64 (drop 2 rest) of None \<Rightarrow> Inl (AErr ''invalid recovery round'') | Some n \<Rightarrow>
       if n = 0 \<or> formatUint n \<noteq> drop 2 rest then Inl (AErr ''invalid recovery round'') else Inr n)"

definition parseAutoCaseID :: "string \<Rightarrow> aerror + string \<times> u64" where
  "parseAutoCaseID ident =
     (if \<not> hasPrefix ident ''auto-'' \<or> length ident < 69 then Inl (AErr ''invalid automatic case ID'')
      else let hash = take 64 (drop 5 ident) in
      if (case hexDecode hash of None \<Rightarrow> True | Some b \<Rightarrow> length b \<noteq> 32) \<or> hash \<noteq> toUpper hash
      then Inl (AErr ''invalid automatic tx hash'')
      else bind_r (parseRound (drop 69 ident)) (\<lambda>n. Inr (hash, n)))"

section \<open>Facts\<close>

lemma length_hexDecode: "hexDecode s = Some b \<Longrightarrow> length s = 2 * length b"
  by (induction s arbitrary: b rule: hexDecode.induct) (auto split: option.splits)

lemma parseRound_Inr: "parseRound rest = Inr n \<longleftrightarrow> rest = (if n = 0 then [] else ''-r'' @ formatUint n)"
proof
  assume "parseRound rest = Inr n"
  then show "rest = (if n = 0 then [] else ''-r'' @ formatUint n)"
    by (auto simp: parseRound_def elim!: hasPrefixE split: if_splits option.splits)
qed (auto simp: parseRound_def hasPrefix_def)

text \<open>The hash of a case id: 64 upper-case hexadecimal digits.\<close>

definition caseHash :: "string \<Rightarrow> bool" where
  "caseHash hash \<longleftrightarrow> length hash = 64 \<and> hexDecode hash \<noteq> None \<and> toUpper hash = hash"

lemma roundID_split: "toUpper hash = hash \<Longrightarrow> roundID hash n = ''auto-'' @ hash @ (if n = 0 then [] else ''-r'' @ formatUint n)"
  by (simp add: roundID_def autoCaseID_def)

lemma parse_roundID:
  assumes "caseHash hash"
  shows "parseAutoCaseID (roundID hash n) = Inr (hash, n)"
proof -
  obtain b where b: "hexDecode hash = Some b" using assms by (auto simp: caseHash_def)
  then have "length b = 32" using length_hexDecode [OF b] assms by (simp add: caseHash_def)
  moreover have "parseRound (if n = 0 then [] else ''-r'' @ formatUint n) = Inr n" by (simp add: parseRound_Inr)
  ultimately show ?thesis using assms b
    by (cases "n = 0") (simp_all add: parseAutoCaseID_def roundID_split caseHash_def hasPrefix_def Let_def)
qed

lemma parseAutoCaseID_Inr:
  assumes "parseAutoCaseID ident = Inr (hash, n)"
  shows "caseHash hash \<and> ident = roundID hash n"
proof -
  from assms have p: "hasPrefix ident ''auto-''" "length ident \<ge> 69" "hash = take 64 (drop 5 ident)"
    "parseRound (drop 69 ident) = Inr n" "hexDecode hash \<noteq> None" "toUpper hash = hash"
    by (auto simp: parseAutoCaseID_def Let_def bind_r_Inr_iff split: if_splits option.splits)
  then have "ident = ''auto-'' @ hash @ drop 69 ident"
    by (auto elim!: hasPrefixE)
  with p show ?thesis by (simp add: caseHash_def roundID_split parseRound_Inr)
qed

lemma roundID_inject:
  assumes "caseHash hash" "caseHash hash'"
  shows "roundID hash n = roundID hash' n' \<longleftrightarrow> hash = hash' \<and> n = n'"
  using parse_roundID [OF assms(1), of n] parse_roundID [OF assms(2), of n'] by (metis Inr_inject prod.inject)

lemma roundID_prefix: "hasPrefix (roundID hash n) ''auto-''"
  by (simp add: roundID_def autoCaseID_def hasPrefix_def)

lemma roundID_zero: "roundID hash 0 = autoCaseID hash"
  by (simp add: roundID_def)

lemma of_char_256: "(of_char c :: nat) < 256"
  by (metis char_of_char mod_less_divisor of_char_of zero_less_numeral)

lemma hexDecode_upper [simp]: "hexDecode (toUpper s) = hexDecode s"
proof -
  have "hex_val (upperChar c) = hex_val c" for c
    using of_char_256 [of c] by (auto simp: hex_val_def upperChar_def Let_def)
  then show ?thesis by (induction s rule: hexDecode.induct) (auto simp: toUpper_def split: option.splits)
qed

lemma toUpper_idem [simp]: "toUpper (toUpper s) = toUpper s"
proof -
  have "upperChar (upperChar c) = upperChar c" for c
    using of_char_256 [of c] by (auto simp: upperChar_def Let_def)
  then show ?thesis by (simp add: toUpper_def)
qed

lemma autoCaseID_toUpper [simp]: "autoCaseID (toUpper hash) = autoCaseID hash"
  by (simp add: autoCaseID_def)

lemma length_toUpper [simp]: "length (toUpper s) = length s"
  by (simp add: toUpper_def)

lemma caseHash_toUpper: "length s = 64 \<Longrightarrow> hexDecode s \<noteq> None \<Longrightarrow> caseHash (toUpper s)"
  by (simp add: caseHash_def)

lemma caseHash_hexEncode: "length b = 32 \<Longrightarrow> caseHash (toUpper (hexEncode b))"
  using length_hexDecode [OF hexDecode_hexEncode, of b] by (intro caseHash_toUpper) simp_all

lemma autoCaseID_inject: "caseHash hash \<Longrightarrow> caseHash hash' \<Longrightarrow> autoCaseID hash = autoCaseID hash' \<Longrightarrow> hash = hash'"
  by (simp add: autoCaseID_def caseHash_def)

section \<open>Round trip\<close>

text \<open>
  Case ids read back. An id parses to a transaction hash and a round exactly when it is the id
  that \<open>roundID\<close> gives for them and the hash is 64 upper-case hexadecimal digits, so no two ids stand
  for the same round and no foreign id passes for an automatic one.
\<close>

lemma case_id_roundtrip:
  "parseAutoCaseID ident = Inr (hash, n) \<longleftrightarrow> caseHash hash \<and> ident = roundID hash n"
  using parseAutoCaseID_Inr parse_roundID by blast

end
