(* ===== verification/Daemon.thy ===== *)
theory Daemon
  imports Evaluation CaseIds Ownership
begin

text \<open>
  The autonomous agent: dev/agent/cmd/sanction-agent/daemon.go and daemon_recovery.go. Each tick it
  secures its signing lease, reads every new block into the journal's work bucket, moves every open
  work item one stage on (review, propose, vote, execute, recover), and lets the transaction manager
  take one step.

  What the outside answers during one stage is a record \<open>daemonIO\<close>: the chain's queries at a height
  with their answers already unmarshalled (an error stands for a failed call, encoding or decoding),
  transaction lookups, blocks, and the evaluation services. Every stage of a tick has its own
  answers. The event lines on standard output are not modelled. The list a query returns holds no
  nil elements; the voters of a case are read through \<open>nonNil\<close> for the same reason.
\<close>

section \<open>State and answers\<close>

type_synonym work = "reviewOutput daemonWork"
type_synonym journal = "reviewOutput db"
type_synonym agentState = "reviewOutput mstate"

record 'b daemon =
  da_agent :: "'b agentEnv"
  da_opts :: processOptions
  da_manager :: "request manager"
  da_signer :: Signer

record daemonIO =
  dq_SanctionCasesByTx :: "u64 \<Rightarrow> string \<Rightarrow> aerror + SanctionCase list"
  dq_ExecutionRecord :: "u64 \<Rightarrow> string \<Rightarrow> aerror + ExecutionRecord option"
  dq_SanctionVotes :: "u64 \<Rightarrow> string \<Rightarrow> aerror + SanctionVote list"
  dq_RiskReport :: "u64 \<Rightarrow> string \<Rightarrow> aerror + RiskReport option"
  dq_Agents :: "u64 \<Rightarrow> aerror + AgentInfo list"
  dq_Params :: "u64 \<Rightarrow> aerror + Params option"
  dq_LookupTx :: "string \<Rightarrow> aerror + TxResult"
  dq_BlockTxs :: "u64 \<Rightarrow> aerror + bytes list \<times> u32 list"
  dq_PendingTxs :: "aerror + bytes list"
  dq_AccountAt :: "u64 \<Rightarrow> aerror + Account"
  dq_BroadcastTxSync :: "bytes \<Rightarrow> BroadcastResult \<times> aerror option"
  dq_validate :: pollRound
  dq_now :: int
  dq_nowRetry :: int
  dq_command :: commandIO

definition publicKey :: "'b daemon \<Rightarrow> bytes" where
  "publicKey D = signerPublicKey (ae_C (da_agent D)) (da_signer D)"

definition agentID :: "'b daemon \<Rightarrow> string" where
  "agentID D = op_agentID (da_opts D)"

text \<open>Whether a registry entry is this agent, under this key.\<close>

definition ownEntry :: "'b daemon \<Rightarrow> AgentInfo \<Rightarrow> bool" where
  "ownEntry D a = (ag_AgentId a = agentID D \<and> ag_SignerAddress a = sg_Address (da_signer D) \<and> ag_PublicKey a = publicKey D)"

definition getWork :: "journal \<Rightarrow> string \<Rightarrow> aerror + work option" where
  "getWork d hash = Store_Get d ''work'' (autoCaseID hash) unmarshalWork"

definition putWork :: "string \<Rightarrow> work \<Rightarrow> agentState \<Rightarrow> aerror option \<times> agentState" where
  "putWork hash w st = (case Store_Put (ms_db st) ''work'' (autoCaseID hash) (WorkRow w) of
     Inl e \<Rightarrow> (Some e, st) | Inr d \<Rightarrow> (None, st\<lparr>ms_db := d\<rparr>))"

text \<open>Go's \<open>String()\<close> of the status enum.\<close>

fun statusString :: "CaseStatus \<Rightarrow> string" where
  "statusString CASE_STATUS_UNSPECIFIED = ''CASE_STATUS_UNSPECIFIED''"
| "statusString CASE_STATUS_PENDING = ''CASE_STATUS_PENDING''"
| "statusString CASE_STATUS_APPROVED = ''CASE_STATUS_APPROVED''"
| "statusString CASE_STATUS_REJECTED = ''CASE_STATUS_REJECTED''"
| "statusString CASE_STATUS_EXECUTED = ''CASE_STATUS_EXECUTED''"
| "statusString CASE_STATUS_EXPIRED = ''CASE_STATUS_EXPIRED''"
| "statusString CASE_STATUS_REVOKED = ''CASE_STATUS_REVOKED''"
| "statusString (CASE_STATUS_OTHER n) = formatInt (sint n)"

section \<open>Is an intent still wanted? (\<open>getCase\<close>, \<open>satisfied\<close>)\<close>

definition getCase :: "daemonIO \<Rightarrow> string \<Rightarrow> u64 \<Rightarrow> aerror + SanctionCase option" where
  "getCase io ident height =
     (if \<not> hasPrefix ident ''auto-'' then Inl (AErr ''invalid automatic case ID'')
      else bind_r (parseAutoCaseID ident) (\<lambda>(hash, _).
        bind_r (dq_SanctionCasesByTx io height hash) (\<lambda>cs. Inr (find (\<lambda>c. sc_CaseId c = ident) cs))))"

definition closedStatus :: "CaseStatus \<Rightarrow> bool" where
  "closedStatus s \<longleftrightarrow> s \<in> {CASE_STATUS_REJECTED, CASE_STATUS_REVOKED, CASE_STATUS_EXPIRED}"

definition openWanted :: "journal \<Rightarrow> Intent \<Rightarrow> SanctionCase option \<Rightarrow> aerror + bool" where
  "openWanted d i c = (if c \<noteq> None then Inr True else
     bind_r (parseAutoCaseID (it_CaseID i)) (\<lambda>(hash, _).
     bind_r (getWork d hash) (\<lambda>found. case found of
       Some w \<Rightarrow> if wk_Done w \<and> wk_Result w = ''no_action'' then Inl ErrObsolete else Inr False
     | None \<Rightarrow> Inr False)))"

definition executedAsAsked :: "daemonIO \<Rightarrow> Intent \<Rightarrow> SanctionCase \<Rightarrow> u64 \<Rightarrow> aerror + bool" where
  "executedAsAsked io i c height = bind_r (dq_ExecutionRecord io height (it_CaseID i)) (\<lambda>record.
     let expectedResult = (if sc_RequestedAction c = SANCTION_ACTION_WATCH then ''watch_only'' else ''ok'') in
     Inr (case record of None \<Rightarrow> False | Some r \<Rightarrow> er_CaseId r = it_CaseID i \<and> er_ResultCode r = expectedResult))"

text \<open>The agent's own review must still stand and agree with the case before it executes.\<close>

definition executeWanted :: "journal \<Rightarrow> Intent \<Rightarrow> SanctionCase \<Rightarrow> u64 \<Rightarrow> aerror + bool" where
  "executeWanted d i c height = bind_r (parseAutoCaseID (it_CaseID i)) (\<lambda>(hash, _).
     bind_r (getWork d hash) (\<lambda>found. case found of
       None \<Rightarrow> Inl ErrReevaluationRequired
     | Some w \<Rightarrow> if wk_CaseID w \<noteq> it_CaseID i then Inl ErrObsolete
         else (case wk_Review w of
           None \<Rightarrow> Inl ErrReevaluationRequired
         | Some review \<Rightarrow> (case ou_RiskReport review of
             None \<Rightarrow> Inl ErrReevaluationRequired
           | Some report \<Rightarrow>
               if rr_ExpiryHeight report \<le> height + 1 then Inl ErrReevaluationRequired
               else bind_r (parseSanctionAction (ou_Action review)) (\<lambda>action.
                 if action \<noteq> sc_RequestedAction c then Inl ErrObsolete else Inr False)))))"

definition votedAlready :: "'b daemon \<Rightarrow> SanctionVote list \<Rightarrow> bool" where
  "votedAlready D votes = (\<exists>v \<in> set votes. sv_AgentId v = agentID D)"

definition satisfied :: "'b daemon \<Rightarrow> daemonIO \<Rightarrow> journal \<Rightarrow> Intent \<Rightarrow> u64 \<Rightarrow> aerror + bool" where
  "satisfied D io d i height = bind_r (getCase io (it_CaseID i) height) (\<lambda>found.
     if it_Kind i = ''open'' then openWanted d i found
     else case found of None \<Rightarrow> Inr False | Some c \<Rightarrow>
     if it_Kind i = ''execute'' \<and> sc_ExecutedHeight c > 0 then executedAsAsked io i c height
     else bind_r (if it_Kind i = ''vote'' then dq_SanctionVotes io height (it_CaseID i) else Inr []) (\<lambda>votes.
     if votedAlready D votes then Inr True
     else if closedStatus (sc_Status c) \<or> sc_Status c = CASE_STATUS_EXECUTED then Inl ErrObsolete
     else if it_Kind i = ''vote'' \<and> sc_Status c = CASE_STATUS_APPROVED
             \<and> sc_RequestedAction c \<noteq> SANCTION_ACTION_REVERT_TRANSFER then Inl ErrObsolete
     else if it_Kind i = ''execute'' then executeWanted d i c height
     else Inr False))"

section \<open>Watching the chain (\<open>observe\<close>, \<open>scan\<close>)\<close>

definition newWork :: "string \<Rightarrow> string \<Rightarrow> string \<Rightarrow> DecodedTransfer list \<Rightarrow> u64 \<Rightarrow> work" where
  "newWork previous caseID hash transfers height = zeroWork\<lparr>wk_PreviousCaseID := previous, wk_CaseID := caseID, wk_Hash := hash,
     wk_Transfers := transfers, wk_SeenHeight := height\<rparr>"

text \<open>Storing a work item unless there is one for the transaction already.\<close>

definition addWork :: "string \<Rightarrow> work \<Rightarrow> agentState \<Rightarrow> aerror option \<times> agentState" where
  "addWork hash w st = (case getWork (ms_db st) hash of
     Inl e \<Rightarrow> (Some e, st) | Inr (Some existing) \<Rightarrow> (None, st) | Inr None \<Rightarrow> putWork hash w st)"

definition observe :: "'b daemon \<Rightarrow> PendingTx \<Rightarrow> u64 \<Rightarrow> agentState \<Rightarrow> aerror option \<times> agentState" where
  "observe D tx height st = (case DecodeTransfers (ae_E (da_agent D)) (ae_decoder (da_agent D)) tx of
     Inl e \<Rightarrow> (Some e, st)
   | Inr transfers \<Rightarrow>
       if transfers = [] then (None, st)
       else let hash = toUpper (pt_Hash tx) in
         addWork hash (newWork [] (autoCaseID hash) hash (map (\<lambda>t. t\<lparr>dt_TxHash := hash\<rparr>) transfers) height) st)"

text \<open>A case opened by another agent for a transaction this one has not seen.\<close>

definition observeOpen :: "u64 \<Rightarrow> MsgOpenSanctionCase \<Rightarrow> agentState \<Rightarrow> aerror option \<times> agentState" where
  "observeOpen h msg st = (case parseAutoCaseID (oc_CaseId msg) of
     Inl e \<Rightarrow> (None, st)
   | Inr (caseHash', _) \<Rightarrow>
       if \<not> equalFold caseHash' (hexEncode (oc_TxHash msg)) then (None, st)
       else addWork caseHash' (newWork (oc_PreviousCaseId msg) (oc_CaseId msg) (toUpper (hexEncode (oc_TxHash msg))) [] h) st)"

fun observeOpens :: "u64 \<Rightarrow> txMsg list \<Rightarrow> agentState \<Rightarrow> aerror option \<times> agentState" where
  "observeOpens h [] st = (None, st)"
| "observeOpens h (OpenCase msg # msgs) st = (case observeOpen h msg st of
     (Some e, st') \<Rightarrow> (Some e, st') | (None, st') \<Rightarrow> observeOpens h msgs st')"
| "observeOpens h (_ # msgs) st = observeOpens h msgs st"

text \<open>One block: the transactions that succeeded, with their result codes.\<close>

fun scanTxs :: "'b daemon \<Rightarrow> u64 \<Rightarrow> bytes list \<Rightarrow> u32 list \<Rightarrow> agentState \<Rightarrow> aerror option \<times> agentState" where
  "scanTxs D h [] codes st = (None, st)"
| "scanTxs D h (bz # txs) [] st = (Some APanic, st)"
| "scanTxs D h (bz # txs) (code # codes) st =
     (if code \<noteq> 0 then scanTxs D h txs codes st
      else case observe D \<lparr>pt_Bytes = bz, pt_Hash = toUpper (hexEncode (TxHash (ae_E (da_agent D)) bz))\<rparr> h st of
        (Some e, st') \<Rightarrow> (Some e, st')
      | (None, st') \<Rightarrow> (case ae_decoder (da_agent D) bz of
          None \<Rightarrow> (Some (AExternal ''tx decode''), st')
        | Some msgs \<Rightarrow> (case observeOpens h msgs st' of
            (Some e, st'') \<Rightarrow> (Some e, st'') | (None, st'') \<Rightarrow> scanTxs D h txs codes st'')))"

definition putCursor :: "u64 \<Rightarrow> agentState \<Rightarrow> aerror option \<times> agentState" where
  "putCursor h st = (case Store_Put (ms_db st) ''meta'' ''cursor'' (NumberRow h) of
     Inl e \<Rightarrow> (Some e, st) | Inr d \<Rightarrow> (None, st\<lparr>ms_db := d\<rparr>))"

text \<open>
  The loop over \<open>n\<close> blocks from \<open>h\<close> on. A tick refuses a height at which a report's expiry would
  overflow, so the last block is below \<open>2 ^ 64 - 1\<close> and the source's \<open>h <= end\<close> ends there too.
\<close>

fun scanBlocks :: "'b daemon \<Rightarrow> daemonIO \<Rightarrow> u64 \<Rightarrow> nat \<Rightarrow> agentState \<Rightarrow> aerror option \<times> agentState" where
  "scanBlocks D io h 0 st = (None, st)"
| "scanBlocks D io h (Suc n) st = (case dq_BlockTxs io h of
     Inl e \<Rightarrow> (Some e, st)
   | Inr (txs, codes) \<Rightarrow> (case scanTxs D h txs codes st of
       (Some e, st') \<Rightarrow> (Some e, st')
     | (None, st') \<Rightarrow> (case putCursor h st' of
         (Some e, st'') \<Rightarrow> (Some e, st'') | (None, st'') \<Rightarrow> scanBlocks D io (h + 1) n st'')))"

text \<open>The cursor, zero if the journal has none.\<close>

definition cursorOf :: "journal \<Rightarrow> aerror + u64" where
  "cursorOf d = bind_r (Store_Get d ''meta'' ''cursor'' unmarshalUint64) (\<lambda>found. Inr (case found of None \<Rightarrow> 0 | Some n \<Rightarrow> n))"

definition scan :: "'b daemon \<Rightarrow> daemonIO \<Rightarrow> u64 \<Rightarrow> agentState \<Rightarrow> aerror option \<times> agentState" where
  "scan D io height st = (case cursorOf (ms_db st) of
     Inl e \<Rightarrow> (Some e, st)
   | Inr cursor \<Rightarrow>
       if cursor > height then (Some (AErr ''chain tip is behind durable cursor''), st)
       else let end' = (if height - cursor > 25 then cursor + 25 else height)
         in scanBlocks D io (cursor + 1) (unat (end' - cursor)) st)"

fun observeAll :: "'b daemon \<Rightarrow> u64 \<Rightarrow> bytes list \<Rightarrow> agentState \<Rightarrow> agentState" where
  "observeAll D h [] st = st"
| "observeAll D h (tx # txs) st = observeAll D h txs
     (snd (observe D \<lparr>pt_Bytes = tx, pt_Hash = hexEncode (TxHash (ae_E (da_agent D)) tx)\<rparr> h st))"

section \<open>The case of a work item (daemon_recovery.go)\<close>

text \<open>\<open>byID[id]\<close>: the map keeps the last case of an id.\<close>

definition byID :: "SanctionCase list \<Rightarrow> string \<Rightarrow> SanctionCase option" where
  "byID cs ident = find (\<lambda>c. sc_CaseId c = ident) (rev cs)"

text \<open>From the root case to the last round whose cases are chained by \<open>PreviousCaseId\<close>.\<close>

function followRounds :: "SanctionCase list \<Rightarrow> string \<Rightarrow> SanctionCase \<Rightarrow> u64 \<Rightarrow> SanctionCase \<times> u64" where
  "followRounds cs hash c round =
     (if round < - 1 then
        (case byID cs (roundID hash (round + 1)) of
           None \<Rightarrow> (c, round)
         | Some next' \<Rightarrow> if sc_PreviousCaseId next' \<noteq> sc_CaseId c then (c, round)
             else followRounds cs hash next' (round + 1))
      else (c, round))"
  by pat_completeness auto
termination
proof (relation "measure (\<lambda>(cs, hash, c, round). 2 ^ 64 - unat round)")
  fix cs hash c and "round" :: u64 and next'
  assume "round < - 1"
  then have "unat (round + 1) = unat round + 1" by (intro word_add_1_unat) auto
  moreover have "unat round < 2 ^ 64" using unsigned_less [of "round", where ?'a = nat] by simp
  ultimately show "((cs, hash, next', round + 1), cs, hash, c, round) \<in> measure (\<lambda>(cs, hash, c, round). 2 ^ 64 - unat round)"
    by simp
qed simp

declare followRounds.simps [simp del]

definition caseReport :: "daemonIO \<Rightarrow> SanctionCase \<Rightarrow> u64 \<Rightarrow> string \<Rightarrow> string \<Rightarrow> aerror + RiskReport" where
  "caseReport io c height noReport missing = (case sc_ReportIds c of
     [] \<Rightarrow> Inl (AErr noReport)
   | rid # _ \<Rightarrow> bind_r (dq_RiskReport io height rid) (\<lambda>r. case r of None \<Rightarrow> Inl (AErr missing) | Some report \<Rightarrow> Inr report))"

text \<open>The fields of a report that name the transfer it judges.\<close>

definition reportMatches :: "DecodedTransfer \<Rightarrow> RiskReport \<Rightarrow> bool" where
  "reportMatches t r = (dt_MessageIndex t = rr_MessageIndex r \<and> dt_Sender t = rr_Sender r \<and> dt_Recipient t = rr_Recipient r
     \<and> dt_Amount t = rr_Amount r \<and> dt_Denom t = rr_Denom r)"

definition sameSend :: "RiskReport option \<Rightarrow> RiskReport \<Rightarrow> bool" where
  "sameSend old r = (case old of None \<Rightarrow> False | Some o' \<Rightarrow> rr_MessageIndex o' = rr_MessageIndex r \<and> rr_Sender o' = rr_Sender r
     \<and> rr_Recipient o' = rr_Recipient r \<and> rr_Amount o' = rr_Amount r \<and> rr_Denom o' = rr_Denom r)"

text \<open>
  \<open>bindOriginal\<close>: the case must be about a bank send that is found, successful and committed, and its
  report must repeat that send exactly; the work item then holds that transfer alone.
\<close>

definition bindOriginal :: "'b daemon \<Rightarrow> daemonIO \<Rightarrow> work \<Rightarrow> SanctionCase \<Rightarrow> u64 \<Rightarrow> aerror + work" where
  "bindOriginal D io w c height = bind_r (dq_LookupTx io (wk_Hash w)) (\<lambda>original.
     if \<not> tr_Found original \<or> tr_Code original \<noteq> 0 \<or> tr_Height original > height
     then Inl (AErr ''case original is not a confirmed successful transfer'')
     else bind_r (caseReport io c height ''case missing report'' ''case missing primary report'') (\<lambda>r.
     bind_r (DecodeTransfers (ae_E (da_agent D)) (ae_decoder (da_agent D))
        \<lparr>pt_Bytes = tr_Tx original, pt_Hash = wk_Hash w\<rparr>) (\<lambda>transfers.
     case find (\<lambda>t. reportMatches t r \<and> sc_TxHash c = rr_TxHash r \<and> sc_TargetAddress c = rr_Recipient r) transfers of
       None \<Rightarrow> Inl (AErr ''case report does not match original bank transfer; manual review required'')
     | Some t \<Rightarrow> Inr (w\<lparr>wk_Transfers := [t],
         wk_Review := (case wk_Review w of None \<Rightarrow> None
           | Some review \<Rightarrow> if sameSend (ou_RiskReport review) r then Some review else None)\<rparr>))))"

definition votingOver :: "SanctionCase \<Rightarrow> u64 \<Rightarrow> bool" where
  "votingOver c height = (sc_Status c = CASE_STATUS_PENDING \<and> sc_VotingDeadlineHeight c < height)"

text \<open>The next round of an expired case: its work starts over under the new case id.\<close>

definition nextRound :: "work \<Rightarrow> SanctionCase \<Rightarrow> u64 \<Rightarrow> u64 \<Rightarrow> work" where
  "nextRound w c round height = (let ident = roundID (wk_Hash w) (round + 1);
     w1 = (if wk_CaseID w \<noteq> ident then w\<lparr>wk_Review := None, wk_ApprovedHeight := 0, wk_SeenHeight := height\<rparr> else w)
     in w1\<lparr>wk_CaseID := ident, wk_PreviousCaseID := sc_CaseId c\<rparr>)"

text \<open>Taking up the case itself.\<close>

definition adoptCase :: "work \<Rightarrow> SanctionCase \<Rightarrow> work" where
  "adoptCase w c = (if wk_CaseID w \<noteq> sc_CaseId c
     then w\<lparr>wk_CaseID := sc_CaseId c, wk_PreviousCaseID := sc_PreviousCaseId c, wk_Review := None, wk_ApprovedHeight := 0\<rparr> else w)"

definition recoveryCase :: "'b daemon \<Rightarrow> daemonIO \<Rightarrow> work \<Rightarrow> u64 \<Rightarrow> aerror + SanctionCase option \<times> work" where
  "recoveryCase D io w height = bind_r (dq_SanctionCasesByTx io height (wk_Hash w)) (\<lambda>cs.
     case byID cs (autoCaseID (wk_Hash w)) of
       None \<Rightarrow> Inr (None, w)
     | Some root \<Rightarrow> (case followRounds cs (wk_Hash w) root 0 of (c, round) \<Rightarrow>
         if sc_ExecutedHeight c > 0 \<or> sc_Status c = CASE_STATUS_REVOKED \<or> sc_Status c = CASE_STATUS_REJECTED
         then Inr (Some c, w\<lparr>wk_CaseID := sc_CaseId c\<rparr>)
         else bind_r (caseReport io c height ''case missing evidence'' ''case missing report'') (\<lambda>r.
           if (rr_ExpiryHeight r \<le> height + 1 \<or> sc_Status c = CASE_STATUS_EXPIRED \<or> votingOver c height)
              \<and> sc_TargetType c = SANCTION_TARGET_TYPE_ADDRESS
           then (if rr_ExpiryHeight r > height \<and> \<not> votingOver c height \<and> sc_Status c \<noteq> CASE_STATUS_EXPIRED then Inr (Some c, w)
             else if round = - 1 then Inl (AErr ''recovery round overflow'')
             else bind_r (bindOriginal D io w c height) (\<lambda>w'. Inr (None, nextRound w' c round height)))
           else Inr (Some c, adoptCase w c))))"

section \<open>Reviewing and proposing (daemon_recovery.go)\<close>

text \<open>An evaluation that does not broadcast leaves the guard session alone, so it starts from an empty one.\<close>

definition emptyGuard :: guardSession where
  "emptyGuard = \<lparr>gs_bucket = Map.empty, gs_sent = []\<rparr>"

definition evaluationOptions :: "'b daemon \<Rightarrow> u64 \<Rightarrow> u64 \<Rightarrow> Params \<Rightarrow> processOptions" where
  "evaluationOptions D height ttl params = (da_opts D)\<lparr>op_broadcast := False, op_height := height, op_expiryHeight := height + ttl,
     op_txConfirmed := (op_targetType (da_opts D) = ''address''), op_thresholds := Some (thresholdsOf params)\<rparr>"

definition evaluationTTL :: "'b daemon \<Rightarrow> Params \<Rightarrow> u64" where
  "evaluationTTL D params = (let ttl = op_expiryHeight (da_opts D) - op_height (da_opts D)
     in if p_EvidenceTtlBlocks params < ttl then p_EvidenceTtlBlocks params else ttl)"

definition evaluateWork ::
    "'b daemon \<Rightarrow> daemonIO \<Rightarrow> work \<Rightarrow> u64 \<Rightarrow> Params \<Rightarrow> agentState \<Rightarrow> (aerror + work) \<times> agentState" where
  "evaluateWork D io w height params st = (let ttl = evaluationTTL D params in
     if wk_Transfers w = [] then (Inl (AErr ''no original transfer for re-evaluation''), st)
     else if ttl < 3 \<or> height > - 1 - ttl
     then (Inl (AErr ''evidence TTL must allow at least three blocks and not overflow''), st)
     else case fst (processPendingTransfers (da_agent D) (dq_command io) (wk_Transfers w) (evaluationOptions D height ttl params) emptyGuard) of
       Inl e \<Rightarrow> (Inl e, st)
     | Inr review \<Rightarrow> (let w' = w\<lparr>wk_Review := Some review\<rparr> in
         case putWork (wk_Hash w') w' st of (Some e, st') \<Rightarrow> (Inl e, st') | (None, st') \<Rightarrow> (Inr w', st')))"

definition reportIDFor :: "work \<Rightarrow> RiskReport \<Rightarrow> string" where
  "reportIDFor w r = ''auto-report-'' @ wk_CaseID w @ ''-h'' @ formatUint (rr_ObservedHeight r)"

definition openMessages :: "'b daemon \<Rightarrow> work \<Rightarrow> aerror + request list" where
  "openMessages D w = (case wk_Review w of None \<Rightarrow> Inl (AErr ''missing fresh review'') | Some review \<Rightarrow>
     (case ou_RiskReport review of None \<Rightarrow> Inl (AErr ''missing fresh review'') | Some r0 \<Rightarrow>
      bind_r (SignRiskReport (ae_E (da_agent D)) (ae_C (da_agent D)) (da_signer D) (op_chainID (da_opts D))
         (Some (r0\<lparr>rr_ReportId := reportIDFor w r0\<rparr>))) (\<lambda>report.
      bind_r (parseSanctionAction (ou_Action review)) (\<lambda>action.
      if action = SANCTION_ACTION_UNSPECIFIED then Inl ErrObsolete else
      bind_r (parseTargetType (op_targetType (da_opts D))) (\<lambda>target.
      Inr [ReqSubmitRiskReport \<lparr>sm_Submitter = sg_Address (da_signer D), sm_Report = Some report\<rparr>,
           ReqOpenSanctionCase \<lparr>oc_Submitter = sg_Address (da_signer D), oc_CaseId = wk_CaseID w, oc_TxHash = rr_TxHash report,
             oc_TargetAddress = rr_Recipient report, oc_TargetType = target, oc_RequestedAction = action,
             oc_ReportIds = [rr_ReportId report], oc_PolicyVersion = rr_PolicyVersion report,
             oc_PreviousCaseId = wk_PreviousCaseID w\<rparr>])))))"

definition expiredFailure :: "Intent \<Rightarrow> bool" where
  "expiredFailure i = (if it_Attempts i = [] then False else let a = last (it_Attempts i) in
     (at_Codespace a = ''sanction'' \<and> at_Code a = 6) \<or> (at_CheckCodespace a = ''sanction'' \<and> at_CheckCode a = 6))"

definition caseMember :: "'b daemon \<Rightarrow> SanctionCase option \<Rightarrow> bool" where
  "caseMember D c = (case c of None \<Rightarrow> False
     | Some c \<Rightarrow> sc_VotingSnapshotVersion c = 1 \<and> (\<exists>a \<in> set (nonNil (sc_Voters c)). ownEntry D a))"

text \<open>The signed vote of a review on a case: approve exactly the action the review asks for.\<close>

definition reviewVote ::
    "'b daemon \<Rightarrow> string \<Rightarrow> reviewOutput \<Rightarrow> SanctionAction \<Rightarrow> SanctionCase \<Rightarrow> u64 \<Rightarrow> string \<Rightarrow> aerror + request" where
  "reviewVote D caseID review action c height reasonCode = (case ou_RiskReport review of None \<Rightarrow> Inl APanic | Some report \<Rightarrow>
     bind_r (SignVote (ae_C (da_agent D)) (da_signer D) (op_chainID (da_opts D)) (Some \<lparr>sv_CaseId = caseID, sv_AgentId = [],
        sv_Option = (if action \<noteq> sc_RequestedAction c then VOTE_OPTION_REJECT else VOTE_OPTION_APPROVE),
        sv_ApprovedAction = sc_RequestedAction c, sv_ReasonCode = reasonCode, sv_RationaleHash = rr_LlmRationaleHash report,
        sv_SignedHeight = height, sv_Signature = []\<rparr>)) (\<lambda>v.
     Inr (ReqSubmitSanctionVote \<lparr>vm_Submitter = sg_Address (da_signer D), vm_Vote = Some v\<rparr>)))"

end
