(* ===== verification/WorkSpec.thy ===== *)
theory WorkSpec
  imports Daemon TxSpec
begin

text \<open>
  What the daemon promises about its journal, and the frame of the transaction manager's operations:
  they write no bucket but the intents, and hand no bytes to the network unless the ownership check
  before the send succeeded. Both are relations between states that are kept by a save, so one locale
  carries them through every operation of the manager.
\<close>

section \<open>Relations kept by the manager\<close>

locale manager_relation =
  fixes R :: "'r mstate \<Rightarrow> 'r mstate \<Rightarrow> bool" and io :: chainIO
  assumes R_refl: "R st st"
    and R_trans: "R st st' \<Longrightarrow> R st' st'' \<Longrightarrow> R st st''"
    and R_put: "Store_Put (ms_db st) ''intents'' k (IntentRow i) = Inr d \<Longrightarrow> R st (st\<lparr>ms_db := d\<rparr>)"
    and R_event: "R st (st\<lparr>ms_events := es\<rparr>)"
    and R_send: "io_BeforeSend io = None \<Longrightarrow> R st (st\<lparr>ms_sent := ms_sent st @ [e]\<rparr>)"
begin

lemma R_save: "save i st = (r, st') \<Longrightarrow> R st st'"
  using R_trans [OF R_put R_event] R_refl by (fastforce simp: save_def split: sum.splits)

lemma R_Enqueue: "R st (snd (Enqueue M ident kind caseID msgs st))"
  using R_refl R_put by (auto simp: Enqueue_def split: sum.split option.split)

lemma R_reconcile: "reconcile io' height i st = ((b, e), i', st') \<Longrightarrow> R st st'"
  by (auto simp: reconcile_def Let_def R_refl dest: R_save split: sum.splits prod.splits option.splits bool.splits if_splits)

lemma R_RefreshQueued: "R st (snd (RefreshQueued M ident height msgs st))"
  using R_refl R_save [OF prod.collapse [symmetric]] by (auto simp: RefreshQueued_def split: sum.split option.split)

lemma R_retryFailed:
  assumes "\<And>i. R st (snd (prepare i st))"
  shows "R st (snd (retryFailed M io' height reason requestID prepare i st))"
proof -
  have p: "R st st'" if "prepare j st = (r, st')" for j r st' using assms [of j] that by simp
  have s: "R st (snd (save j st'))" if "prepare j' st = (r, st')" for j j' r st'
    using R_trans [OF p [OF that] R_save [OF prod.collapse [symmetric]]] .
  show ?thesis
    by (auto simp: retryFailed_def Let_def R_refl dest: p s split: sum.split prod.split)
qed

lemma R_Recover:
  assumes "\<And>i st. R st (snd (prepare i st))"
  shows "R st (snd (Recover M io' ident height reason prepare givenID st))"
proof -
  have "R st (snd (retryFailed M io' height reason q prepare i' st'))" if "reconcile io' height i st = ((b, e), i', st')" for i b e i' st' q
    using R_trans [OF R_reconcile [OF that] R_retryFailed [where prepare = prepare, OF assms]] .
  then show ?thesis
    by (auto simp: Recover_def Let_def R_refl dest: R_reconcile split: sum.split option.split prod.split)
qed

lemma snd_case_save:
  "R st0 (snd (save i st)) \<Longrightarrow> R st0 (snd (case save i st of (Some e, st') \<Rightarrow> (Some e, st') | (None, st') \<Rightarrow> (x, st')))"
  by (cases "save i st"; cases "fst (save i st)") auto

lemma R_broadcastAttempt: "R st (snd (broadcastAttempt M io i st))"
proof (cases "io_now io < at_NextBroadcastAt (last (it_Attempts i)) \<or> io_BeforeSend io \<noteq> None")
  case True
  then show ?thesis by (auto simp: broadcastAttempt_def R_refl split: option.split)
next
  case False
  then have b: "io_BeforeSend io = None" "\<not> io_now io < at_NextBroadcastAt (last (it_Attempts i))" by auto
  define i1 where "i1 = onLast (\<lambda>a. a\<lparr>at_NextBroadcastAt := io_nowRetry io + (if mg_RetryInterval M = 0 then 2000000000 else mg_RetryInterval M),
      at_Broadcasts := at_Broadcasts a + 1\<rparr>) i"
  obtain e st1 where s1: "save i1 st = (e, st1)" by fastforce
  show ?thesis
  proof (cases e)
    case (Some x)
    then show ?thesis using R_save [OF s1] b s1 by (simp add: broadcastAttempt_def Let_def i1_def)
  next
    case None
    have t: "R st (snd (save i3 (st1\<lparr>ms_sent := ms_sent st1 @ [e]\<rparr>)))" for i3 e
      using R_trans [OF R_trans [OF R_save [OF s1] R_send [OF b(1)]] R_save [OF prod.collapse [symmetric]]] .
    obtain result err where a: "io_BroadcastTxSync io (at_Tx (last (it_Attempts i1))) = (result, err)" by fastforce
    show ?thesis
      unfolding broadcastAttempt_def Let_def i1_def [symmetric] b s1 None option.case prod.case a if_not_P [OF b(2)]
      by (rule snd_case_save [OF t])
  qed
qed

lemma R_stepIntent: "R st (snd (stepIntent M io height i st))"
  using R_refl R_save [OF prod.collapse [symmetric]] R_broadcastAttempt
  by (auto simp: stepIntent_def advance_def Let_def split: sum.split lookupOutcome.split bool.split)

lemma R_reconcileFailed: "reconcileFailed M io' height i st = (x, st') \<Longrightarrow> R st st'"
proof -
  assume a: "reconcileFailed M io' height i st = (x, st')"
  obtain b e i1 st1 where r: "reconcile io' height i st = ((b, e), i1, st1)" by (metis prod.collapse)
  note k = R_reconcile [OF r]
  have "R st st2" if "save j st1 = (r, st2)" for j r st2 using R_trans [OF k R_save [OF that]] .
  with a k show "R st st'" by (auto simp: reconcileFailed_def r Let_def split: if_splits prod.splits)
qed

lemma R_stepLoop: "R st (snd (stepLoop M io height rows st))"
proof (induction rows arbitrary: st)
  case (Cons row rows)
  have "R st (snd (stepLoop M io height rows st'))" if "reconcileFailed M io height i st = (x, st')" for i x st'
    using R_trans [OF R_reconcileFailed [OF that] Cons.IH] .
  then show ?case using Cons.IH R_refl R_stepIntent
    by (auto dest: R_reconcileFailed split: sum.split prod.split)
qed (simp add: R_refl)

lemma R_Step: "R st (snd (Step M io height st))"
  using R_refl R_stepLoop by (auto simp: Step_def split: sum.split)

end

section \<open>Work items\<close>

definition workOk :: "work \<Rightarrow> bool" where
  "workOk w \<longleftrightarrow> caseHash (wk_Hash w) \<and> (\<exists>n. wk_CaseID w = roundID (wk_Hash w) n)
     \<and> (\<forall>t \<in> set (wk_Transfers w). dt_TxHash t = wk_Hash w)
     \<and> (\<forall>review r. wk_Review w = Some review \<longrightarrow> ou_RiskReport review = Some r \<longrightarrow> hexDecode (wk_Hash w) = Some (rr_TxHash r))"

definition workTyped :: "journal \<Rightarrow> bool" where
  "workTyped d \<longleftrightarrow> (\<forall>k row. rowAt d ''work'' k = Some row \<longrightarrow>
     (\<exists>w. row = WorkRow w \<and> workOk w \<and> k = autoCaseID (wk_Hash w)))"

definition workGrows :: "journal \<Rightarrow> journal \<Rightarrow> bool" where
  "workGrows d d' \<longleftrightarrow> (\<forall>k. rowAt d ''work'' k \<noteq> None \<longrightarrow> rowAt d' ''work'' k \<noteq> None)"

lemma workGrows_refl [simp]: "workGrows d d" by (simp add: workGrows_def)

lemma workGrows_trans: "workGrows d d' \<Longrightarrow> workGrows d' d'' \<Longrightarrow> workGrows d d''" by (simp add: workGrows_def)

section \<open>The manager leaves the work alone\<close>

definition filed :: "journal \<Rightarrow> bool" where
  "filed d \<longleftrightarrow> indexOk d \<and> workTyped d"

text \<open>The work stays in order, the metadata as it was; nothing is sent while the check fails.\<close>

definition filing :: "chainIO \<Rightarrow> agentState \<Rightarrow> agentState \<Rightarrow> bool" where
  "filing io st st' \<longleftrightarrow> (filed (ms_db st) \<longrightarrow> filed (ms_db st') \<and> workGrows (ms_db st) (ms_db st')
       \<and> (\<forall>k. rowAt (ms_db st') ''meta'' k = rowAt (ms_db st) ''meta'' k))
     \<and> (io_BeforeSend io \<noteq> None \<longrightarrow> ms_sent st' = ms_sent st)"

lemma filed_intent:
  assumes "Store_Put d ''intents'' k (IntentRow i) = Inr d'" "filed d"
  shows "filed d' \<and> workGrows d d' \<and> (\<forall>k. rowAt d' ''meta'' k = rowAt d ''meta'' k)"
  using assms Store_Put_indexOk [OF assms(1)] Store_Put_rowAt(2) [OF assms(1), of "''work''"] Store_Put_rowAt(3) [OF assms(1)]
  by (simp add: filed_def primaryName_def workTyped_def workGrows_def)

interpretation filing: manager_relation "filing io" io for io
proof
  show "filing io st st'" if "filing io st s" "filing io s st'" for st s st'
    using that by (auto simp: filing_def intro: workGrows_trans)
  show "filing io st (st\<lparr>ms_db := d\<rparr>)" if "Store_Put (ms_db st) ''intents'' k (IntentRow i) = Inr d" for st k i d
    using filed_intent [OF that] by (simp add: filing_def)
qed (simp_all add: filing_def)

end
