(* ===== verification/EvalSpec.thy ===== *)
theory EvalSpec
  imports Evaluation
begin

text \<open>
  What an evaluation that does not broadcast gives: a pure result per transfer, the gravest of them
  for a transaction, and a signed report that describes the transfer and carries the action of the
  chain's own policy.
\<close>

section \<open>One transfer\<close>

definition evaluated :: "'b agentEnv \<Rightarrow> web \<Rightarrow> processOptions \<Rightarrow> inputTx \<Rightarrow> aerror + reviewOutput" where
  "evaluated A W opts tx = bind_r (screened A W opts tx) (\<lambda>(raw, decision, action, targetType, result).
     if op_agentID opts = [] \<or> op_privKeyHex opts = [] then Inr result
     else bind_r (signResult A opts tx raw decision action result) (\<lambda>(s, report, done1). Inr done1))"

lemma processTx_quiet:
  "\<not> op_broadcast opts \<Longrightarrow> processTx A io tx opts gs = (evaluated A (ci_web io) opts tx, gs)"
  by (auto simp: processTx_def evaluated_def bind_r_def split: sum.split prod.split)

text \<open>The action of a result is the policy's, for the score and the categories it shows.\<close>

lemma screened_Inr:
  assumes "screened A W opts tx = Inr (raw, decision, action, target, result)"
  shows "parseTargetType (op_targetType opts) = Inr target" "ou_RiskReport result = None" "ou_Vote result = None"
    "ou_Action result = ActionName action"
    "action = Action (rs_RiskScore (ou_Risk result)) (rs_RiskCategories (ou_Risk result)) target (thresholdsIn opts)"
  using assms by (auto simp: screened_def bind_r_Inr_iff Let_def split: option.splits)

lemma parse_ActionName [simp]: "parseSanctionAction (ActionName (Action s cs t th)) = Inr (Action s cs t th)"
  using Action_range [of s cs t th] by (auto simp: parseSanctionAction_def)

lemma signResult_Inr:
  assumes "signResult A opts tx raw decision action result = Inr (s, report, done1)"
  obtains txHash vote where "signerNew (ae_T A) (ae_C A) (op_agentID opts) (op_privKeyHex opts) = Inr s"
    "hexDecode (in_TxHash tx) = Some txHash"
    "SignRiskReport (ae_E A) (ae_C A) s (op_chainID opts)
       (Some (unsignedReport A opts tx txHash raw (ou_Risk result) decision (ou_Explanation result))) = Inr report"
    "policyVote A opts s tx action (rationaleHashOf A decision (ou_Explanation result)) = Inr vote"
    "ou_RiskReport done1 = Some report" "ou_Vote done1 = vote" "ou_Action done1 = ou_Action result" "ou_Risk done1 = ou_Risk result"
  using assms by (auto simp: signResult_def bind_r_Inr_iff split: option.splits intro!: that)

text \<open>How a signed report stands for a transfer.\<close>

definition reportsTransfer :: "RiskReport \<Rightarrow> inputTx \<Rightarrow> bool" where
  "reportsTransfer r tx \<longleftrightarrow> hexDecode (in_TxHash tx) = Some (rr_TxHash r) \<and> rr_MessageIndex r = in_MessageIndex tx
     \<and> rr_Sender r = in_Sender tx \<and> rr_Recipient r = in_Recipient tx \<and> rr_Amount r = in_Amount tx \<and> rr_Denom r = in_Denom tx"

definition signedBy :: "'b agentEnv \<Rightarrow> Signer \<Rightarrow> string \<Rightarrow> RiskReport \<Rightarrow> bool" where
  "signedBy A s chainID r \<longleftrightarrow> rr_Submitter r = sg_Address s
     \<and> VerifySecp256k1 (ae_E A) (signerPublicKey (ae_C A) s) (rr_SubmitterSignature r) (RiskReportSignBytes (ae_E A) chainID r)"

definition voteSignedBy :: "'b agentEnv \<Rightarrow> Signer \<Rightarrow> string \<Rightarrow> SanctionVote \<Rightarrow> bool" where
  "voteSignedBy A s chainID v \<longleftrightarrow> sv_AgentId v = sg_AgentID s
     \<and> VerifySecp256k1 (ae_E A) (signerPublicKey (ae_C A) s) (sv_Signature v) (VoteSignBytes chainID v)"

lemma SignRiskReport_fields:
  "SignRiskReport E C s chainID (Some r) = Inr r' \<Longrightarrow>
     \<exists>x. r' = r\<lparr>rr_Submitter := sg_Address s, rr_SubmitterSignature := x\<rparr>"
  by (auto simp: SignRiskReport_def Let_def split: option.splits)

lemma SignVote_fields:
  "SignVote C s chainID (Some v) = Inr v' \<Longrightarrow> \<exists>x. v' = v\<lparr>sv_AgentId := sg_AgentID s, sv_Signature := x\<rparr>"
  by (auto simp: SignVote_def Let_def split: option.splits)

text \<open>Without any hypothesis on the curve: which transfer the report is about.\<close>

lemma evaluated_report:
  assumes "evaluated A W opts tx = Inr result" "ou_RiskReport result = Some report"
  shows "reportsTransfer report tx \<and> rr_RiskScore report = rs_RiskScore (ou_Risk result)
    \<and> rr_RiskCategories report = rs_RiskCategories (ou_Risk result)
    \<and> rr_ObservedHeight report = op_height opts \<and> rr_ExpiryHeight report = op_expiryHeight opts"
proof -
  from assms(1) obtain raw decision action target result0 where sc: "screened A W opts tx = Inr (raw, decision, action, target, result0)"
    and sg: "(if op_agentID opts = [] \<or> op_privKeyHex opts = [] then Inr result0
       else bind_r (signResult A opts tx raw decision action result0) (\<lambda>(s, report, done1). Inr done1)) = Inr result"
    by (auto simp: evaluated_def bind_r_Inr_iff)
  from sg screened_Inr(2) [OF sc] assms(2) obtain s report' where
    si: "signResult A opts tx raw decision action result0 = Inr (s, report', result)"
    by (auto simp: bind_r_Inr_iff split: if_splits)
  obtain txHash vote where "hexDecode (in_TxHash tx) = Some txHash"
    "SignRiskReport (ae_E A) (ae_C A) s (op_chainID opts)
       (Some (unsignedReport A opts tx txHash raw (ou_Risk result0) decision (ou_Explanation result0))) = Inr report'"
    "ou_RiskReport result = Some report'" "ou_Risk result = ou_Risk result0"
    using si by (rule signResult_Inr)
  then show ?thesis using assms(2)
    by (auto simp: reportsTransfer_def unsignedReport_def dest: SignRiskReport_fields)
qed

text \<open>With a key, the result is signed, and its action and vote are the chain's policy on the report.\<close>

lemma evaluated_signed:
  assumes "evaluated A W opts tx = Inr result" "op_agentID opts \<noteq> []" "op_privKeyHex opts \<noteq> []" "signsFor (ae_E A) (ae_C A)"
    "op_thresholds opts = Some (thresholdsOf p)"
  shows "\<exists>s target report. signerNew (ae_T A) (ae_C A) (op_agentID opts) (op_privKeyHex opts) = Inr s
    \<and> parseTargetType (op_targetType opts) = Inr target \<and> ou_RiskReport result = Some report \<and> signedBy A s (op_chainID opts) report
    \<and> parseSanctionAction (ou_Action result) = Inr (ComputePolicyAction [report] p target)
    \<and> (\<forall>v. ou_Vote result = Some v \<longrightarrow> voteSignedBy A s (op_chainID opts) v \<and> sv_Option v = VOTE_OPTION_APPROVE
          \<and> sv_ApprovedAction v = ComputePolicyAction [report] p target)"
proof -
  from assms(1-3) obtain raw decision action target result0 s report where
    sc: "screened A W opts tx = Inr (raw, decision, action, target, result0)" and
    si: "signResult A opts tx raw decision action result0 = Inr (s, report, result)"
    by (auto simp: evaluated_def bind_r_Inr_iff)
  obtain txHash vote where sr: "signerNew (ae_T A) (ae_C A) (op_agentID opts) (op_privKeyHex opts) = Inr s"
    "SignRiskReport (ae_E A) (ae_C A) s (op_chainID opts)
       (Some (unsignedReport A opts tx txHash raw (ou_Risk result0) decision (ou_Explanation result0))) = Inr report"
    "policyVote A opts s tx action (rationaleHashOf A decision (ou_Explanation result0)) = Inr vote"
    "ou_RiskReport result = Some report" "ou_Vote result = vote" "ou_Action result = ou_Action result0" "ou_Risk result = ou_Risk result0"
    using si by (rule signResult_Inr)
  note th = screened_Inr [OF sc]
  have "rr_RiskScore report = rs_RiskScore (ou_Risk result)" "rr_RiskCategories report = rs_RiskCategories (ou_Risk result)"
    using evaluated_report [OF assms(1) sr(4)] by simp_all
  then have action: "action = ComputePolicyAction [report] p target"
    using th(5) sr(7) assms(5) by (simp add: ComputePolicyAction_eq maxRiskScore_def max_def thresholdsIn_def)
  have "parseSanctionAction (ou_Action result) = Inr action" unfolding sr(6) th(4) th(5) by (rule parse_ActionName)
  moreover have "signedBy A s (op_chainID opts) report"
    using SignRiskReport_verifies [OF assms(4) sr(2)] SignRiskReport_fields [OF sr(2)] by (auto simp: signedBy_def)
  moreover have "voteSignedBy A s (op_chainID opts) v \<and> sv_Option v = VOTE_OPTION_APPROVE \<and> sv_ApprovedAction v = action"
    if "vote = Some v" for v
  proof -
    from sr(3) that obtain v0 where v0: "SignVote (ae_C A) s (op_chainID opts) (Some v0) = Inr v"
      "sv_Option v0 = VOTE_OPTION_APPROVE" "sv_ApprovedAction v0 = action"
      by (auto simp: policyVote_def bind_r_Inr_iff split: if_splits)
    from SignVote_verifies [OF assms(4) v0(1)] SignVote_fields [OF v0(1)] v0(2,3) show ?thesis by (auto simp: voteSignedBy_def)
  qed
  ultimately show ?thesis using sr th(1) action by blast
qed

section \<open>The transfers of a transaction\<close>

text \<open>The order of the selection: the action first, then the score.\<close>

definition noGraver :: "reviewOutput \<times> SanctionAction \<Rightarrow> reviewOutput \<times> SanctionAction \<Rightarrow> bool" where
  "noGraver = (\<lambda>(r, a) (r', a'). \<not> actionGreater a a' \<and> (a = a' \<longrightarrow> rs_RiskScore (ou_Risk r) \<le> rs_RiskScore (ou_Risk r')))"

definition judged :: "'b agentEnv \<Rightarrow> web \<Rightarrow> processOptions \<Rightarrow> DecodedTransfer \<Rightarrow> reviewOutput \<times> SanctionAction \<Rightarrow> bool" where
  "judged A W opts t = (\<lambda>(r, a). evaluated A W opts (inputOf t) = Inr r \<and> parseSanctionAction (ou_Action r) = Inr a)"

text \<open>Parsed actions are named ones, on which the order of the numbers is strict.\<close>

definition named :: "reviewOutput \<times> SanctionAction \<Rightarrow> bool" where
  "named x \<longleftrightarrow> canonical_action (snd x)"

lemma judged_named: "judged A W opts t x \<Longrightarrow> named x"
  by (auto simp: judged_def named_def parseSanctionAction_def split: if_splits)

lemma noGraver_trans: "named x \<Longrightarrow> named y \<Longrightarrow> named z \<Longrightarrow> noGraver x y \<Longrightarrow> noGraver y z \<Longrightarrow> noGraver x z"
  by (auto simp: noGraver_def actionGreater_def named_def action_number_inject [symmetric] word_eq_iff_signed [THEN sym] split: prod.splits)

lemma noGraver_refl: "noGraver x x"
  by (auto simp: noGraver_def actionGreater_def split: prod.splits)

definition better :: "(reviewOutput \<times> SanctionAction) option \<Rightarrow> reviewOutput \<times> SanctionAction \<Rightarrow> reviewOutput \<times> SanctionAction" where
  "better selected x = (case selected of None \<Rightarrow> x | Some y \<Rightarrow>
     if actionGreater (snd x) (snd y) \<or> (snd x = snd y \<and> rs_RiskScore (ou_Risk (fst x)) > rs_RiskScore (ou_Risk (fst y)))
     then x else y)"

lemma better_props: "noGraver x (better selected x)" "selected = Some y \<Longrightarrow> noGraver y (better selected x)"
  "selected = Some (better selected x) \<or> better selected x = x"
  by (auto simp: better_def noGraver_def actionGreater_def split: option.splits prod.splits)

lemma selectWorst_Cons:
  assumes "\<not> op_broadcast opts" "judged A (ci_web io) opts t x"
  shows "selectWorst A io opts (t # ts) selected gs = selectWorst A io opts ts (Some (better selected x)) gs"
proof -
  obtain r a where x: "x = (r, a)" by fastforce
  then show ?thesis using assms
    by (cases selected) (auto simp: processTx_quiet judged_def better_def)
qed

lemma selectWorst_quiet:
  assumes "\<not> op_broadcast opts" "selectWorst A io opts ts selected gs = (Inr found, gs')" "\<forall>x. selected = Some x \<longrightarrow> named x"
  shows "gs' = gs \<and> (\<forall>t \<in> set ts. \<exists>x y. judged A (ci_web io) opts t x \<and> found = Some y \<and> noGraver x y)
    \<and> (\<forall>x. selected = Some x \<longrightarrow> (\<exists>y. found = Some y \<and> noGraver x y))
    \<and> (\<forall>y. found = Some y \<longrightarrow> named y \<and> (selected = Some y \<or> (\<exists>t \<in> set ts. judged A (ci_web io) opts t y)))"
  using assms(2,3)
proof (induction ts arbitrary: selected)
  case Nil
  then show ?case by (auto simp: noGraver_refl)
next
  case (Cons t ts)
  from Cons.prems(1) obtain x where j: "judged A (ci_web io) opts t x"
    by (auto simp: processTx_quiet [OF assms(1)] judged_def split: sum.splits)
  let ?b = "better selected x"
  note b = better_props [where x = x and selected = selected]
  have n: "named x" "named ?b" using judged_named [OF j] b(3) Cons.prems(2) by metis+
  have "selectWorst A io opts ts (Some ?b) gs = (Inr found, gs')"
    using Cons.prems(1) selectWorst_Cons [OF assms(1) j] by simp
  note ih = Cons.IH [OF this]
  have pre: "\<forall>z. Some ?b = Some z \<longrightarrow> named z" using n(2) by blast
  from ih [OF pre] obtain y where y: "found = Some y" "noGraver ?b y" by blast
  have more: "gs' = gs" "\<forall>t \<in> set ts. \<exists>x y. judged A (ci_web io) opts t x \<and> found = Some y \<and> noGraver x y"
    "named y" "?b = y \<or> (\<exists>t \<in> set ts. judged A (ci_web io) opts t y)"
    using ih [OF pre] y(1) by blast+
  have xy: "noGraver x y" by (rule noGraver_trans [OF n(1) n(2) more(3) b(1) y(2)])
  have zy: "noGraver z y" if "selected = Some z" for z
    by (rule noGraver_trans [OF _ n(2) more(3) b(2) [OF that] y(2)]) (use that Cons.prems(2) in blast)
  have "selected = Some y \<or> (\<exists>t' \<in> set (t # ts). judged A (ci_web io) opts t' y)"
    using more(4) b(3) j by (metis list.set_intros)
  have "\<forall>t' \<in> set (t # ts). \<exists>x y. judged A (ci_web io) opts t' x \<and> found = Some y \<and> noGraver x y"
    unfolding list.set ball_simps using more(2) j y(1) xy by blast
  with \<open>selected = Some y \<or> _\<close> more(1,3) y(1) zy show ?case by (simp del: split_paired_All split_paired_Ex)
qed

lemma processPendingTransfers_quiet:
  assumes "\<not> op_broadcast opts" "processPendingTransfers A io ts opts gs = (Inr result, gs')"
  shows "gs' = gs \<and> (\<exists>t \<in> set ts. \<exists>a. judged A (ci_web io) opts t (result, a)
    \<and> (\<forall>t' \<in> set ts. \<exists>x. judged A (ci_web io) opts t' x \<and> noGraver x (result, a)))"
proof -
  have o: "opts\<lparr>op_broadcast := False\<rparr> = opts" using assms(1) by (cases opts) simp
  obtain r gs1 where w: "selectWorst A io opts ts None gs = (r, gs1)" by fastforce
  from assms obtain y where y: "selectWorst A io opts ts None gs = (Inr (Some (result, y)), gs')"
    unfolding processPendingTransfers_def o w by (auto split: if_splits sum.splits option.splits)
  from selectWorst_quiet [OF assms(1) y] show ?thesis by fastforce
qed

text \<open>When every transfer can be judged, the transaction is.\<close>

lemma selectWorst_ok:
  assumes "\<not> op_broadcast opts" "\<forall>t \<in> set ts. \<exists>x. judged A (ci_web io) opts t x"
  shows "\<exists>r. selectWorst A io opts ts selected gs = (Inr r, gs) \<and> (ts \<noteq> [] \<or> selected \<noteq> None \<longrightarrow> r \<noteq> None)"
  using assms(2)
proof (induction ts arbitrary: selected)
  case (Cons t ts)
  then obtain x where x: "judged A (ci_web io) opts t x" by auto
  have "\<forall>t \<in> set ts. \<exists>x. judged A (ci_web io) opts t x" using Cons.prems by simp
  from Cons.IH [OF this, of "Some (better selected x)"] show ?case
    unfolding selectWorst_Cons [OF assms(1) x] by auto
qed simp

lemma processPendingTransfers_ok:
  assumes "\<not> op_broadcast opts" "ts \<noteq> []" "\<forall>t \<in> set ts. \<exists>x. judged A (ci_web io) opts t x"
  shows "\<exists>review. processPendingTransfers A io ts opts gs = (Inr review, gs)"
proof -
  have o: "opts\<lparr>op_broadcast := False\<rparr> = opts" using assms(1) by (cases opts) simp
  from selectWorst_ok [OF assms(1,3)] assms(2) obtain y where "selectWorst A io opts ts None gs = (Inr (Some y), gs)" by fastforce
  then obtain review action where w: "selectWorst A io opts ts None gs = (Inr (Some (review, action)), gs)" by (cases y) simp
  show ?thesis unfolding processPendingTransfers_def o w
    using assms(1,2) by (cases "ou_Vote review"; cases "ou_RiskReport review") simp_all
qed

end
