(* ===== verification/DaemonTick.thy ===== *)
theory DaemonTick
  imports Daemon
begin

text \<open>
  One tick of the autonomous agent and its whole life: \<open>progress\<close>, \<open>tick\<close> and \<open>runDaemon\<close> of
  dev/agent/cmd/sanction-agent/daemon.go, \<open>recoverFailed\<close> and \<open>validateRegistry\<close> of
  daemon_recovery.go. The transaction manager, the journal, the evaluation, the signing session and
  the RPC pool are the models of their own theories.
\<close>

section \<open>The manager's view of the daemon\<close>

text \<open>
  \<open>d.manager\<close> is given \<open>d.satisfied\<close> and \<open>d.owner.Validate\<close>. A validation that never ends within its
  observations stands for a cancelled context.
\<close>

definition validateAnswer :: "pollRound \<Rightarrow> Session \<Rightarrow> aerror option" where
  "validateAnswer p owner = (case Validate p owner of None \<Rightarrow> Some (AExternal ''context canceled'') | Some r \<Rightarrow> r)"

definition managerIO :: "'b daemon \<Rightarrow> daemonIO \<Rightarrow> Session \<Rightarrow> journal \<Rightarrow> chainIO" where
  "managerIO D io owner d = \<lparr>io_LookupTx = dq_LookupTx io, io_Satisfied = satisfied D io d, io_AccountAt = dq_AccountAt io,
     io_BroadcastTxSync = dq_BroadcastTxSync io, io_BeforeSend = validateAnswer (dq_validate io) owner,
     io_now = dq_now io, io_nowRetry = dq_nowRetry io\<rparr>"

section \<open>Progress of one work item\<close>

text \<open>After a stage the work item is at rest for this tick, or goes on.\<close>

datatype gate = Halt work | Proceed work

definition finish :: "work \<Rightarrow> string \<Rightarrow> gate" where
  "finish w result = Halt (w\<lparr>wk_Done := True, wk_Result := result\<rparr>)"

text \<open>The checks on an existing case.\<close>

definition existingCase :: "'b daemon \<Rightarrow> daemonIO \<Rightarrow> journal \<Rightarrow> work \<Rightarrow> SanctionCase \<Rightarrow> u64 \<Rightarrow> aerror + gate" where
  "existingCase D io d w c height =
     (if sc_ExecutedHeight c > 0 then
        bind_r (satisfied D io d (zeroIntent\<lparr>it_Kind := ''execute'', it_CaseID := wk_CaseID w\<rparr>) height) (\<lambda>ok.
          if ok then Inr (finish w ''executed'') else Inl (AErr ''execution record missing''))
      else if closedStatus (sc_Status c) then Inr (finish w (statusString (sc_Status c)))
      else bind_r (parseTargetType (op_targetType (da_opts D))) (\<lambda>target.
        if sc_TargetType c \<noteq> target then Inr (finish w ''different_target_type'')
        else if target = SANCTION_TARGET_TYPE_ADDRESS
        then bind_r (bindOriginal D io w c height) (\<lambda>w'. Inr (Proceed w'))
        else Inr (Proceed w)))"

text \<open>The checks before a case is opened.\<close>

definition absentCase :: "'b daemon \<Rightarrow> daemonIO \<Rightarrow> work \<Rightarrow> u64 \<Rightarrow> AgentInfo list \<Rightarrow> aerror + gate" where
  "absentCase D io w height active = bind_r (parseTargetType (op_targetType (da_opts D))) (\<lambda>target.
     if \<not> (\<exists>a \<in> set active. ag_AgentId a = agentID D) then Inr (Halt w)
     else bind_r (dq_LookupTx io (wk_Hash w)) (\<lambda>original.
       if target = SANCTION_TARGET_TYPE_ADDRESS \<and> (\<not> tr_Found original \<or> tr_Height original > height) then Inr (Halt w)
       else if tr_Found original \<and> tr_Code original \<noteq> 0 then Inr (finish w ''failed_original'')
       else if target = SANCTION_TARGET_TYPE_TX \<and> tr_Found original then Inr (finish w ''already_finalized'')
       else Inr (Proceed w)))"

definition reviewExpired :: "work \<Rightarrow> u64 \<Rightarrow> bool" where
  "reviewExpired w height = (case wk_Review w of None \<Rightarrow> False
     | Some review \<Rightarrow> (case ou_RiskReport review of None \<Rightarrow> True | Some r \<Rightarrow> rr_ExpiryHeight r \<le> height + 1))"

text \<open>The transfer of a case seen only through its proposal: that of its report.\<close>

definition transfersOfCase :: "daemonIO \<Rightarrow> work \<Rightarrow> SanctionCase option \<Rightarrow> u64 \<Rightarrow> aerror + work" where
  "transfersOfCase io w c height = (case (wk_Transfers w, c) of
     ([], Some c) \<Rightarrow> bind_r (caseReport io c height ''case missing report'' ''missing report'') (\<lambda>r.
        Inr (w\<lparr>wk_Transfers := [\<lparr>dt_MessageIndex = rr_MessageIndex r, dt_TxHash = wk_Hash w, dt_Sender = rr_Sender r,
          dt_Recipient = rr_Recipient r, dt_Amount = rr_Amount r, dt_Denom = rr_Denom r\<rparr>]\<rparr>))
   | _ \<Rightarrow> Inr w)"

definition reviewed ::
    "'b daemon \<Rightarrow> daemonIO \<Rightarrow> work \<Rightarrow> SanctionCase option \<Rightarrow> u64 \<Rightarrow> Params \<Rightarrow> agentState \<Rightarrow> (aerror + work) \<times> agentState" where
  "reviewed D io w0 c height params st = (let w = (if reviewExpired w0 height then w0\<lparr>wk_Review := None\<rparr> else w0) in
     if wk_Review w \<noteq> None then (Inr w, st)
     else case transfersOfCase io w c height of
       Inl e \<Rightarrow> (Inl e, st)
     | Inr w' \<Rightarrow> evaluateWork D io w' height params st)"

text \<open>Every proposer but the first waits two blocks for each agent that ranks before it.\<close>

definition turn :: "u64 \<Rightarrow> nat \<Rightarrow> u64" where
  "turn height rank = height + of_nat rank * 2"

text \<open>Queueing the proposal, or renewing the evidence of one that is queued or failed on old evidence.\<close>

definition propose ::
    "'b daemon \<Rightarrow> daemonIO \<Rightarrow> Session \<Rightarrow> work \<Rightarrow> u64 \<Rightarrow> nat \<Rightarrow> agentState \<Rightarrow> (aerror + work) \<times> agentState" where
  "propose D io owner w height rank st =
     (if height < turn (wk_SeenHeight w) rank then (Inr w, st)
      else case openMessages D w of Inl e \<Rightarrow> (Inl e, st) | Inr msgs \<Rightarrow>
      let ident = ''open/'' @ wk_CaseID w in
      (case Enqueue (da_manager D) ident ''open'' (wk_CaseID w) msgs st of
         (Some e, st') \<Rightarrow> (Inl e, st')
       | (None, st') \<Rightarrow> (case Store_Get (ms_db st') ''intents'' ident unmarshalIntent of
           Inl e \<Rightarrow> (Inl e, st')
         | Inr found \<Rightarrow>
             (let existing = (case found of None \<Rightarrow> zeroIntent | Some i \<Rightarrow> i) in
              case (if it_Status existing = ''failed'' \<and> expiredFailure existing
                    then Recover (da_manager D) (managerIO D io owner (ms_db st')) ident height ''re-evaluate expired report''
                           (\<lambda>_ s. (Inr msgs, s)) (''expired/'' @ at_Hash (last (it_Attempts existing))) st'
                    else RefreshQueued (da_manager D) ident height msgs st') of
                (Some e, st'') \<Rightarrow> (Inl e, st'')
              | (None, st'') \<Rightarrow> (Inr w, st'')))))"

definition mayVote :: "SanctionCase \<Rightarrow> bool" where
  "mayVote c = (sc_Status c = CASE_STATUS_PENDING
     \<or> (sc_Status c = CASE_STATUS_APPROVED \<and> sc_RequestedAction c = SANCTION_ACTION_REVERT_TRANSFER))"

definition approvedBy :: "SanctionCase \<Rightarrow> SanctionVote list \<Rightarrow> string \<Rightarrow> bool" where
  "approvedBy c votes agent = (\<exists>v \<in> set votes. sv_AgentId v = agent \<and> sv_Option v = VOTE_OPTION_APPROVE
     \<and> sv_ApprovedAction v = sc_RequestedAction c)"

definition voteOnCase ::
    "'b daemon \<Rightarrow> work \<Rightarrow> reviewOutput \<Rightarrow> SanctionAction \<Rightarrow> SanctionCase \<Rightarrow> SanctionVote list \<Rightarrow> u64 \<Rightarrow> agentState
      \<Rightarrow> aerror option \<times> agentState" where
  "voteOnCase D w review action c votes height st =
     (if \<not> caseMember D (Some c) \<or> votedAlready D votes \<or> \<not> mayVote c then (None, st)
      else case reviewVote D (wk_CaseID w) review action c height ''independent_policy_review'' of
        Inl e \<Rightarrow> (Some e, st)
      | Inr msg \<Rightarrow> Enqueue (da_manager D) (''vote/'' @ wk_CaseID w) ''vote'' (wk_CaseID w) [msg] st)"

definition awaitsUnanimity :: "SanctionCase \<Rightarrow> SanctionVote list \<Rightarrow> bool" where
  "awaitsUnanimity c votes = (sc_RequestedAction c = SANCTION_ACTION_REVERT_TRANSFER \<and> sc_UnanimousRequiredForRevert c
     \<and> (\<exists>a \<in> set (nonNil (sc_Voters c)). \<not> approvedBy c votes (ag_AgentId a)))"

definition executeCase ::
    "'b daemon \<Rightarrow> work \<Rightarrow> SanctionAction \<Rightarrow> SanctionCase \<Rightarrow> SanctionVote list \<Rightarrow> u64 \<Rightarrow> nat \<Rightarrow> agentState
      \<Rightarrow> (aerror + work) \<times> agentState" where
  "executeCase D w0 action c votes height rank st =
     (if sc_Status c \<noteq> CASE_STATUS_APPROVED \<or> action \<noteq> sc_RequestedAction c \<or> awaitsUnanimity c votes then (Inr w0, st)
      else let w = (if wk_ApprovedHeight w0 = 0 then w0\<lparr>wk_ApprovedHeight := height\<rparr> else w0) in
      case (if wk_ApprovedHeight w0 = 0 then putWork (wk_Hash w) w st else (None, st)) of
        (Some e, st') \<Rightarrow> (Inl e, st')
      | (None, st') \<Rightarrow>
          if height < turn (wk_ApprovedHeight w) rank then (Inr w, st')
          else (case Enqueue (da_manager D) (''execute/'' @ wk_CaseID w) ''execute'' (wk_CaseID w)
                  [ReqExecuteSanction \<lparr>xm_Executor = sg_Address (da_signer D), xm_CaseId = wk_CaseID w,
                     xm_ResultMessage = ''durable autonomous agent''\<rparr>] st' of
              (Some e, st'') \<Rightarrow> (Inl e, st'') | (None, st'') \<Rightarrow> (Inr w, st'')))"

text \<open>The stages after the review.\<close>

definition act ::
    "'b daemon \<Rightarrow> daemonIO \<Rightarrow> Session \<Rightarrow> work \<Rightarrow> SanctionCase option \<Rightarrow> u64 \<Rightarrow> nat \<Rightarrow> agentState \<Rightarrow> (aerror + work) \<times> agentState" where
  "act D io owner w c height rank st = (case wk_Review w of None \<Rightarrow> (Inl APanic, st) | Some review \<Rightarrow>
     (case parseSanctionAction (ou_Action review) of Inl e \<Rightarrow> (Inl e, st) | Inr action \<Rightarrow>
     (case c of
        None \<Rightarrow> if action = SANCTION_ACTION_UNSPECIFIED then (Inr (w\<lparr>wk_Done := True, wk_Result := ''no_action''\<rparr>), st)
          else propose D io owner w height rank st
      | Some c \<Rightarrow> (case dq_SanctionVotes io height (wk_CaseID w) of
          Inl e \<Rightarrow> (Inl e, st)
        | Inr votes \<Rightarrow> (case voteOnCase D w review action c votes height st of
            (Some e, st') \<Rightarrow> (Inl e, st')
          | (None, st') \<Rightarrow> executeCase D w action c votes height rank st')))))"

definition progress ::
    "'b daemon \<Rightarrow> daemonIO \<Rightarrow> Session \<Rightarrow> work \<Rightarrow> u64 \<Rightarrow> nat \<Rightarrow> AgentInfo list \<Rightarrow> Params \<Rightarrow> agentState
      \<Rightarrow> (aerror + work) \<times> agentState" where
  "progress D io owner w0 height rank active params st =
     (case bind_r (recoveryCase D io w0 height) (\<lambda>(c, w).
             bind_r (case c of None \<Rightarrow> absentCase D io w height active
                     | Some c' \<Rightarrow> existingCase D io (ms_db st) w c' height) (\<lambda>g. Inr (c, g))) of
        Inl e \<Rightarrow> (Inl e, st)
      | Inr (c, Halt w) \<Rightarrow> (Inr w, st)
      | Inr (c, Proceed w) \<Rightarrow> (case reviewed D io w c height params st of
          (Inl e, st') \<Rightarrow> (Inl e, st')
        | (Inr w', st') \<Rightarrow> act D io owner w' c height rank st'))"

section \<open>One tick\<close>

text \<open>The position of the agent among the active agents, by id; the loop keeps the last match.\<close>

fun lastMatch :: "('a \<Rightarrow> bool) \<Rightarrow> nat \<Rightarrow> 'a list \<Rightarrow> nat option \<Rightarrow> nat option" where
  "lastMatch P i [] r = r"
| "lastMatch P i (x # xs) r = lastMatch P (i + 1) xs (if P x then Some i else r)"

definition activeAgents :: "AgentInfo list \<Rightarrow> AgentInfo list" where
  "activeAgents agents = sort_key ag_AgentId (filter (\<lambda>a. ag_Active a \<and> ag_VotingPower a > 0) agents)"

text \<open>A registered agent outside the active set ranks last; an unregistered one is an error.\<close>

definition rankOf :: "'b daemon \<Rightarrow> AgentInfo list \<Rightarrow> aerror + nat" where
  "rankOf D agents = (case lastMatch (ownEntry D) 0 (activeAgents agents) None of
     Some n \<Rightarrow> Inr n
   | None \<Rightarrow> if \<exists>a \<in> set agents. ownEntry D a then Inr (length (activeAgents agents))
       else Inl (AErr ''registered signer/key does not match''))"

definition reopened :: "work \<Rightarrow> work" where
  "reopened w = (if wk_Done w \<and> wk_Result w = statusString CASE_STATUS_EXPIRED then w\<lparr>wk_Done := False\<rparr> else w)"

text \<open>
  The loop over the active rows; the answers of the n-th row's stage are \<open>ios n\<close>. An item that
  fails is retried at the next tick.
\<close>

fun workLoop ::
    "'b daemon \<Rightarrow> (nat \<Rightarrow> daemonIO) \<Rightarrow> Session \<Rightarrow> u64 \<Rightarrow> nat \<Rightarrow> AgentInfo list \<Rightarrow> Params \<Rightarrow> nat \<Rightarrow> reviewOutput row list \<Rightarrow> agentState
      \<Rightarrow> aerror option \<times> agentState" where
  "workLoop D ios owner h rank active params n [] st = (None, st)"
| "workLoop D ios owner h rank active params n (row # rows) st = (case unmarshalWork row of
     Inl e \<Rightarrow> (Some e, st)
   | Inr w0 \<Rightarrow>
       if wk_Done (reopened w0) then workLoop D ios owner h rank active params (n + 1) rows st
       else (case progress D (ios n) owner (reopened w0) h rank active params st of
         (Inl e, st') \<Rightarrow> workLoop D ios owner h rank active params (n + 1) rows st'
       | (Inr w, st') \<Rightarrow> (case putWork (wk_Hash w) w st' of
           (Some e, st'') \<Rightarrow> (Some e, st'')
         | (None, st'') \<Rightarrow> workLoop D ios owner h rank active params (n + 1) rows st'')))"

text \<open>What the outside answers during one tick.\<close>

record tickIO =
  tk_poll :: pollRound
  tk_claim :: claimIO
  tk_status :: "aerror + Status"
  tk_io :: daemonIO
  tk_rows :: "nat \<Rightarrow> daemonIO"
  tk_step :: daemonIO

text \<open>The registry and the parameters, and the work they allow.\<close>

definition workStage :: "'b daemon \<Rightarrow> tickIO \<Rightarrow> Session \<Rightarrow> u64 \<Rightarrow> agentState \<Rightarrow> aerror option \<times> agentState" where
  "workStage D t owner h st = (case bind_r (dq_Agents (tk_io t) h) (\<lambda>agents.
             bind_r (rankOf D agents) (\<lambda>rank. bind_r (dq_Params (tk_io t) h) (\<lambda>params. case params of
               None \<Rightarrow> Inl (AErr ''missing sanction params'')
             | Some ps \<Rightarrow> bind_r (ListActive (ms_db st) ''work'') (\<lambda>rows. Inr (agents, rank, ps, rows))))) of
     Inl e \<Rightarrow> (Some e, st)
   | Inr (agents, rank, params, rows) \<Rightarrow>
       workLoop D (tk_rows t) owner h rank (activeAgents agents) params 0 rows st)"

definition tickAt :: "'b daemon \<Rightarrow> tickIO \<Rightarrow> Session \<Rightarrow> u64 \<Rightarrow> agentState \<Rightarrow> aerror option \<times> agentState" where
  "tickAt D t owner h st = (case scan D (tk_io t) h st of
     (Some e, st1) \<Rightarrow> (Some e, st1)
   | (None, st1) \<Rightarrow> (case dq_PendingTxs (tk_io t) of
       Inl e \<Rightarrow> (Some e, st1)
     | Inr pending \<Rightarrow> (case workStage D t owner h (observeAll D h pending st1) of
         (Some e, st2) \<Rightarrow> (Some e, st2)
       | (None, st2) \<Rightarrow> Step (da_manager D) (managerIO D (tk_step t) owner (ms_db st2)) h st2)))"

definition tick :: "'b daemon \<Rightarrow> tickIO \<Rightarrow> Session \<times> agentState \<Rightarrow> aerror option \<times> Session \<times> agentState" where
  "tick D t = (\<lambda>(owner, st). case Ensure (tk_poll t) (tk_claim t) owner of
     (None, _) \<Rightarrow> (Some (AExternal ''context canceled''), owner, st)
   | (Some (Some e, owner'), _) \<Rightarrow> (Some e, owner', st)
   | (Some (None, owner'), _) \<Rightarrow> (case tk_status t of
       Inl e \<Rightarrow> (Some e, owner', st)
     | Inr status \<Rightarrow>
         if ss_ChainID status \<noteq> op_chainID (da_opts D) then (Some (AErr ''RPC chain ID mismatch''), owner', st)
         else if ss_Height status = 0 then (None, owner', st)
         else if ss_Height status > - 1 - (op_expiryHeight (da_opts D) - op_height (da_opts D))
         then (Some (AErr ''report expiry height overflows''), owner', st)
         else (case tickAt D t owner' (ss_Height status) st of (err, st') \<Rightarrow> (err, owner', st'))))"

text \<open>The loop of \<open>runDaemon\<close> over the ticks' answers: it ends only when the ownership is lost.\<close>

fun daemonLoop :: "'b daemon \<Rightarrow> tickIO list \<Rightarrow> Session \<times> agentState \<Rightarrow> aerror option \<times> Session \<times> agentState" where
  "daemonLoop D [] s = (None, s)"
| "daemonLoop D (t # ts) s = (case tick D t s of
     (err, s') \<Rightarrow> if err = Some ErrLost then (Some ErrLost, s') else daemonLoop D ts s')"

section \<open>Operator recovery (\<open>recoverFailed\<close>)\<close>

definition validateRegistry :: "'b daemon \<Rightarrow> daemonIO \<Rightarrow> u64 \<Rightarrow> aerror option" where
  "validateRegistry D io height = (case dq_Agents io height of
     Inl e \<Rightarrow> Some e
   | Inr agents \<Rightarrow> if \<exists>a \<in> set agents. ownEntry D a then None else Some (AErr ''agent signer identity does not match registry''))"

text \<open>The work item of a retry with an existing case: the case is open, bound, and its evidence stands.\<close>

definition retryOnCase :: "'b daemon \<Rightarrow> daemonIO \<Rightarrow> work \<Rightarrow> SanctionCase \<Rightarrow> u64 \<Rightarrow> aerror + work" where
  "retryOnCase D io w c height =
     (if closedStatus (sc_Status c) then Inl ErrObsolete
      else bind_r (bindOriginal D io w c height) (\<lambda>w'.
      bind_r (case sc_ReportIds c of [] \<Rightarrow> Inl APanic | rid # _ \<Rightarrow> dq_RiskReport io height rid) (\<lambda>r. case r of
        None \<Rightarrow> Inl (AErr ''case missing evidence'')
      | Some report \<Rightarrow> if rr_ExpiryHeight report \<le> height \<or> votingOver c height then Inl ErrObsolete else Inr w')))"

definition retryWithoutCase :: "'b daemon \<Rightarrow> daemonIO \<Rightarrow> work \<Rightarrow> Intent \<Rightarrow> string \<Rightarrow> u64 \<Rightarrow> aerror + work" where
  "retryWithoutCase D io w i hash height =
     (if it_Kind i \<noteq> ''open'' then Inl ErrObsolete
      else bind_r (dq_LookupTx io hash) (\<lambda>original.
        if \<not> tr_Found original \<or> tr_Code original \<noteq> 0 \<or> tr_Height original > height \<or> op_targetType (da_opts D) \<noteq> ''address''
        then Inl (AErr ''retry requires a confirmed successful address transfer'')
        else bind_r (DecodeTransfers (ae_E (da_agent D)) (ae_decoder (da_agent D)) \<lparr>pt_Bytes = tr_Tx original, pt_Hash = hash\<rparr>)
          (\<lambda>transfers. Inr (w\<lparr>wk_Transfers := transfers\<rparr>))))"

text \<open>Everything before the new evaluation: the case, the work item and the parameters.\<close>

definition retryInputs :: "'b daemon \<Rightarrow> daemonIO \<Rightarrow> journal \<Rightarrow> Intent \<Rightarrow> u64 \<Rightarrow> aerror + SanctionCase option \<times> work \<times> Params" where
  "retryInputs D io d i height = bind_r (parseAutoCaseID (it_CaseID i)) (\<lambda>(hash, _).
     bind_r (getWork d hash) (\<lambda>found. case found of None \<Rightarrow> Inl (AErr ''recovery work not found'') | Some w \<Rightarrow>
     bind_r (getCase io (it_CaseID i) height) (\<lambda>c.
     bind_r (case c of None \<Rightarrow> retryWithoutCase D io w i hash height | Some c' \<Rightarrow> retryOnCase D io w c' height) (\<lambda>w'.
     bind_r (dq_Params io height) (\<lambda>params. case params of None \<Rightarrow> Inl (AErr ''missing policy'') | Some ps \<Rightarrow>
     Inr (c, w'\<lparr>wk_CaseID := it_CaseID i, wk_Review := None\<rparr>, ps))))))"

text \<open>The messages of the retry from the new review.\<close>

definition retryMessages :: "'b daemon \<Rightarrow> Intent \<Rightarrow> SanctionCase option \<Rightarrow> work \<Rightarrow> u64 \<Rightarrow> aerror + request list" where
  "retryMessages D i c w height =
     (if it_Kind i = ''open'' then openMessages D w
      else case wk_Review w of None \<Rightarrow> Inl APanic | Some review \<Rightarrow>
      bind_r (parseSanctionAction (ou_Action review)) (\<lambda>action.
      if it_Kind i = ''vote'' then
        (if \<not> caseMember D c then Inl ErrObsolete
         else case c of None \<Rightarrow> Inl APanic | Some c \<Rightarrow>
           bind_r (reviewVote D (sc_CaseId c) review action c height ''recovery_independent_review'') (\<lambda>msg. Inr [msg]))
      else if it_Kind i \<noteq> ''execute'' then Inl ErrObsolete
      else case c of None \<Rightarrow> Inl APanic | Some c \<Rightarrow>
        if sc_Status c \<noteq> CASE_STATUS_APPROVED \<or> action \<noteq> sc_RequestedAction c then Inl ErrObsolete
        else Inr [ReqExecuteSanction \<lparr>xm_Executor = sg_Address (da_signer D), xm_CaseId = sc_CaseId c,
                   xm_ResultMessage = ''operator-authorized durable retry''\<rparr>]))"

definition prepareRetry :: "'b daemon \<Rightarrow> daemonIO \<Rightarrow> u64 \<Rightarrow> (request, reviewOutput) preparation" where
  "prepareRetry D io height i st = (case retryInputs D io (ms_db st) i height of
     Inl e \<Rightarrow> (Inl e, st)
   | Inr (c, w, params) \<Rightarrow> (case evaluateWork D io w height params st of
       (Inl e, st') \<Rightarrow> (Inl e, st')
     | (Inr w', st') \<Rightarrow> (retryMessages D i c w' height, st')))"

definition recoverFailed ::
    "'b daemon \<Rightarrow> daemonIO \<Rightarrow> Session \<Rightarrow> string \<Rightarrow> u64 \<Rightarrow> string \<Rightarrow> agentState \<Rightarrow> aerror option \<times> agentState" where
  "recoverFailed D io owner ident height reason st =
     Recover (da_manager D) (managerIO D io owner (ms_db st)) ident height reason (prepareRetry D io height)
       (op_retryRequestID (da_opts D)) st"

end
