(* ===== verification/DaemonSpec.thy ===== *)
theory DaemonSpec
  imports WorkSpec EvalSpec DaemonTick
begin

text \<open>
  What the daemon promises about its journal. \<open>workTyped\<close>: every row of the work bucket is a work
  item, stored under the id of its own transaction, about transfers and evidence of that
  transaction. \<open>calm\<close> is how the journal may change while nothing is sent. The locale
  \<open>daemon_writes\<close> lists the writes a stage of a tick is made of; every stage keeps each relation
  that those writes keep, \<open>calm\<close> among them.
\<close>

section \<open>How the journal changes\<close>

definition good :: "agentState \<Rightarrow> bool" where
  "good st \<longleftrightarrow> journalOk (ms_db st) \<and> workTyped (ms_db st)"

definition calm :: "agentState \<Rightarrow> agentState \<Rightarrow> bool" where
  "calm st st' \<longleftrightarrow> (good st \<longrightarrow> good st' \<and> journalStep (ms_db st) (ms_db st') \<and> workGrows (ms_db st) (ms_db st')
     \<and> (\<forall>k. rowAt (ms_db st') ''meta'' k = rowAt (ms_db st) ''meta'' k) \<and> ms_sent st' = ms_sent st)"

lemma calm_refl [simp]: "calm st st" by (simp add: calm_def)

lemma calm_trans: "calm st st' \<Longrightarrow> calm st' st'' \<Longrightarrow> calm st st''"
  by (auto simp: calm_def intro: journalStep_trans workGrows_trans)

lemma workOk_simps [simp]:
  "workOk (w\<lparr>wk_Done := b\<rparr>) = workOk w" "workOk (w\<lparr>wk_Result := r\<rparr>) = workOk w"
  "workOk (w\<lparr>wk_ApprovedHeight := h\<rparr>) = workOk w" "workOk (w\<lparr>wk_SeenHeight := h\<rparr>) = workOk w"
  "workOk (w\<lparr>wk_PreviousCaseID := p\<rparr>) = workOk w" "workOk w \<Longrightarrow> workOk (w\<lparr>wk_Review := None\<rparr>)"
  by (simp_all add: workOk_def)

section \<open>The daemon's own writes\<close>

lemma Store_Put_work:
  assumes "Store_Put d ''work'' k (WorkRow w) = Inr d'"
  shows "rowAt d' ''work'' k' = (if k' = k then Some (WorkRow w) else rowAt d ''work'' k')"
    "rowAt d' ''intents'' k' = rowAt d ''intents'' k'" "rowAt d' ''meta'' k' = rowAt d ''meta'' k'"
    "journalOk d \<Longrightarrow> journalOk d'"
  using Store_Put_rowAt [OF assms, of k'] Store_Put_rowAt(2) [OF assms, of "''intents''"] Store_Put_indexOk [OF assms]
  by (auto simp: primaryName_def journalOk_def)

lemma intentAt_cong: "(\<And>k. rowAt d' ''intents'' k = rowAt d ''intents'' k) \<Longrightarrow> intentAt d' k = intentAt d k"
  by (simp add: intentAt_def)

lemma journalStep_same: "(\<And>k. intentAt d' k = intentAt d k) \<Longrightarrow> journalStep d d'"
  by (simp add: journalStep_def)

lemma workTyped_put:
  assumes "workTyped d" "workOk w" "\<And>k. rowAt d' ''work'' k = (if k = autoCaseID (wk_Hash w) then Some (WorkRow w) else rowAt d ''work'' k)"
  shows "workTyped d'"
  using assms by (auto simp: workTyped_def)

lemma putWork_calm:
  assumes "workOk w"
  shows "calm st (snd (putWork (wk_Hash w) w st))"
proof (cases "Store_Put (ms_db st) ''work'' (autoCaseID (wk_Hash w)) (WorkRow w)")
  case (Inr d)
  note p = Store_Put_work [OF Inr]
  have "workTyped (ms_db st) \<Longrightarrow> workTyped d" using workTyped_put [OF _ assms p(1)] .
  moreover have "journalStep (ms_db st) d" by (intro journalStep_same intentAt_cong p)
  ultimately show ?thesis using p by (auto simp: putWork_def Inr calm_def good_def workGrows_def)
qed (simp add: putWork_def)

lemma putCursor_keeps:
  assumes "putCursor h st = (None, st')"
  shows "good st \<Longrightarrow> good st'" "intentAt (ms_db st') k = intentAt (ms_db st) k"
    "rowAt (ms_db st') ''work'' k = rowAt (ms_db st) ''work'' k" "ms_sent st' = ms_sent st"
    "cursorOf (ms_db st') = Inr h"
proof -
  from assms obtain d where d: "Store_Put (ms_db st) ''meta'' ''cursor'' (NumberRow h) = Inr d" "st' = st\<lparr>ms_db := d\<rparr>"
    by (auto simp: putCursor_def split: sum.splits)
  obtain b where b: "ms_db st ''meta'' = Some b" "d = (ms_db st)(''meta'' \<mapsto> kv_set ''cursor'' (NumberRow h) b)"
    using d(1) by (rule Store_Put_meta) (simp add: primaryName_def)
  have r: "rowAt d ''work'' k = rowAt (ms_db st) ''work'' k" "rowAt d ''intents'' k = rowAt (ms_db st) ''intents'' k" for k
    by (simp_all add: rowAt_def b)
  have "bucketOk d ''intents'' = bucketOk (ms_db st) ''intents''" "bucketOk d ''work'' = bucketOk (ms_db st) ''work''"
    by (intro bucketOk_cong; simp add: b)+
  moreover have "versionOk (ms_db st) \<Longrightarrow> versionOk d" by (simp add: versionOk_def b store_simps indexVersionKey_def)
  ultimately show "good st \<Longrightarrow> good st'" by (simp add: good_def journalOk_def indexOk_def workTyped_def d(2) r)
  show "intentAt (ms_db st') k = intentAt (ms_db st) k" "rowAt (ms_db st') ''work'' k = rowAt (ms_db st) ''work'' k"
    "ms_sent st' = ms_sent st" by (simp_all add: intentAt_def d(2) r)
  show "cursorOf (ms_db st') = Inr h" by (simp add: cursorOf_def Store_Get_def d(2) b store_simps)
qed

lemma getWork_good:
  assumes "good st"
  shows "getWork (ms_db st) hash = (case rowAt (ms_db st) ''work'' (autoCaseID hash) of None \<Rightarrow> Inr None
     | Some row \<Rightarrow> bind_r (unmarshalWork row) (\<lambda>v. Inr (Some v)))"
  using assms Store_Get_rowAt [of "ms_db st" "''work''"]
  by (auto simp: getWork_def good_def journalOk_def indexOk_def bucketOk_def)

lemma getWork_ok:
  assumes "good st" "getWork (ms_db st) hash = Inr (Some w)"
  shows "workOk w \<and> autoCaseID (wk_Hash w) = autoCaseID hash"
  using assms(2) assms(1) unfolding getWork_good [OF assms(1)] good_def workTyped_def by (fastforce split: option.splits)

section \<open>Work items through the stages\<close>

lemma DecodeTransfers_hash:
  "DecodeTransfers E dec tx = Inr ts \<Longrightarrow> t \<in> set ts \<Longrightarrow> dt_TxHash t = pt_Hash tx"
  by (auto simp: DecodeTransfers_def split: option.splits dest: transfersFrom_mem)

lemma find_SomeD: "find P xs = Some x \<Longrightarrow> x \<in> set xs \<and> P x"
  by (induction xs) (auto split: if_splits)

lemma byID_Some: "byID cs ident = Some c \<Longrightarrow> sc_CaseId c = ident \<and> c \<in> set cs"
  unfolding byID_def using find_SomeD by fastforce

lemma followRounds_id:
  "followRounds cs hash c round = (c', n) \<Longrightarrow> sc_CaseId c = roundID hash round \<Longrightarrow> sc_CaseId c' = roundID hash n"
proof (induction cs hash c round rule: followRounds.induct)
  case (1 cs hash c round)
  show ?case
  proof (cases "round < - 1 \<and> (\<exists>x. byID cs (roundID hash (round + 1)) = Some x \<and> sc_PreviousCaseId x = sc_CaseId c)")
    case True
    then obtain x where x: "byID cs (roundID hash (round + 1)) = Some x" "sc_PreviousCaseId x = sc_CaseId c" by blast
    with 1 True show ?thesis by (auto simp: followRounds.simps [of cs hash c] dest: byID_Some)
  next
    case False
    with 1(2,3) show ?thesis by (auto simp: followRounds.simps [of cs hash c] split: if_splits option.splits)
  qed
qed

lemma bindOriginal_Inr:
  assumes "bindOriginal D io w c height = Inr w'"
  obtains original r transfers t where "dq_LookupTx io (wk_Hash w) = Inr original" "tr_Found original" "tr_Code original = 0"
    "tr_Height original \<le> height" "caseReport io c height ''case missing report'' ''case missing primary report'' = Inr r"
    "DecodeTransfers (ae_E (da_agent D)) (ae_decoder (da_agent D)) \<lparr>pt_Bytes = tr_Tx original, pt_Hash = wk_Hash w\<rparr> = Inr transfers"
    "t \<in> set transfers" "reportMatches t r" "sc_TxHash c = rr_TxHash r" "sc_TargetAddress c = rr_Recipient r"
    "w' = w\<lparr>wk_Transfers := [t], wk_Review := (case wk_Review w of None \<Rightarrow> None
           | Some review \<Rightarrow> if sameSend (ou_RiskReport review) r then Some review else None)\<rparr>"
proof -
  from assms obtain original where o: "dq_LookupTx io (wk_Hash w) = Inr original" by (auto simp: bindOriginal_def bind_r_Inr_iff)
  with assms obtain r where r: "tr_Found original" "tr_Code original = 0" "tr_Height original \<le> height"
    "caseReport io c height ''case missing report'' ''case missing primary report'' = Inr r"
    by (auto simp: bindOriginal_def bind_r_Inr_iff not_less split: if_splits)
  with o assms obtain transfers where tr: "DecodeTransfers (ae_E (da_agent D)) (ae_decoder (da_agent D))
      \<lparr>pt_Bytes = tr_Tx original, pt_Hash = wk_Hash w\<rparr> = Inr transfers"
    by (auto simp: bindOriginal_def bind_r_Inr_iff split: if_splits)
  let ?P = "\<lambda>t. reportMatches t r \<and> sc_TxHash c = rr_TxHash r \<and> sc_TargetAddress c = rr_Recipient r"
  have s: "bindOriginal D io w c height = (case find ?P transfers of
       None \<Rightarrow> Inl (AErr ''case report does not match original bank transfer; manual review required'')
     | Some t \<Rightarrow> Inr (w\<lparr>wk_Transfers := [t], wk_Review := (case wk_Review w of None \<Rightarrow> None
           | Some review \<Rightarrow> if sameSend (ou_RiskReport review) r then Some review else None)\<rparr>))"
    using r by (simp add: bindOriginal_def o tr not_less [symmetric])
  show thesis
  proof (cases "find ?P transfers")
    case None
    with s assms show ?thesis by simp
  next
    case (Some t)
    from find_SomeD [OF Some] s assms Some show ?thesis by (intro that [OF o r(1-4) tr, of t]) auto
  qed
qed

lemma bindOriginal_ok:
  assumes "bindOriginal D io w c height = Inr w'" "workOk w"
  shows "workOk w' \<and> wk_Hash w' = wk_Hash w \<and> wk_CaseID w' = wk_CaseID w"
  using assms(1)
proof (rule bindOriginal_Inr)
  fix original r transfers t
  assume t: "DecodeTransfers (ae_E (da_agent D)) (ae_decoder (da_agent D)) \<lparr>pt_Bytes = tr_Tx original, pt_Hash = wk_Hash w\<rparr> = Inr transfers"
    "t \<in> set transfers"
    and w': "w' = w\<lparr>wk_Transfers := [t], wk_Review := (case wk_Review w of None \<Rightarrow> None
           | Some review \<Rightarrow> if sameSend (ou_RiskReport review) r then Some review else None)\<rparr>"
  from DecodeTransfers_hash [OF t] assms(2) show ?thesis
    by (auto simp: w' workOk_def split: option.splits if_splits)
qed

text \<open>How a work item finds its case.\<close>

lemma recoveryCase_Inr:
  assumes "recoveryCase D io w height = Inr (c, w')"
  obtains (absent) "c = None" "w' = w"
    | (ended) c1 where "c = Some c1" "w' = w\<lparr>wk_CaseID := sc_CaseId c1\<rparr>" "\<exists>n. sc_CaseId c1 = roundID (wk_Hash w) n"
        "sc_ExecutedHeight c1 > 0 \<or> closedStatus (sc_Status c1)"
    | (racing) c1 where "c = Some c1" "w' = w" "sc_Status c1 \<noteq> CASE_STATUS_EXPIRED" "\<not> votingOver c1 height"
    | (renewed) c1 w1 n where "c = None" "bindOriginal D io w c1 height = Inr w1" "w' = nextRound w1 c1 n height"
    | (adopted) c1 where "c = Some c1" "w' = adoptCase w c1" "\<exists>n. sc_CaseId c1 = roundID (wk_Hash w) n"
proof -
  from assms obtain cs where cs: "dq_SanctionCasesByTx io height (wk_Hash w) = Inr cs"
    by (auto simp: recoveryCase_def bind_r_Inr_iff)
  show thesis
  proof (cases "byID cs (autoCaseID (wk_Hash w))")
    case None
    then show ?thesis using assms cs by (intro absent) (simp_all add: recoveryCase_def)
  next
    case (Some root)
    obtain c1 n where f: "followRounds cs (wk_Hash w) root 0 = (c1, n)" by fastforce
    have id: "\<exists>n. sc_CaseId c1 = roundID (wk_Hash w) n"
      using followRounds_id [OF f] byID_Some [OF Some] roundID_zero by metis
    show ?thesis
    proof (cases "sc_ExecutedHeight c1 > 0 \<or> sc_Status c1 = CASE_STATUS_REVOKED \<or> sc_Status c1 = CASE_STATUS_REJECTED")
      case True
      with assms show ?thesis using id by (intro ended [of c1]) (auto simp: recoveryCase_def cs Some f closedStatus_def)
    next
      case False
      with assms obtain r where r: "caseReport io c1 height ''case missing evidence'' ''case missing report'' = Inr r"
        by (auto simp: recoveryCase_def cs Some f bind_r_Inr_iff)
      show ?thesis
      proof (cases "(rr_ExpiryHeight r \<le> height + 1 \<or> sc_Status c1 = CASE_STATUS_EXPIRED \<or> votingOver c1 height)
              \<and> sc_TargetType c1 = SANCTION_TARGET_TYPE_ADDRESS")
        case a: True
        show ?thesis
        proof (cases "rr_ExpiryHeight r > height \<and> \<not> votingOver c1 height \<and> sc_Status c1 \<noteq> CASE_STATUS_EXPIRED")
          case True
          with assms a False show ?thesis by (intro racing [of c1]) (auto simp: recoveryCase_def cs Some f r)
        next
          case b: False
          have "recoveryCase D io w height = (if n = - 1 then Inl (AErr ''recovery round overflow'')
             else bind_r (bindOriginal D io w c1 height) (\<lambda>w'. Inr (None, nextRound w' c1 n height)))"
            unfolding recoveryCase_def cs bind_r_simps Some option.case f prod.case if_not_P [OF False] r if_P [OF a] if_not_P [OF b] ..
          with assms obtain w1 where "bindOriginal D io w c1 height = Inr w1" "c = None" "w' = nextRound w1 c1 n height"
            by (auto simp: bind_r_Inr_iff split: if_splits)
          then show ?thesis by (intro renewed)
        qed
      next
        case a: False
        have "recoveryCase D io w height = Inr (Some c1, adoptCase w c1)"
          unfolding recoveryCase_def cs bind_r_simps Some option.case f prod.case if_not_P [OF False] r if_not_P [OF a] ..
        with assms have "c = Some c1" "w' = adoptCase w c1" by simp_all
        then show ?thesis using id by (intro adopted)
      qed
    qed
  qed
qed

lemma recoveryCase_ok:
  assumes "recoveryCase D io w height = Inr (c, w')" "workOk w"
  shows "workOk w' \<and> wk_Hash w' = wk_Hash w"
proof -
  have n: "workOk (nextRound w1 c1 n height) \<and> wk_Hash (nextRound w1 c1 n height) = wk_Hash w1" if "workOk w1" for w1 c1 n
    using that by (auto simp: nextRound_def workOk_def Let_def)
  from assms(1) show ?thesis
  proof (cases rule: recoveryCase_Inr)
    case (renewed c1 w1 n)
    with n [of w1 c1 n] bindOriginal_ok [OF renewed(2) assms(2)] show ?thesis by simp
  qed (use assms(2) in \<open>auto simp: workOk_def adoptCase_def\<close>)
qed

lemma existingCase_ok:
  assumes "existingCase D io d w c height = Inr g" "workOk w"
  shows "case g of Halt w' \<Rightarrow> workOk w' | Proceed w' \<Rightarrow> workOk w'"
proof -
  have "(\<exists>x. g = finish w x) \<or> g = Proceed w \<or> (\<exists>w'. bindOriginal D io w c height = Inr w' \<and> g = Proceed w')"
    using assms(1) unfolding existingCase_def by (auto simp: bind_r_Inr_iff split: if_splits)
  then show ?thesis using assms(2) by (auto simp: finish_def dest: bindOriginal_ok)
qed

lemma absentCase_ok:
  assumes "absentCase D io w height active = Inr g" "workOk w"
  shows "case g of Halt w' \<Rightarrow> workOk w' | Proceed w' \<Rightarrow> w' = w"
proof -
  have "g = Halt w \<or> (\<exists>x. g = finish w x) \<or> g = Proceed w"
    using assms(1) unfolding absentCase_def by (auto simp: bind_r_Inr_iff split: if_splits)
  then show ?thesis using assms(2) by (auto simp: finish_def)
qed

lemma transfersOfCase_ok:
  assumes "transfersOfCase io w c height = Inr w'" "workOk w"
  shows "workOk w'"
  using assms by (cases "wk_Transfers w"; cases c) (auto simp: transfersOfCase_def bind_r_Inr_iff workOk_def)

section \<open>Every stage is calm\<close>

text \<open>The documented contract of the hash: 32 bytes.\<close>

definition hashes32 :: "'b daemon \<Rightarrow> bool" where
  "hashes32 D \<longleftrightarrow> (\<forall>bz. length (TxHash (ae_E (da_agent D)) bz) = 32)"

lemma calm_of_keeps:
  assumes "good st \<Longrightarrow> keeps st st' \<and> ms_sent st' = ms_sent st" "filing io st st'"
  shows "calm st st'"
  using assms by (auto simp: calm_def good_def keeps_def filing_def filed_def journalOk_def)

lemma good_journal: "good st \<Longrightarrow> journalOk (ms_db st)" by (simp add: good_def)

lemma Enqueue_calm: "calm st (snd (Enqueue M ident kind caseID msgs st))"
  by (rule calm_of_keeps [OF Enqueue_keeps [OF good_journal] filing.R_Enqueue])

lemma RefreshQueued_calm: "calm st (snd (RefreshQueued M ident height msgs st))"
  by (rule calm_of_keeps [OF RefreshQueued_keeps [OF good_journal] filing.R_RefreshQueued])

lemma preparesOk_const: "preparesOk (\<lambda>_ s. (r, s))"
  by (simp add: preparesOk_def intentsKept_def)

lemma Recover_calm: "calm st (snd (Recover M io ident height reason (\<lambda>_ s. (r, s)) givenID st))"
  by (rule calm_of_keeps [OF Recover_keeps [OF good_journal preparesOk_const] filing.R_Recover]) (simp_all add: filing.R_refl)

lemma evaluateWork_ok:
  assumes "evaluateWork D io w height params st = (r, st')" "workOk w"
  shows "(st' = st \<or> (\<exists>w'. workOk w' \<and> wk_Hash w' = wk_Hash w \<and> st' = snd (putWork (wk_Hash w) w' st)))
    \<and> (\<forall>w'. r = Inr w' \<longrightarrow> workOk w')"
proof (cases "wk_Transfers w = [] \<or> evaluationTTL D params < 3 \<or> height > - 1 - evaluationTTL D params")
  case True
  then show ?thesis using assms(1) by (auto simp: evaluateWork_def Let_def split: if_splits)
next
  case False
  let ?o = "evaluationOptions D height (evaluationTTL D params) params"
  obtain x gs where p: "processPendingTransfers (da_agent D) (dq_command io) (wk_Transfers w) ?o emptyGuard = (x, gs)" by fastforce
  from False assms(1) p have e: "(case x of Inl e \<Rightarrow> (Inl e, st) | Inr review \<Rightarrow>
      (case putWork (wk_Hash w) (w\<lparr>wk_Review := Some review\<rparr>) st of
         (Some e, st') \<Rightarrow> (Inl e, st') | (None, st') \<Rightarrow> (Inr (w\<lparr>wk_Review := Some review\<rparr>), st'))) = (r, st')"
    by (cases x) (simp_all add: evaluateWork_def Let_def)
  show ?thesis
  proof (cases x)
    case (Inl e1)
    with e show ?thesis by auto
  next
    case (Inr review)
    have "\<not> op_broadcast ?o" by (simp add: evaluationOptions_def)
    from processPendingTransfers_quiet [OF this p [unfolded Inr]] obtain t where t: "t \<in> set (wk_Transfers w)"
      "evaluated (da_agent D) (ci_web (dq_command io)) ?o (inputOf t) = Inr review" unfolding judged_def by auto
    have "dt_TxHash t = wk_Hash w" using t(1) assms(2) by (simp add: workOk_def)
    then have "workOk (w\<lparr>wk_Review := Some review\<rparr>)" using assms(2) evaluated_report [OF t(2)]
      by (auto simp: workOk_def reportsTransfer_def inputOf_def)
    then show ?thesis using e Inr
      by (cases "putWork (wk_Hash w) (w\<lparr>wk_Review := Some review\<rparr>) st"; cases "fst (putWork (wk_Hash w) (w\<lparr>wk_Review := Some review\<rparr>) st)")
        (auto intro!: exI [of _ "w\<lparr>wk_Review := Some review\<rparr>"])
  qed
qed

lemma ListActive_work:
  assumes "good st" "ListActive (ms_db st) ''work'' = Inr rows" "row \<in> set rows"
  shows "\<exists>w. row = WorkRow w \<and> workOk w"
proof -
  have "bucketOk (ms_db st) ''work''" using assms(1) by (simp add: good_def journalOk_def indexOk_def)
  from ListActive_set [OF this] assms(2,3) obtain k where "rowAt (ms_db st) ''work'' k = Some row"
    by (auto simp: primaryName_def)
  with assms(1) show ?thesis by (fastforce simp: good_def workTyped_def)
qed

section \<open>Every stage is made of the daemon's writes\<close>

text \<open>The messages of an intent: the one control operation of its kind on its case, and the report of an opening.\<close>

definition filedMessages :: "string \<Rightarrow> string \<Rightarrow> request list \<Rightarrow> bool" where
  "filedMessages kind caseID msgs \<longleftrightarrow>
     (kind = ''open'' \<and> (\<exists>r m. msgs = [ReqSubmitRiskReport r, ReqOpenSanctionCase m] \<and> sm_Report r \<noteq> None \<and> oc_CaseId m = caseID))
   \<or> (kind = ''vote'' \<and> (\<exists>m v. msgs = [ReqSubmitSanctionVote m] \<and> vm_Vote m = Some v \<and> sv_CaseId v = caseID))
   \<or> (kind = ''execute'' \<and> (\<exists>m. msgs = [ReqExecuteSanction m] \<and> xm_CaseId m = caseID))"

lemma openMessages_control: "openMessages D w = Inr msgs \<Longrightarrow> filedMessages ''open'' (wk_CaseID w) msgs"
  by (auto simp: openMessages_def filedMessages_def bind_r_Inr_iff split: option.splits if_splits)

lemma reviewVote_control:
  "reviewVote D caseID review action c height reason = Inr msg \<Longrightarrow> filedMessages ''vote'' caseID [msg]"
  by (auto simp: reviewVote_def filedMessages_def bind_r_Inr_iff split: option.splits dest!: SignVote_fields)

locale daemon_writes =
  fixes R :: "agentState \<Rightarrow> agentState \<Rightarrow> bool" and D :: "'b daemon"
  assumes R_refl: "R st st"
    and R_trans: "R st st' \<Longrightarrow> R st' st'' \<Longrightarrow> R st st''"
    and R_putWork: "workOk w \<Longrightarrow> R st (snd (putWork (wk_Hash w) w st))"
    and R_Enqueue: "filedMessages kind caseID msgs \<Longrightarrow>
      R st (snd (Enqueue (da_manager D) (kind @ ''/'' @ caseID) kind caseID msgs st))"
    and R_RefreshQueued: "filedMessages ''open'' caseID msgs \<Longrightarrow>
      R st (snd (RefreshQueued (da_manager D) (''open/'' @ caseID) height msgs st))"
    and R_Recover: "filedMessages ''open'' caseID msgs \<Longrightarrow>
      R st (snd (Recover (da_manager D) io (''open/'' @ caseID) height reason (\<lambda>_ s. (Inr msgs, s)) q st))"
begin

declare R_refl [simp]

lemma R_evaluateWork:
  assumes "evaluateWork D io w height params st = (r, st')" "workOk w"
  shows "R st st'"
  using evaluateWork_ok [OF assms] R_putWork by (metis R_refl)

lemma R_reviewed:
  assumes "reviewed D io w c height params st = (r, st')" "workOk w"
  shows "R st st' \<and> (\<forall>w'. r = Inr w' \<longrightarrow> workOk w')"
proof -
  define w1 where "w1 = (if reviewExpired w height then w\<lparr>wk_Review := None\<rparr> else w)"
  have ok: "workOk w1" using assms(2) by (simp add: w1_def)
  have e: "(if wk_Review w1 \<noteq> None then (Inr w1, st) else case transfersOfCase io w1 c height of
       Inl e \<Rightarrow> (Inl e, st) | Inr w' \<Rightarrow> evaluateWork D io w' height params st) = (r, st')"
    using assms(1) unfolding reviewed_def Let_def w1_def .
  show ?thesis
  proof (cases "wk_Review w1 = None")
    case True
    with e ok R_evaluateWork evaluateWork_ok transfersOfCase_ok [OF _ ok] show ?thesis
      by (cases "transfersOfCase io w1 c height") (auto, blast+)
  qed (use e ok in auto)
qed

lemma R_propose:
  assumes "propose D io owner w height rank st = (r, st')"
  shows "R st st' \<and> (\<forall>w'. r = Inr w' \<longrightarrow> w' = w)"
proof (cases "height < turn (wk_SeenHeight w) rank \<or> \<not> is_ok (openMessages D w)")
  case True
  then show ?thesis using assms by (auto simp: propose_def is_ok_iff split: sum.splits if_splits)
next
  case False
  then obtain msgs where m: "openMessages D w = Inr msgs" "\<not> height < turn (wk_SeenHeight w) rank" by (auto simp: is_ok_iff)
  obtain e st1 where q: "Enqueue (da_manager D) (''open/'' @ wk_CaseID w) ''open'' (wk_CaseID w) msgs st = (e, st1)" by fastforce
  note c = openMessages_control [OF m(1)]
  have k1: "R st st1" using R_Enqueue [OF c, of st] q by simp
  have k2: "RefreshQueued (da_manager D) (''open/'' @ wk_CaseID w) height msgs st1 = (x, st2) \<Longrightarrow> R st st2"
    "Recover (da_manager D) io' (''open/'' @ wk_CaseID w) height reason (\<lambda>_ s. (Inr msgs, s)) q st1 = (x, st2) \<Longrightarrow> R st st2"
    for io' reason q x st2
    using R_trans [OF k1 R_RefreshQueued [OF c]] R_trans [OF k1 R_Recover [OF c]] by (metis snd_conv)+
  show ?thesis using assms m q k1
    by (auto simp: propose_def Let_def dest: k2 [simplified] split: option.splits sum.splits prod.splits if_splits)
qed

lemma R_voteOnCase: "R st (snd (voteOnCase D w review action c votes height st))"
  using R_Enqueue [OF reviewVote_control, of D] by (auto simp: voteOnCase_def split: sum.split)

lemma R_executeCase:
  assumes "executeCase D w action c votes height rank st = (r, st')" "workOk w"
  shows "R st st' \<and> (\<forall>w'. r = Inr w' \<longrightarrow> workOk w')"
proof -
  define w1 where "w1 = (if wk_ApprovedHeight w = 0 then w\<lparr>wk_ApprovedHeight := height\<rparr> else w)"
  obtain e st1 where p: "(if wk_ApprovedHeight w = 0 then putWork (wk_Hash w) w1 st else (None, st)) = (e, st1)" by fastforce
  have ok: "workOk w1" "wk_Hash w1 = wk_Hash w" using assms(2) by (simp_all add: w1_def)
  have k1: "R st st1" using p R_putWork [OF ok(1), of st] ok(2) by (auto split: if_splits)
  let ?msgs = "[ReqExecuteSanction \<lparr>xm_Executor = sg_Address (da_signer D), xm_CaseId = wk_CaseID w1,
     xm_ResultMessage = ''durable autonomous agent''\<rparr>]"
  have "filedMessages ''execute'' (wk_CaseID w1) ?msgs" by (simp add: filedMessages_def)
  from R_trans [OF k1 R_Enqueue [OF this]]
  have k2: "Enqueue (da_manager D) (''execute/'' @ wk_CaseID w1) ''execute'' (wk_CaseID w1) ?msgs st1 = (x, st2) \<Longrightarrow> R st st2" for x st2
    by (metis append_Cons append_Nil snd_conv)
  have e: "(if sc_Status c \<noteq> CASE_STATUS_APPROVED \<or> action \<noteq> sc_RequestedAction c \<or> awaitsUnanimity c votes then (Inr w, st)
      else case (e, st1) of (Some e, st') \<Rightarrow> (Inl e, st') | (None, st') \<Rightarrow>
          if height < turn (wk_ApprovedHeight w1) rank then (Inr w1, st')
          else (case Enqueue (da_manager D) (''execute/'' @ wk_CaseID w1) ''execute'' (wk_CaseID w1)
                  [ReqExecuteSanction \<lparr>xm_Executor = sg_Address (da_signer D), xm_CaseId = wk_CaseID w1,
                     xm_ResultMessage = ''durable autonomous agent''\<rparr>] st' of
              (Some e, st'') \<Rightarrow> (Inl e, st'') | (None, st'') \<Rightarrow> (Inr w1, st''))) = (r, st')"
    using assms(1) unfolding executeCase_def Let_def w1_def [symmetric] ok(2) p .
  show ?thesis using e k1 ok(1) assms(2)
    by (auto dest: k2 [simplified] split: option.splits prod.splits if_splits)
qed

lemma R_act:
  assumes "act D io owner w c height rank st = (r, st')" "workOk w"
  shows "R st st' \<and> (\<forall>w'. r = Inr w' \<longrightarrow> workOk w')"
proof (cases "\<exists>review action. wk_Review w = Some review \<and> parseSanctionAction (ou_Action review) = Inr action")
  case False
  then show ?thesis using assms by (auto simp: act_def split: option.splits sum.splits)
next
  case True
  then obtain review action where a: "wk_Review w = Some review" "parseSanctionAction (ou_Action review) = Inr action" by blast
  show ?thesis
  proof (cases c)
    case None
    with assms a show ?thesis by (auto simp: act_def dest: R_propose split: if_splits)
  next
    case (Some c1)
    show ?thesis
    proof (cases "dq_SanctionVotes io height (wk_CaseID w)")
      case (Inl e)
      with assms a Some show ?thesis by (auto simp: act_def)
    next
      case (Inr votes)
      obtain e st1 where v: "voteOnCase D w review action c1 votes height st = (e, st1)" by fastforce
      then have k: "R st st1" using R_voteOnCase [of st] by (metis snd_conv)
      have "(case e of Some e \<Rightarrow> (Inl e, st1) | None \<Rightarrow> executeCase D w action c1 votes height rank st1) = (r, st')"
        using assms(1) by (simp add: act_def a Some Inr v split: option.splits)
      with k assms(2) R_executeCase show ?thesis by (fastforce split: option.splits intro: R_trans)
    qed
  qed
qed

lemma R_progress:
  assumes "progress D io owner w height rank active params st = (r, st')" "workOk w"
  shows "R st st' \<and> (\<forall>w'. r = Inr w' \<longrightarrow> workOk w')"
proof -
  let ?start = "bind_r (recoveryCase D io w height) (\<lambda>(c, w).
             bind_r (case c of None \<Rightarrow> absentCase D io w height active
                     | Some c' \<Rightarrow> existingCase D io (ms_db st) w c' height) (\<lambda>g. Inr (c, g)))"
  show ?thesis
  proof (cases ?start)
    case (Inl e)
    with assms(1) show ?thesis by (auto simp: progress_def)
  next
    case (Inr cg)
    obtain c g where cg: "cg = (c, g)" by fastforce
    from Inr cg obtain w1 where w1: "recoveryCase D io w height = Inr (c, w1)"
      "(case c of None \<Rightarrow> absentCase D io w1 height active | Some c' \<Rightarrow> existingCase D io (ms_db st) w1 c' height) = Inr g"
      by (auto simp: bind_r_Inr_iff)
    have ok1: "workOk w1" using recoveryCase_ok [OF w1(1) assms(2)] by simp
    have ok2: "case g of Halt w' \<Rightarrow> workOk w' | Proceed w' \<Rightarrow> workOk w'"
      using w1(2) absentCase_ok [OF _ ok1] existingCase_ok [OF _ ok1] ok1 by (fastforce split: option.splits gate.splits)
    show ?thesis
    proof (cases g)
      case (Halt w2)
      with assms(1) Inr cg ok2 show ?thesis by (auto simp: progress_def)
    next
      case (Proceed w2)
      obtain x st1 where v: "reviewed D io w2 c height params st = (x, st1)" by fastforce
      from R_reviewed [OF v] ok2 Proceed have k: "R st st1" "\<And>w'. x = Inr w' \<Longrightarrow> workOk w'" by auto
      have "(case x of Inl e \<Rightarrow> (Inl e, st1) | Inr w' \<Rightarrow> act D io owner w' c height rank st1) = (r, st')"
        using assms(1) by (simp add: progress_def Inr cg Proceed v split: sum.splits)
      with k R_act show ?thesis by (fastforce split: sum.splits intro: R_trans)
    qed
  qed
qed

lemma reopened_ok: "workOk w \<Longrightarrow> workOk (reopened w)" by (simp add: reopened_def)

lemma R_workLoop:
  assumes "workLoop D ios owner h rank active params n rows st = (r, st')" "\<forall>row \<in> set rows. \<exists>w. row = WorkRow w \<and> workOk w"
  shows "R st st'"
  using assms
proof (induction rows arbitrary: n st)
  case (Cons row rows)
  from Cons.prems(2) obtain w where w: "row = WorkRow w" "workOk w" by auto
  have ih: "R s st'" if "workLoop D ios owner h rank active params m rows s = (r, st')" for m s
    using Cons.IH [OF that] Cons.prems(2) by simp
  obtain x st1 where p: "progress D (ios n) owner (reopened w) h rank active params st = (x, st1)" by fastforce
  note k = R_progress [OF p reopened_ok [OF w(2)]]
  show ?case
  proof (cases "wk_Done (reopened w)")
    case True
    with Cons.prems(1) w ih show ?thesis by simp
  next
    case False
    show ?thesis
    proof (cases x)
      case (Inl e)
      with Cons.prems(1) w False p k ih show ?thesis by (auto intro: R_trans)
    next
      case (Inr w1)
      obtain e st2 where q: "putWork (wk_Hash w1) w1 st1 = (e, st2)" by fastforce
      have k2: "R st st2" using R_trans [OF conjunct1 [OF k] R_putWork] k Inr q by (metis snd_conv)
      have "(case e of Some e \<Rightarrow> (Some e, st2) | None \<Rightarrow> workLoop D ios owner h rank active params (n + 1) rows st2) = (r, st')"
        using Cons.prems(1) w False p Inr q by (simp split: option.splits)
      with k2 ih show ?thesis by (auto split: option.splits intro: R_trans)
    qed
  qed
qed simp

lemma R_workStage:
  assumes "workStage D t owner h st = (r, st')" "good st"
  shows "R st st'"
proof -
  from assms(1) consider "st' = st" | rows rank agents params where "ListActive (ms_db st) ''work'' = Inr rows"
      "workLoop D (tk_rows t) owner h rank agents params 0 rows st = (r, st')"
    by (auto simp: workStage_def bind_r_def split: sum.splits option.splits)
  then show ?thesis
  proof cases
    case 2
    then show ?thesis using ListActive_work [OF assms(2)] by (intro R_workLoop [OF 2(2)]) blast
  qed simp
qed

end

interpretation quietly: daemon_writes calm D for D :: "'b daemon"
  by unfold_locales (simp_all add: calm_trans [rotated] putWork_calm Enqueue_calm RefreshQueued_calm Recover_calm)

lemma workStage_calm: "workStage D t owner h st = (r, st') \<Longrightarrow> calm st st'"
  by (cases "good st") (rule quietly.R_workStage, assumption+, simp add: calm_def)

end
