(* ===== verification/DaemonRun.thy ===== *)
theory DaemonRun
  imports DaemonSpec
begin

text \<open>
  A whole tick and a whole run of the daemon: what the scan of the chain guarantees about every block
  it leaves behind, when a transaction may be sent, and how the journal evolves over any number of
  ticks.
\<close>

section \<open>Observing transactions\<close>

definition txID :: "'b daemon \<Rightarrow> bytes \<Rightarrow> string" where
  "txID D bz = toUpper (hexEncode (TxHash (ae_E (da_agent D)) bz))"

text \<open>A transaction is covered when it holds no transfer, or a work item for it is in the journal.\<close>

definition covered :: "'b daemon \<Rightarrow> journal \<Rightarrow> bytes \<Rightarrow> bool" where
  "covered D d bz \<longleftrightarrow> (\<exists>ts. DecodeTransfers (ae_E (da_agent D)) (ae_decoder (da_agent D)) \<lparr>pt_Bytes = bz, pt_Hash = txID D bz\<rparr> = Inr ts
     \<and> (ts \<noteq> [] \<longrightarrow> rowAt d ''work'' (autoCaseID (txID D bz)) \<noteq> None))"

definition blockCovered :: "'b daemon \<Rightarrow> daemonIO \<Rightarrow> journal \<Rightarrow> u64 \<Rightarrow> bool" where
  "blockCovered D io d h \<longleftrightarrow> (\<exists>txs codes. dq_BlockTxs io h = Inr (txs, codes) \<and> length txs \<le> length codes
     \<and> (\<forall>n < length txs. codes ! n = 0 \<longrightarrow> covered D d (txs ! n)))"

lemma covered_grows: "workGrows d d' \<Longrightarrow> covered D d bz \<Longrightarrow> covered D d' bz"
  by (auto simp: covered_def workGrows_def)

lemma blockCovered_grows: "workGrows d d' \<Longrightarrow> blockCovered D io d h \<Longrightarrow> blockCovered D io d' h"
  unfolding blockCovered_def using covered_grows by blast

lemma caseHash_txID: "hashes32 D \<Longrightarrow> caseHash (txID D bz)"
  by (simp add: txID_def hashes32_def caseHash_hexEncode)

lemma addWork_calm:
  assumes "addWork hash w st = (r, st')" "workOk w" "wk_Hash w = hash"
  shows "calm st st' \<and> (good st \<longrightarrow> r = None \<longrightarrow> rowAt (ms_db st') ''work'' (autoCaseID hash) \<noteq> None)"
proof (cases "getWork (ms_db st) hash")
  case (Inl e)
  with assms(1) show ?thesis by (auto simp: addWork_def)
next
  case (Inr found)
  show ?thesis
  proof (cases found)
    case None
    with assms Inr have p: "putWork (wk_Hash w) w st = (r, st')" by (simp add: addWork_def)
    have "rowAt (ms_db st') ''work'' (autoCaseID hash) \<noteq> None" if "r = None"
      using p that assms(3) Store_Put_work(1) by (fastforce simp: putWork_def split: sum.splits)
    with putWork_calm [OF assms(2), of st] p show ?thesis by simp
  next
    case (Some w')
    with assms(1) Inr show ?thesis by (auto simp: addWork_def getWork_good split: option.splits)
  qed
qed

lemma newWork_ok: "caseHash hash \<Longrightarrow> workOk (newWork p (roundID hash n) hash (map (\<lambda>t. t\<lparr>dt_TxHash := hash\<rparr>) ts) h)"
  by (auto simp: workOk_def newWork_def zeroWork_def)

lemma observe_calm:
  assumes "observe D tx h st = (r, st')" "caseHash (toUpper (pt_Hash tx))"
  shows "calm st st' \<and> (good st \<longrightarrow> r = None \<longrightarrow>
    (\<exists>ts. DecodeTransfers (ae_E (da_agent D)) (ae_decoder (da_agent D)) tx = Inr ts
      \<and> (ts \<noteq> [] \<longrightarrow> rowAt (ms_db st') ''work'' (autoCaseID (toUpper (pt_Hash tx))) \<noteq> None)))"
proof (cases "DecodeTransfers (ae_E (da_agent D)) (ae_decoder (da_agent D)) tx")
  case (Inl e)
  with assms(1) show ?thesis by (auto simp: observe_def)
next
  case (Inr ts)
  let ?h = "toUpper (pt_Hash tx)"
  show ?thesis
  proof (cases "ts = []")
    case True
    with assms(1) Inr show ?thesis by (auto simp: observe_def)
  next
    case False
    have ok: "workOk (newWork [] (autoCaseID ?h) ?h (map (\<lambda>t. t\<lparr>dt_TxHash := ?h\<rparr>) ts) h)"
      using newWork_ok [OF assms(2), of "[]" 0] by (simp only: roundID_zero)
    have a: "addWork ?h (newWork [] (autoCaseID ?h) ?h (map (\<lambda>t. t\<lparr>dt_TxHash := ?h\<rparr>) ts) h) st = (r, st')"
      using assms(1) Inr False by (simp add: observe_def Let_def)
    from addWork_calm [OF a ok] Inr show ?thesis by (simp add: newWork_def)
  qed
qed

lemma observeOpen_calm: "calm st (snd (observeOpen h msg st))"
proof (cases "parseAutoCaseID (oc_CaseId msg)")
  case (Inl e)
  then show ?thesis by (simp add: observeOpen_def)
next
  case (Inr x)
  obtain hash n where x: "x = (hash, n)" by fastforce
  from parseAutoCaseID_Inr Inr x have id: "caseHash hash" "oc_CaseId msg = roundID hash n" by blast+
  show ?thesis
  proof (cases "equalFold hash (hexEncode (oc_TxHash msg))")
    case False
    with Inr x show ?thesis by (simp add: observeOpen_def)
  next
    case True
    with id(1) have e: "toUpper (hexEncode (oc_TxHash msg)) = hash" by (simp add: equalFold_def caseHash_def)
    have "workOk (newWork (oc_PreviousCaseId msg) (oc_CaseId msg) hash [] h)"
      using newWork_ok [OF id(1), of "oc_PreviousCaseId msg" n "[]"] id(2) by simp
    from addWork_calm [OF prod.collapse [symmetric] this] Inr x True e show ?thesis by (simp add: observeOpen_def newWork_def)
  qed
qed

lemma observeOpens_calm: "calm st (snd (observeOpens h msgs st))"
proof (induction h msgs st rule: observeOpens.induct)
  case (2 h msg msgs st)
  obtain e st1 where o: "observeOpen h msg st = (e, st1)" by fastforce
  have "calm st st1" using observeOpen_calm [of st h msg] o by simp
  with 2 o show ?case by (cases e) (auto intro: calm_trans)
qed simp_all

lemma observeAll_calm:
  assumes "hashes32 D"
  shows "calm st (observeAll D h txs st)"
proof (induction txs arbitrary: st)
  case (Cons tx txs)
  let ?tx = "\<lparr>pt_Bytes = tx, pt_Hash = hexEncode (TxHash (ae_E (da_agent D)) tx)\<rparr>"
  have "calm st (snd (observe D ?tx h st))"
    using observe_calm [where tx = ?tx and D = D, OF prod.collapse [symmetric]] caseHash_txID [OF assms, of tx] by (simp add: txID_def)
  from calm_trans [OF this Cons.IH] show ?case by simp
qed simp

section \<open>Scanning blocks\<close>

lemma calm_good: "calm st st' \<Longrightarrow> good st \<Longrightarrow> good st' \<and> workGrows (ms_db st) (ms_db st')"
  by (simp add: calm_def)

lemma scanTxs_calm:
  assumes "scanTxs D h txs codes st = (r, st')" "hashes32 D" "good st"
  shows "calm st st' \<and> (r = None \<longrightarrow> length txs \<le> length codes \<and> (\<forall>n < length txs. codes ! n = 0 \<longrightarrow> covered D (ms_db st') (txs ! n)))"
  using assms(1,3)
proof (induction txs arbitrary: codes st)
  case (Cons bz txs)
  show ?case
  proof (cases codes)
    case Nil
    with Cons.prems show ?thesis by auto
  next
    case (Cons code codes')
    have step: ?thesis if "calm st st1" "code = 0 \<longrightarrow> covered D (ms_db st1) bz" "scanTxs D h txs codes' st1 = (r, st')" for st1
    proof -
      have g: "good st1" using calm_good [OF that(1) Cons.prems(2)] by simp
      note ih = Cons.IH [OF that(3) g]
      have w: "workGrows (ms_db st1) (ms_db st')" using calm_good [OF conjunct1 [OF ih] g] by simp
      from ih that(1,2) covered_grows [OF w] show ?thesis unfolding local.Cons
        by (auto intro: calm_trans simp: less_Suc_eq_0_disj)
    qed
    show ?thesis
    proof (cases "code = 0")
      case False
      with Cons.prems(1) local.Cons show ?thesis by (intro step [of st]) simp_all
    next
      case True
      obtain e st1 where o: "observe D \<lparr>pt_Bytes = bz, pt_Hash = txID D bz\<rparr> h st = (e, st1)" by fastforce
      have t: "toUpper (txID D bz) = txID D bz" by (simp add: txID_def)
      from observe_calm [OF o] caseHash_txID [OF assms(2)] t Cons.prems(2)
      have k: "calm st st1" "e = None \<Longrightarrow> covered D (ms_db st1) bz" by (auto simp: covered_def)
      have e: "(case e of Some e \<Rightarrow> (Some e, st1) | None \<Rightarrow> (case ae_decoder (da_agent D) bz of
          None \<Rightarrow> (Some (AExternal ''tx decode''), st1)
        | Some msgs \<Rightarrow> (case observeOpens h msgs st1 of
            (Some e, st'') \<Rightarrow> (Some e, st'') | (None, st'') \<Rightarrow> scanTxs D h txs codes' st''))) = (r, st')"
        using Cons.prems(1) local.Cons True o by (simp add: txID_def split: option.splits)
      show ?thesis
      proof (cases "e = None \<and> ae_decoder (da_agent D) bz \<noteq> None")
        case False
        with e k(1) show ?thesis by (auto split: option.splits)
      next
        case True
        then obtain msgs where m: "ae_decoder (da_agent D) bz = Some msgs" "e = None" by auto
        obtain e2 st2 where o2: "observeOpens h msgs st1 = (e2, st2)" by fastforce
        then have k2: "calm st1 st2" using observeOpens_calm [of st1 h msgs] by simp
        have c: "covered D (ms_db st2) bz"
          using covered_grows k(2) m(2) calm_good [OF k2] calm_good [OF k(1) Cons.prems(2)] by blast
        show ?thesis
        proof (cases e2)
          case None
          then show ?thesis using e m o2 c calm_trans [OF k(1) k2] by (intro step [of st2]) auto
        next
          case (Some x)
          with e m o2 calm_trans [OF k(1) k2] show ?thesis by auto
        qed
      qed
    qed
  qed
qed simp

text \<open>The cursor moves behind a block only once all of the block is covered.\<close>

definition quiet :: "agentState \<Rightarrow> agentState \<Rightarrow> bool" where
  "quiet st st' \<longleftrightarrow> good st' \<and> journalStep (ms_db st) (ms_db st') \<and> workGrows (ms_db st) (ms_db st') \<and> ms_sent st' = ms_sent st"

lemma quiet_refl: "good st \<Longrightarrow> quiet st st" by (simp add: quiet_def)

lemma quiet_trans: "quiet st st' \<Longrightarrow> quiet st' st'' \<Longrightarrow> quiet st st''"
  by (auto simp: quiet_def intro: journalStep_trans workGrows_trans)

lemma calm_quiet: "calm st st' \<Longrightarrow> good st \<Longrightarrow> quiet st st'"
  by (simp add: calm_def quiet_def)

lemma cursorOf_good:
  assumes "good st"
  shows "cursorOf (ms_db st) = (case rowAt (ms_db st) ''meta'' ''cursor'' of None \<Rightarrow> Inr 0 | Some row \<Rightarrow> unmarshalUint64 row)"
proof -
  obtain b where "ms_db st ''meta'' = Some b"
    using assms by (auto simp: good_def journalOk_def indexOk_def versionOk_def)
  then show ?thesis by (cases "rowAt (ms_db st) ''meta'' ''cursor''")
      (auto simp: cursorOf_def Store_Get_rowAt bind_r_def split: sum.split)
qed

lemma calm_cursor: "calm st st' \<Longrightarrow> good st \<Longrightarrow> cursorOf (ms_db st') = cursorOf (ms_db st)"
  using cursorOf_good by (simp add: calm_def)

lemma scanBlocks_covers:
  assumes "scanBlocks D io (c + 1) n st = (r, st')" "hashes32 D" "good st" "cursorOf (ms_db st) = Inr c"
  shows "quiet st st' \<and> (\<exists>m \<le> n. cursorOf (ms_db st') = Inr (c + of_nat m) \<and> (r = None \<longrightarrow> m = n)
    \<and> (\<forall>j < m. blockCovered D io (ms_db st') (c + 1 + of_nat j)))"
  using assms(1,3,4)
proof (induction n arbitrary: c st)
  case 0
  then show ?case by (auto simp: quiet_refl)
next
  case (Suc n)
  have stop: ?case if "quiet st st'" "cursorOf (ms_db st') = Inr c" "r \<noteq> None"
    using that by (intro conjI exI [of _ 0]) auto
  show ?case
  proof (cases "dq_BlockTxs io (c + 1)")
    case (Inl e)
    with Suc.prems show ?thesis by (intro stop) (auto simp: quiet_refl)
  next
    case (Inr b)
    obtain txs codes where b: "b = (txs, codes)" by fastforce
    obtain e st1 where s: "scanTxs D (c + 1) txs codes st = (e, st1)" by fastforce
    note k = scanTxs_calm [OF s assms(2) Suc.prems(2)]
    have q1: "quiet st st1" "cursorOf (ms_db st1) = Inr c" "good st1"
      using k calm_quiet calm_cursor calm_good Suc.prems(2,3) by auto
    obtain e2 st2 where p: "putCursor (c + 1) st1 = (e2, st2)" by fastforce
    have run: "(case e of Some e \<Rightarrow> (Some e, st1) | None \<Rightarrow> (case e2 of Some e \<Rightarrow> (Some e, st2)
        | None \<Rightarrow> scanBlocks D io (c + 1 + 1) n st2)) = (r, st')"
      using Suc.prems(1) Inr b s p by (cases e; cases e2) auto
    show ?thesis
    proof (cases "e = None \<and> e2 = None")
      case False
      have "e2 \<noteq> None \<Longrightarrow> st2 = st1" using p by (auto simp: putCursor_def split: sum.splits)
      with run False q1(1,2) show ?thesis by (intro stop) (auto split: option.splits)
    next
      case True
      note pk = putCursor_keeps [OF p [unfolded conjunct2 [OF True]]]
      have q2: "quiet st1 st2" using pk q1(3) by (simp add: quiet_def journalStep_same workGrows_def)
      have "scanBlocks D io (c + 1 + 1) n st2 = (r, st')" using run True by simp
      from Suc.IH [OF this pk(1) [OF q1(3)] pk(5)] obtain m where m: "quiet st2 st'" "m \<le> n"
        "cursorOf (ms_db st') = Inr (c + 1 + of_nat m)" "r = None \<longrightarrow> m = n"
        "\<forall>j < m. blockCovered D io (ms_db st') (c + 1 + 1 + of_nat j)" by blast
      have "blockCovered D io (ms_db st1) (c + 1)" using k True Inr b by (simp add: blockCovered_def)
      moreover have "workGrows (ms_db st1) (ms_db st')" using quiet_trans [OF q2 m(1)] by (simp add: quiet_def)
      ultimately have first: "blockCovered D io (ms_db st') (c + 1)" by (rule blockCovered_grows [rotated])
      have "blockCovered D io (ms_db st') (c + 1 + of_nat j)" if "j < Suc m" for j
        using first m(5) that by (cases j) (simp_all add: ac_simps)
      then show ?thesis using quiet_trans [OF q1(1) quiet_trans [OF q2 m(1)]] m
        by (intro conjI exI [of _ "Suc m"]) (auto simp: ac_simps)
    qed
  qed
qed

text \<open>The heights of a window of at most 25 blocks do not wrap around.\<close>

lemma cursor_unat:
  fixes c height :: u64
  assumes "c \<le> height" "e = (if height - c > 25 then c + 25 else height)" "k \<le> unat (e - c)"
  shows "unat (c + of_nat k) = unat c + k \<and> unat c + k \<le> unat e \<and> unat e \<le> unat height"
proof -
  have le: "unat c \<le> unat height" using assms(1) by (simp add: word_le_nat_alt)
  have h: "unat height < 2 ^ 64" using unsigned_less [of height, where ?'a = nat] by simp
  have d: "unat (height - c) = unat height - unat c" by (rule unat_sub [OF assms(1)])
  have e: "unat c \<le> unat e" "unat e \<le> unat height"
  proof -
    have "unat (c + 25) = unat c + 25" if "height - c > 25"
    proof -
      from that d have "unat c + 25 < unat height" by (simp add: word_less_nat_alt)
      with h show ?thesis using unat_add_lem [of c 25] by simp
    qed
    moreover have "unat c + 25 < unat height" if "height - c > 25" using that d by (simp add: word_less_nat_alt)
    ultimately show "unat c \<le> unat e" "unat e \<le> unat height" using le by (auto simp: assms(2))
  qed
  have "unat (e - c) = unat e - unat c" by (rule unat_sub) (simp add: word_le_nat_alt e(1))
  with assms(3) e have m: "unat c + k \<le> unat e" by linarith
  have k: "unat c + k < 2 ^ 64" using m e(2) h by linarith
  then have "unat (of_nat k :: u64) = k" by (simp add: unsigned_of_nat take_bit_nat_eq_self)
  with k have "unat (c + of_nat k) = unat c + k" using unat_add_lem [of c "of_nat k"] by simp
  with m e show ?thesis by simp
qed

lemma cursor_window:
  fixes c height :: u64
  assumes "c \<le> height" "e = (if height - c > 25 then c + 25 else height)" "m \<le> unat (e - c)"
  shows "c \<le> c + of_nat m" "c + of_nat m \<le> height" "m = unat (e - c) \<Longrightarrow> c + of_nat m = e"
    "c < b \<Longrightarrow> b \<le> c + of_nat m \<Longrightarrow> \<exists>j < m. b = c + 1 + of_nat j"
proof -
  note w = cursor_unat [OF assms(1,2)]
  from w [OF assms(3)] show "c \<le> c + of_nat m" "c + of_nat m \<le> height" by (simp_all add: word_le_nat_alt)
  show "c + of_nat m = e" if "m = unat (e - c)" using that by simp
  show "\<exists>j < m. b = c + 1 + of_nat j" if "c < b" "b \<le> c + of_nat m"
  proof -
    from that w [OF assms(3)] have b: "unat c < unat b" "unat b \<le> unat c + m" by (simp_all add: word_le_nat_alt word_less_nat_alt)
    define j where "j = unat b - unat c - 1"
    have j: "j < m" "unat b = unat c + Suc j" using b by (simp_all add: j_def)
    have "c + 1 + of_nat j = c + of_nat (Suc j)" by simp
    moreover have "unat (c + of_nat (Suc j)) = unat b" using w [of "Suc j"] j assms(3) by simp
    ultimately show ?thesis using j(1) word_unat_eq_iff by metis
  qed
qed

text \<open>What a scan leaves, whether it ends or stops with an error.\<close>

lemma scan_covers:
  assumes "scan D io height st = (r, st')" "hashes32 D" "good st" "cursorOf (ms_db st) = Inr c"
  shows "quiet st st' \<and> (\<exists>c'. cursorOf (ms_db st') = Inr c' \<and> c \<le> c' \<and> (c \<noteq> c' \<longrightarrow> c' \<le> height)
    \<and> (r = None \<longrightarrow> c' = (if height - c > 25 then c + 25 else height))
    \<and> (\<forall>b. c < b \<and> b \<le> c' \<longrightarrow> blockCovered D io (ms_db st') b))"
proof (cases "c > height")
  case True
  with assms show ?thesis by (auto simp: scan_def quiet_refl intro!: exI [of _ c])
next
  case False
  define e where "e = (if height - c > 25 then c + 25 else height)"
  from assms(1,4) False have "scanBlocks D io (c + 1) (unat (e - c)) st = (r, st')" by (simp add: scan_def e_def Let_def)
  from scanBlocks_covers [OF this assms(2-4)] obtain m where m: "quiet st st'" "m \<le> unat (e - c)"
    "cursorOf (ms_db st') = Inr (c + of_nat m)" "r = None \<longrightarrow> m = unat (e - c)"
    "\<forall>j < m. blockCovered D io (ms_db st') (c + 1 + of_nat j)" by blast
  have le: "c \<le> height" using False by simp
  note w = cursor_window [OF le e_def m(2)]
  have "blockCovered D io (ms_db st') b" if "c < b" "b \<le> c + of_nat m" for b using w(4) [OF that] m(5) by blast
  then show ?thesis using m(1,3,4) w(1-3) by (intro conjI exI [of _ "c + of_nat m"]) (auto simp flip: e_def)
qed

lemma scan_quiet:
  assumes "scan D io height st = (r, st')" "hashes32 D" "good st"
  shows "quiet st st'"
proof (cases "cursorOf (ms_db st)")
  case (Inl x)
  with assms show ?thesis by (simp add: scan_def quiet_refl)
next
  case (Inr c)
  from scan_covers [OF assms this] show ?thesis by simp
qed

section \<open>A tick\<close>

text \<open>
  How a run may change the journal: it stays in order, intents and work items are only ever added to,
  and all bytes sent meanwhile were durable when they were sent.
\<close>

definition history :: "agentState \<Rightarrow> agentState \<Rightarrow> bool" where
  "history st st' \<longleftrightarrow> good st' \<and> journalStep (ms_db st) (ms_db st') \<and> workGrows (ms_db st) (ms_db st')
     \<and> (\<exists>new. ms_sent st' = ms_sent st @ new \<and> (\<forall>(tx, d) \<in> set new. durable tx d \<and> journalStep d (ms_db st')))"

lemma quiet_history: "quiet st st' \<Longrightarrow> history st st'"
  by (simp add: quiet_def history_def)

lemma history_trans:
  assumes "history st st'" "history st' st''"
  shows "history st st''"
proof -
  from assms obtain new new' where n: "ms_sent st' = ms_sent st @ new" "ms_sent st'' = ms_sent st' @ new'"
    "\<forall>(tx, d) \<in> set new. durable tx d \<and> journalStep d (ms_db st')" "\<forall>(tx, d) \<in> set new'. durable tx d \<and> journalStep d (ms_db st'')"
    unfolding history_def by blast
  have s: "journalStep (ms_db st') (ms_db st'')" using assms(2) by (simp add: history_def)
  have "\<forall>(tx, d) \<in> set (new @ new'). durable tx d \<and> journalStep d (ms_db st'')"
    using n(3,4) journalStep_trans [OF _ s] by (auto simp: case_prod_unfold)
  moreover have "ms_sent st'' = ms_sent st @ (new @ new')" using n(1,2) by simp
  ultimately show ?thesis using assms unfolding history_def by (blast intro: journalStep_trans workGrows_trans)
qed

text \<open>At most one transaction is sent, and only behind a successful ownership check.\<close>

definition fencedSend :: "aerror option \<Rightarrow> agentState \<Rightarrow> agentState \<Rightarrow> bool" where
  "fencedSend check st st' \<longleftrightarrow> ms_sent st' = ms_sent st \<or> (check = None \<and> (\<exists>e. ms_sent st' = ms_sent st @ [e]))"

lemma Step_history:
  assumes "good st" "Step M io h st = (r, st')"
  shows "history st st' \<and> fencedSend (io_BeforeSend io) st st' \<and> cursorOf (ms_db st') = cursorOf (ms_db st)"
proof -
  have k: "keeps st st'" using Step_keeps [OF good_journal [OF assms(1)], of M io h] assms(2) by simp
  have f: "filing io st st'" using filing.R_Step [of io st M h] assms(2) by simp
  from k f assms(1) have g: "good st'" "workGrows (ms_db st) (ms_db st')" "\<And>k. rowAt (ms_db st') ''meta'' k = rowAt (ms_db st) ''meta'' k"
    by (auto simp: keeps_def filing_def good_def filed_def journalOk_def)
  have s: "sends st st'" "journalStep (ms_db st) (ms_db st')" using k by (simp_all add: keeps_def)
  from s(1) have "\<exists>new. ms_sent st' = ms_sent st @ new \<and> (\<forall>(tx, d) \<in> set new. durable tx d \<and> journalStep d (ms_db st'))"
    unfolding sends_def by fastforce
  moreover have "fencedSend (io_BeforeSend io) st st'" using s(1) f by (auto simp: fencedSend_def sends_def filing_def)
  ultimately show ?thesis using g s(2) cursorOf_good [OF assms(1)] cursorOf_good [OF g(1)] by (simp add: history_def)
qed

text \<open>What one tick does to the journal.\<close>

definition ticks :: "'b daemon \<Rightarrow> tickIO list \<Rightarrow> agentState \<Rightarrow> agentState \<Rightarrow> bool" where
  "ticks D ts st st' \<longleftrightarrow> history st st' \<and> (\<forall>c. cursorOf (ms_db st) = Inr c \<longrightarrow>
     (\<exists>c'. cursorOf (ms_db st') = Inr c' \<and> c \<le> c'
       \<and> (\<forall>b. c < b \<and> b \<le> c' \<longrightarrow> (\<exists>t \<in> set ts. blockCovered D (tk_io t) (ms_db st') b))))"

lemma ticks_refl: "good st \<Longrightarrow> ticks D ts st st"
  by (auto simp: ticks_def intro!: quiet_history quiet_refl)

lemma ticks_trans:
  assumes "ticks D ts st st'" "ticks D us st' st''"
  shows "ticks D (ts @ us) st st''"
proof -
  have h: "history st st'" "history st' st''" using assms by (simp_all add: ticks_def)
  have w: "workGrows (ms_db st') (ms_db st'')" using h(2) by (simp add: history_def)
  have "\<exists>c'. cursorOf (ms_db st'') = Inr c' \<and> c \<le> c'
       \<and> (\<forall>b. c < b \<and> b \<le> c' \<longrightarrow> (\<exists>t \<in> set (ts @ us). blockCovered D (tk_io t) (ms_db st'') b))"
    if c: "cursorOf (ms_db st) = Inr c" for c
  proof -
    from assms(1) c obtain c1 where c1: "cursorOf (ms_db st') = Inr c1" "c \<le> c1"
      "\<forall>b. c < b \<and> b \<le> c1 \<longrightarrow> (\<exists>t \<in> set ts. blockCovered D (tk_io t) (ms_db st') b)" unfolding ticks_def by blast
    from assms(2) c1(1) obtain c2 where c2: "cursorOf (ms_db st'') = Inr c2" "c1 \<le> c2"
      "\<forall>b. c1 < b \<and> b \<le> c2 \<longrightarrow> (\<exists>t \<in> set us. blockCovered D (tk_io t) (ms_db st'') b)" unfolding ticks_def by blast
    have "\<exists>t \<in> set (ts @ us). blockCovered D (tk_io t) (ms_db st'') b" if "c < b" "b \<le> c2" for b
    proof (cases "b \<le> c1")
      case True
      with that(1) c1(3) blockCovered_grows [OF w] show ?thesis by fastforce
    next
      case False
      with that(2) c2(3) show ?thesis by (auto simp: not_le)
    qed
    with c1(2) c2(1,2) show ?thesis by (intro exI [of _ c2]) auto
  qed
  with history_trans [OF h] show ?thesis unfolding ticks_def by blast
qed

lemma tickAt_ticks:
  assumes "tickAt D t owner h st = (r, st')" "hashes32 D" "good st"
  shows "ticks D [t] st st' \<and> fencedSend (validateAnswer (dq_validate (tk_step t)) owner) st st'"
proof -
  obtain e st1 where s: "scan D (tk_io t) h st = (e, st1)" by fastforce
  note q = scan_quiet [OF s assms(2,3)]
  have t1: "ticks D [t] st st1"
    using quiet_history [OF q] scan_covers [OF s assms(2,3)] unfolding ticks_def by fastforce
  have g1: "good st1" using q by (simp add: quiet_def)
  have same: "ticks D [t] st st2 \<and> quiet st st2" if "calm st1 st2" for st2
  proof -
    have "ticks D [] st1 st2" using calm_cursor [OF that g1] quiet_history [OF calm_quiet [OF that g1]] by (auto simp: ticks_def)
    from ticks_trans [OF t1 this] quiet_trans [OF q calm_quiet [OF that g1]] show ?thesis by simp
  qed
  have no: "fencedSend x st st2" if "quiet st st2" for x st2 using that by (simp add: fencedSend_def quiet_def)
  show ?thesis
  proof (cases "e = None \<and> is_ok (dq_PendingTxs (tk_io t))")
    case False
    with assms(1) s have "st' = st1" by (auto simp: tickAt_def is_ok_iff split: option.splits sum.splits)
    with t1 no [OF q] show ?thesis by simp
  next
    case True
    then obtain pending where p: "dq_PendingTxs (tk_io t) = Inr pending" "e = None" by (auto simp: is_ok_iff)
    obtain e2 st2 where w: "workStage D t owner h (observeAll D h pending st1) = (e2, st2)" by fastforce
    note k = same [OF calm_trans [OF observeAll_calm [OF assms(2)] workStage_calm [OF w]]]
    show ?thesis
    proof (cases e2)
      case (Some x)
      with assms(1) s p w have "st' = st2" by (simp add: tickAt_def)
      with k no show ?thesis by simp
    next
      case None
      have g2: "good st2" using k by (simp add: quiet_def)
      have st: "Step (da_manager D) (managerIO D (tk_step t) owner (ms_db st2)) h st2 = (r, st')"
        using assms(1) s p w None by (simp add: tickAt_def)
      note f = Step_history [OF g2 st]
      have "ticks D [] st2 st'" using f by (auto simp: ticks_def)
      from ticks_trans [OF conjunct1 [OF k] this] f k show ?thesis
        by (simp add: managerIO_def fencedSend_def quiet_def)
    qed
  qed
qed

lemma tick_ticks:
  assumes "tick D t (owner, st) = (r, owner', st')" "hashes32 D" "good st"
  shows "ticks D [t] st st' \<and> fencedSend (validateAnswer (dq_validate (tk_step t)) owner') st st'"
proof -
  have "st' = st \<or> (\<exists>h r. tickAt D t owner' h st = (r, st'))"
    using assms(1) by (auto simp: tick_def split: prod.splits option.splits sum.splits if_splits)
  then show ?thesis
  proof
    assume "st' = st"
    with ticks_refl [OF assms(3)] show ?thesis by (simp add: fencedSend_def)
  next
    assume "\<exists>h r. tickAt D t owner' h st = (r, st')"
    with tickAt_ticks [OF _ assms(2,3)] show ?thesis by blast
  qed
qed

lemma daemonLoop_ticks:
  assumes "daemonLoop D ts (owner, st) = (r, owner', st')" "hashes32 D" "good st"
  shows "ticks D ts st st'"
  using assms(1,3)
proof (induction ts arbitrary: owner st)
  case Nil
  then show ?case by (simp add: ticks_refl)
next
  case (Cons t ts)
  obtain e owner1 st1 where t: "tick D t (owner, st) = (e, owner1, st1)" by (metis prod.collapse)
  have t1: "ticks D [t] st st1" using tick_ticks [OF t assms(2) Cons.prems(2)] by simp
  then have g: "good st1" by (simp add: ticks_def history_def)
  show ?case
  proof (cases "e = Some ErrLost")
    case True
    with Cons.prems(1) t have "st' = st1" by simp
    with ticks_trans [OF t1 ticks_refl [OF g], of ts] show ?thesis by simp
  next
    case False
    with Cons.prems(1) t have "daemonLoop D ts (owner1, st1) = (r, owner', st')" by simp
    from ticks_trans [OF t1 Cons.IH [OF this g]] show ?thesis by simp
  qed
qed

section \<open>An operator's retry\<close>

text \<open>The preparation of a retry stores its new review and touches no intent.\<close>

lemma retryInputs_ok:
  assumes "retryInputs D io (ms_db st) i height = Inr (c, w, params)" "filed (ms_db st)"
  shows "workOk w"
proof -
  from assms(1) obtain hash n where p1: "parseAutoCaseID (it_CaseID i) = Inr (hash, n)"
    by (auto simp: retryInputs_def bind_r_Inr_iff)
  with assms(1) obtain w0 where p2: "getWork (ms_db st) hash = Inr (Some w0)"
    by (auto simp: retryInputs_def bind_r_Inr_iff split: option.splits)
  with assms(1) p1 obtain w1 where p: "parseAutoCaseID (it_CaseID i) = Inr (hash, n)" "getWork (ms_db st) hash = Inr (Some w0)"
    "(case c of None \<Rightarrow> retryWithoutCase D io w0 i hash height | Some c' \<Rightarrow> retryOnCase D io w0 c' height) = Inr w1"
    "w = w1\<lparr>wk_CaseID := it_CaseID i, wk_Review := None\<rparr>"
    unfolding retryInputs_def p1 p2 bind_r_simps prod.case option.case bind_r_Inr_iff
    by (fastforce split: option.splits)
  from parseAutoCaseID_Inr [OF p(1)] have id: "caseHash hash" "it_CaseID i = roundID hash n" by blast+
  have "\<exists>b. ms_db st ''work'' = Some b" using assms(2) by (auto simp: filed_def indexOk_def bucketOk_def)
  with p(2) assms(2) have w0: "workOk w0" "autoCaseID (wk_Hash w0) = autoCaseID hash"
    by (fastforce simp: getWork_def Store_Get_rowAt filed_def workTyped_def split: option.splits)+
  then have h: "wk_Hash w0 = hash" using autoCaseID_inject [OF _ id(1)] by (simp add: workOk_def)
  have "wk_Hash w1 = hash \<and> (\<forall>t \<in> set (wk_Transfers w1). dt_TxHash t = hash)"
  proof (cases c)
    case None
    with p(3) h show ?thesis by (auto simp: retryWithoutCase_def bind_r_Inr_iff dest: DecodeTransfers_hash split: if_splits)
  next
    case (Some c')
    with p(3) have "bindOriginal D io w0 c' height = Inr w1"
      by (auto simp: retryOnCase_def bind_r_Inr_iff split: if_splits option.splits)
    from bindOriginal_ok [OF this w0(1)] h show ?thesis by (simp add: workOk_def)
  qed
  with id show ?thesis by (auto simp: workOk_def p(4))
qed

lemma putWork_intents:
  assumes "journalOk (ms_db st)"
  shows "intentsKept st (snd (putWork hash w st))"
proof (cases "Store_Put (ms_db st) ''work'' (autoCaseID hash) (WorkRow w)")
  case (Inr d)
  note p = Store_Put_work [OF Inr]
  from p(4) [OF assms] intentAt_cong [of d "ms_db st", OF p(2)] show ?thesis by (simp add: putWork_def Inr intentsKept_def)
qed (use assms in \<open>simp add: putWork_def intentsKept_def\<close>)

lemma putWork_filing:
  assumes "workOk w"
  shows "filing io st (snd (putWork (wk_Hash w) w st))"
proof (cases "Store_Put (ms_db st) ''work'' (autoCaseID (wk_Hash w)) (WorkRow w)")
  case (Inr d)
  note p = Store_Put_work [OF Inr]
  have "workTyped (ms_db st) \<Longrightarrow> workTyped d" using workTyped_put [OF _ assms p(1)] .
  moreover have "indexOk (ms_db st) \<Longrightarrow> indexOk d" using Store_Put_indexOk [OF Inr] by (simp add: primaryName_def)
  ultimately show ?thesis using p by (auto simp: putWork_def Inr filing_def filed_def workGrows_def)
qed (simp add: putWork_def filing_def)

lemma evaluateWork_put:
  assumes "evaluateWork D io w height params st = (r, st')"
  shows "st' = st \<or> (\<exists>w'. st' = snd (putWork (wk_Hash w) w' st))"
  using assms by (auto simp: evaluateWork_def Let_def split: sum.splits prod.splits option.splits if_splits intro: sym) (metis snd_conv)+

lemma prepareRetry_prepares: "preparesOk (prepareRetry D io height)"
  unfolding preparesOk_def
proof (intro allI impI)
  fix i st assume ok: "journalOk (ms_db (st :: agentState))"
  have same: "intentsKept st st" using ok by (simp add: intentsKept_def)
  show "intentsKept st (snd (prepareRetry D io height i st))"
  proof (cases "retryInputs D io (ms_db st) i height")
    case (Inl e)
    with same show ?thesis by (simp add: prepareRetry_def)
  next
    case (Inr x)
    obtain c w params where x: "x = (c, w, params)" by (metis prod.collapse)
    obtain r st' where e: "evaluateWork D io w height params st = (r, st')" by fastforce
    from evaluateWork_put [OF e] same putWork_intents [OF ok] have "intentsKept st st'" by auto
    with Inr x e show ?thesis by (cases r) (simp_all add: prepareRetry_def)
  qed
qed

lemma prepareRetry_filing: "filing io' st (snd (prepareRetry D io height i st))"
proof (cases "filed (ms_db st)")
  case True
  show ?thesis
  proof (cases "retryInputs D io (ms_db st) i height")
    case (Inl e)
    then show ?thesis by (simp add: prepareRetry_def filing.R_refl)
  next
    case (Inr x)
    obtain c w params where x: "x = (c, w, params)" by (metis prod.collapse)
    have ok: "workOk w" using retryInputs_ok [OF _ True] Inr x by blast
    obtain r st' where e: "evaluateWork D io w height params st = (r, st')" by fastforce
    from evaluateWork_ok [OF e ok] putWork_filing filing.R_refl have "filing io' st st'" by metis
    with Inr x e show ?thesis by (cases r) (simp_all add: prepareRetry_def)
  qed
next
  case False
  have "ms_sent (snd (prepareRetry D io height i st)) = ms_sent st"
    by (auto simp: prepareRetry_def evaluateWork_def putWork_def Let_def split: sum.split prod.split option.split)
  with False show ?thesis by (simp add: filing_def)
qed

lemma recoverFailed_calm: "calm st (snd (recoverFailed D io owner ident height reason st))"
  unfolding recoverFailed_def
  by (rule calm_of_keeps [OF Recover_keeps [OF good_journal prepareRetry_prepares] filing.R_Recover [OF prepareRetry_filing]])

end
