(* ===== verification/DaemonStart.thy ===== *)
theory DaemonStart
  imports DaemonTick
begin

text \<open>
  The start of the autonomous agent: \<open>runDaemon\<close> of dev/agent/cmd/sanction-agent/daemon.go up to its
  loop. It opens the journal under its identity, ties it to one genesis, takes the signing ownership,
  runs an operator's retry if one is asked for, and fixes the block cursor. What the RPC pool observed
  (the checkpoint's genesis hash, the status) is an argument; the pool is RpcPool. The checkpoints that
  the pool saves while the process runs are the pool's own writes (\<open>pl_saved\<close> there): they go to
  one metadata key that nothing here reads after the start.
\<close>

definition journalIdentity :: "processOptions \<Rightarrow> Signer \<Rightarrow> string" where
  "journalIdentity opts s = ''v1|'' @ op_chainID opts @ ''|'' @ op_agentID opts @ ''|'' @ sg_Address s @ ''|'' @ op_targetType opts"

definition startChecks :: "'b agentEnv \<Rightarrow> processOptions \<Rightarrow> string \<Rightarrow> aerror + Signer" where
  "startChecks A opts stateDir =
     (if stateDir = [] \<or> op_agentID opts = [] \<or> op_privKeyHex opts = []
      then Inl (AErr ''daemon requires state-dir, agent-id and signing key'')
      else if op_expiryHeight opts \<le> op_height opts then Inl (AErr ''invalid report TTL'')
      else bind_r (parseTargetType (op_targetType opts)) (\<lambda>_.
        signerNew (ae_T A) (ae_C A) (op_agentID opts) (op_privKeyHex opts)))"

fun unmarshalCheckpoint :: "'r row \<Rightarrow> aerror + Checkpoint" where
  "unmarshalCheckpoint (CheckpointRow c) = Inr c"
| "unmarshalCheckpoint (IntentRow i) = Inr \<lparr>cp_GenesisHash = [], cp_Height = 0, cp_BlockHash = []\<rparr>"
| "unmarshalCheckpoint (WorkRow w) = Inr \<lparr>cp_GenesisHash = [], cp_Height = 0, cp_BlockHash = []\<rparr>"
| "unmarshalCheckpoint _ = Inl (AErr ''json: cannot unmarshal into Checkpoint'')"

text \<open>The pool's policy from the journal: the saved genesis and checkpoint.\<close>

definition startPolicy :: "processOptions \<Rightarrow> RPCSafety \<Rightarrow> journal \<Rightarrow> aerror + RPCSafety" where
  "startPolicy opts policy d = bind_r (Store_Get d ''meta'' ''genesis_hash'' unmarshalString) (\<lambda>saved.
     let savedGenesis = (case saved of None \<Rightarrow> [] | Some g \<Rightarrow> g) in
     if op_genesisBinding opts \<noteq> [] \<and> savedGenesis \<noteq> [] \<and> savedGenesis \<noteq> op_genesisBinding opts
     then Inl (AErr ''trusted genesis hash mismatch'')
     else bind_r (Store_Get d ''meta'' ''rpc_checkpoint'' unmarshalCheckpoint) (\<lambda>cp.
       Inr (policy\<lparr>rs_ChainID := op_chainID opts,
         rs_GenesisHash := (if op_genesisBinding opts \<noteq> [] then op_genesisBinding opts else savedGenesis),
         rs_Checkpoint := (case cp of None \<Rightarrow> rs_Checkpoint policy | Some c \<Rightarrow> c), rs_Persist := True\<rparr>)))"

text \<open>The cursor of a first start; a later one resumes where it was.\<close>

definition startCursor :: "u64 \<Rightarrow> u64 \<Rightarrow> agentState \<Rightarrow> aerror option \<times> agentState" where
  "startCursor startHeight height st = (case Store_Get (ms_db st) ''meta'' ''cursor'' unmarshalUint64 of
     Inl e \<Rightarrow> (Some e, st)
   | Inr (Some cursor) \<Rightarrow> (None, st)
   | Inr None \<Rightarrow>
       if startHeight > 0 \<and> startHeight > height + 1 then (Some (AErr ''start-height is ahead of chain''), st)
       else putCursor (if startHeight > 0 then startHeight - 1 else height) st)"

definition daemonOptions :: "processOptions \<Rightarrow> (string \<times> int) list \<Rightarrow> SignOptions" where
  "daemonOptions opts fee = \<lparr>so_ChainID = op_chainID opts, so_PrivateKeyHex = op_privKeyHex opts, so_AccountNumber = 0,
     so_Sequence = 0, so_GasLimit = op_gasLimit opts, so_FeeAmount = fee, so_Memo = []\<rparr>"

text \<open>What the start meets after the pool's first status.\<close>

record startIO =
  su_genesis :: string
  su_random :: "bytes option"
  su_polls :: "pollRound list"
  su_claim :: claimIO
  su_status :: "aerror + Status"
  su_retry :: daemonIO

text \<open>The operator's retry, when one is asked for.\<close>

definition startRetry :: "'b daemon \<Rightarrow> daemonIO \<Rightarrow> Session \<Rightarrow> u64 \<Rightarrow> agentState \<Rightarrow> aerror option \<times> agentState" where
  "startRetry D io owner height st =
     (if op_retryIntent (da_opts D) = [] then (None, st)
      else case validateRegistry D io height of Some e \<Rightarrow> (Some e, st) | None \<Rightarrow>
        recoverFailed D io owner (op_retryIntent (da_opts D)) height (op_retryReason (da_opts D)) st)"

definition startWork :: "'b daemon \<Rightarrow> daemonIO \<Rightarrow> Session \<Rightarrow> u64 \<Rightarrow> u64 \<Rightarrow> agentState \<Rightarrow> aerror option \<times> agentState" where
  "startWork D io owner height startHeight st = (case startRetry D io owner height st of
     (Some e, st') \<Rightarrow> (Some e, st') | (None, st') \<Rightarrow> startCursor startHeight height st')"

text \<open>
  From the pool's first status to the loop. \<open>settings\<close> are the manager's codec and interval; its
  options and memo are set here. An error before the retry ends the process with the journal as it is
  then; the genesis may be bound already.
\<close>

definition startDaemon ::
    "'b agentEnv \<Rightarrow> request manager \<Rightarrow> processOptions \<Rightarrow> Signer \<Rightarrow> u64 \<Rightarrow> startIO \<Rightarrow> journal
      \<Rightarrow> (aerror \<times> journal) + 'b daemon \<times> Session \<times> aerror option \<times> agentState" where
  "startDaemon A settings opts s startHeight io d =
     (case BindGenesis d (su_genesis io) (op_genesisBinding opts \<noteq> []) of Inl e \<Rightarrow> Inl (e, d) | Inr d' \<Rightarrow>
      case ae_parseCoins A (op_fee opts) of None \<Rightarrow> Inl (AExternal ''fee'', d') | Some fee \<Rightarrow>
     (case Acquire (su_random io) (su_polls io) (su_claim io) \<lparr>se_Address = sg_Address s, se_Options = daemonOptions opts fee,
             se_TTL = op_leaseTTL opts, se_Lease = None, se_holder = []\<rparr> of
        (None, _) \<Rightarrow> Inl (AExternal ''context canceled'', d')
      | (Some (Some e, owner), _) \<Rightarrow> Inl (e, d')
      | (Some (None, owner), _) \<Rightarrow> (case su_status io of Inl e \<Rightarrow> Inl (e, d') | Inr status \<Rightarrow>
         (let D = \<lparr>da_agent = A, da_opts = opts, da_manager = settings\<lparr>mg_Options := (daemonOptions opts fee)\<lparr>so_Memo := Memo owner\<rparr>\<rparr>,
                da_signer = s\<rparr>;
            (err, st) = startWork D (su_retry io) owner (ss_Height status) startHeight \<lparr>ms_db = d', ms_sent = [], ms_events = []\<rparr>
          in Inr (D, owner, err, st)))))"

text \<open>
  One process, from its options to its end: \<open>runDaemon\<close>. \<open>ru_status\<close> is the outcome of building the
  pool and of its first status. The result is the error that ended it, if the ticks end with one, the
  journal it leaves and the bytes it sent.
\<close>

record runIO =
  ru_opts :: processOptions
  ru_stateDir :: string
  ru_policy :: RPCSafety
  ru_startHeight :: u64
  ru_status :: "aerror option"
  ru_start :: startIO
  ru_ticks :: "tickIO list"

text \<open>With the journal open.\<close>

definition runOpened ::
    "'b agentEnv \<Rightarrow> request manager \<Rightarrow> runIO \<Rightarrow> Signer \<Rightarrow> journal \<Rightarrow> aerror option \<times> journal \<times> (bytes \<times> journal) list" where
  "runOpened A settings run s d =
     (case startPolicy (ru_opts run) (ru_policy run) d of Inl e \<Rightarrow> (Some e, d, []) | Inr policy \<Rightarrow>
     (case ru_status run of Some e \<Rightarrow> (Some e, d, []) | None \<Rightarrow>
     (case startDaemon A settings (ru_opts run) s (ru_startHeight run) (ru_start run) d of
        Inl (e, d') \<Rightarrow> (Some e, d', [])
      | Inr (D, owner, Some e, st) \<Rightarrow> (Some e, ms_db st, ms_sent st)
      | Inr (D, owner, None, st) \<Rightarrow>
          (case daemonLoop D (ru_ticks run) (owner, st) of (err, owner', st') \<Rightarrow> (err, ms_db st', ms_sent st')))))"

definition runDaemon ::
    "'b agentEnv \<Rightarrow> request manager \<Rightarrow> runIO \<Rightarrow> journal \<Rightarrow> aerror option \<times> journal \<times> (bytes \<times> journal) list" where
  "runDaemon A settings run d0 =
     (case startChecks A (ru_opts run) (ru_stateDir run) of Inl e \<Rightarrow> (Some e, d0, []) | Inr s \<Rightarrow>
     (case Store_Open d0 (journalIdentity (ru_opts run) s) of Inl e \<Rightarrow> (Some e, d0, []) | Inr d \<Rightarrow> runOpened A settings run s d))"

end
