(* ===== verification/DaemonLife.thy ===== *)
theory DaemonLife
  imports DaemonRun DaemonStart
begin

text \<open>
  The agent over its whole life: any number of processes one after the other on the same journal,
  each with its own options, start, retry and ticks.
\<close>

fun agentLife :: "'b agentEnv \<Rightarrow> request manager \<Rightarrow> runIO list \<Rightarrow> journal \<Rightarrow> journal \<times> (bytes \<times> journal) list" where
  "agentLife A settings [] d = (d, [])"
| "agentLife A settings (run # runs) d = (case runDaemon A settings run d of (err, d', sent) \<Rightarrow>
     (case agentLife A settings runs d' of (d'', sent') \<Rightarrow> (d'', sent @ sent')))"

text \<open>A journal in order.\<close>

definition goodDb :: "journal \<Rightarrow> bool" where
  "goodDb d \<longleftrightarrow> journalOk d \<and> workTyped d"

lemma good_goodDb: "good st \<longleftrightarrow> goodDb (ms_db st)" by (simp add: good_def goodDb_def)

lemma goodDb_cong:
  assumes "indexOk d'" "\<And>bucket k. primaryName bucket \<Longrightarrow> rowAt d' bucket k = rowAt d bucket k" "goodDb d"
  shows "goodDb d' \<and> journalStep d d' \<and> workGrows d d'"
proof -
  have "rowAt d' ''intents'' k = rowAt d ''intents'' k" "rowAt d' ''work'' k = rowAt d ''work'' k" for k
    using assms(2) by (simp_all add: primaryName_def)
  moreover from this(1) have "journalStep d d'" by (intro journalStep_same intentAt_cong)
  ultimately show ?thesis using assms(1,3) by (simp add: goodDb_def journalOk_def workTyped_def workGrows_def)
qed

lemma goodDb_meta:
  assumes "goodDb d" "d ''meta'' = Some b" "kv_get b' indexVersionKey = kv_get b indexVersionKey"
  shows "goodDb (d(''meta'' \<mapsto> b')) \<and> journalStep d (d(''meta'' \<mapsto> b')) \<and> workGrows d (d(''meta'' \<mapsto> b'))"
proof (rule goodDb_cong)
  have "bucketOk (d(''meta'' \<mapsto> b')) ''intents'' = bucketOk d ''intents''" "bucketOk (d(''meta'' \<mapsto> b')) ''work'' = bucketOk d ''work''"
    by (intro bucketOk_cong; simp)+
  with assms show "indexOk (d(''meta'' \<mapsto> b'))" by (simp add: goodDb_def journalOk_def indexOk_def versionOk_def)
qed (use assms(1) in \<open>auto simp: rowAt_def primaryName_def\<close>)

lemma ensured: "goodDb d \<Longrightarrow> fold ensureBucket [''meta'', ''work'', ''intents''] d = d"
  by (auto simp: goodDb_def journalOk_def indexOk_def versionOk_def bucketOk_def ensureBucket_def)

lemma Store_Open_good:
  assumes "Store_Open d identity = Inr d'" "goodDb d"
  shows "goodDb d' \<and> journalStep d d' \<and> workGrows d d'"
proof -
  obtain b where b: "d ''meta'' = Some b" using assms(2) by (auto simp: goodDb_def journalOk_def indexOk_def versionOk_def)
  let ?d = "d(''meta'' \<mapsto> kv_set ''identity'' (RawRow identity) b)"
  have k: "goodDb ?d \<and> journalStep d ?d \<and> workGrows d ?d"
    by (rule goodDb_meta [OF assms(2) b]) (simp add: store_simps indexVersionKey_def)
  from assms(1) b ensured [OF assms(2)] have m: "migrateIndexes ?d = Inr d'"
    by (simp add: Store_Open_def Let_def split: if_splits)
  from migrateIndexes_indexOk [OF m] k have "indexOk d'" "\<And>bucket k. primaryName bucket \<Longrightarrow> rowAt d' bucket k = rowAt ?d bucket k"
    by (auto simp: goodDb_def journalOk_def)
  from goodDb_cong [OF this] k show ?thesis by (blast intro: journalStep_trans workGrows_trans)
qed

lemma Store_Open_new:
  assumes "Store_Open Map.empty identity = Inr d'"
  shows "goodDb d'"
proof -
  let ?d = "[''meta'' \<mapsto> kv_set ''identity'' (RawRow identity) kv_empty, ''work'' \<mapsto> kv_empty, ''intents'' \<mapsto> kv_empty] :: journal"
  have "(fold ensureBucket [''meta'', ''work'', ''intents''] Map.empty)(''meta'' \<mapsto> kv_set ''identity'' (RawRow identity) kv_empty) = ?d"
    by (simp add: ensureBucket_def fun_upd_twist)
  with assms have m: "migrateIndexes ?d = Inr d'"
    by (simp add: Store_Open_def Let_def ensureBucket_def store_simps fun_upd_twist split: if_splits)
  have r: "rowAt ?d bucket k = None" if "primaryName bucket" for bucket k
    using that by (auto simp: rowAt_def primaryName_def)
  from migrateIndexes_indexOk [OF m] r show ?thesis
    by (auto simp: goodDb_def journalOk_def workTyped_def primaryName_def store_simps indexVersionKey_def)
qed

lemma BindGenesis_good:
  assumes "BindGenesis d hash legacyOk = Inr d'" "goodDb d"
  shows "goodDb d' \<and> journalStep d d' \<and> workGrows d d'"
proof -
  obtain b where b: "d ''meta'' = Some b" using assms(2) by (auto simp: goodDb_def journalOk_def indexOk_def versionOk_def)
  with assms(1) consider "d' = d" | "d' = d(''meta'' \<mapsto> kv_set ''genesis_hash'' (StringRow hash) b)"
    by (auto simp: BindGenesis_def bind_r_Inr_iff split: if_splits option.splits)
  then show ?thesis
  proof cases
    case 2
    show ?thesis unfolding 2 by (rule goodDb_meta [OF assms(2) b]) (simp add: store_simps indexVersionKey_def)
  qed (use assms(2) in simp)
qed

section \<open>Starting\<close>

definition agentHashes :: "'b agentEnv \<Rightarrow> bool" where
  "agentHashes A \<longleftrightarrow> (\<forall>bz. length (TxHash (ae_E A) bz) = 32)"

lemma putCursor_quiet: "putCursor h st = (r, st') \<Longrightarrow> good st \<Longrightarrow> quiet st st'"
proof (cases r)
  case None
  assume "putCursor h st = (r, st')" "good st"
  with None putCursor_keeps [of h st st'] show ?thesis by (simp add: quiet_def journalStep_same workGrows_def)
next
  case (Some e)
  assume "putCursor h st = (r, st')" "good st"
  with Some show ?thesis by (auto simp: putCursor_def quiet_refl split: sum.splits)
qed

lemma startCursor_quiet: "startCursor startHeight height st = (r, st') \<Longrightarrow> good st \<Longrightarrow> quiet st st'"
  by (auto simp: startCursor_def quiet_refl split: sum.splits option.splits if_splits intro: putCursor_quiet)

lemma startRetry_calm: "startRetry D io owner height st = (r, st') \<Longrightarrow> calm st st'"
  using recoverFailed_calm [of st D io owner] by (auto simp: startRetry_def split: if_splits option.splits) (metis snd_conv)

text \<open>Whatever ends the start, the journal it leaves follows the one it found.\<close>

definition follows :: "journal \<Rightarrow> journal \<Rightarrow> bool" where
  "follows d d' \<longleftrightarrow> goodDb d' \<and> journalStep d d' \<and> workGrows d d'"

lemma follows_refl: "goodDb d \<Longrightarrow> follows d d" by (simp add: follows_def)

lemma follows_trans: "follows d d' \<Longrightarrow> follows d' d'' \<Longrightarrow> follows d d''"
  by (auto simp: follows_def intro: journalStep_trans workGrows_trans)

lemma quiet_follows: "quiet st st' \<Longrightarrow> follows (ms_db st) (ms_db st')"
  by (simp add: quiet_def follows_def good_goodDb)

lemma startDaemon_good:
  assumes "goodDb d"
  shows "startDaemon A settings opts s startHeight io d = Inl (e, d') \<Longrightarrow> follows d d'"
    and "startDaemon A settings opts s startHeight io d = Inr (D, owner, err, st) \<Longrightarrow>
      follows d (ms_db st) \<and> good st \<and> ms_sent st = [] \<and> da_agent D = A"
proof -
  have b: "follows d d1" if "BindGenesis d h l = Inr d1" for h l d1
    using BindGenesis_good [OF that assms] by (simp add: follows_def)
  show "follows d d'" if "startDaemon A settings opts s startHeight io d = Inl (e, d')"
    using that b follows_refl [OF assms]
    by (auto simp: startDaemon_def Let_def split: sum.splits option.splits prod.splits if_splits)
  assume "startDaemon A settings opts s startHeight io d = Inr (D, owner, err, st)"
  then obtain d1 io' height where d1: "BindGenesis d (su_genesis io) (op_genesisBinding opts \<noteq> []) = Inr d1"
    and a: "da_agent D = A"
    and st: "startWork D io' owner height startHeight \<lparr>ms_db = d1, ms_sent = [], ms_events = []\<rparr> = (err, st)"
    by (auto simp: startDaemon_def Let_def split: sum.splits option.splits prod.splits)
  let ?st = "\<lparr>ms_db = d1, ms_sent = [], ms_events = []\<rparr> :: agentState"
  note f = b [OF d1]
  then have g: "good ?st" by (simp add: good_goodDb follows_def)
  obtain e1 st1 where r: "startRetry D io' owner height ?st = (e1, st1)" by fastforce
  have q1: "quiet ?st st1" by (rule calm_quiet [OF startRetry_calm [OF r] g])
  then have "good st1" by (simp add: quiet_def)
  with st r have "quiet st1 st" using quiet_refl startCursor_quiet by (auto simp: startWork_def split: option.splits)
  from quiet_trans [OF q1 this] have q: "quiet ?st st" .
  with follows_trans [OF f] quiet_follows [OF q] a show "follows d (ms_db st) \<and> good st \<and> ms_sent st = [] \<and> da_agent D = A"
    by (simp add: quiet_def)
qed

section \<open>Running\<close>

definition sentOk :: "journal \<Rightarrow> (bytes \<times> journal) list \<Rightarrow> bool" where
  "sentOk d sent \<longleftrightarrow> (\<forall>(tx, d0) \<in> set sent. durable tx d0 \<and> journalStep d0 d)"

lemma sentOk_follows: "sentOk d sent \<Longrightarrow> follows d d' \<Longrightarrow> sentOk d' sent"
  by (auto simp: sentOk_def follows_def intro: journalStep_trans)

lemma runOpened_follows:
  assumes "runOpened A settings run s d = (err, d', sent)" "goodDb d" "agentHashes A"
  shows "follows d d' \<and> sentOk d' sent"
proof -
  have stay: "follows d d \<and> sentOk d []" using follows_refl [OF assms(2)] by (simp add: sentOk_def)
  show ?thesis
  proof (cases "is_ok (startPolicy (ru_opts run) (ru_policy run) d) \<and> ru_status run = None")
    case False
    with assms(1) stay show ?thesis by (auto simp: runOpened_def is_ok_iff split: sum.splits option.splits)
  next
    case True
    then obtain policy where p: "startPolicy (ru_opts run) (ru_policy run) d = Inr policy" "ru_status run = None"
      by (auto simp: is_ok_iff)
    note sd = startDaemon_good [where A = A and settings = settings and opts = "ru_opts run" and s = s
        and startHeight = "ru_startHeight run" and io = "ru_start run", OF assms(2)]
    show ?thesis
    proof (cases "startDaemon A settings (ru_opts run) s (ru_startHeight run) (ru_start run) d")
      case (Inl x)
      obtain e d2 where x: "x = (e, d2)" by fastforce
      from sd(1) [OF Inl [unfolded x]] assms(1) p Inl x show ?thesis by (simp add: runOpened_def sentOk_def)
    next
      case (Inr x)
      obtain D owner e st where x: "x = (D, owner, e, st)" by (metis prod.collapse)
      from sd(2) [OF Inr [unfolded x]] have st: "follows d (ms_db st)" "good st" "ms_sent st = []" "da_agent D = A" by blast+
      show ?thesis
      proof (cases e)
        case (Some e1)
        with assms(1) p Inr x st show ?thesis by (simp add: runOpened_def sentOk_def)
      next
        case None
        obtain r owner' st' where l: "daemonLoop D (ru_ticks run) (owner, st) = (r, owner', st')" by (metis prod.collapse)
        have "history st st'" using daemonLoop_ticks [OF l _ st(2)] assms(3) st(4) by (simp add: ticks_def hashes32_def agentHashes_def)
        then have h: "follows (ms_db st) (ms_db st')" "sentOk (ms_db st') (ms_sent st')"
          using st(3) by (auto simp: history_def follows_def good_goodDb sentOk_def)
        from assms(1) p Inr x None l have "d' = ms_db st'" "sent = ms_sent st'" by (simp_all add: runOpened_def)
        with h follows_trans [OF st(1) h(1)] show ?thesis by simp
      qed
    qed
  qed
qed

lemma runDaemon_cases:
  assumes "runDaemon A settings run d0 = (err, d', sent)"
  obtains "d' = d0" "sent = []"
    | s d where "Store_Open d0 (journalIdentity (ru_opts run) s) = Inr d" "runOpened A settings run s d = (err, d', sent)"
  using assms by (auto simp: runDaemon_def split: sum.splits)

lemma runDaemon_follows:
  assumes "runDaemon A settings run d0 = (err, d', sent)" "goodDb d0" "agentHashes A"
  shows "follows d0 d' \<and> sentOk d' sent"
  using assms(1)
proof (cases rule: runDaemon_cases)
  case 1
  with follows_refl [OF assms(2)] show ?thesis by (simp add: sentOk_def)
next
  case (2 s d)
  have f: "follows d0 d" using Store_Open_good [OF 2(1) assms(2)] by (simp add: follows_def)
  then have "goodDb d" by (simp add: follows_def)
  from runOpened_follows [OF 2(2) this assms(3)] follows_trans [OF f] show ?thesis by blast
qed

text \<open>A journal that no process has opened yet, or one in order.\<close>

definition journalFine :: "journal \<Rightarrow> bool" where
  "journalFine d \<longleftrightarrow> d = Map.empty \<or> goodDb d"

lemma empty_rows [simp]: "rowAt Map.empty bucket k = None" by (simp add: rowAt_def)

lemma journalFine_step:
  assumes "runDaemon A settings run d0 = (err, d', sent)" "journalFine d0" "agentHashes A"
  shows "journalFine d' \<and> journalStep d0 d' \<and> workGrows d0 d' \<and> sentOk d' sent"
proof (cases "goodDb d0")
  case True
  from runDaemon_follows [OF assms(1) this assms(3)] show ?thesis by (simp add: follows_def journalFine_def)
next
  case False
  with assms(2) have e: "d0 = Map.empty" by (simp add: journalFine_def)
  have v: "journalStep Map.empty d' \<and> workGrows Map.empty d'" by (simp add: journalStep_def workGrows_def intentAt_def)
  from assms(1) show ?thesis
  proof (cases rule: runDaemon_cases)
    case 1
    with assms(2) v e show ?thesis by (simp add: sentOk_def)
  next
    case (2 s d)
    from Store_Open_new 2(1) e have "goodDb d" by blast
    from runOpened_follows [OF 2(2) this assms(3)] v e show ?thesis by (simp add: follows_def journalFine_def)
  qed
qed

text \<open>The whole life keeps what each process keeps.\<close>

lemma agentLife_fine:
  assumes "agentLife A settings runs d0 = (d, sent)" "journalFine d0" "agentHashes A"
  shows "journalFine d \<and> journalStep d0 d \<and> workGrows d0 d \<and> sentOk d sent"
  using assms(1,2)
proof (induction runs arbitrary: d0 sent)
  case Nil
  then show ?case by (simp add: workGrows_refl sentOk_def)
next
  case (Cons run runs)
  obtain err d1 sent1 where r: "runDaemon A settings run d0 = (err, d1, sent1)" by (metis prod.collapse)
  obtain sent2 where l: "agentLife A settings runs d1 = (d, sent2)" "sent = sent1 @ sent2"
    using Cons.prems(1) r by (auto split: prod.splits)
  note k1 = journalFine_step [OF r Cons.prems(2) assms(3)]
  note k2 = Cons.IH [OF l(1) conjunct1 [OF k1]]
  have "sentOk d sent1" using k1 k2 by (auto simp: sentOk_def intro: journalStep_trans)
  with k1 k2 l(2) show ?case by (auto simp: sentOk_def intro: journalStep_trans workGrows_trans)
qed

lemma agentLife_append:
  "agentLife A settings (runs @ runs') d0 = (case agentLife A settings runs d0 of (d, sent) \<Rightarrow>
     (case agentLife A settings runs' d of (d', sent') \<Rightarrow> (d', sent @ sent')))"
  by (induction runs arbitrary: d0) (auto split: prod.split)

end
