(* ===== verification/DaemonProgress.thy ===== *)
theory DaemonProgress
  imports DaemonLife
begin

text \<open>
  When the daemon gets on: its writes to a journal in order succeed, a scan of readable blocks moves
  the cursor to the end of its window, a queued intent is on disk after \<open>Enqueue\<close>, and no stage behind
  the scan moves the cursor.
\<close>

section \<open>Writes that succeed\<close>

lemma activeRow_work: "activeRow ''work'' (WorkRow w) = Inr (\<not> wk_Done w \<or> wk_Result w = ''CASE_STATUS_EXPIRED'')"
  by (simp add: activeRow_def)

lemma putCursor_ok:
  assumes "good st"
  obtains st' where "putCursor h st = (None, st')"
proof -
  obtain b where "ms_db st ''meta'' = Some b"
    using assms by (auto simp: good_def journalOk_def indexOk_def versionOk_def)
  then have "\<exists>d. Store_Put (ms_db st) ''meta'' ''cursor'' (NumberRow h) = Inr d"
    by (simp add: Store_Put_def activeIndex_def bucketPut_def Let_def)
  then show thesis by (auto simp: putCursor_def intro: that)
qed

lemma putWork_ok:
  assumes "good st"
  obtains st' where "putWork hash w st = (None, st')"
proof -
  have "\<exists>d. Store_Put (ms_db st) ''work'' (autoCaseID hash) (WorkRow w) = Inr d"
    using assms by (intro Store_Put_succeeds) (simp_all add: good_def journalOk_def primaryName_def activeRow_work autoCaseID_def)
  then show thesis by (auto simp: putWork_def intro: that)
qed

lemma getWork_read:
  assumes "good st"
  obtains found where "getWork (ms_db st) hash = Inr found"
proof (cases "rowAt (ms_db st) ''work'' (autoCaseID hash)")
  case None
  then show thesis by (intro that) (simp add: getWork_good [OF assms])
next
  case (Some row)
  with assms obtain w where "row = WorkRow w" unfolding good_def workTyped_def by blast
  with Some show thesis by (intro that [of "Some w"]) (simp add: getWork_good [OF assms])
qed

lemma addWork_succeeds: "good st \<Longrightarrow> fst (addWork hash w st) = None"
  by (rule getWork_read [of st hash], assumption, rule putWork_ok [of st hash w]) (auto simp: addWork_def split: option.split)

lemma observe_succeeds:
  assumes "good st" "DecodeTransfers (ae_E (da_agent D)) (ae_decoder (da_agent D)) tx = Inr ts"
  shows "fst (observe D tx h st) = None"
  using addWork_succeeds [OF assms(1)] assms(2) by (simp add: observe_def Let_def)

lemma observeOpens_succeeds: "good st \<Longrightarrow> fst (observeOpens h msgs st) = None"
proof (induction h msgs st rule: observeOpens.induct)
  case (2 h msg msgs st)
  obtain e st1 where o: "observeOpen h msg st = (e, st1)" by fastforce
  have "e = None" using o addWork_succeeds [OF 2(2)] by (auto simp: observeOpen_def split: sum.splits prod.splits if_splits) (metis fst_conv)+
  moreover have "good st1" using observeOpen_calm [of st h msg] o 2(2) by (simp add: calm_def)
  ultimately show ?case using 2(1) o by simp
qed simp_all

section \<open>Scanning\<close>

definition readable :: "'b daemon \<Rightarrow> daemonIO \<Rightarrow> u64 \<Rightarrow> bool" where
  "readable D io h \<longleftrightarrow> (\<exists>txs codes. dq_BlockTxs io h = Inr (txs, codes) \<and> length txs \<le> length codes
     \<and> (\<forall>n < length txs. codes ! n = 0 \<longrightarrow> ae_decoder (da_agent D) (txs ! n) \<noteq> None))"

lemma scanTxs_succeeds:
  assumes "good st" "hashes32 D" "length txs \<le> length codes"
    "\<forall>n < length txs. codes ! n = 0 \<longrightarrow> ae_decoder (da_agent D) (txs ! n) \<noteq> None"
  shows "fst (scanTxs D h txs codes st) = None"
  using assms(1,3,4)
proof (induction txs arbitrary: codes st)
  case (Cons bz txs)
  obtain code codes' where c: "codes = code # codes'" using Cons.prems(2) by (cases codes) auto
  have rest: "\<forall>n < length txs. codes' ! n = 0 \<longrightarrow> ae_decoder (da_agent D) (txs ! n) \<noteq> None" "length txs \<le> length codes'"
    using Cons.prems(2,3) c by auto
  show ?case
  proof (cases "code = 0")
    case False
    with Cons.IH [OF Cons.prems(1) rest(2,1)] c show ?thesis by simp
  next
    case True
    obtain msgs where m: "ae_decoder (da_agent D) bz = Some msgs" using Cons.prems(3) c True by auto
    let ?tx = "\<lparr>pt_Bytes = bz, pt_Hash = txID D bz\<rparr>"
    obtain e st1 where o: "observe D ?tx h st = (e, st1)" by fastforce
    have "fst (observe D ?tx h st) = None" by (rule observe_succeeds [OF Cons.prems(1)]) (simp add: DecodeTransfers_def m)
    with o have e: "e = None" by simp
    have t: "toUpper (txID D bz) = txID D bz" by (simp add: txID_def)
    have g1: "good st1" using observe_calm [OF o] caseHash_txID [OF assms(2)] Cons.prems(1) t by (simp add: calm_def)
    obtain e2 st2 where o2: "observeOpens h msgs st1 = (e2, st2)" by fastforce
    have e2: "e2 = None" using observeOpens_succeeds [OF g1, of h msgs] o2 by simp
    have g2: "good st2" using observeOpens_calm [of st1 h msgs] o2 g1 by (simp add: calm_def)
    from Cons.IH [OF g2 rest(2,1)] c True o e m o2 e2 show ?thesis by (simp add: txID_def)
  qed
qed simp

lemma scanBlocks_succeeds:
  assumes "good st" "hashes32 D" "cursorOf (ms_db st) = Inr c" "\<forall>j < n. readable D io (c + 1 + of_nat j)"
  shows "fst (scanBlocks D io (c + 1) n st) = None"
  using assms(1,3,4)
proof (induction n arbitrary: c st)
  case (Suc n)
  have "readable D io (c + 1 + of_nat 0)" using Suc.prems(3) by blast
  then have "readable D io (c + 1)" by simp
  then obtain txs codes where b: "dq_BlockTxs io (c + 1) = Inr (txs, codes)" "length txs \<le> length codes"
    "\<forall>n < length txs. codes ! n = 0 \<longrightarrow> ae_decoder (da_agent D) (txs ! n) \<noteq> None" by (auto simp: readable_def)
  obtain e st1 where s: "scanTxs D (c + 1) txs codes st = (e, st1)" by fastforce
  have e: "e = None" using scanTxs_succeeds [OF Suc.prems(1) assms(2) b(2,3)] s by (metis fst_conv)
  have g1: "good st1" using scanTxs_calm [OF s assms(2) Suc.prems(1)] calm_good Suc.prems(1) by blast
  obtain st2 where p: "putCursor (c + 1) st1 = (None, st2)" using putCursor_ok [OF g1] .
  note k = putCursor_keeps [OF p]
  have "\<forall>j < n. readable D io (c + 1 + 1 + of_nat j)"
  proof (intro allI impI)
    fix j assume "j < n"
    then have "readable D io (c + 1 + of_nat (Suc j))" using Suc.prems(3) by blast
    then show "readable D io (c + 1 + 1 + of_nat j)" by (simp add: ac_simps)
  qed
  from Suc.IH [OF k(1) [OF g1] k(5) this] s e b(1) p show ?case by simp
qed simp

text \<open>The end of the window of a tick at \<open>height\<close>.\<close>

definition windowEnd :: "u64 \<Rightarrow> u64 \<Rightarrow> u64" where
  "windowEnd c height = (if height - c > 25 then c + 25 else height)"

lemma scan_succeeds:
  assumes "good st" "hashes32 D" "cursorOf (ms_db st) = Inr c" "c \<le> height"
    "\<forall>b. c < b \<and> b \<le> windowEnd c height \<longrightarrow> readable D io b"
  shows "fst (scan D io height st) = None"
proof -
  define n where "n = unat (windowEnd c height - c)"
  have "readable D io (c + 1 + of_nat j)" if "j < n" for j
  proof -
    have "unat (c + of_nat (Suc j)) = unat c + Suc j \<and> unat c + Suc j \<le> unat (windowEnd c height)"
      using cursor_unat [OF assms(4) windowEnd_def, of "Suc j"] that by (simp add: n_def)
    then have "c < c + of_nat (Suc j)" "c + of_nat (Suc j) \<le> windowEnd c height"
      by (simp_all add: word_less_nat_alt word_le_nat_alt)
    moreover have "c + of_nat (Suc j) = c + 1 + of_nat j" by simp
    ultimately show ?thesis using assms(5) by metis
  qed
  from scanBlocks_succeeds [OF assms(1-3), of n] this assms(3,4) show ?thesis
    by (simp add: scan_def n_def windowEnd_def Let_def not_less [symmetric])
qed

text \<open>Behind the scan nothing moves the cursor.\<close>

lemma tickAt_cursor:
  assumes "tickAt D t owner h st = (r, st')" "hashes32 D" "good st" "cursorOf (ms_db st) = Inr c"
    "scan D (tk_io t) h st = (e, st1)"
  shows "cursorOf (ms_db st') = cursorOf (ms_db st1)"
proof -
  have g1: "good st1" using scan_covers [OF assms(5,2-4)] by (simp add: quiet_def)
  have calm: "cursorOf (ms_db st2) = cursorOf (ms_db st1) \<and> good st2" if "calm st1 st2" for st2
    using calm_cursor [OF that g1] calm_good [OF that g1] by simp
  show ?thesis
  proof (cases "e = None \<and> is_ok (dq_PendingTxs (tk_io t))")
    case False
    with assms(1,5) show ?thesis by (auto simp: tickAt_def is_ok_iff split: option.splits sum.splits)
  next
    case True
    then obtain pending where p: "dq_PendingTxs (tk_io t) = Inr pending" "e = None" by (auto simp: is_ok_iff)
    obtain e2 st2 where w: "workStage D t owner h (observeAll D h pending st1) = (e2, st2)" by fastforce
    note k = calm [OF calm_trans [OF observeAll_calm [OF assms(2)] workStage_calm [OF w]]]
    show ?thesis
    proof (cases e2)
      case (Some x)
      with assms(1,5) p w k show ?thesis by (simp add: tickAt_def)
    next
      case None
      with assms(1,5) p w have "Step (da_manager D) (managerIO D (tk_step t) owner (ms_db st2)) h st2 = (r, st')"
        by (simp add: tickAt_def)
      from Step_history [OF conjunct2 [OF k] this] k show ?thesis by simp
    qed
  qed
qed

text \<open>A tick whose ownership and status are in order, on blocks it can read.\<close>

lemma tick_cursor:
  assumes "Ensure (tk_poll t) (tk_claim t) owner = (Some (None, owner1), claims)" "tk_status t = Inr status"
    "ss_ChainID status = op_chainID (da_opts D)" "ss_Height status \<noteq> 0"
    "ss_Height status \<le> - 1 - (op_expiryHeight (da_opts D) - op_height (da_opts D))"
    and st: "hashes32 D" "good st" "cursorOf (ms_db st) = Inr c" "c \<le> ss_Height status"
      "\<forall>b. c < b \<and> b \<le> windowEnd c (ss_Height status) \<longrightarrow> readable D (tk_io t) b"
  shows "\<exists>r st'. tick D t (owner, st) = (r, owner1, st') \<and> cursorOf (ms_db st') = Inr (windowEnd c (ss_Height status))"
proof -
  obtain e st1 where s: "scan D (tk_io t) (ss_Height status) st = (e, st1)" by fastforce
  have "e = None" using scan_succeeds [OF st(2,1,3,4,5)] s by simp
  with scan_covers [OF s st(1-3)] have w: "cursorOf (ms_db st1) = Inr (windowEnd c (ss_Height status))"
    by (auto simp: windowEnd_def)
  obtain r st' where a: "tickAt D t owner1 (ss_Height status) st = (r, st')" by fastforce
  have "tick D t (owner, st) = (r, owner1, st')" using assms(1-5) a by (simp add: tick_def not_less [symmetric])
  with tickAt_cursor [OF a st(1-3) s] w show ?thesis by auto
qed

section \<open>Queueing\<close>

lemma Enqueue_intent:
  assumes "Enqueue M ident kind caseID msgs st = (e, st')" "journalOk (ms_db st)"
  obtains (same) "st' = st"
    | (queued) encoded where "intentAt (ms_db st) ident = None" "marshalMessages M msgs = Inr encoded" "e = None"
      "intentAt (ms_db st') ident = Some (zeroIntent\<lparr>it_ID := ident, it_Kind := kind, it_CaseID := caseID,
         it_Status := ''queued'', it_Messages := encoded\<rparr>)"
      "\<And>k. k \<noteq> ident \<Longrightarrow> intentAt (ms_db st') k = intentAt (ms_db st) k"
proof (cases "intentAt (ms_db st) ident = None \<and> is_ok (marshalMessages M msgs) \<and> st' \<noteq> st")
  case False
  then show thesis using assms
    by (intro same) (auto simp: Enqueue_def Store_Get_intents [OF assms(2)] is_ok_iff split: option.splits sum.splits if_splits)
next
  case True
  then obtain encoded where m: "intentAt (ms_db st) ident = None" "marshalMessages M msgs = Inr encoded" by (auto simp: is_ok_iff)
  define i where "i = zeroIntent\<lparr>it_ID := ident, it_Kind := kind, it_CaseID := caseID, it_Status := ''queued'', it_Messages := encoded\<rparr>"
  have id: "it_ID i = ident" by (simp add: i_def)
  from True assms m obtain d where d: "Store_Put (ms_db st) ''intents'' ident (IntentRow i) = Inr d" "st' = st\<lparr>ms_db := d\<rparr>" "e = None"
    by (auto simp: Enqueue_def Store_Get_intents [OF assms(2)] i_def split: sum.splits)
  from Store_Put_intent(1) [of "ms_db st" i d, unfolded id, OF d(1)] show thesis
    by (intro queued [OF m d(3)]) (simp_all add: d(2) i_def)
qed

lemma Enqueue_succeeds:
  assumes "journalOk (ms_db st)" "intentAt (ms_db st) ident = None" "ident \<noteq> []" "marshalMessages M msgs = Inr encoded"
  shows "\<exists>st'. Enqueue M ident kind caseID msgs st = (None, st') \<and> intentAt (ms_db st') ident = Some (zeroIntent\<lparr>it_ID := ident,
    it_Kind := kind, it_CaseID := caseID, it_Status := ''queued'', it_Messages := encoded\<rparr>)"
proof -
  define i where "i = zeroIntent\<lparr>it_ID := ident, it_Kind := kind, it_CaseID := caseID, it_Status := ''queued'', it_Messages := encoded\<rparr>"
  have id: "it_ID i = ident" by (simp add: i_def)
  have "\<exists>d. Store_Put (ms_db st) ''intents'' ident (IntentRow i) = Inr d"
    using assms by (intro Store_Put_succeeds) (simp_all add: journalOk_def primaryName_def activeRow_def i_def)
  then obtain d where d: "Store_Put (ms_db st) ''intents'' ident (IntentRow i) = Inr d" ..
  from Store_Put_intent(1) [of "ms_db st" i d, unfolded id, OF d] d assms(2,4) show ?thesis
    by (simp add: Enqueue_def Store_Get_intents [OF assms(1)] i_def)
qed

section \<open>Votes and executions\<close>

abbreviation voteKey :: "work \<Rightarrow> string" where "voteKey w \<equiv> ''vote/'' @ wk_CaseID w"
abbreviation executeKey :: "work \<Rightarrow> string" where "executeKey w \<equiv> ''execute/'' @ wk_CaseID w"

lemma voteOnCase_intent:
  assumes "voteOnCase D w review action c votes height st = (e, st')" "journalOk (ms_db st)"
  shows "st' = st \<or> (caseMember D (Some c) \<and> \<not> votedAlready D votes \<and> mayVote c \<and> intentAt (ms_db st) (voteKey w) = None
    \<and> (\<forall>k. k \<noteq> voteKey w \<longrightarrow> intentAt (ms_db st') k = intentAt (ms_db st) k)
    \<and> (\<exists>msg encoded. reviewVote D (wk_CaseID w) review action c height ''independent_policy_review'' = Inr msg
      \<and> marshalMessages (da_manager D) [msg] = Inr encoded \<and> intentAt (ms_db st') (voteKey w) = Some (zeroIntent\<lparr>it_ID := voteKey w,
        it_Kind := ''vote'', it_CaseID := wk_CaseID w, it_Status := ''queued'', it_Messages := encoded\<rparr>)))"
proof (cases "caseMember D (Some c) \<and> \<not> votedAlready D votes \<and> mayVote c
    \<and> is_ok (reviewVote D (wk_CaseID w) review action c height ''independent_policy_review'')")
  case False
  then show ?thesis using assms(1) by (auto simp: voteOnCase_def is_ok_iff split: sum.splits if_splits)
next
  case True
  then obtain msg where m: "reviewVote D (wk_CaseID w) review action c height ''independent_policy_review'' = Inr msg"
    by (auto simp: is_ok_iff)
  with assms(1) True have "Enqueue (da_manager D) (voteKey w) ''vote'' (wk_CaseID w) [msg] st = (e, st')"
    by (simp add: voteOnCase_def)
  from this assms(2) show ?thesis
  proof (cases rule: Enqueue_intent)
    case (queued encoded)
    then show ?thesis using True m by blast
  qed simp
qed

text \<open>The checks before an execution, and the message.\<close>

definition executable :: "SanctionAction \<Rightarrow> SanctionCase \<Rightarrow> SanctionVote list \<Rightarrow> bool" where
  "executable action c votes \<longleftrightarrow> sc_Status c = CASE_STATUS_APPROVED \<and> action = sc_RequestedAction c
     \<and> (sc_RequestedAction c = SANCTION_ACTION_REVERT_TRANSFER \<longrightarrow> sc_UnanimousRequiredForRevert c
         \<longrightarrow> (\<forall>a \<in> set (nonNil (sc_Voters c)). approvedBy c votes (ag_AgentId a)))"

definition executeMessage :: "'b daemon \<Rightarrow> string \<Rightarrow> request" where
  "executeMessage D caseID = ReqExecuteSanction \<lparr>xm_Executor = sg_Address (da_signer D), xm_CaseId = caseID,
     xm_ResultMessage = ''durable autonomous agent''\<rparr>"

definition approvedSince :: "work \<Rightarrow> u64 \<Rightarrow> u64" where
  "approvedSince w height = (if wk_ApprovedHeight w = 0 then height else wk_ApprovedHeight w)"

lemma executeCase_intent:
  assumes "executeCase D w action c votes height rank st = (r, st')" "journalOk (ms_db st)"
  shows "(\<forall>k. intentAt (ms_db st') k = intentAt (ms_db st) k) \<or> (executable action c votes
    \<and> \<not> height < turn (approvedSince w height) rank \<and> intentAt (ms_db st) (executeKey w) = None
    \<and> (\<forall>k. k \<noteq> executeKey w \<longrightarrow> intentAt (ms_db st') k = intentAt (ms_db st) k)
    \<and> (\<exists>encoded. marshalMessages (da_manager D) [executeMessage D (wk_CaseID w)] = Inr encoded
      \<and> intentAt (ms_db st') (executeKey w) = Some (zeroIntent\<lparr>it_ID := executeKey w, it_Kind := ''execute'',
        it_CaseID := wk_CaseID w, it_Status := ''queued'', it_Messages := encoded\<rparr>)))"
proof -
  define w1 where "w1 = (if wk_ApprovedHeight w = 0 then w\<lparr>wk_ApprovedHeight := height\<rparr> else w)"
  have w1: "wk_Hash w1 = wk_Hash w" "wk_CaseID w1 = wk_CaseID w" "wk_ApprovedHeight w1 = approvedSince w height" by (simp_all add: w1_def approvedSince_def)
  obtain e st1 where p: "(if wk_ApprovedHeight w = 0 then putWork (wk_Hash w) w1 st else (None, st)) = (e, st1)" by fastforce
  have e: "(if sc_Status c \<noteq> CASE_STATUS_APPROVED \<or> action \<noteq> sc_RequestedAction c \<or> awaitsUnanimity c votes then (Inr w, st)
      else case (e, st1) of (Some e, st') \<Rightarrow> (Inl e, st') | (None, st') \<Rightarrow>
          if height < turn (approvedSince w height) rank then (Inr w1, st')
          else (case Enqueue (da_manager D) (executeKey w) ''execute'' (wk_CaseID w) [executeMessage D (wk_CaseID w)] st' of
              (Some e, st'') \<Rightarrow> (Inl e, st'') | (None, st'') \<Rightarrow> (Inr w1, st''))) = (r, st')"
    using assms(1) unfolding executeCase_def Let_def w1_def [symmetric] w1 p executeMessage_def [symmetric] .
  have k: "intentAt (ms_db st1) j = intentAt (ms_db st) j \<and> journalOk (ms_db st1)" for j
    using putWork_intents [OF assms(2), of "wk_Hash w" w1] p assms(2) by (auto simp: intentsKept_def split: if_splits)
  show ?thesis
  proof (cases "sc_Status c \<noteq> CASE_STATUS_APPROVED \<or> action \<noteq> sc_RequestedAction c \<or> awaitsUnanimity c votes
      \<or> e \<noteq> None \<or> height < turn (approvedSince w height) rank")
    case True
    then show ?thesis using e k by (auto split: if_splits option.splits)
  next
    case False
    then have x: "executable action c votes" by (auto simp: executable_def awaitsUnanimity_def)
    obtain e2 st2 where q: "Enqueue (da_manager D) (executeKey w) ''execute'' (wk_CaseID w) [executeMessage D (wk_CaseID w)] st1 = (e2, st2)"
      by fastforce
    with e False have s: "st' = st2" by (auto split: option.splits)
    from q conjunct2 [OF k] show ?thesis
    proof (cases rule: Enqueue_intent)
      case same
      with s k show ?thesis by simp
    next
      case (queued encoded)
      with s k x False show ?thesis by simp
    qed
  qed
qed

text \<open>A stage on an existing case: first the vote, then the execution.\<close>

lemma act_case:
  assumes "act D io owner w (Some c) height rank st = (r, st')" "good st"
  obtains (idle) "st' = st"
    | (acts) review action votes e st1 where "wk_Review w = Some review" "parseSanctionAction (ou_Action review) = Inr action"
      "dq_SanctionVotes io height (wk_CaseID w) = Inr votes" "voteOnCase D w review action c votes height st = (e, st1)"
      "good st1" "if e = None then executeCase D w action c votes height rank st1 = (r, st') else st' = st1"
proof (cases "\<exists>review action votes. wk_Review w = Some review \<and> parseSanctionAction (ou_Action review) = Inr action
    \<and> dq_SanctionVotes io height (wk_CaseID w) = Inr votes")
  case False
  then show thesis using assms(1) by (intro idle) (auto simp: act_def split: option.splits sum.splits)
next
  case True
  then obtain review action votes where a: "wk_Review w = Some review" "parseSanctionAction (ou_Action review) = Inr action"
    "dq_SanctionVotes io height (wk_CaseID w) = Inr votes" by blast
  obtain e st1 where v: "voteOnCase D w review action c votes height st = (e, st1)" by fastforce
  then have "good st1" using quietly.R_voteOnCase [of st D w review action c votes height] assms(2) by (simp add: calm_def)
  then show thesis using assms(1) a v by (intro acts [OF a v]) (auto simp: act_def split: option.splits)
qed

text \<open>The vote a review gives.\<close>

lemma reviewVote_Inr:
  assumes "reviewVote D caseID review action c height reason = Inr msg" "signsFor (ae_E (da_agent D)) (ae_C (da_agent D))"
  obtains v where "msg = ReqSubmitSanctionVote \<lparr>vm_Submitter = sg_Address (da_signer D), vm_Vote = Some v\<rparr>"
    "sv_CaseId v = caseID" "sv_ApprovedAction v = sc_RequestedAction c" "sv_SignedHeight v = height"
    "sv_Option v = (if action = sc_RequestedAction c then VOTE_OPTION_APPROVE else VOTE_OPTION_REJECT)"
    "voteSignedBy (da_agent D) (da_signer D) (op_chainID (da_opts D)) v"
proof -
  from assms(1) obtain report v where v: "ou_RiskReport review = Some report"
    "SignVote (ae_C (da_agent D)) (da_signer D) (op_chainID (da_opts D)) (Some \<lparr>sv_CaseId = caseID, sv_AgentId = [],
        sv_Option = (if action \<noteq> sc_RequestedAction c then VOTE_OPTION_REJECT else VOTE_OPTION_APPROVE),
        sv_ApprovedAction = sc_RequestedAction c, sv_ReasonCode = reason, sv_RationaleHash = rr_LlmRationaleHash report,
        sv_SignedHeight = height, sv_Signature = []\<rparr>) = Inr v"
    "msg = ReqSubmitSanctionVote \<lparr>vm_Submitter = sg_Address (da_signer D), vm_Vote = Some v\<rparr>"
    by (auto simp: reviewVote_def bind_r_Inr_iff split: option.splits)
  from SignVote_verifies [OF assms(2) v(2)] SignVote_fields [OF v(2)] show thesis
    by (intro that [OF v(3)]) (auto simp: voteSignedBy_def)
qed

lemma ttl_window:
  fixes ttl h :: u64
  assumes "\<not> (ttl < 3 \<or> h > - 1 - ttl)"
  shows "h < h + ttl \<and> h + ttl - h = ttl"
proof -
  have t: "unat ttl \<ge> 3" using assms by (simp add: word_less_nat_alt not_less word_le_nat_alt)
  have "unat (- 1 - ttl) = 2 ^ 64 - 1 - unat ttl"
    using unat_sub [of ttl "- 1"] by (simp add: unsigned_minus_1_eq_mask mask_eq_exp_minus_1)
  with assms have "unat h \<le> 2 ^ 64 - 1 - unat ttl" by (simp add: word_less_nat_alt not_less)
  moreover have "unat ttl < 2 ^ 64" using unsigned_less [of ttl, where ?'a = nat] by simp
  ultimately have "unat h + unat ttl < 2 ^ 64" using t by linarith
  then have "unat (h + ttl) = unat h + unat ttl" using unat_add_lem [of h ttl] by simp
  with t show ?thesis by (simp add: word_less_nat_alt)
qed

section \<open>Rounds\<close>

lemma followRounds_reaches:
  "followRounds cs hash c round = (c', m) \<Longrightarrow> unat round \<le> unat m
    \<and> (\<forall>k. unat round < k \<and> k \<le> unat m \<longrightarrow> byID cs (roundID hash (of_nat k)) \<noteq> None)"
proof (induction cs hash c round rule: followRounds.induct)
  case (1 cs hash c round)
  show ?case
  proof (cases "round < - 1 \<and> (\<exists>x. byID cs (roundID hash (round + 1)) = Some x \<and> sc_PreviousCaseId x = sc_CaseId c)")
    case True
    then obtain x where x: "byID cs (roundID hash (round + 1)) = Some x" "sc_PreviousCaseId x = sc_CaseId c" by blast
    have s: "unat (round + 1) = unat round + 1" using True by (intro word_add_1_unat) auto
    from 1(2) x True have "followRounds cs hash x (round + 1) = (c', m)" by (simp add: followRounds.simps [of cs hash c])
    from 1(1) [OF conjunct1 [OF True] x(1) _ this] x(2) s
    have ih: "unat round + 1 \<le> unat m" "\<forall>k. unat round + 1 < k \<and> k \<le> unat m \<longrightarrow> byID cs (roundID hash (of_nat k)) \<noteq> None"
      by simp_all
    have "byID cs (roundID hash (of_nat k)) \<noteq> None" if "unat round < k" "k \<le> unat m" for k
    proof (cases "k = unat round + 1")
      case True
      then show ?thesis using x(1) by (simp add: add.commute)
    qed (use that ih(2) in auto)
    with ih(1) show ?thesis by simp
  next
    case False
    with 1(2) show ?thesis by (auto simp: followRounds.simps [of cs hash c] split: if_splits option.splits)
  qed
qed

end
