(* ===== verification/DaemonSample.thy ===== *)
theory DaemonSample
  imports DaemonProgress
begin

text \<open>
  A small agent for the concrete instances of the daemon's properties: one key, one provider that
  calls recipient \<open>r\<close> risky, a chain of two blocks with one transfer.
\<close>

section \<open>The agent and its services\<close>

definition demoEnv :: "nat env" where
  "demoEnv = sampleEnv\<lparr>sha256 := (\<lambda>b. take 32 (b @ replicate 32 CHR ''0'')), tmhashSum := (\<lambda>b. take 32 (b @ replicate 32 CHR ''0''))\<rparr>"

definition demoCurve :: curve where
  "demoCurve = \<lparr>cu_overflow = (\<lambda>_. False), cu_zero = (\<lambda>_. False), cu_address = (\<lambda>_. ''agent''), cu_public = (\<lambda>_. ''pk''),
     cu_sign = (\<lambda>_ _. Some ''sig'')\<rparr>"

definition demoAgent :: "nat agentEnv" where
  "demoAgent = \<lparr>ae_E = demoEnv, ae_T = \<lparr>ToLower = (\<lambda>s. s), TrimSpace = (\<lambda>s. s)\<rparr>, ae_C = demoCurve,
     ae_tls = \<lparr>tf_LoadX509KeyPair = (\<lambda>_ _. None), tf_ReadFile = (\<lambda>_. Inr []), tf_AppendCertsFromPEM = (\<lambda>_. True)\<rparr>,
     ae_parseCoins = (\<lambda>_. Some []), ae_riskJSON = (\<lambda>_. []), ae_explanationJSON = (\<lambda>_. []),
     ae_decoder = (\<lambda>bz. if bz = ''send'' then Some [BankSend ''s'' ''q'' [(''atom'', 5)], BankSend ''s'' ''r'' [(''atom'', 7)]]
       else Some []),
     ae_guard = \<lparr>ge_signer = (\<lambda>_. None), ge_unsigned = (\<lambda>_. None), ge_identity = (\<lambda>_ _ b. b), ge_signed = (\<lambda>_ _. None),
       ge_sha256 = (\<lambda>b. b)\<rparr>\<rparr>"

text \<open>The provider scores by the recipient, which the encoded request is.\<close>

definition demoRisk :: "bytes \<Rightarrow> RiskResponse" where
  "demoRisk body = \<lparr>rs_Source = ''chainalysis'', rs_ResponseID = ''1'', rs_Address = body, rs_TxHash = [],
     rs_RiskScore = (if body = ''r'' then 95 else 10), rs_RiskCategories = [''scam''], rs_ExposureType = [], rs_UpdatedAt = []\<rparr>"

definition demoWeb :: web where
  "demoWeb = \<lparr>wb_newRequest = (\<lambda>_. True), wb_Do = (\<lambda>req. Inr \<lparr>wa_StatusCode = 200, wa_Status = [], wa_Body = wr_Body req\<rparr>),
     wb_screenJSON = ts_Recipient, wb_evaluateJSON = (\<lambda>_. []), wb_explainJSON = (\<lambda>_. []), wb_explainIndentJSON = (\<lambda>_. []),
     wb_ollamaJSON = (\<lambda>_ _. []), wb_riskOf = (\<lambda>body. Some (demoRisk body)), wb_decisionOf = (\<lambda>_. None),
     wb_explanationOf = (\<lambda>_. Some \<lparr>xp_RecommendedAction = [], xp_Rationale = [], xp_Caveats = [], xp_RequiredEvidence = []\<rparr>),
     wb_ollamaOf = (\<lambda>_. None)\<rparr>"

definition demoOptions :: processOptions where
  "demoOptions = \<lparr>op_requestID = [], op_rpcSession = False, op_leaseTTL = 24, op_retryIntent = [], op_retryRequestID = [],
     op_retryReason = [], op_genesisBinding = [], op_thresholds = None, op_riskURL = [], op_riskProvider = [], op_riskAPIKey = [],
     op_llmURL = [], op_llmProvider = [], op_llmModel = [], op_agentAPIURL = [], op_agentAPIToken = [], op_agentAPIRole = [],
     op_mtlsCertFile = [], op_mtlsKeyFile = [], op_mtlsCAFile = [], op_trustedAddrs = [], op_blockedAddrs = [],
     op_txConfirmed = True, op_chainID = ''g503'', op_agentID = ''a1'', op_privKeyHex = replicate 64 CHR ''1'', op_caseID = [],
     op_height = 1, op_expiryHeight = 51, op_targetType = ''address'', op_broadcast = True, op_execute = True,
     op_accountNumber = 0, op_sequence = 0, op_gasLimit = 200000, op_fee = []\<rparr>"

definition demoManager :: "request manager" where
  "demoManager = \<lparr>mg_Options = daemonOptions demoOptions [], mg_RetryInterval = 0, marshalInterface = (\<lambda>_. Some ''msg''),
     unmarshalInterface = (\<lambda>_. Some (ReqSubmitSanctionVote \<lparr>vm_Submitter = ''agent'', vm_Vote = None\<rparr>)),
     EncodeSignedTx = (\<lambda>o' msgs. Some (''tx'' @ dec_digits (unat (so_Sequence o')))), txMemo = (\<lambda>_. None),
     txHashSum = (\<lambda>bz. bz), sha256Sum = (\<lambda>bz. bz)\<rparr>"

definition demoSigner :: Signer where
  "demoSigner = \<lparr>sg_AgentID = ''a1'', sg_PrivKey = replicate 32 (CHR 0x11), sg_Address = ''agent''\<rparr>"

definition demoDaemon :: "nat daemon" where
  "demoDaemon = \<lparr>da_agent = demoAgent, da_opts = demoOptions, da_manager = demoManager, da_signer = demoSigner\<rparr>"

section \<open>The chain\<close>

definition demoOwn :: AgentInfo where
  "demoOwn = \<lparr>ag_AgentId = ''a1'', ag_ValidatorOperatorAddress = [], ag_SignerAddress = ''agent'', ag_PublicKey = ''pk'',
     ag_VotingPower = 1, ag_Active = True, ag_MetadataUri = []\<rparr>"

definition demoIO :: daemonIO where
  "demoIO = \<lparr>dq_SanctionCasesByTx = (\<lambda>_ _. Inr []), dq_ExecutionRecord = (\<lambda>_ _. Inr None), dq_SanctionVotes = (\<lambda>_ _. Inr []),
     dq_RiskReport = (\<lambda>_ _. Inr None), dq_Agents = (\<lambda>_. Inr [demoOwn]), dq_Params = (\<lambda>_. Inr (Some DefaultParams)),
     dq_LookupTx = (\<lambda>_. Inr \<lparr>tr_Found = True, tr_Height = 11, tr_Code = 0, tr_Codespace = [], tr_Log = [], tr_Tx = ''send''\<rparr>),
     dq_BlockTxs = (\<lambda>h. if h = 11 then Inr ([''send'', ''other''], [0, 0]) else Inr ([], [])), dq_PendingTxs = Inr [],
     dq_AccountAt = (\<lambda>_. Inr \<lparr>ac_Number = 1, ac_Sequence = 7\<rparr>),
     dq_BroadcastTxSync = (\<lambda>_. (\<lparr>br_Code = 0, br_Data = [], br_Log = [], br_Hash = [], br_Codespace = []\<rparr>, None)),
     dq_validate = readAt 13 (Some sampleLease), dq_now = 10, dq_nowRetry = 10,
     dq_command = \<lparr>ci_web = demoWeb, ci_openGuard = (\<lambda>_. None), ci_guard = \<lparr>gi_status = Inr (statusAt 13),
       gi_lookup = (\<lambda>_. Inl ErrLost), gi_account = (\<lambda>_ _. Inl ErrLost), gi_putErr = None,
       gi_broadcast = (\<lambda>_. (zeroBroadcast, None))\<rparr>\<rparr>\<rparr>"

definition demoTick :: "u64 \<Rightarrow> tickIO" where
  "demoTick h = \<lparr>tk_poll = readAt h (Some sampleLease), tk_claim = sampleClaim, tk_status = Inr (statusAt h), tk_io = demoIO,
     tk_rows = (\<lambda>_. demoIO), tk_step = demoIO\<rparr>"

definition demoRun :: runIO where
  "demoRun = \<lparr>ru_opts = demoOptions, ru_stateDir = ''/state'', ru_policy = \<lparr>rs_ChainID = [], rs_GenesisHash = [],
       rs_MaxBlockAge = 0, rs_MaxFutureSkew = 0, rs_MaxHeightLag = 0, rs_MinAgreement = 1, rs_ProbeTimeout = 0,
       rs_Checkpoint = \<lparr>cp_GenesisHash = [], cp_Height = 0, cp_BlockHash = []\<rparr>, rs_Persist = False\<rparr>,
     ru_startHeight = 0, ru_status = None,
     ru_start = \<lparr>su_genesis = replicate 64 CHR ''a'', su_random = Some ''01'', su_polls = [readAt 10 None], su_claim = sampleClaim,
       su_status = Inr (statusAt 10), su_retry = demoIO\<rparr>,
     ru_ticks = [demoTick 12, demoTick 12]\<rparr>"

lemmas demo_defs = demoEnv_def demoCurve_def demoAgent_def demoRisk_def demoWeb_def demoOptions_def demoManager_def
  demoSigner_def demoDaemon_def demoOwn_def demoIO_def demoTick_def demoRun_def

lemma demo_hashes: "agentHashes demoAgent" "hashes32 demoDaemon"
  by (auto simp: agentHashes_def hashes32_def TxHash_def demoDaemon_def demoAgent_def demoEnv_def min_def)

lemma demo_signs: "signsFor demoEnv demoCurve"
  by (simp add: signsFor_def demoEnv_def demoCurve_def sampleEnv_def)

section \<open>Its journal\<close>

definition demoState :: agentState where
  "demoState = \<lparr>ms_db = (case Store_Open Map.empty ''agent'' of Inr d \<Rightarrow> d | Inl _ \<Rightarrow> Map.empty), ms_sent = [], ms_events = []\<rparr>"

lemma demoState_good: "good demoState" "intentAt (ms_db demoState) k = None" "ms_sent demoState = []"
proof -
  obtain d :: journal where d: "Store_Open Map.empty ''agent'' = Inr d" "\<forall>k. intentAt d k = None"
    using Store_Open_fresh [of "''agent''"] by blast
  with Store_Open_new [OF d(1)] show "good demoState" "intentAt (ms_db demoState) k = None" "ms_sent demoState = []"
    by (simp_all add: demoState_def good_goodDb)
qed

text \<open>At block 10.\<close>

definition demoStart :: agentState where
  "demoStart = snd (putCursor 10 demoState)"

lemma demoStart_good: "good demoStart" "cursorOf (ms_db demoStart) = Inr 10" "ms_sent demoStart = []"
proof -
  obtain st' where p: "putCursor 10 demoState = (None, st')" using putCursor_ok [OF demoState_good(1)] .
  from putCursor_keeps [OF p] p demoState_good show "good demoStart" "cursorOf (ms_db demoStart) = Inr 10" "ms_sent demoStart = []"
    by (simp_all add: demoStart_def)
qed

definition demoOwner :: Session where
  "demoOwner = sampleOwner\<lparr>se_TTL := 24, se_holder := ''3031'', se_Lease := Some sampleLease\<rparr>"

lemma demo_owned: "Ensure (tk_poll (demoTick 12)) (tk_claim (demoTick 12)) demoOwner = (Some (None, demoOwner), [])"
  by code_simp

lemma demo_readable: "readable demoDaemon demoIO b"
  by (auto simp: readable_def demo_defs less_Suc_eq_0_disj)

lemma demo_tick:
  "\<exists>r st'. tick demoDaemon (demoTick 12) (demoOwner, demoStart) = (r, demoOwner, st') \<and> cursorOf (ms_db st') = Inr 12"
proof -
  have "\<exists>r st'. tick demoDaemon (demoTick 12) (demoOwner, demoStart) = (r, demoOwner, st')
      \<and> cursorOf (ms_db st') = Inr (windowEnd 10 (ss_Height (statusAt 12)))"
    by (rule tick_cursor [OF demo_owned _ _ _ _ demo_hashes(2) demoStart_good(1,2)])
       (use demo_readable in \<open>simp_all add: demoTick_def statusAt_def demoDaemon_def demoOptions_def\<close>)
  then show ?thesis by (simp add: windowEnd_def statusAt_def)
qed

lemma demo_loop:
  "\<exists>r st'. daemonLoop demoDaemon [demoTick 12] (demoOwner, demoStart) = (r, demoOwner, st') \<and> cursorOf (ms_db st') = Inr 12"
  using demo_tick by auto

section \<open>A case and its review\<close>

definition demoHash :: string where
  "demoHash = toUpper (hexEncode (TxHash demoEnv ''send''))"

definition demoReport :: RiskReport where
  "demoReport = sampleReport\<lparr>rr_LlmRationaleHash := ''h''\<rparr>"

definition demoReview :: reviewOutput where
  "demoReview = \<lparr>ou_Risk = demoRisk ''r'', ou_Explanation = \<lparr>xp_RecommendedAction = [], xp_Rationale = [], xp_Caveats = [],
       xp_RequiredEvidence = []\<rparr>, ou_Decision = None, ou_Action = ''revert_transfer'', ou_RiskReport = Some demoReport,
     ou_Vote = None, ou_AgentInfo = None, ou_Broadcast = None\<rparr>"

definition demoTransfer :: "string \<Rightarrow> DecodedTransfer" where
  "demoTransfer to = \<lparr>dt_MessageIndex = 0, dt_TxHash = demoHash, dt_Sender = ''s'', dt_Recipient = to, dt_Amount = ''5'', dt_Denom = ''atom''\<rparr>"

definition demoWork :: work where
  "demoWork = zeroWork\<lparr>wk_CaseID := autoCaseID demoHash, wk_Hash := demoHash,
     wk_Transfers := [demoTransfer ''q'', demoTransfer ''r''], wk_SeenHeight := 11, wk_ApprovedHeight := 5,
     wk_Review := Some demoReview\<rparr>"

definition demoCase :: "CaseStatus \<Rightarrow> SanctionCase" where
  "demoCase status = (sampleCase status 0)\<lparr>sc_CaseId := autoCaseID demoHash, sc_Voters := [Some demoOwn]\<rparr>"

definition demoVoted :: daemonIO where
  "demoVoted = demoIO\<lparr>dq_SanctionVotes := (\<lambda>_ _. Inr [sampleVote])\<rparr>"

lemmas demo_case_defs = demoReport_def demoReview_def demoTransfer_def demoWork_def demoCase_def demoVoted_def sample_defs zeroWork_def

lemma demoHash_case: "caseHash demoHash"
  unfolding demoHash_def by (rule caseHash_hexEncode) (simp add: TxHash_def demoEnv_def)

text \<open>A journal that holds an item not reviewed yet.\<close>

definition demoFiled :: agentState where
  "demoFiled = snd (putWork demoHash (demoWork\<lparr>wk_Review := None\<rparr>) demoState)"

lemma demoFiled_good: "good demoFiled" "rowAt (ms_db demoFiled) ''work'' (autoCaseID demoHash) \<noteq> None"
proof -
  let ?w = "demoWork\<lparr>wk_Review := None\<rparr>"
  have h: "wk_Hash ?w = demoHash" by (simp add: demoWork_def)
  have ok: "workOk ?w" using demoHash_case roundID_zero [of demoHash]
    by (auto simp: workOk_def demoWork_def demoTransfer_def zeroWork_def intro!: exI [of _ 0])
  from putWork_calm [OF ok, of demoState] show "good demoFiled"
    using demoState_good(1) by (simp add: calm_def demoFiled_def h)
  obtain st' where p: "putWork demoHash ?w demoState = (None, st')" using putWork_ok [OF demoState_good(1)] .
  then obtain d where "Store_Put (ms_db demoState) ''work'' (autoCaseID demoHash) (WorkRow ?w) = Inr d" "st' = demoState\<lparr>ms_db := d\<rparr>"
    by (auto simp: putWork_def split: sum.splits)
  with Store_Put_work(1) [OF this(1)] p show "rowAt (ms_db demoFiled) ''work'' (autoCaseID demoHash) \<noteq> None"
    by (simp add: demoFiled_def)
qed

end
