(* ===== verification/DaemonProps.thy ===== *)
theory DaemonProps
  imports DaemonSample
begin

text \<open>
  Properties of the autonomous agent: its journal over its whole life, the blocks it has seen, the
  transactions it sends, its reviews, votes and executions, and the rounds of a recovered case.
\<close>

section \<open>The journal over the agent's life\<close>



text \<open>
  C11. Every row of the work bucket is a work item. Over the agent's whole life, from a journal no
  process has opened or one in order, a work row holds a well-formed item: stored under the automatic id of its own transaction, with a case that is a round
  of that transaction, transfers of that transaction only, and a report that names it.
\<close>

theorem work_journal_typed:
  assumes "agentHashes A" "journalFine d0" "agentLife A settings runs d0 = (d, sent)" "rowAt d ''work'' k = Some row"
  shows "\<exists>w n. row = WorkRow w \<and> caseHash (wk_Hash w) \<and> k = autoCaseID (wk_Hash w) \<and> wk_CaseID w = roundID (wk_Hash w) n
    \<and> (\<forall>t \<in> set (wk_Transfers w). dt_TxHash t = wk_Hash w)
    \<and> (\<forall>review r. wk_Review w = Some review \<longrightarrow> ou_RiskReport review = Some r \<longrightarrow> hexDecode (wk_Hash w) = Some (rr_TxHash r))"
proof -
  from agentLife_fine [OF assms(3,2,1)] have "journalFine d" by blast
  with assms(4) have "workTyped d" by (auto simp: journalFine_def goodDb_def)
  with assms(4) show ?thesis unfolding workTyped_def workOk_def by blast
qed

theorem work_journal_typed_witness:
  "\<exists>w n. rowAt (fst (agentLife demoAgent demoManager [demoRun] (ms_db demoFiled))) ''work'' (autoCaseID demoHash) = Some (WorkRow w)
    \<and> autoCaseID demoHash = autoCaseID (wk_Hash w) \<and> wk_CaseID w = roundID (wk_Hash w) n"
proof -
  obtain d sent where l: "agentLife demoAgent demoManager [demoRun] (ms_db demoFiled) = (d, sent)" by (metis prod.collapse)
  have f: "journalFine (ms_db demoFiled)" using demoFiled_good(1) by (simp add: journalFine_def good_goodDb)
  have "workGrows (ms_db demoFiled) d" using agentLife_fine [OF l f demo_hashes(1)] by simp
  with demoFiled_good(2) obtain row where r: "rowAt d ''work'' (autoCaseID demoHash) = Some row" by (auto simp: workGrows_def)
  from work_journal_typed [OF demo_hashes(1) f l r] r l show ?thesis by auto
qed

section \<open>Watching\<close>

text \<open>
  C9. The cursor leaves no block unread. When the ticks move the block cursor from one height to
  another, every block in between was read in one of the ticks, and each of its successful
  transactions that holds a transfer has its work item in the journal.
\<close>

theorem daemon_covers_blocks:
  assumes "daemonLoop D ts (owner, st) = (r, owner', st')" "hashes32 D" "good st" "cursorOf (ms_db st) = Inr c"
  shows "\<exists>c'. cursorOf (ms_db st') = Inr c' \<and> c \<le> c' \<and> (\<forall>b. c < b \<and> b \<le> c' \<longrightarrow> (\<exists>t \<in> set ts. \<exists>txs codes.
    dq_BlockTxs (tk_io t) b = Inr (txs, codes) \<and> length txs \<le> length codes \<and> (\<forall>n < length txs. codes ! n = 0 \<longrightarrow>
      (\<exists>transfers. DecodeTransfers (ae_E (da_agent D)) (ae_decoder (da_agent D)) \<lparr>pt_Bytes = txs ! n, pt_Hash = txID D (txs ! n)\<rparr> = Inr transfers
        \<and> (transfers \<noteq> [] \<longrightarrow> rowAt (ms_db st') ''work'' (autoCaseID (txID D (txs ! n))) \<noteq> None)))))"
  using daemonLoop_ticks [OF assms(1-3)] assms(4) unfolding ticks_def blockCovered_def covered_def by blast

theorem daemon_covers_blocks_witness:
  "\<exists>r st'. daemonLoop demoDaemon [demoTick 12] (demoOwner, demoStart) = (r, demoOwner, st')
    \<and> rowAt (ms_db st') ''work'' (autoCaseID (txID demoDaemon ''send'')) \<noteq> None"
proof -
  obtain r st' where l: "daemonLoop demoDaemon [demoTick 12] (demoOwner, demoStart) = (r, demoOwner, st')" "cursorOf (ms_db st') = Inr 12"
    using demo_loop by blast
  let ?D = "\<lambda>bz. DecodeTransfers (ae_E (da_agent demoDaemon)) (ae_decoder (da_agent demoDaemon)) \<lparr>pt_Bytes = bz, pt_Hash = txID demoDaemon bz\<rparr>"
  have io: "tk_io (demoTick 12) = demoIO" by (simp add: demoTick_def)
  have b: "(10 :: u64) < 11" "(11 :: u64) \<le> 12" by simp_all
  let ?B = "\<lambda>b. \<exists>t \<in> set [demoTick 12]. \<exists>txs codes. dq_BlockTxs (tk_io t) b = Inr (txs, codes) \<and> length txs \<le> length codes
      \<and> (\<forall>n < length txs. codes ! n = 0 \<longrightarrow> (\<exists>transfers. ?D (txs ! n) = Inr transfers
        \<and> (transfers \<noteq> [] \<longrightarrow> rowAt (ms_db st') ''work'' (autoCaseID (txID demoDaemon (txs ! n))) \<noteq> None)))"
  obtain c' where c': "cursorOf (ms_db st') = Inr c'" "\<forall>b. 10 < b \<and> b \<le> c' \<longrightarrow> ?B b"
    using daemon_covers_blocks [OF l(1) demo_hashes(2) demoStart_good(1,2)] by blast
  from c'(1) l(2) have "c' = 12" by simp
  with c'(2) b have "?B 11" by blast
  then obtain txs codes where c: "dq_BlockTxs demoIO 11 = Inr (txs, codes)"
      "\<forall>n < length txs. codes ! n = 0 \<longrightarrow> (\<exists>transfers. ?D (txs ! n) = Inr transfers
        \<and> (transfers \<noteq> [] \<longrightarrow> rowAt (ms_db st') ''work'' (autoCaseID (txID demoDaemon (txs ! n))) \<noteq> None))"
    unfolding list.set io [symmetric] by blast
  then have x: "txs = [''send'', ''other'']" "codes = [0, 0]" by (simp_all add: demoIO_def)
  obtain t ts where "?D ''send'' = Inr (t # ts)"
    by (simp add: DecodeTransfers_def sendTransfers_def demoDaemon_def demoAgent_def)
  with c(2) [rule_format, of 0] x l(1) show ?thesis by auto
qed

text \<open>
  C10. The watch moves on. A tick whose ownership check and status succeed, below the height at which
  an expiry would overflow, and whose blocks can be read and decoded, moves the cursor to the tip or
  25 blocks on, whatever the later stages of the tick meet.
\<close>

theorem daemon_catches_up:
  assumes "Ensure (tk_poll t) (tk_claim t) owner = (Some (None, owner1), claims)" "tk_status t = Inr status"
    "ss_ChainID status = op_chainID (da_opts D)" "ss_Height status \<noteq> 0"
    "ss_Height status \<le> - 1 - (op_expiryHeight (da_opts D) - op_height (da_opts D))"
    "hashes32 D" "good st" "cursorOf (ms_db st) = Inr c" "c \<le> ss_Height status"
    "\<forall>b. c < b \<and> b \<le> windowEnd c (ss_Height status) \<longrightarrow> readable D (tk_io t) b"
  shows "\<exists>r st'. tick D t (owner, st) = (r, owner1, st')
    \<and> cursorOf (ms_db st') = Inr (if ss_Height status - c > 25 then c + 25 else ss_Height status)"
  using tick_cursor [OF assms] by (simp add: windowEnd_def)

theorem daemon_catches_up_witness:
  "\<exists>r st'. tick demoDaemon (demoTick 12) (demoOwner, demoStart) = (r, demoOwner, st') \<and> cursorOf (ms_db st') = Inr 12"
proof -
  have "\<exists>r st'. tick demoDaemon (demoTick 12) (demoOwner, demoStart) = (r, demoOwner, st') \<and> cursorOf (ms_db st')
      = Inr (if ss_Height (statusAt 12) - 10 > 25 then 10 + 25 else ss_Height (statusAt 12))"
    by (rule daemon_catches_up [OF demo_owned _ _ _ _ demo_hashes(2) demoStart_good(1,2)])
       (use demo_readable in \<open>simp_all add: demoTick_def statusAt_def demoDaemon_def demoOptions_def\<close>)
  then show ?thesis by (simp add: statusAt_def)
qed

section \<open>Sending\<close>



section \<open>Reviewing, voting, executing\<close>

text \<open>
  C6. The agent asks for what the chain will compute. A successful evaluation leaves a review of one
  of the item's transfers, no other of which is graver; its report names that transfer, is signed by
  the agent's key, is observed at the tick's height and expires within the chain's limit; and its
  action is the one the chain's own policy computes from exactly that report.
\<close>

theorem evaluation_matches_chain:
  assumes "evaluateWork D io w height params st = (Inr w', st')" "op_agentID (da_opts D) \<noteq> []" "op_privKeyHex (da_opts D) \<noteq> []"
    "signsFor (ae_E (da_agent D)) (ae_C (da_agent D))"
  shows "\<exists>review report s target t action. wk_Review w' = Some review \<and> ou_RiskReport review = Some report
    \<and> t \<in> set (wk_Transfers w) \<and> reportsTransfer report (inputOf t)
    \<and> signerNew (ae_T (da_agent D)) (ae_C (da_agent D)) (op_agentID (da_opts D)) (op_privKeyHex (da_opts D)) = Inr s
    \<and> signedBy (da_agent D) s (op_chainID (da_opts D)) report
    \<and> rr_ObservedHeight report = height \<and> height < rr_ExpiryHeight report \<and> rr_ExpiryHeight report - height \<le> p_EvidenceTtlBlocks params
    \<and> parseTargetType (op_targetType (da_opts D)) = Inr target
    \<and> action = ComputePolicyAction [report] params target \<and> parseSanctionAction (ou_Action review) = Inr action
    \<and> (\<forall>t' \<in> set (wk_Transfers w). \<exists>x. judged (da_agent D) (ci_web (dq_command io))
        (evaluationOptions D height (evaluationTTL D params) params) t' x \<and> noGraver x (review, action))"
proof -
  let ?ttl = "evaluationTTL D params"
  let ?o = "evaluationOptions D height ?ttl params"
  from assms(1) obtain review gs where e: "\<not> (?ttl < 3 \<or> height > - 1 - ?ttl)" "wk_Review w' = Some review"
    "processPendingTransfers (da_agent D) (dq_command io) (wk_Transfers w) ?o emptyGuard = (Inr review, gs)"
    by (auto simp: evaluateWork_def Let_def prod_eq_iff split: if_splits sum.splits prod.splits option.splits)
  have "\<not> op_broadcast ?o" by (simp add: evaluationOptions_def)
  from processPendingTransfers_quiet [OF this e(3)] obtain t a where t: "t \<in> set (wk_Transfers w)"
    "judged (da_agent D) (ci_web (dq_command io)) ?o t (review, a)"
    "\<forall>t' \<in> set (wk_Transfers w). \<exists>x. judged (da_agent D) (ci_web (dq_command io)) ?o t' x \<and> noGraver x (review, a)" by blast
  from t(2) have j: "evaluated (da_agent D) (ci_web (dq_command io)) ?o (inputOf t) = Inr review"
    "parseSanctionAction (ou_Action review) = Inr a" by (simp_all add: judged_def)
  have o: "op_agentID ?o = op_agentID (da_opts D)" "op_privKeyHex ?o = op_privKeyHex (da_opts D)"
    "op_chainID ?o = op_chainID (da_opts D)" "op_targetType ?o = op_targetType (da_opts D)" "op_height ?o = height"
    "op_expiryHeight ?o = height + ?ttl" "op_thresholds ?o = Some (thresholdsOf params)"
    by (simp_all add: evaluationOptions_def)
  from evaluated_signed [OF j(1), unfolded o, OF assms(2-4) refl] obtain s target report where
    r: "signerNew (ae_T (da_agent D)) (ae_C (da_agent D)) (op_agentID (da_opts D)) (op_privKeyHex (da_opts D)) = Inr s"
      "parseTargetType (op_targetType (da_opts D)) = Inr target" "ou_RiskReport review = Some report"
      "signedBy (da_agent D) s (op_chainID (da_opts D)) report"
      "parseSanctionAction (ou_Action review) = Inr (ComputePolicyAction [report] params target)" by blast
  have h: "reportsTransfer report (inputOf t)" "rr_ObservedHeight report = height" "rr_ExpiryHeight report = height + ?ttl"
    using evaluated_report [OF j(1) r(3)] o by simp_all
  have "height < height + ?ttl \<and> height + ?ttl - height \<le> p_EvidenceTtlBlocks params"
    using ttl_window [of ?ttl height] e(1) by (auto simp: evaluationTTL_def Let_def)
  then have "height < rr_ExpiryHeight report" "rr_ExpiryHeight report - height \<le> p_EvidenceTtlBlocks params" using h(3) by simp_all
  moreover have "a = ComputePolicyAction [report] params target" using j(2) r(5) by simp
  ultimately show ?thesis using e(2) r h(1,2) t(1,3) j(2) by blast
qed

lemma demo_judged:
  assumes "opts = evaluationOptions demoDaemon 12 50 DefaultParams"
  shows "\<exists>x. judged demoAgent demoWeb opts (demoTransfer to) x"
proof -
  have "\<exists>h. hexDecode demoHash = Some h" by (simp add: demoHash_def)
  moreover have "is_ok (signerNew (ae_T demoAgent) demoCurve ''a1'' (replicate 64 CHR ''1''))" by code_simp
  then have "\<exists>s. signerNew (ae_T demoAgent) demoCurve ''a1'' (replicate 64 CHR ''1'') = Inr s" by (simp add: is_ok_iff)
  ultimately have "\<exists>r. evaluated demoAgent demoWeb opts (inputOf (demoTransfer to)) = Inr r"
    by (auto simp: assms evaluated_def screened_def signResult_def ScreenTx_def riskDo_def exchange_def decoded_def Explain_def
        explainMock_def llmNew_def NewWithProvider_def askReviewer_def calibrated_def policyVote_def SignVote_def SignRiskReport_def
        parseTargetType_def evaluationOptions_def inputOf_def demoDaemon_def demoOptions_def demoTransfer_def demoWeb_def Let_def
        demoAgent_def demoCurve_def)
  then obtain r where r: "evaluated demoAgent demoWeb opts (inputOf (demoTransfer to)) = Inr r" ..
  then obtain raw decision action target result where "screened demoAgent demoWeb opts (inputOf (demoTransfer to)) = Inr (raw, decision, action, target, result)"
    by (auto simp: evaluated_def bind_r_Inr_iff)
  have "op_agentID opts \<noteq> []" "op_privKeyHex opts \<noteq> []" "op_thresholds opts = Some (thresholdsOf DefaultParams)"
    by (simp_all add: assms evaluationOptions_def demoDaemon_def demoOptions_def)
  moreover have "signsFor (ae_E demoAgent) (ae_C demoAgent)" using demo_signs by (simp add: demoAgent_def)
  ultimately obtain a where "parseSanctionAction (ou_Action r) = Inr a" using evaluated_signed [OF r] by blast
  with r show ?thesis by (auto simp: judged_def)
qed

theorem evaluation_matches_chain_witness:
  "\<exists>w' review report. fst (evaluateWork demoDaemon demoIO demoWork 12 DefaultParams demoState) = Inr w' \<and> wk_Review w' = Some review
    \<and> ou_RiskReport review = Some report \<and> rr_ObservedHeight report = 12"
proof -
  have ttl: "evaluationTTL demoDaemon DefaultParams = 50" by code_simp
  have w: "wk_Transfers demoWork = [demoTransfer ''q'', demoTransfer ''r'']" by (simp add: demoWork_def)
  have da: "da_agent demoDaemon = demoAgent" by (simp add: demoDaemon_def)
  have web: "ci_web (dq_command demoIO) = demoWeb" by (simp add: demoIO_def)
  define opts where "opts = evaluationOptions demoDaemon 12 50 DefaultParams"
  have "\<not> op_broadcast opts" by (simp add: opts_def evaluationOptions_def)
  from processPendingTransfers_ok [OF this, of "[demoTransfer ''q'', demoTransfer ''r'']" demoAgent "dq_command demoIO" emptyGuard]
    demo_judged [OF opts_def] obtain review where
    p: "processPendingTransfers demoAgent (dq_command demoIO) [demoTransfer ''q'', demoTransfer ''r''] opts emptyGuard = (Inr review, emptyGuard)"
    by (auto simp: web)
  obtain st' where "putWork (wk_Hash demoWork) (demoWork\<lparr>wk_Review := Some review\<rparr>) demoState = (None, st')"
    using putWork_ok [OF demoState_good(1)] .
  with p have e: "evaluateWork demoDaemon demoIO demoWork 12 DefaultParams demoState = (Inr (demoWork\<lparr>wk_Review := Some review\<rparr>), st')"
    by (simp add: evaluateWork_def ttl w da opts_def)
  have "op_agentID (da_opts demoDaemon) \<noteq> []" "op_privKeyHex (da_opts demoDaemon) \<noteq> []"
    by (simp_all add: demoDaemon_def demoOptions_def)
  moreover have "signsFor (ae_E (da_agent demoDaemon)) (ae_C (da_agent demoDaemon))"
    using demo_signs by (simp add: demoDaemon_def demoAgent_def)
  ultimately show ?thesis using evaluation_matches_chain [OF e] by (auto simp: e)
qed

text \<open>
  C7. The agent votes its own review. A vote the agent queues is on a case in whose snapshot it is a
  voter under its own key, that is still open to votes and on which the chain shows no vote of it; it
  approves exactly when the action of its own review is the requested one, and its signature verifies
  under the agent's key over the bytes the chain checks.
\<close>

theorem daemon_votes_its_review:
  assumes "act D io owner w (Some c) height rank st = (r, st')" "good st"
    "intentAt (ms_db st) (''vote/'' @ wk_CaseID w) = None" "intentAt (ms_db st') (''vote/'' @ wk_CaseID w) = Some i"
    "signsFor (ae_E (da_agent D)) (ae_C (da_agent D))"
  shows "\<exists>review action votes v bz. wk_Review w = Some review \<and> parseSanctionAction (ou_Action review) = Inr action
    \<and> dq_SanctionVotes io height (wk_CaseID w) = Inr votes \<and> \<not> (\<exists>v' \<in> set votes. sv_AgentId v' = agentID D)
    \<and> sc_VotingSnapshotVersion c = 1 \<and> (\<exists>a \<in> set (nonNil (sc_Voters c)). ownEntry D a) \<and> mayVote c
    \<and> it_Kind i = ''vote'' \<and> it_CaseID i = wk_CaseID w \<and> it_Status i = ''queued'' \<and> it_Messages i = [bz]
    \<and> marshalInterface (da_manager D)
        (ReqSubmitSanctionVote \<lparr>vm_Submitter = sg_Address (da_signer D), vm_Vote = Some v\<rparr>) = Some bz
    \<and> sv_CaseId v = wk_CaseID w \<and> sv_ApprovedAction v = sc_RequestedAction c \<and> sv_SignedHeight v = height
    \<and> sv_Option v = (if action = sc_RequestedAction c then VOTE_OPTION_APPROVE else VOTE_OPTION_REJECT)
    \<and> voteSignedBy (da_agent D) (da_signer D) (op_chainID (da_opts D)) v"
  using assms(1,2)
proof (cases rule: act_case)
  case idle
  with assms(3,4) show ?thesis by simp
next
  case (acts review action votes e st1)
  have same: "intentAt (ms_db st') (voteKey w) = intentAt (ms_db st1) (voteKey w)"
    using acts(6) executeCase_intent [OF _ good_journal [OF acts(5)]] by (fastforce split: if_splits)
  then have "st1 \<noteq> st" using assms(3,4) by auto
  with voteOnCase_intent [OF acts(4) good_journal [OF assms(2)]] obtain msg encoded where
    v: "caseMember D (Some c)" "\<not> votedAlready D votes" "mayVote c"
      "reviewVote D (wk_CaseID w) review action c height ''independent_policy_review'' = Inr msg"
      "marshalMessages (da_manager D) [msg] = Inr encoded"
      "intentAt (ms_db st1) (voteKey w) = Some (zeroIntent\<lparr>it_ID := voteKey w, it_Kind := ''vote'', it_CaseID := wk_CaseID w,
        it_Status := ''queued'', it_Messages := encoded\<rparr>)" by blast
  from v(4) obtain vote where m: "msg = ReqSubmitSanctionVote \<lparr>vm_Submitter = sg_Address (da_signer D), vm_Vote = Some vote\<rparr>"
    "sv_CaseId vote = wk_CaseID w" "sv_ApprovedAction vote = sc_RequestedAction c" "sv_SignedHeight vote = height"
    "sv_Option vote = (if action = sc_RequestedAction c then VOTE_OPTION_APPROVE else VOTE_OPTION_REJECT)"
    "voteSignedBy (da_agent D) (da_signer D) (op_chainID (da_opts D)) vote"
    by (rule reviewVote_Inr [OF _ assms(5)])
  from v(5) obtain bz where "encoded = [bz]" "marshalInterface (da_manager D) msg = Some bz"
    by (auto simp: marshalMessages_def split: option.splits)
  with acts(1-3) v(1-3,6) m same assms(4) show ?thesis by (auto simp: caseMember_def votedAlready_def)
qed

theorem daemon_votes_its_review_witness:
  "\<exists>i bz. intentAt (ms_db (snd (act demoDaemon demoIO demoOwner demoWork (Some (demoCase CASE_STATUS_PENDING)) 12 0 demoState)))
     (''vote/'' @ autoCaseID demoHash) = Some i \<and> it_Messages i = [bz]"
proof -
  let ?c = "demoCase CASE_STATUS_PENDING"
  have id: "wk_CaseID demoWork = autoCaseID demoHash" by (simp add: demoWork_def)
  have v: "voteOnCase demoDaemon demoWork demoReview SANCTION_ACTION_REVERT_TRANSFER ?c [] 12 demoState
      = Enqueue demoManager (voteKey demoWork) ''vote'' (wk_CaseID demoWork) [msg] demoState"
    if "reviewVote demoDaemon (wk_CaseID demoWork) demoReview SANCTION_ACTION_REVERT_TRANSFER ?c 12 ''independent_policy_review'' = Inr msg" for msg
    using that by (simp add: voteOnCase_def caseMember_def votedAlready_def mayVote_def ownEntry_def agentID_def publicKey_def
        signerPublicKey_def nonNil_simps demo_defs demo_case_defs)
  obtain msg where m: "reviewVote demoDaemon (wk_CaseID demoWork) demoReview SANCTION_ACTION_REVERT_TRANSFER ?c 12 ''independent_policy_review'' = Inr msg"
    by (auto simp: reviewVote_def SignVote_def Let_def demo_defs demo_case_defs)
  have "marshalMessages demoManager [msg] = Inr [''msg'']" by (simp add: marshalMessages_def demoManager_def)
  from Enqueue_succeeds [OF good_journal [OF demoState_good(1)] demoState_good(2) _ this, where ident = "voteKey demoWork"
      and kind = "''vote''" and caseID = "wk_CaseID demoWork"] obtain st1 i where
    e: "Enqueue demoManager (voteKey demoWork) ''vote'' (wk_CaseID demoWork) [msg] demoState = (None, st1)"
      "intentAt (ms_db st1) (voteKey demoWork) = Some i" by auto
  have a: "act demoDaemon demoIO demoOwner demoWork (Some ?c) 12 0 demoState = (Inr demoWork, st1)"
    using v [OF m] e(1) by (simp add: act_def demoWork_def demoReview_def parseSanctionAction_def demoIO_def
        executeCase_def demoCase_def sampleCase_def)
  have s: "signsFor (ae_E (da_agent demoDaemon)) (ae_C (da_agent demoDaemon))"
    using demo_signs by (simp add: demoDaemon_def demoAgent_def)
  from daemon_votes_its_review [OF a demoState_good(1) demoState_good(2) e(2) s] e(2) show ?thesis by (auto simp: a id)
qed

text \<open>
  C8. The agent executes approved cases only. An execution the agent queues is of a case that the
  chain shows approved for the very action of the agent's own review, with the approval of every voter
  of the snapshot where a revert must be unanimous, and in the agent's turn: two blocks per rank after
  it first saw the approval.
\<close>

theorem daemon_executes_approved:
  assumes "act D io owner w (Some c) height rank st = (r, st')" "good st"
    "intentAt (ms_db st) (''execute/'' @ wk_CaseID w) = None" "intentAt (ms_db st') (''execute/'' @ wk_CaseID w) = Some i"
  shows "\<exists>review action votes bz. wk_Review w = Some review \<and> parseSanctionAction (ou_Action review) = Inr action
    \<and> dq_SanctionVotes io height (wk_CaseID w) = Inr votes
    \<and> sc_Status c = CASE_STATUS_APPROVED \<and> sc_RequestedAction c = action
    \<and> (action = SANCTION_ACTION_REVERT_TRANSFER \<and> sc_UnanimousRequiredForRevert c \<longrightarrow>
        (\<forall>a \<in> set (nonNil (sc_Voters c)). \<exists>v \<in> set votes. sv_AgentId v = ag_AgentId a \<and> sv_Option v = VOTE_OPTION_APPROVE
          \<and> sv_ApprovedAction v = action))
    \<and> (if wk_ApprovedHeight w = 0 then height else wk_ApprovedHeight w) + of_nat rank * 2 \<le> height
    \<and> it_Status i = ''queued'' \<and> it_Messages i = [bz] \<and> marshalInterface (da_manager D) (ReqExecuteSanction
        \<lparr>xm_Executor = sg_Address (da_signer D), xm_CaseId = wk_CaseID w, xm_ResultMessage = ''durable autonomous agent''\<rparr>) = Some bz"
  using assms(1,2)
proof (cases rule: act_case)
  case idle
  with assms(3,4) show ?thesis by simp
next
  case (acts review action votes e st1)
  have "intentAt (ms_db st1) (executeKey w) = intentAt (ms_db st) (executeKey w)"
    using voteOnCase_intent [OF acts(4) good_journal [OF assms(2)]] by fastforce
  with assms(3,4) have n: "intentAt (ms_db st1) (executeKey w) = None" "st' \<noteq> st1" by auto
  with acts(6) have x: "executeCase D w action c votes height rank st1 = (r, st')" by (simp split: if_splits)
  from executeCase_intent [OF x good_journal [OF acts(5)]] n(1) assms(4) obtain encoded where
    c: "executable action c votes" "\<not> height < turn (approvedSince w height) rank"
      "marshalMessages (da_manager D) [executeMessage D (wk_CaseID w)] = Inr encoded"
      "intentAt (ms_db st') (executeKey w) = Some (zeroIntent\<lparr>it_ID := executeKey w, it_Kind := ''execute'',
        it_CaseID := wk_CaseID w, it_Status := ''queued'', it_Messages := encoded\<rparr>)" by auto
  from c(3) obtain bz where bz: "encoded = [bz]" "marshalInterface (da_manager D) (executeMessage D (wk_CaseID w)) = Some bz"
    by (auto simp: marshalMessages_def split: option.splits)
  have i: "i = zeroIntent\<lparr>it_ID := executeKey w, it_Kind := ''execute'', it_CaseID := wk_CaseID w,
      it_Status := ''queued'', it_Messages := encoded\<rparr>" using c(4) assms(4) by simp
  show ?thesis using acts(1-3) c(1,2) bz
    by (intro exI [of _ review] exI [of _ action] exI [of _ votes] exI [of _ bz])
       (simp add: i executable_def approvedBy_def turn_def approvedSince_def executeMessage_def not_less)
qed

theorem daemon_executes_approved_witness:
  "\<exists>i bz. intentAt (ms_db (snd (act demoDaemon demoVoted demoOwner demoWork (Some (demoCase CASE_STATUS_APPROVED)) 12 0 demoState)))
     (''execute/'' @ autoCaseID demoHash) = Some i \<and> it_Messages i = [bz]"
proof -
  let ?c = "demoCase CASE_STATUS_APPROVED"
  have id: "wk_CaseID demoWork = autoCaseID demoHash" by (simp add: demoWork_def)
  have "marshalMessages demoManager [executeMessage demoDaemon (wk_CaseID demoWork)] = Inr [''msg'']"
    by (simp add: marshalMessages_def demoManager_def)
  from Enqueue_succeeds [OF good_journal [OF demoState_good(1)] demoState_good(2) _ this, where ident = "executeKey demoWork"
      and kind = "''execute''" and caseID = "wk_CaseID demoWork"] obtain st1 i where
    e: "Enqueue demoManager (executeKey demoWork) ''execute'' (wk_CaseID demoWork) [executeMessage demoDaemon (wk_CaseID demoWork)] demoState
      = (None, st1)" "intentAt (ms_db st1) (executeKey demoWork) = Some i" by auto
  have v: "voteOnCase demoDaemon demoWork demoReview SANCTION_ACTION_REVERT_TRANSFER ?c [sampleVote] 12 demoState = (None, demoState)"
    by (simp add: voteOnCase_def votedAlready_def agentID_def demo_defs demo_case_defs)
  have x: "executeCase demoDaemon demoWork SANCTION_ACTION_REVERT_TRANSFER ?c [sampleVote] 12 0 demoState = (Inr demoWork, st1)"
    using e(1) by (simp add: executeCase_def awaitsUnanimity_def approvedBy_def turn_def executeMessage_def nonNil_simps
        demo_defs demo_case_defs)
  have a: "act demoDaemon demoVoted demoOwner demoWork (Some ?c) 12 0 demoState = (Inr demoWork, st1)"
    using v x by (simp add: act_def demoWork_def demoReview_def parseSanctionAction_def demoVoted_def)
  from daemon_executes_approved [OF a demoState_good(1) demoState_good(2) e(2)] e(2) show ?thesis by (auto simp: a id)
qed

section \<open>Recovered cases\<close>

text \<open>
  C12. Following the rounds of a case ends. From the root case the search stops after at most as many
  rounds as there are cases, at a case of the same transaction whose round it names, and every round
  up to it exists on the chain.
\<close>

theorem recovery_rounds_bounded:
  assumes "caseHash hash" "byID cs (autoCaseID hash) = Some root"
  shows "\<exists>c n. followRounds cs hash root 0 = (c, n) \<and> unat n < length cs \<and> sc_CaseId c = roundID hash n
    \<and> (\<forall>k \<le> unat n. \<exists>c' \<in> set cs. sc_CaseId c' = roundID hash (of_nat k))"
proof -
  obtain c n where f: "followRounds cs hash root 0 = (c, n)" by fastforce
  have id: "sc_CaseId c = roundID hash n"
    using followRounds_id [OF f] byID_Some [OF assms(2)] by (simp add: roundID_zero)
  have ex: "roundID hash (of_nat k) \<in> sc_CaseId ` set cs" if "k \<le> unat n" for k
  proof (cases "k = 0")
    case True
    then show ?thesis using byID_Some [OF assms(2)] by (auto simp: roundID_zero intro!: rev_image_eqI [of root])
  next
    case False
    then obtain c' where "byID cs (roundID hash (of_nat k)) = Some c'" using followRounds_reaches [OF f] \<open>k \<le> unat n\<close> by auto
    from byID_Some [OF this] show ?thesis by (auto intro!: rev_image_eqI [of c'])
  qed
  have "inj_on (\<lambda>k. roundID hash (of_nat k)) {.. unat n}"
  proof (rule inj_onI)
    fix j k assume "j \<in> {.. unat n}" "k \<in> {.. unat n}" and e: "roundID hash (of_nat j) = roundID hash (of_nat k)"
    then have "j < 2 ^ 64" "k < 2 ^ 64" using unsigned_less [of n, where ?'a = nat] by auto
    moreover have "(of_nat j :: u64) = of_nat k" using roundID_inject [OF assms(1,1)] e by simp
    ultimately show "j = k" by (simp add: word_of_nat_eq_iff take_bit_nat_eq_self)
  qed
  then have "card ((\<lambda>k. roundID hash (of_nat k)) ` {.. unat n}) = Suc (unat n)" by (simp add: card_image)
  moreover have "(\<lambda>k. roundID hash (of_nat k)) ` {.. unat n} \<subseteq> sc_CaseId ` set cs" using ex by auto
  ultimately have "Suc (unat n) \<le> card (sc_CaseId ` set cs)" by (metis List.finite_set card_mono finite_imageI)
  also have "\<dots> \<le> length cs" using card_length [of "map sc_CaseId cs"] by simp
  finally have "unat n < length cs" by simp
  moreover have "\<forall>k \<le> unat n. \<exists>c' \<in> set cs. sc_CaseId c' = roundID hash (of_nat k)"
  proof (intro allI impI)
    fix k assume "k \<le> unat n"
    from ex [OF this] show "\<exists>c' \<in> set cs. sc_CaseId c' = roundID hash (of_nat k)" by (auto dest: sym)
  qed
  ultimately show ?thesis using f id by blast
qed

theorem recovery_rounds_bounded_witness:
  "\<exists>c n. followRounds [demoCase CASE_STATUS_EXPIRED] demoHash (demoCase CASE_STATUS_EXPIRED) 0 = (c, n) \<and> unat n < 1"
proof -
  have h: "caseHash demoHash" unfolding demoHash_def
    by (rule caseHash_hexEncode) (simp add: TxHash_def demoEnv_def)
  have b: "byID [demoCase CASE_STATUS_EXPIRED] (autoCaseID demoHash) = Some (demoCase CASE_STATUS_EXPIRED)"
    by (simp add: byID_def demoCase_def)
  from recovery_rounds_bounded [OF h b] show ?thesis by auto
qed

end
