(* ===== verification/DaemonWrites.thy ===== *)
theory DaemonWrites
  imports DaemonLife
begin

text \<open>
  Relations kept by whole runs. \<open>daemon_runs\<close> extends the contract of a stage (\<open>daemon_writes\<close>) by the
  block cursor, the manager's step and the operator's retry; a relation that these keep is kept by
  every tick and by the whole loop of the agent.
\<close>

locale daemon_runs = daemon_writes R D for R :: "agentState \<Rightarrow> agentState \<Rightarrow> bool" and D :: "'b daemon" +
  assumes R_putCursor: "R st (snd (putCursor h st))"
    and R_Step: "good st \<Longrightarrow> R st (snd (Step (da_manager D) io height st))"
    and R_recoverFailed: "good st \<Longrightarrow> R st (snd (recoverFailed D dio owner ident height reason st))"
begin

lemma R_then: "R st (snd x) \<Longrightarrow> (\<And>s. fst x = None \<Longrightarrow> s = snd x \<Longrightarrow> R st (snd (f s))) \<Longrightarrow>
    R st (snd (case x of (Some e, s) \<Rightarrow> (Some e, s) | (None, s) \<Rightarrow> f s))"
  by (cases x; cases "fst x") auto

lemma R_addWork: "workOk w \<Longrightarrow> wk_Hash w = hash \<Longrightarrow> R st (snd (addWork hash w st))"
  using R_putWork by (auto simp: addWork_def split: sum.split option.split)

lemma R_observe: "caseHash (toUpper (pt_Hash tx)) \<Longrightarrow> R st (snd (observe D tx h st))"
  using newWork_ok [of "toUpper (pt_Hash tx)" "[]" 0]
  by (auto simp: observe_def Let_def roundID_zero newWork_def intro!: R_addWork split: sum.split)

lemma R_observeOpen: "R st (snd (observeOpen h msg st))"
proof (cases "parseAutoCaseID (oc_CaseId msg)")
  case (Inr x)
  obtain hash n where x: "x = (hash, n)" by fastforce
  from parseAutoCaseID_Inr Inr x have ident: "caseHash hash" "oc_CaseId msg = roundID hash n" by blast+
  have "workOk (newWork (oc_PreviousCaseId msg) (oc_CaseId msg) hash [] h)"
    using newWork_ok [OF ident(1), of "oc_PreviousCaseId msg" n "[]"] ident(2) by simp
  moreover have "toUpper (hexEncode (oc_TxHash msg)) = hash" if "equalFold hash (hexEncode (oc_TxHash msg))"
    using that ident(1) by (simp add: equalFold_def caseHash_def)
  ultimately show ?thesis using Inr x by (auto simp: observeOpen_def newWork_def intro!: R_addWork)
qed (simp add: observeOpen_def)

lemma R_observeOpens: "R st (snd (observeOpens h msgs st))"
proof (induction h msgs st rule: observeOpens.induct)
  case (2 h msg msgs st)
  then show ?case using R_observeOpen [of st h msg]
    by (auto intro: R_trans split: option.split prod.split)
qed simp_all

lemma R_observeAll: "hashes32 D \<Longrightarrow> R st (observeAll D h txs st)"
proof (induction txs arbitrary: st)
  case (Cons tx txs)
  let ?tx = "\<lparr>pt_Bytes = tx, pt_Hash = hexEncode (TxHash (ae_E (da_agent D)) tx)\<rparr>"
  have "R st (snd (observe D ?tx h st))" using caseHash_txID [OF Cons.prems, of tx] by (intro R_observe) (simp add: txID_def)
  from R_trans [OF this Cons.IH [OF Cons.prems]] show ?case by simp
qed simp

lemma R_scanTxs:
  assumes "hashes32 D"
  shows "R st (snd (scanTxs D h txs codes st))"
proof (induction txs arbitrary: codes st)
  case (Cons bz txs)
  let ?tx = "\<lparr>pt_Bytes = bz, pt_Hash = toUpper (hexEncode (TxHash (ae_E (da_agent D)) bz))\<rparr>"
  have o: "R st (snd (observe D ?tx h st))" using caseHash_txID [OF assms, of bz] by (intro R_observe) (simp add: txID_def)
  have k: "R st (snd (case ae_decoder (da_agent D) bz of None \<Rightarrow> (Some (AExternal ''tx decode''), s)
      | Some msgs \<Rightarrow> (case observeOpens h msgs s of (Some e, s') \<Rightarrow> (Some e, s') | (None, s') \<Rightarrow> scanTxs D h txs codes' s')))"
    if "R st s" for s codes'
    using that R_observeOpens R_trans Cons.IH by (auto split: option.split intro!: R_then) (metis R_trans)+
  show ?case
  proof (cases codes)
    case (Cons code codes')
    show ?thesis
    proof (cases "code = 0")
      case True
      then show ?thesis unfolding local.Cons using R_then [OF o] k o by simp
    qed (simp add: local.Cons Cons.IH)
  qed simp
qed simp

lemma R_scanBlocks:
  assumes "hashes32 D"
  shows "R st (snd (scanBlocks D io h n st))"
proof (induction n arbitrary: h st)
  case (Suc n)
  have k: "R st (snd (case putCursor h s of (Some e, s') \<Rightarrow> (Some e, s') | (None, s') \<Rightarrow> scanBlocks D io (h + 1) n s'))"
    if "R st s" for s
    using R_then [of st "putCursor h s" "scanBlocks D io (h + 1) n"] R_trans [OF that R_putCursor] R_trans [OF _ Suc.IH] by blast
  show ?case using R_then [OF R_scanTxs [OF assms]] k R_scanTxs [OF assms]
    by (auto split: sum.split)
qed simp

lemma R_scan: "hashes32 D \<Longrightarrow> R st (snd (scan D io height st))"
  using R_scanBlocks by (auto simp: scan_def Let_def split: sum.split)

lemma R_tickAt:
  assumes "hashes32 D" "good st"
  shows "R st (snd (tickAt D t owner h st))"
proof -
  obtain e st1 where s: "scan D (tk_io t) h st = (e, st1)" by fastforce
  have r1: "R st st1" using R_scan [OF assms(1), of st "tk_io t" h] s by simp
  have g1: "good st1" using scan_quiet [OF s assms] by (simp add: quiet_def)
  show ?thesis
  proof (cases "e = None \<and> is_ok (dq_PendingTxs (tk_io t))")
    case False
    with s r1 show ?thesis by (auto simp: tickAt_def is_ok_iff split: option.split sum.split)
  next
    case True
    then obtain pending where p: "dq_PendingTxs (tk_io t) = Inr pending" "e = None" by (auto simp: is_ok_iff)
    obtain e2 st2 where w: "workStage D t owner h (observeAll D h pending st1) = (e2, st2)" by fastforce
    have g: "good (observeAll D h pending st1)" using calm_good [OF observeAll_calm [OF assms(1)] g1] by simp
    have r2: "R st st2" using R_trans [OF r1 R_trans [OF R_observeAll [OF assms(1)] R_workStage [OF w g]]] .
    have g2: "good st2" using calm_good [OF workStage_calm [OF w] g] by simp
    show ?thesis using s p w r2 R_trans [OF r2 R_Step [OF g2]] by (cases e2) (simp_all add: tickAt_def)
  qed
qed

lemma R_tick:
  assumes "tick D t (owner, st) = (r, owner', st')" "hashes32 D" "good st"
  shows "R st st'"
proof -
  have "st' = st \<or> (\<exists>h r. tickAt D t owner' h st = (r, st'))"
    using assms(1) by (auto simp: tick_def split: prod.splits option.splits sum.splits if_splits)
  then show ?thesis using R_tickAt [OF assms(2,3)] by (metis R_refl snd_conv)
qed

lemma R_daemonLoop:
  assumes "daemonLoop D ts (owner, st) = (r, owner', st')" "hashes32 D" "good st"
  shows "R st st'"
  using assms(1,3)
proof (induction ts arbitrary: owner st)
  case (Cons t ts)
  obtain e owner1 st1 where t: "tick D t (owner, st) = (e, owner1, st1)" by (metis prod.collapse)
  have r: "R st st1" using R_tick [OF t assms(2) Cons.prems(2)] .
  have g: "good st1" using tick_ticks [OF t assms(2) Cons.prems(2)] by (simp add: ticks_def history_def)
  show ?case
  proof (cases "e = Some ErrLost")
    case True
    with Cons.prems(1) t r show ?thesis by simp
  next
    case False
    with Cons.prems(1) t have "daemonLoop D ts (owner1, st1) = (r, owner', st')" by simp
    from R_trans [OF r Cons.IH [OF this g]] show ?thesis .
  qed
qed simp

lemma R_startWork:
  assumes "startWork D io owner height startHeight st = (r, st')" "good st"
  shows "R st st'"
proof -
  obtain e st1 where s: "startRetry D io owner height st = (e, st1)" by fastforce
  have r: "R st st1" using s R_recoverFailed [OF assms(2)]
    by (auto simp: startRetry_def split: if_splits option.splits) (metis snd_conv)
  have "R st1 (snd (startCursor startHeight height st1))"
    using R_putCursor by (auto simp: startCursor_def split: sum.split option.split)
  from R_trans [OF r this] r s assms(1) show ?thesis by (cases e) (auto simp: startWork_def)
qed

end

end
