(* ===== verification/IntentInv.thy ===== *)
theory IntentInv
  imports TxSpec
begin

text \<open>
  Invariants of single intents through the transaction manager. A property of an intent that depends
  only on its identity, its messages and its signed bytes, and that freshly written messages and
  signatures have, holds of every intent the manager ever saves. The locale states that contract
  once; its lemmas carry the property through every operation of manager.go and recovery.go.
\<close>

locale intent_invariant =
  fixes P :: "Intent \<Rightarrow> bool" and M :: "'m manager" and valid :: "string \<Rightarrow> string \<Rightarrow> 'm list \<Rightarrow> bool"
  assumes P_kept: "P i \<Longrightarrow> it_ID j = it_ID i \<Longrightarrow> it_Kind j = it_Kind i \<Longrightarrow> it_CaseID j = it_CaseID i
      \<Longrightarrow> it_Messages j = it_Messages i \<Longrightarrow> list_all2 attemptExt (it_Attempts i) (it_Attempts j) \<Longrightarrow> P j"
    and P_sign: "P i \<Longrightarrow> at_Hash a = toUpper (hexEncode (txHashSum M (at_Tx a))) \<Longrightarrow> P (i\<lparr>it_Attempts := it_Attempts i @ [a]\<rparr>)"
    and P_messages: "P i \<Longrightarrow> valid (it_Kind i) (it_CaseID i) msgs \<Longrightarrow> marshalMessages M msgs = Inr encoded \<Longrightarrow> P (i\<lparr>it_Messages := encoded\<rparr>)"
    and P_new: "valid kind caseID msgs \<Longrightarrow> marshalMessages M msgs = Inr encoded \<Longrightarrow>
      P (zeroIntent\<lparr>it_ID := kind @ ''/'' @ caseID, it_Kind := kind, it_CaseID := caseID, it_Status := ''queued'', it_Messages := encoded\<rparr>)"
begin

definition holds :: "'r db \<Rightarrow> bool" where
  "holds d \<longleftrightarrow> (\<forall>k i. intentAt d k = Some i \<longrightarrow> P i)"

lemma P_fields:
  "P i \<Longrightarrow> P (i\<lparr>it_Status := s\<rparr>)" "P i \<Longrightarrow> P (i\<lparr>it_LastError := e\<rparr>)" "P i \<Longrightarrow> P (i\<lparr>it_CompletedHeight := h\<rparr>)"
  "P i \<Longrightarrow> P (i\<lparr>it_Recoveries := rs\<rparr>)"
  by (erule P_kept; simp add: list_all2_refl)+

lemma P_attempts: "P i \<Longrightarrow> list_all2 attemptExt (it_Attempts i) as \<Longrightarrow> P (i\<lparr>it_Attempts := as\<rparr>)"
  by (erule P_kept) simp_all

lemma P_onLast:
  assumes "P i" "it_Attempts i \<noteq> []" "attemptExt (last (it_Attempts i)) (f (last (it_Attempts i)))"
  shows "P (onLast f i)"
  using list_all2_onLast [where f = f, OF assms(2,3)] assms(1) by (intro P_kept [OF assms(1)]) (simp_all add: onLast_def)

lemma holds_put:
  assumes "Store_Put d ''intents'' k (IntentRow i) = Inr d'" "P i" "holds d"
  shows "holds d'"
  using assms Store_Put_rowAt(1) [OF assms(1)] by (auto simp: holds_def intentAt_def primaryName_def split: if_splits)

lemma holds_save: "save i st = (r, st') \<Longrightarrow> P i \<Longrightarrow> holds (ms_db st) \<Longrightarrow> holds (ms_db st')"
  by (auto simp: save_def intro: holds_put split: sum.splits)

lemma holds_save_snd: "P i \<Longrightarrow> holds (ms_db st) \<Longrightarrow> holds (ms_db (snd (save i st)))"
  using holds_save [OF prod.collapse [symmetric]] .

section \<open>Queueing\<close>

lemma holds_Enqueue:
  assumes "valid kind caseID msgs" "holds (ms_db st)"
  shows "holds (ms_db (snd (Enqueue M (kind @ ''/'' @ caseID) kind caseID msgs st)))"
  using assms holds_put [OF _ P_new] by (auto simp: Enqueue_def split: sum.split option.split)

lemma holds_Get:
  assumes "journalOk d" "Store_Get d ''intents'' k unmarshalIntent = Inr (Some i)" "holds d"
  shows "P i \<and> it_ID i = k"
proof -
  from assms(1) have "d ''intents'' \<noteq> None" by (auto simp: journalOk_def indexOk_def bucketOk_def)
  with assms(1,2) have "intentAt d k = Some i" "it_ID i = k"
    by (fastforce simp: Store_Get_rowAt intentAt_def journalOk_def split: option.splits)+
  with assms(3) show ?thesis by (auto simp: holds_def)
qed

lemma holds_RefreshQueued:
  assumes "journalOk (ms_db st)" "holds (ms_db st)"
    and v: "\<And>i. P i \<Longrightarrow> it_ID i = ident \<Longrightarrow> valid (it_Kind i) (it_CaseID i) msgs"
  shows "holds (ms_db (snd (RefreshQueued M ident height msgs st)))"
proof (cases "Store_Get (ms_db st) ''intents'' ident unmarshalIntent")
  case (Inr found)
  show ?thesis
  proof (cases found)
    case (Some i)
    with holds_Get [OF assms(1) _ assms(2)] Inr have i: "P i" "it_ID i = ident" by blast+
    have p: "P (i\<lparr>it_Recoveries := rs, it_Messages := encoded\<rparr>)" if "marshalMessages M msgs = Inr encoded" for rs encoded
      by (rule P_messages [OF P_fields(4) [OF i(1)] _ that]) (use v [OF i] in simp)
    then show ?thesis using assms(2) by (auto simp: RefreshQueued_def Inr Some intro!: holds_save_snd split: sum.split)
  qed (use assms(2) in \<open>simp add: RefreshQueued_def Inr\<close>)
qed (use assms(2) in \<open>simp add: RefreshQueued_def\<close>)

section \<open>Reconciling and sending\<close>

lemma holds_reconcile:
  assumes "reconcile io height i st = ((b, e), i', st')" "P i" "holds (ms_db st)"
  shows "P i' \<and> holds (ms_db st')"
proof -
  let ?a = "i\<lparr>it_Attempts := snd (reconcileAttempts io height (it_Attempts i))\<rparr>"
  have a: "P ?a" by (rule P_attempts [OF assms(2) reconcileAttempts_ext])
  have s: "P (?a\<lparr>it_Status := s, it_CompletedHeight := h, it_LastError := x\<rparr>)" "P (?a\<lparr>it_Status := s\<rparr>)" for s h x
    by (intro P_fields a)+
  show ?thesis using assms(1,3) a s
    by (auto simp: reconcile_def Let_def intro: holds_save split: prod.splits sum.splits option.splits bool.splits if_splits)
qed

lemma holds_broadcastAttempt:
  assumes "P i" "it_Attempts i \<noteq> []" "holds (ms_db st)"
  shows "holds (ms_db (snd (broadcastAttempt M io i st)))"
proof (cases "io_now io < at_NextBroadcastAt (last (it_Attempts i)) \<or> io_BeforeSend io \<noteq> None")
  case True
  then show ?thesis using assms(3) by (auto simp: broadcastAttempt_def split: option.split)
next
  case False
  then have b: "io_BeforeSend io = None" "\<not> io_now io < at_NextBroadcastAt (last (it_Attempts i))" by auto
  define i1 where "i1 = onLast (\<lambda>a. a\<lparr>at_NextBroadcastAt := io_nowRetry io + (if mg_RetryInterval M = 0 then 2000000000 else mg_RetryInterval M),
      at_Broadcasts := at_Broadcasts a + 1\<rparr>) i"
  have p1: "P i1" unfolding i1_def by (rule P_onLast [OF assms(1,2)]) (simp add: attemptExt_def)
  obtain e st1 where s1: "save i1 st = (e, st1)" by fastforce
  have h1: "holds (ms_db st1)" using holds_save [OF s1 p1 assms(3)] .
  show ?thesis
  proof (cases e)
    case (Some x)
    then show ?thesis using h1 b s1 by (simp add: broadcastAttempt_def Let_def i1_def)
  next
    case None
    obtain result err where a: "io_BroadcastTxSync io (at_Tx (last (it_Attempts i1))) = (result, err)" by fastforce
    have ne: "it_Attempts (i1\<lparr>it_LastError := x, it_Status := s\<rparr>) \<noteq> []" for x s by (simp add: i1_def)
    have p3: "P (if c then onLast (\<lambda>a. a\<lparr>at_CheckCode := br_Code result, at_CheckCodespace := br_Codespace result\<rparr>)
          (i1\<lparr>it_LastError := x, it_Status := ''failed''\<rparr>) else i1\<lparr>it_LastError := x\<rparr>)" for c x
      using P_onLast [OF P_fields(1) [OF P_fields(2) [OF p1]] ne] P_fields(2) [OF p1] by (simp add: attemptExt_def)
    have w: "holds (ms_db (snd (case save j s of (Some e, s') \<Rightarrow> (Some e, s') | (None, s') \<Rightarrow> (x, s'))))"
      if "holds (ms_db (snd (save j s)))" for j s x
      using that by (cases "save j s"; cases "fst (save j s)") auto
    show ?thesis
      unfolding broadcastAttempt_def Let_def i1_def [symmetric] b s1 None option.case prod.case a if_not_P [OF b(2)]
      by (rule w, rule holds_save_snd [OF p3]) (simp add: h1)
  qed
qed

lemma P_requeueFenced: "P i \<Longrightarrow> P (requeueFenced M height i)"
  unfolding requeueFenced_def by (auto simp: attemptExt_def intro!: P_fields P_onLast)

lemma P_signAttempt:
  assumes "signAttempt M account i = Inr i'" "P i"
  shows "P i' \<and> it_Attempts i' \<noteq> []"
proof -
  from assms(1) obtain a where "i' = i\<lparr>it_Attempts := it_Attempts i @ [a], it_Status := ''pending''\<rparr>"
    "at_Hash a = toUpper (hexEncode (txHashSum M (at_Tx a)))"
    by (auto simp: signAttempt_def split: option.splits)
  with P_fields(1) [OF P_sign [OF assms(2), of a], of "''pending''"] show ?thesis by simp
qed

lemma holds_advance:
  assumes "P i" "holds (ms_db st)"
  shows "holds (ms_db (snd (advance M io height account i st)))"
proof -
  have p: "P (requeueFenced M height i)" using P_requeueFenced [OF assms(1)] .
  note b = holds_broadcastAttempt [OF _ _ assms(2)]
  show ?thesis
    using p b [OF p] P_signAttempt [OF _ p] b holds_save_snd [OF P_fields(1) [OF p] assms(2)] assms(2)
    by (auto simp: advance_def Let_def split: sum.split)
qed

lemma P_lookupLast:
  assumes "lookupLast io height i = Inr x" "P i"
  shows "case x of Ahead \<Rightarrow> True | ConfirmedAt i' \<Rightarrow> P i' | GoOn i' \<Rightarrow> P i'"
proof (cases "it_Attempts i = [] \<or> at_Resolved (last (it_Attempts i))")
  case True
  with assms show ?thesis by (auto simp: lookupLast_def)
next
  case False
  then have p: "P (onLast (\<lambda>a. a\<lparr>at_Height := h, at_Code := c, at_Resolved := True, at_Codespace := s\<rparr>) i)" for h c s
    by (intro P_onLast [OF assms(2)]) (simp_all add: attemptExt_def)
  from False assms show ?thesis
    by (auto simp: lookupLast_def bind_r_Inr_iff Let_def intro!: P_fields p split: if_splits)
qed

lemma holds_stepIntent:
  assumes "P i" "holds (ms_db st)"
  shows "holds (ms_db (snd (stepIntent M io height i st)))"
  using assms(2) P_lookupLast [OF _ assms(1)] holds_advance holds_save_snd
  by (fastforce simp: stepIntent_def intro!: P_fields holds_save_snd holds_advance
      split: sum.split lookupOutcome.splits bool.split)

lemma holds_reconcileFailed:
  assumes "reconcileFailed M io height i st = (x, st')" "P i" "holds (ms_db st)"
  shows "holds (ms_db st')"
proof -
  obtain b e i1 st1 where r: "reconcile io height i st = ((b, e), i1, st1)" by (metis prod.collapse)
  note k = holds_reconcile [OF r assms(2,3)]
  have "P ((onLast (\<lambda>a. a\<lparr>at_Resolved := True\<rparr>) i1)\<lparr>it_Status := s, it_Recoveries := rs\<rparr>)" if "it_Attempts i1 \<noteq> []" for s rs
    using that k by (intro P_fields P_onLast) (simp_all add: attemptExt_def)
  with assms(1) k show ?thesis
    by (auto simp: reconcileFailed_def r Let_def intro: holds_save split: if_splits prod.splits)
qed

lemma holds_stepLoop:
  assumes "\<forall>row \<in> set rows. \<exists>i. row = IntentRow i \<and> P i" "holds (ms_db st)"
  shows "holds (ms_db (snd (stepLoop M io height rows st)))"
  using assms
proof (induction rows arbitrary: st)
  case (Cons row rows)
  from Cons.prems(1) obtain i where i: "row = IntentRow i" "P i" by auto
  obtain b e st1 where f: "reconcileFailed M io height i st = ((b, e), st1)" by (metis prod.collapse)
  have "holds (ms_db st1)" using holds_reconcileFailed [OF f i(2) Cons.prems(2)] .
  with Cons i f holds_stepIntent [OF i(2) Cons.prems(2)] show ?case by simp
qed simp

lemma holds_Step:
  assumes "journalOk (ms_db st)" "holds (ms_db st)"
  shows "holds (ms_db (snd (Step M io height st)))"
proof (cases "ListActive (ms_db st) ''intents''")
  case (Inr rows)
  have "bucketOk (ms_db st) ''intents''" using assms(1) by (simp add: journalOk_def indexOk_def)
  from ListActive_set [OF this] Inr have "\<exists>k. rowAt (ms_db st) ''intents'' k = Some row" if "row \<in> set rows" for row
    using that by (auto simp: primaryName_def)
  with assms have "\<forall>row \<in> set rows. \<exists>i. row = IntentRow i \<and> P i"
    by (fastforce simp: journalOk_def holds_def intentAt_rowAt)
  from holds_stepLoop [OF this assms(2)] Inr show ?thesis by (simp add: Step_def)
qed (use assms(2) in \<open>simp add: Step_def\<close>)

section \<open>Operator recovery\<close>

text \<open>What is asked of a preparation: it keeps the intents it finds and gives valid messages.\<close>

definition prepares :: "('m, 'r) preparation \<Rightarrow> 'r mstate \<Rightarrow> Intent \<Rightarrow> bool" where
  "prepares prepare st i \<longleftrightarrow> holds (ms_db (snd (prepare i st)))
     \<and> (\<forall>msgs. fst (prepare i st) = Inr msgs \<longrightarrow> valid (it_Kind i) (it_CaseID i) msgs)"

lemma holds_retryFailed:
  assumes "P i" "holds (ms_db st)"
    and p: "\<And>j. P j \<Longrightarrow> it_ID j = it_ID i \<Longrightarrow> prepares prepare st j"
  shows "holds (ms_db (snd (retryFailed M io height reason q prepare i st)))"
proof (cases "Retryable i \<and> is_ok (io_AccountAt io height)")
  case False
  then show ?thesis using assms(2) by (auto simp: retryFailed_def is_ok_iff split: sum.split)
next
  case True
  then obtain account where a: "io_AccountAt io height = Inr account" "Retryable i" by (auto simp: is_ok_iff)
  show ?thesis
  proof (cases "settleAttempts account (it_Attempts i)")
    case (Inr as)
    let ?i = "i\<lparr>it_Attempts := as\<rparr>"
    have pi: "P ?i" using P_attempts [OF assms(1)] settleAttempts_ext [OF Inr] by blast
    obtain r st1 where r: "prepare ?i st = (r, st1)" by fastforce
    from p [OF pi] r have h: "holds (ms_db st1)" "\<And>msgs. r = Inr msgs \<Longrightarrow> valid (it_Kind i) (it_CaseID i) msgs"
      by (simp_all add: prepares_def)
    have new: "P (?i\<lparr>it_Recoveries := rs, it_Messages := encoded, it_Status := s, it_LastError := x, it_CompletedHeight := n\<rparr>)"
      if "marshalMessages M msgs = Inr encoded" "r = Inr msgs" for msgs encoded rs s x n
      using h(2) [OF that(2)] by (intro P_fields P_messages [OF _ _ that(1)] pi) simp
    show ?thesis using a Inr r h(1) new P_fields(1) [OF pi]
      by (auto simp: retryFailed_def Let_def intro!: holds_save_snd split: sum.split)
  qed (use a assms(2) in \<open>simp add: retryFailed_def\<close>)
qed

lemma holds_Recover:
  assumes "journalOk (ms_db st)" "holds (ms_db st)"
    and p: "\<And>i st'. P i \<Longrightarrow> it_ID i = ident \<Longrightarrow> holds (ms_db st') \<Longrightarrow> prepares prepare st' i"
  shows "holds (ms_db (snd (Recover M io ident height reason prepare q st)))"
proof (cases "Store_Get (ms_db st) ''intents'' ident unmarshalIntent")
  case (Inr found)
  show ?thesis
  proof (cases found)
    case (Some i)
    with holds_Get [OF assms(1) _ assms(2)] Inr have i: "P i" "it_ID i = ident" by blast+
    obtain b e i1 st1 where r: "reconcile io height i st = ((b, e), i1, st1)" by (metis prod.collapse)
    note k = holds_reconcile [OF r i(1) assms(2)]
    have "it_ID i1 = it_ID i" using r by (cases rule: reconcile_cases) simp_all
    with i(2) k p have "holds (ms_db (snd (retryFailed M io height reason q' prepare i1 st1)))" for q'
      by (intro holds_retryFailed) auto
    with Inr Some r k assms(2) show ?thesis by (auto simp: Recover_def Let_def split: option.split)
  qed (use assms(2) Inr in \<open>auto simp: Recover_def Let_def\<close>)
qed (use assms(2) in \<open>auto simp: Recover_def Let_def\<close>)

end

end
