(* ===== verification/JournalBackup.thy ===== *)
theory JournalBackup
  imports Chain CaseIds ChainClient
begin

text \<open>
  Backing up and restoring an agent's journal: dev/agent/internal/txmanager/backup.go. A backup is
  one archive of a manifest and an image of the journal, made offline and only of a journal whose
  every row passes \<open>manifestFor\<close>; a restore checks a checksum the operator kept apart, the identity,
  the genesis and every row again before the journal appears under its name. Neither overwrites a file.

  The file system is a map from paths to files. What bbolt, tar, JSON and SHA-256 do to bytes are the
  fields of \<open>backupCodec\<close>; \<open>fault\<close> says which system calls fail, each named by its place. Temporary
  files have fresh names, mode 0600, and are gone at the end; they are not in the map.
\<close>

section \<open>Files\<close>

record diskFile =
  fl_Regular :: bool
  fl_Perm :: nat
  fl_Content :: bytes

type_synonym files = "string \<rightharpoonup> diskFile"
type_synonym faults = "string \<Rightarrow> aerror option"

definition maxBackupSize :: nat where "maxBackupSize = 134217728"

definition ownerOnly :: "bytes \<Rightarrow> diskFile" where
  "ownerOnly content = \<lparr>fl_Regular = True, fl_Perm = 384, fl_Content = content\<rparr>"

text \<open>\<open>Perm() & 0077\<close> is what is left of the mode modulo 64.\<close>

definition regularFile :: "diskFile \<Rightarrow> aerror option" where
  "regularFile f =
     (if \<not> fl_Regular f \<or> fl_Perm f mod 64 \<noteq> 0 then Some (AErr ''journal/backup must be an owner-only regular file'')
      else if length (fl_Content f) > maxBackupSize then Some (AErr ''journal/backup exceeds 128 MiB limit'')
      else None)"

definition regularPrivate :: "aerror option \<Rightarrow> files \<Rightarrow> string \<Rightarrow> aerror option" where
  "regularPrivate err fs path = (case err of Some e \<Rightarrow> Some e | None \<Rightarrow>
     (case fs path of None \<Rightarrow> Some (AExternal ''no such file'') | Some f \<Rightarrow> regularFile f))"

text \<open>A step that fails or lets the rest go on.\<close>

definition after :: "aerror option \<Rightarrow> aerror + 'a \<Rightarrow> aerror + 'a" where
  "after err k = (case err of Some e \<Rightarrow> Inl e | None \<Rightarrow> k)"

lemma after_simps [simp]: "after None k = k" "after (Some e) k = Inl e"
  by (simp_all add: after_def)

lemma after_Inr [simp]: "after err k = Inr x \<longleftrightarrow> err = None \<and> k = Inr x"
  by (cases err) simp_all

section \<open>The rows of a journal\<close>

record BackupManifest =
  bm_Version :: int
  bm_Identity :: string
  bm_GenesisHash :: string
  bm_DatabaseHash :: string
  bm_Size :: int
  bm_CreatedAt :: string

definition emptyManifest :: BackupManifest where
  "emptyManifest = \<lparr>bm_Version = 0, bm_Identity = [], bm_GenesisHash = [], bm_DatabaseHash = [], bm_Size = 0, bm_CreatedAt = []\<rparr>"

text \<open>
  One message of an intent: whether it is the control operation. The codec decodes the chain's own
  requests; another message type of the SDK fails here as in the default case.
\<close>

definition validateMessage :: "Intent \<Rightarrow> request \<Rightarrow> aerror + bool" where
  "validateMessage i msg = (case msg of
     ReqSubmitRiskReport m \<Rightarrow>
       if it_Kind i \<noteq> ''open'' \<or> sm_Report m = None then Inl (AErr ''invalid report intent'') else Inr False
   | ReqOpenSanctionCase m \<Rightarrow>
       if it_Kind i \<noteq> ''open'' \<or> oc_CaseId m \<noteq> it_CaseID i then Inl (AErr ''invalid open intent'') else Inr True
   | ReqSubmitSanctionVote m \<Rightarrow> (case vm_Vote m of
       None \<Rightarrow> Inl (AErr ''invalid vote intent'')
     | Some v \<Rightarrow> if it_Kind i \<noteq> ''vote'' \<or> sv_CaseId v \<noteq> it_CaseID i then Inl (AErr ''invalid vote intent'') else Inr True)
   | ReqExecuteSanction m \<Rightarrow>
       if it_Kind i \<noteq> ''execute'' \<or> xm_CaseId m \<noteq> it_CaseID i then Inl (AErr ''invalid execute intent'') else Inr True
   | _ \<Rightarrow> Inl (AErr ''unexpected recovery message''))"

fun messagesLoop :: "request manager \<Rightarrow> Intent \<Rightarrow> bytes list \<Rightarrow> nat \<Rightarrow> aerror + nat" where
  "messagesLoop M i [] control = Inr control"
| "messagesLoop M i (bz # bs) control = (case unmarshalInterface M bz of
     None \<Rightarrow> Inl (AExternal ''unmarshal'')
   | Some msg \<Rightarrow> bind_r (validateMessage i msg) (\<lambda>c. messagesLoop M i bs (if c then control + 1 else control)))"

definition validateMessages :: "request manager \<Rightarrow> Intent \<Rightarrow> aerror option" where
  "validateMessages M i =
     (if it_Messages i = [] then Some (AErr ''intent has no messages'')
      else case messagesLoop M i (it_Messages i) 0 of
        Inl e \<Rightarrow> Some e
      | Inr control \<Rightarrow> if control \<noteq> 1 then Some (AErr ''intent must contain one control operation'') else None)"

definition attemptHashed :: "request manager \<Rightarrow> Attempt \<Rightarrow> bool" where
  "attemptHashed M a = equalFold (at_Hash a) (hexEncode (txHashSum M (at_Tx a)))"

definition checkIntent :: "request manager \<Rightarrow> bytes \<Rightarrow> Intent \<Rightarrow> aerror option" where
  "checkIntent M k i =
     (if it_ID i \<noteq> k \<or> it_ID i \<noteq> it_Kind i @ ''/'' @ it_CaseID i
         \<or> (it_Status i \<noteq> ''queued'' \<and> it_Status i \<noteq> ''pending'' \<and> \<not> Terminal i)
      then Some (AErr ''invalid intent identity/status'')
      else case validateMessages M i of Some e \<Rightarrow> Some e | None \<Rightarrow>
        if \<exists>a \<in> set (it_Attempts i). \<not> attemptHashed M a then Some (AErr ''signed attempt hash mismatch'') else None)"

definition checkWork :: "bytes \<Rightarrow> 'r daemonWork \<Rightarrow> aerror option" where
  "checkWork k w =
     (if \<not> validDigest (wk_Hash w) \<or> k \<noteq> autoCaseID (wk_Hash w)
         \<or> (wk_CaseID w \<noteq> k \<and> \<not> hasPrefix (wk_CaseID w) (k @ ''-r''))
      then Some (AErr ''invalid work identity'') else None)"

definition checkRow :: "request manager \<Rightarrow> string \<Rightarrow> bytes \<Rightarrow> 'r row \<Rightarrow> aerror option" where
  "checkRow M name k row =
     (if \<not> jsonValid row then Some (AErr ''invalid row'')
      else if name = ''intents'' then
        (case unmarshalIntent row of Inl e \<Rightarrow> Some e | Inr i \<Rightarrow> checkIntent M k i)
      else (case unmarshalWork row of Inl e \<Rightarrow> Some e | Inr w \<Rightarrow> checkWork k w))"

fun checkRows :: "request manager \<Rightarrow> string \<Rightarrow> (bytes \<times> 'r row) list \<Rightarrow> aerror option" where
  "checkRows M name [] = None"
| "checkRows M name ((k, row) # es) = (case checkRow M name k row of Some e \<Rightarrow> Some e | None \<Rightarrow> checkRows M name es)"

text \<open>The bytes stored for a row; \<open>rowJSON\<close> is \<open>json.Marshal\<close>.\<close>

fun rowBytes :: "('r row \<Rightarrow> bytes) \<Rightarrow> 'r row \<Rightarrow> bytes" where
  "rowBytes rowJSON (RawRow b) = b"
| "rowBytes rowJSON row = rowJSON row"

definition cursorReadable :: "'r bucket \<Rightarrow> aerror + unit" where
  "cursorReadable meta = (case kv_get meta ''cursor'' of None \<Rightarrow> Inr ()
     | Some bz \<Rightarrow> (case unmarshalUint64 bz of Inl e \<Rightarrow> Inl (AErr ''invalid cursor'') | Inr n \<Rightarrow> Inr ()))"

text \<open>
  \<open>manifestFor\<close>; \<open>pages\<close> is what \<open>tx.Check\<close> reports first about the pages of the file. A panic in
  the view is recovered as an error.
\<close>

definition manifestView :: "request manager \<Rightarrow> ('r row \<Rightarrow> bytes) \<Rightarrow> 'r db \<Rightarrow> aerror + BackupManifest" where
  "manifestView M rowJSON d = (case (d ''meta'', d ''work'', d ''intents'') of
     (Some meta, Some works, Some intents) \<Rightarrow>
       (let identity = (case kv_get meta ''identity'' of None \<Rightarrow> [] | Some row \<Rightarrow> rowBytes rowJSON row) in
        case kv_get meta ''genesis_hash'' of
          None \<Rightarrow> Inl (AErr ''journal must be bound to genesis before backup'')
        | Some bz \<Rightarrow> (case unmarshalString bz of
            Inl e \<Rightarrow> Inl (AErr ''journal must be bound to genesis before backup'')
          | Inr genesis \<Rightarrow>
              if \<not> validDigest genesis \<or> identity = [] then Inl (AErr ''invalid journal identity'')
              else bind_r (cursorReadable meta) (\<lambda>_.
                after (checkRows M ''work'' (kv_entries works))
                (after (checkRows M ''intents'' (kv_entries intents))
                 (bind_r (validateIndexes d) (\<lambda>_.
                   Inr (emptyManifest\<lparr>bm_Identity := identity, bm_GenesisHash := genesis\<rparr>)))))))
   | _ \<Rightarrow> Inl (AErr ''invalid journal buckets''))"

definition manifestFor :: "request manager \<Rightarrow> ('r row \<Rightarrow> bytes) \<Rightarrow> aerror option \<Rightarrow> 'r db \<Rightarrow> aerror + BackupManifest" where
  "manifestFor M rowJSON pages d = after pages (case manifestView M rowJSON d of
     Inl e \<Rightarrow> Inl (if e = APanic then AErr ''invalid journal contents'' else e)
   | Inr m \<Rightarrow> Inr m)"

section \<open>Archives\<close>

text \<open>
  What the tar reader finds: entries, each with the body it can read and the error it meets after
  it, or an error in place of a header. After the last item it reports the end of the file.
\<close>

record tarEntry =
  te_Name :: string
  te_TypeReg :: bool
  te_Size :: int
  te_Body :: bytes
  te_Err :: "aerror option"

record 'r backupCodec =
  bc_open :: "bytes \<Rightarrow> aerror + 'r db"
  bc_pages :: "bytes \<Rightarrow> aerror option"
  bc_writeTo :: "bytes \<Rightarrow> bytes"
  bc_rowJSON :: "'r row \<Rightarrow> bytes"
  bc_sha256 :: "bytes \<Rightarrow> bytes"
  bc_marshal :: "BackupManifest \<Rightarrow> bytes option"
  bc_unmarshal :: "bytes \<Rightarrow> BackupManifest option"
  bc_tar :: "(string \<times> bytes) list \<Rightarrow> bytes"
  bc_untar :: "bytes \<Rightarrow> (aerror + tarEntry) list"

definition existingFile :: "'r backupCodec \<Rightarrow> aerror option \<Rightarrow> diskFile \<Rightarrow> aerror + 'r db" where
  "existingFile C err f = after (regularFile f) (after err (bc_open C (fl_Content f)))"

definition existingDB :: "'r backupCodec \<Rightarrow> aerror option \<Rightarrow> aerror option \<Rightarrow> files \<Rightarrow> string \<Rightarrow> aerror + diskFile \<times> 'r db" where
  "existingDB C statErr openErr fs path = after (regularPrivate statErr fs path) (case fs path of
     None \<Rightarrow> Inl (AExternal ''no such file'')
   | Some f \<Rightarrow> bind_r (existingFile C openErr f) (\<lambda>d. Inr (f, d)))"

text \<open>
  \<open>publish\<close>: a hard link, which fails when the target exists, then a sync of the directory. When
  the sync fails the file is there and the caller has an error.
\<close>

definition publish :: "faults \<Rightarrow> bytes \<Rightarrow> string \<Rightarrow> files \<Rightarrow> aerror option \<times> files" where
  "publish fault content target fs = (case fault ''link'' of Some e \<Rightarrow> (Some e, fs) | None \<Rightarrow>
     if fs target \<noteq> None then (Some (AExternal ''file exists''), fs)
     else (fault ''sync directory'', fs(target \<mapsto> ownerOnly content)))"

record BackupResult =
  bu_Path :: string
  bu_SHA256 :: string
  bu_Manifest :: BackupManifest

text \<open>The manifest and the archive, before it is published.\<close>

definition backupArchive ::
    "request manager \<Rightarrow> 'r backupCodec \<Rightarrow> faults \<Rightarrow> string \<Rightarrow> files \<Rightarrow> string \<Rightarrow> aerror + BackupManifest \<times> bytes" where
  "backupArchive M C fault now fs journal =
     bind_r (existingDB C (fault ''stat journal'') (fault ''open journal'') fs journal) (\<lambda>(f, d).
     bind_r (manifestFor M (bc_rowJSON C) (bc_pages C (fl_Content f)) d) (\<lambda>m0.
     after (fault ''mkdir'') (after (fault ''create snapshot'') (after (fault ''write snapshot'')
     (let snapshot = bc_writeTo C (fl_Content f) in
      if length snapshot > maxBackupSize - 4096 then Inl (AErr ''snapshot exceeds backup size limit'')
      else let m = m0\<lparr>bm_Size := int (length snapshot), bm_Version := 1,
             bm_DatabaseHash := hexEncode (bc_sha256 C snapshot), bm_CreatedAt := now\<rparr> in
      case bc_marshal C m of
        None \<Rightarrow> Inl (AExternal ''marshal'')
      | Some metadata \<Rightarrow>
          if length metadata > 4096 then Inl (AErr ''backup manifest exceeds 4096 byte limit'')
          else after (fault ''create archive'') (after (fault ''write manifest'') (after (fault ''seek snapshot'')
            (after (fault ''write database'') (after (fault ''close archive'') (after (fault ''sync archive'')
            (Inr (m, bc_tar C [(''manifest.json'', metadata), (''agent.db'', snapshot)]))))))))))))"

definition Backup ::
    "request manager \<Rightarrow> 'r backupCodec \<Rightarrow> faults \<Rightarrow> string \<Rightarrow> string \<Rightarrow> string \<Rightarrow> files \<Rightarrow> (aerror + BackupResult) \<times> files" where
  "Backup M C fault now journal archive fs = (case backupArchive M C fault now fs journal of
     Inl e \<Rightarrow> (Inl e, fs)
   | Inr (m, content) \<Rightarrow> (case publish fault content archive fs of
       (Some e, fs') \<Rightarrow> (Inl e, fs')
     | (None, fs') \<Rightarrow> (Inr \<lparr>bu_Path = archive, bu_SHA256 = hexEncode (bc_sha256 C content), bu_Manifest = m\<rparr>, fs')))"

section \<open>Restoring\<close>

text \<open>\<open>io.ReadAll(io.LimitReader(tr, n))\<close> and \<open>io.Copy\<close>.\<close>

definition readLimited :: "nat \<Rightarrow> tarEntry \<Rightarrow> aerror + bytes" where
  "readLimited n t = (if length (te_Body t) < n then after (te_Err t) (Inr (te_Body t)) else Inr (take n (te_Body t)))"

definition copyAll :: "tarEntry \<Rightarrow> aerror + bytes" where
  "copyAll t = after (te_Err t) (Inr (te_Body t))"

text \<open>\<open>tr.Next()\<close>: the item and the rest.\<close>

fun nextEntry :: "(aerror + tarEntry) list \<Rightarrow> aerror + tarEntry \<times> (aerror + tarEntry) list" where
  "nextEntry [] = Inl (AExternal ''EOF'')"
| "nextEntry (x # xs) = bind_r x (\<lambda>t. Inr (t, xs))"

text \<open>The archive read to its end: the manifest and the image, their sizes and digest checked.\<close>

definition readArchive :: "'r backupCodec \<Rightarrow> faults \<Rightarrow> string \<Rightarrow> string \<Rightarrow> bytes \<Rightarrow> aerror + BackupManifest \<times> bytes" where
  "readArchive C fault identity genesis content =
     bind_r (nextEntry (bc_untar C content)) (\<lambda>(header, rest).
     if te_Name header \<noteq> ''manifest.json'' \<or> \<not> te_TypeReg header \<or> te_Size header > 4096
     then Inl (AErr ''invalid backup manifest entry'')
     else bind_r (readLimited 4097 header) (\<lambda>bz.
     case bc_unmarshal C bz of None \<Rightarrow> Inl (AExternal ''unmarshal'') | Some m \<Rightarrow>
     if bm_Version m \<noteq> 1 \<or> bm_Identity m \<noteq> identity \<or> bm_GenesisHash m \<noteq> genesis \<or> bm_Size m \<le> 0 \<or> bm_Size m > int maxBackupSize
     then Inl (AErr ''backup identity/genesis/version mismatch'')
     else bind_r (nextEntry rest) (\<lambda>(header, rest).
     if te_Name header \<noteq> ''agent.db'' \<or> \<not> te_TypeReg header \<or> te_Size header \<noteq> bm_Size m
     then Inl (AErr ''invalid backup database entry'')
     else bind_r (copyAll header) (\<lambda>img. after (fault ''write journal'')
     (if int (length img) \<noteq> bm_Size m \<or> hexEncode (bc_sha256 C img) \<noteq> bm_DatabaseHash m
     then Inl (AErr ''database checksum mismatch'')
     else if rest \<noteq> [] then Inl (AErr ''unexpected backup entry'')
     else Inr (m, img))))))"

text \<open>The image as a journal: opened, checked row by row, of this identity and genesis.\<close>

definition verifyImage ::
    "request manager \<Rightarrow> 'r backupCodec \<Rightarrow> faults \<Rightarrow> string \<Rightarrow> string \<Rightarrow> bytes \<Rightarrow> aerror + unit" where
  "verifyImage M C fault identity genesis img =
     after (fault ''stat database'') (bind_r (existingFile C (fault ''open database'') (ownerOnly img)) (\<lambda>d.
     bind_r (manifestFor M (bc_rowJSON C) (bc_pages C img) d) (\<lambda>actual.
     after (fault ''close database'')
     (if bm_Identity actual \<noteq> identity \<or> bm_GenesisHash actual \<noteq> genesis then Inl (AErr ''database identity mismatch'')
      else Inr ()))))"

text \<open>Everything before the journal is published.\<close>

definition restoreImage ::
    "request manager \<Rightarrow> 'r backupCodec \<Rightarrow> faults \<Rightarrow> string \<Rightarrow> string \<Rightarrow> string \<Rightarrow> string \<Rightarrow> string \<Rightarrow> files \<Rightarrow> aerror + bytes" where
  "restoreImage M C fault archive journal identity genesis checksum fs =
     (if \<not> validDigest checksum \<or> \<not> validDigest genesis
      then Inl (AErr ''trusted backup SHA-256 and genesis hash are required'')
      else after (regularPrivate (fault ''stat archive'') fs archive) (after (fault ''open archive'') (after (fault ''read archive'')
      (case fs archive of None \<Rightarrow> Inl (AExternal ''no such file'') | Some f \<Rightarrow>
       if \<not> equalFold checksum (hexEncode (bc_sha256 C (fl_Content f))) then Inl (AErr ''backup checksum mismatch'')
       else after (fault ''seek archive'')
       (if fault ''stat journal'' \<noteq> None \<or> fs journal \<noteq> None
        then Inl (AErr ''restore destination already exists or cannot be checked'')
        else after (fault ''mkdir'') (after (fault ''create journal'')
        (bind_r (readArchive C fault identity genesis (fl_Content f)) (\<lambda>(m, img).
         after (fault ''sync journal'') (after (fault ''close journal'')
         (bind_r (verifyImage M C fault identity genesis img) (\<lambda>_. Inr img)))))))))))"

definition Restore ::
    "request manager \<Rightarrow> 'r backupCodec \<Rightarrow> faults \<Rightarrow> string \<Rightarrow> string \<Rightarrow> string \<Rightarrow> string \<Rightarrow> string \<Rightarrow> files
      \<Rightarrow> aerror option \<times> files" where
  "Restore M C fault archive journal identity genesis checksum fs =
     (case restoreImage M C fault archive journal identity genesis checksum fs of
        Inl e \<Rightarrow> (Some e, fs) | Inr img \<Rightarrow> publish fault img journal fs)"

end
