(* ===== verification/BackupProps.thy ===== *)
theory BackupProps
  imports JournalBackup TxProps
begin

text \<open>
  Properties of journal backups: what a checked journal is, what a restore leaves behind, and that a
  backup restores.
\<close>

section \<open>Checked journals\<close>

lemma checkRows_None: "checkRows M name es = None \<longleftrightarrow> (\<forall>(k, row) \<in> set es. checkRow M name k row = None)"
  by (induction M name es rule: checkRows.induct) (auto split: option.splits)

text \<open>A row the check accepts.\<close>

definition intentRowOk :: "request manager \<Rightarrow> bytes \<Rightarrow> 'r row \<Rightarrow> bool" where
  "intentRowOk M k row \<longleftrightarrow> jsonValid row \<and> (\<exists>i. unmarshalIntent row = Inr i \<and> checkIntent M k i = None)"

definition workRowOk :: "bytes \<Rightarrow> 'r row \<Rightarrow> bool" where
  "workRowOk k row \<longleftrightarrow> jsonValid row \<and> (\<exists>w. unmarshalWork row = Inr w \<and> checkWork k w = None)"

lemma checkRow_None:
  "checkRow M ''intents'' k row = None \<longleftrightarrow> intentRowOk M k row"
  "checkRow M ''work'' k row = None \<longleftrightarrow> workRowOk k row"
  by (auto simp: checkRow_def intentRowOk_def workRowOk_def split: sum.splits)

lemma checkRows_rowAt:
  assumes "d name = Some b"
  shows "checkRows M name (kv_entries b) = None \<longleftrightarrow> (\<forall>k row. rowAt d name k = Some row \<longrightarrow> checkRow M name k row = None)"
  using assms by (auto simp: checkRows_None rowAt_def kv.ents_get)

text \<open>What \<open>manifestFor\<close> accepts.\<close>

definition sealed :: "('r row \<Rightarrow> bytes) \<Rightarrow> string \<Rightarrow> string \<Rightarrow> 'r db \<Rightarrow> bool" where
  "sealed rowJSON identity genesis d \<longleftrightarrow> identity \<noteq> [] \<and> validDigest genesis
     \<and> (\<exists>row. rowAt d ''meta'' ''identity'' = Some row \<and> identity = rowBytes rowJSON row)
     \<and> rowAt d ''meta'' ''genesis_hash'' = Some (StringRow genesis)
     \<and> (\<forall>row. rowAt d ''meta'' ''cursor'' = Some row \<longrightarrow> (\<exists>n. row = NumberRow n))"

definition checkedDb :: "request manager \<Rightarrow> 'r db \<Rightarrow> bool" where
  "checkedDb M d \<longleftrightarrow> d ''meta'' \<noteq> None \<and> d ''work'' \<noteq> None \<and> d ''intents'' \<noteq> None
     \<and> (\<forall>k row. rowAt d ''intents'' k = Some row \<longrightarrow> intentRowOk M k row)
     \<and> (\<forall>k row. rowAt d ''work'' k = Some row \<longrightarrow> workRowOk k row)
     \<and> validateIndexes d = Inr ()"

lemma unmarshal_Inr:
  "unmarshalString row = Inr s \<longleftrightarrow> row = StringRow s" "unmarshalUint64 row = Inr n \<longleftrightarrow> row = NumberRow n"
  by (cases row; auto)+

lemma manifestView_Inr:
  "manifestView M rowJSON d = Inr m \<longleftrightarrow> checkedDb M d \<and> sealed rowJSON (bm_Identity m) (bm_GenesisHash m) d
     \<and> m = emptyManifest\<lparr>bm_Identity := bm_Identity m, bm_GenesisHash := bm_GenesisHash m\<rparr>"
proof (cases "d ''meta''"; cases "d ''work''"; cases "d ''intents''")
  fix meta works intents
  assume b: "d ''meta'' = Some meta" "d ''work'' = Some works" "d ''intents'' = Some intents"
  have r: "rowAt d ''meta'' k = kv_get meta k" for k by (simp add: rowAt_def b)
  have c: "cursorReadable meta = Inr () \<longleftrightarrow> (\<forall>row. kv_get meta ''cursor'' = Some row \<longrightarrow> (\<exists>n. row = NumberRow n))"
    by (auto simp: cursorReadable_def split: option.split sum.split) (metis unmarshal_Inr(2) sum.exhaust sum.distinct(1))+
  show ?thesis
    by (auto simp: manifestView_def b checkedDb_def sealed_def r Let_def bind_r_Inr_iff c [symmetric] unmarshal_Inr
        checkRows_rowAt [of d, OF b(2)] checkRows_rowAt [of d, OF b(3)] checkRow_None split: option.splits sum.splits)
qed (auto simp: manifestView_def checkedDb_def)

text \<open>Its rows are intents and work items, under their own keys.\<close>

lemma intentRowOk_row: "intentRowOk M k row \<longleftrightarrow> (\<exists>i. row = IntentRow i \<and> checkIntent M k i = None)"
  by (cases row) (auto simp: intentRowOk_def checkIntent_def zeroIntent_def split: if_splits)

lemma checkWork_hash: "wk_Hash w = [] \<Longrightarrow> checkWork k w \<noteq> None"
  by (simp add: checkWork_def validDigest_def)

lemma zeroWork_hash [simp]: "wk_Hash zeroWork = []" by (simp add: zeroWork_def)

lemma workRowOk_row: "workRowOk k row \<longleftrightarrow> (\<exists>w. row = WorkRow w \<and> checkWork k w = None)"
  by (cases row) (simp_all add: workRowOk_def checkWork_hash)

lemma checkIntent_None:
  "checkIntent M k i = None \<Longrightarrow> k \<noteq> [] \<and> is_ok (activeRow ''intents'' (IntentRow i))"
  by (auto simp: checkIntent_def activeRow_def Terminal_def split: if_splits)

lemma checkWork_None: "checkWork k w = None \<Longrightarrow> k \<noteq> [] \<and> is_ok (activeRow ''work'' (WorkRow w))"
  by (auto simp: checkWork_def activeRow_def autoCaseID_def split: if_splits)

lemma rebuildIndex_ok:
  assumes "\<And>k row. (k, row) \<in> set es \<Longrightarrow> k \<noteq> [] \<and> is_ok (activeRow bucket row)"
  shows "\<exists>index'. rebuildIndex bucket es index = Inr index'"
  using assms
proof (induction es arbitrary: index)
  case (Cons e es)
  obtain key row where e: "e = (key, row)" by (cases e)
  from Cons.prems [of key row] e obtain active where a: "activeRow bucket row = Inr active" "key \<noteq> []" by (auto simp: is_ok_iff)
  have "\<exists>index'. rebuildIndex bucket es x = Inr index'" for x by (rule Cons.IH, rule Cons.prems) simp
  with a show ?case by (simp add: e bucketPut_def)
qed simp

lemma rebuild_rows:
  assumes "d name = Some b" "\<And>k row. rowAt d name k = Some row \<Longrightarrow> k \<noteq> [] \<and> is_ok (activeRow name row)"
  shows "\<exists>index. rebuildIndex name (kv_entries b) kv_empty = Inr index"
  by (rule rebuildIndex_ok, rule assms(2)) (simp add: rowAt_def kv.ents_get assms(1))

lemma checked_active:
  assumes "checkedDb M d" "primaryName name" "rowAt d name k = Some row"
  shows "k \<noteq> [] \<and> is_ok (activeRow name row)"
proof -
  from assms(2) consider "name = ''intents''" | "name = ''work''" by (auto simp: primaryName_def)
  then show ?thesis
  proof cases
    case 1
    with assms(1,3) have "intentRowOk M k row" by (simp add: checkedDb_def)
    then obtain i where "row = IntentRow i" "checkIntent M k i = None" by (auto simp: intentRowOk_row)
    with checkIntent_None 1 show ?thesis by blast
  next
    case 2
    with assms(1,3) have "workRowOk k row" by (simp add: checkedDb_def)
    then obtain w where "row = WorkRow w" "checkWork k w = None" by (auto simp: workRowOk_row)
    with checkWork_None 2 show ?thesis by blast
  qed
qed

lemma migrate_checked:
  assumes "checkedDb M d"
  shows "\<exists>d'. migrateIndexes d = Inr d'"
proof -
  obtain meta where m: "d ''meta'' = Some meta" using assms by (auto simp: checkedDb_def)
  show ?thesis
  proof (cases "kv_get meta indexVersionKey")
    case None
    obtain b1 b2 where b: "d ''intents'' = Some b1" "d ''work'' = Some b2" using assms by (auto simp: checkedDb_def)
    have p: "primaryName ''intents''" "primaryName ''work''" by (simp_all add: primaryName_def)
    obtain x1 where "rebuildIndex ''intents'' (kv_entries b1) kv_empty = Inr x1"
      using rebuild_rows [of d, OF b(1)] checked_active [OF assms p(1)] by blast
    moreover obtain x2 where "rebuildIndex ''work'' (kv_entries b2) kv_empty = Inr x2"
      using rebuild_rows [of d, OF b(2)] checked_active [OF assms p(2)] by blast
    ultimately    show ?thesis using m b None by (simp add: migrateIndexes_def)
  next
    case (Some v)
    with assms validateIndexes_exact [of d, OF m] have "indexOk d" by (simp add: checkedDb_def)
    then show ?thesis using m by (auto simp: migrateIndexes_def indexOk_def versionOk_def bucketOk_def)
  qed
qed

lemma validateBuckets_cong:
  assumes "\<forall>bucket \<in> set bs. d' bucket = d bucket \<and> d' (activeIndex bucket) = d (activeIndex bucket)"
  shows "validateBuckets bs d' = validateBuckets bs d"
  using assms
proof (induction bs)
  case (Cons bucket bs)
  then have "validateBuckets bs d' = validateBuckets bs d" "d' bucket = d bucket" "d' (activeIndex bucket) = d (activeIndex bucket)"
    by simp_all
  then show ?case by (simp only: validateBuckets.simps)
qed simp

lemma checkedDb_meta:
  assumes "checkedDb M d" "d ''meta'' = Some b" "kv_get b' indexVersionKey = kv_get b indexVersionKey"
  shows "checkedDb M (d(''meta'' \<mapsto> b'))"
proof -
  have "validateBuckets [''intents'', ''work''] (d(''meta'' \<mapsto> b')) = validateBuckets [''intents'', ''work''] d"
    by (rule validateBuckets_cong) simp
  with assms(2,3) have "validateIndexes (d(''meta'' \<mapsto> b')) = validateIndexes d"
    by (simp add: validateIndexes_def del: validateBuckets.simps split: option.split)
  with assms show ?thesis by (simp add: checkedDb_def rowAt_def)
qed

lemma checked_opens:
  assumes "checkedDb M d" "rowAt d ''meta'' ''identity'' = Some (RawRow identity)"
  shows "\<exists>d'. Store_Open d identity = Inr d' \<and> indexOk d' \<and> (\<forall>bucket k. primaryName bucket \<longrightarrow> rowAt d' bucket k = rowAt d bucket k)"
proof -
  obtain b where b: "d ''meta'' = Some b" using assms(1) by (auto simp: checkedDb_def)
  let ?d = "d(''meta'' \<mapsto> kv_set ''identity'' (RawRow identity) b)"
  have c: "checkedDb M ?d" by (rule checkedDb_meta [OF assms(1) b]) (simp add: store_simps indexVersionKey_def)
  obtain d' where m: "migrateIndexes ?d = Inr d'" using migrate_checked [OF c] by blast
  have "kv_get (the (?d ''meta'')) indexVersionKey = None \<or> indexOk ?d"
  proof (cases "kv_get (the (?d ''meta'')) indexVersionKey")
    case (Some v)
    with c validateIndexes_exact [of ?d "the (?d ''meta'')"] show ?thesis by (simp add: checkedDb_def)
  qed simp
  note k = migrateIndexes_indexOk [OF m this]
  have "fold ensureBucket [''meta'', ''work'', ''intents''] d = d"
    using assms(1) by (auto simp: checkedDb_def ensureBucket_def)
  with assms(2) m b have "Store_Open d identity = Inr d'" by (simp add: Store_Open_def Let_def rowAt_def)
  moreover have "rowAt ?d bucket k = rowAt d bucket k" if "primaryName bucket" for bucket k
    using that by (auto simp: rowAt_def primaryName_def)
  ultimately show ?thesis using k by metis
qed

section \<open>Restoring\<close>

lemma manifestFor_Inr:
  "manifestFor M rowJSON pages d = Inr m \<longleftrightarrow> pages = None \<and> manifestView M rowJSON d = Inr m"
  by (auto simp: manifestFor_def split: sum.splits)

lemma verifyImage_Inr:
  "verifyImage M C fault identity genesis img = Inr () \<Longrightarrow>
    \<exists>d. bc_open C img = Inr d \<and> checkedDb M d \<and> sealed (bc_rowJSON C) identity genesis d"
  by (auto simp: verifyImage_def existingFile_def bind_r_Inr_iff manifestFor_Inr ownerOnly_def manifestView_Inr split: if_splits)

lemma restoreImage_Inr:
  assumes "restoreImage M C fault archive journal identity genesis checksum fs = Inr img"
  shows "fs journal = None \<and> (\<exists>f. fs archive = Some f \<and> equalFold checksum (hexEncode (bc_sha256 C (fl_Content f))))
    \<and> verifyImage M C fault identity genesis img = Inr ()"
  using assms by (auto simp: restoreImage_def bind_r_Inr_iff split: if_splits option.splits)

lemma publish_cases:
  assumes "publish fault content target fs = (err, fs')"
  shows "fs' = fs \<and> err \<noteq> None \<or> fs target = None \<and> fs' = fs(target \<mapsto> ownerOnly content)"
  using assms by (auto simp: publish_def split: option.splits if_splits)

lemma Restore_cases:
  assumes "Restore M C fault archive journal identity genesis checksum fs = (err, fs')"
  obtains "fs' = fs" "err \<noteq> None"
    | img where "restoreImage M C fault archive journal identity genesis checksum fs = Inr img" "fs journal = None"
        "fs' = fs(journal \<mapsto> ownerOnly img)"
proof (cases "restoreImage M C fault archive journal identity genesis checksum fs")
  case (Inl e)
  with assms show thesis by (intro that(1)) (auto simp: Restore_def)
next
  case (Inr img)
  with assms have "publish fault img journal fs = (err, fs')" by (simp add: Restore_def)
  from publish_cases [OF this] that Inr show thesis by blast
qed


section \<open>A backup restores\<close>

text \<open>
  The documented behaviour of the formats: SHA-256 has 32 bytes; JSON reads back what it wrote; a tar
  archive reads back as its entries, each padded to blocks of 512 bytes under a header block, with
  two blocks at the end; bbolt's \<open>WriteTo\<close> writes an image with the contents of the file.
\<close>

definition blocks :: "nat \<Rightarrow> nat" where "blocks n = (n + 511) div 512 * 512"

definition entryOf :: "string \<Rightarrow> bytes \<Rightarrow> tarEntry" where
  "entryOf name body = \<lparr>te_Name = name, te_TypeReg = True, te_Size = int (length body), te_Body = body, te_Err = None\<rparr>"

definition codecOk :: "'r backupCodec \<Rightarrow> bool" where
  "codecOk C \<longleftrightarrow> (\<forall>b. length (bc_sha256 C b) = 32)
     \<and> (\<forall>m bz. bc_marshal C m = Some bz \<longrightarrow> bc_unmarshal C bz = Some m)
     \<and> (\<forall>n a n' b. length a \<le> maxBackupSize \<longrightarrow> length b \<le> maxBackupSize \<longrightarrow> length n \<le> 100 \<longrightarrow> length n' \<le> 100 \<longrightarrow>
          bc_untar C (bc_tar C [(n, a), (n', b)]) = [Inr (entryOf n a), Inr (entryOf n' b)]
          \<and> length (bc_tar C [(n, a), (n', b)]) \<le> 2048 + blocks (length a) + blocks (length b))
     \<and> (\<forall>b d. bc_open C b = Inr d \<longrightarrow> bc_pages C b = None \<longrightarrow>
          bc_open C (bc_writeTo C b) = Inr d \<and> bc_pages C (bc_writeTo C b) = None \<and> bc_writeTo C b \<noteq> [])"


text \<open>What a backup has checked and written.\<close>

lemma backupArchive_Inr:
  assumes "backupArchive M C fault now fs journal = Inr (m, content)"
  obtains f d metadata where "fs journal = Some f" "bc_open C (fl_Content f) = Inr d" "bc_pages C (fl_Content f) = None"
    "checkedDb M d" "sealed (bc_rowJSON C) (bm_Identity m) (bm_GenesisHash m) d"
    "length (bc_writeTo C (fl_Content f)) \<le> maxBackupSize - 4096"
    "m = \<lparr>bm_Version = 1, bm_Identity = bm_Identity m, bm_GenesisHash = bm_GenesisHash m,
        bm_DatabaseHash = hexEncode (bc_sha256 C (bc_writeTo C (fl_Content f))),
        bm_Size = int (length (bc_writeTo C (fl_Content f))), bm_CreatedAt = now\<rparr>"
    "bc_marshal C m = Some metadata" "length metadata \<le> 4096"
    "content = bc_tar C [(''manifest.json'', metadata), (''agent.db'', bc_writeTo C (fl_Content f))]"
proof -
  from assms obtain f d m0 where f: "existingDB C (fault ''stat journal'') (fault ''open journal'') fs journal = Inr (f, d)"
    and m0: "manifestFor M (bc_rowJSON C) (bc_pages C (fl_Content f)) d = Inr m0"
    by (auto simp: backupArchive_def bind_r_Inr_iff)
  from f have fd: "fs journal = Some f" "bc_open C (fl_Content f) = Inr d"
    by (auto simp: existingDB_def existingFile_def bind_r_Inr_iff split: option.splits)
  from m0 have v: "bc_pages C (fl_Content f) = None" "checkedDb M d" "sealed (bc_rowJSON C) (bm_Identity m0) (bm_GenesisHash m0) d"
    "m0 = emptyManifest\<lparr>bm_Identity := bm_Identity m0, bm_GenesisHash := bm_GenesisHash m0\<rparr>"
    by (simp_all add: manifestFor_Inr manifestView_Inr)
  let ?s = "bc_writeTo C (fl_Content f)"
  let ?m = "m0\<lparr>bm_Size := int (length ?s), bm_Version := 1, bm_DatabaseHash := hexEncode (bc_sha256 C ?s), bm_CreatedAt := now\<rparr>"
  from assms f m0 obtain metadata where "length ?s \<le> maxBackupSize - 4096" "m = ?m" "bc_marshal C ?m = Some metadata"
    "length metadata \<le> 4096" "content = bc_tar C [(''manifest.json'', metadata), (''agent.db'', ?s)]"
    by (auto simp: backupArchive_def Let_def not_less split: if_splits option.splits)
  with fd v show thesis by (intro that [of f d metadata]) auto
qed

text \<open>The archive reads back, within the size a restore accepts.\<close>

lemma readArchive_tar:
  assumes "codecOk C" "bc_marshal C m = Some metadata" "length metadata \<le> 4096" "img \<noteq> []"
    "length img \<le> maxBackupSize" "bm_Version m = 1" "bm_Size m = int (length img)" "bm_DatabaseHash m = hexEncode (bc_sha256 C img)"
  shows "readArchive C (\<lambda>_. None) (bm_Identity m) (bm_GenesisHash m) (bc_tar C [(''manifest.json'', metadata), (''agent.db'', img)])
    = Inr (m, img)"
proof -
  have "length metadata \<le> maxBackupSize" using assms(3) by (simp add: maxBackupSize_def)
  with assms(1,5) have t: "bc_untar C (bc_tar C [(''manifest.json'', metadata), (''agent.db'', img)])
      = [Inr (entryOf ''manifest.json'' metadata), Inr (entryOf ''agent.db'' img)]"
    unfolding codecOk_def by simp
  have u: "bc_unmarshal C metadata = Some m" using assms(1,2) unfolding codecOk_def by simp
  show ?thesis using assms(3-) by (simp add: readArchive_def t entryOf_def readLimited_def copyAll_def u)
qed

lemma archive_fits:
  assumes "codecOk C" "length metadata \<le> 2048" "length img \<le> maxBackupSize - 4096"
  shows "length (bc_tar C [(''manifest.json'', metadata), (''agent.db'', img)]) \<le> maxBackupSize"
proof -
  have "length metadata \<le> maxBackupSize" "length img \<le> maxBackupSize" using assms(2,3) by (simp_all add: maxBackupSize_def)
  with assms(1) have "length (bc_tar C [(''manifest.json'', metadata), (''agent.db'', img)])
      \<le> 2048 + blocks (length metadata) + blocks (length img)"
    unfolding codecOk_def by simp
  moreover have "blocks (length metadata) \<le> 2048" using assms(2) by (simp add: blocks_def)
  moreover have "blocks (length img) \<le> maxBackupSize - 4096" using assms(3) by (simp add: blocks_def maxBackupSize_def)
  ultimately show ?thesis by (simp add: maxBackupSize_def)
qed

lemma verifyImage_ok:
  assumes "bc_open C img = Inr d" "bc_pages C img = None" "checkedDb M d" "sealed (bc_rowJSON C) identity genesis d"
    "length img \<le> maxBackupSize"
  shows "verifyImage M C (\<lambda>_. None) identity genesis img = Inr ()"
proof -
  let ?m = "emptyManifest\<lparr>bm_Identity := identity, bm_GenesisHash := genesis\<rparr>"
  have "manifestFor M (bc_rowJSON C) (bc_pages C img) d = Inr ?m"
    using assms(2-4) by (simp add: manifestFor_Inr manifestView_Inr)
  with assms(1,5) show ?thesis by (simp add: verifyImage_def existingFile_def regularFile_def ownerOnly_def)
qed

text \<open>
  C14. A backup restores. When \<open>Backup\<close> succeeds with a manifest of at most 2048 bytes, \<open>Restore\<close>
  of its archive under a new name, with the checksum, identity and genesis it returned and no failing
  system call, succeeds and leaves a private journal with the contents of the one backed up.
\<close>

theorem backup_restores:
  assumes "codecOk C" "Backup M C fault now journal archive fs = (Inr res, fs')"
    and "bc_marshal C (bu_Manifest res) = Some metadata" "length metadata \<le> 2048" "fs' target = None"
  shows "\<exists>f d img. fs journal = Some f \<and> bc_open C (fl_Content f) = Inr d \<and> bc_open C img = Inr d
    \<and> Restore M C (\<lambda>_. None) archive target (bm_Identity (bu_Manifest res)) (bm_GenesisHash (bu_Manifest res)) (bu_SHA256 res) fs'
        = (None, fs'(target \<mapsto> ownerOnly img))"
proof -
  from assms(2) obtain m content where b: "backupArchive M C fault now fs journal = Inr (m, content)"
    "publish fault content archive fs = (None, fs')" "bu_Manifest res = m" "bu_SHA256 res = hexEncode (bc_sha256 C content)"
    by (auto simp: Backup_def split: sum.splits prod.splits option.splits)
  from backupArchive_Inr [OF b(1)] obtain f d md where f: "fs journal = Some f" "bc_open C (fl_Content f) = Inr d"
    "bc_pages C (fl_Content f) = None" "checkedDb M d" "sealed (bc_rowJSON C) (bm_Identity m) (bm_GenesisHash m) d"
    "length (bc_writeTo C (fl_Content f)) \<le> maxBackupSize - 4096"
    and m: "m = \<lparr>bm_Version = 1, bm_Identity = bm_Identity m, bm_GenesisHash = bm_GenesisHash m,
        bm_DatabaseHash = hexEncode (bc_sha256 C (bc_writeTo C (fl_Content f))),
        bm_Size = int (length (bc_writeTo C (fl_Content f))), bm_CreatedAt = now\<rparr>"
    and md: "bc_marshal C m = Some md" "content = bc_tar C [(''manifest.json'', md), (''agent.db'', bc_writeTo C (fl_Content f))]"
    by metis
  let ?img = "bc_writeTo C (fl_Content f)"
  from assms(3,4) b(3) md(1) have len: "length md \<le> 2048" by simp
  have img: "bc_open C ?img = Inr d" "bc_pages C ?img = None" "?img \<noteq> []" "length ?img \<le> maxBackupSize"
    using assms(1) f(2,3,6) unfolding codecOk_def by auto
  have arch: "fs' archive = Some (ownerOnly content)" using publish_cases [OF b(2)] by auto
  have sum: "validDigest (bu_SHA256 res)" "equalFold (bu_SHA256 res) (hexEncode (bc_sha256 C content))"
    using assms(1) by (simp_all add: b(4) validDigest_def equalFold_def codecOk_def)
  have gen: "validDigest (bm_GenesisHash m)" using f(5) by (simp add: sealed_def)
  have "length content \<le> maxBackupSize" using archive_fits [OF assms(1) len f(6)] md(2) by simp
  then have reg: "regularPrivate None fs' archive = None" by (simp add: regularPrivate_def regularFile_def arch ownerOnly_def)
  have "readArchive C (\<lambda>_. None) (bm_Identity m) (bm_GenesisHash m) content = Inr (m, ?img)"
    unfolding md(2) by (rule readArchive_tar [OF assms(1) md(1) _ img(3,4)]) (use len in simp, (subst m, simp)+)
  moreover have "verifyImage M C (\<lambda>_. None) (bm_Identity m) (bm_GenesisHash m) ?img = Inr ()"
    by (rule verifyImage_ok [OF img(1,2) f(4,5) img(4)])
  ultimately have "restoreImage M C (\<lambda>_. None) archive target (bm_Identity m) (bm_GenesisHash m) (bu_SHA256 res) fs' = Inr ?img"
    using assms(5) sum gen reg by (simp add: restoreImage_def arch ownerOnly_def)
  then have "Restore M C (\<lambda>_. None) archive target (bm_Identity m) (bm_GenesisHash m) (bu_SHA256 res) fs'
      = (None, fs'(target \<mapsto> ownerOnly ?img))"
    using assms(5) by (simp add: Restore_def publish_def)
  with f(1,2) img(1) b(3) show ?thesis by blast
qed

section \<open>A small archive format\<close>

text \<open>Lengths of eight bytes each, then the names and the bodies.\<close>

definition demoTar :: "(string \<times> bytes) list \<Rightarrow> bytes" where
  "demoTar es = (case es of
     [(n, a), (n', b)] \<Rightarrow> be_bytes 8 (length n) @ be_bytes 8 (length a) @ be_bytes 8 (length n') @ n @ a @ n' @ b
   | _ \<Rightarrow> [])"

definition demoUntar :: "bytes \<Rightarrow> (aerror + tarEntry) list" where
  "demoUntar bz = (let x = be_val (take 8 bz); y = be_val (take 8 (drop 8 bz)); z = be_val (take 8 (drop 16 bz)); rest = drop 24 bz in
     [Inr (entryOf (take x rest) (take y (drop x rest))),
      Inr (entryOf (take z (drop (x + y) rest)) (drop (x + y + z) rest))])"

lemma be_val_small: "n < 256 ^ 8 \<Longrightarrow> be_val (be_bytes 8 n) = n" by (simp add: be_val_be_bytes)

lemma demoUntar_demoTar:
  assumes "length n < 256 ^ 8" "length a < 256 ^ 8" "length n' < 256 ^ 8"
  shows "demoUntar (demoTar [(n, a), (n', b)]) = [Inr (entryOf n a), Inr (entryOf n' b)]"
  using be_val_small [OF assms(1)] be_val_small [OF assms(2)] be_val_small [OF assms(3)]
  by (simp add: demoUntar_def demoTar_def)

definition demoIdentity :: string where "demoIdentity = ''v1|g503|a1|agent|address''"
definition demoGenesis :: string where "demoGenesis = replicate 64 CHR ''a''"

text \<open>A bound journal with nothing in it yet, and its manifest.\<close>

definition demoBound :: "unit db" where
  "demoBound = (case bind_r (Store_Open Map.empty demoIdentity) (\<lambda>d. BindGenesis d demoGenesis False) of
     Inr d \<Rightarrow> d | Inl _ \<Rightarrow> Map.empty)"

definition demoManifest :: BackupManifest where
  "demoManifest = \<lparr>bm_Version = 1, bm_Identity = demoIdentity, bm_GenesisHash = demoGenesis,
     bm_DatabaseHash = hexEncode (replicate 32 CHR ''h''), bm_Size = 5, bm_CreatedAt = ''now''\<rparr>"

definition demoCodec :: "unit backupCodec" where
  "demoCodec = \<lparr>bc_open = (\<lambda>b. if b = ''image'' then Inr demoBound else Inl (AExternal ''open'')), bc_pages = (\<lambda>_. None),
     bc_writeTo = (\<lambda>_. ''image''), bc_rowJSON = (\<lambda>_. []), bc_sha256 = (\<lambda>_. replicate 32 CHR ''h''),
     bc_marshal = (\<lambda>m. if m = demoManifest then Some ''manifest'' else None), bc_unmarshal = (\<lambda>_. Some demoManifest),
     bc_tar = demoTar, bc_untar = demoUntar\<rparr>"

lemma demoTar_length: "length (demoTar [(n, a), (n', b)]) = 24 + length n + length a + length n' + length b"
  by (simp add: demoTar_def)

lemma blocks_ge: "n \<le> blocks n"
  unfolding blocks_def by linarith

lemma demoCodec_ok: "codecOk demoCodec"
proof -
  have l: "length (demoTar [(n, a), (n', b)]) \<le> 2048 + blocks (length a) + blocks (length b)"
    if "length n \<le> 100" "length n' \<le> 100" for n a n' b
    using that blocks_ge [of "length a"] blocks_ge [of "length b"] by (simp add: demoTar_length)
  show ?thesis unfolding codecOk_def
    by (auto simp: demoCodec_def l maxBackupSize_def intro!: demoUntar_demoTar split: if_splits)
qed

lemma demo_manifest: "manifestView M (\<lambda>_. []) demoBound = Inr (emptyManifest\<lparr>bm_Identity := demoIdentity, bm_GenesisHash := demoGenesis\<rparr>)"
  by code_simp

definition demoKeeper :: "request manager" where
  "demoKeeper = \<lparr>mg_Options = sampleOptions, mg_RetryInterval = 0, marshalInterface = (\<lambda>_. None),
     unmarshalInterface = (\<lambda>_. None), EncodeSignedTx = (\<lambda>_ _. None), txMemo = (\<lambda>_. None), txHashSum = (\<lambda>b. b), sha256Sum = (\<lambda>b. b)\<rparr>"

definition demoFiles :: files where "demoFiles = [''agent.db'' \<mapsto> ownerOnly ''image'']"

definition demoResult :: BackupResult where
  "demoResult = \<lparr>bu_Path = ''a.tar'', bu_SHA256 = hexEncode (replicate 32 CHR ''h''), bu_Manifest = demoManifest\<rparr>"

definition demoArchived :: files where
  "demoArchived = demoFiles(''a.tar'' \<mapsto> ownerOnly (demoTar [(''manifest.json'', ''manifest''), (''agent.db'', ''image'')]))"

lemma demo_backup:
  "Backup demoKeeper demoCodec (\<lambda>_. None) ''now'' ''agent.db'' ''a.tar'' demoFiles = (Inr demoResult, demoArchived)"
proof -
  let ?f = "ownerOnly ''image''"
  have "existingDB demoCodec None None demoFiles ''agent.db'' = Inr (?f, demoBound)"
    by (simp add: existingDB_def existingFile_def regularPrivate_def regularFile_def demoFiles_def ownerOnly_def demoCodec_def maxBackupSize_def)
  moreover have "manifestFor demoKeeper (bc_rowJSON demoCodec) (bc_pages demoCodec (fl_Content ?f)) demoBound
      = Inr (emptyManifest\<lparr>bm_Identity := demoIdentity, bm_GenesisHash := demoGenesis\<rparr>)"
    by (simp add: manifestFor_Inr demoCodec_def demo_manifest)
  ultimately have "backupArchive demoKeeper demoCodec (\<lambda>_. None) ''now'' demoFiles ''agent.db''
      = Inr (demoManifest, demoTar [(''manifest.json'', ''manifest''), (''agent.db'', ''image'')])"
    by (simp add: backupArchive_def demoCodec_def ownerOnly_def maxBackupSize_def demoManifest_def emptyManifest_def)
  then show ?thesis
    by (simp add: Backup_def publish_def demoFiles_def demoArchived_def demoResult_def demoCodec_def)
qed

theorem backup_restores_witness:
  "\<exists>f d img. demoFiles ''agent.db'' = Some f \<and> bc_open demoCodec (fl_Content f) = Inr d \<and> bc_open demoCodec img = Inr d
    \<and> Restore demoKeeper demoCodec (\<lambda>_. None) ''a.tar'' ''new.db'' (bm_Identity (bu_Manifest demoResult))
        (bm_GenesisHash (bu_Manifest demoResult)) (bu_SHA256 demoResult) demoArchived = (None, demoArchived(''new.db'' \<mapsto> ownerOnly img))"
  by (rule backup_restores [OF demoCodec_ok demo_backup, of "''manifest''"])
     (simp_all add: demoCodec_def demoResult_def demoArchived_def demoFiles_def)

text \<open>The same restore, with the conclusions of \<open>restore_verified\<close>.\<close>

lemma demo_restore:
  "Restore demoKeeper demoCodec (\<lambda>_. None) ''a.tar'' ''new.db'' demoIdentity demoGenesis (hexEncode (replicate 32 CHR ''h'')) demoArchived
    = (None, demoArchived(''new.db'' \<mapsto> ownerOnly ''image''))"
proof -
  let ?es = "[(''manifest.json'', ''manifest''), (''agent.db'', ''image'')]"
  have "readArchive demoCodec (\<lambda>_. None) (bm_Identity demoManifest) (bm_GenesisHash demoManifest) (bc_tar demoCodec ?es)
      = Inr (demoManifest, ''image'')"
    by (rule readArchive_tar [OF demoCodec_ok]) (simp_all add: demoCodec_def demoManifest_def maxBackupSize_def)
  then have r: "readArchive demoCodec (\<lambda>_. None) demoIdentity demoGenesis (demoTar ?es) = Inr (demoManifest, ''image'')"
    by (simp add: demoCodec_def demoManifest_def)
  have c: "checkedDb demoKeeper demoBound" "sealed (\<lambda>_. []) demoIdentity demoGenesis demoBound"
    using demo_manifest [of demoKeeper] unfolding manifestView_Inr by simp_all
  have v: "verifyImage demoKeeper demoCodec (\<lambda>_. None) demoIdentity demoGenesis ''image'' = Inr ()"
    by (rule verifyImage_ok [OF _ _ c(1)]) (simp_all add: demoCodec_def maxBackupSize_def c(2))
  have "validDigest (hexEncode (replicate 32 CHR ''h''))" "validDigest demoGenesis"
    by (simp add: validDigest_def, code_simp)
  with r v show ?thesis
    by (simp add: Restore_def restoreImage_def publish_def regularPrivate_def regularFile_def demoArchived_def demoFiles_def ownerOnly_def
        demoTar_length maxBackupSize_def equalFold_def demoCodec_def)
qed

lemma demo_identity: "rowAt demoBound ''meta'' ''identity'' = Some (RawRow demoIdentity)"
  by code_simp


end
