(* ===== verification/BackupLife.thy ===== *)
theory BackupLife
  imports DaemonWrites IntentInv BackupProps DaemonSample
begin

text \<open>
  Every journal an agent leaves can be backed up: what \<open>manifestFor\<close> asks of the rows is an invariant
  of every operation of the transaction manager, of every stage of the daemon, and of every process
  on the journal.
\<close>

section \<open>The intents\<close>

text \<open>The documented contract of the SDK's codec: what it encodes it decodes to the same message.\<close>

definition decodes :: "request manager \<Rightarrow> bool" where
  "decodes M \<longleftrightarrow> (\<forall>m bz. marshalInterface M m = Some bz \<longrightarrow> unmarshalInterface M bz = Some m)"

definition backupIntent :: "request manager \<Rightarrow> Intent \<Rightarrow> bool" where
  "backupIntent M i \<longleftrightarrow> it_ID i = it_Kind i @ ''/'' @ it_CaseID i \<and> it_Kind i \<in> {''open'', ''vote'', ''execute''}
     \<and> validateMessages M i = None \<and> (\<forall>a \<in> set (it_Attempts i). attemptHashed M a)"

lemma validateMessage_cong:
  "it_Kind j = it_Kind i \<Longrightarrow> it_CaseID j = it_CaseID i \<Longrightarrow> validateMessage j msg = validateMessage i msg"
  by (cases msg) (simp_all add: validateMessage_def split: option.split)

lemma validateMessages_cong:
  assumes "it_Kind j = it_Kind i" "it_CaseID j = it_CaseID i" "it_Messages j = it_Messages i"
  shows "validateMessages M j = validateMessages M i"
proof -
  have "messagesLoop M j bs n = messagesLoop M i bs n" for bs n
    by (induction bs arbitrary: n) (simp_all add: validateMessage_cong [OF assms(1,2)] split: option.split)
  then show ?thesis by (simp add: validateMessages_def assms(3))
qed

lemma filedMessages_loop:
  assumes "decodes M" "filedMessages (it_Kind i) (it_CaseID i) msgs" "marshalMessages M msgs = Inr bs"
  shows "bs \<noteq> [] \<and> messagesLoop M i bs 0 = Inr 1 \<and> it_Kind i \<in> {''open'', ''vote'', ''execute''}"
  using assms unfolding filedMessages_def decodes_def
  by (auto simp: marshalMessages_def validateMessage_def bind_r_Inr_iff split: option.splits)

lemma filedMessages_valid:
  assumes "decodes M" "filedMessages (it_Kind i) (it_CaseID i) msgs" "marshalMessages M msgs = Inr encoded" "it_Messages i = encoded"
  shows "validateMessages M i = None \<and> it_Kind i \<in> {''open'', ''vote'', ''execute''}"
  using filedMessages_loop [OF assms(1-3)] by (simp add: validateMessages_def assms(4))

lemma attemptHashed_ext: "list_all2 attemptExt as bs \<Longrightarrow> \<forall>a \<in> set as. attemptHashed M a \<Longrightarrow> \<forall>b \<in> set bs. attemptHashed M b"
  by (induction as bs rule: list_all2_induct) (auto simp: attemptExt_def attemptHashed_def)

interpretation backups: intent_invariant "\<lambda>i. decodes M \<longrightarrow> backupIntent M i" M filedMessages for M :: "request manager"
proof (unfold_locales, goal_cases)
  case (1 i j)
  then show ?case using validateMessages_cong [of j i M] attemptHashed_ext [of "it_Attempts i" "it_Attempts j" M]
    by (simp add: backupIntent_def)
next
  case (2 i a)
  then show ?case using validateMessages_cong [of "i\<lparr>it_Attempts := it_Attempts i @ [a]\<rparr>" i M]
    by (auto simp: backupIntent_def attemptHashed_def equalFold_def)
next
  case (3 i msgs encoded)
  then show ?case using filedMessages_valid [of M "i\<lparr>it_Messages := encoded\<rparr>" msgs] by (simp add: backupIntent_def)
next
  case (4 kind caseID msgs encoded)
  then show ?case using filedMessages_valid [of M "zeroIntent\<lparr>it_ID := kind @ ''/'' @ caseID, it_Kind := kind,
      it_CaseID := caseID, it_Status := ''queued'', it_Messages := encoded\<rparr>" msgs]
    by (simp add: backupIntent_def zeroIntent_def)
qed

lemma backupIntent_open:
  "backupIntent M i \<Longrightarrow> it_ID i = ''open/'' @ c \<Longrightarrow> it_Kind i = ''open'' \<and> it_CaseID i = c"
  by (auto simp: backupIntent_def)

section \<open>The metadata\<close>

definition metaOk :: "'r db \<Rightarrow> bool" where
  "metaOk d \<longleftrightarrow> (\<exists>s. s \<noteq> [] \<and> rowAt d ''meta'' ''identity'' = Some (RawRow s))
     \<and> (\<forall>row. rowAt d ''meta'' ''genesis_hash'' = Some row \<longrightarrow> (\<exists>g. validDigest g \<and> row = StringRow g))
     \<and> (\<forall>row. rowAt d ''meta'' ''cursor'' = Some row \<longrightarrow> (\<exists>n. row = NumberRow n))"

definition wellKept :: "request manager \<Rightarrow> journal \<Rightarrow> bool" where
  "wellKept M d \<longleftrightarrow> goodDb d \<and> metaOk d \<and> (\<forall>k i. intentAt d k = Some i \<longrightarrow> backupIntent M i)"

lemma holds_kept: "decodes M \<Longrightarrow> backups.holds M d \<longleftrightarrow> (\<forall>k i. intentAt d k = Some i \<longrightarrow> backupIntent M i)"
  unfolding backups.holds_def by simp

text \<open>Such a journal passes the check, once it is bound.\<close>

lemma wellKept_checked:
  assumes "wellKept M d"
  shows "checkedDb M d"
proof -
  from assms have g: "indexOk d" "journalOk d" "workTyped d" by (simp_all add: wellKept_def goodDb_def journalOk_def)
  then obtain meta where m: "d ''meta'' = Some meta" "kv_get meta indexVersionKey = Some (RawRow journalIndexVersion)"
    by (auto simp: indexOk_def versionOk_def)
  have "validateIndexes d = Inr ()" using validateIndexes_exact [of d, OF m(1)] m(2) g(1) by simp
  moreover have "d ''work'' \<noteq> None" "d ''intents'' \<noteq> None" using g(1) by (auto simp: indexOk_def bucketOk_def)
  moreover have "intentRowOk M k row" if row: "rowAt d ''intents'' k = Some row" for k row
  proof -
    from g(2) row obtain i where i: "row = IntentRow i" "it_ID i = k" "statusOk i" by (auto simp: journalOk_def)
    with row have "intentAt d k = Some i" by (simp add: intentAt_def)
    with assms have "backupIntent M i" by (auto simp: wellKept_def)
    with i show ?thesis
      by (auto simp: intentRowOk_row checkIntent_def backupIntent_def statusOk_def final_def Terminal_def)
  qed
  moreover have "workRowOk k row" if row: "rowAt d ''work'' k = Some row" for k row
  proof -
    from g(3) row obtain w where w: "row = WorkRow w" "workOk w" "k = autoCaseID (wk_Hash w)" by (auto simp: workTyped_def)
    from w(2) obtain b n where b: "hexDecode (wk_Hash w) = Some b" "length (wk_Hash w) = 64" "wk_CaseID w = roundID (wk_Hash w) n"
      by (auto simp: workOk_def caseHash_def)
    with length_hexDecode [OF b(1)] have "validDigest (wk_Hash w)" by (simp add: validDigest_def)
    moreover have "wk_CaseID w = k \<or> hasPrefix (wk_CaseID w) (k @ ''-r'')"
      using hasPrefix_append [of "k @ ''-r''" "formatUint n"] by (simp add: b(3) w(3) roundID_def)
    ultimately show ?thesis using w by (auto simp: workRowOk_row checkWork_def)
  qed
  ultimately show ?thesis using m(1) by (simp add: checkedDb_def)
qed

section \<open>The agent keeps it\<close>

definition stays :: "request manager \<Rightarrow> agentState \<Rightarrow> agentState \<Rightarrow> bool" where
  "stays M st st' \<longleftrightarrow> (decodes M \<longrightarrow> wellKept M (ms_db st) \<longrightarrow> wellKept M (ms_db st'))"

lemma wellKept_good: "wellKept M (ms_db st) \<Longrightarrow> good st \<and> journalOk (ms_db st)"
  by (simp add: wellKept_def goodDb_def good_def)

lemma metaOk_cong: "(\<And>k. rowAt d' ''meta'' k = rowAt d ''meta'' k) \<Longrightarrow> metaOk d' = metaOk d"
  by (simp add: metaOk_def)

text \<open>A calm operation of the manager that keeps the intents' invariant.\<close>

lemma stays_calm:
  assumes "calm st st'" "\<lbrakk>decodes M; wellKept M (ms_db st); backups.holds M (ms_db st)\<rbrakk> \<Longrightarrow> backups.holds M (ms_db st')"
  shows "stays M st st'"
  unfolding stays_def
proof (intro impI)
  assume d: "decodes M" "wellKept M (ms_db st)"
  then have g: "good st" by (simp add: wellKept_good)
  from assms(1) g have "good st'" "\<And>k. rowAt (ms_db st') ''meta'' k = rowAt (ms_db st) ''meta'' k" by (simp_all add: calm_def)
  moreover have "\<forall>k i. intentAt (ms_db st') k = Some i \<longrightarrow> backupIntent M i"
    using assms(2) [OF d] d(2) holds_kept [OF d(1)] unfolding wellKept_def by blast
  ultimately show "wellKept M (ms_db st')" using d metaOk_cong [of "ms_db st'" "ms_db st"]
    by (simp add: wellKept_def good_goodDb)
qed

lemma stays_putWork:
  assumes "workOk w"
  shows "stays M st (snd (putWork (wk_Hash w) w st))"
proof (rule stays_calm [OF putWork_calm [OF assms]])
  assume "wellKept M (ms_db st)" "backups.holds M (ms_db st)"
  then show "backups.holds M (ms_db (snd (putWork (wk_Hash w) w st)))"
    using putWork_intents [of st "wk_Hash w" w] by (simp add: wellKept_good intentsKept_def backups.holds_def)
qed

lemma stays_putCursor: "stays M st (snd (putCursor h st))"
proof (cases "fst (putCursor h st)")
  case None
  then obtain st' where p: "putCursor h st = (None, st')" by (metis prod.collapse)
  then obtain d where d: "Store_Put (ms_db st) ''meta'' ''cursor'' (NumberRow h) = Inr d" "st' = st\<lparr>ms_db := d\<rparr>"
    by (auto simp: putCursor_def split: sum.splits)
  obtain b where b: "ms_db st ''meta'' = Some b" "d = (ms_db st)(''meta'' \<mapsto> kv_set ''cursor'' (NumberRow h) b)"
    using d(1) by (rule Store_Put_meta) (simp add: primaryName_def)
  have "metaOk (ms_db st) \<Longrightarrow> metaOk d" by (auto simp: metaOk_def rowAt_def b store_simps)
  with putCursor_keeps [OF p] show ?thesis by (auto simp: stays_def p wellKept_def good_goodDb d(2))
next
  case (Some e)
  then have "snd (putCursor h st) = st" by (auto simp: putCursor_def split: sum.splits)
  then show ?thesis by (simp add: stays_def)
qed

lemma backupIntent_options [simp]:
  "backupIntent (M\<lparr>mg_Options := x\<rparr>) = backupIntent M" "decodes (M\<lparr>mg_Options := x\<rparr>) = decodes M"
proof -
  have l: "messagesLoop (M\<lparr>mg_Options := x\<rparr>) i bs n = messagesLoop M i bs n" for i bs n
    by (induction bs arbitrary: n) (simp_all split: option.split)
  show "backupIntent (M\<lparr>mg_Options := x\<rparr>) = backupIntent M"
    by (rule ext) (simp add: backupIntent_def validateMessages_def l attemptHashed_def)
  show "decodes (M\<lparr>mg_Options := x\<rparr>) = decodes M" by (simp add: decodes_def)
qed

text \<open>The retry writes the control messages of the intent it was asked for.\<close>

lemma getCase_id: "getCase io ident height = Inr (Some c) \<Longrightarrow> sc_CaseId c = ident"
  by (auto simp: getCase_def bind_r_Inr_iff dest: find_SomeD split: if_splits)

lemma retryInputs_case:
  assumes "retryInputs D io d i height = Inr (c, w, params)"
  shows "wk_CaseID w = it_CaseID i \<and> (\<forall>c'. c = Some c' \<longrightarrow> sc_CaseId c' = it_CaseID i)"
  using assms by (auto simp: retryInputs_def bind_r_Inr_iff getCase_id split: option.splits)

lemma evaluateWork_case: "evaluateWork D io w height params st = (Inr w', st') \<Longrightarrow> wk_CaseID w' = wk_CaseID w"
  by (auto simp: evaluateWork_def Let_def split: if_splits sum.splits prod.splits option.splits)

lemma retryMessages_control:
  assumes "retryMessages D i c w height = Inr msgs" "wk_CaseID w = it_CaseID i" "\<And>c'. c = Some c' \<Longrightarrow> sc_CaseId c' = it_CaseID i"
  shows "filedMessages (it_Kind i) (it_CaseID i) msgs"
proof (cases "it_Kind i = ''open''")
  case True
  with assms(1,2) openMessages_control [of D w msgs] show ?thesis by (simp add: retryMessages_def)
next
  case False
  then obtain c' where c: "c = Some c'" using assms(1)
    by (auto simp: retryMessages_def bind_r_Inr_iff split: option.splits if_splits)
  from assms(3) [OF c] False assms(1) show ?thesis
    by (auto simp: retryMessages_def bind_r_Inr_iff c filedMessages_def dest!: reviewVote_control split: option.splits if_splits)
qed

lemma putWork_intentAt: "intentAt (ms_db (snd (putWork hash w st))) k = intentAt (ms_db st) k"
  by (auto simp: putWork_def intentAt_def Store_Put_work(2) split: sum.split)

lemma prepareRetry_kept:
  assumes "backups.holds M (ms_db st)"
  shows "backups.prepares M (prepareRetry D io height) st i"
proof (cases "retryInputs D io (ms_db st) i height")
  case (Inl e)
  with assms show ?thesis by (simp add: backups.prepares_def prepareRetry_def)
next
  case (Inr x)
  obtain c w params where x: "x = (c, w, params)" by (metis prod.collapse)
  note c = retryInputs_case [OF Inr [unfolded x]]
  obtain r st' where e: "evaluateWork D io w height params st = (r, st')" by fastforce
  have "intentAt (ms_db st') k = intentAt (ms_db st) k" for k
    using evaluateWork_put [OF e] putWork_intentAt by auto
  with assms have h: "backups.holds M (ms_db st')" by (simp add: backups.holds_def)
  show ?thesis
  proof (cases r)
    case (Inl y)
    with h Inr x e show ?thesis by (simp add: backups.prepares_def prepareRetry_def)
  next
    case r: (Inr w')
    have "filedMessages (it_Kind i) (it_CaseID i) msgs" if "retryMessages D i c w' height = Inr msgs" for msgs
      by (rule retryMessages_control [OF that]) (use c evaluateWork_case [OF e [unfolded r]] in simp_all)
    with h Inr x e r show ?thesis by (simp add: backups.prepares_def prepareRetry_def)
  qed
qed

text \<open>The whole agent is made of writes that keep the journal fit for a backup.\<close>

lemma open_filed:
  assumes "decodes M" "decodes M \<longrightarrow> backupIntent M i" "it_ID i = ''open/'' @ caseID" "filedMessages ''open'' caseID msgs"
  shows "filedMessages (it_Kind i) (it_CaseID i) msgs"
  using backupIntent_open [of M i caseID] assms by simp

lemma stays_RefreshQueued:
  assumes "filedMessages ''open'' caseID msgs"
  shows "stays M st (snd (RefreshQueued M (''open/'' @ caseID) height msgs st))"
  by (rule stays_calm [OF RefreshQueued_calm], rule backups.holds_RefreshQueued)
     (use wellKept_good open_filed [OF _ _ _ assms] in blast)+

lemma stays_Recover:
  assumes "filedMessages ''open'' caseID msgs"
  shows "stays M st (snd (Recover M io (''open/'' @ caseID) height reason (\<lambda>_ s. (Inr msgs, s)) q st))"
proof (rule stays_calm [OF Recover_calm], rule backups.holds_Recover)
  fix i and s :: agentState
  assume "decodes M" "decodes M \<longrightarrow> backupIntent M i" "it_ID i = ''open/'' @ caseID" "backups.holds M (ms_db s)"
  with open_filed [OF _ _ _ assms] show "backups.prepares M (\<lambda>_ s. (Inr msgs, s)) s i"
    unfolding backups.prepares_def by auto
qed (use wellKept_good in blast)+

lemma stays_recoverFailed: "stays (da_manager D) st (snd (recoverFailed D io owner ident height reason st))"
  by (rule stays_calm [OF recoverFailed_calm], unfold recoverFailed_def, rule backups.holds_Recover)
     (use wellKept_good prepareRetry_kept in blast)+

lemma stays_Step:
  assumes "good st"
  shows "stays M st (snd (Step M io height st))"
  unfolding stays_def
proof (intro impI)
  assume d: "decodes M" "wellKept M (ms_db st)"
  obtain r st' where s: "Step M io height st = (r, st')" by fastforce
  have "good st'" using Step_history [OF assms s] by (simp add: history_def)
  moreover have "filing io st st'" using filing.R_Step [of io st M height] s by simp
  then have "rowAt (ms_db st') ''meta'' k = rowAt (ms_db st) ''meta'' k" for k
    using assms by (simp add: filing_def filed_def good_def journalOk_def)
  moreover have "\<forall>k i. intentAt (ms_db st') k = Some i \<longrightarrow> backupIntent M i"
    using backups.holds_Step [OF good_journal [OF assms], of M io height] holds_kept [OF d(1)] d(2) s unfolding wellKept_def by force
  ultimately show "wellKept M (ms_db (snd (Step M io height st)))"
    using d metaOk_cong [of "ms_db st'" "ms_db st"] by (simp add: wellKept_def good_goodDb s)
qed

interpretation keeping: daemon_runs "stays (da_manager D)" D for D :: "'b daemon"
proof (unfold_locales, goal_cases)
  case (4 kind caseID msgs st)
  show ?case by (rule stays_calm [OF Enqueue_calm], rule backups.holds_Enqueue [OF 4])
qed ((rule stays_putWork stays_RefreshQueued stays_Recover stays_putCursor stays_Step stays_recoverFailed; assumption)
  | simp add: stays_def)+

section \<open>Over the agent's life\<close>

lemma wellKept_cong:
  assumes "goodDb d'" "\<And>k. intentAt d' k = intentAt d k" "metaOk d'" "wellKept M d"
  shows "wellKept M d'"
  using assms by (simp add: wellKept_def)

lemma metaOk_put:
  assumes "d ''meta'' = Some b" "metaOk d"
  shows "v \<noteq> [] \<Longrightarrow> metaOk (d(''meta'' \<mapsto> kv_set ''identity'' (RawRow v) b))"
    "validDigest g \<Longrightarrow> metaOk (d(''meta'' \<mapsto> kv_set ''genesis_hash'' (StringRow g) b))"
  using assms by (auto simp: metaOk_def rowAt_def store_simps)

lemma BindGenesis_kept:
  assumes "BindGenesis d hash legacyOk = Inr d'" "wellKept M d"
  shows "wellKept M d'"
proof -
  have g: "goodDb d" using assms(2) by (simp add: wellKept_def)
  obtain b where b: "d ''meta'' = Some b" using g by (auto simp: goodDb_def journalOk_def indexOk_def versionOk_def)
  with assms(1) consider "d' = d" | "d' = d(''meta'' \<mapsto> kv_set ''genesis_hash'' (StringRow hash) b)" "validDigest hash"
    by (auto simp: BindGenesis_def bind_r_Inr_iff split: if_splits option.splits)
  then show ?thesis
  proof cases
    case 2
    show ?thesis
    proof (rule wellKept_cong [OF _ _ _ assms(2)])
      show "goodDb d'" using BindGenesis_good [OF assms(1) g] by simp
      show "metaOk d'" using metaOk_put(2) [of d, OF b _ 2(2)] assms(2) by (simp add: 2(1) wellKept_def)
      show "intentAt d' k = intentAt d k" for k by (simp add: 2(1) intentAt_def rowAt_def)
    qed
  qed (use assms(2) in simp)
qed

text \<open>Opening writes the identity, which is never empty.\<close>

lemma Store_Open_kept:
  assumes "Store_Open d identity = Inr d'" "wellKept M d" "identity \<noteq> []"
  shows "wellKept M d'"
proof -
  have g: "goodDb d" using assms(2) by (simp add: wellKept_def)
  obtain b where b: "d ''meta'' = Some b" using g by (auto simp: goodDb_def journalOk_def indexOk_def versionOk_def)
  let ?d = "d(''meta'' \<mapsto> kv_set ''identity'' (RawRow identity) b)"
  from assms(1) b ensured [OF g] have m: "migrateIndexes ?d = Inr d'"
    by (simp add: Store_Open_def Let_def split: if_splits)
  have "goodDb ?d" using goodDb_meta [OF g b, of "kv_set ''identity'' (RawRow identity) b"] by (simp add: store_simps indexVersionKey_def)
  then have "migrateIndexes ?d = Inr ?d"
    by (auto simp: migrateIndexes_def goodDb_def journalOk_def indexOk_def versionOk_def bucketOk_def)
  with m have d': "d' = ?d" by simp
  show ?thesis
  proof (rule wellKept_cong [OF _ _ _ assms(2)])
    show "goodDb d'" using d' \<open>goodDb ?d\<close> by simp
    show "metaOk d'" unfolding d' using metaOk_put(1) [of d, OF b _ assms(3)] assms(2) by (simp add: wellKept_def)
    show "intentAt d' k = intentAt d k" for k by (simp add: d' intentAt_def rowAt_def)
  qed
qed

lemma Store_Open_new_kept:
  assumes "Store_Open Map.empty identity = Inr d'" "identity \<noteq> []"
  shows "wellKept M d'"
proof -
  obtain d :: journal where "Store_Open Map.empty identity = Inr d" "\<forall>k. intentAt d k = None"
    using Store_Open_fresh [of identity] by blast
  with assms(1) have "intentAt d' k = None" for k by simp
  moreover have "metaOk d'" using assms
    by (auto simp: Store_Open_def migrateIndexes_def ensureBucket_def Let_def store_simps metaOk_def rowAt_def indexVersionKey_def)
  ultimately show ?thesis using Store_Open_new [OF assms(1)] by (simp add: wellKept_def)
qed

lemma startDaemon_kept:
  assumes "wellKept M d" "decodes M" "agentHashes A"
  shows "startDaemon A M opts s startHeight io d = Inl (e, d') \<Longrightarrow> wellKept M d'"
    and "startDaemon A M opts s startHeight io d = Inr (D, owner, err, st) \<Longrightarrow>
      wellKept M (ms_db st) \<and> da_agent D = A \<and> (\<exists>x. da_manager D = M\<lparr>mg_Options := x\<rparr>)"
proof -
  have b: "wellKept M d1" if "BindGenesis d h l = Inr d1" for h l d1
    using BindGenesis_kept [OF that assms(1)] .
  show "wellKept M d'" if "startDaemon A M opts s startHeight io d = Inl (e, d')"
    using that b assms(1)
    by (auto simp: startDaemon_def Let_def split: sum.splits option.splits prod.splits if_splits)
  assume "startDaemon A M opts s startHeight io d = Inr (D, owner, err, st)"
  then obtain d1 io' height x where d1: "BindGenesis d (su_genesis io) (op_genesisBinding opts \<noteq> []) = Inr d1"
    and a: "da_agent D = A" "da_manager D = M\<lparr>mg_Options := x\<rparr>"
    and st: "startWork D io' owner height startHeight \<lparr>ms_db = d1, ms_sent = [], ms_events = []\<rparr> = (err, st)"
    by (auto simp: startDaemon_def Let_def split: sum.splits option.splits prod.splits)
  note k = b [OF d1]
  have "good \<lparr>ms_db = d1, ms_sent = [], ms_events = []\<rparr>" using k by (simp add: wellKept_def good_goodDb)
  from keeping.R_startWork [OF st this] k assms(2) have "wellKept M (ms_db st)"
    by (simp add: stays_def a wellKept_def)
  with a show "wellKept M (ms_db st) \<and> da_agent D = A \<and> (\<exists>x. da_manager D = M\<lparr>mg_Options := x\<rparr>)" by blast
qed

lemma runOpened_kept:
  assumes "runOpened A M run s d = (err, d', sent)" "wellKept M d" "decodes M" "agentHashes A"
  shows "wellKept M d'"
proof (cases "is_ok (startPolicy (ru_opts run) (ru_policy run) d) \<and> ru_status run = None")
  case False
  with assms(1,2) show ?thesis by (auto simp: runOpened_def is_ok_iff split: sum.splits option.splits)
next
  case True
  then obtain policy where p: "startPolicy (ru_opts run) (ru_policy run) d = Inr policy" "ru_status run = None"
    by (auto simp: is_ok_iff)
  note sd = startDaemon_kept [where opts = "ru_opts run" and s = s and startHeight = "ru_startHeight run" and io = "ru_start run",
      OF assms(2-4)]
  show ?thesis
  proof (cases "startDaemon A M (ru_opts run) s (ru_startHeight run) (ru_start run) d")
    case (Inl x)
    obtain e d2 where x: "x = (e, d2)" by fastforce
    from sd(1) [OF Inl [unfolded x]] assms(1) p Inl x show ?thesis by (simp add: runOpened_def)
  next
    case (Inr x)
    obtain D owner e st where x: "x = (D, owner, e, st)" by (metis prod.collapse)
    from sd(2) [OF Inr [unfolded x]] obtain o' where st: "wellKept M (ms_db st)" "da_agent D = A" "da_manager D = M\<lparr>mg_Options := o'\<rparr>"
      by blast
    show ?thesis
    proof (cases e)
      case (Some e1)
      with assms(1) p Inr x st show ?thesis by (simp add: runOpened_def)
    next
      case None
      obtain r owner' st' where l: "daemonLoop D (ru_ticks run) (owner, st) = (r, owner', st')" by (metis prod.collapse)
      have "hashes32 D" using assms(4) st(2) by (simp add: hashes32_def agentHashes_def)
      from keeping.R_daemonLoop [OF l this] st assms(3) have "wellKept M (ms_db st')"
        by (simp add: stays_def wellKept_good) (simp add: wellKept_def)
      with assms(1) p Inr x None l show ?thesis by (simp add: runOpened_def)
    qed
  qed
qed

lemma journalIdentity_not_Nil: "journalIdentity opts s \<noteq> []" by (simp add: journalIdentity_def)

lemma runDaemon_kept:
  assumes "runDaemon A M run d0 = (err, d', sent)" "d0 = Map.empty \<or> wellKept M d0" "decodes M" "agentHashes A"
  shows "d' = Map.empty \<or> wellKept M d'"
  using assms(1)
proof (cases rule: runDaemon_cases)
  case (2 s d)
  have "wellKept M d"
    using assms(2) Store_Open_new_kept Store_Open_kept 2(1) journalIdentity_not_Nil by metis
  from runOpened_kept [OF 2(2) this assms(3,4)] show ?thesis ..
qed (use assms(2) in simp)

lemma agentLife_kept:
  assumes "agentLife A M runs d0 = (d, sent)" "d0 = Map.empty \<or> wellKept M d0" "decodes M" "agentHashes A"
  shows "d = Map.empty \<or> wellKept M d"
  using assms(1,2)
proof (induction runs arbitrary: d0 sent)
  case (Cons run runs)
  obtain err d1 sent1 where r: "runDaemon A M run d0 = (err, d1, sent1)" by (metis prod.collapse)
  obtain sent2 where l: "agentLife A M runs d1 = (d, sent2)" using Cons.prems(1) r by (auto split: prod.splits)
  from Cons.IH [OF l runDaemon_kept [OF r Cons.prems(2) assms(3,4)]] show ?case .
qed simp

section \<open>Property\<close>

text \<open>
  C13. Every journal can be backed up. Whatever processes have run on a journal since it was created,
  with whatever answers, errors and stops, the journal is empty or passes every check of
  \<open>manifestFor\<close> as soon as it is bound to a genesis, under the identity and genesis it is bound to:
  every row, message and signature the agent ever stores is one that a backup accepts.
\<close>

theorem agent_journal_backs_up:
  assumes "agentLife A M runs Map.empty = (d, sent)" "decodes M" "agentHashes A"
    and "rowAt d ''meta'' ''genesis_hash'' \<noteq> None"
  shows "\<exists>m. manifestFor M rowJSON None d = Inr m \<and> rowAt d ''meta'' ''identity'' = Some (RawRow (bm_Identity m))
    \<and> rowAt d ''meta'' ''genesis_hash'' = Some (StringRow (bm_GenesisHash m))"
proof -
  have k: "wellKept M d" using agentLife_kept [OF assms(1) _ assms(2,3)] assms(4) by auto
  then obtain s g where sg: "s \<noteq> []" "rowAt d ''meta'' ''identity'' = Some (RawRow s)" "validDigest g"
    "rowAt d ''meta'' ''genesis_hash'' = Some (StringRow g)"
    using assms(4) unfolding wellKept_def metaOk_def by blast
  have "\<And>row. rowAt d ''meta'' ''cursor'' = Some row \<Longrightarrow> \<exists>n. row = NumberRow n" using k by (simp add: wellKept_def metaOk_def)
  with sg have "sealed rowJSON s g d" by (simp add: sealed_def)
  with wellKept_checked [OF k] have "manifestView M rowJSON d = Inr (emptyManifest\<lparr>bm_Identity := s, bm_GenesisHash := g\<rparr>)"
    by (simp add: manifestView_Inr)
  with sg show ?thesis by (simp add: manifestFor_Inr)
qed

section \<open>A concrete life\<close>

text \<open>A codec of one message, faithful on it.\<close>

definition demoVoteMsg :: request where
  "demoVoteMsg = ReqSubmitSanctionVote \<lparr>vm_Submitter = ''agent'', vm_Vote = Some sampleVote\<rparr>"

definition demoFaithful :: "request manager" where
  "demoFaithful = demoManager\<lparr>marshalInterface := (\<lambda>m. if m = demoVoteMsg then Some ''vote'' else None),
     unmarshalInterface := (\<lambda>bz. if bz = ''vote'' then Some demoVoteMsg else None)\<rparr>"

lemma demoFaithful_decodes: "decodes demoFaithful" by (simp add: decodes_def demoFaithful_def)

definition demoStarted :: runIO where "demoStarted = demoRun\<lparr>ru_ticks := []\<rparr>"

lemma demo_checks: "startChecks demoAgent demoOptions ''/state'' = Inr demoSigner" by code_simp

lemma demo_opened: "\<exists>d d'. Store_Open Map.empty (journalIdentity demoOptions demoSigner) = Inr (d :: journal)
    \<and> BindGenesis d (replicate 64 CHR ''a'') False = Inr d' \<and> is_ok (startPolicy demoOptions (ru_policy demoRun) d)"
proof -
  have "is_ok (bind_r (Store_Open (Map.empty :: journal) (journalIdentity demoOptions demoSigner)) (\<lambda>d.
      bind_r (startPolicy demoOptions (ru_policy demoRun) d) (\<lambda>_. BindGenesis d (replicate 64 CHR ''a'') False)))"
    by code_simp
  then show ?thesis by (auto simp: is_ok_iff bind_r_Inr_iff)
qed

lemma demo_acquires: "\<exists>owner runs. Acquire (Some ''01'') [readAt 10 None] sampleClaim \<lparr>se_Address = ''agent'', se_Options = daemonOptions demoOptions [],
     se_TTL = 24, se_Lease = None, se_holder = []\<rparr> = (Some (None, owner), runs)"
proof -
  have "(case Acquire (Some ''01'') [readAt 10 None] sampleClaim \<lparr>se_Address = ''agent'', se_Options = daemonOptions demoOptions [],
     se_TTL = 24, se_Lease = None, se_holder = []\<rparr> of (Some (None, owner), runs) \<Rightarrow> True | _ \<Rightarrow> False)" by code_simp
  then show ?thesis by (auto split: prod.splits option.splits)
qed

lemma BindGenesis_row: "BindGenesis d hash l = Inr d' \<Longrightarrow> rowAt d' ''meta'' ''genesis_hash'' \<noteq> None"
  by (auto simp: BindGenesis_def bind_r_Inr_iff rowAt_def store_simps split: if_splits option.splits)

lemma putCursor_genesis: "rowAt (ms_db (snd (putCursor h st))) ''meta'' ''genesis_hash'' = rowAt (ms_db st) ''meta'' ''genesis_hash''"
proof (cases "Store_Put (ms_db st) ''meta'' ''cursor'' (NumberRow h)")
  case (Inr d)
  obtain b where "ms_db st ''meta'' = Some b" "d = (ms_db st)(''meta'' \<mapsto> kv_set ''cursor'' (NumberRow h) b)"
    using Inr by (rule Store_Put_meta) (simp add: primaryName_def)
  then show ?thesis by (simp add: putCursor_def Inr rowAt_def store_simps)
qed (simp add: putCursor_def)

lemma demo_bound: "rowAt (fst (agentLife demoAgent demoFaithful [demoStarted] Map.empty)) ''meta'' ''genesis_hash'' \<noteq> None"
proof -
  obtain d d' policy where o: "Store_Open Map.empty (journalIdentity demoOptions demoSigner) = Inr (d :: journal)"
    "BindGenesis d (replicate 64 CHR ''a'') False = Inr d'" "startPolicy demoOptions (ru_policy demoRun) d = Inr policy"
    using demo_opened by (auto simp: is_ok_iff)
  obtain owner runs where a: "Acquire (Some ''01'') [readAt 10 None] sampleClaim \<lparr>se_Address = ''agent'',
     se_Options = daemonOptions demoOptions [], se_TTL = 24, se_Lease = None, se_holder = []\<rparr> = (Some (None, owner), runs)"
    using demo_acquires by blast
  let ?st = "\<lparr>ms_db = d', ms_sent = [], ms_events = []\<rparr> :: agentState"
  have c: "rowAt (ms_db (snd (startCursor 0 10 ?st))) ''meta'' ''genesis_hash'' \<noteq> None"
    using BindGenesis_row [OF o(2)] putCursor_genesis [of 10 ?st] by (auto simp: startCursor_def split: sum.split option.split)
  have f: "ru_opts demoStarted = demoOptions" "ru_stateDir demoStarted = ''/state''" "ru_policy demoStarted = ru_policy demoRun"
    "ru_status demoStarted = None" "ru_startHeight demoStarted = 0" "ru_ticks demoStarted = []"
    "su_genesis (ru_start demoStarted) = replicate 64 CHR ''a''" "su_random (ru_start demoStarted) = Some ''01''"
    "su_polls (ru_start demoStarted) = [readAt 10 None]" "su_claim (ru_start demoStarted) = sampleClaim"
    "su_status (ru_start demoStarted) = Inr (statusAt 10)"
    by (simp_all add: demoStarted_def demoRun_def)
  have g: "op_genesisBinding demoOptions = []" "op_retryIntent demoOptions = []" "ae_parseCoins demoAgent x = Some []"
    "sg_Address demoSigner = ''agent''" "op_leaseTTL demoOptions = 24" "ss_Height (statusAt 10) = 10" for x
    by (simp_all add: demoOptions_def demoAgent_def demoSigner_def statusAt_def)
  obtain e st1 where s: "startCursor 0 10 ?st = (e, st1)" by fastforce
  with c have "rowAt (ms_db st1) ''meta'' ''genesis_hash'' \<noteq> None" by simp
  then show ?thesis
    by (cases e) (simp_all add: runDaemon_def runOpened_def startDaemon_def startWork_def startRetry_def Let_def f g demo_checks o a s)
qed

theorem agent_journal_backs_up_witness:
  "\<exists>d m. fst (agentLife demoAgent demoFaithful [demoStarted] Map.empty) = d \<and> manifestFor demoFaithful (\<lambda>_. []) None d = Inr m
    \<and> rowAt d ''meta'' ''identity'' = Some (RawRow (bm_Identity m))"
  using agent_journal_backs_up [OF prod.collapse [symmetric] demoFaithful_decodes demo_hashes(1) demo_bound, of "\<lambda>_. []"]
  by blast

end
