(* ===== verification/Spec2Isabelle.thy ===== *)
theory Spec2Isabelle
  imports ChainProps CoreProps Lease Proposal Genesis RecordProps GuardProps VoteProps
    TxProps RpcProps Ownership LabProps Tools AgentMain AgentApi QueryServer DaemonProps BackupLife
begin

text \<open>
  G503: verification of the sanction chain and its signing agents.

  \<^bold>\<open>The program.\<close> G503 is a Cosmos SDK chain with one module of its own, x/sanction, and a set of
  off-chain agents in dev/agent. Agents screen transfers, sign risk reports, open sanction cases,
  vote on them and execute the approved ones; the chain checks every one of these messages, keeps a
  sanctioned transaction out of blocks, freezes addresses and moves escrowed or reverted funds. An
  agent is a long-running process with a journal on disk; what it must never do is forget or repeat
  what it signed.

  \<^bold>\<open>How the parts meet.\<close> A message handler runs on the module's store (KVStore, Keys, Store) and is
  one request of the state machine (Chain.deliver). The agent's daemon (Daemon, DaemonTick,
  DaemonStart) reads the chain through the RPC client and its guarded pool (ChainClient, RpcPool),
  claims the signing lease whose memo the chain's ante check demands (Ownership on the agent's side,
  Lease on the chain's), reviews a transfer (Evaluation, with the clients of Clients, the reviewer
  of AgentApi, the policy of Policy and the signatures of Signer and Signature), and hands messages
  to the transaction manager (TxManager), which keeps them in the journal (Journal, Rows). The
  messages an agent signs are the values the chain's handlers take (\<open>Chain.request\<close>), and both sides
  share the payloads and the policy, so that properties can cross from one to the other.

  \<^bold>\<open>Theories and sources: the chain.\<close> Types: x/sanction/types (types.pb.go, genesis.pb.go, tx.pb.go
  as records and datatypes, errors.go). Keys: types/keys.go, keeper/keys.go. KVStore, Store:
  keeper/keeper.go, store.go, lease.go, transfers.go; the store is a finite map from keys to values,
  an association list in key order, under the locale \<open>ordered_store\<close>, and each table of it under
  \<open>typed_table\<close> (StoreSpec). Validate: types/genesis.go, voting_snapshot.go. Policy:
  keeper/policy.go and the agents' own copy. Signature: keeper/signature.go. Voting:
  keeper/voting_snapshot.go and the tally of msg_server.go. Execution: keeper/transfers.go,
  execution.go. Lease: keeper/lease.go. Recovery: keeper/recovery.go. MsgServer:
  keeper/msg_server.go, all nine handlers, each with the world it leaves on every path.
  ValidatorSync: keeper/validator_sync.go and the end-of-block sync of app/app.go. Proposal:
  keeper/proposal.go, proposal_abci.go. Genesis: keeper/genesis.go. QueryServer:
  keeper/query_server.go. Chain: one step per request, in the order app/app.go wires them.

  \<^bold>\<open>Theories and sources: the agent.\<close> All paths are below dev/agent. Rows, Journal:
  internal/txmanager/store.go, index.go. TxManager: manager.go, recovery.go. JournalBackup:
  backup.go. ChainClient, RpcPool: internal/chainclient. RpcGuard: internal/rpcguard/guard.go.
  Tools: its opening, cmd/g503-send, g503-validator, g503-ops. Ownership:
  internal/ownership/session.go. Controller: internal/controller/journal.go. Lab, Workflow:
  internal/multihost/lab.go and workflow.go, cmd/g503-multihost. Clients: internal/riskclient,
  agentapi, llmclient, agentconfig. Signer: internal/signer, internal/watcher/decoder.go.
  Evaluation: cmd/sanction-agent/main.go and internal/watcher/watcher.go; AgentMain: the \<open>main\<close> of
  that file, its options and modes. CaseIds, Daemon, DaemonTick, DaemonStart:
  cmd/sanction-agent/daemon.go, daemon_recovery.go. AgentApi: dev/mock/agent-api, risk-service and
  llm-service.

  \<^bold>\<open>State and effects.\<close> A Go struct is a record with its fields, an enum or a oneof a datatype. A
  function that returns an error returns a sum, \<open>Inl\<close> the error; one that also writes returns the
  state it leaves, so that writes made before an error are seen. A nil dereference or an index out
  of range is a value (\<open>APanic\<close>, or \<open>None\<close> in Genesis). Heights, powers and sequences are 64-bit
  words and wrap; voting power is summed without bound, as \<open>big.Int\<close> does. Strings are byte strings.
  A Go map read in key order is a finite map. Loops are recursions over lists or, where a loop
  follows data, functions with a measure (\<open>followRounds\<close>, \<open>trimLeftSpace\<close>). A polling loop takes the
  list of what it observes; a loop that uses up its list is still waiting, the value \<open>None\<close>, and the
  loops stop by themselves at the deadlines the code sets, so no fuel is chosen anywhere. One scan
  of the daemon covers at most 25 blocks, as in the code, and \<open>cursor_unat\<close> shows that its heights
  do not wrap.

  \<^bold>\<open>What is a parameter.\<close> SHA-256, the curve and the address derivation, the SDK's message and
  transaction codecs, the bank, staking and account keepers (\<open>env\<close>, \<open>curve\<close>, \<open>manager\<close>,
  \<open>txDecoder\<close>); JSON and HTTP (\<open>web\<close>); bbolt's file format and tar (\<open>backupCodec\<close>). What the outside
  answers during one operation is a record of that operation (\<open>chainIO\<close>, \<open>daemonIO\<close>, \<open>tickIO\<close>,
  \<open>runIO\<close>, \<open>pollRound\<close>, \<open>claimIO\<close>, \<open>labIO\<close>), and nothing is assumed of it: the properties hold
  whatever the chain, the services and the clock answer. Where a property needs the documented
  behaviour of such code it is a named hypothesis: a hash has 32 bytes (\<open>agentHashes\<close>, \<open>hashes32\<close>),
  a signature verifies (\<open>signsFor\<close>), a codec reads back what it wrote (\<open>decodes\<close>, \<open>codecOk\<close>). Each
  has an instance in Sample, DaemonSample or BackupProps, where the witnesses are evaluated.

  \<^bold>\<open>Ghosts.\<close> Four fields record what the code does but does not keep, and no definition reads them:
  \<open>ms_sent\<close> and \<open>gs_sent\<close> are the bytes handed to the network, with the journal as it was then;
  \<open>cj_runs\<close> the callbacks run; \<open>pl_saved\<close> the checkpoints saved.

  \<^bold>\<open>What is shown of the chain.\<close> ChainInv states the invariants, proved for each of eight abstract
  steps; MsgSpec shows what each handler does on every path, and ChainSafe that every request is one
  of the abstract steps, so that ChainProps, RecordProps, GuardProps and VoteProps speak of every
  world reachable from a genesis: a transfer is settled once and by what its receipt says, nothing
  is executed without its recorded votes, records are never changed, a sanction lasts until it is
  revoked and a revocation follows a review. CoreProps holds the tally against its reference, the
  quorum rule and the injectivity of the signed payloads; Proposal that proposer and validators
  agree; Lease that a leased key signs only in its live session; VoteProps also the round trip of
  genesis export and import.

  \<^bold>\<open>What is shown of the agent.\<close> JournalSpec and TxSpec state what the journal and the manager
  promise: intents are never lost, a finished one is final, an attempt is never changed, and bytes
  are on disk before they are sent. The contracts are locales: \<open>row_journal\<close>, \<open>manager_relation\<close> and
  \<open>intent_invariant\<close> for the manager, \<open>daemon_writes\<close> and \<open>daemon_runs\<close> for the daemon, each proved
  once and interpreted on the model's own operations. DaemonSpec, DaemonRun and DaemonLife carry
  them through every stage, tick and process, DaemonProgress shows when the daemon gets on, and
  DaemonProps states the result: over the agent's whole life the journal only grows, every
  transaction is sent behind a check of its own lease, no block is passed unread, an evaluation
  computes the action the chain will compute, and votes and executions are those of the agent's own
  review. BackupProps and BackupLife show that a backup restores, that a restore overwrites nothing
  and lets nothing unchecked appear, and that every journal an agent leaves can be backed up.
  RpcProps shows that the pool goes on only with enough endpoints that agree, and never back; Tools
  that one request of an operator is one transaction; Ownership that a validated session passes the
  chain's fence; AgentApi the bounds of a review. LabProps is about the five-host experiment: its
  steps run in order and never again once done, over any number of resumed processes; a run that
  passes has done all of them and collected every log; and its scripts say to the shell what the
  code means.

  \<^bold>\<open>Not modelled.\<close> Generated protobuf, gRPC and gateway code beyond the message types; the wiring of
  the application (keepers, codecs, module manager, command lines, the dashboard); the fault proxy,
  the shell scripts, the multi-host worker's among them, and tests. Of every command the parsing of
  flags and the printing; the reported confidence of the reviewer, a float; goroutines: the pool's
  probes run one after the other, each from its own endpoint only, and the mutexes, which serialise
  each object, are left out. A process that dies inside an operation is the operation's state after
  any of its writes, which the theorems on journals cover because each write alone keeps the journal
  in order.
\<close>

end
